(* ===== verification/Vma_Types.thy ===== *)
theory Vma_Types
  imports Vma_Prelude
begin

text \<open>
  The data of the operator: the Nutanix v4 API types (\<^verbatim>\<open>internal/nutanix/types.go\<close>), the custom
  resources (\<^verbatim>\<open>api/v1alpha1\<close>) and the Kubernetes, CDI and KubeVirt objects the controllers
  build, with the fields they set. A Go pointer is an \<^typ>\<open>'a option\<close>, a timestamp is an
  \<^typ>\<open>int\<close> count of nanoseconds, an optional timestamp an \<^typ>\<open>int option\<close>. Field names carry
  a prefix because record fields share one name space.
\<close>

section \<open>Nutanix API types\<close>

record Reference =
  ref_ExtID :: string
  ref_Name :: string

record DiskAddress =
  da_BusType :: string
  da_Index :: int

record DiskBackingInfo =
  bi_VMDiskUUID :: string
  bi_StorageContainerRef :: "Reference option"
  bi_DiskSizeBytes :: int

record Disk =
  disk_ExtID :: string
  disk_DiskAddress :: "DiskAddress option"
  disk_BackingInfo :: "DiskBackingInfo option"
  disk_DiskSizeBytes :: int
  disk_DeviceType :: string

record IPAddress =
  ip_IP :: string
  ip_Type :: string

record NIC =
  nic_ExtID :: string
  nic_NetworkRef :: "Reference option"
  nic_NicType :: string
  nic_MacAddress :: string
  nic_IPAddresses :: "IPAddress list"

record BootConfig =
  boot_BootType :: string
  boot_BootOrder :: "string list"

record GPU =
  gpu_Mode :: string
  gpu_DeviceID :: int
  gpu_Vendor :: string

record VM =
  vm_ExtID :: string
  vm_Name :: string
  vm_Description :: string
  vm_PowerState :: string
  vm_NumSockets :: int
  vm_NumCoresPerSocket :: int
  vm_NumThreadsPerCore :: int
  vm_MemorySizeBytes :: int
  vm_MachineType :: string
  vm_BootConfig :: "BootConfig option"
  vm_Disks :: "Disk list"
  vm_Nics :: "NIC list"
  vm_Gpus :: "GPU list"
  vm_Cluster :: "Reference option"

abbreviation PowerStateOn :: string where "PowerStateOn \<equiv> ''ON''"
abbreviation PowerStateOff :: string where "PowerStateOff \<equiv> ''OFF''"

record Subnet =
  subnet_ExtID :: string
  subnet_Name :: string
  subnet_VlanID :: int
  subnet_SubnetType :: string

record StorageContainer =
  sc_UUID :: string
  sc_Name :: string

record ClusterNetwork =
  cn_ExternalAddress :: string
  cn_ExternalDataServicesIP :: string

record Cluster =
  clu_ExtID :: string
  clu_Name :: string
  clu_Network :: "ClusterNetwork option"

record CBTClusterInfo =
  cbt_PrismElementURL :: string
  cbt_JWTToken :: string

record ChangedRegion =
  cr_Offset :: int
  cr_Length :: int

record ChangedRegions =
  crs_Regions :: "ChangedRegion list"
  crs_NextOffset :: "int option"

section \<open>Kubernetes objects\<close>

record OwnerReference =
  own_APIVersion :: string
  own_Kind :: string
  own_Name :: string
  own_UID :: string

record Secret =
  sec_Name :: string
  sec_Namespace :: string
  sec_OwnerReferences :: "OwnerReference list"
  sec_Data :: "(string \<times> string) list"

record ConfigMap =
  cm_Name :: string
  cm_Namespace :: string
  cm_OwnerReferences :: "OwnerReference list"
  cm_Data :: "(string \<times> string) list"

text \<open>\<^verbatim>\<open>metav1.Condition\<close> with the fields the controllers set, and \<^verbatim>\<open>meta.SetStatusCondition\<close>:
  the entry of the same type is replaced in place, or a new one is appended.\<close>

datatype ConditionStatus = ConditionTrue | ConditionFalse | ConditionUnknown

record Condition =
  cond_Type :: string
  cond_Status :: ConditionStatus
  cond_Reason :: string
  cond_Message :: string
  cond_ObservedGeneration :: int

fun SetStatusCondition :: "Condition list \<Rightarrow> Condition \<Rightarrow> Condition list" where
  "SetStatusCondition [] c = [c]"
| "SetStatusCondition (d # ds) c =
     (if cond_Type d = cond_Type c then c # ds else d # SetStatusCondition ds c)"

lemma SetStatusCondition_in: "c \<in> set (SetStatusCondition cs c)"
  by (induction cs) auto

datatype PodPhase = PodPending | PodRunning | PodSucceeded | PodFailed | PodUnknown

text \<open>The CDI phases the code distinguishes; \<^verbatim>\<open>DVOther\<close> stands for every other phase string.\<close>

datatype DataVolumePhase = DVSucceeded | DVFailed | DVOther string

datatype PersistentVolumeMode = PersistentVolumeFilesystem | PersistentVolumeBlock | PVModeUnset

datatype PersistentVolumeAccessMode =
  ReadWriteOnce | ReadWriteMany | ReadOnlyMany | PVAccessUnset

text \<open>A storage quantity is its value in bytes.\<close>

record DataVolume =
  dv_Name :: string
  dv_Namespace :: string
  dv_OwnerReferences :: "OwnerReference list"
  dv_URL :: string
  dv_SecretRef :: string
  dv_CertConfigMap :: string
  dv_AccessModes :: "PersistentVolumeAccessMode list"
  dv_StorageClassName :: string
  dv_VolumeMode :: PersistentVolumeMode
  dv_Storage :: int

datatype EnvVar = EnvValue string string | EnvSecretKey string string string

datatype VolumeSource =
    VolumePVC (claim_name: string)
  | VolumeConfigMap (config_map_name: string)
  | VolumeNone

record Volume =
  vol_Name :: string
  vol_Source :: VolumeSource

record VolumeMount =
  mnt_Name :: string
  mnt_Path :: string
  mnt_ReadOnly :: bool

record Container =
  ctr_Name :: string
  ctr_Image :: string
  ctr_Command :: "string list"
  ctr_Env :: "EnvVar list"
  ctr_VolumeMounts :: "VolumeMount list"

record Pod =
  pod_Name :: string
  pod_Namespace :: string
  pod_OwnerReferences :: "OwnerReference list"
  pod_RestartNever :: bool
  pod_ServiceAccountName :: string
  pod_Containers :: "Container list"
  pod_Volumes :: "Volume list"

record Job =
  job_Name :: string
  job_Namespace :: string
  job_Labels :: "(string \<times> string) list"
  job_Annotations :: "(string \<times> string) list"
  job_OwnerReferences :: "OwnerReference list"
  job_BackoffLimit :: int
  job_ActiveDeadlineSeconds :: int
  job_ServiceAccountName :: string
  job_Containers :: "Container list"
  job_Volumes :: "Volume list"
  job_Succeeded :: int
  job_Failed :: int

section \<open>KubeVirt objects\<close>

datatype DiskBus = DiskBusSCSI | DiskBusSATA | DiskBusVirtio

record KvDisk =
  kvd_Name :: string
  kvd_Bus :: DiskBus
  kvd_BootOrder :: "nat option"

datatype InterfaceBindingMethod = BindingBridge | BindingMasquerade

record KvInterface =
  kvi_Name :: string
  kvi_Binding :: InterfaceBindingMethod
  kvi_MacAddress :: string

datatype KvNetworkSource = NetworkPod | NetworkMultus (nad_name: string)

record KvNetwork =
  kvn_Name :: string
  kvn_Source :: KvNetworkSource

record KvCPU =
  cpu_Sockets :: "32 word"
  cpu_Cores :: "32 word"
  cpu_Threads :: "32 word"

datatype Bootloader = BootloaderBIOS | BootloaderEFI (secure_boot: bool)

datatype RunStrategy = RunStrategyHalted | RunStrategyAlways | RunStrategyOther string

text \<open>\<^verbatim>\<open>kv_SMM\<close> is the \<^verbatim>\<open>Features\<close> pointer: \<^term>\<open>Some True\<close> when SMM is enabled, \<^term>\<open>None\<close> for nil.\<close>

record VirtualMachine =
  kv_Name :: string
  kv_Namespace :: string
  kv_OwnerReferences :: "OwnerReference list"
  kv_Labels :: "(string \<times> string) list"
  kv_RunStrategy :: RunStrategy
  kv_TemplateLabels :: "(string \<times> string) list"
  kv_CPU :: KvCPU
  kv_MemoryGuest :: int
  kv_MachineType :: string
  kv_Firmware :: Bootloader
  kv_SMM :: "bool option"
  kv_MemoryRequest :: int
  kv_Disks :: "KvDisk list"
  kv_Interfaces :: "KvInterface list"
  kv_Volumes :: "Volume list"
  kv_Networks :: "KvNetwork list"

section \<open>Custom resources\<close>

datatype NetworkDestinationType = NetworkDestinationPod | NetworkDestinationMultus

record NetworkSource =
  ns_ID :: string
  ns_Name :: string

record NetworkDestination =
  nd_Type :: NetworkDestinationType
  nd_Name :: string
  nd_Namespace :: string

record NetworkPair =
  np_Source :: NetworkSource
  np_Destination :: NetworkDestination

record NetworkMap =
  nm_Name :: string
  nm_ProviderRef :: string
  nm_Map :: "NetworkPair list"

record StorageSource =
  ss_ID :: string
  ss_Name :: string

record StorageDestination =
  sd_StorageClass :: string
  sd_VolumeMode :: PersistentVolumeMode
  sd_AccessMode :: PersistentVolumeAccessMode

record StoragePair =
  sp_Source :: StorageSource
  sp_Destination :: StorageDestination

record StorageMap =
  sm_Name :: string
  sm_ProviderRef :: string
  sm_Map :: "StoragePair list"

datatype ProviderPhase =
  ProviderPhaseNone | ProviderPhasePending | ProviderPhaseConnecting | ProviderPhaseConnected | ProviderPhaseError

record NutanixProvider =
  prov_Name :: string
  prov_Namespace :: string
  prov_Generation :: int
  prov_Finalizers :: "string list"
  prov_DeletionTimestamp :: "int option"
  prov_URL :: string
  prov_SecretRef :: string
  prov_RefreshInterval :: string
  prov_InsecureSkipVerify :: bool
  prov_Phase :: ProviderPhase
  prov_VMCount :: nat
  prov_Conditions :: "Condition list"

record Hook =
  hook_Name :: string
  hook_Namespace :: string
  hook_Image :: string
  hook_Playbook :: string
  hook_Deadline :: string
  hook_ServiceAccount :: string

record PlanHookRef =
  phr_HookRef :: string
  phr_Step :: string

record PlanVM =
  pvm_ID :: string
  pvm_Name :: string
  pvm_Hooks :: "PlanHookRef list"

record WarmConfig =
  wc_PrecopyInterval :: string
  wc_MaxPrecopyRounds :: int

text \<open>The migration types; the zero value, the empty string, has its own constructor.\<close>

datatype MigrationType = MigrationTypeUnset | MigrationTypeCold | MigrationTypeWarm

fun MigrationType_string :: "MigrationType \<Rightarrow> string" where
  "MigrationType_string MigrationTypeUnset = ''''"
| "MigrationType_string MigrationTypeCold = ''cold''"
| "MigrationType_string MigrationTypeWarm = ''warm''"

datatype TargetPowerState = TargetPowerStateUnset | TargetPowerStateRunning | TargetPowerStateStopped

datatype ConcernCategory = ConcernCategoryError | ConcernCategoryWarning | ConcernCategoryInfo

record Concern =
  con_Category :: ConcernCategory
  con_Message :: string

record VMValidationStatus =
  vvs_ID :: string
  vvs_Name :: string
  vvs_Concerns :: "Concern list"

datatype PlanPhase = PlanPhaseNone | PlanPhasePending | PlanPhaseValidating | PlanPhaseReady | PlanPhaseError

record MigrationPlan =
  plan_Name :: string
  plan_Namespace :: string
  plan_Generation :: int
  plan_ProviderRef :: string
  plan_TargetNamespace :: string
  plan_Type :: MigrationType
  plan_NetworkMapRef :: string
  plan_StorageMapRef :: string
  plan_VMs :: "PlanVM list"
  plan_MaxInFlight :: int
  plan_TargetPowerState :: TargetPowerState
  plan_WarmConfig :: "WarmConfig option"
  plan_Phase :: PlanPhase
  plan_StatusVMs :: "VMValidationStatus list"
  plan_Conditions :: "Condition list"

text \<open>The phase strings are constructors; the empty string, the zero value, has its own.\<close>

datatype MigrationPhase =
    MigrationPhaseNone | MigrationPhasePending | MigrationPhaseRunning
  | MigrationPhaseCompleted | MigrationPhaseFailed | MigrationPhaseCancelled

datatype VMMigrationPhase =
    VMPhaseNone | VMPhasePending | VMPhasePreHook | VMPhaseStorePowerState | VMPhasePowerOff
  | VMPhaseWaitForPowerOff | VMPhaseCreateSnapshot | VMPhaseExportDisks | VMPhaseImportDisks
  | VMPhaseCreateVM | VMPhaseStartVM | VMPhasePostHook | VMPhaseCleanup | VMPhaseBulkCopy
  | VMPhaseWaitBulkCopy | VMPhasePrecopy | VMPhaseFinalSync | VMPhaseCompleted | VMPhaseFailed
  | VMPhaseCancelled

fun VMPhase_string :: "VMMigrationPhase \<Rightarrow> string" where
  "VMPhase_string VMPhaseNone = ''''"
| "VMPhase_string VMPhasePending = ''Pending''"
| "VMPhase_string VMPhasePreHook = ''PreHook''"
| "VMPhase_string VMPhaseStorePowerState = ''StorePowerState''"
| "VMPhase_string VMPhasePowerOff = ''PowerOff''"
| "VMPhase_string VMPhaseWaitForPowerOff = ''WaitForPowerOff''"
| "VMPhase_string VMPhaseCreateSnapshot = ''CreateSnapshot''"
| "VMPhase_string VMPhaseExportDisks = ''ExportDisks''"
| "VMPhase_string VMPhaseImportDisks = ''ImportDisks''"
| "VMPhase_string VMPhaseCreateVM = ''CreateVM''"
| "VMPhase_string VMPhaseStartVM = ''StartVM''"
| "VMPhase_string VMPhasePostHook = ''PostHook''"
| "VMPhase_string VMPhaseCleanup = ''Cleanup''"
| "VMPhase_string VMPhaseBulkCopy = ''BulkCopy''"
| "VMPhase_string VMPhaseWaitBulkCopy = ''WaitBulkCopy''"
| "VMPhase_string VMPhasePrecopy = ''Precopy''"
| "VMPhase_string VMPhaseFinalSync = ''FinalSync''"
| "VMPhase_string VMPhaseCompleted = ''Completed''"
| "VMPhase_string VMPhaseFailed = ''Failed''"
| "VMPhase_string VMPhaseCancelled = ''Cancelled''"

record WarmMigrationStatus =
  ws_PrecopyRounds :: int
  ws_CumulativeBytes :: int
  ws_LastDeltaBytes :: int
  ws_BaseSnapshotUUID :: string
  ws_BaseImageUUIDs :: "string list"
  ws_LastPrecopyTime :: "int option"
  ws_DeltaSnapshotUUID :: string
  ws_DeltaImageUUIDs :: "string list"
  ws_DeltaPodName :: string
  ws_DeltaDiskIndex :: nat
  ws_DeltaBytes :: int

definition zero_WarmMigrationStatus :: WarmMigrationStatus where
  "zero_WarmMigrationStatus =
     \<lparr>ws_PrecopyRounds = 0, ws_CumulativeBytes = 0, ws_LastDeltaBytes = 0,
      ws_BaseSnapshotUUID = [], ws_BaseImageUUIDs = [], ws_LastPrecopyTime = None,
      ws_DeltaSnapshotUUID = [], ws_DeltaImageUUIDs = [], ws_DeltaPodName = [],
      ws_DeltaDiskIndex = 0, ws_DeltaBytes = 0\<rparr>"

record VMMigrationStatus =
  vs_ID :: string
  vs_Name :: string
  vs_Phase :: VMMigrationPhase
  vs_Started :: "int option"
  vs_Completed :: "int option"
  vs_Error :: string
  vs_SnapshotUUID :: string
  vs_ImageUUIDs :: "string list"
  vs_TaskUUID :: string
  vs_DataVolumeNames :: "string list"
  vs_OriginalPowerState :: string
  vs_Warm :: "WarmMigrationStatus option"

definition new_VMMigrationStatus :: "string \<Rightarrow> string \<Rightarrow> VMMigrationStatus" where
  "new_VMMigrationStatus vid nm =
     \<lparr>vs_ID = vid, vs_Name = nm, vs_Phase = VMPhasePending, vs_Started = None,
      vs_Completed = None, vs_Error = [], vs_SnapshotUUID = [], vs_ImageUUIDs = [],
      vs_TaskUUID = [], vs_DataVolumeNames = [], vs_OriginalPowerState = [], vs_Warm = None\<rparr>"

record Migration =
  mig_Name :: string
  mig_Namespace :: string
  mig_UID :: string
  mig_Generation :: int
  mig_Finalizers :: "string list"
  mig_DeletionTimestamp :: "int option"
  mig_PlanRef :: string
  mig_Cutover :: "int option"
  mig_Cancel :: "string list"
  mig_Phase :: MigrationPhase
  mig_Started :: "int option"
  mig_Completed :: "int option"
  mig_VMs :: "VMMigrationStatus list"
  mig_Conditions :: "Condition list"

end
