(* ===== verification/Sanitize.thy ===== *)
theory Sanitize
  imports Vma_Prelude
begin

text \<open>
  \<^verbatim>\<open>internal/builder/sanitize.go\<close>: turning a Nutanix VM name into a DNS-1123 label. The regular
  expressions become character maps; the collision loop is a total function because the
  candidates of different suffixes differ and the set of taken names is finite.
\<close>

definition maxNameLength :: nat where
  "maxNameLength = 63"

text \<open>\<^verbatim>\<open>[a-z0-9-]\<close>, the class the replacement keeps.\<close>

definition label_char :: "char \<Rightarrow> bool" where
  "label_char c = (is_lower c \<or> is_digit c \<or> c = CHR ''-'')"

definition replace_separators :: "string \<Rightarrow> string" where
  "replace_separators s =
     map (\<lambda>c. if c \<in> {CHR '' '', CHR ''_'', CHR ''('', CHR '')''} then CHR ''-'' else c) s"

definition replace_nonAlphanum :: "string \<Rightarrow> string" where
  "replace_nonAlphanum s = map (\<lambda>c. if label_char c then c else CHR ''-'') s"

fun collapse_hyphens :: "string \<Rightarrow> string" where
  "collapse_hyphens (a # b # s) =
     (if a = CHR ''-'' \<and> b = CHR ''-'' then collapse_hyphens (b # s) else a # collapse_hyphens (b # s))"
| "collapse_hyphens s = s"

text \<open>The first half of \<^verbatim>\<open>SanitizeName\<close>: everything before the collision check.\<close>

definition sanitize_base :: "string \<Rightarrow> string" where
  "sanitize_base name =
     (let s = Trim (collapse_hyphens (replace_nonAlphanum (replace_separators (ToLower name)))) CHR ''-'';
          s = (if maxNameLength < length s then TrimRight (take maxNameLength s) CHR ''-'' else s)
      in if s = [] then ''vm'' else s)"

text \<open>\<^verbatim>\<open>map[string]bool\<close>: a nil map is \<^term>\<open>None\<close>; reading a missing key gives false.\<close>

definition taken :: "(string \<times> bool) list \<Rightarrow> string \<Rightarrow> bool" where
  "taken m s = (map_of m s = Some True)"

definition collision_candidate :: "string \<Rightarrow> nat \<Rightarrow> string" where
  "collision_candidate s i =
     (let suffix = ''-'' @ show_nat i;
          candidate = (if maxNameLength < length s + length suffix
                       then TrimRight (take (maxNameLength - length suffix) s) CHR ''-'' else s)
      in candidate @ suffix)"

lemma collision_candidate_suffix:
  "takeWhile (\<lambda>c. c \<noteq> CHR ''-'') (rev (collision_candidate s i)) = rev (show_nat i)"
proof -
  obtain p where "collision_candidate s i = p @ ''-'' @ show_nat i"
    by (simp add: collision_candidate_def Let_def)
  then have "rev (collision_candidate s i) = rev (show_nat i) @ CHR ''-'' # rev p" by simp
  moreover have "\<forall>c \<in> set (rev (show_nat i)). c \<noteq> CHR ''-''"
    using show_nat_no_hyphen by auto
  ultimately show ?thesis
    using takeWhile_append2 [of "rev (show_nat i)" "\<lambda>c. c \<noteq> CHR ''-''" "CHR ''-'' # rev p"] by simp
qed

lemma collision_candidate_inject: "collision_candidate s i = collision_candidate s j \<Longrightarrow> i = j"
  by (metis collision_candidate_suffix rev_rev_ident show_nat_inject)

lemma finite_taken: "finite {s. taken m s}"
proof (rule finite_subset)
  show "{s. taken m s} \<subseteq> fst ` set m"
    by (auto simp: taken_def dest!: map_of_SomeD intro: rev_image_eqI)
qed simp

lemma finite_taken_candidates: "finite {j. taken m (collision_candidate s j)}"
proof (rule finite_imageD)
  have "collision_candidate s ` {j. taken m (collision_candidate s j)} \<subseteq> {s. taken m s}" by auto
  then show "finite (collision_candidate s ` {j. taken m (collision_candidate s j)})"
    by (rule finite_subset) (rule finite_taken)
  show "inj_on (collision_candidate s) {j. taken m (collision_candidate s j)}"
    by (auto intro: inj_onI collision_candidate_inject)
qed

text \<open>The unbounded \<^verbatim>\<open>for i := 2; ; i++\<close>.\<close>

function resolve_collision :: "string \<Rightarrow> (string \<times> bool) list \<Rightarrow> nat \<Rightarrow> string" where
  "resolve_collision s m i =
     (if taken m (collision_candidate s i) then resolve_collision s m (Suc i)
      else collision_candidate s i)"
  by pat_completeness auto
termination
proof (relation "measure (\<lambda>(s, m, i). card {j. i \<le> j \<and> taken m (collision_candidate s j)})", goal_cases)
  case 1
  show ?case by simp
next
  case (2 s m i)
  have fin: "finite {j. i \<le> j \<and> taken m (collision_candidate s j)}"
    by (rule finite_subset [OF _ finite_taken_candidates [of m s]]) auto
  have "{j. Suc i \<le> j \<and> taken m (collision_candidate s j)} \<subset> {j. i \<le> j \<and> taken m (collision_candidate s j)}"
    using 2 by (auto intro!: psubsetI) (metis (mono_tags, lifting) Suc_n_not_le_n mem_Collect_eq order_refl)
  with fin show ?case by (simp add: psubset_card_mono)
qed

declare resolve_collision.simps [simp del]

definition SanitizeName :: "string \<Rightarrow> (string \<times> bool) list option \<Rightarrow> string" where
  "SanitizeName name existingNames =
     (let s = sanitize_base name in
      case existingNames of
        None \<Rightarrow> s
      | Some m \<Rightarrow> if \<not> taken m s then s else resolve_collision s m 2)"

section \<open>Labels\<close>

text \<open>A DNS-1123 label: 1 to 63 characters of \<^verbatim>\<open>[a-z0-9-]\<close>, no hyphen at either end.\<close>

definition dns1123_label :: "string \<Rightarrow> bool" where
  "dns1123_label s =
     (s \<noteq> [] \<and> length s \<le> 63 \<and> (\<forall>c \<in> set s. label_char c) \<and>
      hd s \<noteq> CHR ''-'' \<and> last s \<noteq> CHR ''-'')"

lemma collapse_hyphens_set: "set (collapse_hyphens s) \<subseteq> set s"
  by (induction s rule: collapse_hyphens.induct) auto

lemma Trim_set: "set (Trim s c) \<subseteq> set s"
  unfolding Trim_def using TrimRight_set set_dropWhileD by fastforce

lemma replace_nonAlphanum_chars: "\<forall>c \<in> set (replace_nonAlphanum s). label_char c"
  by (auto simp: replace_nonAlphanum_def label_char_def)

lemma sanitize_base_label: "dns1123_label (sanitize_base name)"
proof -
  define t where "t = Trim (collapse_hyphens (replace_nonAlphanum (replace_separators (ToLower name)))) CHR ''-''"
  have chars: "\<forall>c \<in> set t. label_char c"
    unfolding t_def using Trim_set collapse_hyphens_set replace_nonAlphanum_chars by blast
  have t_hd: "t \<noteq> [] \<Longrightarrow> hd t \<noteq> CHR ''-''" unfolding t_def by (rule Trim_hd)
  have t_last: "t \<noteq> [] \<Longrightarrow> last t \<noteq> CHR ''-''"
    unfolding t_def Trim_def by (rule TrimRight_last)
  define u where "u = (if maxNameLength < length t then TrimRight (take maxNameLength t) CHR ''-'' else t)"
  have u_chars: "\<forall>c \<in> set u. label_char c"
    unfolding u_def using chars TrimRight_set [of "take maxNameLength t" "CHR ''-''"]
      set_take_subset [of maxNameLength t] by auto
  have u_len: "length u \<le> 63"
    unfolding u_def using TrimRight_length [of "take maxNameLength t" "CHR ''-''"]
    by (auto simp: maxNameLength_def)
  have u_hd: "u \<noteq> [] \<Longrightarrow> hd u \<noteq> CHR ''-''"
    unfolding u_def using t_hd TrimRight_hd [of "take maxNameLength t" "CHR ''-''"]
    by (cases "t = []") (auto simp: maxNameLength_def split: if_splits)
  have u_last: "u \<noteq> [] \<Longrightarrow> last u \<noteq> CHR ''-''"
    unfolding u_def using t_last by (auto simp: TrimRight_last split: if_splits)
  have "sanitize_base name = (if u = [] then ''vm'' else u)"
    by (simp add: sanitize_base_def Let_def u_def t_def)
  then show ?thesis
    using u_chars u_len u_hd u_last
    by (auto simp: dns1123_label_def label_char_def is_lower_def)
qed

lemma resolve_collision_free: "\<not> taken m (resolve_collision s m i)"
proof (induction s m i rule: resolve_collision.induct)
  case (1 s m i)
  then show ?case by (subst resolve_collision.simps) auto
qed

lemma resolve_collision_is_candidate:
  "\<exists>j \<ge> i. resolve_collision s m i = collision_candidate s j \<and>
     (\<forall>k. i \<le> k \<and> k < j \<longrightarrow> taken m (collision_candidate s k))"
proof (induction s m i rule: resolve_collision.induct)
  case (1 s m i)
  show ?case
  proof (cases "taken m (collision_candidate s i)")
    case True
    with "1.IH" obtain j where j: "Suc i \<le> j"
      and eq: "resolve_collision s m (Suc i) = collision_candidate s j"
      and below: "\<forall>k. Suc i \<le> k \<and> k < j \<longrightarrow> taken m (collision_candidate s k)" by blast
    have "\<forall>k. i \<le> k \<and> k < j \<longrightarrow> taken m (collision_candidate s k)"
      using below True by (metis Suc_leI le_neq_implies_less)
    with j eq True show ?thesis
      by (subst resolve_collision.simps) (metis Suc_leD)
  next
    case False
    then show ?thesis by (subst resolve_collision.simps) auto
  qed
qed

text \<open>The suffix that is chosen is bounded by the number of taken names.\<close>

lemma collision_suffix_bound:
  assumes "\<forall>k. 2 \<le> k \<and> k < j \<longrightarrow> taken m (collision_candidate s k)"
  shows "j \<le> length m + 2"
proof -
  have "collision_candidate s ` {2..<j} \<subseteq> fst ` set m"
    using assms by (force simp: taken_def dest!: map_of_SomeD)
  moreover have "card (collision_candidate s ` {2..<j}) = j - 2"
    by (subst card_image) (auto intro: inj_onI collision_candidate_inject)
  ultimately have "j - 2 \<le> card (fst ` set m)" by (metis List.finite_set card_mono finite_imageI)
  also have "\<dots> \<le> length m" by (metis card_image_le card_length finite_set le_trans)
  finally show ?thesis by simp
qed

lemma collision_candidate_label:
  assumes "dns1123_label s" and "length (show_nat i) \<le> 60"
  shows "dns1123_label (collision_candidate s i)"
proof -
  let ?d = "show_nat i"
  let ?c = "if maxNameLength < length s + Suc (length ?d)
            then TrimRight (take (maxNameLength - Suc (length ?d)) s) CHR ''-'' else s"
  have cand: "collision_candidate s i = ?c @ CHR ''-'' # ?d"
    by (simp add: collision_candidate_def Let_def)
  from assms(1) have s: "s \<noteq> []" "hd s \<noteq> CHR ''-''" "\<forall>c \<in> set s. label_char c"
    by (auto simp: dns1123_label_def)
  have room: "0 < maxNameLength - Suc (length ?d)" using assms(2) by (simp add: maxNameLength_def)
  have "TrimRight (take (maxNameLength - Suc (length ?d)) s) CHR ''-'' \<noteq> []"
    using s room by (cases s) (auto simp: TrimRight_eq_Nil take_Cons')
  then have ne: "?c \<noteq> []" and hd: "hd ?c = hd s"
    using s room by (auto simp: TrimRight_hd)
  have set: "set ?c \<subseteq> set s"
    using TrimRight_set [of "take (maxNameLength - Suc (length ?d)) s" "CHR ''-''"]
      set_take_subset [of "maxNameLength - Suc (length ?d)" s] by auto
  have len: "length ?c + Suc (length ?d) \<le> 63"
    using TrimRight_length [of "take (maxNameLength - Suc (length ?d)) s" "CHR ''-''"] assms(2)
    by (auto simp: maxNameLength_def)
  have digits: "\<forall>c \<in> set ?d. label_char c \<and> c \<noteq> CHR ''-''"
    using show_nat_digits digit_not_hyphen by (auto simp: label_char_def)
  have last: "last (?c @ CHR ''-'' # ?d) \<noteq> CHR ''-''"
    using digits by (metis last_append last_ConsR last_in_set list.distinct(1) show_nat_nonempty)
  have chars: "\<forall>c \<in> set (?c @ CHR ''-'' # ?d). label_char c"
    using s(3) set digits by (auto simp: label_char_def)
  show ?thesis
    unfolding cand dns1123_label_def
    using ne hd s(2) len last chars by auto
qed

text \<open>
  C27. \<^verbatim>\<open>SanitizeName\<close> always yields a DNS-1123 label, with or without the collision check, as
  long as fewer than a thousand million million million names are taken (a Go map holds far fewer).
\<close>

theorem SanitizeName_label:
  assumes "\<forall>m. existingNames = Some m \<longrightarrow> length m < 10 ^ 18"
  shows "dns1123_label (SanitizeName name existingNames)"
proof (cases existingNames)
  case None
  then show ?thesis by (simp add: SanitizeName_def sanitize_base_label)
next
  case (Some m)
  from resolve_collision_is_candidate [of 2 "sanitize_base name" m] obtain j where
    j: "resolve_collision (sanitize_base name) m 2 = collision_candidate (sanitize_base name) j"
    and below: "\<forall>k. 2 \<le> k \<and> k < j \<longrightarrow> taken m (collision_candidate (sanitize_base name) k)" by blast
  have "j < 10 ^ Suc 18"
    using collision_suffix_bound [OF below] assms Some by simp
  then have "length (show_nat j) \<le> 60" using show_nat_length [of j 18] by simp
  with Some j show ?thesis
    by (simp add: SanitizeName_def Let_def sanitize_base_label collision_candidate_label)
qed

theorem SanitizeName_label_witness:
  "SanitizeName ''web'' (Some [(''web'', True)]) = ''web-2'' \<and>
   dns1123_label (SanitizeName ''web'' (Some [(''web'', True)]))"
proof
  show "SanitizeName ''web'' (Some [(''web'', True)]) = ''web-2''"
    by (simp add: SanitizeName_def sanitize_base_def Let_def taken_def resolve_collision.simps
        collision_candidate_def maxNameLength_def replace_separators_def replace_nonAlphanum_def
        label_char_def is_lower_def lower_char_def is_upper_def Trim_def TrimRight_def show_nat.simps)
  show "dns1123_label (SanitizeName ''web'' (Some [(''web'', True)]))"
    by (rule SanitizeName_label) simp
qed

text \<open>
  C28. The returned name is never one that is already taken; the collision loop always ends
  (\<^const>\<open>resolve_collision\<close> is total), and it changes the name only when the plain one is taken.
\<close>

theorem SanitizeName_fresh:
  "\<not> taken m (SanitizeName name (Some m)) \<and>
   (SanitizeName name (Some m) = SanitizeName name None \<longleftrightarrow> \<not> taken m (SanitizeName name None))"
  by (auto simp: SanitizeName_def Let_def resolve_collision_free)
     (metis resolve_collision_free)+

end
