(* ===== verification/Ref_Lookup.thy ===== *)
theory Ref_Lookup
  imports Vma_Types
begin

text \<open>
  The interface of the resource maps. Four functions of the code search a \<^verbatim>\<open>NetworkMap\<close> or a
  \<^verbatim>\<open>StorageMap\<close> for the first pair whose source matches a Nutanix reference by ID or by name:
  the builder and the transfer manager to obtain the destination, the validator to decide
  whether there is one. The locale \<^verbatim>\<open>ref_finder\<close> states what such a search promises, and
  \<^verbatim>\<open>ref_mapped\<close> adds the boolean test of the validator; each is interpreted on the functions of
  the component that has them.
\<close>

definition source_matches :: "string \<Rightarrow> string \<Rightarrow> Reference \<Rightarrow> bool" where
  "source_matches sid sname ref =
     ((sid \<noteq> [] \<and> sid = ref_ExtID ref) \<or> (sname \<noteq> [] \<and> sname = ref_Name ref))"

locale ref_finder =
  fixes src_id :: "'p \<Rightarrow> string"
    and src_name :: "'p \<Rightarrow> string"
    and dest :: "'p \<Rightarrow> 'd"
    and finder :: "Reference \<Rightarrow> 'p list \<Rightarrow> 'd option"
  assumes finder_Nil: "finder ref [] = None"
    and finder_Cons: "finder ref (p # ps) =
      (if source_matches (src_id p) (src_name p) ref then Some (dest p) else finder ref ps)"
begin

lemma finder_None: "finder ref ps = None \<longleftrightarrow> (\<forall>p \<in> set ps. \<not> source_matches (src_id p) (src_name p) ref)"
  by (induction ps) (auto simp: finder_Nil finder_Cons)

lemma finder_find:
  "finder ref ps = map_option dest (List.find (\<lambda>p. source_matches (src_id p) (src_name p) ref) ps)"
  by (induction ps) (auto simp: finder_Nil finder_Cons)

lemma finder_dest: "finder ref ps = Some d \<Longrightarrow> d \<in> dest ` set ps"
  by (induction ps) (auto simp: finder_Nil finder_Cons split: if_splits)

end

locale ref_mapped = ref_finder src_id src_name dest finder
  for src_id :: "'p \<Rightarrow> string" and src_name :: "'p \<Rightarrow> string" and dest :: "'p \<Rightarrow> 'd"
    and finder :: "Reference \<Rightarrow> 'p list \<Rightarrow> 'd option" +
  fixes mapped :: "Reference \<Rightarrow> 'p list \<Rightarrow> bool"
  assumes mapped_Nil: "\<not> mapped ref []"
    and mapped_Cons: "mapped ref (p # ps) =
      (if source_matches (src_id p) (src_name p) ref then True else mapped ref ps)"
begin

lemma mapped_iff_found: "mapped ref ps \<longleftrightarrow> finder ref ps \<noteq> None"
  by (induction ps) (auto simp: mapped_Nil mapped_Cons finder_Nil finder_Cons)

end

end
