(* ===== verification/Mock_Fixtures.thy ===== *)
theory Mock_Fixtures
  imports Vma_Types
begin

text \<open>
  The fixtures of the mock Prism server (\<^verbatim>\<open>pkg/mock/server.go\<close>): the three VMs, two subnets,
  one storage container and one cluster that \<^verbatim>\<open>WithFixtures\<close> loads. The witnesses of the other
  theories evaluate the model on them.
\<close>

definition fixture_disk :: "string \<Rightarrow> string \<Rightarrow> int \<Rightarrow> Disk" where
  "fixture_disk did vdisk sz =
     \<lparr>disk_ExtID = did, disk_DiskAddress = Some \<lparr>da_BusType = ''SCSI'', da_Index = 0\<rparr>,
      disk_BackingInfo = Some \<lparr>bi_VMDiskUUID = vdisk,
        bi_StorageContainerRef = Some \<lparr>ref_ExtID = ''sc-uuid-001'', ref_Name = ''default-container''\<rparr>,
        bi_DiskSizeBytes = sz\<rparr>,
      disk_DiskSizeBytes = sz, disk_DeviceType = ''DISK''\<rparr>"

definition fixture_cdrom :: Disk where
  "fixture_cdrom =
     \<lparr>disk_ExtID = ''disk-003'', disk_DiskAddress = Some \<lparr>da_BusType = ''IDE'', da_Index = 0\<rparr>,
      disk_BackingInfo = None, disk_DiskSizeBytes = 0, disk_DeviceType = ''CDROM''\<rparr>"

definition fixture_nic :: "string \<Rightarrow> string \<Rightarrow> string \<Rightarrow> string \<Rightarrow> NIC" where
  "fixture_nic nid subnet sname mac =
     \<lparr>nic_ExtID = nid, nic_NetworkRef = Some \<lparr>ref_ExtID = subnet, ref_Name = sname\<rparr>,
      nic_NicType = ''NORMAL_NIC'', nic_MacAddress = mac, nic_IPAddresses = []\<rparr>"

definition fixture_cluster_ref :: Reference where
  "fixture_cluster_ref = \<lparr>ref_ExtID = ''cluster-uuid-001'', ref_Name = ''test-cluster''\<rparr>"

definition vm_linux :: VM where
  "vm_linux =
     \<lparr>vm_ExtID = ''vm-uuid-001'', vm_Name = ''test-vm-linux'', vm_Description = ''Test Linux VM'',
      vm_PowerState = ''ON'', vm_NumSockets = 2, vm_NumCoresPerSocket = 4, vm_NumThreadsPerCore = 1,
      vm_MemorySizeBytes = 8589934592, vm_MachineType = ''Q35'',
      vm_BootConfig = Some \<lparr>boot_BootType = ''LEGACY'', boot_BootOrder = []\<rparr>,
      vm_Disks = [fixture_disk ''disk-001'' ''vdisk-001'' 53687091200],
      vm_Nics = [fixture_nic ''nic-001'' ''subnet-uuid-001'' ''vm-network'' ''50:6b:8d:aa:bb:01''],
      vm_Gpus = [], vm_Cluster = Some fixture_cluster_ref\<rparr>"

definition vm_windows :: VM where
  "vm_windows =
     \<lparr>vm_ExtID = ''vm-uuid-002'', vm_Name = ''test-vm-windows'', vm_Description = ''Test Windows VM'',
      vm_PowerState = ''ON'', vm_NumSockets = 4, vm_NumCoresPerSocket = 2, vm_NumThreadsPerCore = 2,
      vm_MemorySizeBytes = 17179869184, vm_MachineType = ''Q35'',
      vm_BootConfig = Some \<lparr>boot_BootType = ''UEFI'', boot_BootOrder = []\<rparr>,
      vm_Disks = [fixture_disk ''disk-002'' ''vdisk-002'' 107374182400, fixture_cdrom],
      vm_Nics = [fixture_nic ''nic-002'' ''subnet-uuid-001'' ''vm-network'' ''50:6b:8d:aa:bb:02''],
      vm_Gpus = [], vm_Cluster = Some fixture_cluster_ref\<rparr>"

definition vm_gpu :: VM where
  "vm_gpu =
     \<lparr>vm_ExtID = ''vm-uuid-003'', vm_Name = ''test-vm-gpu'', vm_Description = ''Test VM with GPU'',
      vm_PowerState = ''OFF'', vm_NumSockets = 2, vm_NumCoresPerSocket = 8, vm_NumThreadsPerCore = 1,
      vm_MemorySizeBytes = 34359738368, vm_MachineType = ''Q35'',
      vm_BootConfig = Some \<lparr>boot_BootType = ''SECURE_BOOT'', boot_BootOrder = []\<rparr>,
      vm_Disks = [fixture_disk ''disk-004'' ''vdisk-004'' 214748364800],
      vm_Nics = [fixture_nic ''nic-003'' ''subnet-uuid-002'' ''gpu-network'' ''50:6b:8d:aa:bb:03''],
      vm_Gpus = [\<lparr>gpu_Mode = ''PASSTHROUGH_GRAPHICS'', gpu_DeviceID = 7864, gpu_Vendor = ''NVIDIA''\<rparr>],
      vm_Cluster = Some fixture_cluster_ref\<rparr>"

definition defaultVMs :: "VM list" where
  "defaultVMs = [vm_linux, vm_windows, vm_gpu]"

definition defaultSubnets :: "Subnet list" where
  "defaultSubnets =
     [\<lparr>subnet_ExtID = ''subnet-uuid-001'', subnet_Name = ''vm-network'', subnet_VlanID = 100, subnet_SubnetType = ''VLAN''\<rparr>,
      \<lparr>subnet_ExtID = ''subnet-uuid-002'', subnet_Name = ''gpu-network'', subnet_VlanID = 200, subnet_SubnetType = ''VLAN''\<rparr>]"

definition defaultStorageContainers :: "StorageContainer list" where
  "defaultStorageContainers = [\<lparr>sc_UUID = ''sc-uuid-001'', sc_Name = ''default-container''\<rparr>]"

definition defaultClusters :: "Cluster list" where
  "defaultClusters =
     [\<lparr>clu_ExtID = ''cluster-uuid-001'', clu_Name = ''test-cluster'',
       clu_Network = Some \<lparr>cn_ExternalAddress = ''10.0.0.10'', cn_ExternalDataServicesIP = ''10.0.0.11''\<rparr>\<rparr>]"

text \<open>Maps that cover the fixtures, as the samples of \<^verbatim>\<open>config/samples\<close> and the README show them.\<close>

definition sample_storage_map :: StorageMap where
  "sample_storage_map =
     \<lparr>sm_Name = ''my-storage-map'', sm_ProviderRef = ''my-nutanix'',
      sm_Map = [\<lparr>sp_Source = \<lparr>ss_ID = [], ss_Name = ''default-container''\<rparr>,
                 sp_Destination = \<lparr>sd_StorageClass = ''local-path'',
                   sd_VolumeMode = PersistentVolumeFilesystem, sd_AccessMode = ReadWriteOnce\<rparr>\<rparr>]\<rparr>"

definition sample_network_map :: NetworkMap where
  "sample_network_map =
     \<lparr>nm_Name = ''my-network-map'', nm_ProviderRef = ''my-nutanix'',
      nm_Map = [\<lparr>np_Source = \<lparr>ns_ID = [], ns_Name = ''vm-network''\<rparr>,
                 np_Destination = \<lparr>nd_Type = NetworkDestinationMultus, nd_Name = ''br0'', nd_Namespace = ''net''\<rparr>\<rparr>]\<rparr>"

lemmas fixture_defs =
  fixture_disk_def fixture_cdrom_def fixture_nic_def fixture_cluster_ref_def
  vm_linux_def vm_windows_def vm_gpu_def sample_storage_map_def sample_network_map_def

end
