(* ===== verification/Vm_Builder.thy ===== *)
theory Vm_Builder
  imports Vma_Types Sanitize Ref_Lookup Mock_Fixtures
begin

text \<open>
  \<^verbatim>\<open>internal/builder/vm.go\<close>: the translation of a Nutanix VM into a KubeVirt VirtualMachine. The
  loops over disks and NICs are recursions that carry the loop variables of the code.
\<close>

record BuildOptions =
  bo_Namespace :: string
  bo_PVCNames :: "string list"
  bo_ExistingNames :: "(string \<times> bool) list option"

abbreviation labelSourceUUID :: string where "labelSourceUUID \<equiv> ''vma.nutanix.io/source-vm-uuid''"
abbreviation labelSourceName :: string where "labelSourceName \<equiv> ''vma.nutanix.io/source-vm-name''"

text \<open>\<^verbatim>\<open>uint32(n)\<close> keeps the low 32 bits.\<close>

definition buildCPU :: "VM \<Rightarrow> KvCPU" where
  "buildCPU vm =
     (let threads = (word_of_int (vm_NumThreadsPerCore vm) :: 32 word);
          threads = (if threads = 0 then 1 else threads)
      in \<lparr>cpu_Sockets = word_of_int (vm_NumSockets vm),
          cpu_Cores = word_of_int (vm_NumCoresPerSocket vm),
          cpu_Threads = threads\<rparr>)"

definition buildMemory :: "VM \<Rightarrow> int" where
  "buildMemory vm =
     (let mib = vm_MemorySizeBytes vm sdiv (1024 * 1024) in wrap64 (wrap64 (mib * 1024) * 1024))"

definition buildMachine :: "VM \<Rightarrow> string" where
  "buildMachine vm = (if ToUpper (vm_MachineType vm) = ''PC'' then ''pc'' else ''q35'')"

definition buildFirmware :: "VM \<Rightarrow> Bootloader" where
  "buildFirmware vm =
     (case vm_BootConfig vm of
        None \<Rightarrow> BootloaderBIOS
      | Some bc \<Rightarrow>
          if ToUpper (boot_BootType bc) = ''UEFI'' then BootloaderEFI False
          else if ToUpper (boot_BootType bc) = ''SECURE_BOOT'' then BootloaderEFI True
          else BootloaderBIOS)"

definition buildFeatures :: "VM \<Rightarrow> bool option" where
  "buildFeatures vm =
     (case vm_BootConfig vm of
        None \<Rightarrow> None
      | Some bc \<Rightarrow> if ToUpper (boot_BootType bc) = ''SECURE_BOOT'' then Some True else None)"

definition mapDiskBus :: "string \<Rightarrow> DiskBus" where
  "mapDiskBus busType =
     (let b = ToUpper busType in
      if b = ''SCSI'' \<or> b = ''PCI'' then DiskBusSCSI
      else if b = ''IDE'' \<or> b = ''SATA'' then DiskBusSATA
      else DiskBusVirtio)"

definition isBootDisk :: "VM \<Rightarrow> bool" where
  "isBootDisk vm =
     (case vm_BootConfig vm of
        None \<Rightarrow> False
      | Some bc \<Rightarrow> list_ex (\<lambda>entry. ToUpper entry = ''DISK'') (boot_BootOrder bc))"

text \<open>The test every component applies to skip CD-ROM drives.\<close>

definition is_cdrom :: "Disk \<Rightarrow> bool" where
  "is_cdrom d = (ToUpper (disk_DeviceType d) = ''CDROM'')"

fun disks_and_volumes :: "nat \<Rightarrow> bool \<Rightarrow> bool \<Rightarrow> nat \<Rightarrow> string list \<Rightarrow> Disk list \<Rightarrow> KvDisk list \<times> Volume list" where
  "disks_and_volumes i bootDisk bootOrderAssigned pvcIdx pvcNames [] = ([], [])"
| "disks_and_volumes i bootDisk bootOrderAssigned pvcIdx pvcNames (d # ds) =
     (if is_cdrom d then disks_and_volumes (Suc i) bootDisk bootOrderAssigned pvcIdx pvcNames ds
      else
        let volName = ''disk-'' @ show_nat i;
            bus = (case disk_DiskAddress d of None \<Rightarrow> DiskBusVirtio | Some a \<Rightarrow> mapDiskBus (da_BusType a));
            assign = bootDisk \<and> \<not> bootOrderAssigned;
            disk = \<lparr>kvd_Name = volName, kvd_Bus = bus, kvd_BootOrder = (if assign then Some 1 else None)\<rparr>;
            vol = \<lparr>vol_Name = volName,
                   vol_Source = (if pvcIdx < length pvcNames then VolumePVC (pvcNames ! pvcIdx) else VolumeNone)\<rparr>;
            (disks, volumes) =
              disks_and_volumes (Suc i) bootDisk (bootOrderAssigned \<or> assign) (Suc pvcIdx) pvcNames ds
        in (disk # disks, vol # volumes))"

definition buildDisksAndVolumes :: "VM \<Rightarrow> string list \<Rightarrow> KvDisk list \<times> Volume list" where
  "buildDisksAndVolumes vm pvcNames =
     disks_and_volumes 0 (isBootDisk vm) False 0 pvcNames (vm_Disks vm)"

fun findNetworkMapping_loop :: "Reference \<Rightarrow> NetworkPair list \<Rightarrow> NetworkDestination option" where
  "findNetworkMapping_loop ref [] = None"
| "findNetworkMapping_loop ref (pair # pairs) =
     (if ns_ID (np_Source pair) \<noteq> [] \<and> ns_ID (np_Source pair) = ref_ExtID ref then Some (np_Destination pair)
      else if ns_Name (np_Source pair) \<noteq> [] \<and> ns_Name (np_Source pair) = ref_Name ref then Some (np_Destination pair)
      else findNetworkMapping_loop ref pairs)"

definition findNetworkMapping :: "Reference option \<Rightarrow> NetworkMap option \<Rightarrow> NetworkDestination option" where
  "findNetworkMapping subnetRef networkMap =
     (case subnetRef of
        None \<Rightarrow> None
      | Some ref \<Rightarrow> (case networkMap of None \<Rightarrow> None | Some nm \<Rightarrow> findNetworkMapping_loop ref (nm_Map nm)))"

interpretation net_map: ref_finder "\<lambda>p. ns_ID (np_Source p)" "\<lambda>p. ns_Name (np_Source p)"
  np_Destination findNetworkMapping_loop
  by unfold_locales (auto simp: source_matches_def)

fun interfaces_and_networks :: "nat \<Rightarrow> NetworkMap option \<Rightarrow> NIC list \<Rightarrow> KvInterface list \<times> KvNetwork list" where
  "interfaces_and_networks i networkMap [] = ([], [])"
| "interfaces_and_networks i networkMap (nic # nics) =
     (let netName = ''net-'' @ show_nat i;
          dest = findNetworkMapping (nic_NetworkRef nic) networkMap;
          masquerade = (\<lparr>kvi_Name = netName, kvi_Binding = BindingMasquerade, kvi_MacAddress = []\<rparr>,
                        \<lparr>kvn_Name = netName, kvn_Source = NetworkPod\<rparr>);
          (iface, net) =
            (case dest of
               None \<Rightarrow> masquerade
             | Some d \<Rightarrow>
                 if nd_Type d = NetworkDestinationMultus then
                   (\<lparr>kvi_Name = netName, kvi_Binding = BindingBridge, kvi_MacAddress = nic_MacAddress nic\<rparr>,
                    \<lparr>kvn_Name = netName,
                     kvn_Source = NetworkMultus (if nd_Namespace d \<noteq> [] then nd_Namespace d @ ''/'' @ nd_Name d
                                                 else nd_Name d)\<rparr>)
                 else masquerade);
          (ifaces, nets) = interfaces_and_networks (Suc i) networkMap nics
      in (iface # ifaces, net # nets))"

definition buildInterfacesAndNetworks :: "VM \<Rightarrow> NetworkMap option \<Rightarrow> KvInterface list \<times> KvNetwork list" where
  "buildInterfacesAndNetworks vm networkMap = interfaces_and_networks 0 networkMap (vm_Nics vm)"

definition Build :: "VM \<Rightarrow> NetworkMap option \<Rightarrow> StorageMap option \<Rightarrow> BuildOptions \<Rightarrow> VirtualMachine" where
  "Build vm networkMap storageMap opts =
     (let name = SanitizeName (vm_Name vm) (bo_ExistingNames opts);
          labels = [(labelSourceUUID, vm_ExtID vm), (labelSourceName, SanitizeName (vm_Name vm) None)];
          (disks, volumes) = buildDisksAndVolumes vm (bo_PVCNames opts);
          (interfaces, networks) = buildInterfacesAndNetworks vm networkMap
      in \<lparr>kv_Name = name, kv_Namespace = bo_Namespace opts, kv_OwnerReferences = [], kv_Labels = labels,
          kv_RunStrategy = RunStrategyHalted, kv_TemplateLabels = labels,
          kv_CPU = buildCPU vm, kv_MemoryGuest = buildMemory vm, kv_MachineType = buildMachine vm,
          kv_Firmware = buildFirmware vm, kv_SMM = buildFeatures vm,
          kv_MemoryRequest = vm_MemorySizeBytes vm,
          kv_Disks = disks, kv_Interfaces = interfaces, kv_Volumes = volumes, kv_Networks = networks\<rparr>)"

section \<open>Disks and volumes\<close>

text \<open>The data disks of a VM with their positions in the Nutanix disk list.\<close>

definition data_disk_positions :: "nat \<Rightarrow> Disk list \<Rightarrow> (nat \<times> Disk) list" where
  "data_disk_positions i ds = filter (\<lambda>(_, d). \<not> is_cdrom d) (enumerate i ds)"

lemma data_disk_positions_simps [simp]:
  "data_disk_positions i [] = []"
  "data_disk_positions i (d # ds) =
     (if is_cdrom d then data_disk_positions (Suc i) ds else (i, d) # data_disk_positions (Suc i) ds)"
  by (auto simp: data_disk_positions_def)

lemma map_snd_data_disk_positions: "map snd (data_disk_positions i ds) = filter (\<lambda>d. \<not> is_cdrom d) ds"
  by (induction ds arbitrary: i) auto

lemma map_fst_data_disk_positions_ge: "\<forall>n \<in> set (map fst (data_disk_positions i ds)). i \<le> n"
  by (auto simp: data_disk_positions_def in_set_enumerate_eq)

lemma distinct_fst_data_disk_positions: "distinct (map fst (data_disk_positions i ds))"
proof (induction ds arbitrary: i)
  case (Cons d ds)
  then show ?case using map_fst_data_disk_positions_ge [of "Suc i" ds] by fastforce
qed simp

lemma disks_and_volumes_names:
  assumes "disks_and_volumes i b a k pvcs ds = (dks, vols)"
  shows "map kvd_Name dks = map (\<lambda>(n, _). ''disk-'' @ show_nat n) (data_disk_positions i ds) \<and>
         map vol_Name vols = map kvd_Name dks"
  using assms by (induction ds arbitrary: i a k dks vols) (auto simp: Let_def split: prod.splits if_splits)

lemma disks_and_volumes_sources:
  assumes "disks_and_volumes i b a k pvcs ds = (dks, vols)"
  shows "map vol_Source vols =
         map (\<lambda>j. if j < length pvcs then VolumePVC (pvcs ! j) else VolumeNone)
           [k ..< k + length (data_disk_positions i ds)]"
  using assms
proof (induction ds arbitrary: i a k dks vols)
  case (Cons d ds)
  show ?case
  proof (cases "is_cdrom d")
    case True
    with Cons show ?thesis by auto
  next
    case False
    obtain dks' vols' where rec: "disks_and_volumes (Suc i) b (a \<or> b \<and> \<not> a) (Suc k) pvcs ds = (dks', vols')"
      by fastforce
    with False Cons.prems have "map vol_Source vols =
        (if k < length pvcs then VolumePVC (pvcs ! k) else VolumeNone) # map vol_Source vols'"
      by (auto simp: Let_def)
    moreover have "[k ..< k + Suc (length (data_disk_positions (Suc i) ds))] =
        k # [Suc k ..< Suc k + length (data_disk_positions (Suc i) ds)]"
      by (simp add: upt_conv_Cons del: upt_Suc)
    ultimately show ?thesis using Cons.IH [OF rec] False by (simp del: upt_Suc)
  qed
qed simp

lemma disks_and_volumes_boot:
  assumes "disks_and_volumes i b a k pvcs ds = (dks, vols)"
  shows "map kvd_BootOrder dks =
         (case data_disk_positions i ds of [] \<Rightarrow> []
          | _ # r \<Rightarrow> (if b \<and> \<not> a then Some 1 else None) # replicate (length r) None)"
  using assms
proof (induction ds arbitrary: i a k dks vols)
  case (Cons d ds)
  show ?case
  proof (cases "is_cdrom d")
    case True
    with Cons show ?thesis by auto
  next
    case False
    obtain dks' vols' where rec: "disks_and_volumes (Suc i) b (a \<or> b \<and> \<not> a) (Suc k) pvcs ds = (dks', vols')"
      by fastforce
    with False Cons.prems have "map kvd_BootOrder dks =
        (if b \<and> \<not> a then Some 1 else None) # map kvd_BootOrder dks'"
      by (auto simp: Let_def)
    moreover have "map kvd_BootOrder dks' = replicate (length (data_disk_positions (Suc i) ds)) None"
      using Cons.IH [OF rec] by (auto split: list.splits)
    ultimately show ?thesis using False by simp
  qed
qed simp

text \<open>
  C20. The disks and volumes of a built VM: there is exactly one disk and one volume per data disk
  of the source VM (CD-ROM drives are dropped), in the order of the source, under the same name;
  names are pairwise different; the k-th volume claims the k-th PVC name; and exactly the first
  disk has boot order 1 when \<^verbatim>\<open>DISK\<close> is in the source's boot order.
\<close>

theorem Build_disks_match_source:
  assumes "length (bo_PVCNames opts) = length (filter (\<lambda>d. \<not> is_cdrom d) (vm_Disks vm))"
  shows "map kvd_Name (kv_Disks (Build vm nm sm opts)) = map vol_Name (kv_Volumes (Build vm nm sm opts)) \<and>
         distinct (map kvd_Name (kv_Disks (Build vm nm sm opts))) \<and>
         map vol_Source (kv_Volumes (Build vm nm sm opts)) = map VolumePVC (bo_PVCNames opts) \<and>
         map kvd_BootOrder (kv_Disks (Build vm nm sm opts)) =
           (case filter (\<lambda>d. \<not> is_cdrom d) (vm_Disks vm) of [] \<Rightarrow> []
            | _ # r \<Rightarrow> (if isBootDisk vm then Some 1 else None) # replicate (length r) None)"
proof -
  let ?pos = "data_disk_positions 0 (vm_Disks vm)"
  obtain dks vols where dv: "disks_and_volumes 0 (isBootDisk vm) False 0 (bo_PVCNames opts) (vm_Disks vm) = (dks, vols)"
    by fastforce
  have built: "kv_Disks (Build vm nm sm opts) = dks" "kv_Volumes (Build vm nm sm opts) = vols"
    using dv by (simp_all add: Build_def buildDisksAndVolumes_def Let_def split: prod.splits)
  have len: "length ?pos = length (filter (\<lambda>d. \<not> is_cdrom d) (vm_Disks vm))"
    using map_snd_data_disk_positions [of 0 "vm_Disks vm"] by (metis length_map)
  have names: "map kvd_Name dks = map (\<lambda>n. ''disk-'' @ show_nat n) (map fst ?pos)"
    using disks_and_volumes_names [OF dv] by (auto simp: case_prod_unfold)
  have "distinct (map kvd_Name dks)"
    unfolding names using distinct_fst_data_disk_positions [of 0 "vm_Disks vm"]
    by (simp add: distinct_map inj_on_def)
  moreover have "map vol_Source vols = map VolumePVC (bo_PVCNames opts)"
    using disks_and_volumes_sources [OF dv] assms len
    by (auto intro!: nth_equalityI)
  moreover have "map kvd_BootOrder dks =
      (case filter (\<lambda>d. \<not> is_cdrom d) (vm_Disks vm) of [] \<Rightarrow> []
       | _ # r \<Rightarrow> (if isBootDisk vm then Some 1 else None) # replicate (length r) None)"
    using disks_and_volumes_boot [OF dv] len by (auto split: list.splits)
  ultimately show ?thesis
    using disks_and_volumes_names [OF dv] built by simp
qed

theorem Build_disks_match_source_witness:
  "map vol_Source (kv_Volumes (Build vm_windows None None
      \<lparr>bo_Namespace = ''migrated'', bo_PVCNames = [''pvc-0''], bo_ExistingNames = None\<rparr>)) = [VolumePVC ''pvc-0'']"
proof -
  let ?opts = "\<lparr>bo_Namespace = ''migrated'', bo_PVCNames = [''pvc-0''], bo_ExistingNames = None\<rparr>"
  have "length (bo_PVCNames ?opts) = length (filter (\<lambda>d. \<not> is_cdrom d) (vm_Disks vm_windows))"
    by (simp add: fixture_defs is_cdrom_def upper_char_def is_lower_def)
  from Build_disks_match_source [OF this, of None None] show ?thesis by simp
qed

section \<open>Interfaces and networks\<close>

lemma interfaces_and_networks_nth:
  assumes "interfaces_and_networks i nm nics = (ifs, nets)"
  shows "length ifs = length nics \<and> length nets = length nics \<and>
    (\<forall>k < length nics.
       kvi_Name (ifs ! k) = ''net-'' @ show_nat (i + k) \<and> kvn_Name (nets ! k) = ''net-'' @ show_nat (i + k) \<and>
       (case findNetworkMapping (nic_NetworkRef (nics ! k)) nm of
          Some d \<Rightarrow>
            if nd_Type d = NetworkDestinationMultus then
              kvi_Binding (ifs ! k) = BindingBridge \<and> kvi_MacAddress (ifs ! k) = nic_MacAddress (nics ! k) \<and>
              kvn_Source (nets ! k) =
                NetworkMultus (if nd_Namespace d \<noteq> [] then nd_Namespace d @ ''/'' @ nd_Name d else nd_Name d)
            else kvi_Binding (ifs ! k) = BindingMasquerade \<and> kvi_MacAddress (ifs ! k) = [] \<and> kvn_Source (nets ! k) = NetworkPod
        | None \<Rightarrow> kvi_Binding (ifs ! k) = BindingMasquerade \<and> kvi_MacAddress (ifs ! k) = [] \<and> kvn_Source (nets ! k) = NetworkPod))"
  using assms
proof (induction nics arbitrary: i ifs nets)
  case (Cons nic nics)
  obtain ifs' nets' where rec: "interfaces_and_networks (Suc i) nm nics = (ifs', nets')" by fastforce
  with Cons.prems obtain f n where split: "ifs = f # ifs'" "nets = n # nets'" by (auto simp: Let_def split: prod.splits)
  show ?case
    using Cons.prems rec split Cons.IH [OF rec]
    by (auto simp: Let_def nth_Cons less_Suc_eq_0_disj split: prod.splits option.splits if_splits nat.splits)
qed simp

text \<open>
  C21. Every NIC becomes one interface and one network of the same name: a NIC whose subnet is
  mapped to a Multus attachment gets a bridge interface that keeps its MAC address and names the
  attachment; every other NIC gets a masquerade interface on the pod network without a MAC.
\<close>

theorem Build_nics_match_source:
  "length (kv_Interfaces (Build vm nm sm opts)) = length (vm_Nics vm) \<and>
   map kvi_Name (kv_Interfaces (Build vm nm sm opts)) = map kvn_Name (kv_Networks (Build vm nm sm opts)) \<and>
   (\<forall>k < length (vm_Nics vm).
      let f = kv_Interfaces (Build vm nm sm opts) ! k; n = kv_Networks (Build vm nm sm opts) ! k in
      case findNetworkMapping (nic_NetworkRef (vm_Nics vm ! k)) nm of
        Some d \<Rightarrow>
          if nd_Type d = NetworkDestinationMultus then
            kvi_Binding f = BindingBridge \<and> kvi_MacAddress f = nic_MacAddress (vm_Nics vm ! k) \<and>
            kvn_Source n = NetworkMultus (if nd_Namespace d \<noteq> [] then nd_Namespace d @ ''/'' @ nd_Name d else nd_Name d)
          else kvi_Binding f = BindingMasquerade \<and> kvi_MacAddress f = [] \<and> kvn_Source n = NetworkPod
      | None \<Rightarrow> kvi_Binding f = BindingMasquerade \<and> kvi_MacAddress f = [] \<and> kvn_Source n = NetworkPod)"
proof -
  obtain ifs nets where ifn: "interfaces_and_networks 0 nm (vm_Nics vm) = (ifs, nets)" by fastforce
  have built: "kv_Interfaces (Build vm nm sm opts) = ifs" "kv_Networks (Build vm nm sm opts) = nets"
    using ifn by (simp_all add: Build_def buildInterfacesAndNetworks_def Let_def split: prod.splits)
  note nth = interfaces_and_networks_nth [OF ifn]
  have "map kvi_Name ifs = map kvn_Name nets" using nth by (auto intro!: nth_equalityI)
  with nth built show ?thesis by (simp add: Let_def)
qed

theorem Build_nics_match_source_witness:
  "kvi_MacAddress (kv_Interfaces (Build vm_windows (Some sample_network_map) None
      \<lparr>bo_Namespace = ''migrated'', bo_PVCNames = [], bo_ExistingNames = None\<rparr>) ! 0) = ''50:6b:8d:aa:bb:02''"
proof -
  have "0 < length (vm_Nics vm_windows)" by (simp add: fixture_defs)
  then show ?thesis
    using Build_nics_match_source [of vm_windows "Some sample_network_map" None
        "\<lparr>bo_Namespace = ''migrated'', bo_PVCNames = [], bo_ExistingNames = None\<rparr>"]
    by (auto simp: fixture_defs findNetworkMapping_def Let_def)
qed

section \<open>CPU and memory\<close>

text \<open>
  The resources of the built VM: within the ranges of the Kubernetes fields the CPU topology is
  carried over unchanged (a missing thread count becomes 1), the guest memory is the source's
  memory rounded down to a whole MiB, and the memory request is the source's memory exactly, so
  the guest never gets more than is requested.
\<close>

theorem Build_resources:
  assumes "0 \<le> vm_NumSockets vm" "vm_NumSockets vm < 2 ^ 32"
    and "0 \<le> vm_NumCoresPerSocket vm" "vm_NumCoresPerSocket vm < 2 ^ 32"
    and "0 \<le> vm_NumThreadsPerCore vm" "vm_NumThreadsPerCore vm < 2 ^ 32"
    and "0 \<le> vm_MemorySizeBytes vm" "vm_MemorySizeBytes vm < 2 ^ 63"
  shows "uint (cpu_Sockets (kv_CPU (Build vm nm sm opts))) = vm_NumSockets vm \<and>
         uint (cpu_Cores (kv_CPU (Build vm nm sm opts))) = vm_NumCoresPerSocket vm \<and>
         uint (cpu_Threads (kv_CPU (Build vm nm sm opts))) = max 1 (vm_NumThreadsPerCore vm) \<and>
         kv_MemoryRequest (Build vm nm sm opts) = vm_MemorySizeBytes vm \<and>
         1048576 dvd kv_MemoryGuest (Build vm nm sm opts) \<and>
         kv_MemoryGuest (Build vm nm sm opts) \<le> kv_MemoryRequest (Build vm nm sm opts) \<and>
         kv_MemoryRequest (Build vm nm sm opts) < kv_MemoryGuest (Build vm nm sm opts) + 1048576"
proof -
  let ?m = "vm_MemorySizeBytes vm"
  have built: "kv_CPU (Build vm nm sm opts) = buildCPU vm"
    "kv_MemoryGuest (Build vm nm sm opts) = buildMemory vm"
    "kv_MemoryRequest (Build vm nm sm opts) = ?m"
    by (simp_all add: Build_def Let_def split: prod.splits)
  have div: "?m sdiv 1048576 = ?m div 1048576"
    using assms(7) by (simp add: sdiv_nonneg)
  have "?m div 1048576 * 1048576 \<le> ?m" "?m < ?m div 1048576 * 1048576 + 1048576" "0 \<le> ?m div 1048576"
    using assms(7) by auto
  then have guest: "buildMemory vm = ?m div 1048576 * 1048576"
    unfolding buildMemory_def Let_def using assms(8) by (simp add: div wrap64_id)
  have threads: "uint (cpu_Threads (buildCPU vm)) = max 1 (vm_NumThreadsPerCore vm)"
  proof (cases "vm_NumThreadsPerCore vm = 0")
    case False
    with assms(5,6) have "uint (word_of_int (vm_NumThreadsPerCore vm) :: 32 word) = vm_NumThreadsPerCore vm"
      by (simp add: uint_word_of_int_eq take_bit_int_eq_self)
    with False assms(5) show ?thesis by (auto simp: buildCPU_def Let_def)
  qed (simp add: buildCPU_def)
  have "uint (cpu_Sockets (buildCPU vm)) = vm_NumSockets vm"
    "uint (cpu_Cores (buildCPU vm)) = vm_NumCoresPerSocket vm"
    using assms(1-4) by (simp_all add: buildCPU_def Let_def uint_word_of_int_eq take_bit_int_eq_self)
  with threads guest built show ?thesis using assms(7) by auto
qed

theorem Build_resources_witness:
  "uint (cpu_Cores (kv_CPU (Build vm_linux None None
      \<lparr>bo_Namespace = [], bo_PVCNames = [], bo_ExistingNames = None\<rparr>))) = 4"
  using Build_resources [of vm_linux None None "\<lparr>bo_Namespace = [], bo_PVCNames = [], bo_ExistingNames = None\<rparr>"]
  by (simp add: fixture_defs)

end
