(* ===== verification/World.thy ===== *)
theory World
  imports Vma_Types
begin

text \<open>
  The outside of the controllers. The Nutanix client is the Go interface \<^verbatim>\<open>NutanixClient\<close>
  (\<^verbatim>\<open>internal/nutanix/client.go\<close>), the Kubernetes client is controller-runtime's
  \<^verbatim>\<open>client.Client\<close> restricted to the calls the operator makes; both are records of functions
  over an arbitrary environment \<^typ>\<open>'e\<close>, so a call may fail, may change the environment, and
  nothing is assumed about the service behind it. The world threads the environment, a trace of
  every call that changes something outside (and of the few observations the safety properties
  speak about) with its result, the Kubernetes events, and the Prometheus metrics of
  \<^verbatim>\<open>internal/observability/metrics.go\<close>. Logging is not modelled. A timestamp is read from the clock.
\<close>

datatype k8s_object =
    ObjSecret Secret
  | ObjConfigMap ConfigMap
  | ObjDataVolume DataVolume
  | ObjVirtualMachine VirtualMachine
  | ObjPod Pod
  | ObjJob Job

datatype k8s_kind = KindSecret | KindConfigMap | KindDataVolume | KindPod | KindJob

record 'e NutanixClient =
  nx_GetVM :: "string \<Rightarrow> 'e \<Rightarrow> (go_error + VM) \<times> 'e"
  nx_PowerOffVM :: "string \<Rightarrow> 'e \<Rightarrow> go_error option \<times> 'e"
  nx_PowerOnVM :: "string \<Rightarrow> 'e \<Rightarrow> go_error option \<times> 'e"
  nx_GetVMPowerState :: "string \<Rightarrow> 'e \<Rightarrow> (go_error + string) \<times> 'e"
  nx_CreateRecoveryPoint :: "string \<Rightarrow> string \<Rightarrow> 'e \<Rightarrow> (go_error + string) \<times> 'e"
  nx_DeleteRecoveryPoint :: "string \<Rightarrow> 'e \<Rightarrow> go_error option \<times> 'e"
  nx_CreateImageFromDisk :: "string \<Rightarrow> string \<Rightarrow> string \<Rightarrow> 'e \<Rightarrow> (go_error + string) \<times> 'e"
  nx_DeleteImage :: "string \<Rightarrow> 'e \<Rightarrow> go_error option \<times> 'e"
  nx_DiscoverClusterForCBT :: "string \<Rightarrow> 'e \<Rightarrow> (go_error + CBTClusterInfo) \<times> 'e"
  nx_GetChangedRegions ::
    "string \<Rightarrow> string \<Rightarrow> string \<Rightarrow> string \<Rightarrow> string \<Rightarrow> int \<Rightarrow> int \<Rightarrow> int \<Rightarrow> 'e \<Rightarrow> (go_error + ChangedRegions) \<times> 'e"
  nx_ListVMs :: "'e \<Rightarrow> (go_error + VM list) \<times> 'e"
  nx_ListSubnets :: "'e \<Rightarrow> (go_error + Subnet list) \<times> 'e"
  nx_ListClusters :: "'e \<Rightarrow> (go_error + Cluster list) \<times> 'e"
  nx_ListStorageContainers :: "string \<Rightarrow> 'e \<Rightarrow> (go_error + StorageContainer list) \<times> 'e"

record 'e KubeClient =
  kc_Create :: "k8s_object \<Rightarrow> 'e \<Rightarrow> go_error option \<times> 'e"
  kc_Delete :: "k8s_kind \<Rightarrow> string \<Rightarrow> string \<Rightarrow> 'e \<Rightarrow> go_error option \<times> 'e"
  kc_UpdateVM :: "VirtualMachine \<Rightarrow> 'e \<Rightarrow> go_error option \<times> 'e"
  kc_UpdateMigration :: "Migration \<Rightarrow> 'e \<Rightarrow> go_error option \<times> 'e"
  kc_StatusUpdateMigration :: "Migration \<Rightarrow> 'e \<Rightarrow> go_error option \<times> 'e"
  kc_GetMigration :: "string \<Rightarrow> string \<Rightarrow> 'e \<Rightarrow> (go_error + Migration) \<times> 'e"
  kc_GetPlan :: "string \<Rightarrow> string \<Rightarrow> 'e \<Rightarrow> (go_error + MigrationPlan) \<times> 'e"
  kc_GetProvider :: "string \<Rightarrow> string \<Rightarrow> 'e \<Rightarrow> (go_error + NutanixProvider) \<times> 'e"
  kc_GetSecret :: "string \<Rightarrow> string \<Rightarrow> 'e \<Rightarrow> (go_error + Secret) \<times> 'e"
  kc_GetNetworkMap :: "string \<Rightarrow> string \<Rightarrow> 'e \<Rightarrow> (go_error + NetworkMap) \<times> 'e"
  kc_GetStorageMap :: "string \<Rightarrow> string \<Rightarrow> 'e \<Rightarrow> (go_error + StorageMap) \<times> 'e"
  kc_GetVirtualMachine :: "string \<Rightarrow> string \<Rightarrow> 'e \<Rightarrow> (go_error + VirtualMachine) \<times> 'e"
  kc_GetDataVolume :: "string \<Rightarrow> string \<Rightarrow> 'e \<Rightarrow> (go_error + DataVolumePhase \<times> string) \<times> 'e"
  kc_GetPod :: "string \<Rightarrow> string \<Rightarrow> 'e \<Rightarrow> (go_error + PodPhase) \<times> 'e"
  kc_GetJob :: "string \<Rightarrow> string \<Rightarrow> 'e \<Rightarrow> (go_error + Job) \<times> 'e"
  kc_GetHook :: "string \<Rightarrow> string \<Rightarrow> 'e \<Rightarrow> (go_error + Hook) \<times> 'e"
  kc_StatusUpdatePlan :: "MigrationPlan \<Rightarrow> 'e \<Rightarrow> go_error option \<times> 'e"
  kc_UpdateProvider :: "NutanixProvider \<Rightarrow> 'e \<Rightarrow> go_error option \<times> 'e"
  kc_StatusUpdateProvider :: "NutanixProvider \<Rightarrow> 'e \<Rightarrow> go_error option \<times> 'e"
  kc_ListPlans :: "string \<Rightarrow> 'e \<Rightarrow> (go_error + MigrationPlan list) \<times> 'e"
  kc_GetNamespace :: "string \<Rightarrow> 'e \<Rightarrow> (go_error + unit) \<times> 'e"
  kc_GetStorageClass :: "string \<Rightarrow> 'e \<Rightarrow> (go_error + unit) \<times> 'e"
  kc_GetNetworkAttachment :: "string \<Rightarrow> string \<Rightarrow> 'e \<Rightarrow> (go_error + unit) \<times> 'e"
  kc_GetCRD :: "string \<Rightarrow> 'e \<Rightarrow> (go_error + unit) \<times> 'e"

text \<open>What the trace records: the call, its arguments and its result.\<close>

datatype effect =
    EPowerState string "go_error + string"
  | EPowerOff string "go_error option"
  | EPowerOn string "go_error option"
  | ECreateRecoveryPoint string string "go_error + string"
  | EDeleteRecoveryPoint string "go_error option"
  | ECreateImage string string string "go_error + string"
  | EDeleteImage string "go_error option"
  | ECreate k8s_object "go_error option"
  | EDelete k8s_kind string string "go_error option"
  | EUpdateVM VirtualMachine "go_error option"
  | EUpdateMigration Migration "go_error option"
  | EStatusUpdate Migration "go_error option"
  | EDataVolume string string "go_error + DataVolumePhase \<times> string"
  | EPodPhase string string PodPhase
  | EPlanStatus MigrationPlan "go_error option"
  | EProviderUpdate NutanixProvider "go_error option"
  | EProviderStatus NutanixProvider "go_error option"

datatype EventType = EventTypeNormal | EventTypeWarning

record Metrics =
  met_MigrationsTotal :: "string \<Rightarrow> nat"
  met_MigrationDurationSeconds :: "(string \<times> int) list"
  met_DiskTransferBytes :: "string \<Rightarrow> int"
  met_ActiveMigrations :: int

record 'e world =
  w_env :: 'e
  w_trace :: "effect list"
  w_events :: "(EventType \<times> string \<times> string) list"
  w_metrics :: Metrics

section \<open>Calls\<close>

text \<open>A call runs in the environment and leaves what it did in the trace.\<close>

definition perform :: "('e \<Rightarrow> 'r \<times> 'e) \<Rightarrow> ('r \<Rightarrow> effect list) \<Rightarrow> 'e world \<Rightarrow> 'r \<times> 'e world" where
  "perform f record_of w =
     (case f (w_env w) of (r, e) \<Rightarrow> (r, w\<lparr>w_env := e, w_trace := w_trace w @ record_of r\<rparr>))"

lemma perform_result:
  assumes "perform f g w = (r, w')"
  shows "w_trace w' = w_trace w @ g r" "w_events w' = w_events w" "w_metrics w' = w_metrics w"
  using assms by (auto simp: perform_def split: prod.splits)

definition GetVM :: "'e NutanixClient \<Rightarrow> string \<Rightarrow> 'e world \<Rightarrow> (go_error + VM) \<times> 'e world" where
  [op_defs]: "GetVM c uuid = perform (nx_GetVM c uuid) (\<lambda>r. [])"

definition PowerOffVM :: "'e NutanixClient \<Rightarrow> string \<Rightarrow> 'e world \<Rightarrow> go_error option \<times> 'e world" where
  [op_defs]: "PowerOffVM c uuid = perform (nx_PowerOffVM c uuid) (\<lambda>r. [EPowerOff uuid r])"

definition PowerOnVM :: "'e NutanixClient \<Rightarrow> string \<Rightarrow> 'e world \<Rightarrow> go_error option \<times> 'e world" where
  [op_defs]: "PowerOnVM c uuid = perform (nx_PowerOnVM c uuid) (\<lambda>r. [EPowerOn uuid r])"

definition GetVMPowerState :: "'e NutanixClient \<Rightarrow> string \<Rightarrow> 'e world \<Rightarrow> (go_error + string) \<times> 'e world" where
  [op_defs]: "GetVMPowerState c uuid = perform (nx_GetVMPowerState c uuid) (\<lambda>r. [EPowerState uuid r])"

definition CreateRecoveryPoint ::
  "'e NutanixClient \<Rightarrow> string \<Rightarrow> string \<Rightarrow> 'e world \<Rightarrow> (go_error + string) \<times> 'e world" where
  [op_defs]: "CreateRecoveryPoint c vmUUID name =
     perform (nx_CreateRecoveryPoint c vmUUID name) (\<lambda>r. [ECreateRecoveryPoint vmUUID name r])"

definition DeleteRecoveryPoint :: "'e NutanixClient \<Rightarrow> string \<Rightarrow> 'e world \<Rightarrow> go_error option \<times> 'e world" where
  [op_defs]: "DeleteRecoveryPoint c uuid =
     perform (nx_DeleteRecoveryPoint c uuid) (\<lambda>r. [EDeleteRecoveryPoint uuid r])"

definition CreateImageFromDisk ::
  "'e NutanixClient \<Rightarrow> string \<Rightarrow> string \<Rightarrow> string \<Rightarrow> 'e world \<Rightarrow> (go_error + string) \<times> 'e world" where
  [op_defs]: "CreateImageFromDisk c name diskUUID clusterRef =
     perform (nx_CreateImageFromDisk c name diskUUID clusterRef) (\<lambda>r. [ECreateImage name diskUUID clusterRef r])"

definition DeleteImage :: "'e NutanixClient \<Rightarrow> string \<Rightarrow> 'e world \<Rightarrow> go_error option \<times> 'e world" where
  [op_defs]: "DeleteImage c uuid = perform (nx_DeleteImage c uuid) (\<lambda>r. [EDeleteImage uuid r])"

definition DiscoverClusterForCBT ::
  "'e NutanixClient \<Rightarrow> string \<Rightarrow> 'e world \<Rightarrow> (go_error + CBTClusterInfo) \<times> 'e world" where
  [op_defs]: "DiscoverClusterForCBT c vmUUID = perform (nx_DiscoverClusterForCBT c vmUUID) (\<lambda>r. [])"

definition GetChangedRegions ::
  "'e NutanixClient \<Rightarrow> string \<Rightarrow> string \<Rightarrow> string \<Rightarrow> string \<Rightarrow> string \<Rightarrow> int \<Rightarrow> int \<Rightarrow> int \<Rightarrow> 'e world \<Rightarrow>
     (go_error + ChangedRegions) \<times> 'e world" where
  [op_defs]: "GetChangedRegions c peURL jwt vmUUID snap base offset len blockSize =
     perform (nx_GetChangedRegions c peURL jwt vmUUID snap base offset len blockSize) (\<lambda>r. [])"

definition Create :: "'e KubeClient \<Rightarrow> k8s_object \<Rightarrow> 'e world \<Rightarrow> go_error option \<times> 'e world" where
  [op_defs]: "Create k obj = perform (kc_Create k obj) (\<lambda>r. [ECreate obj r])"

definition Delete :: "'e KubeClient \<Rightarrow> k8s_kind \<Rightarrow> string \<Rightarrow> string \<Rightarrow> 'e world \<Rightarrow> go_error option \<times> 'e world" where
  [op_defs]: "Delete k kind ns name = perform (kc_Delete k kind ns name) (\<lambda>r. [EDelete kind ns name r])"

definition UpdateVM :: "'e KubeClient \<Rightarrow> VirtualMachine \<Rightarrow> 'e world \<Rightarrow> go_error option \<times> 'e world" where
  [op_defs]: "UpdateVM k vm = perform (kc_UpdateVM k vm) (\<lambda>r. [EUpdateVM vm r])"

definition UpdateMigration :: "'e KubeClient \<Rightarrow> Migration \<Rightarrow> 'e world \<Rightarrow> go_error option \<times> 'e world" where
  [op_defs]: "UpdateMigration k m = perform (kc_UpdateMigration k m) (\<lambda>r. [EUpdateMigration m r])"

definition StatusUpdateMigration :: "'e KubeClient \<Rightarrow> Migration \<Rightarrow> 'e world \<Rightarrow> go_error option \<times> 'e world" where
  [op_defs]: "StatusUpdateMigration k m = perform (kc_StatusUpdateMigration k m) (\<lambda>r. [EStatusUpdate m r])"

definition GetDataVolume ::
  "'e KubeClient \<Rightarrow> string \<Rightarrow> string \<Rightarrow> 'e world \<Rightarrow> (go_error + DataVolumePhase \<times> string) \<times> 'e world" where
  [op_defs]: "GetDataVolume k ns name = perform (kc_GetDataVolume k ns name) (\<lambda>r. [EDataVolume ns name r])"

definition StatusUpdatePlan :: "'e KubeClient \<Rightarrow> MigrationPlan \<Rightarrow> 'e world \<Rightarrow> go_error option \<times> 'e world" where
  [op_defs]: "StatusUpdatePlan k p = perform (kc_StatusUpdatePlan k p) (\<lambda>r. [EPlanStatus p r])"

definition UpdateProvider :: "'e KubeClient \<Rightarrow> NutanixProvider \<Rightarrow> 'e world \<Rightarrow> go_error option \<times> 'e world" where
  [op_defs]: "UpdateProvider k p = perform (kc_UpdateProvider k p) (\<lambda>r. [EProviderUpdate p r])"

definition StatusUpdateProvider :: "'e KubeClient \<Rightarrow> NutanixProvider \<Rightarrow> 'e world \<Rightarrow> go_error option \<times> 'e world" where
  [op_defs]: "StatusUpdateProvider k p = perform (kc_StatusUpdateProvider k p) (\<lambda>r. [EProviderStatus p r])"

text \<open>Every other \<^verbatim>\<open>Get\<close>, and every \<^verbatim>\<open>List\<close>, leaves no trace.\<close>

definition Get :: "('e \<Rightarrow> (go_error + 'a) \<times> 'e) \<Rightarrow> 'e world \<Rightarrow> (go_error + 'a) \<times> 'e world" where
  [op_defs]: "Get f = perform f (\<lambda>r. [])"

definition Now :: "('e \<Rightarrow> int \<times> 'e) \<Rightarrow> 'e world \<Rightarrow> int \<times> 'e world" where
  [op_defs]: "Now clock = perform clock (\<lambda>r. [])"

lemma call_trace:
  "GetVM c u w = (rv, w') \<Longrightarrow> w_trace w' = w_trace w"
  "PowerOffVM c u w = (ro, w') \<Longrightarrow> w_trace w' = w_trace w @ [EPowerOff u ro]"
  "PowerOnVM c u w = (ro, w') \<Longrightarrow> w_trace w' = w_trace w @ [EPowerOn u ro]"
  "GetVMPowerState c u w = (rs, w') \<Longrightarrow> w_trace w' = w_trace w @ [EPowerState u rs]"
  "CreateRecoveryPoint c u n w = (rs, w') \<Longrightarrow> w_trace w' = w_trace w @ [ECreateRecoveryPoint u n rs]"
  "DeleteRecoveryPoint c u w = (ro, w') \<Longrightarrow> w_trace w' = w_trace w @ [EDeleteRecoveryPoint u ro]"
  "CreateImageFromDisk c n u cl w = (rs, w') \<Longrightarrow> w_trace w' = w_trace w @ [ECreateImage n u cl rs]"
  "DeleteImage c u w = (ro, w') \<Longrightarrow> w_trace w' = w_trace w @ [EDeleteImage u ro]"
  "DiscoverClusterForCBT c u w = (rc, w') \<Longrightarrow> w_trace w' = w_trace w"
  "GetChangedRegions c p j u s b off l bs w = (rr, w') \<Longrightarrow> w_trace w' = w_trace w"
  "Create k obj w = (ro, w') \<Longrightarrow> w_trace w' = w_trace w @ [ECreate obj ro]"
  "Delete k kind ns n w = (ro, w') \<Longrightarrow> w_trace w' = w_trace w @ [EDelete kind ns n ro]"
  "UpdateVM k v w = (ro, w') \<Longrightarrow> w_trace w' = w_trace w @ [EUpdateVM v ro]"
  "UpdateMigration k m w = (ro, w') \<Longrightarrow> w_trace w' = w_trace w @ [EUpdateMigration m ro]"
  "StatusUpdateMigration k m w = (ro, w') \<Longrightarrow> w_trace w' = w_trace w @ [EStatusUpdate m ro]"
  "GetDataVolume k ns n w = (rd, w') \<Longrightarrow> w_trace w' = w_trace w @ [EDataVolume ns n rd]"
  "Get f w = (rg, w') \<Longrightarrow> w_trace w' = w_trace w"
  "Now clk w = (t, w') \<Longrightarrow> w_trace w' = w_trace w"
  "StatusUpdatePlan k plan w = (ro, w') \<Longrightarrow> w_trace w' = w_trace w @ [EPlanStatus plan ro]"
  "UpdateProvider k prov w = (ro, w') \<Longrightarrow> w_trace w' = w_trace w @ [EProviderUpdate prov ro]"
  "StatusUpdateProvider k prov w = (ro, w') \<Longrightarrow> w_trace w' = w_trace w @ [EProviderStatus prov ro]"
  by (simp_all add: op_defs perform_result)

lemma call_metrics:
  "GetVM c u w = (rv, w') \<Longrightarrow> w_metrics w' = w_metrics w"
  "PowerOffVM c u w = (ro, w') \<Longrightarrow> w_metrics w' = w_metrics w"
  "PowerOnVM c u w = (ro, w') \<Longrightarrow> w_metrics w' = w_metrics w"
  "GetVMPowerState c u w = (rs, w') \<Longrightarrow> w_metrics w' = w_metrics w"
  "CreateRecoveryPoint c u n w = (rs, w') \<Longrightarrow> w_metrics w' = w_metrics w"
  "DeleteRecoveryPoint c u w = (ro, w') \<Longrightarrow> w_metrics w' = w_metrics w"
  "CreateImageFromDisk c n u cl w = (rs, w') \<Longrightarrow> w_metrics w' = w_metrics w"
  "DeleteImage c u w = (ro, w') \<Longrightarrow> w_metrics w' = w_metrics w"
  "DiscoverClusterForCBT c u w = (rc, w') \<Longrightarrow> w_metrics w' = w_metrics w"
  "GetChangedRegions c p j u s b off l bs w = (rr, w') \<Longrightarrow> w_metrics w' = w_metrics w"
  "Create k obj w = (ro, w') \<Longrightarrow> w_metrics w' = w_metrics w"
  "Delete k kind ns n w = (ro, w') \<Longrightarrow> w_metrics w' = w_metrics w"
  "UpdateVM k v w = (ro, w') \<Longrightarrow> w_metrics w' = w_metrics w"
  "UpdateMigration k m w = (ro, w') \<Longrightarrow> w_metrics w' = w_metrics w"
  "StatusUpdateMigration k m w = (ro, w') \<Longrightarrow> w_metrics w' = w_metrics w"
  "GetDataVolume k ns n w = (rd, w') \<Longrightarrow> w_metrics w' = w_metrics w"
  "Get f w = (rg, w') \<Longrightarrow> w_metrics w' = w_metrics w"
  "Now clk w = (t, w') \<Longrightarrow> w_metrics w' = w_metrics w"
  "StatusUpdatePlan k plan w = (ro, w') \<Longrightarrow> w_metrics w' = w_metrics w"
  "UpdateProvider k prov w = (ro, w') \<Longrightarrow> w_metrics w' = w_metrics w"
  "StatusUpdateProvider k prov w = (ro, w') \<Longrightarrow> w_metrics w' = w_metrics w"
  by (simp_all add: op_defs perform_result)

declare call_trace [trace_rules]

section \<open>Events and metrics\<close>

text \<open>\<^verbatim>\<open>recordEvent\<close> emits nothing when no recorder is configured.\<close>

definition emit_event :: "bool \<Rightarrow> EventType \<Rightarrow> string \<Rightarrow> string \<Rightarrow> 'e world \<Rightarrow> 'e world" where
  "emit_event recorder ty reason msg w =
     (if recorder then w\<lparr>w_events := w_events w @ [(ty, reason, msg)]\<rparr> else w)"

definition inc_MigrationsTotal :: "string \<Rightarrow> 'e world \<Rightarrow> 'e world" where
  "inc_MigrationsTotal label w =
     w\<lparr>w_metrics := (w_metrics w)\<lparr>met_MigrationsTotal :=
        (met_MigrationsTotal (w_metrics w))(label := Suc (met_MigrationsTotal (w_metrics w) label))\<rparr>\<rparr>"

definition add_ActiveMigrations :: "int \<Rightarrow> 'e world \<Rightarrow> 'e world" where
  "add_ActiveMigrations n w =
     w\<lparr>w_metrics := (w_metrics w)\<lparr>met_ActiveMigrations := met_ActiveMigrations (w_metrics w) + n\<rparr>\<rparr>"

definition add_DiskTransferBytes :: "string \<Rightarrow> int \<Rightarrow> 'e world \<Rightarrow> 'e world" where
  "add_DiskTransferBytes label n w =
     w\<lparr>w_metrics := (w_metrics w)\<lparr>met_DiskTransferBytes :=
        (met_DiskTransferBytes (w_metrics w))(label := met_DiskTransferBytes (w_metrics w) label + n)\<rparr>\<rparr>"

definition observe_Duration :: "string \<Rightarrow> int \<Rightarrow> 'e world \<Rightarrow> 'e world" where
  "observe_Duration label n w =
     w\<lparr>w_metrics := (w_metrics w)\<lparr>met_MigrationDurationSeconds :=
        met_MigrationDurationSeconds (w_metrics w) @ [(label, n)]\<rparr>\<rparr>"

lemma bookkeeping_trace [simp]:
  "w_trace (emit_event b ty rs m w) = w_trace w"
  "w_trace (inc_MigrationsTotal l w) = w_trace w"
  "w_trace (add_ActiveMigrations n w) = w_trace w"
  "w_trace (add_DiskTransferBytes l n w) = w_trace w"
  "w_trace (observe_Duration l n w) = w_trace w"
  by (simp_all add: emit_event_def inc_MigrationsTotal_def add_ActiveMigrations_def
      add_DiskTransferBytes_def observe_Duration_def)

lemma bookkeeping_active [simp]:
  "met_ActiveMigrations (w_metrics (emit_event b ty rs m w)) = met_ActiveMigrations (w_metrics w)"
  "met_ActiveMigrations (w_metrics (inc_MigrationsTotal l w)) = met_ActiveMigrations (w_metrics w)"
  "met_ActiveMigrations (w_metrics (add_ActiveMigrations n w)) = met_ActiveMigrations (w_metrics w) + n"
  "met_ActiveMigrations (w_metrics (add_DiskTransferBytes l n w)) = met_ActiveMigrations (w_metrics w)"
  "met_ActiveMigrations (w_metrics (observe_Duration l n w)) = met_ActiveMigrations (w_metrics w)"
  by (simp_all add: emit_event_def inc_MigrationsTotal_def add_ActiveMigrations_def
      add_DiskTransferBytes_def observe_Duration_def)

section \<open>What a computation adds to the trace\<close>

definition new_effects :: "'e world \<Rightarrow> 'e world \<Rightarrow> effect list" where
  "new_effects w w' = drop (length (w_trace w)) (w_trace w')"

definition extends :: "'e world \<Rightarrow> 'e world \<Rightarrow> bool" where
  "extends w w' = (\<exists>es. w_trace w' = w_trace w @ es)"

lemma extends_refl [simp]: "extends w w"
  by (simp add: extends_def)

lemma extends_trans [trans]: "extends a b \<Longrightarrow> extends b c \<Longrightarrow> extends a c"
  by (auto simp: extends_def)

lemma extendsI: "w_trace w' = w_trace w @ es \<Longrightarrow> extends w w'"
  by (auto simp: extends_def)

lemma new_effects_append: "w_trace w' = w_trace w @ es \<Longrightarrow> new_effects w w' = es"
  by (simp add: new_effects_def)

lemma new_effects_trans:
  "extends a b \<Longrightarrow> extends b c \<Longrightarrow> new_effects a c = new_effects a b @ new_effects b c"
  by (auto simp: extends_def new_effects_def)

section \<open>Best-effort deletion\<close>

text \<open>
  The cleanup code deletes lists of resources, logs an error and goes on. The interface is a
  deletion that records one effect per item, whatever its result; the client's lemma is that the
  loop attempts every item, in order.
\<close>

fun for_each :: "('a \<Rightarrow> 'w \<Rightarrow> 'w) \<Rightarrow> 'a list \<Rightarrow> 'w \<Rightarrow> 'w" where
  "for_each f [] w = w"
| "for_each f (x # xs) w = for_each f xs (f x w)"

locale best_effort =
  fixes del :: "'a \<Rightarrow> 'e world \<Rightarrow> 'e world"
    and shows_item :: "'a \<Rightarrow> effect \<Rightarrow> bool"
  assumes one_effect: "\<exists>eff. shows_item x eff \<and> w_trace (del x w) = w_trace w @ [eff]"
    and same_metrics: "w_metrics (del x w) = w_metrics w"
begin

lemma for_each_attempts_all:
  "\<exists>es. w_trace (for_each del xs w) = w_trace w @ es \<and> list_all2 shows_item xs es"
proof (induction xs arbitrary: w)
  case (Cons x xs)
  obtain eff where eff: "shows_item x eff" "w_trace (del x w) = w_trace w @ [eff]"
    using one_effect by blast
  obtain es where es: "w_trace (for_each del xs (del x w)) = w_trace (del x w) @ es"
    "list_all2 shows_item xs es" using Cons.IH by blast
  from eff es have "w_trace (for_each del (x # xs) w) = w_trace w @ (eff # es)" by simp
  with eff(1) es(2) show ?case by (metis list_all2_Cons)
qed simp

lemma for_each_metrics: "w_metrics (for_each del xs w) = w_metrics w"
  by (induction xs arbitrary: w) (auto simp: same_metrics)

end

definition try_DeleteImage :: "'e NutanixClient \<Rightarrow> string \<Rightarrow> 'e world \<Rightarrow> 'e world" where
  "try_DeleteImage c uuid w = snd (DeleteImage c uuid w)"

definition try_DeleteRecoveryPoint :: "'e NutanixClient \<Rightarrow> string \<Rightarrow> 'e world \<Rightarrow> 'e world" where
  "try_DeleteRecoveryPoint c uuid w = (if uuid \<noteq> [] then snd (DeleteRecoveryPoint c uuid w) else w)"

definition try_Delete :: "'e KubeClient \<Rightarrow> k8s_kind \<Rightarrow> string \<Rightarrow> string \<Rightarrow> 'e world \<Rightarrow> 'e world" where
  "try_Delete k kind ns name w = snd (Delete k kind ns name w)"

definition deletes_image :: "string \<Rightarrow> effect \<Rightarrow> bool" where
  "deletes_image u eff = (\<exists>r. eff = EDeleteImage u r)"

definition deletes_object :: "k8s_kind \<Rightarrow> string \<Rightarrow> string \<Rightarrow> effect \<Rightarrow> bool" where
  "deletes_object kind ns name eff = (\<exists>r. eff = EDelete kind ns name r)"

interpretation images: best_effort "try_DeleteImage c" deletes_image
  by unfold_locales (auto simp: try_DeleteImage_def deletes_image_def op_defs perform_def split: prod.splits)

interpretation objects: best_effort "try_Delete k kind ns" "deletes_object kind ns"
  by unfold_locales (auto simp: try_Delete_def deletes_object_def op_defs perform_def split: prod.splits)

lemma try_DeleteRecoveryPoint_trace:
  "\<exists>es. w_trace (try_DeleteRecoveryPoint c u w) = w_trace w @ es \<and>
        (if u = [] then es = [] else \<exists>r. es = [EDeleteRecoveryPoint u r])"
  by (auto simp: try_DeleteRecoveryPoint_def op_defs perform_def split: prod.splits)

lemma try_Delete_trace: "\<exists>r. w_trace (try_Delete k kind ns n w) = w_trace w @ [EDelete kind ns n r]"
  by (auto simp: try_Delete_def op_defs perform_def split: prod.splits)

end
