(* ===== verification/Disk_Transfer.thy ===== *)
theory Disk_Transfer
  imports World Ref_Lookup Mock_Fixtures
begin

text \<open>
  \<^verbatim>\<open>internal/transfer\<close>: DataVolume construction (\<^verbatim>\<open>datavolume.go\<close>), the delta transfer pod and
  the loop of its shell script (\<^verbatim>\<open>delta.go\<close>), and the transfer manager (\<^verbatim>\<open>manager.go\<close>).
\<close>

section \<open>datavolume.go\<close>

definition gib :: int where
  "gib = 1024 * 1024 * 1024"

record DataVolumeOptions =
  dvo_Name :: string
  dvo_Namespace :: string
  dvo_ImageURL :: string
  dvo_DiskSizeBytes :: int
  dvo_StorageClass :: string
  dvo_VolumeMode :: PersistentVolumeMode
  dvo_AccessMode :: PersistentVolumeAccessMode
  dvo_SecretName :: string
  dvo_CertConfigMap :: string
  dvo_OwnerRef :: OwnerReference

text \<open>The \<^verbatim>\<open>int64\<close> sum wraps before the division; the quantity \<^verbatim>\<open>"<n>Gi"\<close> is its value in bytes.\<close>

definition bytesToGiQuantity :: "int \<Rightarrow> int" where
  "bytesToGiQuantity bytes =
     (let gibs = wrap64 (bytes + gib - 1) sdiv gib;
          gibs = max gibs 1
      in gibs * gib)"

definition BuildDataVolume :: "DataVolumeOptions \<Rightarrow> DataVolume" where
  "BuildDataVolume opts =
     \<lparr>dv_Name = dvo_Name opts, dv_Namespace = dvo_Namespace opts,
      dv_OwnerReferences = [dvo_OwnerRef opts],
      dv_URL = dvo_ImageURL opts, dv_SecretRef = dvo_SecretName opts,
      dv_CertConfigMap = (if dvo_CertConfigMap opts \<noteq> [] then dvo_CertConfigMap opts else []),
      dv_AccessModes = [dvo_AccessMode opts], dv_StorageClassName = dvo_StorageClass opts,
      dv_VolumeMode = dvo_VolumeMode opts,
      dv_Storage = bytesToGiQuantity (dvo_DiskSizeBytes opts)\<rparr>"

text \<open>
  C29. The PVC of a DataVolume is a multiple of one GiB, at least one GiB, big enough for the disk and less than one GiB
  bigger than it; only a disk of size zero gets a whole GiB. This holds for every disk size up to
  \<^term>\<open>2 ^ 63 - 2 ^ 30 :: int\<close> bytes (above that the \<^verbatim>\<open>int64\<close> sum wraps).
\<close>

theorem BuildDataVolume_storage:
  assumes "0 \<le> dvo_DiskSizeBytes opts" and "dvo_DiskSizeBytes opts \<le> 2 ^ 63 - 2 ^ 30"
  shows "dvo_DiskSizeBytes opts \<le> dv_Storage (BuildDataVolume opts) \<and>
         (if dvo_DiskSizeBytes opts = 0 then dv_Storage (BuildDataVolume opts) = gib
          else dv_Storage (BuildDataVolume opts) < dvo_DiskSizeBytes opts + gib) \<and>
         gib dvd dv_Storage (BuildDataVolume opts) \<and> gib \<le> dv_Storage (BuildDataVolume opts)"
proof -
  let ?b = "dvo_DiskSizeBytes opts"
  have w: "wrap64 (?b + gib - 1) = ?b + gib - 1"
    using assms by (intro wrap64_id) (auto simp: gib_def)
  have d: "(?b + gib - 1) sdiv gib = (?b + gib - 1) div gib"
    using assms(1) by (intro sdiv_nonneg) (auto simp: gib_def)
  have s: "dv_Storage (BuildDataVolume opts) = max ((?b + gib - 1) div gib) 1 * gib"
    by (simp add: BuildDataVolume_def bytesToGiQuantity_def w d Let_def)
  show ?thesis
  proof (cases "?b = 0")
    case True
    then show ?thesis by (simp add: s gib_def)
  next
    case False
    with assms(1) have "max ((?b + gib - 1) div gib) 1 = (?b + gib - 1) div gib"
      by (simp add: gib_def)
    moreover have "?b \<le> (?b + gib - 1) div gib * gib" "(?b + gib - 1) div gib * gib < ?b + gib"
      "gib \<le> (?b + gib - 1) div gib * gib"
      using assms(1) False by (auto simp: gib_def)
    ultimately show ?thesis using False by (simp add: s)
  qed
qed

definition sample_dv_options :: DataVolumeOptions where
  "sample_dv_options =
     \<lparr>dvo_Name = ''vma-m-vm-disk-0'', dvo_Namespace = ''migrated'', dvo_ImageURL = ''https://pc/img'',
      dvo_DiskSizeBytes = 53687091201, dvo_StorageClass = ''local-path'',
      dvo_VolumeMode = PersistentVolumeFilesystem, dvo_AccessMode = ReadWriteOnce,
      dvo_SecretName = ''vma-m-creds'', dvo_CertConfigMap = [],
      dvo_OwnerRef = \<lparr>own_APIVersion = ''vma.nutanix.io/v1alpha1'', own_Kind = ''Migration'',
        own_Name = ''m'', own_UID = ''u''\<rparr>\<rparr>"

theorem BuildDataVolume_storage_witness:
  "(53687091201 \<le> dv_Storage (BuildDataVolume sample_dv_options) \<and> dv_Storage (BuildDataVolume sample_dv_options) < 53687091201 + gib) \<and>
   dv_Storage (BuildDataVolume sample_dv_options) = 51 * gib"
proof
  show "53687091201 \<le> dv_Storage (BuildDataVolume sample_dv_options) \<and> dv_Storage (BuildDataVolume sample_dv_options) < 53687091201 + gib"
    using BuildDataVolume_storage [of sample_dv_options] by (simp add: sample_dv_options_def)
  show "dv_Storage (BuildDataVolume sample_dv_options) = 51 * gib"
    by (simp add: sample_dv_options_def BuildDataVolume_def bytesToGiQuantity_def gib_def wrap64_def
        sdiv_nonneg Let_def)
qed

section \<open>delta.go\<close>

definition CBTBlockSize :: int where
  "CBTBlockSize = 65536"

abbreviation deltaContainerName :: string where "deltaContainerName \<equiv> ''delta-transfer''"
abbreviation deltaImage :: string where "deltaImage \<equiv> ''busybox:1.37''"
abbreviation deltaVolumeName :: string where "deltaVolumeName \<equiv> ''disk-data''"
abbreviation deltaConfigVolume :: string where "deltaConfigVolume \<equiv> ''delta-config''"
abbreviation deltaMountPath :: string where "deltaMountPath \<equiv> ''/data/disk''"
abbreviation deltaConfigMount :: string where "deltaConfigMount \<equiv> ''/config''"
abbreviation SecretKeyAccessKeyID :: string where "SecretKeyAccessKeyID \<equiv> ''accessKeyId''"
abbreviation SecretKeySecretKey :: string where "SecretKeySecretKey \<equiv> ''secretKey''"
abbreviation ConfigMapKeyCA :: string where "ConfigMapKeyCA \<equiv> ''ca.pem''"

record DeltaPodOptions =
  dpo_Name :: string
  dpo_Namespace :: string
  dpo_PVCName :: string
  dpo_ImageURL :: string
  dpo_SecretName :: string
  dpo_Regions :: "ChangedRegion list"
  dpo_OwnerRef :: OwnerReference

definition region_line :: "ChangedRegion \<Rightarrow> string" where
  "region_line r = show_int (cr_Offset r) @ '':'' @ show_int (cr_Length r)"

definition RegionsToText :: "ChangedRegion list \<Rightarrow> string" where
  "RegionsToText regions = strings_Join (map region_line regions) [CHR 0x0A]"

definition DeltaBytes :: "ChangedRegion list \<Rightarrow> int" where
  "DeltaBytes regions = foldl (\<lambda>total r. wrap64 (total + cr_Length r)) 0 regions"

definition deltaScript :: string where
  "deltaScript = concat (map (\<lambda>l. l @ [CHR 0x0A])
     [''#!/bin/sh'',
      ''set -e'',
      ''AUTH=$(printf '' @ [CHR 0x27] @ ''%s:%s'' @ [CHR 0x27] @ '' '' @ [CHR 0x22] @ ''${PRISM_USERNAME}'' @ [CHR 0x22] @ '' '' @ [CHR 0x22] @ ''${PRISM_PASSWORD}'' @ [CHR 0x22] @ '' | base64)'',
      ''while IFS=: read -r offset length; do'',
      ''  [ -z '' @ [CHR 0x22] @ ''$offset'' @ [CHR 0x22] @ '' ] && continue'',
      ''  end=$((offset + length - 1))'',
      ''  wget --header='' @ [CHR 0x22] @ ''Authorization: Basic ${AUTH}'' @ [CHR 0x22] @ '' '' @ [CHR 0x5C],
      ''       --header='' @ [CHR 0x22] @ ''Range: bytes=${offset}-${end}'' @ [CHR 0x22] @ '' '' @ [CHR 0x5C],
      ''       -q -O /tmp/chunk '' @ [CHR 0x22] @ ''${IMAGE_URL}'' @ [CHR 0x22] @ '' || exit 1'',
      ''  dd if=/tmp/chunk of=/data/disk bs=1 seek='' @ [CHR 0x22] @ ''${offset}'' @ [CHR 0x22] @ '' conv=notrunc 2>/dev/null || exit 1'',
      ''  rm -f /tmp/chunk'',
      ''done < /config/regions.txt'',
      ''echo '' @ [CHR 0x22] @ ''Delta transfer complete'' @ [CHR 0x22]])"

text \<open>
  The loop of \<^verbatim>\<open>deltaScript\<close>: \<^verbatim>\<open>while IFS=: read -r offset length; do ... done < regions.txt\<close>.
  \<^verbatim>\<open>read\<close> succeeds for a line that ends with a newline; at the end of the file it fails, also when
  characters without a newline precede the end, and the loop stops. A line is split at its first
  colon; lines with an empty offset are skipped. The result is the list of (offset, length) pairs
  the body runs for: the body downloads that range and writes it at that offset.
\<close>

fun read_lines :: "string \<Rightarrow> string \<Rightarrow> string list" where
  "read_lines acc [] = []"
| "read_lines acc (c # s) = (if c = CHR 0x0A then acc # read_lines [] s else read_lines (acc @ [c]) s)"

definition split_colon :: "string \<Rightarrow> string \<times> string" where
  "split_colon l = (takeWhile (\<lambda>c. c \<noteq> CHR '':'') l, drop 1 (dropWhile (\<lambda>c. c \<noteq> CHR '':'') l))"

definition delta_script_ranges :: "string \<Rightarrow> (string \<times> string) list" where
  "delta_script_ranges text = filter (\<lambda>(offset, _). offset \<noteq> []) (map split_colon (read_lines [] text))"

definition BuildDeltaPod :: "DeltaPodOptions \<Rightarrow> Pod \<times> ConfigMap" where
  "BuildDeltaPod opts =
     (let regionsText = RegionsToText (dpo_Regions opts);
          cm = \<lparr>cm_Name = dpo_Name opts @ ''-regions'', cm_Namespace = dpo_Namespace opts,
                cm_OwnerReferences = [dpo_OwnerRef opts], cm_Data = [(''regions.txt'', regionsText)]\<rparr>;
          pod = \<lparr>pod_Name = dpo_Name opts, pod_Namespace = dpo_Namespace opts,
                 pod_OwnerReferences = [dpo_OwnerRef opts], pod_RestartNever = True, pod_ServiceAccountName = [],
                 pod_Containers =
                   [\<lparr>ctr_Name = deltaContainerName, ctr_Image = deltaImage,
                     ctr_Command = [''/bin/sh'', ''-c'', deltaScript],
                     ctr_Env = [EnvSecretKey ''PRISM_USERNAME'' (dpo_SecretName opts) SecretKeyAccessKeyID,
                                EnvSecretKey ''PRISM_PASSWORD'' (dpo_SecretName opts) SecretKeySecretKey,
                                EnvValue ''IMAGE_URL'' (dpo_ImageURL opts)],
                     ctr_VolumeMounts =
                       [\<lparr>mnt_Name = deltaVolumeName, mnt_Path = deltaMountPath, mnt_ReadOnly = False\<rparr>,
                        \<lparr>mnt_Name = deltaConfigVolume, mnt_Path = deltaConfigMount, mnt_ReadOnly = True\<rparr>]\<rparr>],
                 pod_Volumes =
                   [\<lparr>vol_Name = deltaVolumeName, vol_Source = VolumePVC (dpo_PVCName opts)\<rparr>,
                    \<lparr>vol_Name = deltaConfigVolume, vol_Source = VolumeConfigMap (cm_Name cm)\<rparr>]\<rparr>
      in (pod, cm))"

lemma show_int_chars: "\<forall>c \<in> set (show_int i). is_digit c \<or> c = CHR ''-''"
  using show_nat_digits by (auto simp: show_int_def)

lemma show_int_nonempty [simp]: "show_int i \<noteq> []"
  by (simp add: show_int_def)

lemma show_int_no_sep: "CHR '':'' \<notin> set (show_int i)" "CHR 0x0A \<notin> set (show_int i)"
proof -
  have "\<not> is_digit CHR '':''" "\<not> is_digit CHR 0x0A" by (simp_all add: is_digit_def)
  then show "CHR '':'' \<notin> set (show_int i)" "CHR 0x0A \<notin> set (show_int i)"
    using show_int_chars [of i] by auto
qed

lemma region_line_no_newline: "CHR 0x0A \<notin> set (region_line r)"
  by (simp add: region_line_def show_int_no_sep)

lemma split_colon_region_line: "split_colon (region_line r) = (show_int (cr_Offset r), show_int (cr_Length r))"
proof -
  have p: "\<forall>c \<in> set (show_int (cr_Offset r)). c \<noteq> CHR '':''" using show_int_no_sep by auto
  then show ?thesis
    by (simp add: split_colon_def region_line_def takeWhile_append2 dropWhile_append2)
qed

lemma read_lines_no_newline: "CHR 0x0A \<notin> set s \<Longrightarrow> read_lines acc s = []"
  by (induction s arbitrary: acc) auto

lemma read_lines_line: "CHR 0x0A \<notin> set l \<Longrightarrow> read_lines acc (l @ CHR 0x0A # s) = (acc @ l) # read_lines [] s"
  by (induction l arbitrary: acc) auto

lemma read_lines_Join: "read_lines [] (RegionsToText rs) = map region_line (butlast rs)"
proof (induction rs rule: induct_list012)
  case (3 r s rs)
  have "RegionsToText (r # s # rs) = region_line r @ CHR 0x0A # RegionsToText (s # rs)"
    by (simp add: RegionsToText_def)
  then show ?case using "3.IH"(2) by (simp add: read_lines_line region_line_no_newline)
qed (simp_all add: RegionsToText_def read_lines_no_newline region_line_no_newline)

text \<open>
  C30. What the delta pod transfers. \<^verbatim>\<open>RegionsToText\<close> separates the regions by newlines but ends the
  file without one, and the shell loop never runs its body for an unterminated last line: the
  script processes every changed region except the last. A round whose change set is a single
  region transfers nothing and still reports success.
\<close>

theorem delta_script_drops_last_region:
  "delta_script_ranges (RegionsToText regions) =
     map (\<lambda>r. (show_int (cr_Offset r), show_int (cr_Length r))) (butlast regions)"
proof -
  have "map split_colon (map region_line (butlast regions)) =
      map (\<lambda>r. (show_int (cr_Offset r), show_int (cr_Length r))) (butlast regions)"
    by (simp add: split_colon_region_line)
  moreover have "filter (\<lambda>(offset, _). offset \<noteq> [])
      (map (\<lambda>r. (show_int (cr_Offset r), show_int (cr_Length r))) (butlast regions)) =
      map (\<lambda>r. (show_int (cr_Offset r), show_int (cr_Length r))) (butlast regions)"
    by (rule filter_True) auto
  ultimately show ?thesis by (simp add: delta_script_ranges_def read_lines_Join)
qed

lemma DeltaBytes_fold:
  assumes "\<forall>r \<in> set rs. 0 \<le> cr_Length r" and "0 \<le> t" and "t + sum_list (map cr_Length rs) < 2 ^ 63"
  shows "foldl (\<lambda>total r. wrap64 (total + cr_Length r)) t rs = t + sum_list (map cr_Length rs)"
  using assms
proof (induction rs arbitrary: t)
  case (Cons r rs)
  have "0 \<le> sum_list (map cr_Length rs)" using Cons.prems(1) by (intro sum_list_nonneg) auto
  with Cons.prems have "wrap64 (t + cr_Length r) = t + cr_Length r" by (intro wrap64_id) auto
  with Cons show ?case by simp
qed simp

text \<open>
  \<^verbatim>\<open>DeltaBytes\<close> is the sum of the region lengths as long as that sum fits an \<^verbatim>\<open>int64\<close>; it is
  additive over the pages of a changed-region query.
\<close>

theorem DeltaBytes_sum:
  assumes "\<forall>r \<in> set (rs @ rs'). 0 \<le> cr_Length r"
    and "sum_list (map cr_Length (rs @ rs')) < 2 ^ 63"
  shows "DeltaBytes (rs @ rs') = sum_list (map cr_Length (rs @ rs')) \<and>
         DeltaBytes (rs @ rs') = DeltaBytes rs + DeltaBytes rs'"
proof -
  have nn: "0 \<le> sum_list (map cr_Length rs)" "0 \<le> sum_list (map cr_Length rs')"
    using assms(1) by (auto intro!: sum_list_nonneg)
  have "DeltaBytes (rs @ rs') = sum_list (map cr_Length (rs @ rs'))"
    unfolding DeltaBytes_def using DeltaBytes_fold [of "rs @ rs'" 0] assms by simp
  moreover have "DeltaBytes rs = sum_list (map cr_Length rs)"
    unfolding DeltaBytes_def using DeltaBytes_fold [of rs 0] assms nn by simp
  moreover have "DeltaBytes rs' = sum_list (map cr_Length rs')"
    unfolding DeltaBytes_def using DeltaBytes_fold [of rs' 0] assms nn by simp
  ultimately show ?thesis by simp
qed

theorem DeltaBytes_sum_witness:
  "DeltaBytes [\<lparr>cr_Offset = 0, cr_Length = 65536\<rparr>, \<lparr>cr_Offset = 1048576, cr_Length = 131072\<rparr>] = 196608"
  using DeltaBytes_sum [of "[\<lparr>cr_Offset = 0, cr_Length = 65536\<rparr>]" "[\<lparr>cr_Offset = 1048576, cr_Length = 131072\<rparr>]"]
  by simp

section \<open>manager.go\<close>

record 'e Manager =
  tm_Client :: "'e KubeClient"
  tm_PrismURL :: string
  tm_Username :: string
  tm_Password :: string
  tm_CACert :: string
  tm_Insecure :: bool

text \<open>The idiom \<^verbatim>\<open>if apierrors.IsAlreadyExists(err) { return nil }; return err\<close> and its
  \<^verbatim>\<open>IsNotFound\<close> counterpart.\<close>

definition ignore_exists :: "go_error option \<Rightarrow> go_error option" where
  "ignore_exists err = (case err of None \<Rightarrow> None | Some e \<Rightarrow> if IsAlreadyExists e then None else Some e)"

definition ignore_missing :: "go_error option \<Rightarrow> go_error option" where
  "ignore_missing err = (case err of None \<Rightarrow> None | Some e \<Rightarrow> if IsNotFound e then None else Some e)"

definition CreateCredentialSecret ::
  "'e Manager \<Rightarrow> string \<Rightarrow> string \<Rightarrow> OwnerReference \<Rightarrow> 'e world \<Rightarrow> go_error option \<times> 'e world" where
  "CreateCredentialSecret m name namespace ownerRef w =
     (let secret = \<lparr>sec_Name = name, sec_Namespace = namespace, sec_OwnerReferences = [ownerRef],
                    sec_Data = [(SecretKeyAccessKeyID, tm_Username m), (SecretKeySecretKey, tm_Password m)]\<rparr>
      in case Create (tm_Client m) (ObjSecret secret) w of (err, w1) \<Rightarrow> (ignore_exists err, w1))"

definition CreateCAConfigMap ::
  "'e Manager \<Rightarrow> string \<Rightarrow> string \<Rightarrow> OwnerReference \<Rightarrow> 'e world \<Rightarrow> go_error option \<times> 'e world" where
  "CreateCAConfigMap m name namespace ownerRef w =
     (if tm_CACert m = [] then (None, w)
      else
        let cm = \<lparr>cm_Name = name, cm_Namespace = namespace, cm_OwnerReferences = [ownerRef],
                  cm_Data = [(ConfigMapKeyCA, tm_CACert m)]\<rparr>
        in case Create (tm_Client m) (ObjConfigMap cm) w of (err, w1) \<Rightarrow> (ignore_exists err, w1))"

definition ImageDownloadURL :: "'e Manager \<Rightarrow> string \<Rightarrow> string" where
  "ImageDownloadURL m imageUUID =
     TrimRight (tm_PrismURL m) CHR ''/'' @ ''/api/vmm/v4.0/images/'' @ imageUUID @ ''/file''"

fun FindStorageMapping_loop :: "Reference \<Rightarrow> StoragePair list \<Rightarrow> StorageDestination option" where
  "FindStorageMapping_loop ref [] = None"
| "FindStorageMapping_loop ref (pair # pairs) =
     (if ss_ID (sp_Source pair) \<noteq> [] \<and> ss_ID (sp_Source pair) = ref_ExtID ref then Some (sp_Destination pair)
      else if ss_Name (sp_Source pair) \<noteq> [] \<and> ss_Name (sp_Source pair) = ref_Name ref then Some (sp_Destination pair)
      else FindStorageMapping_loop ref pairs)"

definition FindStorageMapping :: "Disk \<Rightarrow> StorageMap \<Rightarrow> StorageDestination option" where
  "FindStorageMapping disk storageMap =
     (case disk_BackingInfo disk of
        None \<Rightarrow> None
      | Some bi \<Rightarrow>
          (case bi_StorageContainerRef bi of
             None \<Rightarrow> None
           | Some ref \<Rightarrow> FindStorageMapping_loop ref (sm_Map storageMap)))"

interpretation stor_map: ref_finder "\<lambda>p. ss_ID (sp_Source p)" "\<lambda>p. ss_Name (sp_Source p)"
  sp_Destination FindStorageMapping_loop
  by unfold_locales (auto simp: source_matches_def)

definition CreateDataVolume :: "'e Manager \<Rightarrow> DataVolumeOptions \<Rightarrow> 'e world \<Rightarrow> go_error option \<times> 'e world" where
  "CreateDataVolume m opts w =
     (case Create (tm_Client m) (ObjDataVolume (BuildDataVolume opts)) w of
        (err, w1) \<Rightarrow> (ignore_exists err, w1))"

record DataVolumeProgress =
  dvp_Phase :: DataVolumePhase
  dvp_Progress :: string

definition GetDataVolumeProgress ::
  "'e Manager \<Rightarrow> string \<Rightarrow> string \<Rightarrow> 'e world \<Rightarrow> (go_error + DataVolumeProgress) \<times> 'e world" where
  "GetDataVolumeProgress m name namespace w =
     (case GetDataVolume (tm_Client m) namespace name w of
        (Inl err, w1) \<Rightarrow> (Inl err, w1)
      | (Inr (phase, progress), w1) \<Rightarrow> (Inr \<lparr>dvp_Phase = phase, dvp_Progress = progress\<rparr>, w1))"

definition DeleteCredentialSecret :: "'e Manager \<Rightarrow> string \<Rightarrow> string \<Rightarrow> 'e world \<Rightarrow> go_error option \<times> 'e world" where
  "DeleteCredentialSecret m name namespace w =
     (case Delete (tm_Client m) KindSecret namespace name w of (err, w1) \<Rightarrow> (ignore_missing err, w1))"

definition DeleteCAConfigMap :: "'e Manager \<Rightarrow> string \<Rightarrow> string \<Rightarrow> 'e world \<Rightarrow> go_error option \<times> 'e world" where
  "DeleteCAConfigMap m name namespace w =
     (case Delete (tm_Client m) KindConfigMap namespace name w of (err, w1) \<Rightarrow> (ignore_missing err, w1))"

text \<open>What the manager's calls leave in the trace.\<close>

lemma manager_trace [trace_rules]:
  "CreateCredentialSecret m n ns own w = (r, w') \<Longrightarrow>
     \<exists>s r'. w_trace w' = w_trace w @ [ECreate (ObjSecret s) r'] \<and> sec_Name s = n \<and> sec_Namespace s = ns"
  "CreateCAConfigMap m n ns own w = (r, w') \<Longrightarrow>
     \<exists>es. w_trace w' = w_trace w @ es \<and> (\<forall>e \<in> set es. \<exists>cm r'. e = ECreate (ObjConfigMap cm) r')"
  "CreateDataVolume m opts w = (r, w') \<Longrightarrow>
     \<exists>r'. w_trace w' = w_trace w @ [ECreate (ObjDataVolume (BuildDataVolume opts)) r'] \<and> r = ignore_exists r'"
  "GetDataVolumeProgress m n ns w = (p, w') \<Longrightarrow>
     \<exists>p'. w_trace w' = w_trace w @ [EDataVolume ns n p'] \<and>
       (case p of Inl e \<Rightarrow> p' = Inl e | Inr q \<Rightarrow> p' = Inr (dvp_Phase q, dvp_Progress q))"
  "DeleteCredentialSecret m n ns w = (r, w') \<Longrightarrow> \<exists>r'. w_trace w' = w_trace w @ [EDelete KindSecret ns n r']"
  "DeleteCAConfigMap m n ns w = (r, w') \<Longrightarrow> \<exists>r'. w_trace w' = w_trace w @ [EDelete KindConfigMap ns n r']"
  by (auto simp: CreateCredentialSecret_def CreateCAConfigMap_def CreateDataVolume_def GetDataVolumeProgress_def
      DeleteCredentialSecret_def DeleteCAConfigMap_def dest!: call_trace split: prod.splits sum.splits if_splits)

lemma manager_metrics:
  "CreateCredentialSecret m n ns own w = (r, w') \<Longrightarrow> w_metrics w' = w_metrics w"
  "CreateCAConfigMap m n ns own w = (r, w') \<Longrightarrow> w_metrics w' = w_metrics w"
  "CreateDataVolume m opts w = (r, w') \<Longrightarrow> w_metrics w' = w_metrics w"
  "GetDataVolumeProgress m n ns w = (p, w') \<Longrightarrow> w_metrics w' = w_metrics w"
  "DeleteCredentialSecret m n ns w = (r, w') \<Longrightarrow> w_metrics w' = w_metrics w"
  "DeleteCAConfigMap m n ns w = (r, w') \<Longrightarrow> w_metrics w' = w_metrics w"
  by (auto simp: CreateCredentialSecret_def CreateCAConfigMap_def CreateDataVolume_def GetDataVolumeProgress_def
      DeleteCredentialSecret_def DeleteCAConfigMap_def dest!: call_metrics split: prod.splits sum.splits if_splits)

end
