(* ===== verification/Migration_Phases.thy ===== *)
theory Migration_Phases
  imports Vm_Builder Disk_Transfer
begin

text \<open>
  The phase handlers of \<^verbatim>\<open>internal/controller/migration_controller.go\<close> that the cold pipeline runs,
  the failure cleanup, and the helpers the warm handlers share. A handler takes the VM status it
  mutates through a pointer and returns it with the result and the world, so that what it wrote
  before an early return is kept. The migration context is only read while phases run.
\<close>

record ClientConfig =
  cfg_Host :: string
  cfg_Username :: string
  cfg_Password :: string
  cfg_InsecureSkipVerify :: bool

record 'e MigrationReconciler =
  r_Client :: "'e KubeClient"
  r_ClientFactory :: "ClientConfig \<Rightarrow> go_error + 'e NutanixClient"
  r_Recorder :: bool
  r_Now :: "'e \<Rightarrow> int \<times> 'e"

record 'e migrationContext =
  mc_NutanixClient :: "'e NutanixClient"
  mc_Plan :: MigrationPlan
  mc_NetworkMap :: NetworkMap
  mc_StorageMap :: StorageMap
  mc_Provider :: NutanixProvider
  mc_Migration :: Migration
  mc_Secret :: Secret
  mc_TransferMgr :: "'e Manager"

record PhaseResult =
  pr_Completed :: bool
  pr_Error :: "go_error option"

abbreviation phase_completed :: PhaseResult where
  "phase_completed \<equiv> \<lparr>pr_Completed = True, pr_Error = None\<rparr>"

abbreviation phase_not_completed :: PhaseResult where
  "phase_not_completed \<equiv> \<lparr>pr_Completed = False, pr_Error = None\<rparr>"

abbreviation phase_failed :: "go_error \<Rightarrow> PhaseResult" where
  "phase_failed err \<equiv> \<lparr>pr_Completed = False, pr_Error = Some err\<rparr>"

type_synonym 'e handler =
  "VMMigrationStatus \<Rightarrow> 'e migrationContext \<Rightarrow> 'e world \<Rightarrow> PhaseResult \<times> VMMigrationStatus \<times> 'e world"

section \<open>Helpers\<close>

definition filterDataDisks :: "Disk list \<Rightarrow> Disk list" where
  "filterDataDisks disks = filter (\<lambda>d. \<not> is_cdrom d) disks"

definition shortID :: "string \<Rightarrow> string" where
  "shortID vid = (if 8 < length vid then take 8 vid else vid)"

definition getDiskUUID :: "Disk \<Rightarrow> string" where
  "getDiskUUID disk =
     (case disk_BackingInfo disk of
        None \<Rightarrow> disk_ExtID disk
      | Some bi \<Rightarrow> if bi_VMDiskUUID bi \<noteq> [] then bi_VMDiskUUID bi else disk_ExtID disk)"

definition getDiskSize :: "Disk \<Rightarrow> int" where
  "getDiskSize disk =
     (if disk_DiskSizeBytes disk > 0 then disk_DiskSizeBytes disk
      else case disk_BackingInfo disk of None \<Rightarrow> 0 | Some bi \<Rightarrow> bi_DiskSizeBytes bi)"

definition migration_owner :: "Migration \<Rightarrow> OwnerReference" where
  "migration_owner m =
     \<lparr>own_APIVersion = ''vma.nutanix.io/v1alpha1'', own_Kind = ''Migration'',
      own_Name = mig_Name m, own_UID = mig_UID m\<rparr>"

definition cred_secret_name :: "Migration \<Rightarrow> string" where
  "cred_secret_name m = ''vma-'' @ shortID (mig_Name m) @ ''-creds''"

definition ca_config_name :: "Migration \<Rightarrow> string" where
  "ca_config_name m = ''vma-'' @ shortID (mig_Name m) @ ''-ca''"

text \<open>The name of the image of disk \<open>i\<close> and of the DataVolume that imports it: \<^verbatim>\<open>vma-%s-%s-disk-%d\<close>.\<close>

definition disk_object_name :: "Migration \<Rightarrow> VMMigrationStatus \<Rightarrow> nat \<Rightarrow> string" where
  "disk_object_name m vs i =
     ''vma-'' @ mig_Name m @ ''-'' @ shortID (vs_ID vs) @ ''-disk-'' @ show_nat i"

definition cluster_ref :: "VM \<Rightarrow> string" where
  "cluster_ref vm = (case vm_Cluster vm of None \<Rightarrow> [] | Some c \<Rightarrow> ref_ExtID c)"

section \<open>Power and snapshot phases\<close>

definition phaseStorePowerState :: "'e handler" where
  "phaseStorePowerState vs mctx w =
     (if vs_OriginalPowerState vs \<noteq> [] then (phase_completed, vs, w)
      else case GetVMPowerState (mc_NutanixClient mctx) (vs_ID vs) w of
          (Inl err, w1) \<Rightarrow> (phase_failed (errorf_w ''StorePowerState: '' err), vs, w1)
        | (Inr state, w1) \<Rightarrow> (phase_completed, vs\<lparr>vs_OriginalPowerState := state\<rparr>, w1))"

definition phasePowerOff :: "'e handler" where
  "phasePowerOff vs mctx w =
     (if vs_OriginalPowerState vs = PowerStateOff then (phase_completed, vs, w)
      else case PowerOffVM (mc_NutanixClient mctx) (vs_ID vs) w of
          (Some err, w1) \<Rightarrow> (phase_failed (errorf_w ''PowerOff: '' err), vs, w1)
        | (None, w1) \<Rightarrow> (phase_completed, vs, w1))"

definition phaseWaitForPowerOff :: "'e handler" where
  "phaseWaitForPowerOff vs mctx w =
     (case GetVMPowerState (mc_NutanixClient mctx) (vs_ID vs) w of
        (Inl err, w1) \<Rightarrow> (phase_failed (errorf_w ''WaitForPowerOff: '' err), vs, w1)
      | (Inr state, w1) \<Rightarrow>
          if state \<noteq> PowerStateOff then (phase_not_completed, vs, w1) else (phase_completed, vs, w1))"

definition snapshot_name :: "Migration \<Rightarrow> VMMigrationStatus \<Rightarrow> string" where
  "snapshot_name m vs = ''vma-'' @ mig_Name m @ ''-'' @ shortID (vs_ID vs)"

definition phaseCreateSnapshot :: "'e handler" where
  "phaseCreateSnapshot vs mctx w =
     (if vs_SnapshotUUID vs \<noteq> [] then (phase_completed, vs, w)
      else case CreateRecoveryPoint (mc_NutanixClient mctx) (vs_ID vs) (snapshot_name (mc_Migration mctx) vs) w of
          (Inl err, w1) \<Rightarrow> (phase_failed (errorf_w ''CreateSnapshot: '' err), vs, w1)
        | (Inr uuid, w1) \<Rightarrow> (phase_completed, vs\<lparr>vs_SnapshotUUID := uuid\<rparr>, w1))"

section \<open>Disk export\<close>

text \<open>
  The export loop, which \<^verbatim>\<open>phaseExportDisks\<close>, \<^verbatim>\<open>phaseBulkCopy\<close> and \<^verbatim>\<open>runDeltaRound\<close> repeat with
  their own names and error texts: disks that already have an image are skipped, an image is
  created for each other disk and its UUID appended; the first error stops the loop.
\<close>

fun export_loop ::
  "'e NutanixClient \<Rightarrow> (nat \<Rightarrow> string) \<Rightarrow> (Disk \<Rightarrow> string) \<Rightarrow> string \<Rightarrow> nat \<Rightarrow> Disk list \<Rightarrow> string list \<Rightarrow> 'e world \<Rightarrow>
     (nat \<times> go_error) option \<times> string list \<times> 'e world" where
  "export_loop c name uuid_of cluster i [] images w = (None, images, w)"
| "export_loop c name uuid_of cluster i (disk # disks) images w =
     (if i < length images then export_loop c name uuid_of cluster (Suc i) disks images w
      else case CreateImageFromDisk c (name i) (uuid_of disk) cluster w of
          (Inl err, w1) \<Rightarrow> (Some (i, err), images, w1)
        | (Inr imageUUID, w1) \<Rightarrow> export_loop c name uuid_of cluster (Suc i) disks (images @ [imageUUID]) w1)"

text \<open>The inline choice of the disk UUID in \<^verbatim>\<open>phaseExportDisks\<close>.\<close>

definition export_disk_uuid :: "Disk \<Rightarrow> string" where
  "export_disk_uuid disk =
     (let diskUUID = (case disk_BackingInfo disk of None \<Rightarrow> [] | Some bi \<Rightarrow> bi_VMDiskUUID bi)
      in if diskUUID = [] then disk_ExtID disk else diskUUID)"

lemma export_disk_uuid_getDiskUUID: "export_disk_uuid = getDiskUUID"
  by (rule ext) (simp add: export_disk_uuid_def getDiskUUID_def split: option.splits)

definition phaseExportDisks :: "'e handler" where
  "phaseExportDisks vs mctx w =
     (case GetVM (mc_NutanixClient mctx) (vs_ID vs) w of
        (Inl err, w1) \<Rightarrow> (phase_failed (errorf_w ''ExportDisks: failed to get VM: '' err), vs, w1)
      | (Inr vm, w1) \<Rightarrow>
          let dataDisks = filterDataDisks (vm_Disks vm) in
          if length (vs_ImageUUIDs vs) \<ge> length dataDisks then (phase_completed, vs, w1)
          else
            case export_loop (mc_NutanixClient mctx) (disk_object_name (mc_Migration mctx) vs) export_disk_uuid
                   (cluster_ref vm) 0 dataDisks (vs_ImageUUIDs vs) w1 of
              (Some (i, err), images, w2) \<Rightarrow>
                (phase_failed (errorf_w (''ExportDisks: disk '' @ show_nat i @ '': '') err),
                 vs\<lparr>vs_ImageUUIDs := images\<rparr>, w2)
            | (None, images, w2) \<Rightarrow> (phase_completed, vs\<lparr>vs_ImageUUIDs := images\<rparr>, w2))"

section \<open>Disk import\<close>

text \<open>
  The DataVolume options of image \<open>i\<close>: the storage mapping of the data disk at the same position,
  or the defaults when there is no such disk or no mapping. \<open>size_of\<close> is \<^verbatim>\<open>getDiskSize\<close>, or the
  inline variant of \<^verbatim>\<open>phaseImportDisks\<close>.
\<close>

definition import_disk_size :: "Disk \<Rightarrow> int" where
  "import_disk_size disk =
     (if disk_DiskSizeBytes disk = 0
      then (case disk_BackingInfo disk of None \<Rightarrow> 0 | Some bi \<Rightarrow> bi_DiskSizeBytes bi)
      else disk_DiskSizeBytes disk)"

definition dv_options ::
  "'e migrationContext \<Rightarrow> VMMigrationStatus \<Rightarrow> (Disk \<Rightarrow> int) \<Rightarrow> Disk list \<Rightarrow> string \<Rightarrow> nat \<Rightarrow> string \<Rightarrow> DataVolumeOptions" where
  "dv_options mctx vs size_of dataDisks certConfigMap i imageUUID =
     (let storageDest = (if i < length dataDisks then FindStorageMapping (dataDisks ! i) (mc_StorageMap mctx) else None);
          (storageClass, volumeMode, accessMode) =
            (case storageDest of
               None \<Rightarrow> (''default'', PersistentVolumeFilesystem, ReadWriteOnce)
             | Some d \<Rightarrow> (sd_StorageClass d, sd_VolumeMode d, sd_AccessMode d));
          diskSize = (if i < length dataDisks then size_of (dataDisks ! i) else 0)
      in \<lparr>dvo_Name = disk_object_name (mc_Migration mctx) vs i,
          dvo_Namespace = plan_TargetNamespace (mc_Plan mctx),
          dvo_ImageURL = ImageDownloadURL (mc_TransferMgr mctx) imageUUID,
          dvo_DiskSizeBytes = diskSize, dvo_StorageClass = storageClass,
          dvo_VolumeMode = volumeMode, dvo_AccessMode = accessMode,
          dvo_SecretName = cred_secret_name (mc_Migration mctx),
          dvo_CertConfigMap = certConfigMap, dvo_OwnerRef = migration_owner (mc_Migration mctx)\<rparr>)"

text \<open>The creation loop over the image UUIDs; it stops at the first error.\<close>

fun create_dvs_loop ::
  "'e Manager \<Rightarrow> (nat \<Rightarrow> string \<Rightarrow> DataVolumeOptions) \<Rightarrow> nat \<Rightarrow> string list \<Rightarrow> string list \<Rightarrow> 'e world \<Rightarrow>
     (string \<times> go_error) option \<times> string list \<times> 'e world" where
  "create_dvs_loop m opts i [] dvNames w = (None, dvNames, w)"
| "create_dvs_loop m opts i (imageUUID # images) dvNames w =
     (if i < length dvNames then create_dvs_loop m opts (Suc i) images dvNames w
      else case CreateDataVolume m (opts i imageUUID) w of
          (Some err, w1) \<Rightarrow> (Some (dvo_Name (opts i imageUUID), err), dvNames, w1)
        | (None, w1) \<Rightarrow> create_dvs_loop m opts (Suc i) images (dvNames @ [dvo_Name (opts i imageUUID)]) w1)"

text \<open>The polling loop; \<open>prefix\<close> is the text in front of the error messages.\<close>

fun poll_dvs_loop ::
  "'e Manager \<Rightarrow> string \<Rightarrow> string \<Rightarrow> string \<Rightarrow> string list \<Rightarrow> bool \<Rightarrow> 'e world \<Rightarrow> PhaseResult \<times> 'e world" where
  "poll_dvs_loop m ns pollPrefix failPrefix [] allSucceeded w =
     ((if \<not> allSucceeded then phase_not_completed else phase_completed), w)"
| "poll_dvs_loop m ns pollPrefix failPrefix (dvName # dvNames) allSucceeded w =
     (case GetDataVolumeProgress m dvName ns w of
        (Inl err, w1) \<Rightarrow>
          if IsNotFound err then poll_dvs_loop m ns pollPrefix failPrefix dvNames False w1
          else (phase_failed (errorf_w (pollPrefix @ dvName @ '': '') err), w1)
      | (Inr progress, w1) \<Rightarrow>
          (case dvp_Phase progress of
             DVSucceeded \<Rightarrow> poll_dvs_loop m ns pollPrefix failPrefix dvNames allSucceeded w1
           | DVFailed \<Rightarrow> (phase_failed (errors_New (failPrefix @ dvName @ '' failed'')), w1)
           | DVOther _ \<Rightarrow> poll_dvs_loop m ns pollPrefix failPrefix dvNames False w1))"

text \<open>
  The common part of \<^verbatim>\<open>phaseImportDisks\<close> and \<^verbatim>\<open>createDataVolumes\<close>: the credential secret, the CA
  ConfigMap when a CA is configured, and the DataVolumes of the images that have none yet. The
  prefixes are those of the error texts.
\<close>

definition create_ca :: "'e migrationContext \<Rightarrow> 'e world \<Rightarrow> go_error option \<times> string \<times> 'e world" where
  "create_ca mctx w =
     (let mgr = mc_TransferMgr mctx; mig = mc_Migration mctx in
      if tm_CACert mgr \<noteq> [] then
        (case CreateCAConfigMap mgr (ca_config_name mig) (plan_TargetNamespace (mc_Plan mctx)) (migration_owner mig) w of
           (err, w1) \<Rightarrow> (err, ca_config_name mig, w1))
      else (None, [], w))"

definition create_volumes ::
  "string \<Rightarrow> string \<Rightarrow> (Disk \<Rightarrow> int) \<Rightarrow> Disk list \<Rightarrow> VMMigrationStatus \<Rightarrow> 'e migrationContext \<Rightarrow> 'e world \<Rightarrow>
     go_error option \<times> VMMigrationStatus \<times> 'e world" where
  "create_volumes prefix dvPrefix size_of dataDisks vs mctx w =
     (case CreateCredentialSecret (mc_TransferMgr mctx) (cred_secret_name (mc_Migration mctx))
             (plan_TargetNamespace (mc_Plan mctx)) (migration_owner (mc_Migration mctx)) w of
        (Some err, w1) \<Rightarrow> (Some (errorf_w (prefix @ ''credential secret: '') err), vs, w1)
      | (None, w1) \<Rightarrow>
          (case create_ca mctx w1 of
             (Some err, _, w2) \<Rightarrow> (Some (errorf_w (prefix @ ''CA ConfigMap: '') err), vs, w2)
           | (None, certConfigMapName, w2) \<Rightarrow>
               if length (vs_DataVolumeNames vs) < length (vs_ImageUUIDs vs) then
                 (case create_dvs_loop (mc_TransferMgr mctx) (dv_options mctx vs size_of dataDisks certConfigMapName) 0
                         (vs_ImageUUIDs vs) (vs_DataVolumeNames vs) w2 of
                    (Some (dvName, err), names, w3) \<Rightarrow>
                      (Some (errorf_w (dvPrefix @ ''DataVolume '' @ dvName @ '': '') err),
                       vs\<lparr>vs_DataVolumeNames := names\<rparr>, w3)
                  | (None, names, w3) \<Rightarrow> (None, vs\<lparr>vs_DataVolumeNames := names\<rparr>, w3))
               else (None, vs, w2)))"

text \<open>The bytes of every data disk are added to the transfer metric once the import is complete.\<close>

fun record_disk_bytes :: "string \<Rightarrow> Disk list \<Rightarrow> 'e world \<Rightarrow> 'e world" where
  "record_disk_bytes name [] w = w"
| "record_disk_bytes name (d # ds) w =
     record_disk_bytes name ds
       (if import_disk_size d > 0 then add_DiskTransferBytes name (import_disk_size d) w else w)"

definition phaseImportDisks :: "'e handler" where
  "phaseImportDisks vs mctx w =
     (case GetVM (mc_NutanixClient mctx) (vs_ID vs) w of
        (Inl err, w1) \<Rightarrow> (phase_failed (errorf_w ''ImportDisks: failed to get VM: '' err), vs, w1)
      | (Inr vm, w1) \<Rightarrow>
          let dataDisks = filterDataDisks (vm_Disks vm) in
          (case create_volumes ''ImportDisks: '' ''ImportDisks: '' import_disk_size dataDisks vs mctx w1 of
             (Some err, vs2, w2) \<Rightarrow> (phase_failed err, vs2, w2)
           | (None, vs2, w2) \<Rightarrow>
               (case poll_dvs_loop (mc_TransferMgr mctx) (plan_TargetNamespace (mc_Plan mctx))
                       ''ImportDisks: poll '' ''ImportDisks: DataVolume '' (vs_DataVolumeNames vs2) True w2 of
                  (res, w3) \<Rightarrow>
                    if pr_Completed res then (phase_completed, vs2, record_disk_bytes (vs_Name vs2) dataDisks w3)
                    else (res, vs2, w3))))"

text \<open>\<^verbatim>\<open>createDataVolumes\<close> and \<^verbatim>\<open>pollDataVolumes\<close>, used by the warm bulk copy. The error texts of
  \<^verbatim>\<open>createDataVolumes\<close> for the secret and the CA ConfigMap start with \<^verbatim>\<open>create\<close>, the one for a
  DataVolume has no prefix.\<close>

definition createDataVolumes ::
  "VMMigrationStatus \<Rightarrow> 'e migrationContext \<Rightarrow> Disk list \<Rightarrow> 'e world \<Rightarrow> PhaseResult \<times> VMMigrationStatus \<times> 'e world" where
  "createDataVolumes vs mctx dataDisks w =
     (case create_volumes ''create '' [] getDiskSize dataDisks vs mctx w of
        (Some err, vs1, w1) \<Rightarrow> (phase_failed err, vs1, w1)
      | (None, vs1, w1) \<Rightarrow> (phase_completed, vs1, w1))"

definition pollDataVolumes :: "'e handler" where
  "pollDataVolumes vs mctx w =
     (case poll_dvs_loop (mc_TransferMgr mctx) (plan_TargetNamespace (mc_Plan mctx))
             ''poll DV '' ''DataVolume '' (vs_DataVolumeNames vs) True w of
        (res, w1) \<Rightarrow> (res, vs, w1))"

section \<open>Creating and starting the target VM\<close>

definition phaseCreateVM :: "'e MigrationReconciler \<Rightarrow> 'e handler" where
  "phaseCreateVM r vs mctx w =
     (case GetVM (mc_NutanixClient mctx) (vs_ID vs) w of
        (Inl err, w1) \<Rightarrow> (phase_failed (errorf_w ''CreateVM: get source VM: '' err), vs, w1)
      | (Inr vm, w1) \<Rightarrow>
          let kvVM = Build vm (Some (mc_NetworkMap mctx)) (Some (mc_StorageMap mctx))
                       \<lparr>bo_Namespace = plan_TargetNamespace (mc_Plan mctx),
                        bo_PVCNames = vs_DataVolumeNames vs, bo_ExistingNames = None\<rparr>
          in case Create (r_Client r) (ObjVirtualMachine kvVM) w1 of
              (Some err, w2) \<Rightarrow>
                if IsAlreadyExists err then (phase_completed, vs, w2)
                else (phase_failed (errorf_w ''CreateVM: '' err), vs, w2)
            | (None, w2) \<Rightarrow> (phase_completed, vs, w2))"

definition phaseStartVM :: "'e MigrationReconciler \<Rightarrow> 'e handler" where
  "phaseStartVM r vs mctx w =
     (if plan_TargetPowerState (mc_Plan mctx) = TargetPowerStateStopped then (phase_completed, vs, w)
      else case GetVM (mc_NutanixClient mctx) (vs_ID vs) w of
          (Inl err, w1) \<Rightarrow> (phase_failed (errorf_w ''StartVM: get source VM: '' err), vs, w1)
        | (Inr vm, w1) \<Rightarrow>
            (case Get (kc_GetVirtualMachine (r_Client r) (plan_TargetNamespace (mc_Plan mctx))
                         (SanitizeName (vm_Name vm) None)) w1 of
               (Inl err, w2) \<Rightarrow> (phase_failed (errorf_w ''StartVM: get KubeVirt VM: '' err), vs, w2)
             | (Inr kvVM, w2) \<Rightarrow>
                 (case UpdateVM (r_Client r) (kvVM\<lparr>kv_RunStrategy := RunStrategyAlways\<rparr>) w2 of
                    (Some err, w3) \<Rightarrow> (phase_failed (errorf_w ''StartVM: update RunStrategy: '' err), vs, w3)
                  | (None, w3) \<Rightarrow> (phase_completed, vs, w3))))"

section \<open>Cleanup\<close>

definition phaseCleanup :: "'e handler" where
  "phaseCleanup vs mctx w =
     (let c = mc_NutanixClient mctx;
          ns = plan_TargetNamespace (mc_Plan mctx);
          w1 = for_each (try_DeleteImage c) (vs_ImageUUIDs vs) w;
          w2 = try_DeleteRecoveryPoint c (vs_SnapshotUUID vs) w1;
          w3 = snd (DeleteCredentialSecret (mc_TransferMgr mctx) (cred_secret_name (mc_Migration mctx)) ns w2);
          w4 = snd (DeleteCAConfigMap (mc_TransferMgr mctx) (ca_config_name (mc_Migration mctx)) ns w3)
      in (phase_completed, vs, w4))"

definition cleanup_warm :: "'e MigrationReconciler \<Rightarrow> 'e migrationContext \<Rightarrow> WarmMigrationStatus \<Rightarrow> 'e world \<Rightarrow> 'e world" where
  "cleanup_warm r mctx warm w =
     (let c = mc_NutanixClient mctx;
          ns = plan_TargetNamespace (mc_Plan mctx);
          w1 = (if ws_DeltaPodName warm \<noteq> [] then
                  try_Delete (r_Client r) KindConfigMap ns (ws_DeltaPodName warm @ ''-regions'')
                    (try_Delete (r_Client r) KindPod ns (ws_DeltaPodName warm) w)
                else w);
          w2 = for_each (try_DeleteImage c) (ws_DeltaImageUUIDs warm) w1;
          w3 = try_DeleteRecoveryPoint c (ws_DeltaSnapshotUUID warm) w2;
          w4 = for_each (try_DeleteImage c) (ws_BaseImageUUIDs warm) w3
      in try_DeleteRecoveryPoint c (ws_BaseSnapshotUUID warm) w4)"

definition cleanupFailedVM :: "'e MigrationReconciler \<Rightarrow> VMMigrationStatus \<Rightarrow> 'e migrationContext \<Rightarrow> 'e world \<Rightarrow> 'e world" where
  "cleanupFailedVM r vs mctx w =
     (let c = mc_NutanixClient mctx;
          ns = plan_TargetNamespace (mc_Plan mctx);
          w1 = for_each (try_Delete (r_Client r) KindDataVolume ns) (vs_DataVolumeNames vs) w;
          w2 = for_each (try_DeleteImage c) (vs_ImageUUIDs vs) w1;
          w3 = try_DeleteRecoveryPoint c (vs_SnapshotUUID vs) w2;
          w4 = (if vs_OriginalPowerState vs = PowerStateOn then snd (PowerOnVM c (vs_ID vs) w3) else w3)
      in case vs_Warm vs of None \<Rightarrow> w4 | Some warm \<Rightarrow> cleanup_warm r mctx warm w4)"

end
