(* ===== verification/Resource_Tracking.thy ===== *)
theory Resource_Tracking
  imports Migration_Phases
begin

text \<open>
  The temporary resources of a migration: Nutanix images and recovery points, DataVolumes, delta
  pods. A resource is live in a trace from its creation until a deletion of it is attempted
  (cleanup is best effort, so the result of the attempt does not matter), and it is tracked when
  the VM status holds the identifier a later cleanup needs. The contract of a phase handler, the
  locale \<open>phase_contract\<close>, says that a live resource is a tracked one, that the handler leaves alone
  the fields of the status the pipeline owns, and that it keeps what earlier phases recorded.
\<close>

datatype resource =
    RImage string
  | RSnapshot string
  | RVolume string string
  | RPod string string

fun created :: "effect \<Rightarrow> resource set" where
  "created (ECreateImage _ _ _ (Inr u)) = {RImage u}"
| "created (ECreateRecoveryPoint _ _ (Inr u)) = (if u = [] then {} else {RSnapshot u})"
| "created (ECreate (ObjDataVolume dv) None) = {RVolume (dv_Namespace dv) (dv_Name dv)}"
| "created (ECreate (ObjPod p) None) = {RPod (pod_Namespace p) (pod_Name p)}"
| "created _ = {}"

fun removed :: "effect \<Rightarrow> resource set" where
  "removed (EDeleteImage u _) = {RImage u}"
| "removed (EDeleteRecoveryPoint u _) = {RSnapshot u}"
| "removed (EDelete KindDataVolume ns n _) = {RVolume ns n}"
| "removed (EDelete KindPod ns n _) = {RPod ns n}"
| "removed _ = {}"

fun live :: "resource set \<Rightarrow> effect list \<Rightarrow> resource set" where
  "live S [] = S"
| "live S (e # es) = live ((S \<union> created e) - removed e) es"

text \<open>What really exists: a resource ends only with a deletion that was answered without an error. \<open>undeleted\<close> are the resources
  of the deletions that were not.\<close>

fun destroyed :: "effect \<Rightarrow> resource set" where
  "destroyed (EDeleteImage u None) = {RImage u}"
| "destroyed (EDeleteRecoveryPoint u None) = {RSnapshot u}"
| "destroyed (EDelete KindDataVolume ns n None) = {RVolume ns n}"
| "destroyed (EDelete KindPod ns n None) = {RPod ns n}"
| "destroyed _ = {}"

fun still_existing :: "resource set \<Rightarrow> effect list \<Rightarrow> resource set" where
  "still_existing S [] = S"
| "still_existing S (e # es) = still_existing ((S \<union> created e) - destroyed e) es"

definition undeleted :: "effect list \<Rightarrow> resource set" where
  "undeleted es = (\<Union>e \<in> set es. removed e - destroyed e)"

definition snapshot_set :: "string \<Rightarrow> resource set" where
  "snapshot_set u = (if u = [] then {} else {RSnapshot u})"

definition pod_set :: "string \<Rightarrow> string \<Rightarrow> resource set" where
  "pod_set ns n = (if n = [] then {} else {RPod ns n})"

definition tracked_warm :: "string \<Rightarrow> WarmMigrationStatus \<Rightarrow> resource set" where
  "tracked_warm ns warm =
     RImage ` set (ws_BaseImageUUIDs warm) \<union> RImage ` set (ws_DeltaImageUUIDs warm) \<union>
     snapshot_set (ws_BaseSnapshotUUID warm) \<union> snapshot_set (ws_DeltaSnapshotUUID warm) \<union>
     pod_set ns (ws_DeltaPodName warm)"

definition tracked :: "string \<Rightarrow> VMMigrationStatus \<Rightarrow> resource set" where
  "tracked ns vs =
     RImage ` set (vs_ImageUUIDs vs) \<union> snapshot_set (vs_SnapshotUUID vs) \<union>
     RVolume ns ` set (vs_DataVolumeNames vs) \<union>
     (case vs_Warm vs of None \<Rightarrow> {} | Some warm \<Rightarrow> tracked_warm ns warm)"

section \<open>Live resources\<close>

lemma live_append [simp]: "live S (a @ b) = live (live S a) b"
  by (induction a arbitrary: S) auto

lemma live_mono: "S \<subseteq> T \<Longrightarrow> live S es \<subseteq> live T es"
proof (induction es arbitrary: S T)
  case (Cons e es)
  have "(S \<union> created e) - removed e \<subseteq> (T \<union> created e) - removed e" using Cons.prems by blast
  then show ?case using Cons.IH by simp
qed simp

lemma live_Un: "live (S \<union> T) es \<subseteq> S \<union> live T es"
proof (induction es arbitrary: S T)
  case (Cons e es)
  have "live ((S \<union> T \<union> created e) - removed e) es \<subseteq> live (S \<union> ((T \<union> created e) - removed e)) es"
    by (rule live_mono) blast
  also have "\<dots> \<subseteq> S \<union> live ((T \<union> created e) - removed e) es" by (rule Cons.IH)
  finally show ?case by simp
qed simp

lemma still_existing_live: "still_existing S es \<subseteq> live S es \<union> undeleted es"
proof (induction es arbitrary: S)
  case (Cons e es)
  let ?T = "(S \<union> created e) - destroyed e" and ?L = "(S \<union> created e) - removed e"
  have "live ?T es \<subseteq> live ((removed e - destroyed e) \<union> ?L) es" by (rule live_mono) blast
  also have "\<dots> \<subseteq> (removed e - destroyed e) \<union> live ?L es" by (rule live_Un)
  finally show ?case using Cons.IH [of ?T] by (auto simp: undeleted_def)
qed (simp add: undeleted_def)

text \<open>A stretch of the trace that leaves at most \<open>X\<close> alive of what it creates.\<close>

definition adds :: "effect list \<Rightarrow> resource set \<Rightarrow> bool" where
  "adds es X = (\<forall>S. live S es \<subseteq> S \<union> X)"

lemma adds_Nil [simp]: "adds [] X"
  by (simp add: adds_def)

lemma adds_append: "adds a X \<Longrightarrow> adds b Y \<Longrightarrow> adds (a @ b) (X \<union> Y)"
  unfolding adds_def by (metis (no_types, lifting) Un_assoc live_append live_mono order_trans)

lemma adds_mono: "adds es X \<Longrightarrow> X \<subseteq> Y \<Longrightarrow> adds es Y"
  unfolding adds_def by blast

lemma adds_single: "created e \<subseteq> X \<Longrightarrow> adds [e] X"
  by (auto simp: adds_def)

fun is_deletion :: "effect \<Rightarrow> bool" where
  "is_deletion (EDeleteImage _ _) = True"
| "is_deletion (EDeleteRecoveryPoint _ _) = True"
| "is_deletion (EDelete _ _ _ _) = True"
| "is_deletion _ = False"

lemma is_deletion_created: "is_deletion e \<Longrightarrow> created e = {}"
  by (cases e rule: is_deletion.cases) auto

text \<open>A stretch of the trace that only deletes and attempts to remove all of \<open>X\<close>.\<close>

definition wipes :: "effect list \<Rightarrow> resource set \<Rightarrow> bool" where
  "wipes es X = ((\<forall>e \<in> set es. is_deletion e) \<and> X \<subseteq> (\<Union>e \<in> set es. removed e))"

lemma wipes_Nil [simp]: "wipes [] {}"
  by (simp add: wipes_def)

lemma wipes_append: "wipes a X \<Longrightarrow> wipes b Y \<Longrightarrow> wipes (a @ b) (X \<union> Y)"
  by (auto simp: wipes_def)

lemma live_without_creation:
  "\<forall>e \<in> set es. created e = {} \<Longrightarrow> live S es = S - (\<Union>e \<in> set es. removed e)"
  by (induction es arbitrary: S) auto

lemma adds_nothing: "\<forall>e \<in> set es. created e = {} \<Longrightarrow> adds es X"
  by (auto simp: adds_def live_without_creation)

lemma wipes_live: "wipes es X \<Longrightarrow> S \<subseteq> X \<Longrightarrow> live S es = {}"
  by (auto simp: wipes_def live_without_creation is_deletion_created)

section \<open>The contract of a phase handler\<close>

text \<open>The fields the pipeline owns.\<close>

definition same_identity :: "VMMigrationStatus \<Rightarrow> VMMigrationStatus \<Rightarrow> bool" where
  "same_identity vs vs' =
     (vs_ID vs' = vs_ID vs \<and> vs_Name vs' = vs_Name vs \<and> vs_Phase vs' = vs_Phase vs \<and>
      vs_Started vs' = vs_Started vs \<and> vs_Completed vs' = vs_Completed vs \<and> vs_Error vs' = vs_Error vs)"

text \<open>What a phase records stays recorded.\<close>

definition keeps_records :: "VMMigrationStatus \<Rightarrow> VMMigrationStatus \<Rightarrow> bool" where
  "keeps_records vs vs' =
     ((vs_OriginalPowerState vs \<noteq> [] \<longrightarrow> vs_OriginalPowerState vs' = vs_OriginalPowerState vs) \<and>
      (vs_SnapshotUUID vs \<noteq> [] \<longrightarrow> vs_SnapshotUUID vs' = vs_SnapshotUUID vs) \<and>
      (\<exists>images. vs_ImageUUIDs vs' = vs_ImageUUIDs vs @ images) \<and>
      (\<exists>names. vs_DataVolumeNames vs' = vs_DataVolumeNames vs @ names))"

definition tracks :: "string \<Rightarrow> VMMigrationStatus \<Rightarrow> 'e world \<Rightarrow> VMMigrationStatus \<Rightarrow> 'e world \<Rightarrow> bool" where
  "tracks ns vs w vs' w' =
     (\<exists>es. w_trace w' = w_trace w @ es \<and> live (tracked ns vs) es \<subseteq> tracked ns vs')"

definition phase_ok ::
  "string \<Rightarrow> VMMigrationStatus \<Rightarrow> 'e world \<Rightarrow> PhaseResult \<Rightarrow> VMMigrationStatus \<Rightarrow> 'e world \<Rightarrow> bool" where
  "phase_ok ns vs w res vs' w' =
     (same_identity vs vs' \<and> keeps_records vs vs' \<and> tracks ns vs w vs' w' \<and>
      \<not> (pr_Completed res \<and> pr_Error res \<noteq> None))"

lemma same_identity_refl [simp]: "same_identity vs vs"
  by (simp add: same_identity_def)

lemma same_identity_trans: "same_identity a b \<Longrightarrow> same_identity b c \<Longrightarrow> same_identity a c"
  by (simp add: same_identity_def)

lemma keeps_records_refl [simp]: "keeps_records vs vs"
  by (simp add: keeps_records_def)

lemma keeps_records_trans: "keeps_records a b \<Longrightarrow> keeps_records b c \<Longrightarrow> keeps_records a c"
  unfolding keeps_records_def by (metis append.assoc)

lemma tracks_refl [simp]: "tracks ns vs w vs w"
  by (auto simp: tracks_def)

lemma tracks_trans [trans]:
  assumes "tracks ns a w b w1" and "tracks ns b w1 c w2"
  shows "tracks ns a w c w2"
proof -
  obtain es es' where es: "w_trace w1 = w_trace w @ es" "live (tracked ns a) es \<subseteq> tracked ns b"
    "w_trace w2 = w_trace w1 @ es'" "live (tracked ns b) es' \<subseteq> tracked ns c"
    using assms by (auto simp: tracks_def)
  have "live (tracked ns a) (es @ es') \<subseteq> tracked ns c"
    using live_mono [OF es(2), of es'] es(4) by simp
  with es show ?thesis unfolding tracks_def by (metis append.assoc)
qed

lemma tracks_extends: "tracks ns a w b w' \<Longrightarrow> extends w w'"
  by (auto simp: tracks_def extends_def)

text \<open>A world that differs only in events, metrics or the environment.\<close>

lemma tracks_same_trace: "w_trace w' = w_trace w \<Longrightarrow> tracked ns a \<subseteq> tracked ns b \<Longrightarrow> tracks ns a w b w'"
  by (auto simp: tracks_def intro!: exI [of _ "[]"])

lemma tracks_effect:
  "w_trace w' = w_trace w @ [e] \<Longrightarrow> (tracked ns a \<union> created e) - removed e \<subseteq> tracked ns b \<Longrightarrow> tracks ns a w b w'"
  by (auto simp: tracks_def)

locale phase_contract =
  fixes ns :: string
    and runs :: "VMMigrationStatus \<Rightarrow> 'e world \<Rightarrow> PhaseResult \<Rightarrow> VMMigrationStatus \<Rightarrow> 'e world \<Rightarrow> bool"
  assumes runs_ok: "runs vs w res vs' w' \<Longrightarrow> phase_ok ns vs w res vs' w'"
begin

lemma live_stays_tracked:
  assumes "runs vs w res vs' w'" and "S \<subseteq> tracked ns vs"
  shows "live S (new_effects w w') \<subseteq> tracked ns vs'"
  using runs_ok [OF assms(1)] live_mono [OF assms(2)]
  by (fastforce simp: phase_ok_def tracks_def new_effects_append)

lemma runs_phase: "runs vs w res vs' w' \<Longrightarrow> vs_Phase vs' = vs_Phase vs"
  using runs_ok by (auto simp: phase_ok_def same_identity_def)

end

end
