(* ===== verification/Sample_Cluster.thy ===== *)
theory Sample_Cluster
  imports Migration_Phases
begin

text \<open>
  A small environment for the witnesses: a Prism Central that holds the fixture VM
  \<^const>\<open>vm_linux\<close>, obeys power operations and hands out fresh UUIDs, and a Kubernetes API that
  accepts every write, reports every DataVolume as imported and knows no Job, Hook or
  VirtualMachine. None of the properties depends on it.
\<close>

record sim =
  sim_On :: bool
  sim_Next :: nat

definition sim_fresh :: "string \<Rightarrow> sim \<Rightarrow> (go_error + string) \<times> sim" where
  "sim_fresh prefix e = (Inr (prefix @ show_nat (sim_Next e)), e\<lparr>sim_Next := Suc (sim_Next e)\<rparr>)"

abbreviation not_found :: "'a \<Rightarrow> (go_error + 'b) \<times> 'a" where
  "not_found e \<equiv> (Inl (GoError ReasonNotFound ''not found''), e)"

definition sim_nx :: "sim NutanixClient" where
  "sim_nx =
     \<lparr>nx_GetVM = (\<lambda>u e. (Inr vm_linux, e)),
      nx_PowerOffVM = (\<lambda>u e. (None, e\<lparr>sim_On := False\<rparr>)),
      nx_PowerOnVM = (\<lambda>u e. (None, e\<lparr>sim_On := True\<rparr>)),
      nx_GetVMPowerState = (\<lambda>u e. (Inr (if sim_On e then PowerStateOn else PowerStateOff), e)),
      nx_CreateRecoveryPoint = (\<lambda>u n. sim_fresh ''rp-''),
      nx_DeleteRecoveryPoint = (\<lambda>u e. (None, e)),
      nx_CreateImageFromDisk = (\<lambda>n u c. sim_fresh ''img-''),
      nx_DeleteImage = (\<lambda>u e. (None, e)),
      nx_DiscoverClusterForCBT = (\<lambda>u e. (Inr \<lparr>cbt_PrismElementURL = ''https://pe'', cbt_JWTToken = ''jwt''\<rparr>, e)),
      nx_GetChangedRegions = (\<lambda>p j u s b off len bs e.
        (Inr \<lparr>crs_Regions = (if s = b then [] else [\<lparr>cr_Offset = 0, cr_Length = 65536\<rparr>]), crs_NextOffset = None\<rparr>, e)),
      nx_ListVMs = (\<lambda>e. (Inr defaultVMs, e)), nx_ListSubnets = (\<lambda>e. (Inr defaultSubnets, e)),
      nx_ListClusters = (\<lambda>e. (Inr defaultClusters, e)),
      nx_ListStorageContainers = (\<lambda>u e. (Inr defaultStorageContainers, e))\<rparr>"

definition sim_provider :: NutanixProvider where
  "sim_provider =
     \<lparr>prov_Name = ''my-nutanix'', prov_Namespace = ''vma'', prov_Generation = 1, prov_Finalizers = [],
      prov_DeletionTimestamp = None, prov_URL = ''https://prism:9440'', prov_SecretRef = ''creds'',
      prov_RefreshInterval = ''5m'', prov_InsecureSkipVerify = True, prov_Phase = ProviderPhaseConnected,
      prov_VMCount = 3, prov_Conditions = []\<rparr>"

definition sim_secret :: Secret where
  "sim_secret = \<lparr>sec_Name = ''creds'', sec_Namespace = ''vma'', sec_OwnerReferences = [],
     sec_Data = [(''username'', ''admin''), (''password'', ''secret'')]\<rparr>"

definition sim_plan :: "MigrationType \<Rightarrow> TargetPowerState \<Rightarrow> MigrationPlan" where
  "sim_plan ty target =
     \<lparr>plan_Name = ''plan'', plan_Namespace = ''vma'', plan_Generation = 1, plan_ProviderRef = ''my-nutanix'',
      plan_TargetNamespace = ''apps'', plan_Type = ty, plan_NetworkMapRef = ''my-network-map'',
      plan_StorageMapRef = ''my-storage-map'',
      plan_VMs = [\<lparr>pvm_ID = ''vm-uuid-001'', pvm_Name = ''test-vm-linux'', pvm_Hooks = []\<rparr>],
      plan_MaxInFlight = 1, plan_TargetPowerState = target, plan_WarmConfig = None,
      plan_Phase = PlanPhaseReady, plan_StatusVMs = [], plan_Conditions = []\<rparr>"

definition sim_migration :: Migration where
  "sim_migration =
     \<lparr>mig_Name = ''mig'', mig_Namespace = ''vma'', mig_UID = ''uid-1'', mig_Generation = 1,
      mig_Finalizers = [''vma.nutanix.io/migration-protection''], mig_DeletionTimestamp = None,
      mig_PlanRef = ''plan'', mig_Cutover = None, mig_Cancel = [], mig_Phase = MigrationPhaseNone,
      mig_Started = None, mig_Completed = None, mig_VMs = [], mig_Conditions = []\<rparr>"

definition sim_kube :: "MigrationPlan \<Rightarrow> 'e KubeClient" where
  "sim_kube plan =
     \<lparr>kc_Create = (\<lambda>obj e. (None, e)), kc_Delete = (\<lambda>kind ns n e. (None, e)), kc_UpdateVM = (\<lambda>v e. (None, e)),
      kc_UpdateMigration = (\<lambda>m e. (None, e)), kc_StatusUpdateMigration = (\<lambda>m e. (None, e)),
      kc_GetMigration = (\<lambda>ns n e. (Inr sim_migration, e)), kc_GetPlan = (\<lambda>ns n e. (Inr plan, e)),
      kc_GetProvider = (\<lambda>ns n e. (Inr sim_provider, e)), kc_GetSecret = (\<lambda>ns n e. (Inr sim_secret, e)),
      kc_GetNetworkMap = (\<lambda>ns n e. (Inr sample_network_map, e)),
      kc_GetStorageMap = (\<lambda>ns n e. (Inr sample_storage_map, e)),
      kc_GetVirtualMachine = (\<lambda>ns n. not_found),
      kc_GetDataVolume = (\<lambda>ns n e. (Inr (DVSucceeded, ''100.0%''), e)),
      kc_GetPod = (\<lambda>ns n e. (Inr PodSucceeded, e)),
      kc_GetJob = (\<lambda>ns n. not_found), kc_GetHook = (\<lambda>ns n. not_found),
      kc_StatusUpdatePlan = (\<lambda>p e. (None, e)), kc_UpdateProvider = (\<lambda>p e. (None, e)),
      kc_StatusUpdateProvider = (\<lambda>p e. (None, e)), kc_ListPlans = (\<lambda>ns e. (Inr [plan], e)),
      kc_GetNamespace = (\<lambda>n e. (Inr (), e)), kc_GetStorageClass = (\<lambda>n e. (Inr (), e)),
      kc_GetNetworkAttachment = (\<lambda>ns n e. (Inr (), e)), kc_GetCRD = (\<lambda>n e. (Inr (), e))\<rparr>"

definition sim_reconciler :: "MigrationPlan \<Rightarrow> sim MigrationReconciler" where
  "sim_reconciler plan =
     \<lparr>r_Client = sim_kube plan, r_ClientFactory = (\<lambda>cfg. Inr sim_nx), r_Recorder = True, r_Now = (\<lambda>e. (1000, e))\<rparr>"

definition sim_mctx :: "MigrationPlan \<Rightarrow> sim migrationContext" where
  "sim_mctx plan =
     \<lparr>mc_NutanixClient = sim_nx, mc_Plan = plan, mc_NetworkMap = sample_network_map,
      mc_StorageMap = sample_storage_map, mc_Provider = sim_provider, mc_Migration = sim_migration,
      mc_Secret = sim_secret,
      mc_TransferMgr = \<lparr>tm_Client = sim_kube plan, tm_PrismURL = ''https://prism:9440'', tm_Username = ''admin'',
        tm_Password = ''secret'', tm_CACert = [], tm_Insecure = True\<rparr>\<rparr>"

definition sim_world :: "bool \<Rightarrow> sim world" where
  "sim_world on =
     \<lparr>w_env = \<lparr>sim_On = on, sim_Next = 1\<rparr>, w_trace = [], w_events = [],
      w_metrics = \<lparr>met_MigrationsTotal = (\<lambda>_. 0), met_MigrationDurationSeconds = [],
        met_DiskTransferBytes = (\<lambda>_. 0), met_ActiveMigrations = 0\<rparr>\<rparr>"

definition sim_status :: "VMMigrationPhase \<Rightarrow> VMMigrationStatus" where
  "sim_status ph = (new_VMMigrationStatus ''vm-uuid-001'' ''test-vm-linux'')\<lparr>vs_Phase := ph\<rparr>"

lemmas sim_defs =
  sim_fresh_def sim_nx_def sim_provider_def sim_secret_def sim_plan_def sim_migration_def sim_kube_def
  sim_reconciler_def sim_mctx_def sim_world_def sim_status_def new_VMMigrationStatus_def

end
