(* ===== verification/Cold_Contract.thy ===== *)
theory Cold_Contract
  imports Resource_Tracking Sample_Cluster
begin

text \<open>
  The cold handlers of \<open>Migration_Phases\<close> meet the contract of \<open>Resource_Tracking\<close>, and what each
  of them achieves when it completes: which image belongs to which disk after the export, that the
  import completes only when every DataVolume was observed in phase \<^verbatim>\<open>Succeeded\<close>, and what the two
  cleanups attempt.
\<close>

section \<open>Tracking, call by call\<close>

lemma tracks_adds:
  assumes "w_trace w' = w_trace w @ es" and "adds es X" and "tracked ns vs \<union> X \<subseteq> tracked ns vs'"
  shows "tracks ns vs w vs' w'"
  using assms unfolding tracks_def adds_def by (metis order_trans)

lemma tracks_inert:
  "w_trace w' = w_trace w @ es \<Longrightarrow> \<forall>e \<in> set es. created e = {} \<Longrightarrow> tracks ns vs w vs w'"
  by (rule tracks_adds [where X = "{}"]) (auto intro: adds_nothing)

lemma export_loop_spec:
  assumes "export_loop c name uuid_of cluster i disks images w = (err, images', w')"
  shows "\<exists>es more. w_trace w' = w_trace w @ es \<and> images' = images @ more \<and> adds es (RImage ` set more)"
  using assms
proof (induction disks arbitrary: i images w)
  case (Cons disk disks)
  show ?case
  proof (cases "i < length images")
    case True
    then show ?thesis using Cons.IH [of "Suc i" images w] Cons.prems by simp
  next
    case False
    obtain r w1 where call: "CreateImageFromDisk c (name i) (uuid_of disk) cluster w = (r, w1)" by fastforce
    note t1 = call_trace(7) [OF call]
    show ?thesis
    proof (cases r)
      case (Inl e)
      then show ?thesis using Cons.prems False call t1 by (auto intro: adds_single)
    next
      case (Inr u)
      then have "export_loop c name uuid_of cluster (Suc i) disks (images @ [u]) w1 = (err, images', w')"
        using Cons.prems False call by simp
      then obtain es more where es: "w_trace w' = w_trace w1 @ es" "images' = (images @ [u]) @ more"
        "adds es (RImage ` set more)" using Cons.IH by blast
      have "adds ([ECreateImage (name i) (uuid_of disk) cluster r] @ es) ({RImage u} \<union> RImage ` set more)"
        using es(3) by (intro adds_append) (simp_all add: Inr adds_single)
      with es t1 show ?thesis
        by (intro exI [of _ "ECreateImage (name i) (uuid_of disk) cluster r # es"] exI [of _ "u # more"]) simp
    qed
  qed
qed auto

lemma create_dvs_loop_spec:
  assumes "create_dvs_loop m opts i images names w = (err, names', w')"
    and "\<And>i u. dvo_Namespace (opts i u) = ns"
  shows "\<exists>es more. w_trace w' = w_trace w @ es \<and> names' = names @ more \<and> adds es (RVolume ns ` set more)"
  using assms(1)
proof (induction images arbitrary: i names w)
  case (Cons u images)
  show ?case
  proof (cases "i < length names")
    case True
    then show ?thesis using Cons.IH [of "Suc i" names w] Cons.prems by simp
  next
    case False
    let ?dv = "BuildDataVolume (opts i u)"
    obtain r w1 where call: "CreateDataVolume m (opts i u) w = (r, w1)" by fastforce
    obtain r' where t1: "w_trace w1 = w_trace w @ [ECreate (ObjDataVolume ?dv) r']" "r = ignore_exists r'"
      using manager_trace(3) [OF call] by blast
    have one: "adds [ECreate (ObjDataVolume ?dv) r'] {RVolume ns (dvo_Name (opts i u))}"
      by (rule adds_single, cases r') (simp_all add: BuildDataVolume_def assms(2))
    show ?thesis
    proof (cases r)
      case (Some e)
      have "adds [ECreate (ObjDataVolume ?dv) r'] {}"
        by (rule adds_single) (use Some t1(2) in \<open>cases r'; simp add: ignore_exists_def\<close>)
      then show ?thesis using Cons.prems False call t1(1) Some by auto
    next
      case None
      then have "create_dvs_loop m opts (Suc i) images (names @ [dvo_Name (opts i u)]) w1 = (err, names', w')"
        using Cons.prems False call by simp
      then obtain es more where es: "w_trace w' = w_trace w1 @ es"
        "names' = (names @ [dvo_Name (opts i u)]) @ more" "adds es (RVolume ns ` set more)" using Cons.IH by blast
      from adds_append [OF one es(3)] es t1(1) show ?thesis
        by (intro exI [of _ "ECreate (ObjDataVolume ?dv) r' # es"] exI [of _ "dvo_Name (opts i u) # more"]) simp
    qed
  qed
qed auto

text \<open>
  Polling: nothing is created, and the result is \<^verbatim>\<open>Completed\<close> only if every DataVolume of the list
  was seen in phase \<^verbatim>\<open>Succeeded\<close>.
\<close>

definition saw_succeeded :: "string \<Rightarrow> string \<Rightarrow> effect list \<Rightarrow> bool" where
  "saw_succeeded ns n es = (\<exists>p. EDataVolume ns n (Inr (DVSucceeded, p)) \<in> set es)"

lemma poll_dvs_loop_spec:
  assumes "poll_dvs_loop m ns pp fp names ok w = (res, w')"
  shows "\<exists>es. w_trace w' = w_trace w @ es \<and> (\<forall>e \<in> set es. created e = {}) \<and>
     \<not> (pr_Completed res \<and> pr_Error res \<noteq> None) \<and>
     (pr_Completed res \<longrightarrow> ok \<and> (\<forall>n \<in> set names. saw_succeeded ns n es))"
  using assms
proof (induction names arbitrary: ok w)
  case (Cons n names)
  obtain r w1 where call: "GetDataVolumeProgress m n ns w = (r, w1)" by fastforce
  obtain p where t1: "w_trace w1 = w_trace w @ [EDataVolume ns n p]"
    and p: "case r of Inl e \<Rightarrow> p = Inl e | Inr q \<Rightarrow> p = Inr (dvp_Phase q, dvp_Progress q)"
    using manager_trace(4) [OF call] by blast
  consider (rec) ok' where "poll_dvs_loop m ns pp fp names ok' w1 = (res, w')"
      "ok' \<longrightarrow> ok \<and> saw_succeeded ns n [EDataVolume ns n p]"
    | (stop) "w' = w1" "\<not> pr_Completed res"
    using Cons.prems call p
    by (auto split: sum.splits if_splits DataVolumePhase.splits simp: saw_succeeded_def)
  then show ?case
  proof cases
    case rec
    then obtain es where es: "w_trace w' = w_trace w1 @ es" "\<forall>e \<in> set es. created e = {}"
      "\<not> (pr_Completed res \<and> pr_Error res \<noteq> None)"
      "pr_Completed res \<longrightarrow> ok' \<and> (\<forall>n \<in> set names. saw_succeeded ns n es)" using Cons.IH by blast
    with rec(2) t1 show ?thesis
      by (intro exI [of _ "EDataVolume ns n p # es"]) (auto simp: saw_succeeded_def)
  next
    case stop
    with t1 show ?thesis by (intro exI [of _ "[EDataVolume ns n p]"]) auto
  qed
qed (auto split: if_splits)

lemma record_disk_bytes_trace [simp]: "w_trace (record_disk_bytes n ds w) = w_trace w"
  by (induction ds arbitrary: w) auto


section \<open>The handlers\<close>

lemma created_ok [simp]: "created (ECreate (ObjSecret s) r) = {}" "created (ECreate (ObjConfigMap cm) r) = {}"
  "created (ECreate (ObjVirtualMachine v) r) = {}" "created (ECreate (ObjJob j) r) = {}"
  "created (ECreate obj (Some err)) = {}" "created (ECreateImage n u c (Inl err)) = {}"
  "created (ECreateRecoveryPoint u n (Inl err)) = {}"
  by ((cases r; simp) | (cases obj; simp))+

lemma tracked_update [simp]:
  "tracked ns (vs\<lparr>vs_OriginalPowerState := s\<rparr>) = tracked ns vs"
  "tracked ns (vs\<lparr>vs_ImageUUIDs := vs_ImageUUIDs vs @ images\<rparr>) = tracked ns vs \<union> RImage ` set images"
  "tracked ns (vs\<lparr>vs_DataVolumeNames := vs_DataVolumeNames vs @ names\<rparr>) = tracked ns vs \<union> RVolume ns ` set names"
  "vs_SnapshotUUID vs = [] \<Longrightarrow> tracked ns (vs\<lparr>vs_SnapshotUUID := u\<rparr>) = tracked ns vs \<union> snapshot_set u"
  by (auto simp: tracked_def snapshot_set_def)

lemma keeps_update [simp]:
  "keeps_records vs (vs\<lparr>vs_ImageUUIDs := vs_ImageUUIDs vs @ images\<rparr>)"
  "keeps_records vs (vs\<lparr>vs_DataVolumeNames := vs_DataVolumeNames vs @ names\<rparr>)"
  "vs_OriginalPowerState vs = [] \<Longrightarrow> keeps_records vs (vs\<lparr>vs_OriginalPowerState := s\<rparr>)"
  "vs_SnapshotUUID vs = [] \<Longrightarrow> keeps_records vs (vs\<lparr>vs_SnapshotUUID := u\<rparr>)"
  by (auto simp: keeps_records_def)

lemma same_identity_update [simp]:
  "same_identity vs (vs\<lparr>vs_ImageUUIDs := images\<rparr>)"
  "same_identity vs (vs\<lparr>vs_DataVolumeNames := names\<rparr>)"
  "same_identity vs (vs\<lparr>vs_OriginalPowerState := s\<rparr>)"
  "same_identity vs (vs\<lparr>vs_SnapshotUUID := u\<rparr>)"
  "same_identity vs (vs\<lparr>vs_Warm := warm\<rparr>)"
  by (simp_all add: same_identity_def)

text \<open>A handler that leaves the status alone and creates no temporary resource.\<close>

lemma phase_ok_inert:
  assumes "w_trace w' = w_trace w @ es" and "\<forall>e \<in> set es. created e = {}"
    and "\<not> (pr_Completed res \<and> pr_Error res \<noteq> None)"
  shows "phase_ok ns vs w res vs w'"
  using tracks_inert [OF assms(1,2)] assms(3) by (auto simp: phase_ok_def)

lemmas phase_ok_no_effect = phase_ok_inert [where es = "[]", simplified]
lemmas phase_ok_one_effect = phase_ok_inert [where es = "[e]" for e, simplified]

lemma phase_ok_snapshot:
  assumes "vs_SnapshotUUID vs = []" and "w_trace w' = w_trace w @ [ECreateRecoveryPoint vid name (Inr u)]"
  shows "phase_ok ns vs w phase_completed (vs\<lparr>vs_SnapshotUUID := u\<rparr>) w'"
  using assms tracks_adds [OF assms(2), where X = "snapshot_set u"]
  by (simp add: phase_ok_def adds_single snapshot_set_def)

interpretation store_power: phase_contract ns "\<lambda>vs w res vs' w'. phaseStorePowerState vs mctx w = (res, vs', w')"
  by unfold_locales
    (auto simp: phaseStorePowerState_def phase_ok_def dest!: call_trace
      split: if_splits prod.splits sum.splits intro: tracks_inert tracks_effect)

interpretation power_off: phase_contract ns "\<lambda>vs w res vs' w'. phasePowerOff vs mctx w = (res, vs', w')"
  by unfold_locales
    (auto simp: phasePowerOff_def dest!: call_trace split: if_splits prod.splits option.splits
      intro: phase_ok_no_effect phase_ok_one_effect)

interpretation wait_off: phase_contract ns "\<lambda>vs w res vs' w'. phaseWaitForPowerOff vs mctx w = (res, vs', w')"
  by unfold_locales
    (auto simp: phaseWaitForPowerOff_def dest!: call_trace split: if_splits prod.splits sum.splits
      intro: phase_ok_one_effect)

interpretation snapshot: phase_contract ns "\<lambda>vs w res vs' w'. phaseCreateSnapshot vs mctx w = (res, vs', w')"
  by unfold_locales
    (auto simp: phaseCreateSnapshot_def dest!: call_trace split: if_splits prod.splits sum.splits
      intro: phase_ok_no_effect phase_ok_one_effect phase_ok_snapshot)

lemma phaseExportDisks_ok:
  assumes "phaseExportDisks vs mctx w = (res, vs', w')"
  shows "phase_ok ns vs w res vs' w'"
proof -
  obtain g w1 where get: "GetVM (mc_NutanixClient mctx) (vs_ID vs) w = (g, w1)" by fastforce
  note t1 = call_trace(1) [OF get]
  show ?thesis
  proof (cases "\<exists>vm. g = Inr vm \<and> length (vs_ImageUUIDs vs) < length (filterDataDisks (vm_Disks vm))")
    case False
    then have "vs' = vs" "w' = w1" "\<not> (pr_Completed res \<and> pr_Error res \<noteq> None)"
      using assms get by (auto simp: phaseExportDisks_def Let_def split: sum.splits if_splits)
    then show ?thesis using t1 phase_ok_no_effect by metis
  next
    case True
    then obtain vm where vm: "g = Inr vm" "length (vs_ImageUUIDs vs) < length (filterDataDisks (vm_Disks vm))"
      by blast
    obtain err images w2 where loop: "export_loop (mc_NutanixClient mctx) (disk_object_name (mc_Migration mctx) vs)
        export_disk_uuid (cluster_ref vm) 0 (filterDataDisks (vm_Disks vm)) (vs_ImageUUIDs vs) w1 = (err, images, w2)"
      by (rule prod_cases3)
    have out: "vs' = vs\<lparr>vs_ImageUUIDs := images\<rparr>" "w' = w2" "\<not> (pr_Completed res \<and> pr_Error res \<noteq> None)"
      using assms get vm loop by (cases err; auto simp: phaseExportDisks_def)+
    obtain es more where es: "w_trace w2 = w_trace w1 @ es" "images = vs_ImageUUIDs vs @ more"
      "adds es (RImage ` set more)" using export_loop_spec [OF loop] by blast
    then have "tracks ns vs w vs' w'" using t1 out by (intro tracks_adds [OF _ es(3)]) simp_all
    then show ?thesis using out es(2) by (auto simp: phase_ok_def)
  qed
qed

interpretation export: phase_contract ns "\<lambda>vs w res vs' w'. phaseExportDisks vs mctx w = (res, vs', w')"
  by unfold_locales (rule phaseExportDisks_ok)


lemma nth_Cons_shift: "i < j \<Longrightarrow> (x # xs) ! (j - i) = xs ! (j - Suc i)"
  by (cases "j - i") (auto simp: diff_Suc split: nat.splits)

lemma create_dvs_loop_done:
  assumes "create_dvs_loop m opts i images names w = (None, names', w')" and "i \<le> length names"
    and "length names \<le> i + length images"
  shows "names' = names @ map (\<lambda>j. dvo_Name (opts j (images ! (j - i)))) [length names..<i + length images]"
  using assms
proof (induction images arbitrary: i names w)
  case (Cons u images)
  have shift: "[length xs..<Suc i + length images] = [length xs..<i + length (u # images)]" for xs :: "string list"
    by simp
  show ?case
  proof (cases "i < length names")
    case True
    then have "names' = names @ map (\<lambda>j. dvo_Name (opts j (images ! (j - Suc i)))) [length names..<Suc i + length images]"
      using Cons.IH [of "Suc i" names w] Cons.prems by simp
    moreover have "(u # images) ! (j - i) = images ! (j - Suc i)" if "j \<in> set [length names..<i + length (u # images)]" for j
      using that True by (intro nth_Cons_shift) auto
    ultimately show ?thesis unfolding shift by (simp cong: map_cong)
  next
    case False
    with Cons.prems(2) have i: "i = length names" by simp
    obtain r w1 where call: "CreateDataVolume m (opts i u) w = (r, w1)" by fastforce
    with Cons.prems(1) False have "r = None"
      and rec: "create_dvs_loop m opts (Suc i) images (names @ [dvo_Name (opts i u)]) w1 = (None, names', w')"
      by (auto split: option.splits)
    have "names' = (names @ [dvo_Name (opts i u)]) @
        map (\<lambda>j. dvo_Name (opts j (images ! (j - Suc i)))) [Suc i..<Suc i + length images]"
      using Cons.IH [OF rec] i by simp
    moreover have "(u # images) ! (j - i) = images ! (j - Suc i)" if "j \<in> set [Suc i..<Suc i + length images]" for j
      using that by (simp add: nth_Cons_shift del: upt_Suc)
    moreover have "[length names..<i + length (u # images)] = i # [Suc i..<Suc i + length images]"
      by (simp add: i upt_conv_Cons del: upt_Suc)
    ultimately show ?thesis by (simp cong: map_cong del: upt_Suc)
  qed
qed simp

lemma export_loop_done:
  assumes "export_loop c name uuid_of cluster i disks images w = (None, images', w')" and "i \<le> length images"
    and "length images \<le> i + length disks"
  shows "length images' = i + length disks \<and>
    w_trace w' = w_trace w @ map (\<lambda>j. ECreateImage (name j) (uuid_of (disks ! (j - i))) cluster (Inr (images' ! j)))
                               [length images..<i + length disks]"
  using assms
proof (induction disks arbitrary: i images w)
  case (Cons d disks)
  let ?eff = "\<lambda>ds k j. ECreateImage (name j) (uuid_of (ds ! (j - k))) cluster (Inr (images' ! j))"
  have later: "?eff (d # disks) i j = ?eff disks (Suc i) j" if "i < j" for j
    using that by (simp add: nth_Cons_shift del: upt_Suc)
  show ?case
  proof (cases "i < length images")
    case True
    then have "length images' = Suc i + length disks \<and>
        w_trace w' = w_trace w @ map (?eff disks (Suc i)) [length images..<Suc i + length disks]"
      using Cons.IH [of "Suc i" images w] Cons.prems by simp
    moreover have "map (?eff disks (Suc i)) [length images..<Suc i + length disks] =
        map (?eff (d # disks) i) [length images..<i + length (d # disks)]"
      using True by (auto intro!: map_cong simp: later simp del: upt_Suc)
    ultimately show ?thesis by simp
  next
    case False
    with Cons.prems(2) have i: "i = length images" by simp
    obtain r w1 where call: "CreateImageFromDisk c (name i) (uuid_of d) cluster w = (r, w1)" by fastforce
    with Cons.prems(1) False obtain u where u: "r = Inr u"
      and rec: "export_loop c name uuid_of cluster (Suc i) disks (images @ [u]) w1 = (None, images', w')"
      by (auto split: sum.splits)
    have IH: "length images' = Suc i + length disks"
      "w_trace w' = w_trace w1 @ map (?eff disks (Suc i)) [Suc i..<Suc i + length disks]"
      using Cons.IH [OF rec] i by simp_all
    obtain more where "images' = (images @ [u]) @ more" using export_loop_spec [OF rec] by blast
    then have "images' ! i = u" using i by (simp add: nth_append)
    moreover have "map (?eff (d # disks) i) [Suc i..<Suc i + length disks] = map (?eff disks (Suc i)) [Suc i..<Suc i + length disks]"
      by (auto intro!: map_cong simp: later simp del: upt_Suc)
    moreover have "[length images..<i + length (d # disks)] = i # [Suc i..<Suc i + length disks]"
      by (simp add: i upt_conv_Cons del: upt_Suc)
    ultimately show ?thesis using IH call_trace(7) [OF call] u by (simp del: upt_Suc)
  qed
qed simp


section \<open>Volumes\<close>

lemma dv_options_fields [simp]:
  "dvo_Namespace (dv_options mctx vs size_of ds cert i u) = plan_TargetNamespace (mc_Plan mctx)"
  "dvo_Name (dv_options mctx vs size_of ds cert i u) = disk_object_name (mc_Migration mctx) vs i"
  by (simp_all add: dv_options_def Let_def split: prod.splits)

text \<open>The two objects that precede the DataVolumes: neither is a temporary resource of the VM.\<close>

lemma create_ca_spec:
  assumes "create_ca mctx w = (err, cert, w')"
  shows "\<exists>es. w_trace w' = w_trace w @ es \<and> (\<forall>e \<in> set es. created e = {})"
  using assms manager_trace(2)
  by (fastforce simp: create_ca_def Let_def split: if_splits prod.splits)

lemma create_volumes_spec:
  assumes "create_volumes p dp size_of ds vs mctx w = (err, vs', w')"
  shows "\<exists>es names. w_trace w' = w_trace w @ es \<and>
      vs' = vs\<lparr>vs_DataVolumeNames := vs_DataVolumeNames vs @ names\<rparr> \<and>
      adds es (RVolume (plan_TargetNamespace (mc_Plan mctx)) ` set names) \<and>
      (err = None \<longrightarrow> names = map (disk_object_name (mc_Migration mctx) vs)
         [length (vs_DataVolumeNames vs)..<length (vs_ImageUUIDs vs)])"
proof -
  let ?ns = "plan_TargetNamespace (mc_Plan mctx)"
  let ?mig = "mc_Migration mctx" and ?mgr = "mc_TransferMgr mctx"
  obtain r1 w1 where c1: "CreateCredentialSecret ?mgr (cred_secret_name ?mig) ?ns (migration_owner ?mig) w = (r1, w1)"
    by fastforce
  obtain s r1' where t1: "w_trace w1 = w_trace w @ [ECreate (ObjSecret s) r1']"
    using manager_trace(1) [OF c1] by blast
  have a1: "adds [ECreate (ObjSecret s) r1'] {}" by (rule adds_single) simp
  obtain r2 cert w2 where c2: "create_ca mctx w1 = (r2, cert, w2)" by (rule prod_cases3)
  obtain es2 where t2: "w_trace w2 = w_trace w1 @ es2" and a2: "adds es2 {}"
    using create_ca_spec [OF c2] adds_nothing by blast
  let ?opts = "dv_options mctx vs size_of ds cert"
  obtain r3 names w3 where c3: "create_dvs_loop ?mgr ?opts 0 (vs_ImageUUIDs vs) (vs_DataVolumeNames vs) w2 = (r3, names, w3)"
    by (rule prod_cases3)
  obtain es3 more where t3: "w_trace w3 = w_trace w2 @ es3" "names = vs_DataVolumeNames vs @ more"
    "adds es3 (RVolume ?ns ` set more)" using create_dvs_loop_spec [OF c3] by auto
  note run = assms [unfolded create_volumes_def c1 prod.case]
  show ?thesis
  proof (cases "r1 = None \<and> r2 = None \<and> length (vs_DataVolumeNames vs) < length (vs_ImageUUIDs vs)")
    case True
    then have out: "vs' = vs\<lparr>vs_DataVolumeNames := names\<rparr>" "w' = w3" "err = None \<longleftrightarrow> r3 = None"
      using run c2 c3 by (simp_all split: option.splits prod.splits) auto
    have "r3 = None \<longrightarrow> more = map (disk_object_name ?mig vs) [length (vs_DataVolumeNames vs)..<length (vs_ImageUUIDs vs)]"
      using create_dvs_loop_done [of ?mgr ?opts 0 "vs_ImageUUIDs vs" "vs_DataVolumeNames vs" w2 names w3] c3 t3(2) True
      by auto
    with out t1 t2 t3 adds_append [OF adds_append [OF a1 a2] t3(3)] show ?thesis
      by (intro exI [of _ "ECreate (ObjSecret s) r1' # es2 @ es3"] exI [of _ more]) simp
  next
    case False
    then have out: "vs' = vs" "w' = (if r1 = None then w2 else w1)"
      "err = None \<longrightarrow> length (vs_ImageUUIDs vs) \<le> length (vs_DataVolumeNames vs)"
      using run c2 by (auto split: option.splits if_splits)
    with t1 t2 a1 adds_append [OF a1 a2] show ?thesis
      by (intro exI [of _ "ECreate (ObjSecret s) r1' # (if r1 = None then es2 else [])"] exI [of _ "[]"]) auto
  qed
qed


lemma pollDataVolumes_ok:
  assumes "pollDataVolumes vs mctx w = (res, vs', w')"
  shows "phase_ok ns vs w res vs' w'"
    and "vs' = vs"
    and "pr_Completed res \<Longrightarrow>
      \<forall>n \<in> set (vs_DataVolumeNames vs). saw_succeeded (plan_TargetNamespace (mc_Plan mctx)) n (new_effects w w')"
proof -
  have vs: "vs' = vs" and poll: "poll_dvs_loop (mc_TransferMgr mctx) (plan_TargetNamespace (mc_Plan mctx))
      ''poll DV '' ''DataVolume '' (vs_DataVolumeNames vs) True w = (res, w')"
    using assms by (auto simp: pollDataVolumes_def split: prod.splits)
  obtain es where es: "w_trace w' = w_trace w @ es" "\<forall>e \<in> set es. created e = {}"
    "\<not> (pr_Completed res \<and> pr_Error res \<noteq> None)"
    "pr_Completed res \<longrightarrow> (\<forall>n \<in> set (vs_DataVolumeNames vs). saw_succeeded (plan_TargetNamespace (mc_Plan mctx)) n es)"
    using poll_dvs_loop_spec [OF poll] by blast
  show "vs' = vs" by (rule vs)
  show "phase_ok ns vs w res vs' w'" unfolding vs by (rule phase_ok_inert [OF es(1-3)])
  show "\<forall>n \<in> set (vs_DataVolumeNames vs). saw_succeeded (plan_TargetNamespace (mc_Plan mctx)) n (new_effects w w')"
    if "pr_Completed res" using es that by (simp add: new_effects_append)
qed

lemma phaseImportDisks_run:
  assumes "phaseImportDisks vs mctx w = (res, vs', w')"
  shows "\<exists>es names. w_trace w' = w_trace w @ es \<and>
      vs' = vs\<lparr>vs_DataVolumeNames := vs_DataVolumeNames vs @ names\<rparr> \<and>
      adds es (RVolume (plan_TargetNamespace (mc_Plan mctx)) ` set names) \<and>
      \<not> (pr_Completed res \<and> pr_Error res \<noteq> None) \<and>
      (pr_Completed res \<longrightarrow>
        names = map (disk_object_name (mc_Migration mctx) vs)
           [length (vs_DataVolumeNames vs)..<length (vs_ImageUUIDs vs)] \<and>
        (\<forall>n \<in> set (vs_DataVolumeNames vs'). saw_succeeded (plan_TargetNamespace (mc_Plan mctx)) n es))"
proof -
  let ?ns = "plan_TargetNamespace (mc_Plan mctx)"
  obtain g w1 where get: "GetVM (mc_NutanixClient mctx) (vs_ID vs) w = (g, w1)" by fastforce
  note t1 = call_trace(1) [OF get]
  show ?thesis
  proof (cases g)
    case (Inl e)
    then have "vs' = vs" "w' = w1" "\<not> pr_Completed res" using assms get by (auto simp: phaseImportDisks_def)
    then show ?thesis using t1 by (intro exI [of _ "[]"] exI [of _ "[]"]) simp
  next
    case (Inr vm)
    obtain err vs2 w2 where cv: "create_volumes ''ImportDisks: '' ''ImportDisks: '' import_disk_size
        (filterDataDisks (vm_Disks vm)) vs mctx w1 = (err, vs2, w2)" by (rule prod_cases3)
    obtain es names where v: "w_trace w2 = w_trace w1 @ es"
      "vs2 = vs\<lparr>vs_DataVolumeNames := vs_DataVolumeNames vs @ names\<rparr>" "adds es (RVolume ?ns ` set names)"
      "err = None \<longrightarrow> names = map (disk_object_name (mc_Migration mctx) vs)
         [length (vs_DataVolumeNames vs)..<length (vs_ImageUUIDs vs)]"
      using create_volumes_spec [OF cv] by auto
    note run = assms [unfolded phaseImportDisks_def get Inr Let_def cv prod.case sum.case]
    show ?thesis
    proof (cases err)
      case (Some e)
      with run have "vs' = vs2" "w' = w2" "\<not> pr_Completed res" by auto
      then show ?thesis using v t1 by (intro exI [of _ es] exI [of _ names]) simp
    next
      case None
      obtain pres w3 where poll: "poll_dvs_loop (mc_TransferMgr mctx) ?ns ''ImportDisks: poll ''
          ''ImportDisks: DataVolume '' (vs_DataVolumeNames vs2) True w2 = (pres, w3)" by fastforce
      obtain es3 where p: "w_trace w3 = w_trace w2 @ es3" "\<forall>e \<in> set es3. created e = {}"
        "\<not> (pr_Completed pres \<and> pr_Error pres \<noteq> None)"
        "pr_Completed pres \<longrightarrow> (\<forall>n \<in> set (vs_DataVolumeNames vs2). saw_succeeded ?ns n es3)"
        using poll_dvs_loop_spec [OF poll] by blast
      have out: "vs' = vs2" "w_trace w' = w_trace w3" "pr_Completed res = pr_Completed pres"
        "\<not> (pr_Completed res \<and> pr_Error res \<noteq> None)"
        using run p(3) by (auto simp: None poll split: if_splits)
      have "adds (es @ es3) (RVolume ?ns ` set names \<union> {})"
        by (rule adds_append [OF v(3) adds_nothing [OF p(2)]])
      with v p out t1 None show ?thesis
        by (intro exI [of _ "es @ es3"] exI [of _ names]) (auto simp: saw_succeeded_def)
    qed
  qed
qed

lemma phaseImportDisks_ok:
  assumes "phaseImportDisks vs mctx w = (res, vs', w')"
  shows "phase_ok (plan_TargetNamespace (mc_Plan mctx)) vs w res vs' w'"
proof -
  obtain es names where r: "w_trace w' = w_trace w @ es"
    "vs' = vs\<lparr>vs_DataVolumeNames := vs_DataVolumeNames vs @ names\<rparr>"
    "adds es (RVolume (plan_TargetNamespace (mc_Plan mctx)) ` set names)"
    "\<not> (pr_Completed res \<and> pr_Error res \<noteq> None)" using phaseImportDisks_run [OF assms] by blast
  then have "tracks (plan_TargetNamespace (mc_Plan mctx)) vs w vs' w'" by (intro tracks_adds [OF r(1,3)]) simp
  with r show ?thesis by (simp add: phase_ok_def)
qed

interpretation import_disks: phase_contract "plan_TargetNamespace (mc_Plan mctx)"
  "\<lambda>vs w res vs' w'. phaseImportDisks vs mctx w = (res, vs', w')"
  by unfold_locales (rule phaseImportDisks_ok)

interpretation poll_volumes: phase_contract ns "\<lambda>vs w res vs' w'. pollDataVolumes vs mctx w = (res, vs', w')"
  by unfold_locales (rule pollDataVolumes_ok)

interpretation create_vm: phase_contract ns "\<lambda>vs w res vs' w'. phaseCreateVM r vs mctx w = (res, vs', w')"
  by unfold_locales
    (auto simp: phaseCreateVM_def Let_def dest!: call_trace split: if_splits prod.splits sum.splits option.splits
      intro: phase_ok_no_effect phase_ok_one_effect)

interpretation start_vm: phase_contract ns "\<lambda>vs w res vs' w'. phaseStartVM r vs mctx w = (res, vs', w')"
  by unfold_locales
    (auto simp: phaseStartVM_def dest!: call_trace split: if_splits prod.splits sum.splits option.splits
      intro: phase_ok_no_effect phase_ok_one_effect)


section \<open>The two cleanups\<close>

text \<open>A computation that only deletes, and attempts to remove all of \<open>X\<close>.\<close>

definition clears :: "'e world \<Rightarrow> 'e world \<Rightarrow> resource set \<Rightarrow> bool" where
  "clears w w' X = (\<exists>es. w_trace w' = w_trace w @ es \<and> wipes es X)"

lemma clears_trans: "clears w w1 X \<Longrightarrow> clears w1 w2 Y \<Longrightarrow> clears w w2 (X \<union> Y)"
  unfolding clears_def by (metis append.assoc wipes_append)

lemma clears_mono: "clears w w' X \<Longrightarrow> Y \<subseteq> X \<Longrightarrow> clears w w' Y"
  unfolding clears_def wipes_def by (meson subset_trans)

lemma clears_refl [simp]: "clears w w {}"
  by (auto simp: clears_def)

lemma clears_images: "clears w (for_each (try_DeleteImage c) us w) (RImage ` set us)"
proof -
  obtain es where es: "w_trace (for_each (try_DeleteImage c) us w) = w_trace w @ es" "list_all2 deletes_image us es"
    using images.for_each_attempts_all by blast
  from es(2) have "wipes es (RImage ` set us)"
    by (induction rule: list_all2_induct) (auto simp: wipes_def deletes_image_def)
  with es(1) show ?thesis by (auto simp: clears_def)
qed

lemma clears_volumes: "clears w (for_each (try_Delete k KindDataVolume ns) names w) (RVolume ns ` set names)"
proof -
  obtain es where es: "w_trace (for_each (try_Delete k KindDataVolume ns) names w) = w_trace w @ es"
    "list_all2 (deletes_object KindDataVolume ns) names es"
    using objects.for_each_attempts_all by blast
  from es(2) have "wipes es (RVolume ns ` set names)"
    by (induction rule: list_all2_induct) (auto simp: wipes_def deletes_object_def)
  with es(1) show ?thesis by (auto simp: clears_def)
qed

lemma clears_snapshot: "clears w (try_DeleteRecoveryPoint c u w) (snapshot_set u)"
  using try_DeleteRecoveryPoint_trace [of c u w]
  by (fastforce simp: clears_def snapshot_set_def wipes_def split: if_splits)

lemma clears_delete:
  "clears w (try_Delete k KindPod ns n w) {RPod ns n}"
  "clears w (try_Delete k KindConfigMap ns n w) {}"
  using try_Delete_trace [of k KindPod ns n w] try_Delete_trace [of k KindConfigMap ns n w]
  by (auto simp: clears_def wipes_def)

lemma clears_manager:
  "clears w (snd (DeleteCredentialSecret m n ns w)) {}"
  "clears w (snd (DeleteCAConfigMap m n ns w)) {}"
  using manager_trace(5) [of m n ns w] manager_trace(6) [of m n ns w]
  by (auto simp: clears_def wipes_def prod_eq_iff)

lemma cleanup_warm_clears:
  "clears w (cleanup_warm r mctx warm w) (tracked_warm (plan_TargetNamespace (mc_Plan mctx)) warm)"
proof -
  let ?ns = "plan_TargetNamespace (mc_Plan mctx)" and ?c = "mc_NutanixClient mctx"
  define w1 where "w1 = (if ws_DeltaPodName warm \<noteq> [] then
      try_Delete (r_Client r) KindConfigMap ?ns (ws_DeltaPodName warm @ ''-regions'')
        (try_Delete (r_Client r) KindPod ?ns (ws_DeltaPodName warm) w) else w)"
  have pods: "clears w w1 (pod_set ?ns (ws_DeltaPodName warm))"
    unfolding w1_def pod_set_def
    using clears_trans [OF clears_delete(1) clears_delete(2)] clears_refl by auto
  have "cleanup_warm r mctx warm w = try_DeleteRecoveryPoint ?c (ws_BaseSnapshotUUID warm)
      (for_each (try_DeleteImage ?c) (ws_BaseImageUUIDs warm)
        (try_DeleteRecoveryPoint ?c (ws_DeltaSnapshotUUID warm)
          (for_each (try_DeleteImage ?c) (ws_DeltaImageUUIDs warm) w1)))"
    by (simp add: cleanup_warm_def w1_def Let_def)
  then show ?thesis
    by (simp only:) (rule clears_mono [OF clears_trans [OF clears_trans [OF clears_trans [OF clears_trans
      [OF pods clears_images] clears_snapshot] clears_images] clears_snapshot]], auto simp: tracked_warm_def)
qed

text \<open>The failure cleanup: the resources of the cold phases go, the power state is restored, then
  the warm resources go.\<close>

lemma cleanupFailedVM_effects:
  "\<exists>cold pow warm. w_trace (cleanupFailedVM r vs mctx w) = w_trace w @ cold @ pow @ warm \<and>
     (if vs_OriginalPowerState vs = PowerStateOn then \<exists>res. pow = [EPowerOn (vs_ID vs) res] else pow = []) \<and>
     (\<forall>e \<in> set (cold @ warm). is_deletion e) \<and>
     tracked (plan_TargetNamespace (mc_Plan mctx)) vs \<subseteq> (\<Union>e \<in> set (cold @ warm). removed e)"
proof -
  let ?ns = "plan_TargetNamespace (mc_Plan mctx)" and ?c = "mc_NutanixClient mctx"
  define w3 where "w3 = try_DeleteRecoveryPoint ?c (vs_SnapshotUUID vs) (for_each (try_DeleteImage ?c) (vs_ImageUUIDs vs)
      (for_each (try_Delete (r_Client r) KindDataVolume ?ns) (vs_DataVolumeNames vs) w))"
  define w4 where "w4 = (if vs_OriginalPowerState vs = PowerStateOn then snd (PowerOnVM ?c (vs_ID vs) w3) else w3)"
  define w5 where "w5 = (case vs_Warm vs of None \<Rightarrow> w4 | Some warm \<Rightarrow> cleanup_warm r mctx warm w4)"
  let ?A = "RVolume ?ns ` set (vs_DataVolumeNames vs) \<union> RImage ` set (vs_ImageUUIDs vs) \<union> snapshot_set (vs_SnapshotUUID vs)"
  let ?B = "case vs_Warm vs of None \<Rightarrow> {} | Some warm \<Rightarrow> tracked_warm ?ns warm"
  have "clears w w3 ?A"
    unfolding w3_def by (rule clears_trans [OF clears_trans [OF clears_volumes clears_images] clears_snapshot])
  then obtain cold where c: "w_trace w3 = w_trace w @ cold" "wipes cold ?A" by (auto simp: clears_def)
  have "clears w4 w5 ?B" unfolding w5_def by (auto split: option.split intro: cleanup_warm_clears)
  then obtain warm where m: "w_trace w5 = w_trace w4 @ warm" "wipes warm ?B" by (auto simp: clears_def)
  obtain pow where p: "w_trace w4 = w_trace w3 @ pow"
    "if vs_OriginalPowerState vs = PowerStateOn then \<exists>res. pow = [EPowerOn (vs_ID vs) res] else pow = []"
    using call_trace(3) [of ?c "vs_ID vs" w3] by (cases "vs_OriginalPowerState vs = PowerStateOn") (auto simp: w4_def prod_eq_iff)
  have five: "cleanupFailedVM r vs mctx w = w5"
    unfolding cleanupFailedVM_def Let_def w5_def w4_def w3_def by (rule refl)
  have "tracked ?ns vs = ?A \<union> ?B" by (auto simp: tracked_def)
  with wipes_append [OF c(2) m(2)] have "wipes (cold @ warm) (tracked ?ns vs)" by simp
  then have "\<forall>e \<in> set (cold @ warm). is_deletion e" "tracked ?ns vs \<subseteq> (\<Union>e \<in> set (cold @ warm). removed e)"
    unfolding wipes_def by blast+
  with c(1) m(1) p five show ?thesis by (metis append.assoc)
qed

lemma phaseCleanup_clears:
  assumes "phaseCleanup vs mctx w = (res, vs', w')"
  shows "res = phase_completed" "vs' = vs"
    "clears w w' (RImage ` set (vs_ImageUUIDs vs) \<union> snapshot_set (vs_SnapshotUUID vs))"
proof -
  show "res = phase_completed" "vs' = vs" using assms by (auto simp: phaseCleanup_def Let_def)
  show "clears w w' (RImage ` set (vs_ImageUUIDs vs) \<union> snapshot_set (vs_SnapshotUUID vs))"
    using assms clears_trans [OF clears_trans [OF clears_trans [OF clears_images clears_snapshot]
        clears_manager(1)] clears_manager(2)]
    by (auto simp: phaseCleanup_def Let_def)
qed

lemma clears_tracks: "clears w w' X \<Longrightarrow> tracks ns vs w vs w'"
  unfolding clears_def wipes_def using tracks_inert is_deletion_created by metis

interpretation cleanup: phase_contract ns "\<lambda>vs w res vs' w'. phaseCleanup vs mctx w = (res, vs', w')"
  by unfold_locales
    (auto simp: phase_ok_def dest: phaseCleanup_clears clears_tracks)


section \<open>Properties of the cold phases\<close>

text \<open>The definitions a witness unfolds to run a handler on the sample cluster.\<close>

lemma show_nat_digit: "n < 10 \<Longrightarrow> show_nat n = [''0123456789'' ! n]"
  by (subst show_nat.simps) simp

lemmas run_defs =
  show_nat_digit
  sim_defs fixture_defs op_defs perform_def filterDataDisks_def is_cdrom_def cluster_ref_def
  disk_object_name_def export_disk_uuid_def shortID_def

text \<open>
  Exporting the disks. When \<^verbatim>\<open>phaseExportDisks\<close> completes, every data disk of the source VM has
  an image, the images recorded by earlier reconciles are kept in front, and the phase created
  exactly one image for each disk that had none, in the order of the disks: image \<open>j\<close> is the one
  made from data disk \<open>j\<close>, so a restarted export resumes where the previous one stopped.
\<close>

theorem phaseExportDisks_one_image_per_disk:
  assumes "phaseExportDisks vs mctx w = (phase_completed, vs', w')"
    and "GetVM (mc_NutanixClient mctx) (vs_ID vs) w = (Inr vm, w1)"
    and "length (vs_ImageUUIDs vs) \<le> length (filterDataDisks (vm_Disks vm))"
  shows "length (vs_ImageUUIDs vs') = length (filterDataDisks (vm_Disks vm)) \<and>
    take (length (vs_ImageUUIDs vs)) (vs_ImageUUIDs vs') = vs_ImageUUIDs vs \<and>
    new_effects w w' =
      map (\<lambda>j. ECreateImage (disk_object_name (mc_Migration mctx) vs j)
             (getDiskUUID (filterDataDisks (vm_Disks vm) ! j)) (cluster_ref vm) (Inr (vs_ImageUUIDs vs' ! j)))
        [length (vs_ImageUUIDs vs)..<length (filterDataDisks (vm_Disks vm))]"
proof (cases "length (vs_ImageUUIDs vs) = length (filterDataDisks (vm_Disks vm))")
  case True
  then show ?thesis using assms call_trace(1) [OF assms(2)]
    by (auto simp: phaseExportDisks_def Let_def new_effects_def)
next
  case False
  let ?ds = "filterDataDisks (vm_Disks vm)"
  obtain err images w2 where loop: "export_loop (mc_NutanixClient mctx) (disk_object_name (mc_Migration mctx) vs)
      export_disk_uuid (cluster_ref vm) 0 ?ds (vs_ImageUUIDs vs) w1 = (err, images, w2)"
    by (rule prod_cases3)
  have out: "err = None" "vs' = vs\<lparr>vs_ImageUUIDs := images\<rparr>" "w' = w2"
    using assms False loop by (cases err; auto simp: phaseExportDisks_def)+
  have d: "length images = length ?ds"
    "w_trace w2 = w_trace w1 @ map (\<lambda>j. ECreateImage (disk_object_name (mc_Migration mctx) vs j)
       (export_disk_uuid (?ds ! j)) (cluster_ref vm) (Inr (images ! j))) [length (vs_ImageUUIDs vs)..<length ?ds]"
    using export_loop_done [OF loop [unfolded out(1)]] assms(3) by simp_all
  obtain more where "images = vs_ImageUUIDs vs @ more" using export_loop_spec [OF loop] by blast
  with d out show ?thesis
    using call_trace(1) [OF assms(2)] by (simp add: new_effects_append export_disk_uuid_getDiskUUID)
qed

theorem phaseExportDisks_one_image_per_disk_witness:
  "\<exists>vs' w'. phaseExportDisks (sim_status VMPhaseExportDisks)
      (sim_mctx (sim_plan MigrationTypeCold TargetPowerStateStopped)) (sim_world False) = (phase_completed, vs', w') \<and>
    new_effects (sim_world False) w' =
      [ECreateImage ''vma-mig-vm-uuid--disk-0'' ''vdisk-001'' ''cluster-uuid-001'' (Inr (vs_ImageUUIDs vs' ! 0))]"
proof -
  let ?mctx = "sim_mctx (sim_plan MigrationTypeCold TargetPowerStateStopped)"
  obtain vs' w' where run: "phaseExportDisks (sim_status VMPhaseExportDisks) ?mctx (sim_world False) = (phase_completed, vs', w')"
    by (simp add: phaseExportDisks_def run_defs)
  moreover have "GetVM (mc_NutanixClient ?mctx) (vs_ID (sim_status VMPhaseExportDisks)) (sim_world False) = (Inr vm_linux, sim_world False)"
    by (simp add: sim_defs op_defs perform_def)
  ultimately have "new_effects (sim_world False) w' =
      [ECreateImage ''vma-mig-vm-uuid--disk-0'' ''vdisk-001'' ''cluster-uuid-001'' (Inr (vs_ImageUUIDs vs' ! 0))]"
    using phaseExportDisks_one_image_per_disk [of "sim_status VMPhaseExportDisks" ?mctx "sim_world False" vs' w' vm_linux "sim_world False"]
    by (simp add: run_defs getDiskUUID_def)
  with run show ?thesis by blast
qed

text \<open>
  Importing the disks. \<^verbatim>\<open>phaseImportDisks\<close> completes only if every image has its DataVolume,
  named after the image's position, and each of those DataVolumes was read in this very pass with
  phase \<^verbatim>\<open>Succeeded\<close>.
\<close>

theorem phaseImportDisks_completes_when_imported:
  assumes "phaseImportDisks vs mctx w = (res, vs', w')" and "pr_Completed res"
    and "length (vs_DataVolumeNames vs) \<le> length (vs_ImageUUIDs vs)"
  shows "length (vs_DataVolumeNames vs') = length (vs_ImageUUIDs vs') \<and>
    (\<forall>j < length (vs_ImageUUIDs vs'). length (vs_DataVolumeNames vs) \<le> j \<longrightarrow>
       vs_DataVolumeNames vs' ! j = disk_object_name (mc_Migration mctx) vs j) \<and>
    (\<forall>n \<in> set (vs_DataVolumeNames vs'). \<exists>progress.
       EDataVolume (plan_TargetNamespace (mc_Plan mctx)) n (Inr (DVSucceeded, progress)) \<in> set (new_effects w w'))"
proof -
  obtain es names where r: "w_trace w' = w_trace w @ es"
    "vs' = vs\<lparr>vs_DataVolumeNames := vs_DataVolumeNames vs @ names\<rparr>"
    "names = map (disk_object_name (mc_Migration mctx) vs) [length (vs_DataVolumeNames vs)..<length (vs_ImageUUIDs vs)]"
    "\<forall>n \<in> set (vs_DataVolumeNames vs'). saw_succeeded (plan_TargetNamespace (mc_Plan mctx)) n es"
    using phaseImportDisks_run [OF assms(1)] assms(2) by blast
  from r(1) have "new_effects w w' = es" by (rule new_effects_append)
  with r assms(3) show ?thesis by (auto simp: saw_succeeded_def nth_append)
qed

text \<open>
  Cleaning up after a failure. \<^verbatim>\<open>cleanupFailedVM\<close> creates nothing, attempts to delete every
  image, recovery point, DataVolume and delta pod the VM status knows of, whatever the results of
  the single deletions, and powers the source VM on exactly when it was on before the migration.
\<close>

theorem cleanupFailedVM_complete:
  "live (tracked (plan_TargetNamespace (mc_Plan mctx)) vs) (new_effects w (cleanupFailedVM r vs mctx w)) = {} \<and>
   (\<forall>e \<in> set (new_effects w (cleanupFailedVM r vs mctx w)). is_deletion e \<or> (\<exists>res. e = EPowerOn (vs_ID vs) res)) \<and>
   ((\<exists>res. EPowerOn (vs_ID vs) res \<in> set (new_effects w (cleanupFailedVM r vs mctx w))) \<longleftrightarrow>
      vs_OriginalPowerState vs = PowerStateOn)"
proof -
  obtain cold pow warm where c: "w_trace (cleanupFailedVM r vs mctx w) = w_trace w @ cold @ pow @ warm"
    "if vs_OriginalPowerState vs = PowerStateOn then \<exists>res. pow = [EPowerOn (vs_ID vs) res] else pow = []"
    "\<forall>e \<in> set (cold @ warm). is_deletion e"
    "tracked (plan_TargetNamespace (mc_Plan mctx)) vs \<subseteq> (\<Union>e \<in> set (cold @ warm). removed e)"
    using cleanupFailedVM_effects [of r vs mctx w] by (elim exE conjE) (rule that)
  have new: "new_effects w (cleanupFailedVM r vs mctx w) = cold @ pow @ warm" using c(1) by (rule new_effects_append)
  have pow: "\<forall>e \<in> set pow. \<exists>res. e = EPowerOn (vs_ID vs) res" using c(2) by (auto split: if_splits)
  have "\<forall>e \<in> set (cold @ pow @ warm). created e = {}" using c(3) pow is_deletion_created by fastforce
  then have "live (tracked (plan_TargetNamespace (mc_Plan mctx)) vs) (cold @ pow @ warm) = {}"
    using c(4) by (subst live_without_creation) auto
  moreover have "EPowerOn (vs_ID vs) res \<notin> set cold" "EPowerOn (vs_ID vs) res \<notin> set warm" for res
    using c(3) by (auto dest!: bspec [of _ _ "EPowerOn (vs_ID vs) res"])
  moreover have "(\<exists>res. EPowerOn (vs_ID vs) res \<in> set pow) \<longleftrightarrow> vs_OriginalPowerState vs = PowerStateOn"
    using c(2) by (auto split: if_splits)
  ultimately show ?thesis unfolding new using c(3) pow by (simp add: ball_Un ex_disj_distrib)
qed


theorem phaseImportDisks_completes_when_imported_witness:
  "\<exists>vs' w'. vs_DataVolumeNames vs' = [''vma-mig-vm-uuid--disk-0''] \<and>
     phaseImportDisks ((sim_status VMPhaseImportDisks)\<lparr>vs_ImageUUIDs := [''img-1'']\<rparr>)
       (sim_mctx (sim_plan MigrationTypeCold TargetPowerStateStopped)) (sim_world False) = (phase_completed, vs', w') \<and>
     (\<exists>progress. EDataVolume ''apps'' ''vma-mig-vm-uuid--disk-0'' (Inr (DVSucceeded, progress)) \<in> set (new_effects (sim_world False) w'))"
proof -
  let ?mctx = "sim_mctx (sim_plan MigrationTypeCold TargetPowerStateStopped)"
  let ?vs = "(sim_status VMPhaseImportDisks)\<lparr>vs_ImageUUIDs := [''img-1'']\<rparr>"
  obtain vs' w' where run: "phaseImportDisks ?vs ?mctx (sim_world False) = (phase_completed, vs', w')"
    and names: "vs_DataVolumeNames vs' = [''vma-mig-vm-uuid--disk-0'']"
    by (simp add: phaseImportDisks_def create_volumes_def create_ca_def CreateCredentialSecret_def ignore_exists_def
        CreateDataVolume_def GetDataVolumeProgress_def dv_options_def FindStorageMapping_def cred_secret_name_def
        Let_def run_defs split: option.split prod.split)
  have "length (vs_DataVolumeNames ?vs) \<le> length (vs_ImageUUIDs ?vs)" by (simp add: sim_defs)
  from phaseImportDisks_completes_when_imported [OF run _ this] names run show ?thesis
    by (fastforce simp: sim_mctx_def sim_plan_def)
qed

theorem cleanupFailedVM_complete_witness:
  "\<exists>vs. vs_ImageUUIDs vs = [''img-1''] \<and> vs_OriginalPowerState vs = PowerStateOn \<and>
     (\<exists>res. EPowerOn ''vm-uuid-001'' res \<in> set (new_effects (sim_world False)
        (cleanupFailedVM (sim_reconciler (sim_plan MigrationTypeCold TargetPowerStateRunning)) vs
          (sim_mctx (sim_plan MigrationTypeCold TargetPowerStateRunning)) (sim_world False))))"
proof -
  let ?vs = "(sim_status VMPhaseStartVM)\<lparr>vs_ImageUUIDs := [''img-1''], vs_OriginalPowerState := PowerStateOn\<rparr>"
  show ?thesis
    using cleanupFailedVM_complete [of "sim_mctx (sim_plan MigrationTypeCold TargetPowerStateRunning)" ?vs "sim_world False"
        "sim_reconciler (sim_plan MigrationTypeCold TargetPowerStateRunning)"]
    by (intro exI [of _ ?vs]) (simp add: sim_status_def new_VMMigrationStatus_def)
qed

end
