(* ===== verification/Go_Time.thy ===== *)
theory Go_Time
  imports Vma_Prelude
begin

text \<open>
  \<^verbatim>\<open>time.ParseDuration\<close> of the Go standard library, which the hook deadline, the precopy interval
  and the provider refresh interval go through: a sign, then groups of a decimal number and a
  unit. A duration is an \<^typ>\<open>int\<close> count of nanoseconds. The fraction of a group is computed
  exactly (Go multiplies in \<^verbatim>\<open>float64\<close>).
\<close>

definition unit_ns :: "string \<Rightarrow> nat option" where
  "unit_ns u =
     map_of [(''ns'', 1), (''us'', 1000), ([CHR 0xC2, CHR 0xB5, CHR ''s''], 1000),
             ([CHR 0xCE, CHR 0xBC, CHR ''s''], 1000), (''ms'', 1000000), (''s'', 1000000000),
             (''m'', 60000000000), (''h'', 3600000000000)] u"

text \<open>One group: the value in nanoseconds and the rest of the string.\<close>

definition duration_group :: "string \<Rightarrow> (nat \<times> string) option" where
  "duration_group s =
     (let ints = takeWhile is_digit s;
          s1 = dropWhile is_digit s;
          point = (s1 \<noteq> [] \<and> hd s1 = CHR ''.'');
          fracs = (if point then takeWhile is_digit (tl s1) else []);
          s2 = (if point then dropWhile is_digit (tl s1) else s1);
          is_unit = (\<lambda>c. c \<noteq> CHR ''.'' \<and> \<not> is_digit c);
          u = takeWhile is_unit s2;
          s3 = dropWhile is_unit s2
      in if read_nat ints > 2 ^ 63 then None
         else if ints = [] \<and> fracs = [] then None
         else if u = [] then None
         else case unit_ns u of
             None \<Rightarrow> None
           | Some unit \<Rightarrow>
               if read_nat ints > 2 ^ 63 div unit then None
               else
                 let v = read_nat ints * unit + read_nat fracs * unit div 10 ^ length fracs
                 in if v > 2 ^ 63 then None else Some (v, s3))"

lemma duration_group_shorter:
  assumes "duration_group s = Some (v, r)"
  shows "length r < length s"
proof -
  let ?u = "\<lambda>c. c \<noteq> CHR ''.'' \<and> \<not> is_digit c"
  let ?s1 = "dropWhile is_digit s"
  let ?s2 = "if ?s1 \<noteq> [] \<and> hd ?s1 = CHR ''.'' then dropWhile is_digit (tl ?s1) else ?s1"
  have r: "r = dropWhile ?u ?s2" and ne: "takeWhile ?u ?s2 \<noteq> []"
    using assms by (auto simp: duration_group_def Let_def split: if_splits option.splits)
  have "length (tl ?s1) \<le> length ?s1" by (cases ?s1) simp_all
  then have "length ?s2 \<le> length ?s1"
    using length_dropWhile_le [of is_digit "tl ?s1"] by (meson le_trans order_refl if_split)
  also have "\<dots> \<le> length s" by (rule length_dropWhile_le)
  finally have le: "length ?s2 \<le> length s" .
  have "length (takeWhile ?u ?s2) + length (dropWhile ?u ?s2) = length ?s2"
    by (simp only: length_append [symmetric] takeWhile_dropWhile_id)
  moreover have "0 < length (takeWhile ?u ?s2)" using ne by blast
  ultimately show ?thesis unfolding r using le by linarith
qed

function duration_groups :: "nat \<Rightarrow> string \<Rightarrow> nat option" where
  "duration_groups d s =
     (if s = [] then Some d
      else case duration_group s of
          None \<Rightarrow> None
        | Some (v, r) \<Rightarrow> if d + v > 2 ^ 63 then None else duration_groups (d + v) r)"
  by pat_completeness auto
termination
  by (relation "measure (\<lambda>(d, s). length s)") (auto dest: duration_group_shorter)

declare duration_groups.simps [simp del]

definition ParseDuration :: "string \<Rightarrow> int option" where
  "ParseDuration s =
     (let neg = (s \<noteq> [] \<and> hd s = CHR ''-'');
          t = (if s \<noteq> [] \<and> (hd s = CHR ''-'' \<or> hd s = CHR ''+'') then tl s else s)
      in if t = ''0'' then Some 0
         else if t = [] then None
         else case duration_groups 0 t of
             None \<Rightarrow> None
           | Some d \<Rightarrow> if neg then Some (- int d) else if d > 2 ^ 63 - 1 then None else Some (int d))"

lemma ParseDuration_5m: "ParseDuration ''5m'' = Some 300000000000"
  by (simp add: ParseDuration_def duration_groups.simps duration_group_def Let_def unit_ns_def
      is_digit_def read_nat_def digit_val_def)

lemma ParseDuration_1h30m: "ParseDuration ''1h30m'' = Some 5400000000000"
  by (simp add: ParseDuration_def duration_groups.simps duration_group_def Let_def unit_ns_def
      is_digit_def read_nat_def digit_val_def)

end
