(* ===== verification/Hook_Runner.thy ===== *)
theory Hook_Runner
  imports Cold_Contract Go_Time
begin

text \<open>
  \<^verbatim>\<open>internal/controller/hook_runner.go\<close>: the Jobs that run before and after the migration of a VM.
  The Job of a step carries its attempt number in an annotation; a failed Job is deleted and
  recreated with the next number until the third attempt has failed.
\<close>

abbreviation hookMaxRetries :: int where "hookMaxRetries \<equiv> 3"
abbreviation hookConfigMapPath :: string where "hookConfigMapPath \<equiv> ''/tmp/hook''"
abbreviation hookAnnotationKey :: string where "hookAnnotationKey \<equiv> ''vma.nutanix.io/hook-attempt''"
abbreviation hookDefaultSvcAccount :: string where "hookDefaultSvcAccount \<equiv> ''default''"
abbreviation hookDefaultDeadlineSecs :: int where "hookDefaultDeadlineSecs \<equiv> 600"

record hookVMContext =
  hvc_ID :: string
  hvc_Name :: string
  hvc_Phase :: string
  hvc_PowerState :: string

record hookPlanContext =
  hpc_Name :: string
  hpc_Type :: string
  hpc_TargetNamespace :: string

section \<open>JSON\<close>

text \<open>
  \<^verbatim>\<open>json.Marshal\<close> on a struct of strings, with \<open>json_string\<close> of the prelude. The strings of an object
  read from the API server are valid UTF-8, so the replacement of invalid bytes does not occur.
\<close>

definition json_object :: "(string \<times> string) list \<Rightarrow> string" where
  "json_object kvs =
     ''{'' @ strings_Join (map (\<lambda>(k, v). json_string k @ '':'' @ json_string v) kvs) '','' @ ''}''"

definition json_vm :: "hookVMContext \<Rightarrow> string" where
  "json_vm v = json_object
     ([(''id'', hvc_ID v), (''name'', hvc_Name v), (''phase'', hvc_Phase v)] @
      (if hvc_PowerState v = [] then [] else [(''originalPowerState'', hvc_PowerState v)]))"

definition json_plan :: "hookPlanContext \<Rightarrow> string" where
  "json_plan p = json_object
     [(''name'', hpc_Name p), (''type'', hpc_Type p), (''targetNamespace'', hpc_TargetNamespace p)]"

section \<open>Helpers\<close>

definition hookStepSuffix :: "string \<Rightarrow> string" where
  "hookStepSuffix step = (if step = ''PreHook'' then ''pre'' else ''post'')"

text \<open>\<^verbatim>\<open>int64(d.Seconds())\<close> truncates towards zero.\<close>

definition parseDeadline :: "string \<Rightarrow> int" where
  "parseDeadline s =
     (if s = [] then hookDefaultDeadlineSecs
      else case ParseDuration s of None \<Rightarrow> hookDefaultDeadlineSecs | Some d \<Rightarrow> d sdiv 1000000000)"

text \<open>
  \<^verbatim>\<open>fmt.Sscanf(val, "%d", &attempt)\<close>: blanks, an optional sign, a run of digits (what follows is
  ignored) that has to fit an \<^verbatim>\<open>int\<close>.
\<close>

definition Sscanf_d :: "string \<Rightarrow> int option" where
  "Sscanf_d s =
     (let t = dropWhile (\<lambda>c. c = CHR '' '' \<or> c = CHR 0x09 \<or> c = CHR 0x0B \<or> c = CHR 0x0C \<or> c = CHR 0x0D) s;
          neg = (t \<noteq> [] \<and> hd t = CHR ''-'');
          u = (if t \<noteq> [] \<and> (hd t = CHR ''-'' \<or> hd t = CHR ''+'') then tl t else t);
          ds = takeWhile is_digit u;
          v = (if neg then - int (read_nat ds) else int (read_nat ds))
      in if ds = [] \<or> v < - (2 ^ 63) \<or> v \<ge> 2 ^ 63 then None else Some v)"

definition getHookAttempt :: "Job \<Rightarrow> int" where
  "getHookAttempt job =
     (case map_of (job_Annotations job) hookAnnotationKey of
        None \<Rightarrow> 1
      | Some val \<Rightarrow> (case Sscanf_d val of None \<Rightarrow> 1 | Some attempt \<Rightarrow> attempt))"

section \<open>The Job\<close>

definition hook_job :: "string \<Rightarrow> string \<Rightarrow> Hook \<Rightarrow> string \<Rightarrow> Migration \<Rightarrow> int \<Rightarrow> Job" where
  "hook_job name namespace hook configMapName mig attempt =
     (let volumes = [\<lparr>vol_Name = ''hook-context'', vol_Source = VolumeConfigMap configMapName\<rparr>] @
            (if hook_Playbook hook \<noteq> [] then [\<lparr>vol_Name = ''hook-playbook'', vol_Source = VolumeConfigMap configMapName\<rparr>]
             else []);
          volumeMounts = [\<lparr>mnt_Name = ''hook-context'', mnt_Path = hookConfigMapPath, mnt_ReadOnly = True\<rparr>];
          serviceAccount = (if hook_ServiceAccount hook = [] then hookDefaultSvcAccount else hook_ServiceAccount hook)
      in \<lparr>job_Name = name, job_Namespace = namespace,
          job_Labels = [(''vma.nutanix.io/migration'', mig_Name mig), (''vma.nutanix.io/hook'', hook_Name hook)],
          job_Annotations = [(hookAnnotationKey, show_int attempt)],
          job_OwnerReferences = [migration_owner mig],
          job_BackoffLimit = 0, job_ActiveDeadlineSeconds = parseDeadline (hook_Deadline hook),
          job_ServiceAccountName = serviceAccount,
          job_Containers = [\<lparr>ctr_Name = ''hook'', ctr_Image = hook_Image hook, ctr_Command = [], ctr_Env = [],
                             ctr_VolumeMounts = volumeMounts\<rparr>],
          job_Volumes = volumes, job_Succeeded = 0, job_Failed = 0\<rparr>)"

definition createHookJobWithAttempt ::
  "'e MigrationReconciler \<Rightarrow> string \<Rightarrow> string \<Rightarrow> Hook \<Rightarrow> string \<Rightarrow> 'e migrationContext \<Rightarrow> int \<Rightarrow> 'e world \<Rightarrow>
     go_error option \<times> 'e world" where
  "createHookJobWithAttempt r name namespace hook configMapName mctx attempt w =
     (case Create (r_Client r) (ObjJob (hook_job name namespace hook configMapName (mc_Migration mctx) attempt)) w of
        (err, w1) \<Rightarrow> (ignore_exists err, w1))"

definition createHookJob ::
  "'e MigrationReconciler \<Rightarrow> string \<Rightarrow> string \<Rightarrow> Hook \<Rightarrow> string \<Rightarrow> 'e migrationContext \<Rightarrow> 'e world \<Rightarrow>
     go_error option \<times> 'e world" where
  "createHookJob r name namespace hook configMapName mctx w =
     createHookJobWithAttempt r name namespace hook configMapName mctx 1 w"

definition createHookConfigMap ::
  "'e MigrationReconciler \<Rightarrow> string \<Rightarrow> string \<Rightarrow> VMMigrationStatus \<Rightarrow> 'e migrationContext \<Rightarrow> 'e world \<Rightarrow>
     go_error option \<times> 'e world" where
  "createHookConfigMap r name namespace vs mctx w =
     (let vmJSON = json_vm \<lparr>hvc_ID = vs_ID vs, hvc_Name = vs_Name vs, hvc_Phase = VMPhase_string (vs_Phase vs),
                            hvc_PowerState = vs_OriginalPowerState vs\<rparr>;
          planJSON = json_plan \<lparr>hpc_Name = plan_Name (mc_Plan mctx),
                                hpc_Type = MigrationType_string (plan_Type (mc_Plan mctx)),
                                hpc_TargetNamespace = plan_TargetNamespace (mc_Plan mctx)\<rparr>;
          cm = \<lparr>cm_Name = name, cm_Namespace = namespace, cm_OwnerReferences = [migration_owner (mc_Migration mctx)],
                cm_Data = [(''vm.json'', vmJSON), (''plan.json'', planJSON)]\<rparr>
      in case Create (r_Client r) (ObjConfigMap cm) w of (err, w1) \<Rightarrow> (ignore_exists err, w1))"

definition cleanupHookResources :: "'e MigrationReconciler \<Rightarrow> string \<Rightarrow> string \<Rightarrow> 'e world \<Rightarrow> 'e world" where
  "cleanupHookResources r jobName namespace w =
     try_Delete (r_Client r) KindConfigMap namespace (jobName @ ''-ctx'')
       (try_Delete (r_Client r) KindJob namespace jobName w)"

section \<open>Running a hook\<close>

definition checkHookJob ::
  "'e MigrationReconciler \<Rightarrow> Job \<Rightarrow> Hook \<Rightarrow> 'e migrationContext \<Rightarrow> string \<Rightarrow> string \<Rightarrow> string \<Rightarrow> 'e world \<Rightarrow>
     PhaseResult \<times> 'e world" where
  "checkHookJob r job hook mctx step jobName targetNS w =
     (if job_Succeeded job > 0 then (phase_completed, cleanupHookResources r jobName targetNS w)
      else if job_Failed job > 0 then
        (let attempt = getHookAttempt job in
         if attempt \<ge> hookMaxRetries then
           (phase_failed (errors_New (step @ '': Job '' @ jobName @ '' failed after '' @ show_int hookMaxRetries @ '' attempts'')),
            cleanupHookResources r jobName targetNS w)
         else
           case Delete (r_Client r) KindJob (job_Namespace job) (job_Name job) w of
             (derr, w1) \<Rightarrow>
               (case ignore_missing derr of
                  Some err \<Rightarrow> (phase_failed (errorf_w (step @ '': delete failed Job: '') err), w1)
                | None \<Rightarrow>
                    (case createHookJobWithAttempt r jobName targetNS hook (jobName @ ''-ctx'') mctx (attempt + 1) w1 of
                       (Some err, w2) \<Rightarrow> (phase_failed (errorf_w (step @ '': retry Job: '') err), w2)
                     | (None, w2) \<Rightarrow> (phase_not_completed, w2))))
      else (phase_not_completed, w))"

fun find_hook_ref :: "string \<Rightarrow> PlanHookRef list \<Rightarrow> PlanHookRef option" where
  "find_hook_ref step [] = None"
| "find_hook_ref step (h # hs) = (if phr_Step h \<noteq> step then find_hook_ref step hs else Some h)"

definition findHook ::
  "'e MigrationReconciler \<Rightarrow> VMMigrationStatus \<Rightarrow> 'e migrationContext \<Rightarrow> string \<Rightarrow> 'e world \<Rightarrow> Hook option \<times> 'e world" where
  "findHook r vs mctx step w =
     (case find (\<lambda>p. pvm_ID p = vs_ID vs) (plan_VMs (mc_Plan mctx)) of
        None \<Rightarrow> (None, w)
      | Some planVM \<Rightarrow>
          (case find_hook_ref step (pvm_Hooks planVM) of
             None \<Rightarrow> (None, w)
           | Some hookRef \<Rightarrow>
               (case Get (kc_GetHook (r_Client r) (mig_Namespace (mc_Migration mctx)) (phr_HookRef hookRef)) w of
                  (Inl err, w1) \<Rightarrow> (None, w1)
                | (Inr hook, w1) \<Rightarrow> (Some hook, w1))))"

definition hook_job_name :: "'e migrationContext \<Rightarrow> VMMigrationStatus \<Rightarrow> string \<Rightarrow> string" where
  "hook_job_name mctx vs step =
     ''vma-'' @ shortID (mig_Name (mc_Migration mctx)) @ ''-'' @ shortID (vs_ID vs) @ ''-'' @ hookStepSuffix step"

definition runHook :: "'e MigrationReconciler \<Rightarrow> string \<Rightarrow> 'e handler" where
  "runHook r step vs mctx w =
     (case findHook r vs mctx step w of
        (None, w1) \<Rightarrow> (phase_completed, vs, w1)
      | (Some hook, w1) \<Rightarrow>
          let jobName = hook_job_name mctx vs step;
              targetNS = plan_TargetNamespace (mc_Plan mctx)
          in case Get (kc_GetJob (r_Client r) targetNS jobName) w1 of
              (Inr existingJob, w2) \<Rightarrow>
                (case checkHookJob r existingJob hook mctx step jobName targetNS w2 of (res, w3) \<Rightarrow> (res, vs, w3))
            | (Inl err, w2) \<Rightarrow>
                if \<not> IsNotFound err then (phase_failed (errorf_w (step @ '': get Job: '') err), vs, w2)
                else
                  (case createHookConfigMap r (jobName @ ''-ctx'') targetNS vs mctx w2 of
                     (Some err, w3) \<Rightarrow> (phase_failed (errorf_w (step @ '': create ConfigMap: '') err), vs, w3)
                   | (None, w3) \<Rightarrow>
                       (case createHookJob r jobName targetNS hook (jobName @ ''-ctx'') mctx w3 of
                          (Some err, w4) \<Rightarrow> (phase_failed (errorf_w (step @ '': create Job: '') err), vs, w4)
                        | (None, w4) \<Rightarrow> (phase_not_completed, vs, w4))))"


section \<open>Attempts\<close>

text \<open>Reading back the attempt number that the annotation holds.\<close>

lemma Sscanf_show_int:
  assumes "- (2 ^ 63) \<le> v" and "v < 2 ^ 63"
  shows "Sscanf_d (show_int v) = Some v"
proof -
  have digit: "is_digit c \<Longrightarrow> c \<noteq> CHR '' '' \<and> c \<noteq> CHR 0x09 \<and> c \<noteq> CHR 0x0B \<and> c \<noteq> CHR 0x0C \<and> c \<noteq> CHR 0x0D \<and>
      c \<noteq> CHR ''-'' \<and> c \<noteq> CHR ''+''" for c
    by (auto simp: is_digit_def)
  let ?sp = "\<lambda>c. c = CHR '' '' \<or> c = CHR 0x09 \<or> c = CHR 0x0B \<or> c = CHR 0x0C \<or> c = CHR 0x0D"
  have drop: "dropWhile ?sp (show_nat n) = show_nat n" for n
    using digit [OF show_nat_hd [of n]] by (cases "show_nat n") auto
  show ?thesis
  proof (cases "v < 0")
    case True
    then show ?thesis using assms
      by (simp add: Sscanf_d_def show_int_def takeWhile_digits_show_nat)
  next
    case False
    then show ?thesis using assms digit [OF show_nat_hd [of "nat v"]]
      by (simp add: Sscanf_d_def show_int_def takeWhile_digits_show_nat drop)
  qed
qed

lemma Sscanf_range: "Sscanf_d s = Some v \<Longrightarrow> - (2 ^ 63) \<le> v \<and> v < 2 ^ 63"
  unfolding Sscanf_d_def Let_def by (auto split: if_splits)

lemma getHookAttempt_range: "- (2 ^ 63) \<le> getHookAttempt job \<and> getHookAttempt job < 2 ^ 63"
  by (auto simp: getHookAttempt_def dest: Sscanf_range split: option.splits)

lemma getHookAttempt_hook_job:
  "- (2 ^ 63) \<le> n \<Longrightarrow> n < 2 ^ 63 \<Longrightarrow> getHookAttempt (hook_job name ns hook cm mig n) = n"
  by (simp add: getHookAttempt_def hook_job_def Sscanf_show_int)

section \<open>Effects\<close>

fun hook_effect :: "effect \<Rightarrow> bool" where
  "hook_effect (ECreate (ObjConfigMap _) _) = True"
| "hook_effect (ECreate (ObjJob j) _) = (getHookAttempt j \<le> hookMaxRetries \<and> job_BackoffLimit j = 0)"
| "hook_effect (EDelete KindJob _ _ _) = True"
| "hook_effect (EDelete KindConfigMap _ _ _) = True"
| "hook_effect _ = False"

lemma hook_effect_created: "hook_effect e \<Longrightarrow> created e = {}"
  by (cases e rule: hook_effect.cases) auto

lemma createHookJobWithAttempt_effects:
  assumes "createHookJobWithAttempt r name ns hook cm mctx n w = (err, w')"
  shows "\<exists>c. w_trace w' = w_trace w @ [ECreate (ObjJob (hook_job name ns hook cm (mc_Migration mctx) n)) c]"
  using assms by (auto simp: createHookJobWithAttempt_def dest!: call_trace split: prod.splits)

lemma createHookConfigMap_effects:
  assumes "createHookConfigMap r name ns vs mctx w = (err, w')"
  shows "\<exists>cm c. w_trace w' = w_trace w @ [ECreate (ObjConfigMap cm) c]"
  using assms by (auto simp: createHookConfigMap_def Let_def dest!: call_trace split: prod.splits)

lemma cleanupHookResources_effects:
  "\<exists>d c. w_trace (cleanupHookResources r n ns w) =
     w_trace w @ [EDelete KindJob ns n d, EDelete KindConfigMap ns (n @ ''-ctx'') c]"
proof -
  obtain d where "w_trace (try_Delete (r_Client r) KindJob ns n w) = w_trace w @ [EDelete KindJob ns n d]"
    using try_Delete_trace by blast
  then show ?thesis
    using try_Delete_trace [of "r_Client r" KindConfigMap ns "n @ ''-ctx''" "try_Delete (r_Client r) KindJob ns n w"]
    by (auto simp: cleanupHookResources_def)
qed

lemma hook_job_effect [simp]:
  "- (2 ^ 63) \<le> n \<Longrightarrow> n \<le> hookMaxRetries \<Longrightarrow> hook_effect (ECreate (ObjJob (hook_job name ns hook cm mig n)) c)"
  using getHookAttempt_hook_job [of n] by (simp add: hook_job_def)

text \<open>What the check of an existing Job does in each of its states.\<close>

lemma checkHookJob_cases:
  assumes "checkHookJob r job hook mctx step n ns w = (res, w')"
  shows "(job_Succeeded job > 0 \<and> res = phase_completed \<and> w' = cleanupHookResources r n ns w) \<or>
    (job_Succeeded job \<le> 0 \<and> job_Failed job > 0 \<and> getHookAttempt job \<ge> hookMaxRetries \<and>
       pr_Error res \<noteq> None \<and> \<not> pr_Completed res \<and> w' = cleanupHookResources r n ns w) \<or>
    (job_Succeeded job \<le> 0 \<and> job_Failed job > 0 \<and> getHookAttempt job < hookMaxRetries \<and> \<not> pr_Completed res \<and>
       (\<exists>d. (pr_Error res \<noteq> None \<and> w_trace w' = w_trace w @ [EDelete KindJob (job_Namespace job) (job_Name job) d]) \<or>
          (\<exists>c. w_trace w' = w_trace w @ [EDelete KindJob (job_Namespace job) (job_Name job) d,
             ECreate (ObjJob (hook_job n ns hook (n @ ''-ctx'') (mc_Migration mctx) (getHookAttempt job + 1))) c]))) \<or>
    (job_Succeeded job \<le> 0 \<and> job_Failed job \<le> 0 \<and> res = phase_not_completed \<and> w' = w)"
proof -
  consider "job_Succeeded job > 0" | "job_Succeeded job \<le> 0" "job_Failed job \<le> 0"
    | "job_Succeeded job \<le> 0" "job_Failed job > 0" "getHookAttempt job \<ge> hookMaxRetries"
    | (retry) "job_Succeeded job \<le> 0" "job_Failed job > 0" "getHookAttempt job < hookMaxRetries" by linarith
  then show ?thesis
  proof cases
    case retry
    obtain d w1 where del: "Delete (r_Client r) KindJob (job_Namespace job) (job_Name job) w = (d, w1)" by fastforce
    obtain c w2 where cr: "createHookJobWithAttempt r n ns hook (n @ ''-ctx'') mctx (getHookAttempt job + 1) w1 = (c, w2)"
      by fastforce
    show ?thesis
      using retry assms call_trace(12) [OF del] createHookJobWithAttempt_effects [OF cr] del cr
      by (cases "ignore_missing d"; cases c) (auto simp: checkHookJob_def Let_def)
  qed (use assms in \<open>auto simp: checkHookJob_def Let_def\<close>)
qed


lemma checkHookJob_effects:
  assumes "checkHookJob r job hook mctx step n ns w = (res, w')"
  shows "(\<exists>es. w_trace w' = w_trace w @ es \<and> (\<forall>e \<in> set es. hook_effect e)) \<and> \<not> (pr_Completed res \<and> pr_Error res \<noteq> None)"
  using checkHookJob_cases [OF assms] cleanupHookResources_effects [of r n ns w] getHookAttempt_range [of job]
  by (elim disjE conjE exE) (auto simp del: hook_effect.simps(2))

lemma findHook_trace: "findHook r vs mctx step w = (h, w') \<Longrightarrow> w_trace w' = w_trace w"
  by (auto simp: findHook_def dest!: call_trace split: option.splits prod.splits sum.splits)

lemma runHook_effects:
  assumes "runHook r step vs mctx w = (res, vs', w')"
  shows "vs' = vs" and "\<exists>es. w_trace w' = w_trace w @ es \<and> (\<forall>e \<in> set es. hook_effect e)"
    and "\<not> (pr_Completed res \<and> pr_Error res \<noteq> None)"
proof -
  let ?n = "hook_job_name mctx vs step" and ?ns = "plan_TargetNamespace (mc_Plan mctx)"
  obtain h w1 where find: "findHook r vs mctx step w = (h, w1)" by fastforce
  note t1 = findHook_trace [OF find]
  have "vs' = vs \<and> (\<exists>es. w_trace w' = w_trace w @ es \<and> (\<forall>e \<in> set es. hook_effect e)) \<and>
      \<not> (pr_Completed res \<and> pr_Error res \<noteq> None)"
  proof (cases h)
    case None
    then show ?thesis using assms find t1 by (auto simp: runHook_def)
  next
    case (Some hook)
    obtain j w2 where get: "Get (kc_GetJob (r_Client r) ?ns ?n) w1 = (j, w2)" by fastforce
    note t2 = call_trace(17) [OF get]
    show ?thesis
    proof (cases j)
      case (Inr job)
      obtain cres w3 where chk: "checkHookJob r job hook mctx step ?n ?ns w2 = (cres, w3)" by fastforce
      then have "res = cres" "vs' = vs" "w' = w3"
        using assms find Some get Inr by (simp_all add: runHook_def Let_def)
      with checkHookJob_effects [OF chk] t1 t2 show ?thesis by auto
    next
      case (Inl e)
      obtain cerr w3 where cm: "createHookConfigMap r (?n @ ''-ctx'') ?ns vs mctx w2 = (cerr, w3)" by fastforce
      obtain jerr w4 where cj: "createHookJob r ?n ?ns hook (?n @ ''-ctx'') mctx w3 = (jerr, w4)" by fastforce
      obtain m c where t3: "w_trace w3 = w_trace w2 @ [ECreate (ObjConfigMap m) c]"
        using createHookConfigMap_effects [OF cm] by blast
      obtain d where t4: "w_trace w4 = w_trace w3 @
          [ECreate (ObjJob (hook_job ?n ?ns hook (?n @ ''-ctx'') (mc_Migration mctx) 1)) d]"
        using createHookJobWithAttempt_effects cj unfolding createHookJob_def by blast
      have "hook_effect (ECreate (ObjJob (hook_job ?n ?ns hook (?n @ ''-ctx'') (mc_Migration mctx) 1)) d)"
        by (rule hook_job_effect) simp_all
      then show ?thesis using assms find Some get Inl cm cj t1 t2 t3 t4
        by (cases "IsNotFound e"; cases cerr; cases jerr)
           (auto simp: runHook_def Let_def simp del: hook_effect.simps(2))
    qed
  qed
  then show "vs' = vs" and "\<exists>es. w_trace w' = w_trace w @ es \<and> (\<forall>e \<in> set es. hook_effect e)"
    and "\<not> (pr_Completed res \<and> pr_Error res \<noteq> None)" by blast+
qed

interpretation hooks: phase_contract ns "\<lambda>vs w res vs' w'. runHook r step vs mctx w = (res, vs', w')"
proof
  fix vs res vs' and w w' :: "'a world"
  assume run: "runHook r step vs mctx w = (res, vs', w')"
  from runHook_effects(2) [OF run] obtain es where "w_trace w' = w_trace w @ es" "\<forall>e \<in> set es. created e = {}"
    using hook_effect_created by blast
  then show "phase_ok ns vs w res vs' w'"
    unfolding runHook_effects(1) [OF run] using runHook_effects(3) [OF run] by (rule phase_ok_inert)
qed

section \<open>The retry protocol\<close>

text \<open>
  C18. The retry protocol of a hook. While the Job of a step neither succeeded nor failed the phase
  waits. A Job that failed on attempt \<open>n < 3\<close> is deleted and replaced by one whose annotation
  reads back as attempt \<open>n + 1\<close>; after a failed third attempt the phase fails and no further Job is
  created; a Job that succeeded completes the phase. Kubernetes itself never retries: the backoff
  limit is zero.
\<close>

theorem hook_retry_protocol:
  assumes "findHook r vs mctx step w = (Some hook, w1)"
    and "Get (kc_GetJob (r_Client r) (plan_TargetNamespace (mc_Plan mctx)) (hook_job_name mctx vs step)) w1 = (Inr job, w2)"
    and "runHook r step vs mctx w = (res, vs', w')"
  shows
    "(job_Succeeded job > 0 \<longrightarrow> res = phase_completed) \<and>
     (job_Succeeded job \<le> 0 \<and> job_Failed job \<le> 0 \<longrightarrow> res = phase_not_completed \<and> new_effects w w' = []) \<and>
     (job_Succeeded job \<le> 0 \<and> job_Failed job > 0 \<and> getHookAttempt job \<ge> hookMaxRetries \<longrightarrow>
        pr_Error res \<noteq> None \<and> (\<forall>j c. ECreate (ObjJob j) c \<notin> set (new_effects w w'))) \<and>
     (job_Succeeded job \<le> 0 \<and> job_Failed job > 0 \<and> getHookAttempt job < hookMaxRetries \<and> pr_Error res = None \<longrightarrow>
        \<not> pr_Completed res \<and>
        (\<exists>d j c. new_effects w w' = [EDelete KindJob (job_Namespace job) (job_Name job) d, ECreate (ObjJob j) c] \<and>
           getHookAttempt j = getHookAttempt job + 1 \<and> job_BackoffLimit j = 0))"
proof -
  let ?n = "hook_job_name mctx vs step" and ?ns = "plan_TargetNamespace (mc_Plan mctx)"
  have t: "w_trace w2 = w_trace w" using findHook_trace [OF assms(1)] call_trace(17) [OF assms(2)] by simp
  have chk: "checkHookJob r job hook mctx step ?n ?ns w2 = (res, w')"
    using assms by (simp add: runHook_def Let_def split: prod.splits)
  have next_attempt: "getHookAttempt (hook_job ?n ?ns hook (?n @ ''-ctx'') (mc_Migration mctx) (getHookAttempt job + 1)) =
      getHookAttempt job + 1" if "getHookAttempt job < hookMaxRetries"
    using getHookAttempt_range [of job] that by (intro getHookAttempt_hook_job) simp_all
  show ?thesis
    using checkHookJob_cases [OF chk] cleanupHookResources_effects [of r ?n ?ns w2] next_attempt
    by (elim disjE conjE exE) (auto simp: new_effects_def t hook_job_def Let_def)
qed


text \<open>A plan with a pre-migration hook whose Job failed on its first attempt.\<close>

definition sim_hook :: Hook where
  "sim_hook = \<lparr>hook_Name = ''quiesce'', hook_Namespace = ''vma'', hook_Image = ''img'', hook_Playbook = [],
     hook_Deadline = ''5m'', hook_ServiceAccount = []\<rparr>"

definition sim_hook_plan :: MigrationPlan where
  "sim_hook_plan = (sim_plan MigrationTypeCold TargetPowerStateStopped)\<lparr>plan_VMs :=
     [\<lparr>pvm_ID = ''vm-uuid-001'', pvm_Name = ''test-vm-linux'',
       pvm_Hooks = [\<lparr>phr_HookRef = ''quiesce'', phr_Step = ''PreHook''\<rparr>]\<rparr>]\<rparr>"

definition sim_failed_job :: Job where
  "sim_failed_job = (hook_job ''job'' ''apps'' sim_hook ''job-ctx'' sim_migration 1)\<lparr>job_Failed := 1\<rparr>"

definition sim_hook_reconciler :: "sim MigrationReconciler" where
  "sim_hook_reconciler = (sim_reconciler sim_hook_plan)\<lparr>r_Client := (sim_kube sim_hook_plan)
     \<lparr>kc_GetJob := \<lambda>ns n e. (Inr sim_failed_job, e), kc_GetHook := \<lambda>ns n e. (Inr sim_hook, e)\<rparr>\<rparr>"

theorem hook_retry_protocol_witness:
  "\<exists>res vs' w' d j c. runHook sim_hook_reconciler ''PreHook'' (sim_status VMPhasePreHook) (sim_mctx sim_hook_plan)
       (sim_world True) = (res, vs', w') \<and>
     new_effects (sim_world True) w' = [EDelete KindJob ''apps'' ''job'' d, ECreate (ObjJob j) c] \<and> getHookAttempt j = 2"
proof -
  let ?vs = "sim_status VMPhasePreHook" and ?mctx = "sim_mctx sim_hook_plan" and ?w = "sim_world True"
  have find: "findHook sim_hook_reconciler ?vs ?mctx ''PreHook'' ?w = (Some sim_hook, ?w)"
    by (simp add: findHook_def sim_hook_reconciler_def sim_hook_plan_def sim_defs op_defs perform_def)
  have get: "Get (kc_GetJob (r_Client sim_hook_reconciler) (plan_TargetNamespace (mc_Plan ?mctx))
      (hook_job_name ?mctx ?vs ''PreHook'')) ?w = (Inr sim_failed_job, ?w)"
    by (simp add: sim_hook_reconciler_def sim_defs op_defs perform_def)
  have attempt: "getHookAttempt sim_failed_job = 1"
    using getHookAttempt_hook_job [of 1] by (simp add: sim_failed_job_def getHookAttempt_def)
  obtain res vs' w' where run: "runHook sim_hook_reconciler ''PreHook'' ?vs ?mctx ?w = (res, vs', w')"
    by (rule prod_cases3)
  have "pr_Error res = None"
    using run find get attempt
    by (auto simp: runHook_def Let_def checkHookJob_def sim_failed_job_def hook_job_def createHookJobWithAttempt_def
        sim_hook_reconciler_def sim_reconciler_def sim_kube_def op_defs perform_def ignore_missing_def ignore_exists_def
        sim_world_def split: prod.splits)
  moreover have "job_Succeeded sim_failed_job \<le> 0" "job_Failed sim_failed_job > 0"
    "job_Namespace sim_failed_job = ''apps''" "job_Name sim_failed_job = ''job''"
    by (simp_all add: sim_failed_job_def hook_job_def)
  ultimately show ?thesis using hook_retry_protocol [OF find get run] run attempt by fastforce
qed

end
