(* ===== verification/Warm_Phases.thy ===== *)
theory Warm_Phases
  imports Hook_Runner
begin

text \<open>
  The warm migration phases of \<^verbatim>\<open>migration_controller.go\<close>: the bulk copy, the precopy rounds until
  the cutover, and the final sync. A delta round asks Prism Element for the changed regions page
  by page until a page has no next offset, a loop nothing bounds, and it indexes the DataVolume
  names by the position of the disk. A round is therefore an option, \<^term>\<open>None\<close> when it never
  returns, of a \<open>go_result\<close>, which is \<open>Panics\<close> when the index is out of range.
\<close>

datatype ('a, 'w) go_result = Returns 'a | Panics 'w

type_synonym 'e outcome = "(PhaseResult \<times> VMMigrationStatus \<times> 'e world, 'e world) go_result option"

type_synonym 'e warm_handler = "VMMigrationStatus \<Rightarrow> 'e migrationContext \<Rightarrow> 'e world \<Rightarrow> 'e outcome"

abbreviation returns :: "PhaseResult \<Rightarrow> VMMigrationStatus \<Rightarrow> 'e world \<Rightarrow> 'e outcome" where
  "returns res vs w \<equiv> Some (Returns (res, vs, w))"

section \<open>Bulk copy\<close>

definition phaseBulkCopy :: "'e handler" where
  "phaseBulkCopy vs mctx w =
     (let c = mc_NutanixClient mctx; mig = mc_Migration mctx in
      case (if vs_SnapshotUUID vs = []
            then (case CreateRecoveryPoint c (vs_ID vs) (snapshot_name mig vs) w of
                    (Inl err, w1) \<Rightarrow> (Some err, vs, w1)
                  | (Inr uuid, w1) \<Rightarrow> (None, vs\<lparr>vs_SnapshotUUID := uuid\<rparr>, w1))
            else (None, vs, w)) of
        (Some err, vs1, w1) \<Rightarrow> (phase_failed (errorf_w ''BulkCopy: create snapshot: '' err), vs1, w1)
      | (None, vs1, w1) \<Rightarrow>
          (case GetVM c (vs_ID vs1) w1 of
             (Inl err, w2) \<Rightarrow> (phase_failed (errorf_w ''BulkCopy: get VM: '' err), vs1, w2)
           | (Inr vm, w2) \<Rightarrow>
               let dataDisks = filterDataDisks (vm_Disks vm) in
               (case (if length (vs_ImageUUIDs vs1) < length dataDisks
                      then export_loop c (disk_object_name mig vs1) getDiskUUID (cluster_ref vm) 0 dataDisks (vs_ImageUUIDs vs1) w2
                      else (None, vs_ImageUUIDs vs1, w2)) of
                  (Some (i, err), images, w3) \<Rightarrow>
                    (phase_failed (errorf_w (''BulkCopy: export disk '' @ show_nat i @ '': '') err),
                     vs1\<lparr>vs_ImageUUIDs := images\<rparr>, w3)
                | (None, images, w3) \<Rightarrow>
                    (case createDataVolumes (vs1\<lparr>vs_ImageUUIDs := images\<rparr>) mctx dataDisks w3 of
                       (res, vs2, w4) \<Rightarrow>
                         if pr_Error res \<noteq> None then (res, vs2, w4)
                         else
                           let warm = (case vs_Warm vs2 of None \<Rightarrow> zero_WarmMigrationStatus | Some s \<Rightarrow> s)
                           in (phase_completed,
                               vs2\<lparr>vs_Warm := Some (warm\<lparr>ws_BaseSnapshotUUID := vs_SnapshotUUID vs2,
                                                         ws_BaseImageUUIDs := vs_ImageUUIDs vs2\<rparr>)\<rparr>, w4)))))"

definition phaseWaitBulkCopy :: "'e handler" where
  "phaseWaitBulkCopy vs mctx w = pollDataVolumes vs mctx w"

section \<open>Helpers\<close>

text \<open>A cutover that is nil or the zero time is \<^term>\<open>None\<close>; only a set one reads the clock.\<close>

definition isCutoverTime :: "('e \<Rightarrow> int \<times> 'e) \<Rightarrow> Migration \<Rightarrow> 'e world \<Rightarrow> bool \<times> 'e world" where
  "isCutoverTime clock migration w =
     (case mig_Cutover migration of
        None \<Rightarrow> (False, w)
      | Some cutover \<Rightarrow> (case Now clock w of (now, w1) \<Rightarrow> (cutover < now, w1)))"

definition getPodPhase :: "'e MigrationReconciler \<Rightarrow> string \<Rightarrow> string \<Rightarrow> 'e world \<Rightarrow> PodPhase \<times> 'e world" where
  "getPodPhase r name namespace w =
     (let found = (\<lambda>g. case g of Inl err \<Rightarrow> PodUnknown | Inr phase \<Rightarrow> phase) in
      case perform (kc_GetPod (r_Client r) namespace name) (\<lambda>g. [EPodPhase namespace name (found g)]) w of
        (g, w1) \<Rightarrow> (found g, w1))"

definition deletePod :: "'e MigrationReconciler \<Rightarrow> string \<Rightarrow> string \<Rightarrow> 'e world \<Rightarrow> 'e world" where
  "deletePod r name namespace w = try_Delete (r_Client r) KindPod namespace name w"

definition deleteConfigMap :: "'e MigrationReconciler \<Rightarrow> string \<Rightarrow> string \<Rightarrow> 'e world \<Rightarrow> 'e world" where
  "deleteConfigMap r name namespace w = try_Delete (r_Client r) KindConfigMap namespace name w"

section \<open>The end of a round\<close>

text \<open>The two finalizers run with the warm status set; \<open>warm\<close> is the pointer's target.\<close>

definition finalizePrecopyRound ::
  "'e MigrationReconciler \<Rightarrow> WarmMigrationStatus \<Rightarrow> 'e handler" where
  "finalizePrecopyRound r warm vs mctx w =
     (let c = mc_NutanixClient mctx;
          w1 = try_DeleteRecoveryPoint c (ws_BaseSnapshotUUID warm) w;
          w2 = for_each (try_DeleteImage c) (ws_BaseImageUUIDs warm) w1
      in case Now (r_Now r) w2 of
          (now, w3) \<Rightarrow>
            (phase_not_completed,
             vs\<lparr>vs_Warm := Some (warm\<lparr>
               ws_BaseSnapshotUUID := ws_DeltaSnapshotUUID warm,
               ws_BaseImageUUIDs := ws_DeltaImageUUIDs warm,
               ws_PrecopyRounds := ws_PrecopyRounds warm + 1,
               ws_CumulativeBytes := wrap64 (ws_CumulativeBytes warm + ws_DeltaBytes warm),
               ws_LastDeltaBytes := ws_DeltaBytes warm,
               ws_LastPrecopyTime := Some now,
               ws_DeltaSnapshotUUID := [],
               ws_DeltaImageUUIDs := [],
               ws_DeltaPodName := [],
               ws_DeltaDiskIndex := 0,
               ws_DeltaBytes := 0\<rparr>)\<rparr>, w3))"

definition finalizeFinalSync :: "WarmMigrationStatus \<Rightarrow> 'e handler" where
  "finalizeFinalSync warm vs mctx w =
     (let c = mc_NutanixClient mctx;
          w1 = try_DeleteRecoveryPoint c (ws_BaseSnapshotUUID warm) w;
          w2 = for_each (try_DeleteImage c) (ws_BaseImageUUIDs warm) w1;
          w3 = for_each (try_DeleteImage c) (ws_DeltaImageUUIDs warm) w2;
          w4 = try_DeleteRecoveryPoint c (ws_DeltaSnapshotUUID warm) w3
      in (phase_completed,
          vs\<lparr>vs_Warm := Some (warm\<lparr>
            ws_CumulativeBytes := wrap64 (ws_CumulativeBytes warm + ws_DeltaBytes warm),
            ws_LastDeltaBytes := ws_DeltaBytes warm,
            ws_DeltaSnapshotUUID := [],
            ws_DeltaImageUUIDs := [],
            ws_DeltaDiskIndex := 0,
            ws_DeltaBytes := 0\<rparr>)\<rparr>, w4))"

section \<open>A delta round\<close>

text \<open>The pages of changed regions: the offset of the next page is the one the service returns.\<close>

partial_function (option) cbt_loop ::
  "(int \<Rightarrow> 'e world \<Rightarrow> (go_error + ChangedRegions) \<times> 'e world) \<Rightarrow> int \<Rightarrow> ChangedRegion list \<Rightarrow> 'e world \<Rightarrow>
     ((go_error + ChangedRegion list) \<times> 'e world) option" where
  "cbt_loop query cbtOffset allRegions w =
     (case query cbtOffset w of
        (Inl err, w1) \<Rightarrow> Some (Inl err, w1)
      | (Inr regions, w1) \<Rightarrow>
          (case crs_NextOffset regions of
             None \<Rightarrow> Some (Inr (allRegions @ crs_Regions regions), w1)
           | Some off \<Rightarrow> cbt_loop query off (allRegions @ crs_Regions regions) w1))"

declare cbt_loop.simps [code]

definition delta_snapshot_name :: "Migration \<Rightarrow> VMMigrationStatus \<Rightarrow> string \<Rightarrow> string" where
  "delta_snapshot_name m vs label = snapshot_name m vs @ ''-'' @ label"

definition delta_image_name :: "Migration \<Rightarrow> VMMigrationStatus \<Rightarrow> string \<Rightarrow> nat \<Rightarrow> string" where
  "delta_image_name m vs label i = snapshot_name m vs @ ''-'' @ label @ ''-disk-'' @ show_nat i"

definition delta_pod_name :: "Migration \<Rightarrow> VMMigrationStatus \<Rightarrow> string \<Rightarrow> nat \<Rightarrow> string" where
  "delta_pod_name m vs label i =
     ''vma-'' @ shortID (mig_Name m) @ ''-'' @ shortID (vs_ID vs) @ ''-'' @ label @ ''-d'' @ show_nat i"

text \<open>The pod that patches disk \<open>i\<close>, or nothing when there is no DataVolume at that index.\<close>

definition delta_pod ::
  "VMMigrationStatus \<Rightarrow> 'e migrationContext \<Rightarrow> string \<Rightarrow> WarmMigrationStatus \<Rightarrow> ChangedRegion list \<Rightarrow> (Pod \<times> ConfigMap) option" where
  "delta_pod vs mctx label warm allRegions =
     (let i = ws_DeltaDiskIndex warm; mig = mc_Migration mctx in
      if i < length (ws_DeltaImageUUIDs warm) \<and> i < length (vs_DataVolumeNames vs) then
        Some (BuildDeltaPod
          \<lparr>dpo_Name = delta_pod_name mig vs label i, dpo_Namespace = plan_TargetNamespace (mc_Plan mctx),
           dpo_PVCName = vs_DataVolumeNames vs ! i,
           dpo_ImageURL = ImageDownloadURL (mc_TransferMgr mctx) (ws_DeltaImageUUIDs warm ! i),
           dpo_SecretName = cred_secret_name mig, dpo_Regions = allRegions, dpo_OwnerRef = migration_owner mig\<rparr>)
      else None)"

text \<open>Creating the ConfigMap of the regions and the pod; the status then names the pod.\<close>

definition start_delta_pod ::
  "'e MigrationReconciler \<Rightarrow> string \<Rightarrow> WarmMigrationStatus \<Rightarrow> Pod \<Rightarrow> ConfigMap \<Rightarrow> VMMigrationStatus \<Rightarrow> 'e world \<Rightarrow>
     PhaseResult \<times> VMMigrationStatus \<times> 'e world" where
  "start_delta_pod r label warm pod regionsCM vs w =
     (case Create (r_Client r) (ObjConfigMap regionsCM) w of
        (cerr, w1) \<Rightarrow>
          (case ignore_exists cerr of
             Some err \<Rightarrow> (phase_failed (errorf_w (label @ '': create regions ConfigMap: '') err), vs, w1)
           | None \<Rightarrow>
               (case Create (r_Client r) (ObjPod pod) w1 of
                  (perr, w2) \<Rightarrow>
                    (case ignore_exists perr of
                       Some err \<Rightarrow> (phase_failed (errorf_w (label @ '': create delta pod: '') err), vs, w2)
                     | None \<Rightarrow> (phase_not_completed, vs\<lparr>vs_Warm := Some (warm\<lparr>ws_DeltaPodName := pod_Name pod\<rparr>)\<rparr>, w2)))))"

text \<open>The part of the round that handles the current disk.\<close>

definition delta_disk ::
  "'e MigrationReconciler \<Rightarrow> string \<Rightarrow> (WarmMigrationStatus \<Rightarrow> 'e handler) \<Rightarrow> WarmMigrationStatus \<Rightarrow> Disk list \<Rightarrow> 'e warm_handler" where
  "delta_disk r label onComplete warm dataDisks vs mctx w =
     (if ws_DeltaDiskIndex warm \<ge> length dataDisks then Some (Returns (onComplete warm vs mctx w))
      else
        case DiscoverClusterForCBT (mc_NutanixClient mctx) (vs_ID vs) w of
          (Inl err, w1) \<Rightarrow> returns (phase_failed (errorf_w (label @ '': CBT discover: '') err)) vs w1
        | (Inr cbtInfo, w1) \<Rightarrow>
            let diskSize = getDiskSize (dataDisks ! ws_DeltaDiskIndex warm) in
            (case cbt_loop (\<lambda>off. GetChangedRegions (mc_NutanixClient mctx) (cbt_PrismElementURL cbtInfo)
                     (cbt_JWTToken cbtInfo) (vs_ID vs) (ws_DeltaSnapshotUUID warm) (ws_BaseSnapshotUUID warm)
                     off diskSize CBTBlockSize) 0 [] w1 of
               None \<Rightarrow> None
             | Some (Inl err, w2) \<Rightarrow> returns (phase_failed (errorf_w (label @ '': CBT regions: '') err)) vs w2
             | Some (Inr allRegions, w2) \<Rightarrow>
                 let warm1 = warm\<lparr>ws_DeltaBytes := wrap64 (ws_DeltaBytes warm + DeltaBytes allRegions)\<rparr> in
                 if allRegions = [] then
                   (let warm2 = warm1\<lparr>ws_DeltaDiskIndex := Suc (ws_DeltaDiskIndex warm1)\<rparr>;
                        vs2 = vs\<lparr>vs_Warm := Some warm2\<rparr>
                    in if ws_DeltaDiskIndex warm2 \<ge> length dataDisks then Some (Returns (onComplete warm2 vs2 mctx w2))
                       else returns phase_not_completed vs2 w2)
                 else
                   (case delta_pod vs mctx label warm1 allRegions of
                      None \<Rightarrow> Some (Panics w2)
                    | Some (pod, regionsCM) \<Rightarrow>
                        Some (Returns (start_delta_pod r label warm1 pod regionsCM (vs\<lparr>vs_Warm := Some warm1\<rparr>) w2)))))"

definition runDeltaRound ::
  "'e MigrationReconciler \<Rightarrow> string \<Rightarrow> (WarmMigrationStatus \<Rightarrow> 'e handler) \<Rightarrow> WarmMigrationStatus \<Rightarrow> 'e warm_handler" where
  "runDeltaRound r label onComplete warm vs mctx w =
     (let c = mc_NutanixClient mctx; mig = mc_Migration mctx in
      case (if ws_DeltaSnapshotUUID warm = []
            then (case CreateRecoveryPoint c (vs_ID vs) (delta_snapshot_name mig vs label) w of
                    (Inl err, w1) \<Rightarrow> (Some err, warm, w1)
                  | (Inr uuid, w1) \<Rightarrow> (None, warm\<lparr>ws_DeltaSnapshotUUID := uuid\<rparr>, w1))
            else (None, warm, w)) of
        (Some err, warm1, w1) \<Rightarrow>
          returns (phase_failed (errorf_w (label @ '': create snapshot: '') err)) (vs\<lparr>vs_Warm := Some warm1\<rparr>) w1
      | (None, warm1, w1) \<Rightarrow>
          (case GetVM c (vs_ID vs) w1 of
             (Inl err, w2) \<Rightarrow>
               returns (phase_failed (errorf_w (label @ '': get VM: '') err)) (vs\<lparr>vs_Warm := Some warm1\<rparr>) w2
           | (Inr vm, w2) \<Rightarrow>
               let dataDisks = filterDataDisks (vm_Disks vm) in
               (case (if length (ws_DeltaImageUUIDs warm1) < length dataDisks
                      then export_loop c (delta_image_name mig vs label) getDiskUUID (cluster_ref vm) 0 dataDisks
                             (ws_DeltaImageUUIDs warm1) w2
                      else (None, ws_DeltaImageUUIDs warm1, w2)) of
                  (Some (i, err), images, w3) \<Rightarrow>
                    returns (phase_failed (errorf_w (label @ '': export disk '' @ show_nat i @ '': '') err))
                      (vs\<lparr>vs_Warm := Some (warm1\<lparr>ws_DeltaImageUUIDs := images\<rparr>)\<rparr>) w3
                | (None, images, w3) \<Rightarrow>
                    let warm2 = warm1\<lparr>ws_DeltaImageUUIDs := images\<rparr>
                    in delta_disk r label onComplete warm2 dataDisks (vs\<lparr>vs_Warm := Some warm2\<rparr>) mctx w3)))"

definition checkDeltaPod :: "'e MigrationReconciler \<Rightarrow> WarmMigrationStatus \<Rightarrow> 'e handler" where
  "checkDeltaPod r warm vs mctx w =
     (let targetNS = plan_TargetNamespace (mc_Plan mctx) in
      case getPodPhase r (ws_DeltaPodName warm) targetNS w of
        (PodSucceeded, w1) \<Rightarrow>
          (let w2 = deletePod r (ws_DeltaPodName warm) targetNS w1;
               w3 = deleteConfigMap r (ws_DeltaPodName warm @ ''-regions'') targetNS w2;
               warm1 = warm\<lparr>ws_DeltaPodName := []\<rparr>
           in case GetVM (mc_NutanixClient mctx) (vs_ID vs) w3 of
                (Inl err, w4) \<Rightarrow> (phase_failed (errorf_w ''delta pod: get VM: '' err), vs\<lparr>vs_Warm := Some warm1\<rparr>, w4)
              | (Inr vm, w4) \<Rightarrow>
                  (phase_not_completed,
                   vs\<lparr>vs_Warm := Some (warm1\<lparr>ws_DeltaDiskIndex := Suc (ws_DeltaDiskIndex warm1)\<rparr>)\<rparr>, w4))
      | (PodFailed, w1) \<Rightarrow> (phase_failed (errors_New (''delta pod '' @ ws_DeltaPodName warm @ '' failed'')), vs, w1)
      | (_, w1) \<Rightarrow> (phase_not_completed, vs, w1))"

section \<open>Precopy and final sync\<close>

definition precopy_interval :: "MigrationPlan \<Rightarrow> int" where
  "precopy_interval plan =
     (let dflt = 30 * 60 * 1000000000 in
      case plan_WarmConfig plan of
        None \<Rightarrow> dflt
      | Some cfg \<Rightarrow>
          if wc_PrecopyInterval cfg = [] then dflt
          else (case ParseDuration (wc_PrecopyInterval cfg) of None \<Rightarrow> dflt | Some d \<Rightarrow> d))"

definition max_precopy_rounds :: "MigrationPlan \<Rightarrow> int" where
  "max_precopy_rounds plan = (case plan_WarmConfig plan of None \<Rightarrow> 10 | Some cfg \<Rightarrow> wc_MaxPrecopyRounds cfg)"

definition phasePrecopy :: "'e MigrationReconciler \<Rightarrow> 'e warm_handler" where
  "phasePrecopy r vs mctx w =
     (case vs_Warm vs of
        None \<Rightarrow> returns (phase_failed (errors_New ''precopy: warm status not initialized'')) vs w
      | Some warm \<Rightarrow>
          (case isCutoverTime (r_Now r) (mc_Migration mctx) w of
             (True, w1) \<Rightarrow>
               if ws_DeltaPodName warm \<noteq> [] then
                 (case getPodPhase r (ws_DeltaPodName warm) (plan_TargetNamespace (mc_Plan mctx)) w1 of
                    (phase, w2) \<Rightarrow>
                      if phase = PodRunning \<or> phase = PodPending then returns phase_not_completed vs w2
                      else returns phase_completed vs w2)
               else returns phase_completed vs w1
           | (False, w1) \<Rightarrow>
               if ws_DeltaPodName warm \<noteq> [] then Some (Returns (checkDeltaPod r warm vs mctx w1))
               else if ws_PrecopyRounds warm \<ge> max_precopy_rounds (mc_Plan mctx) then returns phase_not_completed vs w1
               else
                 let start_round = runDeltaRound r (''pc'' @ show_int (ws_PrecopyRounds warm + 1)) (finalizePrecopyRound r) warm vs mctx
                 in case ws_LastPrecopyTime warm of
                      None \<Rightarrow> start_round w1
                    | Some t \<Rightarrow>
                        (case Now (r_Now r) w1 of
                           (now, w2) \<Rightarrow>
                             if now - t < precopy_interval (mc_Plan mctx) then returns phase_not_completed vs w2
                             else start_round w2)))"

definition phaseFinalSync :: "'e MigrationReconciler \<Rightarrow> 'e warm_handler" where
  "phaseFinalSync r vs mctx w =
     (case vs_Warm vs of
        None \<Rightarrow> returns (phase_failed (errors_New ''finalSync: warm status not initialized'')) vs w
      | Some warm \<Rightarrow>
          if ws_DeltaPodName warm \<noteq> [] then Some (Returns (checkDeltaPod r warm vs mctx w))
          else runDeltaRound r ''final'' finalizeFinalSync warm vs mctx w)"

end
