(* ===== verification/Warm_Contract.thy ===== *)
theory Warm_Contract
  imports Warm_Phases
begin

text \<open>
  The warm handlers meet the contract of \<open>Resource_Tracking\<close>. The extra difficulty is that a round
  moves resources: the finalizer of a precopy round deletes the old base and promotes the delta
  snapshot and images to be the new base.
\<close>

section \<open>Resources of the warm status\<close>

definition flows :: "resource set \<Rightarrow> 'e world \<Rightarrow> resource set \<Rightarrow> 'e world \<Rightarrow> bool" where
  "flows A w B w' = (\<exists>es. w_trace w' = w_trace w @ es \<and> live A es \<subseteq> B)"

lemma flows_refl: "A \<subseteq> B \<Longrightarrow> flows A w B w"
  by (auto simp: flows_def)

lemma flows_trans: "flows A w B w1 \<Longrightarrow> flows B w1 C w2 \<Longrightarrow> flows A w C w2"
  unfolding flows_def by (metis (no_types, lifting) append.assoc live_append live_mono order_trans)

lemma flows_same_trace: "w_trace w1 = w_trace w \<Longrightarrow> flows A w1 B w' \<Longrightarrow> flows A w B w'"
  by (simp add: flows_def)

lemma flows_same_trace': "flows A w B w1 \<Longrightarrow> w_trace w' = w_trace w1 \<Longrightarrow> flows A w B w'"
  by (simp add: flows_def)

lemma flows_adds: "w_trace w' = w_trace w @ es \<Longrightarrow> adds es X \<Longrightarrow> A \<union> X \<subseteq> B \<Longrightarrow> flows A w B w'"
  unfolding flows_def adds_def by (metis order_trans)

lemma flows_inert: "w_trace w' = w_trace w @ es \<Longrightarrow> \<forall>e \<in> set es. created e = {} \<Longrightarrow> A \<subseteq> B \<Longrightarrow> flows A w B w'"
  by (rule flows_adds [where X = "{}"]) (auto intro: adds_nothing)

lemma flows_clears:
  assumes "clears w w' X" and "A - X \<subseteq> B"
  shows "flows A w B w'"
proof -
  obtain es where es: "w_trace w' = w_trace w @ es" "\<forall>e \<in> set es. is_deletion e" "X \<subseteq> (\<Union>e \<in> set es. removed e)"
    using assms(1) by (auto simp: clears_def wipes_def)
  then have "live A es = A - (\<Union>e \<in> set es. removed e)" by (intro live_without_creation) (simp add: is_deletion_created)
  with es assms(2) show ?thesis unfolding flows_def by blast
qed

lemma tracked_Some_warm:
  "tracked ns (vs\<lparr>vs_Warm := Some warm\<rparr>) = tracked ns (vs\<lparr>vs_Warm := None\<rparr>) \<union> tracked_warm ns warm"
  by (simp add: tracked_def)

lemma tracks_warm:
  assumes "flows (tracked_warm ns warm) w (tracked_warm ns warm') w'" and "vs_Warm vs = Some warm"
  shows "tracks ns vs w (vs\<lparr>vs_Warm := Some warm'\<rparr>) w'"
proof -
  let ?C = "tracked ns (vs\<lparr>vs_Warm := None\<rparr>)"
  have vs: "tracked ns vs = ?C \<union> tracked_warm ns warm"
    using tracked_Some_warm [of ns warm vs] assms(2) by (simp add: tracked_def)
  obtain es where es: "w_trace w' = w_trace w @ es" "live (tracked_warm ns warm) es \<subseteq> tracked_warm ns warm'"
    using assms(1) by (auto simp: flows_def)
  have "live (tracked ns vs) es \<subseteq> ?C \<union> live (tracked_warm ns warm) es" unfolding vs by (rule live_Un)
  with es show ?thesis unfolding tracks_def tracked_Some_warm by blast
qed

lemma keeps_warm [simp]: "keeps_records vs (vs\<lparr>vs_Warm := x\<rparr>)"
  by (simp add: keeps_records_def)

lemma phase_ok_warm:
  assumes "flows (tracked_warm ns warm) w (tracked_warm ns warm') w'" and "vs_Warm vs = Some warm"
    and "\<not> (pr_Completed res \<and> pr_Error res \<noteq> None)"
  shows "phase_ok ns vs w res (vs\<lparr>vs_Warm := Some warm'\<rparr>) w'"
  using tracks_warm [OF assms(1,2)] assms(3) by (simp add: phase_ok_def)

lemma tracked_warm_update [simp]:
  "tracked_warm ns (warm\<lparr>ws_DeltaBytes := b\<rparr>) = tracked_warm ns warm"
  "tracked_warm ns (warm\<lparr>ws_DeltaDiskIndex := i\<rparr>) = tracked_warm ns warm"
  by (simp_all add: tracked_warm_def)

section \<open>The finalizers\<close>

lemma clears_base:
  "clears w (for_each (try_DeleteImage c) us (try_DeleteRecoveryPoint c u w)) (snapshot_set u \<union> RImage ` set us)"
  by (rule clears_trans [OF clears_snapshot clears_images])

text \<open>What an \<open>onComplete\<close> function has to guarantee to its round.\<close>

definition finalizer_ok :: "string \<Rightarrow> (WarmMigrationStatus \<Rightarrow> 'e handler) \<Rightarrow> 'e migrationContext \<Rightarrow> bool" where
  "finalizer_ok ns fin mctx =
     (\<forall>warm vs w res vs' w'. fin warm vs mctx w = (res, vs', w') \<longrightarrow> ws_DeltaPodName warm = [] \<longrightarrow>
        (\<exists>warm'. vs' = vs\<lparr>vs_Warm := Some warm'\<rparr> \<and> flows (tracked_warm ns warm) w (tracked_warm ns warm') w') \<and>
        \<not> (pr_Completed res \<and> pr_Error res \<noteq> None))"

lemma finalizePrecopyRound_ok: "finalizer_ok ns (finalizePrecopyRound r) mctx"
  unfolding finalizer_ok_def
proof (intro allI impI)
  fix warm vs w res vs' w'
  assume run: "finalizePrecopyRound r warm vs mctx w = (res, vs', w')" and pod: "ws_DeltaPodName warm = []"
  let ?c = "mc_NutanixClient mctx"
  let ?w2 = "for_each (try_DeleteImage ?c) (ws_BaseImageUUIDs warm) (try_DeleteRecoveryPoint ?c (ws_BaseSnapshotUUID warm) w)"
  obtain now w3 where n: "Now (r_Now r) ?w2 = (now, w3)" by fastforce
  let ?warm' = "warm\<lparr>ws_BaseSnapshotUUID := ws_DeltaSnapshotUUID warm, ws_BaseImageUUIDs := ws_DeltaImageUUIDs warm,
      ws_PrecopyRounds := ws_PrecopyRounds warm + 1,
      ws_CumulativeBytes := wrap64 (ws_CumulativeBytes warm + ws_DeltaBytes warm),
      ws_LastDeltaBytes := ws_DeltaBytes warm, ws_LastPrecopyTime := Some now, ws_DeltaSnapshotUUID := [],
      ws_DeltaImageUUIDs := [], ws_DeltaPodName := [], ws_DeltaDiskIndex := 0, ws_DeltaBytes := 0\<rparr>"
  have out: "w' = w3" "res = phase_not_completed" "vs' = vs\<lparr>vs_Warm := Some ?warm'\<rparr>"
    using run unfolding finalizePrecopyRound_def Let_def n prod.case by simp_all
  have t: "tracked_warm ns ?warm' = RImage ` set (ws_DeltaImageUUIDs warm) \<union> snapshot_set (ws_DeltaSnapshotUUID warm)"
    by (simp add: tracked_warm_def snapshot_set_def pod_set_def)
  have "flows (tracked_warm ns warm) w (RImage ` set (ws_DeltaImageUUIDs warm) \<union> snapshot_set (ws_DeltaSnapshotUUID warm)) ?w2"
    by (rule flows_clears [OF clears_base]) (auto simp: tracked_warm_def pod pod_set_def)
  then have "flows (tracked_warm ns warm) w (tracked_warm ns ?warm') w'"
    unfolding t out(1) by (rule flows_same_trace') (rule call_trace(18) [OF n])
  with out show "(\<exists>warm'. vs' = vs\<lparr>vs_Warm := Some warm'\<rparr> \<and> flows (tracked_warm ns warm) w (tracked_warm ns warm') w') \<and>
      \<not> (pr_Completed res \<and> pr_Error res \<noteq> None)"
    by (metis PhaseResult.select_convs(1))
qed

lemma finalizeFinalSync_clears:
  assumes "finalizeFinalSync warm vs mctx w = (res, vs', w')"
  shows "clears w w' (snapshot_set (ws_BaseSnapshotUUID warm) \<union> RImage ` set (ws_BaseImageUUIDs warm) \<union>
      RImage ` set (ws_DeltaImageUUIDs warm) \<union> snapshot_set (ws_DeltaSnapshotUUID warm))"
  using assms clears_trans [OF clears_trans [OF clears_base clears_images] clears_snapshot]
  by (auto simp: finalizeFinalSync_def Let_def)

lemma finalizeFinalSync_ok: "finalizer_ok ns finalizeFinalSync mctx"
  unfolding finalizer_ok_def
proof (intro allI impI)
  fix warm vs w res vs' w'
  assume run: "finalizeFinalSync warm vs mctx w = (res, vs', w')" and pod: "ws_DeltaPodName warm = []"
  obtain warm' where out: "vs' = vs\<lparr>vs_Warm := Some warm'\<rparr>" "res = phase_completed"
    using run by (auto simp: finalizeFinalSync_def Let_def)
  have "flows (tracked_warm ns warm) w (tracked_warm ns warm') w'"
    by (rule flows_clears [OF finalizeFinalSync_clears [OF run]]) (auto simp: tracked_warm_def pod pod_set_def)
  with out show "(\<exists>warm'. vs' = vs\<lparr>vs_Warm := Some warm'\<rparr> \<and> flows (tracked_warm ns warm) w (tracked_warm ns warm') w') \<and>
      \<not> (pr_Completed res \<and> pr_Error res \<noteq> None)" by auto
qed

section \<open>The round\<close>

text \<open>Reading the changed regions changes nothing that is tracked.\<close>

lemma cbt_loop_trace:
  assumes "cbt_loop q off acc w = Some y" and "\<And>off w r w'. q off w = (r, w') \<Longrightarrow> w_trace w' = w_trace w"
  shows "w_trace (snd y) = w_trace w"
proof -
  have "cbt_loop q off acc w = Some y \<Longrightarrow> (\<forall>off w r w'. q off w = (r, w') \<longrightarrow> w_trace w' = w_trace w) \<longrightarrow>
      w_trace (snd y) = w_trace w"
  proof (induction rule: cbt_loop.raw_induct [rotated, consumes 1])
    case (1 loop q off acc w y)
    obtain r w1 where q: "q off w = (r, w1)" by fastforce
    show ?case
    proof
      assume inert: "\<forall>off w r w'. q off w = (r, w') \<longrightarrow> w_trace w' = w_trace w"
      with q have w1: "w_trace w1 = w_trace w" by blast
      show "w_trace (snd y) = w_trace w"
      proof (cases "\<exists>regions off'. r = Inr regions \<and> crs_NextOffset regions = Some off'")
        case True
        then obtain regions off' where "r = Inr regions" "crs_NextOffset regions = Some off'" by blast
        with 1(2) q have "loop q off' (acc @ crs_Regions regions) w1 = Some y" by simp
        from 1(1) [OF this] inert w1 show ?thesis by simp
      next
        case False
        with 1(2) q have "snd y = w1" by (auto split: sum.splits option.splits)
        with w1 show ?thesis by simp
      qed
    qed
  qed
  with assms show ?thesis by blast
qed


lemma start_delta_pod_ok:
  assumes "start_delta_pod r label warm pod cm vs w = (res, vs', w')"
    and "vs_Warm vs = Some warm" and "ws_DeltaPodName warm = []" and "pod_Namespace pod = ns" and "pod_Name pod \<noteq> []"
  shows "phase_ok ns vs w res vs' w'"
proof -
  obtain c w1 where cc: "Create (r_Client r) (ObjConfigMap cm) w = (c, w1)" by fastforce
  obtain p w2 where cp: "Create (r_Client r) (ObjPod pod) w1 = (p, w2)" by fastforce
  note t1 = call_trace(11) [OF cc] and t2 = call_trace(11) [OF cp]
  show ?thesis
  proof (cases "ignore_exists c")
    case (Some err)
    then have "vs' = vs" "w' = w1" "\<not> pr_Completed res" using assms(1) cc by (auto simp: start_delta_pod_def)
    then show ?thesis using t1 by (auto intro: phase_ok_one_effect)
  next
    case None
    show ?thesis
    proof (cases "ignore_exists p")
      case (Some err)
      then have out: "vs' = vs" "w' = w2" "\<not> pr_Completed res" using assms(1) cc cp None by (auto simp: start_delta_pod_def)
      have "created (ECreate (ObjPod pod) p) = {}" using Some by (cases p) (auto simp: ignore_exists_def)
      then show ?thesis unfolding out using t1 t2 out(3)
        by (intro phase_ok_inert [where es = "[ECreate (ObjConfigMap cm) c, ECreate (ObjPod pod) p]"]) auto
    next
      case None': None
      let ?warm' = "warm\<lparr>ws_DeltaPodName := pod_Name pod\<rparr>"
      have out: "vs' = vs\<lparr>vs_Warm := Some ?warm'\<rparr>" "w' = w2" "res = phase_not_completed"
        using assms(1) cc cp None None' by (auto simp: start_delta_pod_def)
      have "adds ([ECreate (ObjConfigMap cm) c] @ [ECreate (ObjPod pod) p]) ({} \<union> {RPod ns (pod_Name pod)})"
        by (intro adds_append adds_single) (cases p; simp add: assms(4))+
      then have "flows (tracked_warm ns warm) w (tracked_warm ns ?warm') w2"
        by (rule flows_adds [rotated]) (use t1 t2 assms(3,5) in \<open>auto simp: tracked_warm_def pod_set_def\<close>)
      from phase_ok_warm [OF this assms(2)] show ?thesis unfolding out by simp
    qed
  qed
qed

lemma delta_pod_fields:
  assumes "delta_pod vs mctx label warm regions = Some (pod, cm)"
  shows "pod_Namespace pod = plan_TargetNamespace (mc_Plan mctx)" "pod_Name pod \<noteq> []"
  using assms by (auto simp: delta_pod_def BuildDeltaPod_def delta_pod_name_def Let_def split: if_splits)

lemma delta_disk_ok:
  assumes run: "delta_disk r label fin warm ds vs mctx w = Some (Returns (res, vs', w'))"
    and fin: "finalizer_ok (plan_TargetNamespace (mc_Plan mctx)) fin mctx"
    and warm: "vs_Warm vs = Some warm" and pod: "ws_DeltaPodName warm = []"
  shows "phase_ok (plan_TargetNamespace (mc_Plan mctx)) vs w res vs' w'"
proof -
  let ?ns = "plan_TargetNamespace (mc_Plan mctx)"
  have finish: "phase_ok ?ns vs w res vs' w'"
    if f: "fin warm1 (vs\<lparr>vs_Warm := Some warm1\<rparr>) mctx w1 = (res, vs', w')"
      and tw: "tracked_warm ?ns warm1 = tracked_warm ?ns warm" and np: "ws_DeltaPodName warm1 = []"
      and tr: "w_trace w1 = w_trace w" for warm1 w1
  proof -
    obtain warm' where o: "vs' = (vs\<lparr>vs_Warm := Some warm1\<rparr>)\<lparr>vs_Warm := Some warm'\<rparr>"
      "flows (tracked_warm ?ns warm1) w1 (tracked_warm ?ns warm') w'" "\<not> (pr_Completed res \<and> pr_Error res \<noteq> None)"
      using fin f np unfolding finalizer_ok_def by blast
    have "flows (tracked_warm ?ns warm) w (tracked_warm ?ns warm') w'"
      using flows_same_trace [OF tr o(2)] tw by simp
    from phase_ok_warm [OF this warm o(3)] show ?thesis using o(1) by simp
  qed
  show ?thesis
  proof (cases "ws_DeltaDiskIndex warm \<ge> length ds")
    case True
    have "vs\<lparr>vs_Warm := Some warm\<rparr> = vs" using warm by simp
    then show ?thesis using run True finish [of warm w] pod by (auto simp: delta_disk_def)
  next
    case False
    obtain d w1 where disc: "DiscoverClusterForCBT (mc_NutanixClient mctx) (vs_ID vs) w = (d, w1)" by fastforce
    note t1 = call_trace(9) [OF disc]
    show ?thesis
    proof (cases d)
      case (Inl err)
      then show ?thesis using run False disc t1 by (auto simp: delta_disk_def intro: phase_ok_no_effect)
    next
      case (Inr info)
      let ?q = "\<lambda>off. GetChangedRegions (mc_NutanixClient mctx) (cbt_PrismElementURL info) (cbt_JWTToken info) (vs_ID vs)
          (ws_DeltaSnapshotUUID warm) (ws_BaseSnapshotUUID warm) off (getDiskSize (ds ! ws_DeltaDiskIndex warm)) CBTBlockSize"
      obtain y where y: "cbt_loop ?q 0 [] w1 = Some y"
        using run False disc Inr by (cases "cbt_loop ?q 0 [] w1") (auto simp: delta_disk_def Let_def)
      obtain regs w2 where rw: "y = (regs, w2)" by fastforce
      have t2: "w_trace w2 = w_trace w"
        using cbt_loop_trace [OF y] call_trace(10) t1 rw by fastforce
      show ?thesis
      proof (cases regs)
        case (Inl err)
        then show ?thesis using run False disc Inr y rw t2 by (auto simp: delta_disk_def Let_def intro: phase_ok_no_effect)
      next
        case regions: (Inr regions)
        let ?warm1 = "warm\<lparr>ws_DeltaBytes := wrap64 (ws_DeltaBytes warm + DeltaBytes regions)\<rparr>"
        let ?warm2 = "?warm1\<lparr>ws_DeltaDiskIndex := Suc (ws_DeltaDiskIndex ?warm1)\<rparr>"
        note run' = run [unfolded delta_disk_def if_not_P [OF False] disc Inr Let_def y rw regions prod.case sum.case option.case]
        show ?thesis
        proof (cases "regions = []")
          case True
          have "phase_ok ?ns vs w phase_not_completed (vs\<lparr>vs_Warm := Some ?warm2\<rparr>) w2"
            by (rule phase_ok_warm [OF _ warm]) (use t2 in \<open>auto intro: flows_same_trace' flows_refl\<close>)
          then show ?thesis using run' True finish [of ?warm2 w2] t2 pod by (auto split: if_splits)
        next
          case False
          obtain p cm where dp: "delta_pod vs mctx label ?warm1 regions = Some (p, cm)"
            using run' False by (auto split: option.splits)
          have st: "start_delta_pod r label ?warm1 p cm (vs\<lparr>vs_Warm := Some ?warm1\<rparr>) w2 = (res, vs', w')"
            using run' False dp by auto
          have "phase_ok ?ns (vs\<lparr>vs_Warm := Some ?warm1\<rparr>) w2 res vs' w'"
            by (rule start_delta_pod_ok [OF st]) (use delta_pod_fields [OF dp] pod in auto)
          moreover have "tracked ?ns (vs\<lparr>vs_Warm := Some ?warm1\<rparr>) = tracked ?ns vs"
            using warm by (simp add: tracked_def)
          ultimately show ?thesis using t2
            by (auto simp: phase_ok_def tracks_def same_identity_def keeps_records_def)
        qed
      qed
    qed
  qed
qed


lemma phase_ok_after_warm:
  assumes "flows (tracked_warm ns warm) w (tracked_warm ns warm1) w1" and "vs_Warm vs = Some warm"
    and "phase_ok ns (vs\<lparr>vs_Warm := Some warm1\<rparr>) w1 res vs' w'"
  shows "phase_ok ns vs w res vs' w'"
  using tracks_trans [OF tracks_warm [OF assms(1,2)]] assms(3)
  by (auto simp: phase_ok_def same_identity_def keeps_records_def)

lemma delta_snapshot_flows:
  assumes "(if ws_DeltaSnapshotUUID warm = []
       then (case CreateRecoveryPoint c vid name w of
               (Inl err, w1) \<Rightarrow> (Some err, warm, w1)
             | (Inr uuid, w1) \<Rightarrow> (None, warm\<lparr>ws_DeltaSnapshotUUID := uuid\<rparr>, w1))
       else (None, warm, w)) = (e, warm1, w1)"
  shows "flows (tracked_warm ns warm) w (tracked_warm ns warm1) w1 \<and> ws_DeltaPodName warm1 = ws_DeltaPodName warm"
proof (cases "ws_DeltaSnapshotUUID warm = []")
  case True
  obtain r w2 where call: "CreateRecoveryPoint c vid name w = (r, w2)" by fastforce
  note t = call_trace(5) [OF call]
  show ?thesis
  proof (cases r)
    case (Inl err)
    then have "warm1 = warm" "w1 = w2" using assms True call by auto
    then show ?thesis using t Inl by (auto intro: flows_inert)
  next
    case (Inr u)
    then have out: "warm1 = warm\<lparr>ws_DeltaSnapshotUUID := u\<rparr>" "w1 = w2" using assms True call by auto
    have "adds [ECreateRecoveryPoint vid name r] (snapshot_set u)" by (rule adds_single) (simp add: Inr snapshot_set_def)
    with out t True show ?thesis by (auto intro!: flows_adds simp: tracked_warm_def snapshot_set_def)
  qed
qed (use assms in \<open>auto intro: flows_refl\<close>)

lemma delta_export_flows:
  assumes "(if length (ws_DeltaImageUUIDs warm) < length ds
       then export_loop c name getDiskUUID cl 0 ds (ws_DeltaImageUUIDs warm) w
       else (None, ws_DeltaImageUUIDs warm, w)) = (e, images, w1)"
  shows "flows (tracked_warm ns warm) w (tracked_warm ns (warm\<lparr>ws_DeltaImageUUIDs := images\<rparr>)) w1"
proof (cases "length (ws_DeltaImageUUIDs warm) < length ds")
  case True
  then have "export_loop c name getDiskUUID cl 0 ds (ws_DeltaImageUUIDs warm) w = (e, images, w1)" using assms by simp
  from export_loop_spec [OF this] obtain es more where "w_trace w1 = w_trace w @ es"
    "images = ws_DeltaImageUUIDs warm @ more" "adds es (RImage ` set more)" by blast
  then show ?thesis by (auto intro!: flows_adds simp: tracked_warm_def)
qed (use assms in \<open>auto intro: flows_refl\<close>)

lemma runDeltaRound_ok:
  assumes run: "runDeltaRound r label fin warm vs mctx w = Some (Returns (res, vs', w'))"
    and fin: "finalizer_ok (plan_TargetNamespace (mc_Plan mctx)) fin mctx"
    and warm: "vs_Warm vs = Some warm" and pod: "ws_DeltaPodName warm = []"
  shows "phase_ok (plan_TargetNamespace (mc_Plan mctx)) vs w res vs' w'"
proof -
  let ?ns = "plan_TargetNamespace (mc_Plan mctx)" and ?c = "mc_NutanixClient mctx" and ?mig = "mc_Migration mctx"
  obtain e1 warm1 w1 where s1: "(if ws_DeltaSnapshotUUID warm = []
       then (case CreateRecoveryPoint ?c (vs_ID vs) (delta_snapshot_name ?mig vs label) w of
               (Inl err, w1) \<Rightarrow> (Some err, warm, w1)
             | (Inr uuid, w1) \<Rightarrow> (None, warm\<lparr>ws_DeltaSnapshotUUID := uuid\<rparr>, w1))
       else (None, warm, w)) = (e1, warm1, w1)" by (rule prod_cases3)
  have f1: "flows (tracked_warm ?ns warm) w (tracked_warm ?ns warm1) w1" and p1: "ws_DeltaPodName warm1 = []"
    using delta_snapshot_flows [OF s1] pod by auto
  note run1 = run [unfolded runDeltaRound_def Let_def s1 prod.case]
  show ?thesis
  proof (cases e1)
    case (Some err)
    then show ?thesis using run1 phase_ok_warm [OF f1 warm] by auto
  next
    case None
    obtain g w2 where get: "GetVM ?c (vs_ID vs) w1 = (g, w2)" by fastforce
    note f2 = flows_same_trace' [OF f1 call_trace(1) [OF get]]
    show ?thesis
    proof (cases g)
      case (Inl err)
      then show ?thesis using run1 None get phase_ok_warm [OF f2 warm] by auto
    next
      case (Inr vm)
      obtain e3 images w3 where s3: "(if length (ws_DeltaImageUUIDs warm1) < length (filterDataDisks (vm_Disks vm))
           then export_loop ?c (delta_image_name ?mig vs label) getDiskUUID (cluster_ref vm) 0 (filterDataDisks (vm_Disks vm))
              (ws_DeltaImageUUIDs warm1) w2
           else (None, ws_DeltaImageUUIDs warm1, w2)) = (e3, images, w3)" by (rule prod_cases3)
      note f3 = flows_trans [OF f2 delta_export_flows [OF s3]]
      note run3 = run1 [unfolded None get Inr option.case prod.case sum.case s3]
      show ?thesis
      proof (cases e3)
        case (Some ie)
        then show ?thesis using run3 phase_ok_warm [OF f3 warm] by (cases ie) auto
      next
        case None
        with run3 have d: "delta_disk r label fin (warm1\<lparr>ws_DeltaImageUUIDs := images\<rparr>) (filterDataDisks (vm_Disks vm))
            (vs\<lparr>vs_Warm := Some (warm1\<lparr>ws_DeltaImageUUIDs := images\<rparr>)\<rparr>) mctx w3 = Some (Returns (res, vs', w'))" by simp
        from phase_ok_after_warm [OF f3 warm delta_disk_ok [OF d fin]] p1 show ?thesis by simp
      qed
    qed
  qed
qed

lemma getPodPhase_trace: "getPodPhase r n ns w = (p, w') \<Longrightarrow> w_trace w' = w_trace w @ [EPodPhase ns n p]"
  by (auto simp: getPodPhase_def perform_def Let_def split: prod.splits)

lemma checkDeltaPod_ok:
  assumes run: "checkDeltaPod r warm vs mctx w = (res, vs', w')" and warm: "vs_Warm vs = Some warm"
  shows "phase_ok (plan_TargetNamespace (mc_Plan mctx)) vs w res vs' w'"
proof -
  let ?ns = "plan_TargetNamespace (mc_Plan mctx)" and ?n = "ws_DeltaPodName warm"
  obtain p w1 where gp: "getPodPhase r ?n ?ns w = (p, w1)" by fastforce
  note t1 = getPodPhase_trace [OF gp]
  show ?thesis
  proof (cases "p = PodSucceeded")
    case False
    then have "vs' = vs" "w' = w1" "\<not> (pr_Completed res \<and> pr_Error res \<noteq> None)"
      using run gp by (cases p; auto simp: checkDeltaPod_def Let_def)+
    then show ?thesis using t1 by (auto intro!: phase_ok_one_effect)
  next
    case True
    let ?w3 = "deleteConfigMap r (?n @ ''-regions'') ?ns (deletePod r ?n ?ns w1)"
    obtain g w4 where get: "GetVM (mc_NutanixClient mctx) (vs_ID vs) ?w3 = (g, w4)" by fastforce
    obtain warm' where out: "vs' = vs\<lparr>vs_Warm := Some warm'\<rparr>" "w' = w4" "\<not> pr_Completed res"
      "tracked_warm ?ns warm' = tracked_warm ?ns (warm\<lparr>ws_DeltaPodName := []\<rparr>)"
      using run gp True get by (cases g) (auto simp: checkDeltaPod_def Let_def)
    have "clears w1 ?w3 ({RPod ?ns ?n} \<union> {})"
      unfolding deletePod_def deleteConfigMap_def by (rule clears_trans [OF clears_delete(1) clears_delete(2)])
    then have "flows (tracked_warm ?ns warm) w1 (tracked_warm ?ns warm') ?w3"
      unfolding out(4) by (rule flows_clears) (auto simp: tracked_warm_def pod_set_def)
    moreover have "flows (tracked_warm ?ns warm) w (tracked_warm ?ns warm) w1"
      by (rule flows_inert [OF t1]) auto
    ultimately have "flows (tracked_warm ?ns warm) w (tracked_warm ?ns warm') w4"
      using flows_trans flows_same_trace' call_trace(1) [OF get] by blast
    from phase_ok_warm [OF this warm] out show ?thesis by simp
  qed
qed


section \<open>The warm handlers\<close>

lemma isCutoverTime_trace: "isCutoverTime clk m w = (b, w') \<Longrightarrow> w_trace w' = w_trace w"
  by (auto simp: isCutoverTime_def dest!: call_trace split: option.splits prod.splits)

lemma phase_ok_start:
  "w_trace w1 = w_trace w \<Longrightarrow> phase_ok ns vs w1 res vs' w' \<Longrightarrow> phase_ok ns vs w res vs' w'"
  by (simp add: phase_ok_def tracks_def)

lemma phasePrecopy_ok:
  assumes "phasePrecopy r vs mctx w = Some (Returns (res, vs', w'))"
  shows "phase_ok (plan_TargetNamespace (mc_Plan mctx)) vs w res vs' w'"
proof (cases "vs_Warm vs")
  case None
  then show ?thesis using assms by (auto simp: phasePrecopy_def intro: phase_ok_no_effect)
next
  case (Some warm)
  let ?ns = "plan_TargetNamespace (mc_Plan mctx)"
  let ?round = "runDeltaRound r (''pc'' @ show_int (ws_PrecopyRounds warm + 1)) (finalizePrecopyRound r) warm vs mctx"
  obtain b w1 where cut: "isCutoverTime (r_Now r) (mc_Migration mctx) w = (b, w1)" by fastforce
  note t1 = isCutoverTime_trace [OF cut]
  have round: "phase_ok ?ns vs w res vs' w'"
    if "?round w2 = Some (Returns (res, vs', w'))" "ws_DeltaPodName warm = []" "w_trace w2 = w_trace w" for w2
    using runDeltaRound_ok [OF that(1) finalizePrecopyRound_ok Some that(2)] that(3) by (rule phase_ok_start [rotated])
  show ?thesis
  proof (cases "b \<or> ws_DeltaPodName warm \<noteq> []")
    case True
    obtain p w2 where gp: "getPodPhase r (ws_DeltaPodName warm) ?ns w1 = (p, w2)" by fastforce
    note t2 = getPodPhase_trace [OF gp]
    have pod: "phase_ok ?ns vs w res' vs w2" if "\<not> (pr_Completed res' \<and> pr_Error res' \<noteq> None)" for res'
      using t1 t2 that by (intro phase_ok_one_effect) auto
    show ?thesis
    proof (cases b)
      case True
      then show ?thesis using assms Some cut gp pod t1
        by (auto simp: phasePrecopy_def split: if_splits intro: phase_ok_no_effect)
    next
      case False
      with True assms Some cut have "checkDeltaPod r warm vs mctx w1 = (res, vs', w')" by (auto simp: phasePrecopy_def)
      from checkDeltaPod_ok [OF this Some] show ?thesis by (rule phase_ok_start [OF t1])
    qed
  next
    case False
    note run = assms [unfolded phasePrecopy_def Some option.case cut prod.case]
    show ?thesis
    proof (cases "ws_LastPrecopyTime warm")
      case None
      then show ?thesis using run False t1 round by (auto split: if_splits intro: phase_ok_no_effect)
    next
      case (Some t)
      obtain now w2 where n: "Now (r_Now r) w1 = (now, w2)" by fastforce
      have t2: "w_trace w2 = w_trace w" using call_trace(18) [OF n] t1 by simp
      show ?thesis using run False t1 Some n t2 round
        by (auto simp: Let_def split: if_splits intro: phase_ok_no_effect)
    qed
  qed
qed

lemma phaseFinalSync_ok:
  assumes "phaseFinalSync r vs mctx w = Some (Returns (res, vs', w'))"
  shows "phase_ok (plan_TargetNamespace (mc_Plan mctx)) vs w res vs' w'"
  using assms checkDeltaPod_ok runDeltaRound_ok [OF _ finalizeFinalSync_ok]
  by (auto simp: phaseFinalSync_def split: option.splits if_splits intro: phase_ok_no_effect)

interpretation precopy: phase_contract "plan_TargetNamespace (mc_Plan mctx)"
  "\<lambda>vs w res vs' w'. phasePrecopy r vs mctx w = Some (Returns (res, vs', w'))"
  by unfold_locales (rule phasePrecopy_ok)

interpretation final_sync: phase_contract "plan_TargetNamespace (mc_Plan mctx)"
  "\<lambda>vs w res vs' w'. phaseFinalSync r vs mctx w = Some (Returns (res, vs', w'))"
  by unfold_locales (rule phaseFinalSync_ok)

interpretation wait_bulk_copy: phase_contract ns "\<lambda>vs w res vs' w'. phaseWaitBulkCopy vs mctx w = (res, vs', w')"
  unfolding phaseWaitBulkCopy_def by unfold_locales (rule pollDataVolumes_ok)


section \<open>The bulk copy\<close>

text \<open>
  \<^verbatim>\<open>phaseBulkCopy\<close> overwrites the base snapshot and images of the warm status. It loses none as long
  as the base it finds, if any, is the snapshot and the images of the status itself.
\<close>

definition base_covered :: "VMMigrationStatus \<Rightarrow> bool" where
  "base_covered vs =
     (case vs_Warm vs of
        None \<Rightarrow> True
      | Some warm \<Rightarrow>
          set (ws_BaseImageUUIDs warm) \<subseteq> set (vs_ImageUUIDs vs) \<and>
          (ws_BaseSnapshotUUID warm = [] \<or> ws_BaseSnapshotUUID warm = vs_SnapshotUUID vs))"

definition with_base :: "VMMigrationStatus \<Rightarrow> VMMigrationStatus" where
  "with_base vs =
     vs\<lparr>vs_Warm := Some ((case vs_Warm vs of None \<Rightarrow> zero_WarmMigrationStatus | Some s \<Rightarrow> s)
       \<lparr>ws_BaseSnapshotUUID := vs_SnapshotUUID vs, ws_BaseImageUUIDs := vs_ImageUUIDs vs\<rparr>)\<rparr>"

lemma with_base_tracked: "base_covered vs \<Longrightarrow> tracked ns vs \<subseteq> tracked ns (with_base vs)"
  by (auto simp: base_covered_def with_base_def tracked_def tracked_warm_def snapshot_set_def
      zero_WarmMigrationStatus_def split: option.splits if_splits)

lemma base_covered_with_base: "base_covered (with_base vs)"
  by (simp add: base_covered_def with_base_def)

lemma base_covered_kept:
  "base_covered vs \<Longrightarrow> keeps_records vs vs' \<Longrightarrow> vs_Warm vs' = vs_Warm vs \<Longrightarrow> base_covered vs'"
  by (force simp: base_covered_def keeps_records_def split: option.splits)

definition grows :: "string \<Rightarrow> VMMigrationStatus \<Rightarrow> 'e world \<Rightarrow> VMMigrationStatus \<Rightarrow> 'e world \<Rightarrow> bool" where
  "grows ns vs w vs' w' =
     (same_identity vs vs' \<and> keeps_records vs vs' \<and> tracks ns vs w vs' w' \<and> vs_Warm vs' = vs_Warm vs)"

lemma grows_trans: "grows ns a w b w1 \<Longrightarrow> grows ns b w1 c w2 \<Longrightarrow> grows ns a w c w2"
  unfolding grows_def using same_identity_trans keeps_records_trans tracks_trans by metis

lemma grows_ok: "grows ns vs w vs' w' \<Longrightarrow> \<not> pr_Completed res \<Longrightarrow> phase_ok ns vs w res vs' w'"
  by (simp add: grows_def phase_ok_def)

lemma bulk_snapshot_grows:
  assumes "(if vs_SnapshotUUID vs = []
       then (case CreateRecoveryPoint c vid name w of
               (Inl err, w1) \<Rightarrow> (Some err, vs, w1)
             | (Inr uuid, w1) \<Rightarrow> (None, vs\<lparr>vs_SnapshotUUID := uuid\<rparr>, w1))
       else (None, vs, w)) = (e, vs1, w1)"
  shows "grows ns vs w vs1 w1"
proof (cases "vs_SnapshotUUID vs = []")
  case True
  obtain r w2 where call: "CreateRecoveryPoint c vid name w = (r, w2)" by fastforce
  note t = call_trace(5) [OF call]
  show ?thesis
  proof (cases r)
    case (Inl err)
    then have out: "vs1 = vs" "w1 = w2" using assms True call by auto
    show ?thesis unfolding out grows_def using tracks_inert [OF t] Inl by simp
  next
    case (Inr u)
    then have out: "vs1 = vs\<lparr>vs_SnapshotUUID := u\<rparr>" "w1 = w2" using assms True call by auto
    then show ?thesis using phase_ok_snapshot [OF True t [unfolded Inr]] by (simp add: grows_def phase_ok_def)
  qed
qed (use assms in \<open>auto simp: grows_def\<close>)

lemma bulk_export_grows:
  assumes "(if length (vs_ImageUUIDs vs) < length ds
       then export_loop c name getDiskUUID cl 0 ds (vs_ImageUUIDs vs) w
       else (None, vs_ImageUUIDs vs, w)) = (e, images, w1)"
  shows "grows ns vs w (vs\<lparr>vs_ImageUUIDs := images\<rparr>) w1"
proof (cases "length (vs_ImageUUIDs vs) < length ds")
  case True
  then have "export_loop c name getDiskUUID cl 0 ds (vs_ImageUUIDs vs) w = (e, images, w1)" using assms by simp
  from export_loop_spec [OF this] obtain es more where x: "w_trace w1 = w_trace w @ es"
    "images = vs_ImageUUIDs vs @ more" "adds es (RImage ` set more)" by blast
  then have "tracks ns vs w (vs\<lparr>vs_ImageUUIDs := images\<rparr>) w1" by (intro tracks_adds [OF x(1,3)]) simp
  with x show ?thesis by (simp add: grows_def)
qed (use assms in \<open>auto simp: grows_def\<close>)

lemma createDataVolumes_grows:
  assumes "createDataVolumes vs mctx ds w = (res, vs', w')"
  shows "grows (plan_TargetNamespace (mc_Plan mctx)) vs w vs' w'" and "pr_Error res = None \<longleftrightarrow> pr_Completed res"
proof -
  let ?ns = "plan_TargetNamespace (mc_Plan mctx)"
  obtain e vs2 w2 where cv: "create_volumes ''create '' [] getDiskSize ds vs mctx w = (e, vs2, w2)" by (rule prod_cases3)
  then have out: "vs' = vs2" "w' = w2" and "pr_Error res = None \<longleftrightarrow> pr_Completed res"
    using assms by (auto simp: createDataVolumes_def split: option.splits)
  then show "pr_Error res = None \<longleftrightarrow> pr_Completed res" by simp
  obtain es names where v: "w_trace w2 = w_trace w @ es"
    "vs2 = vs\<lparr>vs_DataVolumeNames := vs_DataVolumeNames vs @ names\<rparr>" "adds es (RVolume ?ns ` set names)"
    using create_volumes_spec [OF cv] by blast
  then have "tracks ?ns vs w vs2 w2" by (intro tracks_adds [OF v(1,3)]) simp
  with v out show "grows ?ns vs w vs' w'" by (simp add: grows_def)
qed

lemma phaseBulkCopy_run:
  assumes "phaseBulkCopy vs mctx w = (res, vs', w')"
  shows "\<exists>vs2. grows (plan_TargetNamespace (mc_Plan mctx)) vs w vs2 w' \<and>
     (if pr_Completed res then vs' = with_base vs2 \<and> pr_Error res = None else vs' = vs2)"
proof -
  let ?ns = "plan_TargetNamespace (mc_Plan mctx)" and ?c = "mc_NutanixClient mctx" and ?mig = "mc_Migration mctx"
  obtain e1 vs1 w1 where s1: "(if vs_SnapshotUUID vs = []
       then (case CreateRecoveryPoint ?c (vs_ID vs) (snapshot_name ?mig vs) w of
               (Inl err, w1) \<Rightarrow> (Some err, vs, w1)
             | (Inr uuid, w1) \<Rightarrow> (None, vs\<lparr>vs_SnapshotUUID := uuid\<rparr>, w1))
       else (None, vs, w)) = (e1, vs1, w1)" by (rule prod_cases3)
  note g1 = bulk_snapshot_grows [OF s1, of ?ns]
  note run1 = assms [unfolded phaseBulkCopy_def Let_def s1 prod.case]
  show ?thesis
  proof (cases e1)
    case (Some err)
    then show ?thesis using run1 g1 by auto
  next
    case None
    obtain g w2 where get: "GetVM ?c (vs_ID vs1) w1 = (g, w2)" by fastforce
    have "grows ?ns vs1 w1 vs1 w2" by (simp add: grows_def tracks_same_trace call_trace(1) [OF get])
    note g2 = grows_trans [OF g1 this]
    show ?thesis
    proof (cases g)
      case (Inl err)
      then show ?thesis using run1 None get g2 by auto
    next
      case (Inr vm)
      let ?ds = "filterDataDisks (vm_Disks vm)"
      obtain e3 images w3 where s3: "(if length (vs_ImageUUIDs vs1) < length ?ds
           then export_loop ?c (disk_object_name ?mig vs1) getDiskUUID (cluster_ref vm) 0 ?ds (vs_ImageUUIDs vs1) w2
           else (None, vs_ImageUUIDs vs1, w2)) = (e3, images, w3)" by (rule prod_cases3)
      note g3 = grows_trans [OF g2 bulk_export_grows [OF s3]]
      note run3 = run1 [unfolded None get Inr option.case prod.case sum.case s3]
      show ?thesis
      proof (cases e3)
        case (Some ie)
        then show ?thesis using run3 g3 by (cases ie) auto
      next
        case None
        obtain cres vs4 w4 where cd: "createDataVolumes (vs1\<lparr>vs_ImageUUIDs := images\<rparr>) mctx ?ds w3 = (cres, vs4, w4)"
          by (rule prod_cases3)
        note g4 = grows_trans [OF g3 createDataVolumes_grows(1) [OF cd]]
        show ?thesis using run3 None cd g4 createDataVolumes_grows(2) [OF cd]
          by (auto simp: with_base_def Let_def split: if_splits)
      qed
    qed
  qed
qed

lemma phaseBulkCopy_ok:
  assumes "phaseBulkCopy vs mctx w = (res, vs', w')" and "base_covered vs"
  shows "phase_ok (plan_TargetNamespace (mc_Plan mctx)) vs w res vs' w' \<and> base_covered vs'"
proof -
  let ?ns = "plan_TargetNamespace (mc_Plan mctx)"
  obtain vs2 where g: "grows ?ns vs w vs2 w'"
    "if pr_Completed res then vs' = with_base vs2 \<and> pr_Error res = None else vs' = vs2"
    using phaseBulkCopy_run [OF assms(1)] by blast
  have c: "base_covered vs2" using base_covered_kept [OF assms(2)] g(1) by (simp add: grows_def)
  show ?thesis
  proof (cases "pr_Completed res")
    case True
    have "tracks ?ns vs2 w' (with_base vs2) w'" by (rule tracks_same_trace) (simp_all add: with_base_tracked [OF c])
    with g(1) have "tracks ?ns vs w (with_base vs2) w'" using tracks_trans unfolding grows_def by blast
    moreover have "same_identity vs2 (with_base vs2)" "keeps_records vs2 (with_base vs2)"
      by (simp_all add: with_base_def)
    ultimately have "phase_ok ?ns vs w res (with_base vs2) w'"
      using g True same_identity_trans keeps_records_trans unfolding grows_def phase_ok_def by (metis (full_types))
    with g True show ?thesis using base_covered_with_base by simp
  qed (use g c grows_ok in auto)
qed

interpretation bulk_copy: phase_contract "plan_TargetNamespace (mc_Plan mctx)"
  "\<lambda>vs w res vs' w'. base_covered vs \<and> phaseBulkCopy vs mctx w = (res, vs', w')"
  by unfold_locales (simp add: phaseBulkCopy_ok)

end
