(* ===== verification/Migration_Controller.thy ===== *)
theory Migration_Controller
  imports Warm_Contract
begin

text \<open>
  \<^verbatim>\<open>internal/controller/migration_controller.go\<close>: the pipeline that advances one VM through its
  phases, the scheduler that respects \<^verbatim>\<open>MaxInFlight\<close>, cancellation, the overall status, deletion
  and \<^verbatim>\<open>Reconcile\<close> itself. What never returns is \<^term>\<open>None\<close>; a Go panic is \<^const>\<open>Panics\<close>.
\<close>

abbreviation migrationFinalizer :: string where "migrationFinalizer \<equiv> ''vma.nutanix.io/migration-protection''"
abbreviation conditionTypeMigrationDone :: string where "conditionTypeMigrationDone \<equiv> ''Ready''"
abbreviation migrationRequeueInterval :: int where "migrationRequeueInterval \<equiv> 5 * 1000000000"

section \<open>Phase order\<close>

definition phaseOrder :: "VMMigrationPhase list" where
  "phaseOrder =
     [VMPhasePending, VMPhasePreHook, VMPhaseStorePowerState, VMPhasePowerOff, VMPhaseWaitForPowerOff,
      VMPhaseCreateSnapshot, VMPhaseExportDisks, VMPhaseImportDisks, VMPhaseCreateVM, VMPhaseStartVM,
      VMPhasePostHook, VMPhaseCleanup, VMPhaseCompleted]"

definition warmPhaseOrder :: "VMMigrationPhase list" where
  "warmPhaseOrder =
     [VMPhasePending, VMPhasePreHook, VMPhaseStorePowerState, VMPhaseBulkCopy, VMPhaseWaitBulkCopy,
      VMPhasePrecopy, VMPhasePowerOff, VMPhaseWaitForPowerOff, VMPhaseFinalSync, VMPhaseCreateVM,
      VMPhaseStartVM, VMPhasePostHook, VMPhaseCleanup, VMPhaseCompleted]"

text \<open>The first entry that equals the current phase and has a successor.\<close>

fun nextPhaseInOrder :: "VMMigrationPhase \<Rightarrow> VMMigrationPhase list \<Rightarrow> VMMigrationPhase" where
  "nextPhaseInOrder current (p # q # order) = (if p = current then q else nextPhaseInOrder current (q # order))"
| "nextPhaseInOrder current _ = current"

definition nextPhase :: "VMMigrationPhase \<Rightarrow> VMMigrationPhase" where
  "nextPhase current = nextPhaseInOrder current phaseOrder"

definition isTerminalVMPhase :: "VMMigrationPhase \<Rightarrow> bool" where
  "isTerminalVMPhase phase = (phase = VMPhaseCompleted \<or> phase = VMPhaseFailed \<or> phase = VMPhaseCancelled)"

definition isTerminalMigrationPhase :: "MigrationPhase \<Rightarrow> bool" where
  "isTerminalMigrationPhase phase =
     (phase = MigrationPhaseCompleted \<or> phase = MigrationPhaseFailed \<or> phase = MigrationPhaseCancelled)"

definition isActiveVMPhase :: "VMMigrationPhase \<Rightarrow> bool" where
  "isActiveVMPhase phase = (phase \<noteq> VMPhasePending \<and> \<not> isTerminalVMPhase phase)"

section \<open>One VM\<close>

fun execute_by_phase :: "'e MigrationReconciler \<Rightarrow> VMMigrationPhase \<Rightarrow> 'e warm_handler" where
  "execute_by_phase r VMPhaseStorePowerState vs mctx w = Some (Returns (phaseStorePowerState vs mctx w))"
| "execute_by_phase r VMPhasePowerOff vs mctx w = Some (Returns (phasePowerOff vs mctx w))"
| "execute_by_phase r VMPhaseWaitForPowerOff vs mctx w = Some (Returns (phaseWaitForPowerOff vs mctx w))"
| "execute_by_phase r VMPhaseCreateSnapshot vs mctx w = Some (Returns (phaseCreateSnapshot vs mctx w))"
| "execute_by_phase r VMPhaseExportDisks vs mctx w = Some (Returns (phaseExportDisks vs mctx w))"
| "execute_by_phase r VMPhaseImportDisks vs mctx w = Some (Returns (phaseImportDisks vs mctx w))"
| "execute_by_phase r VMPhaseCreateVM vs mctx w = Some (Returns (phaseCreateVM r vs mctx w))"
| "execute_by_phase r VMPhaseStartVM vs mctx w = Some (Returns (phaseStartVM r vs mctx w))"
| "execute_by_phase r VMPhaseCleanup vs mctx w = Some (Returns (phaseCleanup vs mctx w))"
| "execute_by_phase r VMPhaseBulkCopy vs mctx w = Some (Returns (phaseBulkCopy vs mctx w))"
| "execute_by_phase r VMPhaseWaitBulkCopy vs mctx w = Some (Returns (phaseWaitBulkCopy vs mctx w))"
| "execute_by_phase r VMPhasePrecopy vs mctx w = phasePrecopy r vs mctx w"
| "execute_by_phase r VMPhaseFinalSync vs mctx w = phaseFinalSync r vs mctx w"
| "execute_by_phase r VMPhasePreHook vs mctx w = Some (Returns (runHook r ''PreHook'' vs mctx w))"
| "execute_by_phase r VMPhasePostHook vs mctx w = Some (Returns (runHook r ''PostHook'' vs mctx w))"
| "execute_by_phase r _ vs mctx w = returns phase_completed vs w"

definition executePhase :: "'e MigrationReconciler \<Rightarrow> 'e warm_handler" where
  "executePhase r vs mctx w = execute_by_phase r (vs_Phase vs) vs mctx w"

definition recordEvent :: "'e MigrationReconciler \<Rightarrow> EventType \<Rightarrow> string \<Rightarrow> string \<Rightarrow> 'e world \<Rightarrow> 'e world" where
  "recordEvent r ty reason msg w = emit_event (r_Recorder r) ty reason msg w"

text \<open>The duration is observed in nanoseconds.\<close>

definition recordVMDuration :: "VMMigrationStatus \<Rightarrow> 'e world \<Rightarrow> 'e world" where
  "recordVMDuration vs w =
     (case (vs_Started vs, vs_Completed vs) of
        (Some s, Some c) \<Rightarrow> observe_Duration (vs_Name vs) (c - s) w
      | _ \<Rightarrow> w)"

definition pipeline_order :: "MigrationPlan \<Rightarrow> VMMigrationPhase list" where
  "pipeline_order plan = (if plan_Type plan = MigrationTypeWarm then warmPhaseOrder else phaseOrder)"

text \<open>What follows a phase that failed, and one that completed.\<close>

definition fail_vm ::
  "'e MigrationReconciler \<Rightarrow> 'e migrationContext \<Rightarrow> go_error \<Rightarrow> VMMigrationStatus \<Rightarrow> 'e world \<Rightarrow> VMMigrationStatus \<times> 'e world" where
  "fail_vm r mctx err vs w =
     (let w1 = recordEvent r EventTypeWarning ''MigrationFailed''
                 (''VM '' @ vs_Name vs @ '' failed in phase '' @ VMPhase_string (vs_Phase vs) @ '': '' @ err_msg err) w;
          w2 = cleanupFailedVM r vs mctx w1
      in case Now (r_Now r) w2 of
          (now, w3) \<Rightarrow> (vs\<lparr>vs_Phase := VMPhaseFailed, vs_Error := err_msg err, vs_Completed := Some now\<rparr>, w3))"

definition enter_next ::
  "'e MigrationReconciler \<Rightarrow> 'e migrationContext \<Rightarrow> VMMigrationStatus \<Rightarrow> 'e world \<Rightarrow> VMMigrationStatus \<times> 'e world" where
  "enter_next r mctx vs w =
     (let prev = vs_Phase vs;
          next = nextPhaseInOrder prev (pipeline_order (mc_Plan mctx))
      in (vs\<lparr>vs_Phase := next\<rparr>,
          recordEvent r EventTypeNormal ''PhaseTransition''
            (''VM '' @ vs_Name vs @ '': '' @ VMPhase_string prev @ '' -> '' @ VMPhase_string next) w))"

definition complete_vm ::
  "'e MigrationReconciler \<Rightarrow> VMMigrationStatus \<Rightarrow> 'e world \<Rightarrow> VMMigrationStatus \<times> 'e world" where
  "complete_vm r vs w =
     (case Now (r_Now r) w of
        (now, w1) \<Rightarrow> let vs1 = vs\<lparr>vs_Completed := Some now\<rparr> in (vs1, recordVMDuration vs1 w1))"

text \<open>The loop returns whether the VM needs a requeue, its status and the world.\<close>

partial_function (option) advanceSingleVM ::
  "'e MigrationReconciler \<Rightarrow> 'e migrationContext \<Rightarrow> VMMigrationStatus \<Rightarrow> 'e world \<Rightarrow>
     (bool \<times> VMMigrationStatus \<times> 'e world, 'e world) go_result option" where
  "advanceSingleVM r mctx vs w =
     (if isTerminalVMPhase (vs_Phase vs) then Some (Returns (False, vs, w))
      else case executePhase r vs mctx w of
          None \<Rightarrow> None
        | Some (Panics w1) \<Rightarrow> Some (Panics w1)
        | Some (Returns (res, vs1, w1)) \<Rightarrow>
            (case pr_Error res of
               Some err \<Rightarrow> (case fail_vm r mctx err vs1 w1 of (vs2, w2) \<Rightarrow> Some (Returns (False, vs2, w2)))
             | None \<Rightarrow>
                 if \<not> pr_Completed res then Some (Returns (True, vs1, w1))
                 else
                   (case enter_next r mctx vs1 w1 of
                      (vs2, w2) \<Rightarrow>
                        if vs_Phase vs2 = VMPhaseCompleted
                        then (case complete_vm r vs2 w2 of (vs3, w3) \<Rightarrow> Some (Returns (False, vs3, w3)))
                        else advanceSingleVM r mctx vs2 w2)))"

declare advanceSingleVM.simps [code]

section \<open>All VMs of a migration\<close>

definition initializeVMStatuses :: "Migration \<Rightarrow> MigrationPlan \<Rightarrow> Migration" where
  "initializeVMStatuses migration plan =
     (let existing = set (map vs_ID (mig_VMs migration))
      in migration\<lparr>mig_VMs := mig_VMs migration @
           map (\<lambda>p. new_VMMigrationStatus (pvm_ID p) (pvm_Name p))
             (filter (\<lambda>p. pvm_ID p \<notin> existing) (plan_VMs plan))\<rparr>)"

fun cancel_loop ::
  "'e MigrationReconciler \<Rightarrow> string list \<Rightarrow> VMMigrationStatus list \<Rightarrow> 'e world \<Rightarrow> VMMigrationStatus list \<times> 'e world" where
  "cancel_loop r cancel [] w = ([], w)"
| "cancel_loop r cancel (vm # vms) w =
     (if vs_ID vm \<in> set cancel \<and> \<not> isTerminalVMPhase (vs_Phase vm)
      then (case Now (r_Now r) w of
              (now, w1) \<Rightarrow>
                (case cancel_loop r cancel vms w1 of
                   (vms', w2) \<Rightarrow> (vm\<lparr>vs_Phase := VMPhaseCancelled, vs_Completed := Some now\<rparr> # vms', w2)))
      else (case cancel_loop r cancel vms w of (vms', w1) \<Rightarrow> (vm # vms', w1)))"

definition processCancellations :: "'e MigrationReconciler \<Rightarrow> Migration \<Rightarrow> 'e world \<Rightarrow> Migration \<times> 'e world" where
  "processCancellations r migration w =
     (if mig_Cancel migration = [] then (migration, w)
      else case cancel_loop r (mig_Cancel migration) (mig_VMs migration) w of
          (vms, w1) \<Rightarrow> (migration\<lparr>mig_VMs := vms\<rparr>, w1))"

definition count_active :: "VMMigrationStatus list \<Rightarrow> int" where
  "count_active vms = int (length (filter (\<lambda>vm. isActiveVMPhase (vs_Phase vm)) vms))"

text \<open>The scheduling loop; \<open>activeCount\<close> only grows during a pass.\<close>

fun advance_loop ::
  "'e MigrationReconciler \<Rightarrow> int \<Rightarrow> 'e migrationContext \<Rightarrow> int \<Rightarrow> bool \<Rightarrow> VMMigrationStatus list \<Rightarrow> 'e world \<Rightarrow>
     (bool \<times> VMMigrationStatus list \<times> 'e world, 'e world) go_result option" where
  "advance_loop r maxInFlight mctx activeCount needsRequeue [] w = Some (Returns (needsRequeue, [], w))"
| "advance_loop r maxInFlight mctx activeCount needsRequeue (vm # vms) w =
     (let skip = (\<lambda>needs. case advance_loop r maxInFlight mctx activeCount needs vms w of
            Some (Returns (n, vms', w')) \<Rightarrow> Some (Returns (n, vm # vms', w')) | other \<Rightarrow> other);
          run = (\<lambda>count vm0 w0. case advanceSingleVM r mctx vm0 w0 of
              None \<Rightarrow> None
            | Some (Panics w1) \<Rightarrow> Some (Panics w1)
            | Some (Returns (again, vm1, w1)) \<Rightarrow>
                (case advance_loop r maxInFlight mctx count (needsRequeue \<or> again) vms w1 of
                   Some (Returns (n, vms', w')) \<Rightarrow> Some (Returns (n, vm1 # vms', w')) | other \<Rightarrow> other))
      in if isTerminalVMPhase (vs_Phase vm) then skip needsRequeue
         else if vs_Phase vm = VMPhasePending then
           (if activeCount \<ge> maxInFlight then skip True
            else case Now (r_Now r) w of
                (now, w1) \<Rightarrow> run (activeCount + 1) (vm\<lparr>vs_Started := Some now, vs_Phase := VMPhasePreHook\<rparr>) w1)
         else run activeCount vm w)"

definition advanceVMs ::
  "'e MigrationReconciler \<Rightarrow> Migration \<Rightarrow> int \<Rightarrow> 'e migrationContext \<Rightarrow> 'e world \<Rightarrow>
     (bool \<times> Migration \<times> 'e world, 'e world) go_result option" where
  "advanceVMs r migration maxInFlight mctx w =
     (case advance_loop r maxInFlight mctx (count_active (mig_VMs migration)) False (mig_VMs migration) w of
        None \<Rightarrow> None
      | Some (Panics w1) \<Rightarrow> Some (Panics w1)
      | Some (Returns (needs, vms, w1)) \<Rightarrow> Some (Returns (needs, migration\<lparr>mig_VMs := vms\<rparr>, w1)))"


section \<open>The overall status\<close>

definition migration_condition :: "Migration \<Rightarrow> ConditionStatus \<Rightarrow> string \<Rightarrow> string \<Rightarrow> Migration" where
  "migration_condition migration status reason msg =
     migration\<lparr>mig_Conditions := SetStatusCondition (mig_Conditions migration)
       \<lparr>cond_Type = conditionTypeMigrationDone, cond_Status = status, cond_Reason = reason, cond_Message = msg,
        cond_ObservedGeneration = mig_Generation migration\<rparr>\<rparr>"

definition count_phase :: "VMMigrationPhase \<Rightarrow> VMMigrationStatus list \<Rightarrow> nat" where
  "count_phase ph vms = length (filter (\<lambda>vm. vs_Phase vm = ph) vms)"

definition updateOverallStatus :: "'e MigrationReconciler \<Rightarrow> Migration \<Rightarrow> 'e world \<Rightarrow> Migration \<times> 'e world" where
  "updateOverallStatus r migration w =
     (let completed = count_phase VMPhaseCompleted (mig_VMs migration);
          failed = count_phase VMPhaseFailed (mig_VMs migration);
          cancelled = count_phase VMPhaseCancelled (mig_VMs migration);
          total = length (mig_VMs migration)
      in if completed + failed + cancelled \<noteq> total then (migration\<lparr>mig_Phase := MigrationPhaseRunning\<rparr>, w)
         else case Now (r_Now r) w of
           (now, w1) \<Rightarrow>
             let m1 = migration\<lparr>mig_Completed := Some now\<rparr> in
             if cancelled = total then
               (migration_condition (m1\<lparr>mig_Phase := MigrationPhaseCancelled\<rparr>) ConditionFalse ''Cancelled'' ''All VMs were cancelled'',
                add_ActiveMigrations (- 1) (inc_MigrationsTotal ''cancelled''
                  (recordEvent r EventTypeNormal ''MigrationCancelled'' ''All VMs were cancelled'' w1)))
             else if failed > 0 then
               (let msg = show_nat failed @ '' of '' @ show_nat total @ '' VMs failed'' in
                (migration_condition (m1\<lparr>mig_Phase := MigrationPhaseFailed\<rparr>) ConditionFalse ''Failed'' msg,
                 add_ActiveMigrations (- 1) (inc_MigrationsTotal ''failed''
                   (recordEvent r EventTypeWarning ''MigrationFailed'' msg w1))))
             else
               (let msg = ''All '' @ show_nat total @ '' VMs migrated successfully'' in
                (migration_condition (m1\<lparr>mig_Phase := MigrationPhaseCompleted\<rparr>) ConditionTrue ''Completed'' msg,
                 add_ActiveMigrations (- 1) (inc_MigrationsTotal ''completed''
                   (recordEvent r EventTypeNormal ''MigrationCompleted'' msg w1)))))"

section \<open>Reconcile\<close>

record ctrl_Result =
  cres_Requeue :: bool
  cres_RequeueAfter :: int

abbreviation no_requeue :: ctrl_Result where "no_requeue \<equiv> \<lparr>cres_Requeue = False, cres_RequeueAfter = 0\<rparr>"

definition setMigrationFailed ::
  "'e MigrationReconciler \<Rightarrow> Migration \<Rightarrow> string \<Rightarrow> 'e world \<Rightarrow> (ctrl_Result \<times> go_error option) \<times> 'e world" where
  "setMigrationFailed r migration msg w =
     (case Now (r_Now r) w of
        (now, w1) \<Rightarrow>
          let m1 = migration_condition (migration\<lparr>mig_Phase := MigrationPhaseFailed, mig_Completed := Some now\<rparr>)
                     ConditionFalse ''Error'' msg;
              w2 = inc_MigrationsTotal ''failed'' (recordEvent r EventTypeWarning ''MigrationFailed'' msg w1)
          in case StatusUpdateMigration (r_Client r) m1 w2 of (err, w3) \<Rightarrow> ((no_requeue, err), w3))"

definition handleDeletion ::
  "'e MigrationReconciler \<Rightarrow> Migration \<Rightarrow> 'e world \<Rightarrow> (ctrl_Result \<times> go_error option) \<times> 'e world" where
  "handleDeletion r migration w =
     (if migrationFinalizer \<notin> set (mig_Finalizers migration) then ((no_requeue, None), w)
      else if mig_Phase migration = MigrationPhaseRunning
      then ((\<lparr>cres_Requeue = False, cres_RequeueAfter = 10 * 1000000000\<rparr>, None), w)
      else case UpdateMigration (r_Client r)
                  (migration\<lparr>mig_Finalizers := filter (\<lambda>f. f \<noteq> migrationFinalizer) (mig_Finalizers migration)\<rparr>) w of
          (err, w1) \<Rightarrow> ((no_requeue, err), w1))"

definition resolveMigrationContext ::
  "'e MigrationReconciler \<Rightarrow> Migration \<Rightarrow> MigrationPlan \<Rightarrow> 'e world \<Rightarrow> (go_error + 'e migrationContext) \<times> 'e world" where
  "resolveMigrationContext r migration plan w =
     (let k = r_Client r; ns = mig_Namespace migration;
          missing = (\<lambda>what name. errorf_w (what @ '' '' @ go_quote name @ '' not found: ''))
      in case Get (kc_GetProvider k ns (plan_ProviderRef plan)) w of
          (Inl err, w1) \<Rightarrow> (Inl (missing ''provider'' (plan_ProviderRef plan) err), w1)
        | (Inr provider, w1) \<Rightarrow>
      (case Get (kc_GetSecret k (prov_Namespace provider) (prov_SecretRef provider)) w1 of
          (Inl err, w2) \<Rightarrow> (Inl (missing ''provider secret'' (prov_SecretRef provider) err), w2)
        | (Inr secret, w2) \<Rightarrow>
      (let username = map_get (sec_Data secret) ''username''; password = map_get (sec_Data secret) ''password'' in
       if username = [] \<or> password = [] then
         (Inl (errors_New (''provider secret must contain non-empty '' @ [CHR 0x27] @ ''username'' @ [CHR 0x27] @
            '' and '' @ [CHR 0x27] @ ''password'' @ [CHR 0x27] @ '' keys'')), w2)
       else
      (case r_ClientFactory r \<lparr>cfg_Host = prov_URL provider, cfg_Username = username, cfg_Password = password,
                               cfg_InsecureSkipVerify = prov_InsecureSkipVerify provider\<rparr> of
          Inl err \<Rightarrow> (Inl (errorf_w ''failed to create Nutanix client: '' err), w2)
        | Inr nxClient \<Rightarrow>
      (case Get (kc_GetNetworkMap k ns (plan_NetworkMapRef plan)) w2 of
          (Inl err, w3) \<Rightarrow> (Inl (missing ''NetworkMap'' (plan_NetworkMapRef plan) err), w3)
        | (Inr networkMap, w3) \<Rightarrow>
      (case Get (kc_GetStorageMap k ns (plan_StorageMapRef plan)) w3 of
          (Inl err, w4) \<Rightarrow> (Inl (missing ''StorageMap'' (plan_StorageMapRef plan) err), w4)
        | (Inr storageMap, w4) \<Rightarrow>
            (Inr \<lparr>mc_NutanixClient = nxClient, mc_Plan = plan, mc_NetworkMap = networkMap, mc_StorageMap = storageMap,
                  mc_Provider = provider, mc_Migration = migration, mc_Secret = secret,
                  mc_TransferMgr = \<lparr>tm_Client = k, tm_PrismURL = prov_URL provider, tm_Username = username,
                    tm_Password = password, tm_CACert = [], tm_Insecure = prov_InsecureSkipVerify provider\<rparr>\<rparr>, w4)))))))"

text \<open>The first reconcile of a migration creates the VM statuses and marks it as running.\<close>

definition start_migration :: "'e MigrationReconciler \<Rightarrow> Migration \<Rightarrow> MigrationPlan \<Rightarrow> 'e world \<Rightarrow> Migration \<times> 'e world" where
  "start_migration r migration plan w =
     (if mig_Phase migration = MigrationPhaseNone \<or> mig_Phase migration = MigrationPhasePending then
        (let m1 = (initializeVMStatuses migration plan)\<lparr>mig_Phase := MigrationPhaseRunning\<rparr> in
         case Now (r_Now r) w of
           (now, w1) \<Rightarrow>
             (migration_condition (m1\<lparr>mig_Started := Some now\<rparr>) ConditionFalse ''Running'' ''Migration is in progress'',
              add_ActiveMigrations 1 (recordEvent r EventTypeNormal ''MigrationStarted''
                (''Migration started with '' @ show_nat (length (mig_VMs m1)) @ '' VMs'') w1)))
      else (migration, w))"

text \<open>The part of \<^verbatim>\<open>Reconcile\<close> after the references are resolved.\<close>

definition reconcile_vms ::
  "'e MigrationReconciler \<Rightarrow> Migration \<Rightarrow> MigrationPlan \<Rightarrow> 'e migrationContext \<Rightarrow> 'e world \<Rightarrow>
     ((ctrl_Result \<times> go_error option) \<times> 'e world, 'e world) go_result option" where
  "reconcile_vms r migration plan mctx w =
     (case start_migration r migration plan w of
        (m1, w1) \<Rightarrow>
          (case processCancellations r m1 w1 of
             (m2, w2) \<Rightarrow>
               (case advanceVMs r m2 (max (plan_MaxInFlight plan) 1) mctx w2 of
                  None \<Rightarrow> None
                | Some (Panics w3) \<Rightarrow> Some (Panics w3)
                | Some (Returns (needsRequeue, m3, w3)) \<Rightarrow>
                    (case updateOverallStatus r m3 w3 of
                       (m4, w4) \<Rightarrow>
                         (case StatusUpdateMigration (r_Client r) m4 w4 of
                            (Some err, w5) \<Rightarrow> Some (Returns ((no_requeue, Some err), w5))
                          | (None, w5) \<Rightarrow>
                              Some (Returns ((if needsRequeue
                                              then \<lparr>cres_Requeue = False, cres_RequeueAfter = migrationRequeueInterval\<rparr>
                                              else no_requeue, None), w5)))))))"

definition Reconcile ::
  "'e MigrationReconciler \<Rightarrow> string \<Rightarrow> string \<Rightarrow> 'e world \<Rightarrow>
     ((ctrl_Result \<times> go_error option) \<times> 'e world, 'e world) go_result option" where
  "Reconcile r namespace name w =
     (case Get (kc_GetMigration (r_Client r) namespace name) w of
        (Inl err, w1) \<Rightarrow> Some (Returns ((no_requeue, if IsNotFound err then None else Some err), w1))
      | (Inr migration, w1) \<Rightarrow>
          if mig_DeletionTimestamp migration \<noteq> None then Some (Returns (handleDeletion r migration w1))
          else if migrationFinalizer \<notin> set (mig_Finalizers migration) then
            (case UpdateMigration (r_Client r)
                    (migration\<lparr>mig_Finalizers := mig_Finalizers migration @ [migrationFinalizer]\<rparr>) w1 of
               (Some err, w2) \<Rightarrow> Some (Returns ((no_requeue, Some err), w2))
             | (None, w2) \<Rightarrow> Some (Returns ((\<lparr>cres_Requeue = True, cres_RequeueAfter = 0\<rparr>, None), w2)))
          else if isTerminalMigrationPhase (mig_Phase migration) then Some (Returns ((no_requeue, None), w1))
          else
            (case Get (kc_GetPlan (r_Client r) (mig_Namespace migration) (mig_PlanRef migration)) w1 of
               (Inl err, w2) \<Rightarrow>
                 Some (Returns (setMigrationFailed r migration
                   (''MigrationPlan '' @ go_quote (mig_PlanRef migration) @ '' not found: '' @ err_msg err) w2))
             | (Inr plan, w2) \<Rightarrow>
                 (case resolveMigrationContext r migration plan w2 of
                    (Inl err, w3) \<Rightarrow>
                      Some (Returns (setMigrationFailed r migration (''Failed to resolve references: '' @ err_msg err) w3))
                  | (Inr mctx, w3) \<Rightarrow> reconcile_vms r migration plan mctx w3)))"

end
