(* ===== verification/Pipeline.thy ===== *)
theory Pipeline
  imports Migration_Controller
begin

text \<open>
  The pipeline of one VM. The two phase orders share the interface \<open>phase_pipeline\<close>; the loop of
  \<^verbatim>\<open>advanceSingleVM\<close> is shown to terminate when the phase is one of the order, and its body is put as a
  step relation whose reachable states carry the safety properties: no image, recovery point, DataVolume or delta pod is
  forgotten, the failure cleanup attempts to delete them all, disks are copied only from a source that was
  observed powered off (cold), and the target VM is created only after every disk was imported.
\<close>

section \<open>Phase orders\<close>

locale phase_pipeline =
  fixes order :: "VMMigrationPhase list"
  assumes distinct_order: "distinct order"
    and order_nonempty: "order \<noteq> []"
    and last_order: "last order = VMPhaseCompleted"
    and working_phases: "VMPhaseFailed \<notin> set order" "VMPhaseCancelled \<notin> set order"
begin

lemma next_nth: "Suc i < length order \<Longrightarrow> nextPhaseInOrder (order ! i) order = order ! Suc i"
proof -
  have "distinct xs \<Longrightarrow> Suc i < length xs \<Longrightarrow> nextPhaseInOrder (xs ! i) xs = xs ! Suc i" for xs and i :: nat
  proof (induction xs arbitrary: i rule: induct_list012)
    case (3 p q xs)
    then show ?case by (cases i) (auto simp: nth_Cons split: nat.splits)
  qed simp_all
  then show "Suc i < length order \<Longrightarrow> ?thesis" using distinct_order by blast
qed

lemma next_outside: "p \<notin> set order \<Longrightarrow> nextPhaseInOrder p order = p"
proof -
  have "p \<notin> set xs \<Longrightarrow> nextPhaseInOrder p xs = p" for xs
    by (induction xs rule: induct_list012) auto
  then show "p \<notin> set order \<Longrightarrow> ?thesis" by blast
qed

text \<open>The number of phases that follow; it decreases with every transition.\<close>

definition remaining :: "VMMigrationPhase \<Rightarrow> nat" where
  "remaining p = length (dropWhile (\<lambda>q. q \<noteq> p) order)"

lemma position:
  assumes "p \<in> set order" "\<not> isTerminalVMPhase p"
  obtains i where "Suc i < length order" "order ! i = p"
proof -
  obtain i where i: "i < length order" "order ! i = p" using assms(1) by (metis in_set_conv_nth)
  moreover have "i \<noteq> length order - 1"
    using i(2) last_order order_nonempty assms(2) by (auto simp: last_conv_nth isTerminalVMPhase_def)
  ultimately have "Suc i < length order" by linarith
  then show ?thesis using i(2) by (rule that)
qed

lemma remaining_nth:
  assumes "i < length order"
  shows "remaining (order ! i) = length order - i"
proof -
  have split: "order = take i order @ order ! i # drop (Suc i) order" using assms by (rule id_take_nth_drop)
  have "order ! i \<notin> set (take i order)"
    using assms distinct_order by (auto simp: in_set_conv_nth nth_eq_iff_index_eq)
  then have "dropWhile (\<lambda>q. q \<noteq> order ! i) (take i order @ order ! i # drop (Suc i) order) = order ! i # drop (Suc i) order"
    by (subst dropWhile_append2) auto
  then have "dropWhile (\<lambda>q. q \<noteq> order ! i) order = order ! i # drop (Suc i) order" using split by metis
  with assms show ?thesis by (simp add: remaining_def)
qed

lemma next_in_order:
  assumes "p \<in> set order" "\<not> isTerminalVMPhase p"
  shows "nextPhaseInOrder p order \<in> set order" "remaining (nextPhaseInOrder p order) < remaining p"
proof -
  obtain i where i: "Suc i < length order" "order ! i = p" using position [OF assms] .
  then have "nextPhaseInOrder p order = order ! Suc i" using next_nth by blast
  with i remaining_nth [of i] remaining_nth [of "Suc i"]
  show "nextPhaseInOrder p order \<in> set order" "remaining (nextPhaseInOrder p order) < remaining p"
    by auto
qed

end

interpretation cold: phase_pipeline phaseOrder
  by unfold_locales (simp_all add: phaseOrder_def)

interpretation warm: phase_pipeline warmPhaseOrder
  by unfold_locales (simp_all add: warmPhaseOrder_def)

section \<open>The contract of the dispatcher\<close>

text \<open>The phases up to the bulk copy, where the warm status has at most a covered base.\<close>

definition bulk_ready :: "VMMigrationStatus \<Rightarrow> bool" where
  "bulk_ready vs =
     (vs_Phase vs \<in> {VMPhaseNone, VMPhasePending, VMPhasePreHook, VMPhaseStorePowerState, VMPhaseBulkCopy} \<longrightarrow> base_covered vs)"

lemma executePhase_ok:
  assumes "executePhase r vs mctx w = Some (Returns (res, vs', w'))" and "bulk_ready vs"
  shows "phase_ok (plan_TargetNamespace (mc_Plan mctx)) vs w res vs' w'"
proof (cases "vs_Phase vs")
  case VMPhaseBulkCopy
  then show ?thesis using assms phaseBulkCopy_ok [of vs mctx w] by (auto simp: executePhase_def bulk_ready_def)
qed (use assms in \<open>auto simp: executePhase_def intro: phase_ok_no_effect store_power.runs_ok power_off.runs_ok wait_off.runs_ok
    snapshot.runs_ok export.runs_ok import_disks.runs_ok create_vm.runs_ok start_vm.runs_ok cleanup.runs_ok
    wait_bulk_copy.runs_ok precopy.runs_ok final_sync.runs_ok hooks.runs_ok\<close>)

interpretation dispatch: phase_contract "plan_TargetNamespace (mc_Plan mctx)"
  "\<lambda>vs w res vs' w'. bulk_ready vs \<and> executePhase r vs mctx w = Some (Returns (res, vs', w'))"
  by unfold_locales (auto intro: executePhase_ok)

text \<open>Which phases may touch the warm status.\<close>

lemma executePhase_warm:
  assumes "executePhase r vs mctx w = Some (Returns (res, vs', w'))"
    and "vs_Phase vs \<notin> {VMPhaseBulkCopy, VMPhasePrecopy, VMPhaseFinalSync}"
  shows "vs_Warm vs' = vs_Warm vs"
proof (cases "vs_Phase vs")
  case VMPhaseImportDisks
  then show ?thesis using assms phaseImportDisks_run [of vs mctx w res vs' w'] by (auto simp: executePhase_def)
next
  case VMPhaseExportDisks
  then show ?thesis using assms
    by (auto simp: executePhase_def phaseExportDisks_def Let_def split: prod.splits sum.splits if_splits option.splits)
qed (use assms in \<open>auto simp: executePhase_def phaseStorePowerState_def phasePowerOff_def phaseWaitForPowerOff_def
    phaseCreateSnapshot_def phaseCreateVM_def phaseStartVM_def phaseCleanup_def phaseWaitBulkCopy_def pollDataVolumes_def Let_def
    dest: runHook_effects(1) split: prod.splits sum.splits if_splits option.splits\<close>)


lemma executePhase_base_covered:
  assumes "executePhase r vs mctx w = Some (Returns (res, vs', w'))" and "bulk_ready vs"
    and "vs_Phase vs \<in> {VMPhaseNone, VMPhasePending, VMPhasePreHook, VMPhaseStorePowerState, VMPhaseBulkCopy}"
  shows "base_covered vs'"
proof (cases "vs_Phase vs = VMPhaseBulkCopy")
  case True
  then show ?thesis using assms phaseBulkCopy_ok [of vs mctx w] by (auto simp: executePhase_def bulk_ready_def)
next
  case False
  have "keeps_records vs vs'" using executePhase_ok [OF assms(1,2)] by (simp add: phase_ok_def)
  moreover have "vs_Warm vs' = vs_Warm vs" using executePhase_warm [OF assms(1)] assms(3) False by auto
  ultimately show ?thesis using assms(2,3) base_covered_kept by (auto simp: bulk_ready_def)
qed

section \<open>Termination\<close>

text \<open>The phases whose handler may not return are the two that query changed regions.\<close>

lemma executePhase_returns:
  "vs_Phase vs \<noteq> VMPhasePrecopy \<Longrightarrow> vs_Phase vs \<noteq> VMPhaseFinalSync \<Longrightarrow>
     \<exists>res vs' w'. executePhase r vs mctx w = Some (Returns (res, vs', w'))"
  unfolding executePhase_def by (cases "vs_Phase vs") (auto intro: prod_cases3)

lemma executePhase_keeps_phase:
  assumes "executePhase r vs mctx w = Some (Returns (res, vs', w'))"
  shows "vs_Phase vs' = vs_Phase vs"
proof (cases "vs_Phase vs = VMPhaseBulkCopy")
  case True
  then show ?thesis using assms phaseBulkCopy_run [of vs mctx w res vs' w']
    by (auto simp: executePhase_def grows_def same_identity_def with_base_def split: if_splits)
next
  case False
  show ?thesis
  proof (cases "vs_Phase vs")
    case VMPhaseBulkCopy
    with False show ?thesis by simp
  qed (use assms in \<open>auto simp: executePhase_def dest: store_power.runs_phase power_off.runs_phase wait_off.runs_phase
    snapshot.runs_phase export.runs_phase import_disks.runs_phase create_vm.runs_phase start_vm.runs_phase cleanup.runs_phase
    wait_bulk_copy.runs_phase precopy.runs_phase final_sync.runs_phase hooks.runs_phase\<close>)
qed

lemma cold_order_iff: "plan_Type (mc_Plan mctx) \<noteq> MigrationTypeWarm \<Longrightarrow> pipeline_order (mc_Plan mctx) = phaseOrder"
  by (simp add: pipeline_order_def)

lemma advance_cold_returns:
  assumes "plan_Type (mc_Plan mctx) \<noteq> MigrationTypeWarm" and "vs_Phase vs \<in> set phaseOrder"
  shows "\<exists>again vs' w'. advanceSingleVM r mctx vs w = Some (Returns (again, vs', w')) \<and> vs_Phase vs' \<in> insert VMPhaseFailed (set phaseOrder)"
  using assms(2)
proof (induction "cold.remaining (vs_Phase vs)" arbitrary: vs w rule: less_induct)
  case less
  show ?case
  proof (cases "isTerminalVMPhase (vs_Phase vs)")
    case True
    then show ?thesis using less.prems by (subst advanceSingleVM.simps) auto
  next
    case False
    have "vs_Phase vs \<noteq> VMPhasePrecopy \<and> vs_Phase vs \<noteq> VMPhaseFinalSync"
      using less.prems by (auto simp: phaseOrder_def)
    then obtain res vs1 w1 where ex: "executePhase r vs mctx w = Some (Returns (res, vs1, w1))"
      using executePhase_returns by blast
    note same = executePhase_keeps_phase [OF ex]
    show ?thesis
    proof (cases "pr_Error res = None \<and> pr_Completed res")
      case False
      have failed: "\<exists>vs2 w2. fail_vm r mctx err vs1 w1 = (vs2, w2) \<and> vs_Phase vs2 = VMPhaseFailed" for err
        by (simp add: fail_vm_def Let_def split: prod.split)
      show ?thesis
        using ex False \<open>\<not> isTerminalVMPhase (vs_Phase vs)\<close> same less.prems failed [of "the (pr_Error res)"]
        by (subst advanceSingleVM.simps) (auto split: option.split)
    next
      case True
      obtain vs2 w2 where en: "enter_next r mctx vs1 w1 = (vs2, w2)" by fastforce
      then have ph: "vs_Phase vs2 = nextPhaseInOrder (vs_Phase vs) phaseOrder"
        using same cold_order_iff [OF assms(1)] by (auto simp: enter_next_def Let_def)
      have "\<exists>again vs' w'. advanceSingleVM r mctx vs2 w2 = Some (Returns (again, vs', w')) \<and> vs_Phase vs' \<in> insert VMPhaseFailed (set phaseOrder)"
        by (rule less.hyps) (use cold.next_in_order [OF less.prems False] ph in auto)
      moreover have "\<exists>vs3 w3. complete_vm r vs2 w2 = (vs3, w3) \<and> vs_Phase vs3 = vs_Phase vs2" by (simp add: complete_vm_def Let_def split: prod.split)
      moreover have "VMPhaseCompleted \<in> set phaseOrder" by (simp add: phaseOrder_def)
      ultimately show ?thesis using ex True en False
        by (subst advanceSingleVM.simps) (auto split: prod.split)
    qed
  qed
qed

text \<open>
  The cold pipeline always returns: whatever the services answer, a VM whose phase is one of
  the cold phases is advanced in finitely many steps, without a panic.
\<close>

theorem advanceSingleVM_cold_returns:
  assumes "plan_Type (mc_Plan mctx) \<noteq> MigrationTypeWarm" and "vs_Phase vs \<in> set phaseOrder"
  shows "\<exists>again vs' w'. advanceSingleVM r mctx vs w = Some (Returns (again, vs', w'))"
  using advance_cold_returns [OF assms] by blast

theorem advanceSingleVM_cold_returns_witness:
  "\<exists>again vs' w'. advanceSingleVM (sim_reconciler (sim_plan MigrationTypeCold TargetPowerStateStopped))
     (sim_mctx (sim_plan MigrationTypeCold TargetPowerStateStopped)) (sim_status VMPhasePreHook) (sim_world True) =
       Some (Returns (again, vs', w'))"
  by (rule advanceSingleVM_cold_returns) (simp_all add: sim_defs phaseOrder_def)

text \<open>
  A phase outside the order of the plan never ends: \<^verbatim>\<open>nextPhaseInOrder\<close> returns the phase itself and
  the loop runs its handler again. The type of a plan can be edited while a migration runs.
\<close>

lemma advance_stuck:
  assumes "vs_Phase vs \<notin> set (pipeline_order (mc_Plan mctx))" and "\<not> isTerminalVMPhase (vs_Phase vs)"
    and "\<And>w. \<exists>w'. executePhase r vs mctx w = Some (Returns (phase_completed, vs, w'))"
  shows "advanceSingleVM r mctx vs w = None"
proof (rule ccontr)
  assume "advanceSingleVM r mctx vs w \<noteq> None"
  then obtain y where y: "advanceSingleVM r mctx vs w = Some y" by blast
  have same: "nextPhaseInOrder (vs_Phase vs) (pipeline_order (mc_Plan mctx)) = vs_Phase vs"
    using assms(1) cold.next_outside warm.next_outside by (auto simp: pipeline_order_def split: if_splits)
  have enter: "\<exists>w2. enter_next r mctx vs w1 = (vs, w2)" for w1
    by (simp add: enter_next_def Let_def same)
  have "\<lbrakk>advanceSingleVM r' mctx' vs' w = Some y\<rbrakk> \<Longrightarrow> r' = r \<longrightarrow> mctx' = mctx \<longrightarrow> vs' = vs \<longrightarrow> False" for r' mctx' vs' w y
  proof (induction rule: advanceSingleVM.raw_induct [rotated, consumes 1])
    case (1 loop r' mctx' vs' w y)
    show ?case
    proof (intro impI)
      assume eq: "r' = r" "mctx' = mctx" "vs' = vs"
      obtain w1 where ex: "executePhase r vs mctx w = Some (Returns (phase_completed, vs, w1))" using assms(3) by blast
      obtain w2 where en: "enter_next r mctx vs w1 = (vs, w2)" using enter by blast
      have "vs_Phase vs \<noteq> VMPhaseCompleted" using assms(2) by (auto simp: isTerminalVMPhase_def)
      with 1(2) eq ex en assms(2) have "loop r mctx vs w2 = Some y" by simp
      from 1(1) [OF this] show False by simp
    qed
  qed
  with y show False by blast
qed


text \<open>
  A migration whose plan is switched from warm to cold while a VM waits for its bulk copy is
  stuck for good: once every DataVolume reads as imported, \<^verbatim>\<open>advanceSingleVM\<close> does not return, it
  polls and emits the transition \<^verbatim>\<open>WaitBulkCopy -> WaitBulkCopy\<close> forever.
\<close>

theorem advanceSingleVM_stuck_after_type_switch:
  assumes "plan_Type (mc_Plan mctx) \<noteq> MigrationTypeWarm" and "vs_Phase vs = VMPhaseWaitBulkCopy"
    and "\<And>w. \<exists>w'. pollDataVolumes vs mctx w = (phase_completed, vs, w')"
  shows "advanceSingleVM r mctx vs w = None"
proof (rule advance_stuck)
  show "vs_Phase vs \<notin> set (pipeline_order (mc_Plan mctx))"
    using assms(1,2) by (simp add: pipeline_order_def phaseOrder_def)
  show "\<not> isTerminalVMPhase (vs_Phase vs)" using assms(2) by (simp add: isTerminalVMPhase_def)
  show "\<exists>w'. executePhase r vs mctx w = Some (Returns (phase_completed, vs, w'))" for w
    using assms(2) assms(3) [of w] by (auto simp: executePhase_def phaseWaitBulkCopy_def)
qed

theorem advanceSingleVM_stuck_after_type_switch_witness:
  "advanceSingleVM (sim_reconciler (sim_plan MigrationTypeCold TargetPowerStateStopped))
     (sim_mctx (sim_plan MigrationTypeCold TargetPowerStateStopped))
     ((sim_status VMPhaseWaitBulkCopy)\<lparr>vs_DataVolumeNames := [''vma-mig-vm-uuid--disk-0'']\<rparr>) (sim_world True) = None"
  by (rule advanceSingleVM_stuck_after_type_switch)
    (simp_all add: pollDataVolumes_def GetDataVolumeProgress_def sim_defs op_defs perform_def)

section \<open>Steps\<close>

text \<open>One iteration of the loop of \<^verbatim>\<open>advanceSingleVM\<close>, as a relation between states.\<close>

inductive vm_step ::
  "'e MigrationReconciler \<Rightarrow> 'e migrationContext \<Rightarrow> VMMigrationStatus \<Rightarrow> 'e world \<Rightarrow> VMMigrationStatus \<Rightarrow> 'e world \<Rightarrow> bool"
  for r mctx where
  phase_fails:
    "\<not> isTerminalVMPhase (vs_Phase vs) \<Longrightarrow> executePhase r vs mctx w = Some (Returns (res, vs1, w1)) \<Longrightarrow>
     pr_Error res = Some err \<Longrightarrow> fail_vm r mctx err vs1 w1 = (vs2, w2) \<Longrightarrow> vm_step r mctx vs w vs2 w2"
| phase_waits:
    "\<not> isTerminalVMPhase (vs_Phase vs) \<Longrightarrow> executePhase r vs mctx w = Some (Returns (res, vs1, w1)) \<Longrightarrow>
     pr_Error res = None \<Longrightarrow> \<not> pr_Completed res \<Longrightarrow> vm_step r mctx vs w vs1 w1"
| phase_done:
    "\<not> isTerminalVMPhase (vs_Phase vs) \<Longrightarrow> executePhase r vs mctx w = Some (Returns (res, vs1, w1)) \<Longrightarrow>
     pr_Error res = None \<Longrightarrow> pr_Completed res \<Longrightarrow> enter_next r mctx vs1 w1 = (vs2, w2) \<Longrightarrow>
     vs_Phase vs2 \<noteq> VMPhaseCompleted \<Longrightarrow> vm_step r mctx vs w vs2 w2"
| all_done:
    "\<not> isTerminalVMPhase (vs_Phase vs) \<Longrightarrow> executePhase r vs mctx w = Some (Returns (res, vs1, w1)) \<Longrightarrow>
     pr_Error res = None \<Longrightarrow> pr_Completed res \<Longrightarrow> enter_next r mctx vs1 w1 = (vs2, w2) \<Longrightarrow>
     vs_Phase vs2 = VMPhaseCompleted \<Longrightarrow> complete_vm r vs2 w2 = (vs3, w3) \<Longrightarrow> vm_step r mctx vs w vs3 w3"

inductive_cases vm_stepE: "vm_step r mctx vs w vs' w'"

inductive vm_steps ::
  "'e MigrationReconciler \<Rightarrow> 'e migrationContext \<Rightarrow> VMMigrationStatus \<Rightarrow> 'e world \<Rightarrow> VMMigrationStatus \<Rightarrow> 'e world \<Rightarrow> bool"
  for r mctx where
  no_step: "vm_steps r mctx vs w vs w"
| one_more: "vm_step r mctx vs w vs1 w1 \<Longrightarrow> vm_steps r mctx vs1 w1 vs2 w2 \<Longrightarrow> vm_steps r mctx vs w vs2 w2"

lemma vm_steps_single: "vm_step r mctx vs w vs1 w1 \<Longrightarrow> vm_steps r mctx vs w vs1 w1"
  by (blast intro: vm_steps.intros)

text \<open>The loop refines the step relation.\<close>

lemma advance_steps:
  assumes "advanceSingleVM r mctx vs w = Some (Returns (again, vs', w'))"
  shows "vm_steps r mctx vs w vs' w'"
proof -
  have "advanceSingleVM r mctx vs w = Some y \<Longrightarrow> \<forall>again vs' w'. y = Returns (again, vs', w') \<longrightarrow> vm_steps r mctx vs w vs' w'" for y
  proof (induction rule: advanceSingleVM.raw_induct [rotated, consumes 1])
    case (1 loop r mctx vs w y)
    show ?case
    proof (intro allI impI)
      fix again vs' w'
      assume y: "y = Returns (again, vs', w')"
      show "vm_steps r mctx vs w vs' w'"
      proof (cases "isTerminalVMPhase (vs_Phase vs)")
        case True
        then show ?thesis using 1(2) y by (auto intro: vm_steps.no_step)
      next
        case False
        then obtain res vs1 w1 where ex: "executePhase r vs mctx w = Some (Returns (res, vs1, w1))"
          using 1(2) y by (auto split: option.splits go_result.splits)
        obtain vs2 w2 where en: "enter_next r mctx vs1 w1 = (vs2, w2)" by fastforce
        obtain vs3 w3 where co: "complete_vm r vs2 w2 = (vs3, w3)" by fastforce
        note run = 1(2) [unfolded if_not_P [OF False] ex y option.case go_result.case prod.case en co]
        show ?thesis
        proof (cases "pr_Error res")
          case (Some err)
          obtain vf wf where "fail_vm r mctx err vs1 w1 = (vf, wf)" by fastforce
          then show ?thesis using run Some False ex by (auto intro: vm_steps_single vm_step.phase_fails)
        next
          case None
          show ?thesis
          proof (cases "pr_Completed res \<and> vs_Phase vs2 \<noteq> VMPhaseCompleted")
            case True
            then have "loop r mctx vs2 w2 = Some (Returns (again, vs', w'))" using run None by auto
            then have "vm_steps r mctx vs2 w2 vs' w'" using 1(1) by blast
            with vm_step.phase_done [OF False ex None _ en] True show ?thesis by (auto intro: vm_steps.one_more)
          next
            case fin: False
            then show ?thesis using run None False ex en co
              by (cases "pr_Completed res")
                 (auto intro: vm_steps_single vm_step.phase_waits vm_step.all_done)
          qed
        qed
      qed
    qed
  qed
  with assms show ?thesis by blast
qed


section \<open>What one step does\<close>

lemma tracked_pipeline_fields [simp]:
  "tracked ns (vs\<lparr>vs_Phase := p\<rparr>) = tracked ns vs"
  "tracked ns (vs\<lparr>vs_Error := s\<rparr>) = tracked ns vs"
  "tracked ns (vs\<lparr>vs_Completed := t\<rparr>) = tracked ns vs"
  "tracked ns (vs\<lparr>vs_Started := t\<rparr>) = tracked ns vs"
  by (simp_all add: tracked_def)

lemma base_covered_fields [simp]:
  "base_covered (vs\<lparr>vs_Phase := p\<rparr>) = base_covered vs"
  "base_covered (vs\<lparr>vs_Completed := t\<rparr>) = base_covered vs"
  "base_covered (vs\<lparr>vs_Started := t\<rparr>) = base_covered vs"
  by (simp_all add: base_covered_def split: option.split)

lemma enter_next_spec:
  assumes "enter_next r mctx vs w = (vs', w')"
  shows "vs' = vs\<lparr>vs_Phase := nextPhaseInOrder (vs_Phase vs) (pipeline_order (mc_Plan mctx))\<rparr>" "w_trace w' = w_trace w"
  using assms by (auto simp: enter_next_def recordEvent_def Let_def)

lemma complete_vm_spec:
  assumes "complete_vm r vs w = (vs', w')"
  shows "\<exists>t. vs' = vs\<lparr>vs_Completed := t\<rparr>" "w_trace w' = w_trace w"
  using assms
  by (auto simp: complete_vm_def recordVMDuration_def Let_def dest!: call_trace split: prod.splits option.splits)

lemma fail_vm_spec:
  assumes "fail_vm r mctx err vs w = (vs', w')"
  shows "\<exists>t. vs' = vs\<lparr>vs_Phase := VMPhaseFailed, vs_Error := err_msg err, vs_Completed := t\<rparr>"
    and "\<exists>es. w_trace w' = w_trace w @ es \<and> live (tracked (plan_TargetNamespace (mc_Plan mctx)) vs) es = {} \<and>
      (\<forall>e \<in> set es. is_deletion e \<or> (\<exists>res. e = EPowerOn (vs_ID vs) res)) \<and>
      (vs_OriginalPowerState vs = PowerStateOn \<longrightarrow> (\<exists>res. EPowerOn (vs_ID vs) res \<in> set es))"
proof -
  let ?ns = "plan_TargetNamespace (mc_Plan mctx)"
  define w1 where "w1 = recordEvent r EventTypeWarning ''MigrationFailed''
      (''VM '' @ vs_Name vs @ '' failed in phase '' @ VMPhase_string (vs_Phase vs) @ '': '' @ err_msg err) w"
  obtain now w3 where n: "Now (r_Now r) (cleanupFailedVM r vs mctx w1) = (now, w3)" by fastforce
  have out: "vs' = vs\<lparr>vs_Phase := VMPhaseFailed, vs_Error := err_msg err, vs_Completed := Some now\<rparr>" "w' = w3"
    using assms n by (auto simp: fail_vm_def w1_def Let_def)
  then show "\<exists>t. vs' = vs\<lparr>vs_Phase := VMPhaseFailed, vs_Error := err_msg err, vs_Completed := t\<rparr>" by blast
  obtain cold pow warm where c: "w_trace (cleanupFailedVM r vs mctx w1) = w_trace w1 @ cold @ pow @ warm"
    "if vs_OriginalPowerState vs = PowerStateOn then \<exists>res. pow = [EPowerOn (vs_ID vs) res] else pow = []"
    "\<forall>e \<in> set (cold @ warm). is_deletion e"
    "tracked ?ns vs \<subseteq> (\<Union>e \<in> set (cold @ warm). removed e)"
    using cleanupFailedVM_effects [of r vs mctx w1] by (elim exE conjE) (rule that)
  have pow: "\<forall>e \<in> set pow. \<exists>res. e = EPowerOn (vs_ID vs) res" using c(2) by (auto split: if_splits)
  have "\<forall>e \<in> set (cold @ pow @ warm). created e = {}" using c(3) pow is_deletion_created by fastforce
  then have "live (tracked ?ns vs) (cold @ pow @ warm) = {}"
    using c(4) by (subst live_without_creation) auto
  moreover have "w_trace w' = w_trace w @ (cold @ pow @ warm)"
    using c(1) call_trace(18) [OF n] out by (simp add: w1_def recordEvent_def)
  moreover have "\<forall>e \<in> set (cold @ pow @ warm). is_deletion e \<or> (\<exists>res. e = EPowerOn (vs_ID vs) res)"
    using c(3) pow by auto
  moreover have "vs_OriginalPowerState vs = PowerStateOn \<longrightarrow> (\<exists>res. EPowerOn (vs_ID vs) res \<in> set (cold @ pow @ warm))"
    using c(2) by fastforce
  ultimately show "\<exists>es. w_trace w' = w_trace w @ es \<and> live (tracked ?ns vs) es = {} \<and>
      (\<forall>e \<in> set es. is_deletion e \<or> (\<exists>res. e = EPowerOn (vs_ID vs) res)) \<and>
      (vs_OriginalPowerState vs = PowerStateOn \<longrightarrow> (\<exists>res. EPowerOn (vs_ID vs) res \<in> set es))" by blast
qed

text \<open>A step is a run of the phase's handler followed by bookkeeping or, on an error, the cleanup.\<close>

lemma vm_step_cases:
  assumes "vm_step r mctx vs w vs' w'"
  obtains (handler) res vs1 w1 t where "\<not> isTerminalVMPhase (vs_Phase vs)"
      "executePhase r vs mctx w = Some (Returns (res, vs1, w1))" "pr_Error res = None" "w_trace w' = w_trace w1"
      "vs' = vs1\<lparr>vs_Phase := (if pr_Completed res then nextPhaseInOrder (vs_Phase vs) (pipeline_order (mc_Plan mctx))
          else vs_Phase vs), vs_Completed := t\<rparr>"
  | (failure) res vs1 w1 err t where "\<not> isTerminalVMPhase (vs_Phase vs)"
      "executePhase r vs mctx w = Some (Returns (res, vs1, w1))" "pr_Error res = Some err"
      "vs' = vs1\<lparr>vs_Phase := VMPhaseFailed, vs_Error := err_msg err, vs_Completed := t\<rparr>"
      "fail_vm r mctx err vs1 w1 = (vs', w')"
  using assms
proof (cases rule: vm_step.cases)
  case (phase_fails res vs1 w1 err)
  then show ?thesis using fail_vm_spec(1) failure by blast
next
  case (phase_waits res)
  show ?thesis
    by (rule handler [OF phase_waits(1,2,3), where t = "vs_Completed vs'"])
       (use phase_waits executePhase_keeps_phase [OF phase_waits(2)] in simp_all)
next
  case (phase_done res vs1 w1)
  show ?thesis
    by (rule handler [OF phase_done(1,2,3), where t = "vs_Completed vs1"])
       (use phase_done enter_next_spec [OF phase_done(5)] executePhase_keeps_phase [OF phase_done(2)] in simp_all)
next
  case (all_done res vs1 w1 vs2 w2)
  obtain t where t: "vs' = vs2\<lparr>vs_Completed := t\<rparr>" using complete_vm_spec(1) [OF all_done(7)] by blast
  show ?thesis
    by (rule handler [OF all_done(1,2,3), where t = t])
       (use all_done t enter_next_spec [OF all_done(5)] complete_vm_spec(2) [OF all_done(7)]
         executePhase_keeps_phase [OF all_done(2)] in simp_all)
qed

lemma vm_step_spec:
  assumes "vm_step r mctx vs w vs' w'" and "bulk_ready vs" and ns: "plan_TargetNamespace (mc_Plan mctx) = ns"
  shows "tracks ns vs w vs' w'" and "bulk_ready vs'"
    and "vs_Phase vs' = VMPhaseFailed \<Longrightarrow> \<exists>es. w_trace w' = w_trace w @ es \<and> live (tracked ns vs) es = {}"
proof -
  have early: "p \<in> {VMPhaseNone, VMPhasePending, VMPhasePreHook, VMPhaseStorePowerState, VMPhaseBulkCopy}"
    if "nextPhaseInOrder p (pipeline_order (mc_Plan mctx)) \<in>
        {VMPhaseNone, VMPhasePending, VMPhasePreHook, VMPhaseStorePowerState, VMPhaseBulkCopy}" for p
    using that by (cases p) (auto simp: pipeline_order_def phaseOrder_def warmPhaseOrder_def split: if_splits)
  have "tracks ns vs w vs' w' \<and> bulk_ready vs' \<and>
    (vs_Phase vs' = VMPhaseFailed \<longrightarrow> (\<exists>es. w_trace w' = w_trace w @ es \<and> live (tracked ns vs) es = {}))"
    using assms(1)
  proof (cases rule: vm_step_cases)
    case (handler res vs1 w1 t)
    have ok: "phase_ok ns vs w res vs1 w1" using executePhase_ok [OF handler(2) assms(2)] ns by simp
    then have "tracks ns vs w vs' w'"
      using handler(4,5) by (auto simp: phase_ok_def tracks_def)
    moreover have "bulk_ready vs'"
      unfolding bulk_ready_def
    proof
      assume "vs_Phase vs' \<in> {VMPhaseNone, VMPhasePending, VMPhasePreHook, VMPhaseStorePowerState, VMPhaseBulkCopy}"
      then have "vs_Phase vs \<in> {VMPhaseNone, VMPhasePending, VMPhasePreHook, VMPhaseStorePowerState, VMPhaseBulkCopy}"
        using early [of "vs_Phase vs"] handler(5) by (cases "pr_Completed res") simp_all
      then have "base_covered vs1" by (rule executePhase_base_covered [OF handler(2) assms(2)])
      then show "base_covered vs'" using handler(5) by simp
    qed
    moreover have "vs_Phase vs' \<noteq> VMPhaseFailed"
      using handler(1,5) cold.next_in_order(1) cold.next_outside warm.next_in_order(1) warm.next_outside
        cold.working_phases warm.working_phases
      by (auto simp: pipeline_order_def isTerminalVMPhase_def split: if_splits) metis+
    ultimately show ?thesis by blast
  next
    case (failure res vs1 w1 err t)
    have ok: "phase_ok ns vs w res vs1 w1" using executePhase_ok [OF failure(2) assms(2)] ns by simp
    then obtain es1 where e1: "w_trace w1 = w_trace w @ es1" "live (tracked ns vs) es1 \<subseteq> tracked ns vs1"
      by (auto simp: phase_ok_def tracks_def)
    obtain es2 where e2: "w_trace w' = w_trace w1 @ es2" "live (tracked ns vs1) es2 = {}"
      using fail_vm_spec(2) [OF failure(5)] ns by blast
    have "w_trace w' = w_trace w @ (es1 @ es2)" "live (tracked ns vs) (es1 @ es2) = {}"
      using e1 e2 live_mono [OF e1(2), of es2] by auto
    moreover have "bulk_ready vs'" using failure(4) by (simp add: bulk_ready_def)
    ultimately show ?thesis unfolding tracks_def by blast
  qed
  then show "tracks ns vs w vs' w'" "bulk_ready vs'"
    and "vs_Phase vs' = VMPhaseFailed \<Longrightarrow> \<exists>es. w_trace w' = w_trace w @ es \<and> live (tracked ns vs) es = {}" by blast+
qed

end
