(* ===== verification/Vm_Lifecycle.thy ===== *)
theory Vm_Lifecycle
  imports Pipeline
begin

text \<open>
  The life of a VM across reconciles. A state is the VM status together with the history of the
  effects its own phases had; between two steps everything outside may change, and every step may
  use other clients, another context and another environment, as long as the plan keeps its target
  namespace and its type. The invariants hold in every reachable state.
\<close>

inductive vm_reachable ::
  "'e itself \<Rightarrow> string \<Rightarrow> VMMigrationPhase list \<Rightarrow> VMMigrationStatus \<Rightarrow> effect list \<Rightarrow> bool"
  for ty :: "'e itself" and ns order where
  created_status: "vm_reachable ty ns order (new_VMMigrationStatus vid nm) []"
| scheduled: "vm_reachable ty ns order vs es \<Longrightarrow> vs_Phase vs = VMPhasePending \<Longrightarrow>
    vm_reachable ty ns order (vs\<lparr>vs_Started := t, vs_Phase := VMPhasePreHook\<rparr>) es"
| advanced: "vm_reachable ty ns order vs es \<Longrightarrow> plan_TargetNamespace (mc_Plan mctx) = ns \<Longrightarrow>
    pipeline_order (mc_Plan mctx) = order \<Longrightarrow> vm_step r mctx vs (w :: 'e world) vs' w' \<Longrightarrow>
    vm_reachable ty ns order vs' (es @ new_effects w w')"
| cancelled: "vm_reachable ty ns order vs es \<Longrightarrow> \<not> isTerminalVMPhase (vs_Phase vs) \<Longrightarrow>
    vm_reachable ty ns order (vs\<lparr>vs_Phase := VMPhaseCancelled, vs_Completed := t\<rparr>) es"

section \<open>Nothing is forgotten\<close>

lemma tracks_new_effects: "tracks ns vs w vs' w' \<Longrightarrow> live (tracked ns vs) (new_effects w w') \<subseteq> tracked ns vs'"
  by (auto simp: tracks_def new_effects_append)

lemma reachable_tracked:
  assumes "vm_reachable ty ns order vs es"
  shows "live {} es \<subseteq> tracked ns vs \<and> bulk_ready vs \<and> (vs_Phase vs = VMPhaseFailed \<longrightarrow> live {} es = {})"
  using assms
proof (induction rule: vm_reachable.induct)
  case (created_status vid nm)
  then show ?case by (simp add: new_VMMigrationStatus_def bulk_ready_def base_covered_def)
next
  case (scheduled vs es t)
  then show ?case by (simp add: bulk_ready_def)
next
  case (advanced vs es mctx r w vs' w')
  note spec = vm_step_spec [OF advanced.hyps(4) _ advanced.hyps(2)]
  have ready: "bulk_ready vs" and IH: "live {} es \<subseteq> tracked ns vs" using advanced.IH by auto
  have "live {} (es @ new_effects w w') \<subseteq> tracked ns vs'"
    using tracks_new_effects [OF spec(1) [OF ready]] live_mono [OF IH, of "new_effects w w'"] by simp
  moreover have "live {} (es @ new_effects w w') = {}" if failed: "vs_Phase vs' = VMPhaseFailed"
  proof -
    obtain es' where "w_trace w' = w_trace w @ es'" "live (tracked ns vs) es' = {}" using spec(3) [OF ready failed] by blast
    then show ?thesis using live_mono [OF IH, of es'] by (simp add: new_effects_append)
  qed
  ultimately show ?case using spec(2) [OF ready] by blast
next
  case (cancelled vs es t)
  then show ?case by (simp add: bulk_ready_def)
qed

lemma vm_step_extends: "vm_step r mctx vs w vs' w' \<Longrightarrow> bulk_ready vs \<Longrightarrow> extends w w'"
  using vm_step_spec(1) tracks_extends by blast

text \<open>What \<^verbatim>\<open>advanceSingleVM\<close> returns is reachable.\<close>

lemma steps_reachable:
  assumes "vm_steps r mctx vs w vs' w'" and "vm_reachable TYPE('e) ns order vs es"
    and "plan_TargetNamespace (mc_Plan mctx) = ns" "pipeline_order (mc_Plan mctx) = order"
  shows "vm_reachable TYPE('e) ns order vs' (es @ new_effects w (w' :: 'e world)) \<and> extends w w'"
  using assms(1,2)
proof (induction arbitrary: es rule: vm_steps.induct)
  case (no_step vs w)
  then show ?case by (simp add: new_effects_def)
next
  case (one_more vs w vs1 w1 vs2 w2)
  have ext: "extends w w1" using vm_step_extends [OF one_more.hyps(1)] reachable_tracked [OF one_more.prems] by blast
  from vm_reachable.advanced [OF one_more.prems assms(3,4) one_more.hyps(1)]
  have "vm_reachable TYPE('e) ns order vs2 ((es @ new_effects w w1) @ new_effects w1 w2)" "extends w1 w2"
    using one_more.IH by blast+
  with new_effects_trans [OF ext this(2)] extends_trans [OF ext this(2)] show ?case by simp
qed

lemma advance_reachable:
  assumes "vm_reachable TYPE('e) ns order vs es" and "plan_TargetNamespace (mc_Plan mctx) = ns"
    and "pipeline_order (mc_Plan mctx) = order"
    and "advanceSingleVM r mctx vs (w :: 'e world) = Some (Returns (again, vs', w'))"
  shows "vm_reachable TYPE('e) ns order vs' (es @ new_effects w w')"
  using steps_reachable [OF advance_steps [OF assms(4)] assms(1-3)] by blast

section \<open>Which phases are reached\<close>

lemma reachable_phase:
  assumes "vm_reachable ty ns order vs es" and "order = phaseOrder \<or> order = warmPhaseOrder"
  shows "vs_Phase vs \<in> set order \<union> {VMPhaseFailed, VMPhaseCancelled} \<and> (order = phaseOrder \<longrightarrow> vs_Warm vs = None)"
  using assms(1)
proof (induction rule: vm_reachable.induct)
  case (advanced vs es mctx r w vs' w')
  show ?case using advanced.hyps(4)
  proof (cases rule: vm_step_cases)
    case (handler res vs1 w1 t)
    have p: "vs_Phase vs \<in> set order" using advanced.IH handler(1) by (auto simp: isTerminalVMPhase_def)
    have "nextPhaseInOrder (vs_Phase vs) order \<in> set order"
      using assms(2) cold.next_in_order(1) warm.next_in_order(1) p handler(1) by auto
    moreover have "order = phaseOrder \<longrightarrow> vs_Warm vs1 = vs_Warm vs"
      using executePhase_warm [OF handler(2)] p by (auto simp: phaseOrder_def)
    ultimately show ?thesis using handler(5) p advanced.IH advanced.hyps(3) by auto
  next
    case (failure res vs1 w1 err t)
    have p: "vs_Phase vs \<in> set order" using advanced.IH failure(1) by (auto simp: isTerminalVMPhase_def)
    have "order = phaseOrder \<longrightarrow> vs_Warm vs1 = vs_Warm vs"
      using executePhase_warm [OF failure(2)] p by (auto simp: phaseOrder_def)
    with failure(4) advanced.IH show ?thesis by auto
  qed
qed (use assms(2) in \<open>auto simp: phaseOrder_def warmPhaseOrder_def new_VMMigrationStatus_def\<close>)


section \<open>The end of the pipeline\<close>

definition late_phase :: "VMMigrationPhase \<Rightarrow> bool" where
  "late_phase p = (p \<in> {VMPhaseCreateVM, VMPhaseStartVM, VMPhasePostHook, VMPhaseCleanup})"

lemma late_inert:
  assumes "executePhase r vs mctx w = Some (Returns (res, vs', w'))" and "late_phase (vs_Phase vs)"
  shows "vs' = vs" and "\<forall>e \<in> set (new_effects w w'). created e = {}"
proof -
  have "vs' = vs \<and> (\<exists>es. w_trace w' = w_trace w @ es \<and> (\<forall>e \<in> set es. created e = {}))"
  proof (cases "vs_Phase vs")
    case VMPhasePostHook
    with assms(1) have run: "runHook r ''PostHook'' vs mctx w = (res, vs', w')" by (simp add: executePhase_def)
    obtain es where "w_trace w' = w_trace w @ es" "\<forall>e \<in> set es. hook_effect e" using runHook_effects(2) [OF run] by blast
    then show ?thesis using runHook_effects(1) [OF run] hook_effect_created by blast
  next
    case VMPhaseCleanup
    with assms(1) have run: "phaseCleanup vs mctx w = (res, vs', w')" by (simp add: executePhase_def)
    show ?thesis using phaseCleanup_clears(2,3) [OF run] is_deletion_created unfolding clears_def wipes_def by metis
  qed (use assms in \<open>auto simp: late_phase_def executePhase_def phaseCreateVM_def phaseStartVM_def Let_def
      dest!: call_trace split: prod.splits sum.splits option.splits if_splits\<close>)
  then show "vs' = vs" "\<forall>e \<in> set (new_effects w w'). created e = {}" by (auto simp: new_effects_append)
qed

text \<open>A final sync that completes has attempted to delete everything the warm status tracks.\<close>

lemma delta_disk_final:
  assumes "delta_disk r label finalizeFinalSync warm ds vs mctx w = Some (Returns (res, vs', w'))"
    and "pr_Completed res" and pod: "ws_DeltaPodName warm = []"
  shows "flows (tracked_warm ns warm) w {} w'"
proof -
  have fin: "flows (tracked_warm ns warm) w {} w'"
    if f: "finalizeFinalSync warm1 vs1 mctx w1 = (res, vs', w')" and tw: "tracked_warm ns warm1 = tracked_warm ns warm"
      and np: "ws_DeltaPodName warm1 = []" and tr: "w_trace w1 = w_trace w" for warm1 vs1 w1
  proof (rule flows_same_trace [OF tr])
    show "flows (tracked_warm ns warm) w1 {} w'"
      unfolding tw [symmetric]
      by (rule flows_clears [OF finalizeFinalSync_clears [OF f]]) (auto simp: tracked_warm_def np pod_set_def)
  qed
  show ?thesis
  proof (cases "ws_DeltaDiskIndex warm \<ge> length ds")
    case True
    then show ?thesis using assms(1) pod fin by (auto simp: delta_disk_def)
  next
    case False
    obtain d w1 where disc: "DiscoverClusterForCBT (mc_NutanixClient mctx) (vs_ID vs) w = (d, w1)" by fastforce
    obtain info where d: "d = Inr info" using assms(1,2) False disc by (cases d) (auto simp: delta_disk_def)
    let ?q = "\<lambda>off. GetChangedRegions (mc_NutanixClient mctx) (cbt_PrismElementURL info) (cbt_JWTToken info) (vs_ID vs)
        (ws_DeltaSnapshotUUID warm) (ws_BaseSnapshotUUID warm) off (getDiskSize (ds ! ws_DeltaDiskIndex warm)) CBTBlockSize"
    obtain y where y: "cbt_loop ?q 0 [] w1 = Some y"
      using assms(1) False disc d by (cases "cbt_loop ?q 0 [] w1") (auto simp: delta_disk_def Let_def)
    obtain regs w2 where rw: "y = (regs, w2)" by fastforce
    have t2: "w_trace w2 = w_trace w" using cbt_loop_trace [OF y] call_trace(9) [OF disc] call_trace(10) rw by fastforce
    note run = assms(1) [unfolded delta_disk_def if_not_P [OF False] disc d Let_def y rw prod.case sum.case option.case]
    have pods: "start_delta_pod r label x p cm v w3 = (res, vs', w') \<Longrightarrow> False" for x p cm v w3
      using assms(2) by (auto simp: start_delta_pod_def split: prod.splits option.splits)
    obtain regions where regions: "regs = Inr regions" using run assms(2) by (cases regs) auto
    let ?warm2 = "warm\<lparr>ws_DeltaBytes := wrap64 (ws_DeltaBytes warm + DeltaBytes regions),
        ws_DeltaDiskIndex := Suc (ws_DeltaDiskIndex warm)\<rparr>"
    have "regions = []" using run regions pods by (auto split: if_splits option.splits)
    then have "finalizeFinalSync ?warm2 (vs\<lparr>vs_Warm := Some ?warm2\<rparr>) mctx w2 = (res, vs', w')"
      using run regions assms(2) by (auto split: if_splits)
    then show ?thesis by (rule fin) (use t2 pod in simp_all)
  qed
qed

lemma phaseFinalSync_done:
  assumes "phaseFinalSync r vs mctx w = Some (Returns (res, vs', w'))" and "pr_Completed res"
  shows "\<exists>warm. vs_Warm vs = Some warm \<and> flows (tracked_warm ns warm) w {} w'"
proof -
  obtain warm where warm: "vs_Warm vs = Some warm" using assms by (cases "vs_Warm vs") (auto simp: phaseFinalSync_def)
  have pod: "ws_DeltaPodName warm = []"
    using assms warm by (auto simp: phaseFinalSync_def checkDeltaPod_def Let_def split: if_splits prod.splits PodPhase.splits sum.splits)
  let ?c = "mc_NutanixClient mctx" and ?mig = "mc_Migration mctx"
  have run: "runDeltaRound r ''final'' finalizeFinalSync warm vs mctx w = Some (Returns (res, vs', w'))"
    using assms(1) warm pod by (simp add: phaseFinalSync_def)
  obtain e1 warm1 w1 where s1: "(if ws_DeltaSnapshotUUID warm = []
       then (case CreateRecoveryPoint ?c (vs_ID vs) (delta_snapshot_name ?mig vs ''final'') w of
               (Inl err, w1) \<Rightarrow> (Some err, warm, w1)
             | (Inr uuid, w1) \<Rightarrow> (None, warm\<lparr>ws_DeltaSnapshotUUID := uuid\<rparr>, w1))
       else (None, warm, w)) = (e1, warm1, w1)" by (rule prod_cases3)
  note run1 = run [unfolded runDeltaRound_def Let_def s1 prod.case]
  have e1: "e1 = None" using run1 assms(2) by (cases e1) auto
  obtain g w2 where get: "GetVM ?c (vs_ID vs) w1 = (g, w2)" by fastforce
  obtain vm where vm: "g = Inr vm" using run1 e1 get assms(2) by (cases g) auto
  obtain e3 images w3 where s3: "(if length (ws_DeltaImageUUIDs warm1) < length (filterDataDisks (vm_Disks vm))
       then export_loop ?c (delta_image_name ?mig vs ''final'') getDiskUUID (cluster_ref vm) 0 (filterDataDisks (vm_Disks vm))
          (ws_DeltaImageUUIDs warm1) w2
       else (None, ws_DeltaImageUUIDs warm1, w2)) = (e3, images, w3)" by (rule prod_cases3)
  note run3 = run1 [unfolded e1 get vm option.case prod.case sum.case s3]
  have "e3 = None" using run3 assms(2) by (cases e3) auto
  then have d: "delta_disk r ''final'' finalizeFinalSync (warm1\<lparr>ws_DeltaImageUUIDs := images\<rparr>) (filterDataDisks (vm_Disks vm))
      (vs\<lparr>vs_Warm := Some (warm1\<lparr>ws_DeltaImageUUIDs := images\<rparr>)\<rparr>) mctx w3 = Some (Returns (res, vs', w'))" using run3 by simp
  have f1: "flows (tracked_warm ns warm) w (tracked_warm ns warm1) w2" and p1: "ws_DeltaPodName warm1 = []"
    using delta_snapshot_flows [OF s1, of ns] pod by (auto intro: flows_same_trace' call_trace(1) [OF get])
  have "flows (tracked_warm ns (warm1\<lparr>ws_DeltaImageUUIDs := images\<rparr>)) w3 {} w'"
    by (rule delta_disk_final [OF d assms(2)]) (simp add: p1)
  with flows_trans [OF f1 delta_export_flows [OF s3]] have "flows (tracked_warm ns warm) w {} w'"
    using flows_trans by blast
  with warm show ?thesis by blast
qed


lemma tracked_split:
  "tracked ns vs = tracked ns (vs\<lparr>vs_Warm := None\<rparr>) \<union> (case vs_Warm vs of None \<Rightarrow> {} | Some warm \<Rightarrow> tracked_warm ns warm)"
  by (simp add: tracked_def)

lemma tracked_images_volumes:
  "vs_Warm vs = None \<Longrightarrow> tracked ns vs = RImage ` set (vs_ImageUUIDs vs) \<union> snapshot_set (vs_SnapshotUUID vs) \<union>
     RVolume ns ` set (vs_DataVolumeNames vs)"
  by (simp add: tracked_def)

text \<open>From the creation of the target VM on, nothing of the warm status alone is still live; at the
  end only the volumes are.\<close>

lemma live_final_sync:
  assumes "phaseFinalSync r vs mctx w = Some (Returns (res, vs', w'))" and "pr_Completed res"
    and "S \<subseteq> tracked ns vs"
  shows "live S (new_effects w w') \<subseteq> tracked ns (vs\<lparr>vs_Warm := None\<rparr>)"
proof -
  obtain warm where warm: "vs_Warm vs = Some warm" "flows (tracked_warm ns warm) w {} w'"
    using phaseFinalSync_done [OF assms(1,2)] by blast
  then obtain es where es: "w_trace w' = w_trace w @ es" "live (tracked_warm ns warm) es = {}" by (auto simp: flows_def)
  have "live (tracked ns vs) es \<subseteq> tracked ns (vs\<lparr>vs_Warm := None\<rparr>) \<union> live (tracked_warm ns warm) es"
    using tracked_split [of ns vs] warm(1) live_Un by (metis option.simps(5))
  then show ?thesis using es live_mono [OF assms(3), of es] by (auto simp: new_effects_append)
qed

lemma phaseFinalSync_cold_part:
  assumes "phaseFinalSync r vs mctx w = Some (Returns (res, vs', w'))"
  shows "tracked ns (vs\<lparr>vs_Warm := None\<rparr>) \<subseteq> tracked ns (vs'\<lparr>vs_Warm := None\<rparr>)"
  using phaseFinalSync_ok [OF assms] by (auto simp: phase_ok_def keeps_records_def tracked_def snapshot_set_def split: if_splits)

definition late_clean :: "string \<Rightarrow> VMMigrationStatus \<Rightarrow> effect list \<Rightarrow> bool" where
  "late_clean ns vs es =
     ((late_phase (vs_Phase vs) \<longrightarrow> live {} es \<subseteq> tracked ns (vs\<lparr>vs_Warm := None\<rparr>)) \<and>
      (vs_Phase vs = VMPhaseCompleted \<longrightarrow> live {} es \<subseteq> RVolume ns ` set (vs_DataVolumeNames vs)))"

lemma late_successors:
  assumes "plan_order = phaseOrder \<or> plan_order = warmPhaseOrder" "p \<in> set plan_order" "\<not> isTerminalVMPhase p"
  shows "nextPhaseInOrder p plan_order = VMPhaseCompleted \<Longrightarrow> p = VMPhaseCleanup"
    and "late_phase (nextPhaseInOrder p plan_order) \<Longrightarrow>
      late_phase p \<or> (plan_order = phaseOrder \<and> p = VMPhaseImportDisks) \<or> (plan_order = warmPhaseOrder \<and> p = VMPhaseFinalSync)"
  using assms by (cases p; auto simp: phaseOrder_def warmPhaseOrder_def late_phase_def isTerminalVMPhase_def)+

lemma diff_cover: "L \<subseteq> A - U \<Longrightarrow> A \<subseteq> X \<union> V \<Longrightarrow> X \<subseteq> U \<Longrightarrow> L \<subseteq> V"
  by blast

lemma late_clean_step:
  assumes order: "order = phaseOrder \<or> order = warmPhaseOrder" and reach: "vm_reachable ty ns order vs es"
    and IH: "late_clean ns vs es" and plan: "plan_TargetNamespace (mc_Plan mctx) = ns" "pipeline_order (mc_Plan mctx) = order"
    and step: "vm_step r mctx vs w vs' w'"
  shows "late_clean ns vs' (es @ new_effects w w')"
  using step
proof (cases rule: vm_step_cases)
  case (failure res vs1 w1 err t)
  then show ?thesis by (simp add: late_clean_def late_phase_def)
next
  case (handler res vs1 w1 t)
  have tr: "live {} es \<subseteq> tracked ns vs" and ready: "bulk_ready vs" using reachable_tracked [OF reach] by auto
  have p: "vs_Phase vs \<in> set order" and warm: "order = phaseOrder \<longrightarrow> vs_Warm vs = None"
    using reachable_phase [OF reach order] handler(1) by (auto simp: isTerminalVMPhase_def)
  have new: "new_effects w w' = new_effects w w1" using handler(4) by (simp add: new_effects_def)
  have ok: "phase_ok ns vs w res vs1 w1" using executePhase_ok [OF handler(2) ready] plan(1) by simp
  show ?thesis
  proof (cases "late_phase (vs_Phase vs)")
    case True
    note inert = late_inert [OF handler(2) True]
    have l: "live {} (es @ new_effects w w') \<subseteq> live {} es - (\<Union>e \<in> set (new_effects w w1). removed e)"
      using inert(2) by (simp add: new live_without_creation)
    have "live {} (es @ new_effects w w') \<subseteq> RVolume ns ` set (vs_DataVolumeNames vs)" if fin: "vs_Phase vs' = VMPhaseCompleted"
    proof -
      have "vs_Phase vs = VMPhaseCleanup"
        using fin handler(1,5) late_successors(1) [OF order p handler(1)] plan(2)
        by (auto simp: isTerminalVMPhase_def split: if_splits)
      then have run: "phaseCleanup vs mctx w = (res, vs1, w1)" using handler(2) by (simp add: executePhase_def)
      obtain es' where es': "w_trace w1 = w_trace w @ es'" "RImage ` set (vs_ImageUUIDs vs) \<union> snapshot_set (vs_SnapshotUUID vs)
          \<subseteq> (\<Union>e \<in> set es'. removed e)" using phaseCleanup_clears(3) [OF run] by (auto simp: clears_def wipes_def)
      have "live {} es \<subseteq> tracked ns (vs\<lparr>vs_Warm := None\<rparr>)" using IH True by (simp add: late_clean_def)
      then have "live {} es \<subseteq> RImage ` set (vs_ImageUUIDs vs) \<union> snapshot_set (vs_SnapshotUUID vs) \<union>
          RVolume ns ` set (vs_DataVolumeNames vs)" by (simp add: tracked_images_volumes)
      then show ?thesis using l es'(2) unfolding new_effects_append [OF es'(1)] by (metis diff_cover)
    qed
    moreover have "live {} (es @ new_effects w w') \<subseteq> tracked ns (vs\<lparr>vs_Warm := None\<rparr>)"
      using l IH True by (auto simp: late_clean_def)
    ultimately show ?thesis using handler(5) inert(1) by (auto simp: late_clean_def tracked_def)
  next
    case False
    have "live {} (es @ new_effects w w') \<subseteq> tracked ns (vs'\<lparr>vs_Warm := None\<rparr>)" if late: "late_phase (vs_Phase vs')"
    proof -
      have fin: "pr_Completed res" using late False handler(5) by (auto split: if_splits)
      from late_successors(2) [OF order p handler(1)] late False handler(5) fin plan(2)
      consider "order = phaseOrder" "vs_Phase vs = VMPhaseImportDisks" | "vs_Phase vs = VMPhaseFinalSync" by auto
      then show ?thesis
      proof cases
        case 1
        have "vs_Warm vs1 = None" using executePhase_warm [OF handler(2)] 1 warm by simp
        moreover have "live {} (es @ new_effects w w1) \<subseteq> tracked ns vs1"
          using dispatch.live_stays_tracked [where mctx = mctx, of vs r w res vs1 w1 "live {} es"] handler(2) ready tr plan(1)
          by simp
        ultimately show ?thesis using handler(5) by (simp add: new tracked_def)
      next
        case 2
        then have fs: "phaseFinalSync r vs mctx w = Some (Returns (res, vs1, w1))" using handler(2) by (simp add: executePhase_def)
        have same: "tracked ns (vs'\<lparr>vs_Warm := None\<rparr>) = tracked ns (vs1\<lparr>vs_Warm := None\<rparr>)"
          using handler(5) by (simp add: tracked_def)
        from live_final_sync [OF fs fin tr] phaseFinalSync_cold_part [OF fs, of ns] show ?thesis
          unfolding same new live_append by (rule order_trans)
      qed
    qed
    moreover have "vs_Phase vs' \<noteq> VMPhaseCompleted"
      using False handler(1,5) late_successors(1) [OF order p handler(1)] plan(2)
      by (auto simp: late_phase_def isTerminalVMPhase_def split: if_splits)
    ultimately show ?thesis by (simp add: late_clean_def)
  qed
qed

lemma reachable_late_clean:
  assumes "vm_reachable ty ns order vs es" and "order = phaseOrder \<or> order = warmPhaseOrder"
  shows "late_clean ns vs es"
  using assms(1)
proof (induction rule: vm_reachable.induct)
  case (advanced vs es mctx r w vs' w')
  then show ?case using late_clean_step [OF assms(2)] by blast
qed (auto simp: late_clean_def late_phase_def new_VMMigrationStatus_def)

end
