(* ===== verification/Phase_Effects.thy ===== *)
theory Phase_Effects
  imports Pipeline
begin

text \<open>
  What each phase may do to the outside: a table of the effects a phase is meant to have, written from the descriptions of the
  phases, and the proof that the handlers stay inside it. The table names the VM and the target namespace, so a handler that
  touched another VM or another namespace would not fit it either.
\<close>

section \<open>The table\<close>

fun power_query :: "string \<Rightarrow> effect \<Rightarrow> bool" where
  "power_query vid (EPowerState u _) = (u = vid)"
| "power_query vid _ = False"

fun power_off :: "string \<Rightarrow> effect \<Rightarrow> bool" where
  "power_off vid (EPowerOff u _) = (u = vid)"
| "power_off vid _ = False"

fun takes_snapshot :: "string \<Rightarrow> effect \<Rightarrow> bool" where
  "takes_snapshot vid (ECreateRecoveryPoint u _ _) = (u = vid)"
| "takes_snapshot vid _ = False"

fun exports_disk :: "effect \<Rightarrow> bool" where
  "exports_disk (ECreateImage _ _ _ _) = True"
| "exports_disk _ = False"

fun creates_import :: "string \<Rightarrow> effect \<Rightarrow> bool" where
  "creates_import ns (ECreate (ObjSecret s) _) = (sec_Namespace s = ns)"
| "creates_import ns (ECreate (ObjConfigMap _) _) = True"
| "creates_import ns (ECreate (ObjDataVolume dv) _) = (dv_Namespace dv = ns)"
| "creates_import ns _ = False"

fun import_query :: "string \<Rightarrow> effect \<Rightarrow> bool" where
  "import_query ns (EDataVolume ns' _ _) = (ns' = ns)"
| "import_query ns _ = False"

fun creates_target :: "string \<Rightarrow> effect \<Rightarrow> bool" where
  "creates_target ns (ECreate (ObjVirtualMachine v) _) = (kv_Namespace v = ns)"
| "creates_target ns _ = False"

fun starts_target :: "effect \<Rightarrow> bool" where
  "starts_target (EUpdateVM v _) = (kv_RunStrategy v = RunStrategyAlways)"
| "starts_target _ = False"

fun drops_copy :: "effect \<Rightarrow> bool" where
  "drops_copy (EDeleteImage _ _) = True"
| "drops_copy (EDeleteRecoveryPoint _ _) = True"
| "drops_copy _ = False"

fun drops_object :: "k8s_kind set \<Rightarrow> string \<Rightarrow> effect \<Rightarrow> bool" where
  "drops_object kinds ns (EDelete kind ns' _ _) = (kind \<in> kinds \<and> ns' = ns)"
| "drops_object kinds ns _ = False"

fun patches_disk :: "string \<Rightarrow> effect \<Rightarrow> bool" where
  "patches_disk ns (EPodPhase ns' _ _) = (ns' = ns)"
| "patches_disk ns (ECreate (ObjConfigMap _) _) = True"
| "patches_disk ns (ECreate (ObjPod p) _) = (pod_Namespace p = ns)"
| "patches_disk ns _ = False"

fun power_on :: "string \<Rightarrow> effect \<Rightarrow> bool" where
  "power_on vid (EPowerOn u _) = (u = vid)"
| "power_on vid _ = False"

text \<open>A delta round: a recovery point and images of the VM, pods that patch the volumes, and the removal of what the round replaces.\<close>

definition delta_effect :: "string \<Rightarrow> string \<Rightarrow> effect \<Rightarrow> bool" where
  "delta_effect vid ns e \<longleftrightarrow> takes_snapshot vid e \<or> exports_disk e \<or> patches_disk ns e \<or> drops_copy e \<or> drops_object {KindPod, KindConfigMap} ns e"

definition may_emit :: "string \<Rightarrow> string \<Rightarrow> VMMigrationPhase \<Rightarrow> effect \<Rightarrow> bool" where
  "may_emit vid ns p e =
     (case p of
        VMPhasePreHook \<Rightarrow> hook_effect e
      | VMPhaseStorePowerState \<Rightarrow> power_query vid e
      | VMPhasePowerOff \<Rightarrow> power_off vid e
      | VMPhaseWaitForPowerOff \<Rightarrow> power_query vid e
      | VMPhaseCreateSnapshot \<Rightarrow> takes_snapshot vid e
      | VMPhaseExportDisks \<Rightarrow> exports_disk e
      | VMPhaseImportDisks \<Rightarrow> creates_import ns e \<or> import_query ns e
      | VMPhaseBulkCopy \<Rightarrow> takes_snapshot vid e \<or> exports_disk e \<or> creates_import ns e
      | VMPhaseWaitBulkCopy \<Rightarrow> import_query ns e
      | VMPhasePrecopy \<Rightarrow> delta_effect vid ns e
      | VMPhaseFinalSync \<Rightarrow> delta_effect vid ns e
      | VMPhaseCreateVM \<Rightarrow> creates_target ns e
      | VMPhaseStartVM \<Rightarrow> starts_target e
      | VMPhasePostHook \<Rightarrow> hook_effect e
      | VMPhaseCleanup \<Rightarrow> drops_copy e \<or> drops_object {KindSecret, KindConfigMap} ns e
      | VMPhaseFailed \<Rightarrow> power_on vid e \<or> drops_copy e \<or> drops_object {KindDataVolume, KindPod, KindConfigMap} ns e
      | _ \<Rightarrow> False)"

section \<open>Computations whose effects are of one kind\<close>

definition emits :: "(effect \<Rightarrow> bool) \<Rightarrow> 'e world \<Rightarrow> 'e world \<Rightarrow> bool" where
  "emits P w w' \<longleftrightarrow> (\<exists>es. w_trace w' = w_trace w @ es \<and> (\<forall>e \<in> set es. P e))"

lemma emits_same: "w_trace w' = w_trace w \<Longrightarrow> emits P w w'"
  by (simp add: emits_def)

lemma emits_refl [simp]: "emits P w w"
  by (simp add: emits_same)

lemma emits_one: "w_trace w' = w_trace w @ [e] \<Longrightarrow> P e \<Longrightarrow> emits P w w'"
  by (simp add: emits_def)

lemma emits_trans: "emits P a b \<Longrightarrow> emits P b c \<Longrightarrow> emits P a c"
  unfolding emits_def by (metis Un_iff append.assoc set_append)

lemma emits_mono: "emits P w w' \<Longrightarrow> (\<And>e. P e \<Longrightarrow> Q e) \<Longrightarrow> emits Q w w'"
  unfolding emits_def by blast

lemma emits_start: "w_trace w1 = w_trace w \<Longrightarrow> emits P w1 w' \<Longrightarrow> emits P w w'"
  by (simp add: emits_def)

lemma emits_new: "emits P w w' \<Longrightarrow> \<forall>e \<in> set (new_effects w w'). P e"
  by (auto simp: emits_def new_effects_append)

lemma emits_extends: "emits P w w' \<Longrightarrow> extends w w'"
  by (auto simp: emits_def intro: extendsI)

lemma emits_for_each: "(\<And>x w. x \<in> set xs \<Longrightarrow> emits P w (f x w)) \<Longrightarrow> emits P w (for_each f xs w)"
  by (induction xs arbitrary: w) (auto intro: emits_trans)

lemma emits_try:
  "(\<And>r. P (EDeleteImage u r)) \<Longrightarrow> emits P w (try_DeleteImage c u w)"
  "(\<And>r. P (EDeleteRecoveryPoint u r)) \<Longrightarrow> emits P w (try_DeleteRecoveryPoint c u w)"
  "(\<And>r. P (EDelete kind ns n r)) \<Longrightarrow> emits P w (try_Delete k kind ns n w)"
  by (auto simp: try_DeleteImage_def try_DeleteRecoveryPoint_def try_Delete_def op_defs perform_def emits_def split: prod.splits)

section \<open>The loops\<close>

lemma export_loop_emits:
  assumes "export_loop c name uuid_of cluster i disks images w = (err, images', w')"
  shows "emits exports_disk w w'"
  using assms
proof (induction disks arbitrary: i images w)
  case (Cons d ds)
  obtain r w1 where call: "CreateImageFromDisk c (name i) (uuid_of d) cluster w = (r, w1)" by fastforce
  have one: "emits exports_disk w w1" using call_trace(7) [OF call] by (rule emits_one) simp
  show ?case using Cons call one by (auto split: if_splits sum.splits intro: emits_trans)
qed simp

lemma create_dvs_loop_emits:
  assumes "create_dvs_loop m opts i images names w = (err, names', w')" and "\<And>i u. dvo_Namespace (opts i u) = ns"
  shows "emits (creates_import ns) w w'"
  using assms(1)
proof (induction images arbitrary: i names w)
  case (Cons u us)
  obtain r w1 where call: "CreateDataVolume m (opts i u) w = (r, w1)" by fastforce
  obtain r' where t: "w_trace w1 = w_trace w @ [ECreate (ObjDataVolume (BuildDataVolume (opts i u))) r']"
    using manager_trace(3) [OF call] by blast
  have one: "emits (creates_import ns) w w1" using t by (rule emits_one) (simp add: BuildDataVolume_def assms(2) Let_def)
  show ?case using Cons call one by (auto split: if_splits option.splits intro: emits_trans)
qed simp

lemma poll_dvs_loop_emits:
  assumes "poll_dvs_loop m ns pp fp names ok w = (res, w')"
  shows "emits (import_query ns) w w'"
  using assms
proof (induction names arbitrary: ok w)
  case (Cons n names)
  obtain r w1 where call: "GetDataVolumeProgress m n ns w = (r, w1)" by fastforce
  obtain p where t: "w_trace w1 = w_trace w @ [EDataVolume ns n p]" using manager_trace(4) [OF call] by blast
  have one: "emits (import_query ns) w w1" using t by (rule emits_one) simp
  have "w' = w1 \<or> (\<exists>ok'. poll_dvs_loop m ns pp fp names ok' w1 = (res, w'))"
    using Cons.prems call by (auto split: sum.splits if_splits DataVolumePhase.splits)
  then show ?case using Cons.IH one emits_trans by blast
qed simp

lemma create_volumes_emits:
  assumes "create_volumes p dp size_of ds vs mctx w = (err, vs', w')"
  shows "emits (creates_import (plan_TargetNamespace (mc_Plan mctx))) w w'"
proof -
  let ?ns = "plan_TargetNamespace (mc_Plan mctx)"
  obtain r1 wa where c1: "CreateCredentialSecret (mc_TransferMgr mctx) (cred_secret_name (mc_Migration mctx)) ?ns
      (migration_owner (mc_Migration mctx)) w = (r1, wa)" by fastforce
  have a: "emits (creates_import ?ns) w wa" using manager_trace(1) [OF c1] by (auto intro: emits_one)
  obtain r2 cert wb where c2: "create_ca mctx wa = (r2, cert, wb)" by (rule prod_cases3)
  have b: "emits (creates_import ?ns) wa wb"
  proof (cases "tm_CACert (mc_TransferMgr mctx) = []")
    case True
    then show ?thesis using c2 by (auto simp: create_ca_def)
  next
    case False
    then have "CreateCAConfigMap (mc_TransferMgr mctx) (ca_config_name (mc_Migration mctx)) ?ns (migration_owner (mc_Migration mctx)) wa = (r2, wb)"
      using c2 by (auto simp: create_ca_def Let_def split: prod.splits)
    from manager_trace(2) [OF this] show ?thesis by (fastforce simp: emits_def)
  qed
  obtain r3 names wc where c3: "create_dvs_loop (mc_TransferMgr mctx) (dv_options mctx vs size_of ds cert) 0
      (vs_ImageUUIDs vs) (vs_DataVolumeNames vs) wb = (r3, names, wc)" by (rule prod_cases3)
  have c: "emits (creates_import ?ns) wb wc"
    by (rule create_dvs_loop_emits [OF c3]) (simp add: dv_options_def Let_def split: prod.split)
  have "w' = wa \<or> w' = wb \<or> w' = wc" using assms c1 c2 c3 by (auto simp: create_volumes_def split: option.splits if_splits)
  then show ?thesis using a b c emits_trans by metis
qed

section \<open>The handlers\<close>

lemma phaseExportDisks_emits:
  assumes "phaseExportDisks vs mctx w = (res, vs', w')"
  shows "emits exports_disk w w'"
proof -
  obtain g w1 where get: "GetVM (mc_NutanixClient mctx) (vs_ID vs) w = (g, w1)" by fastforce
  have "emits exports_disk w1 w'" using assms get
    by (auto simp: phaseExportDisks_def Let_def split: sum.splits if_splits prod.splits option.splits dest!: export_loop_emits)
  then show ?thesis by (rule emits_start [OF call_trace(1) [OF get]])
qed

lemma phaseImportDisks_emits:
  assumes "phaseImportDisks vs mctx w = (res, vs', w')"
  shows "emits (\<lambda>e. creates_import (plan_TargetNamespace (mc_Plan mctx)) e \<or> import_query (plan_TargetNamespace (mc_Plan mctx)) e) w w'"
    (is "emits ?P w w'")
proof -
  let ?ns = "plan_TargetNamespace (mc_Plan mctx)"
  obtain g w1 where get: "GetVM (mc_NutanixClient mctx) (vs_ID vs) w = (g, w1)" by fastforce
  have "emits ?P w1 w'"
  proof (cases g)
    case (Inr vm)
    obtain err vs2 w2 where cv: "create_volumes ''ImportDisks: '' ''ImportDisks: '' import_disk_size (filterDataDisks (vm_Disks vm)) vs mctx w1 = (err, vs2, w2)"
      by (rule prod_cases3)
    obtain pres w3 where poll: "poll_dvs_loop (mc_TransferMgr mctx) ?ns ''ImportDisks: poll '' ''ImportDisks: DataVolume '' (vs_DataVolumeNames vs2) True w2 = (pres, w3)"
      by fastforce
    have "emits ?P w1 w2" by (rule emits_mono [OF create_volumes_emits [OF cv]]) simp
    moreover have "emits ?P w2 w3" by (rule emits_mono [OF poll_dvs_loop_emits [OF poll]]) simp
    moreover have "w' = w2 \<or> w_trace w' = w_trace w3"
      using assms get Inr cv poll by (auto simp: phaseImportDisks_def record_disk_bytes_trace split: option.splits if_splits)
    ultimately show ?thesis using emits_trans [of ?P w1 w2 w3] emits_trans [of ?P w1 w3 w'] emits_same [of w' w3 ?P] by blast
  qed (use assms get in \<open>auto simp: phaseImportDisks_def\<close>)
  then show ?thesis by (rule emits_start [OF call_trace(1) [OF get]])
qed

lemma phaseCleanup_emits:
  assumes "phaseCleanup vs mctx w = (res, vs', w')"
  shows "emits (\<lambda>e. drops_copy e \<or> drops_object {KindSecret, KindConfigMap} (plan_TargetNamespace (mc_Plan mctx)) e) w w'"
    (is "emits ?P w w'")
proof -
  let ?c = "mc_NutanixClient mctx" and ?ns = "plan_TargetNamespace (mc_Plan mctx)"
  let ?w2 = "try_DeleteRecoveryPoint ?c (vs_SnapshotUUID vs) (for_each (try_DeleteImage ?c) (vs_ImageUUIDs vs) w)"
  obtain r3 w3 where d3: "DeleteCredentialSecret (mc_TransferMgr mctx) (cred_secret_name (mc_Migration mctx)) ?ns ?w2 = (r3, w3)" by fastforce
  obtain r4 w4 where d4: "DeleteCAConfigMap (mc_TransferMgr mctx) (ca_config_name (mc_Migration mctx)) ?ns w3 = (r4, w4)" by fastforce
  have "w' = w4" using assms d3 d4 by (simp add: phaseCleanup_def Let_def)
  moreover have "emits ?P w ?w2" by (rule emits_trans [OF emits_for_each emits_try(2)]) (auto intro: emits_try)
  moreover have "emits ?P ?w2 w3" "emits ?P w3 w4"
    using manager_trace(5) [OF d3] manager_trace(6) [OF d4] by (auto intro: emits_one)
  ultimately show ?thesis using emits_trans [of ?P w ?w2 w3] emits_trans [of ?P w w3 w4] by simp
qed

lemma phaseBulkCopy_emits:
  assumes "phaseBulkCopy vs mctx w = (res, vs', w')"
  shows "emits (may_emit (vs_ID vs) (plan_TargetNamespace (mc_Plan mctx)) VMPhaseBulkCopy) w w'" (is "emits ?P w w'")
proof -
  let ?c = "mc_NutanixClient mctx" and ?mig = "mc_Migration mctx"
  obtain e1 vs1 w1 where s1: "(if vs_SnapshotUUID vs = []
       then (case CreateRecoveryPoint ?c (vs_ID vs) (snapshot_name ?mig vs) w of
               (Inl err, w1) \<Rightarrow> (Some err, vs, w1)
             | (Inr uuid, w1) \<Rightarrow> (None, vs\<lparr>vs_SnapshotUUID := uuid\<rparr>, w1))
       else (None, vs, w)) = (e1, vs1, w1)" by (rule prod_cases3)
  have a: "emits ?P w w1" using s1
    by (auto simp: may_emit_def split: if_splits prod.splits sum.splits dest!: call_trace intro!: emits_one)
  obtain g w2 where get: "GetVM ?c (vs_ID vs1) w1 = (g, w2)" by fastforce
  note run = assms [unfolded phaseBulkCopy_def Let_def s1 prod.case get]
  have b: "emits ?P w1 w2" using call_trace(1) [OF get] by (rule emits_same)
  have "w' = w1 \<or> w' = w2 \<or> emits ?P w2 w'"
  proof (cases "e1 = None \<and> (\<exists>vm. g = Inr vm)")
    case False
    then show ?thesis using run by (auto split: option.splits sum.splits)
  next
    case True
    then obtain vm where vm: "e1 = None" "g = Inr vm" by blast
    obtain e3 images w3 where s3: "(if length (vs_ImageUUIDs vs1) < length (filterDataDisks (vm_Disks vm))
        then export_loop ?c (disk_object_name ?mig vs1) getDiskUUID (cluster_ref vm) 0 (filterDataDisks (vm_Disks vm)) (vs_ImageUUIDs vs1) w2
        else (None, vs_ImageUUIDs vs1, w2)) = (e3, images, w3)" by (rule prod_cases3)
    have c: "emits ?P w2 w3" using s3
      by (auto split: if_splits dest!: export_loop_emits elim!: emits_mono simp: may_emit_def)
    obtain res4 vs4 w4 where s4: "createDataVolumes (vs1\<lparr>vs_ImageUUIDs := images\<rparr>) mctx (filterDataDisks (vm_Disks vm)) w3 = (res4, vs4, w4)"
      by (rule prod_cases3)
    have d: "emits ?P w3 w4" using s4
      by (auto simp: createDataVolumes_def may_emit_def split: prod.splits option.splits dest!: create_volumes_emits elim!: emits_mono)
    have "w' = w3 \<or> w' = w4" using run vm s3 s4 by (auto split: option.splits if_splits)
    then show ?thesis using c d emits_trans by blast
  qed
  then show ?thesis using a b emits_trans by blast
qed

section \<open>The delta rounds\<close>

lemma finalizers_emit:
  "finalizePrecopyRound r warm vs mctx w = (res, vs', w') \<Longrightarrow> emits drops_copy w w'"
  "finalizeFinalSync warm vs mctx w = (res, vs', w') \<Longrightarrow> emits drops_copy w w'"
proof -
  let ?c = "mc_NutanixClient mctx"
  let ?w2 = "for_each (try_DeleteImage ?c) (ws_BaseImageUUIDs warm) (try_DeleteRecoveryPoint ?c (ws_BaseSnapshotUUID warm) w)"
  have base: "emits drops_copy w ?w2" by (rule emits_trans [OF emits_try(2) emits_for_each]) (auto intro: emits_try)
  obtain now w3 where n: "Now (r_Now r) ?w2 = (now, w3)" by fastforce
  show "emits drops_copy w w'" if "finalizePrecopyRound r warm vs mctx w = (res, vs', w')"
  proof -
    have "w' = w3" using that n by (simp add: finalizePrecopyRound_def Let_def)
    then show ?thesis using emits_trans [OF base emits_same] call_trace(18) [OF n] by blast
  qed
  show "emits drops_copy w w'" if "finalizeFinalSync warm vs mctx w = (res, vs', w')"
  proof -
    have "w' = try_DeleteRecoveryPoint ?c (ws_DeltaSnapshotUUID warm) (for_each (try_DeleteImage ?c) (ws_DeltaImageUUIDs warm) ?w2)"
      using that by (simp add: finalizeFinalSync_def Let_def)
    moreover have "emits drops_copy ?w2 (try_DeleteRecoveryPoint ?c (ws_DeltaSnapshotUUID warm) (for_each (try_DeleteImage ?c) (ws_DeltaImageUUIDs warm) ?w2))"
      by (rule emits_trans [OF emits_for_each emits_try(2)]) (auto intro: emits_try)
    ultimately show ?thesis using emits_trans [OF base] by simp
  qed
qed

lemma start_delta_pod_emits:
  assumes "start_delta_pod r label warm pod cm vs w = (res, vs', w')" and "pod_Namespace pod = ns"
  shows "emits (patches_disk ns) w w'"
proof -
  obtain r1 w1 where c1: "Create (r_Client r) (ObjConfigMap cm) w = (r1, w1)" by fastforce
  obtain r2 w2 where c2: "Create (r_Client r) (ObjPod pod) w1 = (r2, w2)" by fastforce
  have "emits (patches_disk ns) w w1" "emits (patches_disk ns) w1 w2"
    using call_trace(11) [OF c1] call_trace(11) [OF c2] assms(2) by (auto intro: emits_one)
  moreover have "w' = w1 \<or> w' = w2" using assms(1) c1 c2 by (auto simp: start_delta_pod_def split: option.splits)
  ultimately show ?thesis using emits_trans by blast
qed

lemma delta_disk_emits:
  assumes run: "delta_disk r label fin warm ds vs mctx w = Some (Returns (res, vs', w'))"
    and fin: "\<And>warm vs w res vs' w'. fin warm vs mctx w = (res, vs', w') \<Longrightarrow> emits drops_copy w w'"
  shows "emits (\<lambda>e. patches_disk (plan_TargetNamespace (mc_Plan mctx)) e \<or> drops_copy e) w w'" (is "emits ?P w w'")
proof -
  have fin': "emits ?P w w'" if "fin warm vs mctx w = (res, vs', w')" for warm vs w res vs' w'
    by (rule emits_mono [OF fin [OF that]]) simp
  show ?thesis
  proof (cases "ws_DeltaDiskIndex warm \<ge> length ds")
    case True
    then show ?thesis using run fin' by (auto simp: delta_disk_def)
  next
    case False
    obtain d w1 where disc: "DiscoverClusterForCBT (mc_NutanixClient mctx) (vs_ID vs) w = (d, w1)" by fastforce
    note t1 = call_trace(9) [OF disc]
    show ?thesis
    proof (cases d)
      case (Inl err)
      then show ?thesis using run False disc t1 by (auto simp: delta_disk_def intro: emits_same)
    next
      case (Inr info)
      let ?q = "\<lambda>off. GetChangedRegions (mc_NutanixClient mctx) (cbt_PrismElementURL info) (cbt_JWTToken info) (vs_ID vs)
          (ws_DeltaSnapshotUUID warm) (ws_BaseSnapshotUUID warm) off (getDiskSize (ds ! ws_DeltaDiskIndex warm)) CBTBlockSize"
      obtain regs w2 where y: "cbt_loop ?q 0 [] w1 = Some (regs, w2)"
        using run False disc Inr by (cases "cbt_loop ?q 0 [] w1") (auto simp: delta_disk_def Let_def)
      have t2: "w_trace w2 = w_trace w" using cbt_loop_trace [OF y] call_trace(10) t1 by fastforce
      note run2 = run [unfolded delta_disk_def if_not_P [OF False] disc Inr Let_def y prod.case sum.case option.case]
      have pods: "emits ?P w2 w'" if "start_delta_pod r label x p cm v w2 = (res, vs', w')" "delta_pod vs mctx label x regions = Some (p, cm)" for x p cm v regions
        by (rule emits_mono [OF start_delta_pod_emits [OF that(1) delta_pod_fields(1) [OF that(2)]]]) simp
      have "w' = w2 \<or> emits ?P w2 w'"
        using run2 fin' by (auto split: sum.splits if_splits option.splits dest: pods)
      then show ?thesis using emits_start [OF t2] emits_same [OF t2] by blast
    qed
  qed
qed

lemma runDeltaRound_emits:
  assumes run: "runDeltaRound r label fin warm vs mctx w = Some (Returns (res, vs', w'))"
    and fin: "\<And>warm vs w res vs' w'. fin warm vs mctx w = (res, vs', w') \<Longrightarrow> emits drops_copy w w'"
  shows "emits (delta_effect (vs_ID vs) (plan_TargetNamespace (mc_Plan mctx))) w w'" (is "emits ?P w w'")
proof -
  let ?c = "mc_NutanixClient mctx" and ?mig = "mc_Migration mctx"
  obtain e1 warm1 w1 where s1: "(if ws_DeltaSnapshotUUID warm = []
       then (case CreateRecoveryPoint ?c (vs_ID vs) (delta_snapshot_name ?mig vs label) w of
               (Inl err, w1) \<Rightarrow> (Some err, warm, w1)
             | (Inr uuid, w1) \<Rightarrow> (None, warm\<lparr>ws_DeltaSnapshotUUID := uuid\<rparr>, w1))
       else (None, warm, w)) = (e1, warm1, w1)" by (rule prod_cases3)
  have a: "emits ?P w w1" using s1
    by (auto simp: delta_effect_def split: if_splits prod.splits sum.splits dest!: call_trace intro!: emits_one)
  obtain g w2 where get: "GetVM ?c (vs_ID vs) w1 = (g, w2)" by fastforce
  have b: "emits ?P w1 w2" using call_trace(1) [OF get] by (rule emits_same)
  note run2 = run [unfolded runDeltaRound_def Let_def s1 prod.case get]
  have "w' = w1 \<or> w' = w2 \<or> emits ?P w2 w'"
  proof (cases "e1 = None \<and> (\<exists>vm. g = Inr vm)")
    case False
    then show ?thesis using run2 by (auto split: option.splits sum.splits)
  next
    case True
    then obtain vm where vm: "e1 = None" "g = Inr vm" by blast
    obtain e3 images w3 where s3: "(if length (ws_DeltaImageUUIDs warm1) < length (filterDataDisks (vm_Disks vm))
       then export_loop ?c (delta_image_name ?mig vs label) getDiskUUID (cluster_ref vm) 0 (filterDataDisks (vm_Disks vm))
          (ws_DeltaImageUUIDs warm1) w2
       else (None, ws_DeltaImageUUIDs warm1, w2)) = (e3, images, w3)" by (rule prod_cases3)
    have c: "emits ?P w2 w3" using s3 by (auto split: if_splits dest!: export_loop_emits elim!: emits_mono simp: delta_effect_def)
    note run3 = run2 [unfolded vm option.case sum.case s3 prod.case]
    show ?thesis
    proof (cases e3)
      case (Some x)
      then show ?thesis using run3 c by (auto split: prod.splits)
    next
      case None
      from run3 [unfolded None option.case] have d: "emits (\<lambda>e. patches_disk (plan_TargetNamespace (mc_Plan mctx)) e \<or> drops_copy e) w3 w'"
        by (rule delta_disk_emits) (rule fin)
      have "emits ?P w3 w'" by (rule emits_mono [OF d]) (auto simp: delta_effect_def)
      then show ?thesis using c emits_trans by blast
    qed
  qed
  then show ?thesis using a b emits_trans by blast
qed

lemma checkDeltaPod_emits:
  assumes "checkDeltaPod r warm vs mctx w = (res, vs', w')"
  shows "emits (delta_effect (vs_ID vs) (plan_TargetNamespace (mc_Plan mctx))) w w'" (is "emits ?P w w'")
proof -
  let ?ns = "plan_TargetNamespace (mc_Plan mctx)"
  obtain p w1 where gp: "getPodPhase r (ws_DeltaPodName warm) ?ns w = (p, w1)" by fastforce
  have a: "emits ?P w w1" using getPodPhase_trace [OF gp] by (rule emits_one) (simp add: delta_effect_def)
  let ?w3 = "deleteConfigMap r (ws_DeltaPodName warm @ ''-regions'') ?ns (deletePod r (ws_DeltaPodName warm) ?ns w1)"
  obtain g w4 where get: "GetVM (mc_NutanixClient mctx) (vs_ID vs) ?w3 = (g, w4)" by fastforce
  have b: "emits ?P w1 ?w3" unfolding deleteConfigMap_def deletePod_def
    by (rule emits_trans [OF emits_try(3) emits_try(3)]) (simp_all add: delta_effect_def)
  have c: "emits ?P ?w3 w4" using call_trace(1) [OF get] by (rule emits_same)
  have "w' = w1 \<or> w' = w4" using assms gp get by (auto simp: checkDeltaPod_def Let_def split: PodPhase.splits sum.splits)
  then show ?thesis using a b c emits_trans by blast
qed

lemma phaseFinalSync_emits:
  assumes "phaseFinalSync r vs mctx w = Some (Returns (res, vs', w'))"
  shows "emits (delta_effect (vs_ID vs) (plan_TargetNamespace (mc_Plan mctx))) w w'"
  using assms runDeltaRound_emits [of r "''final''" finalizeFinalSync _ vs mctx w res vs' w', OF _ finalizers_emit(2)]
  by (auto simp: phaseFinalSync_def split: option.splits if_splits dest: checkDeltaPod_emits)

lemma phasePrecopy_emits:
  assumes "phasePrecopy r vs mctx w = Some (Returns (res, vs', w'))"
  shows "emits (delta_effect (vs_ID vs) (plan_TargetNamespace (mc_Plan mctx))) w w'" (is "emits ?P w w'")
proof (cases "vs_Warm vs")
  case (Some warm)
  let ?ns = "plan_TargetNamespace (mc_Plan mctx)"
  obtain cut w1 where cut: "isCutoverTime (r_Now r) (mc_Migration mctx) w = (cut, w1)" by fastforce
  obtain now w2 where now: "Now (r_Now r) w1 = (now, w2)" by fastforce
  obtain p wp where gp: "getPodPhase r (ws_DeltaPodName warm) ?ns w1 = (p, wp)" by fastforce
  note t1 = isCutoverTime_trace [OF cut]
  have t2: "w_trace w2 = w_trace w" using call_trace(18) [OF now] t1 by simp
  have pod: "emits ?P w1 wp" using getPodPhase_trace [OF gp] by (rule emits_one) (simp add: delta_effect_def)
  have round: "emits ?P v w'" if "runDeltaRound r label (finalizePrecopyRound r) warm vs mctx v = Some (Returns (res, vs', w'))" for label v
    using that finalizers_emit(1) by (rule runDeltaRound_emits)
  have "emits ?P w1 w' \<or> emits ?P w2 w'"
    using assms Some cut now gp pod
    by (auto simp: phasePrecopy_def Let_def split: if_splits option.splits bool.splits dest: round checkDeltaPod_emits)
  then show ?thesis using emits_start [OF t1] emits_start [OF t2] by blast
qed (use assms in \<open>auto simp: phasePrecopy_def\<close>)

section \<open>Every phase, and the failure of one\<close>

lemma executePhase_emits:
  assumes "executePhase r vs mctx w = Some (Returns (res, vs', w'))"
  shows "emits (may_emit (vs_ID vs) (plan_TargetNamespace (mc_Plan mctx)) (vs_Phase vs)) w w'"
proof (cases "vs_Phase vs")
  case VMPhaseBulkCopy
  then show ?thesis using assms phaseBulkCopy_emits [of vs mctx w res vs' w'] by (simp add: executePhase_def)
next
  case VMPhaseExportDisks
  then show ?thesis using assms phaseExportDisks_emits [of vs mctx w res vs' w'] by (simp add: executePhase_def may_emit_def [abs_def])
next
  case VMPhaseImportDisks
  then show ?thesis using assms phaseImportDisks_emits [of vs mctx w res vs' w'] by (simp add: executePhase_def may_emit_def [abs_def])
next
  case VMPhaseCleanup
  then show ?thesis using assms phaseCleanup_emits [of vs mctx w res vs' w'] by (simp add: executePhase_def may_emit_def [abs_def])
next
  case VMPhasePrecopy
  then show ?thesis using assms phasePrecopy_emits [of r vs mctx w res vs' w'] by (simp add: executePhase_def may_emit_def [abs_def])
next
  case VMPhaseFinalSync
  then show ?thesis using assms phaseFinalSync_emits [of r vs mctx w res vs' w'] by (simp add: executePhase_def may_emit_def [abs_def])
next
  case VMPhaseWaitBulkCopy
  then show ?thesis using assms
    by (auto simp: executePhase_def phaseWaitBulkCopy_def pollDataVolumes_def may_emit_def [abs_def] split: prod.splits dest: poll_dvs_loop_emits)
next
  case VMPhasePreHook
  then show ?thesis using assms runHook_effects(2) [of r "''PreHook''" vs mctx w res vs' w'] by (simp add: executePhase_def emits_def may_emit_def)
next
  case VMPhasePostHook
  then show ?thesis using assms runHook_effects(2) [of r "''PostHook''" vs mctx w res vs' w'] by (simp add: executePhase_def emits_def may_emit_def)
next
  case VMPhaseCreateVM
  then show ?thesis using assms
    by (auto simp: executePhase_def phaseCreateVM_def emits_def may_emit_def Build_def Let_def dest!: call_trace split: prod.splits sum.splits option.splits if_splits)
qed (use assms in \<open>auto simp: executePhase_def phaseStorePowerState_def phasePowerOff_def phaseWaitForPowerOff_def phaseCreateSnapshot_def phaseStartVM_def
    emits_def may_emit_def dest!: call_trace split: prod.splits sum.splits option.splits if_splits\<close>)

lemma cleanup_warm_emits: "emits (may_emit vid (plan_TargetNamespace (mc_Plan mctx)) VMPhaseFailed) w (cleanup_warm r mctx warm w)" (is "emits ?P w _")
proof -
  have "emits ?P w (try_DeleteImage c u w)" "emits ?P w (try_DeleteRecoveryPoint c u w)"
      "emits ?P w (try_Delete k KindPod (plan_TargetNamespace (mc_Plan mctx)) n w)"
      "emits ?P w (try_Delete k KindConfigMap (plan_TargetNamespace (mc_Plan mctx)) n w)" for c u k n w
    by (rule emits_try; simp add: may_emit_def)+
  note del = this emits_for_each [where f = "try_DeleteImage c" for c, OF this(1)]
  show ?thesis unfolding cleanup_warm_def Let_def
    by (intro emits_trans [OF _ del(2)] emits_trans [OF _ del(5)]) (auto intro: emits_trans del)
qed

lemma cleanupFailedVM_emits:
  "emits (may_emit (vs_ID vs) (plan_TargetNamespace (mc_Plan mctx)) VMPhaseFailed) w (cleanupFailedVM r vs mctx w)" (is "emits ?P w _")
proof -
  let ?ns = "plan_TargetNamespace (mc_Plan mctx)" and ?c = "mc_NutanixClient mctx"
  define w3 where "w3 = try_DeleteRecoveryPoint ?c (vs_SnapshotUUID vs) (for_each (try_DeleteImage ?c) (vs_ImageUUIDs vs)
      (for_each (try_Delete (r_Client r) KindDataVolume ?ns) (vs_DataVolumeNames vs) w))"
  define w4 where "w4 = (if vs_OriginalPowerState vs = PowerStateOn then snd (PowerOnVM ?c (vs_ID vs) w3) else w3)"
  have "emits ?P w w3" unfolding w3_def
    by (rule emits_trans [OF emits_trans [OF emits_for_each emits_for_each] emits_try(2)]) (auto intro: emits_try simp: may_emit_def)
  moreover have "emits ?P w3 w4"
    by (auto simp: w4_def may_emit_def intro!: emits_one [OF call_trace(3) [OF prod.collapse [symmetric]]])
  moreover have "emits ?P w4 (case vs_Warm vs of None \<Rightarrow> w4 | Some warm \<Rightarrow> cleanup_warm r mctx warm w4)"
    by (simp add: cleanup_warm_emits split: option.split)
  moreover have "cleanupFailedVM r vs mctx w = (case vs_Warm vs of None \<Rightarrow> w4 | Some warm \<Rightarrow> cleanup_warm r mctx warm w4)"
    unfolding cleanupFailedVM_def Let_def w4_def w3_def ..
  ultimately show ?thesis by (metis emits_trans)
qed

lemma fail_vm_emits:
  assumes "fail_vm r mctx err vs w = (vs', w')"
  shows "emits (may_emit (vs_ID vs) (plan_TargetNamespace (mc_Plan mctx)) VMPhaseFailed) w w'" (is "emits ?P w w'")
proof -
  define w1 where "w1 = recordEvent r EventTypeWarning ''MigrationFailed''
      (''VM '' @ vs_Name vs @ '' failed in phase '' @ VMPhase_string (vs_Phase vs) @ '': '' @ err_msg err) w"
  obtain now w3 where now: "Now (r_Now r) (cleanupFailedVM r vs mctx w1) = (now, w3)" by fastforce
  have "w' = w3" using assms now by (auto simp: fail_vm_def w1_def Let_def)
  moreover have "w_trace w1 = w_trace w" by (simp add: w1_def recordEvent_def)
  moreover have "emits ?P (cleanupFailedVM r vs mctx w1) w3" using call_trace(18) [OF now] by (rule emits_same)
  ultimately show ?thesis using emits_start emits_trans [OF cleanupFailedVM_emits] by blast
qed

end
