(* ===== verification/Vm_Safety.thy ===== *)
theory Vm_Safety
  imports Vm_Lifecycle Phase_Effects
begin

text \<open>
  Ordering properties of the cold pipeline, over the reachable states of \<open>Vm_Lifecycle\<close>: in the
  history of a VM the disks are copied only after the source was seen powered off, and the target VM
  is created only after each of its volumes was seen imported.
\<close>

section \<open>Order in a history\<close>

definition before :: "(effect \<Rightarrow> bool) \<Rightarrow> (effect \<Rightarrow> bool) \<Rightarrow> effect list \<Rightarrow> bool" where
  "before P Q es = (\<forall>i < length es. Q (es ! i) \<longrightarrow> (\<exists>j < i. P (es ! j)))"

lemma before_Nil [simp]: "before P Q []"
  by (simp add: before_def)

lemma before_none: "\<forall>e \<in> set es. \<not> Q e \<Longrightarrow> before P Q es"
  by (simp add: before_def)

lemma before_append:
  assumes "before P Q a" and "(\<exists>e \<in> set a. P e) \<or> (\<forall>e \<in> set b. \<not> Q e)"
  shows "before P Q (a @ b)"
  unfolding before_def
proof (intro allI impI)
  fix i
  assume i: "i < length (a @ b)" "Q ((a @ b) ! i)"
  show "\<exists>j < i. P ((a @ b) ! j)"
  proof (cases "i < length a")
    case True
    then obtain j where "j < i" "P (a ! j)" using assms(1) i by (auto simp: before_def nth_append)
    then show ?thesis using True by (intro exI [of _ j]) (simp add: nth_append)
  next
    case False
    then have "(a @ b) ! i \<in> set b" using i(1) by (simp add: nth_append)
    then obtain e where "e \<in> set a" "P e" using assms(2) i(2) by blast
    then obtain j where "j < length a" "P (a ! j)" by (metis in_set_conv_nth)
    then show ?thesis using False by (intro exI [of _ j]) (simp add: nth_append)
  qed
qed

fun copies :: "effect \<Rightarrow> bool" where
  "copies (ECreateImage _ _ _ _) = True"
| "copies (ECreateRecoveryPoint _ _ _) = True"
| "copies _ = False"

fun creates_vm :: "effect \<Rightarrow> bool" where
  "creates_vm (ECreate (ObjVirtualMachine _) _) = True"
| "creates_vm _ = False"

definition observed_off :: "string \<Rightarrow> effect \<Rightarrow> bool" where
  "observed_off vid e = (e = EPowerState vid (Inr PowerStateOff))"

definition observed_imported :: "string \<Rightarrow> string \<Rightarrow> effect \<Rightarrow> bool" where
  "observed_imported ns n e = (\<exists>p. e = EDataVolume ns n (Inr (DVSucceeded, p)))"

lemma saw_succeeded_observed: "saw_succeeded ns n es \<longleftrightarrow> (\<exists>e \<in> set es. observed_imported ns n e)"
  by (auto simp: saw_succeeded_def observed_imported_def)

section \<open>Kinds of effects\<close>

lemma hook_effect_kind: "hook_effect e \<Longrightarrow> \<not> copies e \<and> \<not> creates_vm e"
  by (cases e rule: hook_effect.cases) auto

lemma deletion_kind: "is_deletion e \<Longrightarrow> \<not> copies e \<and> \<not> creates_vm e"
  by (cases e rule: is_deletion.cases) auto

section \<open>Effects of the cold phases\<close>

definition early_phase :: "VMMigrationPhase \<Rightarrow> bool" where
  "early_phase p = (p \<in> {VMPhasePending, VMPhasePreHook, VMPhaseStorePowerState, VMPhasePowerOff, VMPhaseWaitForPowerOff})"

lemma early_no_copies:
  assumes "executePhase r vs mctx w = Some (Returns (res, vs', w'))" and "early_phase (vs_Phase vs)"
  shows "\<forall>e \<in> set (new_effects w w'). \<not> copies e \<and> \<not> creates_vm e"
proof -
  have "\<not> copies e \<and> \<not> creates_vm e" if "may_emit vid ns (vs_Phase vs) e" for vid ns e
    using that assms(2) hook_effect_kind by (cases e; auto simp: early_phase_def may_emit_def)
  then show ?thesis using emits_new [OF executePhase_emits [OF assms(1)]] by blast
qed

lemma wait_off_observed:
  assumes "executePhase r vs mctx w = Some (Returns (res, vs', w'))" and "vs_Phase vs = VMPhaseWaitForPowerOff" and "pr_Completed res"
  shows "\<exists>e \<in> set (new_effects w w'). observed_off (vs_ID vs) e"
  using assms by (auto simp: executePhase_def phaseWaitForPowerOff_def observed_off_def new_effects_def dest!: call_trace
      split: prod.splits sum.splits if_splits)

lemma cold_quiet:
  assumes "executePhase r vs mctx w = Some (Returns (res, vs', w'))" and "vs_Phase vs \<in> set phaseOrder"
    and "vs_Phase vs \<noteq> VMPhaseCreateVM"
  shows "\<forall>e \<in> set (new_effects w w'). \<not> creates_vm e"
proof -
  have "\<not> creates_vm e" if "may_emit vid ns (vs_Phase vs) e" for vid ns e
    using that assms(2,3) by (cases e rule: creates_vm.cases; auto simp: phaseOrder_def may_emit_def)
  then show ?thesis using emits_new [OF executePhase_emits [OF assms(1)]] by blast
qed

text \<open>The effects of a step: those of the handler, then, on a failure, those of the cleanup.\<close>

lemma vm_step_effects:
  assumes "vm_step r mctx vs w vs' w'" and "bulk_ready vs"
  obtains res vs1 w1 tail where "\<not> isTerminalVMPhase (vs_Phase vs)"
    "executePhase r vs mctx w = Some (Returns (res, vs1, w1))"
    "new_effects w w' = new_effects w w1 @ tail" "\<forall>e \<in> set tail. \<not> copies e \<and> \<not> creates_vm e"
    "vs_ID vs' = vs_ID vs" "vs_DataVolumeNames vs' = vs_DataVolumeNames vs1"
    "vs_Phase vs' = (if pr_Error res \<noteq> None then VMPhaseFailed
       else if pr_Completed res then nextPhaseInOrder (vs_Phase vs) (pipeline_order (mc_Plan mctx)) else vs_Phase vs)"
  using assms(1)
proof (cases rule: vm_step_cases)
  case (handler res vs1 w1 t)
  have "vs_ID vs1 = vs_ID vs" using executePhase_ok [OF handler(2) assms(2)] by (simp add: phase_ok_def same_identity_def)
  then show ?thesis using handler that [OF handler(1,2), of "[]"] by (simp add: new_effects_def)
next
  case (failure res vs1 w1 err t)
  have ok: "phase_ok (plan_TargetNamespace (mc_Plan mctx)) vs w res vs1 w1" by (rule executePhase_ok [OF failure(2) assms(2)])
  obtain es where es: "w_trace w' = w_trace w1 @ es" "\<forall>e \<in> set es. is_deletion e \<or> (\<exists>res. e = EPowerOn (vs_ID vs1) res)"
    using fail_vm_spec(2) [OF failure(5)] by blast
  have "new_effects w w' = new_effects w w1 @ es"
    using new_effects_trans [OF tracks_extends extendsI [OF es(1)]] ok new_effects_append [OF es(1)]
    by (auto simp: phase_ok_def)
  moreover have "\<forall>e \<in> set es. \<not> copies e \<and> \<not> creates_vm e" using es(2) deletion_kind by fastforce
  ultimately show ?thesis using that [OF failure(1,2), of es] failure(3,4) ok
    by (simp add: phase_ok_def same_identity_def)
qed


section \<open>Source off before any copy\<close>

definition off_invariant :: "VMMigrationStatus \<Rightarrow> effect list \<Rightarrow> bool" where
  "off_invariant vs es =
     (before (observed_off (vs_ID vs)) copies es \<and>
      (early_phase (vs_Phase vs) \<or> vs_Phase vs \<in> {VMPhaseFailed, VMPhaseCancelled} \<or>
       (\<exists>e \<in> set es. observed_off (vs_ID vs) e)))"

lemma cold_after_early:
  "early_phase p \<Longrightarrow> \<not> early_phase (nextPhaseInOrder p phaseOrder) \<Longrightarrow> p = VMPhaseWaitForPowerOff"
  by (cases p) (auto simp: early_phase_def phaseOrder_def)

lemma reachable_off_invariant:
  assumes "vm_reachable ty ns phaseOrder vs es"
  shows "off_invariant vs es"
  using assms
proof (induction rule: vm_reachable.induct)
  case (advanced vs es mctx r w vs' w')
  have ready: "bulk_ready vs" using reachable_tracked [OF advanced.hyps(1)] by blast
  obtain res vs1 w1 tail where st: "\<not> isTerminalVMPhase (vs_Phase vs)"
    "executePhase r vs mctx w = Some (Returns (res, vs1, w1))"
    "new_effects w w' = new_effects w w1 @ tail" "\<forall>e \<in> set tail. \<not> copies e \<and> \<not> creates_vm e"
    "vs_ID vs' = vs_ID vs"
    "vs_Phase vs' = (if pr_Error res \<noteq> None then VMPhaseFailed
       else if pr_Completed res then nextPhaseInOrder (vs_Phase vs) phaseOrder else vs_Phase vs)"
    using vm_step_effects [OF advanced.hyps(4) ready] advanced.hyps(3) by metis
  show ?case
  proof (cases "early_phase (vs_Phase vs)")
    case False
    then have "\<exists>e \<in> set es. observed_off (vs_ID vs) e"
      using advanced.IH st(1) by (auto simp: off_invariant_def isTerminalVMPhase_def)
    then show ?thesis using advanced.IH before_append st(5) by (auto simp: off_invariant_def)
  next
    case True
    have "\<forall>e \<in> set (new_effects w w'). \<not> copies e" using early_no_copies [OF st(2) True] st(3,4) by auto
    then have "before (observed_off (vs_ID vs)) copies (es @ new_effects w w')"
      using advanced.IH by (intro before_append) (auto simp: off_invariant_def)
    moreover have "\<exists>e \<in> set (new_effects w w'). observed_off (vs_ID vs) e"
      if "\<not> early_phase (vs_Phase vs')" "vs_Phase vs' \<noteq> VMPhaseFailed"
    proof -
      have fin: "pr_Completed res" "vs_Phase vs = VMPhaseWaitForPowerOff"
        using that st(6) True cold_after_early by (auto split: if_splits)
      show ?thesis using wait_off_observed [OF st(2) fin(2,1)] st(3) by auto
    qed
    ultimately show ?thesis using st(5) by (auto simp: off_invariant_def)
  qed
qed (auto simp: off_invariant_def early_phase_def new_VMMigrationStatus_def)

section \<open>Imports before the target VM\<close>

definition import_invariant :: "string \<Rightarrow> VMMigrationStatus \<Rightarrow> effect list \<Rightarrow> bool" where
  "import_invariant ns vs es =
     ((\<forall>n \<in> set (vs_DataVolumeNames vs). before (observed_imported ns n) creates_vm es) \<and>
      (late_phase (vs_Phase vs) \<longrightarrow> (\<forall>n \<in> set (vs_DataVolumeNames vs). saw_succeeded ns n es)) \<and>
      (\<not> late_phase (vs_Phase vs) \<and> \<not> isTerminalVMPhase (vs_Phase vs) \<longrightarrow> (\<forall>e \<in> set es. \<not> creates_vm e)))"

lemma cold_into_late:
  "p \<in> set phaseOrder \<Longrightarrow> \<not> isTerminalVMPhase p \<Longrightarrow> \<not> late_phase p \<Longrightarrow> late_phase (nextPhaseInOrder p phaseOrder) \<Longrightarrow>
     p = VMPhaseImportDisks"
  "p \<in> set phaseOrder \<Longrightarrow> \<not> isTerminalVMPhase p \<Longrightarrow> \<not> late_phase p \<Longrightarrow> \<not> isTerminalVMPhase (nextPhaseInOrder p phaseOrder)"
  "late_phase p \<Longrightarrow> late_phase (nextPhaseInOrder p phaseOrder) \<or> nextPhaseInOrder p phaseOrder = VMPhaseCompleted"
  by (cases p; auto simp: phaseOrder_def late_phase_def isTerminalVMPhase_def)+

lemma import_invariant_step:
  assumes IH: "import_invariant ns vs es" and reach: "vm_reachable ty ns phaseOrder vs es"
    and plan: "plan_TargetNamespace (mc_Plan mctx) = ns" "pipeline_order (mc_Plan mctx) = phaseOrder"
    and step: "vm_step r mctx vs w vs' w'"
  shows "import_invariant ns vs' (es @ new_effects w w')"
proof -
  have ready: "bulk_ready vs" using reachable_tracked [OF reach] by blast
  obtain res vs1 w1 tail where st: "\<not> isTerminalVMPhase (vs_Phase vs)"
    "executePhase r vs mctx w = Some (Returns (res, vs1, w1))"
    "new_effects w w' = new_effects w w1 @ tail" "\<forall>e \<in> set tail. \<not> copies e \<and> \<not> creates_vm e"
    "vs_DataVolumeNames vs' = vs_DataVolumeNames vs1"
    "vs_Phase vs' = (if pr_Error res \<noteq> None then VMPhaseFailed
       else if pr_Completed res then nextPhaseInOrder (vs_Phase vs) phaseOrder else vs_Phase vs)"
    using vm_step_effects [OF step ready] plan(2) by metis
  have p: "vs_Phase vs \<in> set phaseOrder" using reachable_phase [OF reach] st(1) by (auto simp: isTerminalVMPhase_def)
  show ?thesis
  proof (cases "late_phase (vs_Phase vs)")
    case True
    have "vs1 = vs" by (rule late_inert(1) [OF st(2) True])
    then have names: "vs_DataVolumeNames vs' = vs_DataVolumeNames vs" using st(5) by simp
    have seen: "\<forall>n \<in> set (vs_DataVolumeNames vs). saw_succeeded ns n es" using IH True by (simp add: import_invariant_def)
    have "late_phase (vs_Phase vs') \<or> isTerminalVMPhase (vs_Phase vs')"
      using st(6) True cold_into_late(3) by (auto simp: isTerminalVMPhase_def)
    moreover have "\<forall>n \<in> set (vs_DataVolumeNames vs). before (observed_imported ns n) creates_vm (es @ new_effects w w')"
      using IH seen before_append by (auto simp: import_invariant_def saw_succeeded_observed)
    ultimately show ?thesis using names seen by (auto simp: import_invariant_def saw_succeeded_def)
  next
    case False
    have none: "\<forall>e \<in> set (es @ new_effects w w'). \<not> creates_vm e"
      using IH False st(1,3,4) cold_quiet [OF st(2) p] by (auto simp: import_invariant_def late_phase_def)
    have "saw_succeeded ns n (es @ new_effects w w')" if late: "late_phase (vs_Phase vs')" and n: "n \<in> set (vs_DataVolumeNames vs')" for n
    proof -
      have res: "pr_Error res = None" "pr_Completed res" "vs_Phase vs = VMPhaseImportDisks"
        using late st(6) False cold_into_late(1) [OF p st(1) False] by (auto simp: late_phase_def split: if_splits)
      then have "phaseImportDisks vs mctx w = (res, vs1, w1)" using st(2) by (simp add: executePhase_def)
      from phaseImportDisks_run [OF this] res(2) obtain es' where "w_trace w1 = w_trace w @ es'"
        "\<forall>n \<in> set (vs_DataVolumeNames vs1). saw_succeeded ns n es'" using plan(1) by blast
      then show ?thesis using n st(3,5) by (auto simp: new_effects_append saw_succeeded_def)
    qed
    with none show ?thesis by (simp add: import_invariant_def before_none)
  qed
qed

lemma reachable_import_invariant:
  assumes "vm_reachable ty ns phaseOrder vs es"
  shows "import_invariant ns vs es"
  using assms
proof (induction rule: vm_reachable.induct)
  case (advanced vs es mctx r w vs' w')
  then show ?case using import_invariant_step by blast
qed (auto simp: import_invariant_def late_phase_def new_VMMigrationStatus_def isTerminalVMPhase_def)

end
