(* ===== verification/Sample_Runs.thy ===== *)
theory Sample_Runs
  imports Vm_Safety
begin

text \<open>
  Runs of the pipeline on the sample cluster, which the witnesses use: one that completes, and one in
  which Prism Central cannot create the image of the disk, so that the VM fails after it was powered
  off and its recovery point was taken.
\<close>

abbreviation sim_cold :: MigrationPlan where
  "sim_cold \<equiv> sim_plan MigrationTypeCold TargetPowerStateStopped"

definition sim_full_mctx :: "sim migrationContext" where
  "sim_full_mctx = (sim_mctx sim_cold)\<lparr>mc_NutanixClient := sim_nx
     \<lparr>nx_CreateImageFromDisk := \<lambda>n u c e. (Inl (errors_New ''no space left in container''), e)\<rparr>\<rparr>"

lemmas advance_eval =
  run_defs executePhase_def isTerminalVMPhase_def enter_next_def complete_vm_def recordVMDuration_def observe_Duration_def
  pipeline_order_def phaseOrder_def Let_def recordEvent_def emit_event_def runHook_def findHook_def phaseStorePowerState_def
  phasePowerOff_def phaseWaitForPowerOff_def phaseCreateSnapshot_def phaseExportDisks_def snapshot_name_def

lemmas import_eval =
  phaseImportDisks_def create_volumes_def create_ca_def CreateCredentialSecret_def ignore_exists_def
  CreateDataVolume_def GetDataVolumeProgress_def dv_options_def FindStorageMapping_def cred_secret_name_def
  phaseCreateVM_def phaseStartVM_def phaseCleanup_def add_DiskTransferBytes_def import_disk_size_def

lemma sim_run_fails:
  "\<exists>vs w. advanceSingleVM (sim_reconciler sim_cold) sim_full_mctx (sim_status VMPhasePreHook) (sim_world True) =
     Some (Returns (False, vs, w)) \<and> vs_Phase vs = VMPhaseFailed \<and> vs_ID vs = ''vm-uuid-001'' \<and>
     vs_OriginalPowerState vs = PowerStateOn"
  by (subst advanceSingleVM.simps, simp add: advance_eval sim_full_mctx_def,
      subst advanceSingleVM.simps, simp add: advance_eval,
      subst advanceSingleVM.simps, simp add: advance_eval,
      subst advanceSingleVM.simps, simp add: advance_eval,
      subst advanceSingleVM.simps, simp add: advance_eval,
      subst advanceSingleVM.simps, simp add: advance_eval,
      simp add: fail_vm_def Let_def split: prod.split)

lemma sim_run_completes:
  "\<exists>vs w. advanceSingleVM (sim_reconciler sim_cold) (sim_mctx sim_cold) (sim_status VMPhasePreHook) (sim_world False) =
     Some (Returns (False, vs, w)) \<and> vs_Phase vs = VMPhaseCompleted \<and> vs_ID vs = ''vm-uuid-001'' \<and>
     vs_DataVolumeNames vs \<noteq> []"
  by (subst advanceSingleVM.simps, simp add: advance_eval,
      subst advanceSingleVM.simps, simp add: advance_eval,
      subst advanceSingleVM.simps, simp add: advance_eval,
      subst advanceSingleVM.simps, simp add: advance_eval,
      subst advanceSingleVM.simps, simp add: advance_eval,
      subst advanceSingleVM.simps, simp add: advance_eval,
      subst advanceSingleVM.simps, simp add: advance_eval import_eval,
      subst advanceSingleVM.simps, simp add: advance_eval import_eval,
      subst advanceSingleVM.simps, simp add: advance_eval import_eval,
      subst advanceSingleVM.simps, simp add: advance_eval import_eval,
      subst advanceSingleVM.simps, simp add: advance_eval import_eval)

end
