(* ===== verification/Scheduling.thy ===== *)
theory Scheduling
  imports Pipeline
begin

text \<open>
  Properties of the reconcile level of \<open>Migration_Controller\<close>: initialisation of the VM statuses,
  cancellation, the scheduler and its \<^verbatim>\<open>MaxInFlight\<close> bound, the overall status, and what
  \<^verbatim>\<open>Reconcile\<close> leaves alone.
\<close>

section \<open>Initialisation\<close>

lemma initializeVMStatuses_vms:
  "mig_VMs (initializeVMStatuses m plan) =
     mig_VMs m @ map (\<lambda>p. new_VMMigrationStatus (pvm_ID p) (pvm_Name p))
       (filter (\<lambda>p. pvm_ID p \<notin> set (map vs_ID (mig_VMs m))) (plan_VMs plan))"
  by (simp add: initializeVMStatuses_def Let_def)

text \<open>
  \<^verbatim>\<open>initializeVMStatuses\<close> keeps the statuses that exist, covers every VM of the plan, adds only
  pending statuses of plan VMs, and is idempotent.
\<close>

theorem initializeVMStatuses_idempotent:
  "initializeVMStatuses (initializeVMStatuses m plan) plan = initializeVMStatuses m plan \<and>
   take (length (mig_VMs m)) (mig_VMs (initializeVMStatuses m plan)) = mig_VMs m \<and>
   set (map vs_ID (mig_VMs (initializeVMStatuses m plan))) = set (map vs_ID (mig_VMs m)) \<union> set (map pvm_ID (plan_VMs plan)) \<and>
   map vs_Phase (drop (length (mig_VMs m)) (mig_VMs (initializeVMStatuses m plan))) =
     replicate (length (mig_VMs (initializeVMStatuses m plan)) - length (mig_VMs m)) VMPhasePending"
proof -
  have ids: "set (map vs_ID (mig_VMs (initializeVMStatuses m plan))) = set (map vs_ID (mig_VMs m)) \<union> set (map pvm_ID (plan_VMs plan))"
    by (auto simp: initializeVMStatuses_vms new_VMMigrationStatus_def image_iff)
  have "filter (\<lambda>p. pvm_ID p \<notin> set (map vs_ID (mig_VMs (initializeVMStatuses m plan)))) (plan_VMs plan) = []"
    unfolding ids by (auto simp: filter_empty_conv)
  then have "initializeVMStatuses (initializeVMStatuses m plan) plan = initializeVMStatuses m plan"
    by (subst (1) initializeVMStatuses_def) (simp add: Let_def)
  with ids show ?thesis
    by (simp add: initializeVMStatuses_vms new_VMMigrationStatus_def comp_def map_replicate_const)
qed

section \<open>Cancellation\<close>

lemma cancel_loop_spec:
  assumes "cancel_loop r cancel vms w = (vms', w')"
  shows "w_trace w' = w_trace w \<and> length vms' = length vms \<and>
    (\<forall>i < length vms.
       if vs_ID (vms ! i) \<in> set cancel \<and> \<not> isTerminalVMPhase (vs_Phase (vms ! i))
       then \<exists>t. vms' ! i = (vms ! i)\<lparr>vs_Phase := VMPhaseCancelled, vs_Completed := Some t\<rparr>
       else vms' ! i = vms ! i)"
  using assms
proof (induction vms arbitrary: vms' w w')
  case (Cons vm vms)
  show ?case
  proof (cases "vs_ID vm \<in> set cancel \<and> \<not> isTerminalVMPhase (vs_Phase vm)")
    case True
    obtain now w1 where n: "Now (r_Now r) w = (now, w1)" by fastforce
    obtain vms2 w2 where rec: "cancel_loop r cancel vms w1 = (vms2, w2)" by fastforce
    have "vms' = vm\<lparr>vs_Phase := VMPhaseCancelled, vs_Completed := Some now\<rparr> # vms2" "w' = w2"
      using Cons.prems True n rec by auto
    then show ?thesis using Cons.IH [OF rec] call_trace(18) [OF n] True by (auto simp: nth_Cons split: nat.splits)
  next
    case False
    obtain vms2 w2 where rec: "cancel_loop r cancel vms w = (vms2, w2)" by fastforce
    then have "vms' = vm # vms2" "w' = w2" using Cons.prems False by auto
    then show ?thesis using Cons.IH [OF rec] False by (auto simp: nth_Cons split: nat.splits)
  qed
qed simp

text \<open>
  \<^verbatim>\<open>processCancellations\<close> moves exactly the listed VMs that are not terminal to \<^verbatim>\<open>Cancelled\<close> and
  leaves every other status as it is. It performs no call: the images, recovery points, volumes and
  pods of a cancelled VM stay, and a source VM the migration powered off stays off.
\<close>

theorem processCancellations_only_marks:
  assumes "processCancellations r m w = (m', w')"
  shows "w_trace w' = w_trace w \<and> length (mig_VMs m') = length (mig_VMs m) \<and>
    (\<forall>i < length (mig_VMs m).
       if vs_ID (mig_VMs m ! i) \<in> set (mig_Cancel m) \<and> \<not> isTerminalVMPhase (vs_Phase (mig_VMs m ! i))
       then \<exists>t. mig_VMs m' ! i = (mig_VMs m ! i)\<lparr>vs_Phase := VMPhaseCancelled, vs_Completed := Some t\<rparr>
       else mig_VMs m' ! i = mig_VMs m ! i)"
proof (cases "mig_Cancel m = []")
  case True
  then show ?thesis using assms by (auto simp: processCancellations_def)
next
  case False
  obtain vms w1 where loop: "cancel_loop r (mig_Cancel m) (mig_VMs m) w = (vms, w1)" by fastforce
  then have "m' = m\<lparr>mig_VMs := vms\<rparr>" "w' = w1" using assms False by (auto simp: processCancellations_def)
  then show ?thesis using cancel_loop_spec [OF loop] by simp
qed

theorem processCancellations_only_marks_witness:
  "\<exists>m' w'. processCancellations (sim_reconciler (sim_plan MigrationTypeCold TargetPowerStateStopped))
      (sim_migration\<lparr>mig_Cancel := [''vm-uuid-001''],
         mig_VMs := [(sim_status VMPhaseImportDisks)\<lparr>vs_ImageUUIDs := [''img-1'']\<rparr>]\<rparr>) (sim_world False) = (m', w') \<and>
    (\<exists>t. mig_VMs m' ! 0 = (sim_status VMPhaseImportDisks)\<lparr>vs_ImageUUIDs := [''img-1''], vs_Phase := VMPhaseCancelled,
       vs_Completed := Some t\<rparr>) \<and> w_trace w' = []"
proof -
  let ?r = "sim_reconciler (sim_plan MigrationTypeCold TargetPowerStateStopped)"
  let ?m = "sim_migration\<lparr>mig_Cancel := [''vm-uuid-001''],
      mig_VMs := [(sim_status VMPhaseImportDisks)\<lparr>vs_ImageUUIDs := [''img-1'']\<rparr>]\<rparr>"
  obtain m' w' where run: "processCancellations ?r ?m (sim_world False) = (m', w')" by fastforce
  show ?thesis using processCancellations_only_marks [OF run] run
    by (auto simp: sim_status_def sim_migration_def new_VMMigrationStatus_def isTerminalVMPhase_def sim_world_def)
qed

section \<open>The scheduler\<close>

lemma count_active_Cons [simp]:
  "count_active (vm # vms) = (if isActiveVMPhase (vs_Phase vm) then 1 else 0) + count_active vms"
  by (simp add: count_active_def)

lemma count_active_nonneg: "0 \<le> count_active vms"
  by (simp add: count_active_def)

text \<open>The three ways the loop treats a VM.\<close>

lemma advance_loop_Cons:
  assumes "advance_loop r M mctx c needs (vm # vms) w = Some (Returns (needs', out, w'))"
  obtains (skip) vms' n where "out = vm # vms'" "advance_loop r M mctx c n vms w = Some (Returns (needs', vms', w'))"
      "isTerminalVMPhase (vs_Phase vm) \<and> n = needs \<or> vs_Phase vm = VMPhasePending \<and> c \<ge> M \<and> n"
  | (start) now w1 again vm1 w2 vms' where "vs_Phase vm = VMPhasePending" "c < M" "Now (r_Now r) w = (now, w1)"
      "advanceSingleVM r mctx (vm\<lparr>vs_Started := Some now, vs_Phase := VMPhasePreHook\<rparr>) w1 = Some (Returns (again, vm1, w2))"
      "advance_loop r M mctx (c + 1) (needs \<or> again) vms w2 = Some (Returns (needs', vms', w'))" "out = vm1 # vms'"
  | (go) again vm1 w2 vms' where "isActiveVMPhase (vs_Phase vm)"
      "advanceSingleVM r mctx vm w = Some (Returns (again, vm1, w2))"
      "advance_loop r M mctx c (needs \<or> again) vms w2 = Some (Returns (needs', vms', w'))" "out = vm1 # vms'"
proof -
  consider "isTerminalVMPhase (vs_Phase vm)"
    | "\<not> isTerminalVMPhase (vs_Phase vm)" "vs_Phase vm = VMPhasePending" "c \<ge> M"
    | "\<not> isTerminalVMPhase (vs_Phase vm)" "vs_Phase vm = VMPhasePending" "c < M"
    | "isActiveVMPhase (vs_Phase vm)" unfolding isActiveVMPhase_def using not_le by blast
  then show ?thesis
  proof cases
    case 1
    then show ?thesis using assms skip by (auto simp: Let_def split: option.splits go_result.splits)
  next
    case 2
    then show ?thesis using assms skip by (auto simp: Let_def split: option.splits go_result.splits)
  next
    case 3
    obtain now w1 where "Now (r_Now r) w = (now, w1)" by fastforce
    then show ?thesis using assms 3 start by (auto simp: Let_def split: option.splits go_result.splits)
  next
    case 4
    then show ?thesis using assms go by (auto simp: Let_def isActiveVMPhase_def split: option.splits go_result.splits)
  qed
qed

lemma advance_loop_active:
  assumes "advance_loop r M mctx c needs vms w = Some (Returns (needs', vms', w'))"
  shows "\<exists>k \<ge> 0. count_active vms' \<le> count_active vms + k \<and> (k = 0 \<or> c + k \<le> M)"
  using assms
proof (induction vms arbitrary: c needs w vms')
  case (Cons vm vms)
  from Cons.prems show ?case
  proof (cases rule: advance_loop_Cons)
    case (skip vms2 n)
    then show ?thesis using Cons.IH by fastforce
  next
    case (start now w1 again vm1 w2 vms2)
    obtain k where "k \<ge> 0" "count_active vms2 \<le> count_active vms + k" "k = 0 \<or> c + 1 + k \<le> M"
      using Cons.IH [OF start(5)] by blast
    with start(1,2,6) show ?thesis by (intro exI [of _ "k + 1"]) (auto simp: isActiveVMPhase_def)
  next
    case (go again vm1 w2 vms2)
    obtain k where "k \<ge> 0" "count_active vms2 \<le> count_active vms + k" "k = 0 \<or> c + k \<le> M"
      using Cons.IH [OF go(3)] by blast
    with go show ?thesis by (intro exI [of _ k]) auto
  qed
qed (auto simp: count_active_def)

text \<open>
  C16. The concurrency bound. After a pass of the scheduler at most \<^verbatim>\<open>maxInFlight\<close> VMs are active, unless
  more were active before; the pass never increases the number beyond the larger of the two.
\<close>

theorem advanceVMs_respects_maxInFlight:
  assumes "advanceVMs r m maxInFlight mctx w = Some (Returns (needs, m', w'))"
  shows "count_active (mig_VMs m') \<le> max maxInFlight (count_active (mig_VMs m))"
proof -
  obtain vms where "advance_loop r maxInFlight mctx (count_active (mig_VMs m)) False (mig_VMs m) w = Some (Returns (needs, vms, w'))"
    "m' = m\<lparr>mig_VMs := vms\<rparr>"
    using assms by (auto simp: advanceVMs_def split: option.splits go_result.splits)
  then show ?thesis using advance_loop_active by fastforce
qed


theorem advanceVMs_respects_maxInFlight_witness:
  "\<exists>needs m' w'. advanceVMs (sim_reconciler (sim_plan MigrationTypeCold TargetPowerStateStopped))
      (sim_migration\<lparr>mig_VMs := [sim_status VMPhaseWaitForPowerOff, sim_status VMPhasePending]\<rparr>) 1
      (sim_mctx (sim_plan MigrationTypeCold TargetPowerStateStopped)) (sim_world True) = Some (Returns (needs, m', w')) \<and>
    count_active (mig_VMs m') \<le> 1"
proof -
  let ?r = "sim_reconciler (sim_plan MigrationTypeCold TargetPowerStateStopped)"
  let ?m = "sim_migration\<lparr>mig_VMs := [sim_status VMPhaseWaitForPowerOff, sim_status VMPhasePending]\<rparr>"
  let ?mctx = "sim_mctx (sim_plan MigrationTypeCold TargetPowerStateStopped)"
  obtain needs m' w' where run: "advanceVMs ?r ?m 1 ?mctx (sim_world True) = Some (Returns (needs, m', w'))"
    by (simp add: advanceVMs_def advanceSingleVM.simps executePhase_def phaseWaitForPowerOff_def run_defs count_active_def
        isActiveVMPhase_def isTerminalVMPhase_def)
  have "count_active (mig_VMs ?m) = 1"
    by (simp add: count_active_def sim_defs isActiveVMPhase_def isTerminalVMPhase_def)
  with advanceVMs_respects_maxInFlight [OF run] run show ?thesis by auto
qed

section \<open>Resources of all VMs\<close>

definition tracked_all :: "string \<Rightarrow> VMMigrationStatus list \<Rightarrow> resource set" where
  "tracked_all ns vms = (\<Union>vm \<in> set vms. tracked ns vm)"

lemma vm_steps_spec:
  assumes "vm_steps r mctx vs w vs' w'" and "bulk_ready vs" and "plan_TargetNamespace (mc_Plan mctx) = ns"
  shows "tracks ns vs w vs' w' \<and> bulk_ready vs'"
  using assms(1,2)
proof (induction rule: vm_steps.induct)
  case (one_more vs w vs1 w1 vs2 w2)
  then show ?case using vm_step_spec(1,2) [OF one_more.hyps(1) one_more.prems assms(3)] tracks_trans by blast
qed simp

lemma advanceSingleVM_tracks:
  assumes "advanceSingleVM r mctx vs w = Some (Returns (again, vs', w'))" and "bulk_ready vs"
    and "plan_TargetNamespace (mc_Plan mctx) = ns"
  shows "flows (tracked ns vs) w (tracked ns vs') w' \<and> bulk_ready vs'"
  using vm_steps_spec [OF advance_steps [OF assms(1)] assms(2,3)] by (simp add: tracks_def flows_def)

lemma flows_frame: "flows A w B w' \<Longrightarrow> flows (A \<union> C) w (B \<union> C) w'"
  unfolding flows_def using live_Un by (metis (no_types, lifting) Un_commute Un_mono order_refl order_trans)

lemma advance_loop_tracks:
  assumes "advance_loop r M mctx c needs vms w = Some (Returns (needs', vms', w'))"
    and "\<forall>vm \<in> set vms. bulk_ready vm" and "plan_TargetNamespace (mc_Plan mctx) = ns"
  shows "flows (tracked_all ns vms) w (tracked_all ns vms') w' \<and> (\<forall>vm \<in> set vms'. bulk_ready vm)"
  using assms(1,2)
proof (induction vms arbitrary: c needs w vms')
  case Nil
  then show ?case by (auto intro: flows_refl)
next
  case (Cons vm vms)
  have cons: "flows (tracked_all ns (vm # vms)) w (tracked_all ns (vm1 # vms2)) w'"
    if a: "flows (tracked ns vm) w (tracked ns vm1) w2" and b: "flows (tracked_all ns vms) w2 (tracked_all ns vms2) w'" for vm1 vms2 w2
  proof -
    have "flows (tracked ns vm \<union> tracked_all ns vms) w (tracked ns vm1 \<union> tracked_all ns vms) w2" by (rule flows_frame [OF a])
    moreover have "flows (tracked ns vm1 \<union> tracked_all ns vms) w2 (tracked ns vm1 \<union> tracked_all ns vms2) w'"
      using flows_frame [OF b, of "tracked ns vm1"] by (simp add: Un_commute)
    ultimately show ?thesis using flows_trans by (fastforce simp: tracked_all_def)
  qed
  from Cons.prems(1) show ?case
  proof (cases rule: advance_loop_Cons)
    case (skip vms2 n)
    have ih: "flows (tracked_all ns vms) w (tracked_all ns vms2) w'" "\<forall>vm \<in> set vms2. bulk_ready vm"
      using Cons.IH [OF skip(2)] Cons.prems(2) by auto
    from cons [OF _ ih(1)] ih(2) Cons.prems(2) skip(1) show ?thesis by (auto intro: flows_refl)
  next
    case (start now w1 again vm1 w2 vms2)
    let ?vm = "vm\<lparr>vs_Started := Some now, vs_Phase := VMPhasePreHook\<rparr>"
    have "bulk_ready ?vm" using Cons.prems(2) start(1) by (simp add: bulk_ready_def)
    then have a: "flows (tracked ns vm) w (tracked ns vm1) w2" "bulk_ready vm1"
      using advanceSingleVM_tracks [OF start(4) _ assms(3)] flows_same_trace [OF call_trace(18) [OF start(3)]] by simp_all
    have ih: "flows (tracked_all ns vms) w2 (tracked_all ns vms2) w'" "\<forall>vm \<in> set vms2. bulk_ready vm"
      using Cons.IH [OF start(5)] Cons.prems(2) by auto
    from cons [OF a(1) ih(1)] a(2) ih(2) start(6) show ?thesis by simp
  next
    case (go again vm1 w2 vms2)
    have a: "flows (tracked ns vm) w (tracked ns vm1) w2" "bulk_ready vm1"
      using advanceSingleVM_tracks [OF go(2) _ assms(3)] Cons.prems(2) by simp_all
    have ih: "flows (tracked_all ns vms) w2 (tracked_all ns vms2) w'" "\<forall>vm \<in> set vms2. bulk_ready vm"
      using Cons.IH [OF go(3)] Cons.prems(2) by auto
    from cons [OF a(1) ih(1)] a(2) ih(2) go(4) show ?thesis by simp
  qed
qed

text \<open>
  C15. No orphans across the VMs of a migration. A scheduler pass that starts with every live
  temporary resource tracked by some VM status ends that way, so whatever a phase created can still
  be found, and deleted, through the status that is written back.
\<close>

theorem advanceVMs_tracks_everything:
  assumes "advanceVMs r m maxInFlight mctx w = Some (Returns (needs, m', w'))"
    and "\<forall>vm \<in> set (mig_VMs m). bulk_ready vm"
    and "S \<subseteq> tracked_all (plan_TargetNamespace (mc_Plan mctx)) (mig_VMs m)"
  shows "live S (new_effects w w') \<subseteq> tracked_all (plan_TargetNamespace (mc_Plan mctx)) (mig_VMs m') \<and>
    (\<forall>vm \<in> set (mig_VMs m'). bulk_ready vm)"
proof -
  let ?ns = "plan_TargetNamespace (mc_Plan mctx)"
  obtain vms where l: "advance_loop r maxInFlight mctx (count_active (mig_VMs m)) False (mig_VMs m) w = Some (Returns (needs, vms, w'))"
    "m' = m\<lparr>mig_VMs := vms\<rparr>"
    using assms(1) by (auto simp: advanceVMs_def split: option.splits go_result.splits)
  have "flows (tracked_all ?ns (mig_VMs m)) w (tracked_all ?ns vms) w'" "\<forall>vm \<in> set vms. bulk_ready vm"
    using advance_loop_tracks [OF l(1) assms(2) refl] by auto
  then show ?thesis using l(2) live_mono [OF assms(3)] by (fastforce simp: flows_def new_effects_append)
qed


theorem advanceVMs_tracks_everything_witness:
  "\<exists>needs m' w'. advanceVMs (sim_reconciler (sim_plan MigrationTypeCold TargetPowerStateStopped))
      (sim_migration\<lparr>mig_VMs := [(sim_status VMPhaseWaitForPowerOff)\<lparr>vs_ImageUUIDs := [''img-1'']\<rparr>, sim_status VMPhasePending]\<rparr>) 1
      (sim_mctx (sim_plan MigrationTypeCold TargetPowerStateStopped)) (sim_world True) = Some (Returns (needs, m', w')) \<and>
    live {RImage ''img-1''} (new_effects (sim_world True) w') \<subseteq> tracked_all ''apps'' (mig_VMs m')"
proof -
  let ?r = "sim_reconciler (sim_plan MigrationTypeCold TargetPowerStateStopped)"
  let ?m = "sim_migration\<lparr>mig_VMs := [(sim_status VMPhaseWaitForPowerOff)\<lparr>vs_ImageUUIDs := [''img-1'']\<rparr>, sim_status VMPhasePending]\<rparr>"
  let ?mctx = "sim_mctx (sim_plan MigrationTypeCold TargetPowerStateStopped)"
  obtain needs m' w' where run: "advanceVMs ?r ?m 1 ?mctx (sim_world True) = Some (Returns (needs, m', w'))"
    by (simp add: advanceVMs_def advanceSingleVM.simps executePhase_def phaseWaitForPowerOff_def run_defs count_active_def
        isActiveVMPhase_def isTerminalVMPhase_def)
  have ready: "\<forall>vm \<in> set (mig_VMs ?m). bulk_ready vm" by (simp add: sim_defs bulk_ready_def base_covered_def)
  have ns: "plan_TargetNamespace (mc_Plan ?mctx) = ''apps''" by (simp add: sim_mctx_def sim_plan_def)
  have "{RImage ''img-1''} \<subseteq> tracked_all (plan_TargetNamespace (mc_Plan ?mctx)) (mig_VMs ?m)"
    by (simp add: tracked_all_def tracked_def)
  from advanceVMs_tracks_everything [OF run ready this] run show ?thesis unfolding ns by blast
qed

section \<open>Termination of a pass\<close>

text \<open>The phases a VM can have while its plan is a cold one.\<close>

definition cold_phases :: "VMMigrationStatus list \<Rightarrow> bool" where
  "cold_phases vms \<longleftrightarrow> (\<forall>vm \<in> set vms. vs_Phase vm \<in> set phaseOrder \<union> {VMPhaseFailed, VMPhaseCancelled})"

lemma cold_phases_simps [simp]:
  "cold_phases []" "cold_phases (vm # vms) \<longleftrightarrow> vs_Phase vm \<in> set phaseOrder \<union> {VMPhaseFailed, VMPhaseCancelled} \<and> cold_phases vms"
  by (simp_all add: cold_phases_def)

lemma advance_loop_returns:
  assumes "plan_Type (mc_Plan mctx) \<noteq> MigrationTypeWarm" and "cold_phases vms"
  shows "\<exists>n out w'. advance_loop r M mctx c needs vms w = Some (Returns (n, out, w')) \<and> cold_phases out"
  using assms(2)
proof (induction vms arbitrary: c needs w)
  case (Cons vm vms)
  note IH = Cons.IH
  have rest: "cold_phases vms" using Cons.prems by simp
  show ?case
  proof (cases "isTerminalVMPhase (vs_Phase vm) \<or> (vs_Phase vm = VMPhasePending \<and> c \<ge> M)")
    case True
    obtain n out w' where "advance_loop r M mctx c (if isTerminalVMPhase (vs_Phase vm) then needs else True) vms w = Some (Returns (n, out, w'))"
      "cold_phases out"
      using IH [OF rest] by blast
    with True show ?thesis using Cons.prems by (auto simp: Let_def split: if_splits)
  next
    case False
    define now w1 where "now = fst (Now (r_Now r) w)" and "w1 = snd (Now (r_Now r) w)"
    define start where "start = (vs_Phase vm = VMPhasePending)"
    define vm0 where "vm0 = (if start then vm\<lparr>vs_Started := Some now, vs_Phase := VMPhasePreHook\<rparr> else vm)"
    define w0 where "w0 = (if start then w1 else w)"
    have "vs_Phase vm0 \<in> set phaseOrder"
      using Cons.prems False by (auto simp: vm0_def start_def phaseOrder_def isTerminalVMPhase_def)
    then obtain again vm1 w2 where a: "advanceSingleVM r mctx vm0 w0 = Some (Returns (again, vm1, w2))"
        "vs_Phase vm1 \<in> insert VMPhaseFailed (set phaseOrder)"
      using advance_cold_returns [OF assms(1)] by blast
    obtain n out w' where "advance_loop r M mctx (if start then c + 1 else c) (needs \<or> again) vms w2 = Some (Returns (n, out, w'))"
      "cold_phases out"
      using IH [OF rest] by blast
    with a False show ?thesis
      by (cases start) (auto simp: Let_def vm0_def w0_def now_def w1_def start_def prod.case_eq_if)
  qed
qed simp

lemma cancel_loop_cold_phases:
  assumes "cold_phases vms" and "cancel_loop r ids vms w = (vms', w')"
  shows "cold_phases vms'"
  unfolding cold_phases_def
proof
  fix v assume "v \<in> set vms'"
  then obtain i where i: "i < length vms'" "v = vms' ! i" by (metis in_set_conv_nth)
  then have "vs_Phase (vms ! i) \<in> set phaseOrder \<union> {VMPhaseFailed, VMPhaseCancelled}"
    using cancel_loop_spec [OF assms(2)] assms(1) by (simp add: cold_phases_def)
  then show "vs_Phase v \<in> set phaseOrder \<union> {VMPhaseFailed, VMPhaseCancelled}"
    using cancel_loop_spec [OF assms(2)] i by (fastforce split: if_splits)
qed

lemma processCancellations_cold_phases:
  "cold_phases (mig_VMs m) \<Longrightarrow> processCancellations r m w = (m', w') \<Longrightarrow> cold_phases (mig_VMs m')"
  by (auto simp: processCancellations_def split: if_splits prod.splits dest: cancel_loop_cold_phases)

lemma start_migration_cold_phases:
  "cold_phases (mig_VMs m) \<Longrightarrow> start_migration r m plan w = (m', w') \<Longrightarrow> cold_phases (mig_VMs m')"
  by (auto simp: start_migration_def migration_condition_def initializeVMStatuses_vms new_VMMigrationStatus_def
      cold_phases_def phaseOrder_def Let_def split: if_splits prod.splits)

lemma updateOverallStatus_vms: "updateOverallStatus r m w = (m', w') \<Longrightarrow> mig_VMs m' = mig_VMs m"
  by (auto simp: updateOverallStatus_def migration_condition_def Let_def split: if_splits prod.splits)

text \<open>
  C17. While its plan stays cold, a migration is never stuck in a reconcile. If the VMs of a migration are in phases of the cold pipeline
  (a migration without a status included), the reconcile returns, whatever the services answer, and the status it stores last has
  its VMs in phases of the cold pipeline again, so that the next reconcile returns as well. The type of the plan matters: after a
  change from warm to cold the loop need not end (\<open>advanceSingleVM_stuck_after_type_switch\<close>).
\<close>

theorem reconcile_vms_cold_returns:
  assumes "plan_Type (mc_Plan mctx) \<noteq> MigrationTypeWarm" and "cold_phases (mig_VMs m)"
  shows "\<exists>res w' m' err. reconcile_vms r m plan mctx w = Some (Returns (res, w')) \<and>
    last (w_trace w') = EStatusUpdate m' err \<and> cold_phases (mig_VMs m')"
proof -
  obtain m1 w1 where s: "start_migration r m plan w = (m1, w1)" by fastforce
  obtain m2 w2 where c: "processCancellations r m1 w1 = (m2, w2)" by fastforce
  have "cold_phases (mig_VMs m2)"
    using processCancellations_cold_phases [OF start_migration_cold_phases [OF assms(2) s] c] .
  then obtain n out w3 where a: "advance_loop r (max (plan_MaxInFlight plan) 1) mctx (count_active (mig_VMs m2)) False (mig_VMs m2) w2 =
      Some (Returns (n, out, w3))" "cold_phases out" using advance_loop_returns [OF assms(1)] by blast
  obtain m4 w4 where o: "updateOverallStatus r (m2\<lparr>mig_VMs := out\<rparr>) w3 = (m4, w4)" by fastforce
  obtain err w5 where u: "StatusUpdateMigration (r_Client r) m4 w4 = (err, w5)" by fastforce
  have "\<exists>res. reconcile_vms r m plan mctx w = Some (Returns (res, w5))"
    using s c a(1) o u by (cases err) (simp_all add: reconcile_vms_def advanceVMs_def)
  moreover have "last (w_trace w5) = EStatusUpdate m4 err" using call_trace(15) [OF u] by simp
  ultimately show ?thesis using a(2) updateOverallStatus_vms [OF o] by force
qed

theorem reconcile_vms_cold_returns_witness:
  "\<exists>res w' m' err. reconcile_vms (sim_reconciler (sim_plan MigrationTypeCold TargetPowerStateStopped)) sim_migration
     (sim_plan MigrationTypeCold TargetPowerStateStopped) (sim_mctx (sim_plan MigrationTypeCold TargetPowerStateStopped))
     (sim_world True) = Some (Returns (res, w')) \<and> last (w_trace w') = EStatusUpdate m' err \<and> cold_phases (mig_VMs m')"
  by (rule reconcile_vms_cold_returns) (simp_all add: sim_mctx_def sim_plan_def sim_migration_def)

section \<open>The overall status\<close>

lemma count_phase_sum_le:
  "count_phase VMPhaseCompleted vms + count_phase VMPhaseFailed vms + count_phase VMPhaseCancelled vms \<le> length vms"
  by (induction vms) (auto simp: count_phase_def)

lemma counts_all_done:
  "count_phase VMPhaseCompleted vms + count_phase VMPhaseFailed vms + count_phase VMPhaseCancelled vms = length vms \<longleftrightarrow>
     (\<forall>vm \<in> set vms. isTerminalVMPhase (vs_Phase vm))"
proof (induction vms)
  case (Cons vm vms)
  show ?case using Cons count_phase_sum_le [of vms] by (auto simp: count_phase_def isTerminalVMPhase_def)
qed (simp add: count_phase_def)

lemma count_phase_all: "count_phase p vms = length vms \<longleftrightarrow> (\<forall>vm \<in> set vms. vs_Phase vm = p)"
  unfolding count_phase_def by (metis (mono_tags, lifting) filter_True filter_id_conv length_filter_less less_irrefl)

lemma count_phase_some: "0 < count_phase p vms \<longleftrightarrow> (\<exists>vm \<in> set vms. vs_Phase vm = p)"
  by (auto simp: count_phase_def filter_empty_conv)

lemma migration_condition_fields [simp]:
  "mig_Phase (migration_condition m s rs msg) = mig_Phase m"
  "mig_VMs (migration_condition m s rs msg) = mig_VMs m"
  "mig_Completed (migration_condition m s rs msg) = mig_Completed m"
  by (simp_all add: migration_condition_def)

text \<open>
  C19. The overall status. After \<^verbatim>\<open>updateOverallStatus\<close> the migration is running exactly while some VM is
  not terminal, cancelled exactly when every VM is, failed when all are terminal and one failed,
  completed otherwise; the VM statuses are untouched, and the gauge of active migrations goes down by
  one exactly when the migration reaches a terminal phase.
\<close>

theorem updateOverallStatus_correct:
  assumes "updateOverallStatus r m w = (m', w')"
  shows
    "mig_VMs m' = mig_VMs m \<and>
     mig_Phase m' =
       (if \<exists>vm \<in> set (mig_VMs m). \<not> isTerminalVMPhase (vs_Phase vm) then MigrationPhaseRunning
        else if \<forall>vm \<in> set (mig_VMs m). vs_Phase vm = VMPhaseCancelled then MigrationPhaseCancelled
        else if \<exists>vm \<in> set (mig_VMs m). vs_Phase vm = VMPhaseFailed then MigrationPhaseFailed
        else MigrationPhaseCompleted) \<and>
     met_ActiveMigrations (w_metrics w') =
       met_ActiveMigrations (w_metrics w) - (if isTerminalMigrationPhase (mig_Phase m') then 1 else 0)"
proof -
  obtain now w1 where n: "Now (r_Now r) w = (now, w1)" by fastforce
  note met = call_metrics(18) [OF n]
  show ?thesis
  proof (cases "\<forall>vm \<in> set (mig_VMs m). isTerminalVMPhase (vs_Phase vm)")
    case False
    then show ?thesis using assms counts_all_done [of "mig_VMs m"]
      by (auto simp: updateOverallStatus_def Let_def isTerminalMigrationPhase_def)
  next
    case True
    then have sum: "(count_phase VMPhaseCompleted (mig_VMs m) + count_phase VMPhaseFailed (mig_VMs m) +
        count_phase VMPhaseCancelled (mig_VMs m) \<noteq> length (mig_VMs m)) = False" by (simp add: counts_all_done)
    note run = assms [unfolded updateOverallStatus_def Let_def sum if_False n prod.case count_phase_all count_phase_some]
    from True have running: "(\<exists>vm \<in> set (mig_VMs m). \<not> isTerminalVMPhase (vs_Phase vm)) = False" by blast
    show ?thesis unfolding running if_False using run met
      by (auto simp: isTerminalMigrationPhase_def recordEvent_def split: if_split_asm)
  qed
qed

theorem updateOverallStatus_correct_witness:
  "\<exists>m' w'. updateOverallStatus (sim_reconciler (sim_plan MigrationTypeCold TargetPowerStateStopped))
     (sim_migration\<lparr>mig_VMs := [sim_status VMPhaseCompleted, sim_status VMPhaseFailed]\<rparr>) (sim_world True) = (m', w') \<and>
     mig_Phase m' = MigrationPhaseFailed \<and> met_ActiveMigrations (w_metrics w') = - 1"
proof -
  let ?m = "sim_migration\<lparr>mig_VMs := [sim_status VMPhaseCompleted, sim_status VMPhaseFailed]\<rparr>"
  let ?r = "sim_reconciler (sim_plan MigrationTypeCold TargetPowerStateStopped)"
  obtain m' w' where run: "updateOverallStatus ?r ?m (sim_world True) = (m', w')" by fastforce
  then show ?thesis using updateOverallStatus_correct [OF run]
    by (auto simp: sim_status_def sim_world_def isTerminalVMPhase_def isTerminalMigrationPhase_def)
qed

section \<open>Reconcile\<close>

text \<open>
  A migration that is in a terminal phase is left alone: \<^verbatim>\<open>Reconcile\<close> neither calls anything that
  changes a system nor asks to be run again.
\<close>

theorem Reconcile_terminal_noop:
  assumes "Get (kc_GetMigration (r_Client r) ns name) w = (Inr m, w1)"
    and "mig_DeletionTimestamp m = None" and "migrationFinalizer \<in> set (mig_Finalizers m)"
    and "isTerminalMigrationPhase (mig_Phase m)"
  shows "Reconcile r ns name w = Some (Returns ((no_requeue, None), w1)) \<and> w_trace w1 = w_trace w"
  using assms call_trace(17) [OF assms(1)] by (simp add: Reconcile_def)

text \<open>
  Deleting a running migration. While the stored phase is \<^verbatim>\<open>Running\<close>, \<^verbatim>\<open>Reconcile\<close> of a migration
  that is being deleted does nothing but ask to be run again ten seconds later: no VM is advanced, no
  cancellation is processed and no status is written, so the phase stays \<^verbatim>\<open>Running\<close> and the
  finalizer is never removed.
\<close>

theorem Reconcile_deletion_of_running_is_stuck:
  assumes "Get (kc_GetMigration (r_Client r) ns name) w = (Inr m, w1)"
    and "mig_DeletionTimestamp m \<noteq> None" and "migrationFinalizer \<in> set (mig_Finalizers m)"
    and "mig_Phase m = MigrationPhaseRunning"
  shows "Reconcile r ns name w =
      Some (Returns ((\<lparr>cres_Requeue = False, cres_RequeueAfter = 10000000000\<rparr>, None), w1)) \<and> w_trace w1 = w_trace w"
  using assms call_trace(17) [OF assms(1)] by (simp add: Reconcile_def handleDeletion_def)

definition sim_stored :: "Migration \<Rightarrow> sim MigrationReconciler" where
  "sim_stored m = (sim_reconciler (sim_plan MigrationTypeCold TargetPowerStateStopped))\<lparr>r_Client :=
     (sim_kube (sim_plan MigrationTypeCold TargetPowerStateStopped))\<lparr>kc_GetMigration := \<lambda>ns n e. (Inr m, e)\<rparr>\<rparr>"

theorem Reconcile_terminal_noop_witness:
  "Reconcile (sim_stored (sim_migration\<lparr>mig_Phase := MigrationPhaseCompleted\<rparr>)) ''vma'' ''mig'' (sim_world True) =
     Some (Returns ((no_requeue, None), sim_world True))"
  by (rule conjunct1 [OF Reconcile_terminal_noop [where m = "sim_migration\<lparr>mig_Phase := MigrationPhaseCompleted\<rparr>"]])
    (simp_all add: sim_stored_def sim_defs op_defs perform_def isTerminalMigrationPhase_def)

theorem Reconcile_deletion_of_running_is_stuck_witness:
  "Reconcile (sim_stored (sim_migration\<lparr>mig_Phase := MigrationPhaseRunning, mig_DeletionTimestamp := Some 1\<rparr>)) ''vma'' ''mig''
     (sim_world True) = Some (Returns ((\<lparr>cres_Requeue = False, cres_RequeueAfter = 10000000000\<rparr>, None), sim_world True))"
  by (rule conjunct1 [OF Reconcile_deletion_of_running_is_stuck
        [where m = "sim_migration\<lparr>mig_Phase := MigrationPhaseRunning, mig_DeletionTimestamp := Some 1\<rparr>"]])
    (simp_all add: sim_stored_def sim_defs op_defs perform_def)

lemma get_frame: "Get f w = (g, w') \<Longrightarrow> w_trace w' = w_trace w \<and> w_metrics w' = w_metrics w"
  using call_trace(17) call_metrics(17) by blast

lemma resolve_frame:
  "resolveMigrationContext r m plan w = (Inl err, w') \<Longrightarrow> w_trace w' = w_trace w \<and> w_metrics w' = w_metrics w"
  by (auto simp: resolveMigrationContext_def Let_def dest!: get_frame split: prod.splits sum.splits if_splits)

text \<open>
  A reference that cannot be read once fails the whole migration. When \<^verbatim>\<open>resolveMigrationContext\<close>
  returns an error, also a transient one, \<^verbatim>\<open>Reconcile\<close> stores the phase \<^verbatim>\<open>Failed\<close> with the VM statuses as
  they are: no cleanup is attempted, no source VM is powered on again, and the gauge of active
  migrations keeps counting a migration that was running.
\<close>

theorem Reconcile_unresolved_fails_without_cleanup:
  assumes "Get (kc_GetMigration (r_Client r) ns name) w = (Inr m, w1)"
    and "mig_DeletionTimestamp m = None" and "migrationFinalizer \<in> set (mig_Finalizers m)"
    and "\<not> isTerminalMigrationPhase (mig_Phase m)"
    and "Get (kc_GetPlan (r_Client r) (mig_Namespace m) (mig_PlanRef m)) w1 = (Inr plan, w2)"
    and "resolveMigrationContext r m plan w2 = (Inl err, w3)"
  shows "\<exists>result w' stored e. Reconcile r ns name w = Some (Returns (result, w')) \<and>
    new_effects w w' = [EStatusUpdate stored e] \<and> mig_Phase stored = MigrationPhaseFailed \<and> mig_VMs stored = mig_VMs m \<and>
    met_ActiveMigrations (w_metrics w') = met_ActiveMigrations (w_metrics w)"
proof -
  have t3: "w_trace w3 = w_trace w2 \<and> w_metrics w3 = w_metrics w2" by (rule resolve_frame [OF assms(6)])
  let ?msg = "''Failed to resolve references: '' @ err_msg err"
  obtain now w4 where n: "Now (r_Now r) w3 = (now, w4)" by fastforce
  let ?stored = "migration_condition (m\<lparr>mig_Phase := MigrationPhaseFailed, mig_Completed := Some now\<rparr>) ConditionFalse ''Error'' ?msg"
  let ?w5 = "inc_MigrationsTotal ''failed'' (recordEvent r EventTypeWarning ''MigrationFailed'' ?msg w4)"
  obtain e w6 where u: "StatusUpdateMigration (r_Client r) ?stored ?w5 = (e, w6)" by fastforce
  have run: "Reconcile r ns name w = Some (Returns ((no_requeue, e), w6))"
    using assms n u by (simp add: Reconcile_def setMigrationFailed_def Let_def)
  have "w_trace w6 = w_trace w @ [EStatusUpdate ?stored e]"
    using call_trace(15) [OF u] call_trace(18) [OF n] t3 get_frame [OF assms(5)] get_frame [OF assms(1)]
    by (simp add: recordEvent_def)
  then have eff: "new_effects w w6 = [EStatusUpdate ?stored e]" by (rule new_effects_append)
  have "met_ActiveMigrations (w_metrics w6) = met_ActiveMigrations (w_metrics w)"
    using call_metrics(15) [OF u] call_metrics(18) [OF n] t3 get_frame [OF assms(5)] get_frame [OF assms(1)]
    by (simp add: recordEvent_def)
  with run eff show ?thesis by (intro exI conjI) (rule run, rule eff, simp_all)
qed


definition sim_no_provider :: "Migration \<Rightarrow> sim MigrationReconciler" where
  "sim_no_provider m = (sim_stored m)\<lparr>r_Client := (r_Client (sim_stored m))
     \<lparr>kc_GetProvider := \<lambda>ns n e. (Inl (errors_New ''etcdserver: request timed out''), e)\<rparr>\<rparr>"

theorem Reconcile_unresolved_fails_without_cleanup_witness:
  "\<exists>result w' stored e. Reconcile (sim_no_provider (sim_migration\<lparr>mig_Phase := MigrationPhaseRunning,
        mig_VMs := [(sim_status VMPhaseExportDisks)\<lparr>vs_SnapshotUUID := ''rp-1''\<rparr>]\<rparr>)) ''vma'' ''mig'' (sim_world False) =
      Some (Returns (result, w')) \<and> new_effects (sim_world False) w' = [EStatusUpdate stored e] \<and>
      mig_Phase stored = MigrationPhaseFailed"
proof -
  let ?m = "sim_migration\<lparr>mig_Phase := MigrationPhaseRunning, mig_VMs := [(sim_status VMPhaseExportDisks)\<lparr>vs_SnapshotUUID := ''rp-1''\<rparr>]\<rparr>"
  let ?plan = "sim_plan MigrationTypeCold TargetPowerStateStopped" and ?w = "sim_world False"
  have g: "Get (kc_GetMigration (r_Client (sim_no_provider ?m)) ''vma'' ''mig'') ?w = (Inr ?m, ?w)"
    by (simp add: sim_no_provider_def sim_stored_def sim_reconciler_def op_defs perform_def)
  have p: "Get (kc_GetPlan (r_Client (sim_no_provider ?m)) (mig_Namespace ?m) (mig_PlanRef ?m)) ?w = (Inr ?plan, ?w)"
    by (simp add: sim_no_provider_def sim_stored_def sim_reconciler_def sim_kube_def op_defs perform_def)
  obtain err where e: "resolveMigrationContext (sim_no_provider ?m) ?m ?plan ?w = (Inl err, ?w)"
    by (simp add: resolveMigrationContext_def sim_no_provider_def sim_stored_def op_defs perform_def)
  show ?thesis
    using Reconcile_unresolved_fails_without_cleanup [OF g _ _ _ p e]
    by (auto simp: sim_migration_def isTerminalMigrationPhase_def)
qed

end
