(* ===== verification/Lifecycle_Properties.thy ===== *)
theory Lifecycle_Properties
  imports Sample_Runs Scheduling
begin

text \<open>
  The properties of the life of one VM: every status that the controller can reach, together with
  the effects on Prism Central and on the cluster that led to it. The witnesses are the runs of
  \<open>Sample_Runs\<close>.
\<close>

section \<open>The power state after a failure\<close>

definition restores_power :: "VMMigrationStatus \<Rightarrow> effect list \<Rightarrow> bool" where
  "restores_power vs es =
     (vs_Phase vs = VMPhaseFailed \<and> vs_OriginalPowerState vs = PowerStateOn \<longrightarrow>
       (\<exists>pre res post. es = pre @ EPowerOn (vs_ID vs) res # post \<and> (\<forall>e \<in> set post. is_deletion e)))"

lemma fail_vm_restores_power:
  assumes "fail_vm r mctx err vs w = (vs', w')"
  shows "restores_power vs' (es @ new_effects w w')"
proof (cases "vs_OriginalPowerState vs = PowerStateOn")
  case True
  obtain es' where es': "w_trace w' = w_trace w @ es'"
    "\<forall>e \<in> set es'. is_deletion e \<or> (\<exists>res. e = EPowerOn (vs_ID vs) res)" "\<exists>res. EPowerOn (vs_ID vs) res \<in> set es'"
    using fail_vm_spec(2) [OF assms] True by blast
  then have "\<exists>e \<in> set es'. \<exists>res. e = EPowerOn (vs_ID vs) res" by blast
  then obtain pre res post where "es' = pre @ EPowerOn (vs_ID vs) res # post"
    "\<forall>e \<in> set post. \<not> (\<exists>res. e = EPowerOn (vs_ID vs) res)"
    using split_list_last_prop [of es' "\<lambda>e. \<exists>res. e = EPowerOn (vs_ID vs) res"] by blast
  moreover have "vs_ID vs' = vs_ID vs" using fail_vm_spec(1) [OF assms] by auto
  ultimately have "es @ new_effects w w' = (es @ pre) @ EPowerOn (vs_ID vs') res # post" "\<forall>e \<in> set post. is_deletion e"
    using es' by (auto simp: new_effects_append)
  then show ?thesis unfolding restores_power_def by blast
next
  case False
  then show ?thesis using fail_vm_spec(1) [OF assms] by (auto simp: restores_power_def)
qed

lemma failed_not_in_order: "order = phaseOrder \<or> order = warmPhaseOrder \<Longrightarrow> VMPhaseFailed \<notin> set order"
  by (auto simp: phaseOrder_def warmPhaseOrder_def)

lemma reachable_restores_power:
  assumes "vm_reachable ty ns order vs es" and "order = phaseOrder \<or> order = warmPhaseOrder"
  shows "restores_power vs es"
  using assms(1)
proof (cases rule: vm_reachable.cases)
  case (advanced vs0 es0 mctx r w w')
  show ?thesis using advanced(5)
  proof (cases rule: vm_step_cases)
    case (handler res vs1 w1 t)
    have "vs_Phase vs0 \<in> set order"
      using reachable_phase [OF advanced(2) assms(2)] handler(1) by (auto simp: isTerminalVMPhase_def)
    then have "nextPhaseInOrder (vs_Phase vs0) order \<in> set order \<and> vs_Phase vs0 \<in> set order"
      using assms(2) cold.next_in_order(1) warm.next_in_order(1) handler(1) by auto
    then have "vs_Phase vs \<noteq> VMPhaseFailed"
      using handler advanced(4) failed_not_in_order [OF assms(2)] by (auto split: if_splits)
    then show ?thesis by (simp add: restores_power_def)
  next
    case (failure res vs1 w1 err t)
    have "bulk_ready vs0" using reachable_tracked [OF advanced(2)] by blast
    then obtain e1 where e1: "w_trace w1 = w_trace w @ e1"
      using executePhase_ok [OF failure(2)] by (auto simp: phase_ok_def tracks_def)
    obtain e2 where "w_trace w' = w_trace w1 @ e2" using fail_vm_spec(2) [OF failure(5)] by blast
    then have "es = (es0 @ e1) @ new_effects w1 w'" using e1 advanced(1) by (simp add: new_effects_append)
    then show ?thesis using fail_vm_restores_power [OF failure(5), of "es0 @ e1"] by metis
  qed
qed (auto simp: restores_power_def new_VMMigrationStatus_def)

section \<open>Sample histories\<close>

lemma sim_started: "vm_reachable TYPE(sim) ''apps'' phaseOrder (sim_status VMPhasePreHook) []"
proof -
  have "sim_status VMPhasePreHook = (new_VMMigrationStatus ''vm-uuid-001'' (vs_Name (sim_status VMPhasePreHook)))
      \<lparr>vs_Started := None, vs_Phase := VMPhasePreHook\<rparr>"
    by (simp add: sim_status_def new_VMMigrationStatus_def)
  then show ?thesis
    using vm_reachable.scheduled [OF vm_reachable.created_status, of "''vm-uuid-001''" "vs_Name (sim_status VMPhasePreHook)" "TYPE(sim)" "''apps''" phaseOrder None]
    by (simp add: new_VMMigrationStatus_def)
qed

lemma sim_failed_history:
  "\<exists>vs es. vm_reachable TYPE(sim) ''apps'' phaseOrder vs es \<and> vs_Phase vs = VMPhaseFailed \<and>
     vs_ID vs = ''vm-uuid-001'' \<and> vs_OriginalPowerState vs = PowerStateOn"
proof -
  obtain vs w where run: "advanceSingleVM (sim_reconciler sim_cold) sim_full_mctx (sim_status VMPhasePreHook) (sim_world True) =
      Some (Returns (False, vs, w))" "vs_Phase vs = VMPhaseFailed" "vs_ID vs = ''vm-uuid-001''" "vs_OriginalPowerState vs = PowerStateOn"
    using sim_run_fails by blast
  have "plan_TargetNamespace (mc_Plan sim_full_mctx) = ''apps''" "pipeline_order (mc_Plan sim_full_mctx) = phaseOrder"
    by (simp_all add: sim_full_mctx_def sim_mctx_def sim_plan_def pipeline_order_def)
  from advance_reachable [OF sim_started this run(1)] run(2-4) show ?thesis by blast
qed

lemma sim_completed_history:
  "\<exists>vs es. vm_reachable TYPE(sim) ''apps'' phaseOrder vs es \<and> vs_Phase vs = VMPhaseCompleted \<and> vs_ID vs = ''vm-uuid-001'' \<and>
     vs_DataVolumeNames vs \<noteq> []"
proof -
  obtain vs w where run: "advanceSingleVM (sim_reconciler sim_cold) (sim_mctx sim_cold) (sim_status VMPhasePreHook) (sim_world False) =
      Some (Returns (False, vs, w))" "vs_Phase vs = VMPhaseCompleted" "vs_ID vs = ''vm-uuid-001''"
      "vs_DataVolumeNames vs \<noteq> []"
    using sim_run_completes by blast
  have "plan_TargetNamespace (mc_Plan (sim_mctx sim_cold)) = ''apps''" "pipeline_order (mc_Plan (sim_mctx sim_cold)) = phaseOrder"
    by (simp_all add: sim_mctx_def sim_plan_def pipeline_order_def)
  from advance_reachable [OF sim_started this run(1)] run(2-4) show ?thesis by blast
qed

section \<open>The properties\<close>

text \<open>
  C1. Nothing is forgotten. In every reachable state of a VM, cold or warm, each image, recovery
  point, DataVolume and delta pod that was created for it and whose deletion was not attempted is
  recorded in its status, so a later cleanup can find it.
\<close>

theorem live_resources_are_tracked:
  assumes "vm_reachable ty ns order vs es"
  shows "live {} es \<subseteq> tracked ns vs"
  using reachable_tracked [OF assms] by blast

theorem live_resources_are_tracked_witness:
  "\<exists>vs es. vm_reachable TYPE(sim) ''apps'' phaseOrder vs es \<and> vs_Phase vs = VMPhaseCompleted \<and> live {} es \<subseteq> tracked ''apps'' vs"
  using sim_completed_history live_resources_are_tracked by blast

text \<open>
  C2. The cleanup of a failed VM is complete for images, recovery points, DataVolumes and delta pods: when a VM has failed, a deletion was
  attempted of each of them that was created for it, so that those which still exist are ones whose deletion was answered
  with an error. The Secret, the ConfigMaps, the hook Jobs and the KubeVirt VM are not resources of this statement.
\<close>

theorem failed_vm_cleaned_up:
  assumes "vm_reachable ty ns order vs es" and "vs_Phase vs = VMPhaseFailed"
  shows "live {} es = {} \<and> still_existing {} es \<subseteq> undeleted es"
  using reachable_tracked [OF assms(1)] assms(2) still_existing_live [of "{}" es] by blast

theorem failed_vm_cleaned_up_witness:
  "\<exists>vs es. vm_reachable TYPE(sim) ''apps'' phaseOrder vs es \<and> vs_ID vs = ''vm-uuid-001'' \<and> live {} es = {} \<and> still_existing {} es \<subseteq> undeleted es"
  using sim_failed_history failed_vm_cleaned_up by blast

text \<open>
  C3. The cleanup of a completed VM is complete: of the images, recovery points, DataVolumes and delta pods that were created for a VM
  whose migration completed, cold or warm, deletion was attempted of all but the DataVolumes recorded in its status, the disks of
  the target VM; besides these at most those exist whose deletion was answered with an error.
\<close>

theorem completed_vm_cleaned_up:
  assumes "vm_reachable ty ns order vs es" and "order = phaseOrder \<or> order = warmPhaseOrder"
    and "vs_Phase vs = VMPhaseCompleted"
  shows "live {} es \<subseteq> RVolume ns ` set (vs_DataVolumeNames vs) \<and>
    still_existing {} es \<subseteq> RVolume ns ` set (vs_DataVolumeNames vs) \<union> undeleted es"
  using reachable_late_clean [OF assms(1,2)] assms(3) still_existing_live [of "{}" es] by (auto simp: late_clean_def)

theorem completed_vm_cleaned_up_witness:
  "\<exists>vs es. vm_reachable TYPE(sim) ''apps'' phaseOrder vs es \<and> live {} es \<subseteq> RVolume ''apps'' ` set (vs_DataVolumeNames vs) \<and>
     still_existing {} es \<subseteq> RVolume ''apps'' ` set (vs_DataVolumeNames vs) \<union> undeleted es \<and> vs_Phase vs = VMPhaseCompleted"
  using sim_completed_history completed_vm_cleaned_up by blast

text \<open>
  C4. A cold migration copies a quiescent disk: no recovery point and no image is created for a VM
  before Prism Central reported the VM powered off.
\<close>

theorem cold_copies_only_after_power_off:
  assumes "vm_reachable ty ns phaseOrder vs es"
  shows "before (observed_off (vs_ID vs)) copies es"
  using reachable_off_invariant [OF assms] by (simp add: off_invariant_def)

theorem cold_copies_only_after_power_off_witness:
  "\<exists>vs es. vm_reachable TYPE(sim) ''apps'' phaseOrder vs es \<and> vs_Phase vs = VMPhaseFailed \<and>
     before (observed_off ''vm-uuid-001'') copies es"
  using sim_failed_history cold_copies_only_after_power_off by metis

text \<open>
  C5. The target VM of a cold migration is created only after each DataVolume recorded in the status
  was reported as fully imported.
\<close>

theorem cold_vm_created_after_import:
  assumes "vm_reachable ty ns phaseOrder vs es" and "n \<in> set (vs_DataVolumeNames vs)"
  shows "before (observed_imported ns n) creates_vm es"
  using reachable_import_invariant [OF assms(1)] assms(2) by (simp add: import_invariant_def)

theorem cold_vm_created_after_import_witness:
  "\<exists>vs es n. vm_reachable TYPE(sim) ''apps'' phaseOrder vs es \<and> n \<in> set (vs_DataVolumeNames vs) \<and>
     before (observed_imported ''apps'' n) creates_vm es"
  using sim_completed_history cold_vm_created_after_import by (metis last_in_set)

text \<open>
  C6. A failed migration gives the source VM back: when a VM that was running before the migration has
  failed, the last thing done to its power is an attempt to switch it on; only deletions follow.
\<close>

theorem failed_vm_is_powered_on_again:
  assumes "vm_reachable ty ns order vs es" and "order = phaseOrder \<or> order = warmPhaseOrder"
    and "vs_Phase vs = VMPhaseFailed" and "vs_OriginalPowerState vs = PowerStateOn"
  shows "\<exists>pre res post. es = pre @ EPowerOn (vs_ID vs) res # post \<and> (\<forall>e \<in> set post. is_deletion e)"
  using reachable_restores_power [OF assms(1,2)] assms(3,4) by (simp add: restores_power_def)

theorem failed_vm_is_powered_on_again_witness:
  "\<exists>vs pre res post. vm_reachable TYPE(sim) ''apps'' phaseOrder vs (pre @ EPowerOn ''vm-uuid-001'' res # post) \<and>
     (\<forall>e \<in> set post. is_deletion e)"
  using sim_failed_history failed_vm_is_powered_on_again by metis

end
