(* ===== verification/Api_Json.thy ===== *)
theory Api_Json
  imports Vma_Types Mock_Fixtures "HOL-Library.Monad_Syntax"
begin

text \<open>
  The JSON form of the Nutanix API types, as the struct tags of \<^verbatim>\<open>internal/nutanix/types.go\<close> prescribe
  it, on JSON trees: \<^verbatim>\<open>omitempty\<close> leaves out a zero value, decoding gives the zero value for a member
  that is missing or null and fails on a member of the wrong type. The step between bytes and trees,
  which is the one of \<^verbatim>\<open>encoding/json\<close>, is not modelled; strings are taken to be valid UTF-8 and numbers
  to be integers. The interface \<open>json_codec\<close> states the round trip; it is interpreted for every type, and
  lists and pointers inherit it.
\<close>

datatype json = JNull | JBool bool | JNum int | JString string | JArray "json list" | JObject "(string \<times> json) list"

text \<open>The text \<^verbatim>\<open>encoding/json\<close> writes for a tree.\<close>

fun render :: "json \<Rightarrow> string" where
  "render JNull = ''null''"
| "render (JBool b) = (if b then ''true'' else ''false'')"
| "render (JNum n) = show_int n"
| "render (JString s) = json_string s"
| "render (JArray js) = ''['' @ strings_Join (map render js) '','' @ '']''"
| "render (JObject fs) = ''{'' @ strings_Join (map (\<lambda>(k, v). json_string k @ '':'' @ render v) fs) '','' @ ''}''"

section \<open>Members\<close>

text \<open>A struct is encoded member by member; a member that is omitted is \<^term>\<open>None\<close>.\<close>

fun present :: "(string \<times> json option) list \<Rightarrow> (string \<times> json) list" where
  "present [] = []"
| "present ((k, None) # fs) = present fs"
| "present ((k, Some j) # fs) = (k, j) # present fs"

definition jobject :: "(string \<times> json option) list \<Rightarrow> json" where
  "jobject fs = JObject (present fs)"

text \<open>Of two members with the same name the decoder keeps the last.\<close>

definition get_field :: "string \<Rightarrow> json \<Rightarrow> json" where
  "get_field k j =
     (case j of JObject fs \<Rightarrow> (case map_of (rev fs) k of None \<Rightarrow> JNull | Some v \<Rightarrow> v) | _ \<Rightarrow> JNull)"

definition is_struct :: "json \<Rightarrow> bool" where
  "is_struct j = (case j of JObject fs \<Rightarrow> True | JNull \<Rightarrow> True | _ \<Rightarrow> False)"

definition member_of :: "json option \<Rightarrow> json" where
  "member_of v = (case v of None \<Rightarrow> JNull | Some j \<Rightarrow> j)"

lemma is_struct_jobject [simp]: "is_struct (jobject fs)"
  by (simp add: is_struct_def jobject_def)

lemma jobject_not_null [simp]: "jobject fs \<noteq> JNull"
  by (simp add: jobject_def)

lemma present_keys: "fst ` set (present fs) \<subseteq> fst ` set fs"
  by (induction fs rule: present.induct) auto

lemma present_distinct: "distinct (map fst fs) \<Longrightarrow> distinct (map fst (present fs))"
proof (induction fs rule: present.induct)
  case (3 k j fs)
  then have "k \<notin> fst ` set (present fs)" using present_keys [of fs] by auto
  then show ?case using 3 by simp
qed auto

lemma map_of_present: "distinct (map fst fs) \<Longrightarrow> map_of (present fs) k = Option.bind (map_of fs k) (\<lambda>v. v)"
proof (induction fs rule: present.induct)
  case (2 k' fs)
  then have "map_of fs k' = None" by (simp add: map_of_eq_None_iff)
  then show ?case using 2 by auto
qed auto

lemma get_field_jobject [simp]:
  assumes "distinct (map fst fs)"
  shows "get_field k (jobject fs) = member_of (Option.bind (map_of fs k) (\<lambda>v. v))"
proof -
  have "map_of (rev (present fs)) = map_of (present fs)"
    using present_distinct [OF assms] by (metis distinct_rev map_of_inject_set rev_map set_rev)
  then show ?thesis using map_of_present [OF assms] by (simp add: get_field_def jobject_def member_of_def)
qed

section \<open>Values\<close>

definition dec_string :: "json \<Rightarrow> string option" where
  "dec_string j = (case j of JNull \<Rightarrow> Some [] | JString s \<Rightarrow> Some s | _ \<Rightarrow> None)"

definition int64 :: "int \<Rightarrow> bool" where
  "int64 n = (- (2 ^ 63) \<le> n \<and> n < 2 ^ 63)"

definition dec_int :: "json \<Rightarrow> int option" where
  "dec_int j = (case j of JNull \<Rightarrow> Some 0 | JNum n \<Rightarrow> if int64 n then Some n else None | _ \<Rightarrow> None)"

fun dec_all :: "(json \<Rightarrow> 'a option) \<Rightarrow> json list \<Rightarrow> 'a list option" where
  "dec_all d [] = Some []"
| "dec_all d (j # js) = do { x \<leftarrow> d j; xs \<leftarrow> dec_all d js; Some (x # xs) }"

definition dec_list :: "(json \<Rightarrow> 'a option) \<Rightarrow> json \<Rightarrow> 'a list option" where
  "dec_list d j = (case j of JNull \<Rightarrow> Some [] | JArray js \<Rightarrow> dec_all d js | _ \<Rightarrow> None)"

definition dec_ptr :: "(json \<Rightarrow> 'a option) \<Rightarrow> json \<Rightarrow> 'a option option" where
  "dec_ptr d j = (if j = JNull then Some None else map_option Some (d j))"

definition opt_string :: "string \<Rightarrow> json option" where
  "opt_string s = (if s = [] then None else Some (JString s))"

definition opt_int :: "int \<Rightarrow> json option" where
  "opt_int n = (if n = 0 then None else Some (JNum n))"

definition opt_list :: "('a \<Rightarrow> json) \<Rightarrow> 'a list \<Rightarrow> json option" where
  "opt_list enc xs = (if xs = [] then None else Some (JArray (map enc xs)))"

definition opt_ptr :: "('a \<Rightarrow> json) \<Rightarrow> 'a option \<Rightarrow> json option" where
  "opt_ptr enc p = map_option enc p"

lemma dec_values [simp]:
  "dec_string (member_of (opt_string s)) = Some s"
  "int64 n \<Longrightarrow> dec_int (member_of (opt_int n)) = Some n"
  "int64 n \<Longrightarrow> dec_int (member_of (Some (JNum n))) = Some n"
  by (auto simp: dec_string_def dec_int_def opt_string_def opt_int_def member_of_def)

section \<open>The round trip\<close>

locale json_codec =
  fixes enc :: "'a \<Rightarrow> json"
    and dec :: "json \<Rightarrow> 'a option"
    and ok :: "'a \<Rightarrow> bool"
  assumes dec_enc: "ok x \<Longrightarrow> dec (enc x) = Some x"
    and enc_not_null: "enc x \<noteq> JNull"
begin

lemma dec_all_enc: "\<forall>x \<in> set xs. ok x \<Longrightarrow> dec_all dec (map enc xs) = Some xs"
  by (induction xs) (auto simp: dec_enc)

lemma dec_list_enc: "\<forall>x \<in> set xs. ok x \<Longrightarrow> dec_list dec (JArray (map enc xs)) = Some xs"
  by (simp add: dec_list_def dec_all_enc)

lemma dec_list_opt: "\<forall>x \<in> set xs. ok x \<Longrightarrow> dec_list dec (member_of (opt_list enc xs)) = Some xs"
  by (simp add: member_of_def opt_list_def dec_list_enc) (simp add: dec_list_def)

lemma dec_ptr_opt: "pred_option ok p \<Longrightarrow> dec_ptr dec (member_of (opt_ptr enc p)) = Some p"
  by (cases p) (auto simp: member_of_def opt_ptr_def dec_ptr_def dec_enc enc_not_null)

end

declare option.pred_True [simp]

interpretation str_codec: json_codec JString dec_string "\<lambda>_. True"
  by unfold_locales (simp_all add: dec_string_def)

definition enc_Reference :: "Reference \<Rightarrow> json" where
  "enc_Reference r = jobject [(''extId'', opt_string (ref_ExtID r)), (''name'', opt_string (ref_Name r))]"

definition dec_Reference :: "json \<Rightarrow> Reference option" where
  "dec_Reference j =
     (if \<not> is_struct j then None
      else do { e \<leftarrow> dec_string (get_field ''extId'' j); n \<leftarrow> dec_string (get_field ''name'' j);
                Some \<lparr>ref_ExtID = e, ref_Name = n\<rparr> })"

interpretation ref_codec: json_codec enc_Reference dec_Reference "\<lambda>_. True"
  by unfold_locales (simp_all add: enc_Reference_def dec_Reference_def)

text \<open>The members of the other types, in the order of their structs; \<open>ok\<close> bounds the integers to an \<^verbatim>\<open>int64\<close>.\<close>

interpretation int_codec: json_codec JNum dec_int int64
  by unfold_locales (simp_all add: dec_int_def)

definition ok_DiskAddress :: "DiskAddress \<Rightarrow> bool" where
  "ok_DiskAddress x \<longleftrightarrow> int64 (da_Index x)"

definition enc_DiskAddress :: "DiskAddress \<Rightarrow> json" where
  "enc_DiskAddress x = jobject
     [(''busType'', opt_string (da_BusType x)),
      (''index'', opt_int (da_Index x))]"

definition dec_DiskAddress :: "json \<Rightarrow> DiskAddress option" where
  "dec_DiskAddress j =
     (if \<not> is_struct j then None
      else do {
        x0 \<leftarrow> dec_string (get_field ''busType'' j);
        x1 \<leftarrow> dec_int (get_field ''index'' j);
        Some \<lparr>da_BusType = x0, da_Index = x1\<rparr>
      })"

interpretation addr_codec: json_codec enc_DiskAddress dec_DiskAddress ok_DiskAddress
  by unfold_locales (simp_all add: enc_DiskAddress_def dec_DiskAddress_def ok_DiskAddress_def)

definition ok_DiskBackingInfo :: "DiskBackingInfo \<Rightarrow> bool" where
  "ok_DiskBackingInfo x \<longleftrightarrow> int64 (bi_DiskSizeBytes x)"

definition enc_DiskBackingInfo :: "DiskBackingInfo \<Rightarrow> json" where
  "enc_DiskBackingInfo x = jobject
     [(''vmDiskUuid'', opt_string (bi_VMDiskUUID x)),
      (''storageContainerReference'', opt_ptr enc_Reference (bi_StorageContainerRef x)),
      (''diskSizeBytes'', opt_int (bi_DiskSizeBytes x))]"

definition dec_DiskBackingInfo :: "json \<Rightarrow> DiskBackingInfo option" where
  "dec_DiskBackingInfo j =
     (if \<not> is_struct j then None
      else do {
        x0 \<leftarrow> dec_string (get_field ''vmDiskUuid'' j);
        x1 \<leftarrow> dec_ptr dec_Reference (get_field ''storageContainerReference'' j);
        x2 \<leftarrow> dec_int (get_field ''diskSizeBytes'' j);
        Some \<lparr>bi_VMDiskUUID = x0, bi_StorageContainerRef = x1, bi_DiskSizeBytes = x2\<rparr>
      })"

interpretation back_codec: json_codec enc_DiskBackingInfo dec_DiskBackingInfo ok_DiskBackingInfo
  by unfold_locales (simp_all add: enc_DiskBackingInfo_def dec_DiskBackingInfo_def ok_DiskBackingInfo_def ref_codec.dec_ptr_opt)

definition ok_Disk :: "Disk \<Rightarrow> bool" where
  "ok_Disk x \<longleftrightarrow> pred_option ok_DiskAddress (disk_DiskAddress x) \<and> pred_option ok_DiskBackingInfo (disk_BackingInfo x) \<and> int64 (disk_DiskSizeBytes x)"

definition enc_Disk :: "Disk \<Rightarrow> json" where
  "enc_Disk x = jobject
     [(''extId'', opt_string (disk_ExtID x)),
      (''diskAddress'', opt_ptr enc_DiskAddress (disk_DiskAddress x)),
      (''backingInfo'', opt_ptr enc_DiskBackingInfo (disk_BackingInfo x)),
      (''diskSizeBytes'', opt_int (disk_DiskSizeBytes x)),
      (''deviceType'', opt_string (disk_DeviceType x))]"

definition dec_Disk :: "json \<Rightarrow> Disk option" where
  "dec_Disk j =
     (if \<not> is_struct j then None
      else do {
        x0 \<leftarrow> dec_string (get_field ''extId'' j);
        x1 \<leftarrow> dec_ptr dec_DiskAddress (get_field ''diskAddress'' j);
        x2 \<leftarrow> dec_ptr dec_DiskBackingInfo (get_field ''backingInfo'' j);
        x3 \<leftarrow> dec_int (get_field ''diskSizeBytes'' j);
        x4 \<leftarrow> dec_string (get_field ''deviceType'' j);
        Some \<lparr>disk_ExtID = x0, disk_DiskAddress = x1, disk_BackingInfo = x2, disk_DiskSizeBytes = x3, disk_DeviceType = x4\<rparr>
      })"

interpretation disk_codec: json_codec enc_Disk dec_Disk ok_Disk
  by unfold_locales (simp_all add: enc_Disk_def dec_Disk_def ok_Disk_def addr_codec.dec_ptr_opt back_codec.dec_ptr_opt)

definition enc_IPAddress :: "IPAddress \<Rightarrow> json" where
  "enc_IPAddress x = jobject
     [(''value'', opt_string (ip_IP x)),
      (''type'', opt_string (ip_Type x))]"

definition dec_IPAddress :: "json \<Rightarrow> IPAddress option" where
  "dec_IPAddress j =
     (if \<not> is_struct j then None
      else do {
        x0 \<leftarrow> dec_string (get_field ''value'' j);
        x1 \<leftarrow> dec_string (get_field ''type'' j);
        Some \<lparr>ip_IP = x0, ip_Type = x1\<rparr>
      })"

interpretation ip_codec: json_codec enc_IPAddress dec_IPAddress "\<lambda>_. True"
  by unfold_locales (simp_all add: enc_IPAddress_def dec_IPAddress_def)

definition enc_NIC :: "NIC \<Rightarrow> json" where
  "enc_NIC x = jobject
     [(''extId'', opt_string (nic_ExtID x)),
      (''subnetReference'', opt_ptr enc_Reference (nic_NetworkRef x)),
      (''nicType'', opt_string (nic_NicType x)),
      (''macAddress'', opt_string (nic_MacAddress x)),
      (''ipAddresses'', opt_list enc_IPAddress (nic_IPAddresses x))]"

definition dec_NIC :: "json \<Rightarrow> NIC option" where
  "dec_NIC j =
     (if \<not> is_struct j then None
      else do {
        x0 \<leftarrow> dec_string (get_field ''extId'' j);
        x1 \<leftarrow> dec_ptr dec_Reference (get_field ''subnetReference'' j);
        x2 \<leftarrow> dec_string (get_field ''nicType'' j);
        x3 \<leftarrow> dec_string (get_field ''macAddress'' j);
        x4 \<leftarrow> dec_list dec_IPAddress (get_field ''ipAddresses'' j);
        Some \<lparr>nic_ExtID = x0, nic_NetworkRef = x1, nic_NicType = x2, nic_MacAddress = x3, nic_IPAddresses = x4\<rparr>
      })"

interpretation nic_codec: json_codec enc_NIC dec_NIC "\<lambda>_. True"
  by unfold_locales (simp_all add: enc_NIC_def dec_NIC_def ip_codec.dec_list_opt ref_codec.dec_ptr_opt)

definition enc_BootConfig :: "BootConfig \<Rightarrow> json" where
  "enc_BootConfig x = jobject
     [(''bootType'', opt_string (boot_BootType x)),
      (''bootOrder'', opt_list JString (boot_BootOrder x))]"

definition dec_BootConfig :: "json \<Rightarrow> BootConfig option" where
  "dec_BootConfig j =
     (if \<not> is_struct j then None
      else do {
        x0 \<leftarrow> dec_string (get_field ''bootType'' j);
        x1 \<leftarrow> dec_list dec_string (get_field ''bootOrder'' j);
        Some \<lparr>boot_BootType = x0, boot_BootOrder = x1\<rparr>
      })"

interpretation boot_codec: json_codec enc_BootConfig dec_BootConfig "\<lambda>_. True"
  by unfold_locales (simp_all add: enc_BootConfig_def dec_BootConfig_def str_codec.dec_list_opt)

definition ok_GPU :: "GPU \<Rightarrow> bool" where
  "ok_GPU x \<longleftrightarrow> int64 (gpu_DeviceID x)"

definition enc_GPU :: "GPU \<Rightarrow> json" where
  "enc_GPU x = jobject
     [(''mode'', opt_string (gpu_Mode x)),
      (''deviceId'', opt_int (gpu_DeviceID x)),
      (''vendor'', opt_string (gpu_Vendor x))]"

definition dec_GPU :: "json \<Rightarrow> GPU option" where
  "dec_GPU j =
     (if \<not> is_struct j then None
      else do {
        x0 \<leftarrow> dec_string (get_field ''mode'' j);
        x1 \<leftarrow> dec_int (get_field ''deviceId'' j);
        x2 \<leftarrow> dec_string (get_field ''vendor'' j);
        Some \<lparr>gpu_Mode = x0, gpu_DeviceID = x1, gpu_Vendor = x2\<rparr>
      })"

interpretation gpu_codec: json_codec enc_GPU dec_GPU ok_GPU
  by unfold_locales (simp_all add: enc_GPU_def dec_GPU_def ok_GPU_def)

definition ok_VM :: "VM \<Rightarrow> bool" where
  "ok_VM x \<longleftrightarrow> int64 (vm_NumSockets x) \<and> int64 (vm_NumCoresPerSocket x) \<and> int64 (vm_NumThreadsPerCore x) \<and> int64 (vm_MemorySizeBytes x) \<and> (\<forall>y \<in> set (vm_Disks x). ok_Disk y) \<and> (\<forall>y \<in> set (vm_Gpus x). ok_GPU y)"

definition enc_VM :: "VM \<Rightarrow> json" where
  "enc_VM x = jobject
     [(''extId'', opt_string (vm_ExtID x)),
      (''name'', opt_string (vm_Name x)),
      (''description'', opt_string (vm_Description x)),
      (''powerState'', opt_string (vm_PowerState x)),
      (''numSockets'', opt_int (vm_NumSockets x)),
      (''numCoresPerSocket'', opt_int (vm_NumCoresPerSocket x)),
      (''numThreadsPerCore'', opt_int (vm_NumThreadsPerCore x)),
      (''memorySizeBytes'', opt_int (vm_MemorySizeBytes x)),
      (''machineType'', opt_string (vm_MachineType x)),
      (''bootConfig'', opt_ptr enc_BootConfig (vm_BootConfig x)),
      (''disks'', opt_list enc_Disk (vm_Disks x)),
      (''nics'', opt_list enc_NIC (vm_Nics x)),
      (''gpus'', opt_list enc_GPU (vm_Gpus x)),
      (''cluster'', opt_ptr enc_Reference (vm_Cluster x))]"

definition dec_VM :: "json \<Rightarrow> VM option" where
  "dec_VM j =
     (if \<not> is_struct j then None
      else do {
        x0 \<leftarrow> dec_string (get_field ''extId'' j);
        x1 \<leftarrow> dec_string (get_field ''name'' j);
        x2 \<leftarrow> dec_string (get_field ''description'' j);
        x3 \<leftarrow> dec_string (get_field ''powerState'' j);
        x4 \<leftarrow> dec_int (get_field ''numSockets'' j);
        x5 \<leftarrow> dec_int (get_field ''numCoresPerSocket'' j);
        x6 \<leftarrow> dec_int (get_field ''numThreadsPerCore'' j);
        x7 \<leftarrow> dec_int (get_field ''memorySizeBytes'' j);
        x8 \<leftarrow> dec_string (get_field ''machineType'' j);
        x9 \<leftarrow> dec_ptr dec_BootConfig (get_field ''bootConfig'' j);
        x10 \<leftarrow> dec_list dec_Disk (get_field ''disks'' j);
        x11 \<leftarrow> dec_list dec_NIC (get_field ''nics'' j);
        x12 \<leftarrow> dec_list dec_GPU (get_field ''gpus'' j);
        x13 \<leftarrow> dec_ptr dec_Reference (get_field ''cluster'' j);
        Some \<lparr>vm_ExtID = x0, vm_Name = x1, vm_Description = x2, vm_PowerState = x3, vm_NumSockets = x4, vm_NumCoresPerSocket = x5, vm_NumThreadsPerCore = x6, vm_MemorySizeBytes = x7, vm_MachineType = x8, vm_BootConfig = x9, vm_Disks = x10, vm_Nics = x11, vm_Gpus = x12, vm_Cluster = x13\<rparr>
      })"

interpretation vm_codec: json_codec enc_VM dec_VM ok_VM
  by unfold_locales (simp_all add: enc_VM_def dec_VM_def ok_VM_def boot_codec.dec_ptr_opt disk_codec.dec_list_opt gpu_codec.dec_list_opt nic_codec.dec_list_opt ref_codec.dec_ptr_opt)

definition ok_Subnet :: "Subnet \<Rightarrow> bool" where
  "ok_Subnet x \<longleftrightarrow> int64 (subnet_VlanID x)"

definition enc_Subnet :: "Subnet \<Rightarrow> json" where
  "enc_Subnet x = jobject
     [(''extId'', opt_string (subnet_ExtID x)),
      (''name'', opt_string (subnet_Name x)),
      (''vlanId'', opt_int (subnet_VlanID x)),
      (''subnetType'', opt_string (subnet_SubnetType x))]"

definition dec_Subnet :: "json \<Rightarrow> Subnet option" where
  "dec_Subnet j =
     (if \<not> is_struct j then None
      else do {
        x0 \<leftarrow> dec_string (get_field ''extId'' j);
        x1 \<leftarrow> dec_string (get_field ''name'' j);
        x2 \<leftarrow> dec_int (get_field ''vlanId'' j);
        x3 \<leftarrow> dec_string (get_field ''subnetType'' j);
        Some \<lparr>subnet_ExtID = x0, subnet_Name = x1, subnet_VlanID = x2, subnet_SubnetType = x3\<rparr>
      })"

interpretation subnet_codec: json_codec enc_Subnet dec_Subnet ok_Subnet
  by unfold_locales (simp_all add: enc_Subnet_def dec_Subnet_def ok_Subnet_def)

definition enc_StorageContainer :: "StorageContainer \<Rightarrow> json" where
  "enc_StorageContainer x = jobject
     [(''containerUuid'', opt_string (sc_UUID x)),
      (''name'', opt_string (sc_Name x))]"

definition dec_StorageContainer :: "json \<Rightarrow> StorageContainer option" where
  "dec_StorageContainer j =
     (if \<not> is_struct j then None
      else do {
        x0 \<leftarrow> dec_string (get_field ''containerUuid'' j);
        x1 \<leftarrow> dec_string (get_field ''name'' j);
        Some \<lparr>sc_UUID = x0, sc_Name = x1\<rparr>
      })"

interpretation sc_codec: json_codec enc_StorageContainer dec_StorageContainer "\<lambda>_. True"
  by unfold_locales (simp_all add: enc_StorageContainer_def dec_StorageContainer_def)

definition enc_ClusterNetwork :: "ClusterNetwork \<Rightarrow> json" where
  "enc_ClusterNetwork x = jobject
     [(''externalAddress'', opt_string (cn_ExternalAddress x)),
      (''externalDataServicesIp'', opt_string (cn_ExternalDataServicesIP x))]"

definition dec_ClusterNetwork :: "json \<Rightarrow> ClusterNetwork option" where
  "dec_ClusterNetwork j =
     (if \<not> is_struct j then None
      else do {
        x0 \<leftarrow> dec_string (get_field ''externalAddress'' j);
        x1 \<leftarrow> dec_string (get_field ''externalDataServicesIp'' j);
        Some \<lparr>cn_ExternalAddress = x0, cn_ExternalDataServicesIP = x1\<rparr>
      })"

interpretation clunet_codec: json_codec enc_ClusterNetwork dec_ClusterNetwork "\<lambda>_. True"
  by unfold_locales (simp_all add: enc_ClusterNetwork_def dec_ClusterNetwork_def)

definition enc_Cluster :: "Cluster \<Rightarrow> json" where
  "enc_Cluster x = jobject
     [(''extId'', opt_string (clu_ExtID x)),
      (''name'', opt_string (clu_Name x)),
      (''network'', opt_ptr enc_ClusterNetwork (clu_Network x))]"

definition dec_Cluster :: "json \<Rightarrow> Cluster option" where
  "dec_Cluster j =
     (if \<not> is_struct j then None
      else do {
        x0 \<leftarrow> dec_string (get_field ''extId'' j);
        x1 \<leftarrow> dec_string (get_field ''name'' j);
        x2 \<leftarrow> dec_ptr dec_ClusterNetwork (get_field ''network'' j);
        Some \<lparr>clu_ExtID = x0, clu_Name = x1, clu_Network = x2\<rparr>
      })"

interpretation clu_codec: json_codec enc_Cluster dec_Cluster "\<lambda>_. True"
  by unfold_locales (simp_all add: enc_Cluster_def dec_Cluster_def clunet_codec.dec_ptr_opt)

record RecoveryPoint =
  rp_ExtID :: string
  rp_Name :: string
  rp_Status :: string
  rp_VMExtID :: string
  rp_ExpirationTime :: string
  rp_RecoveryPointType :: string

definition enc_RecoveryPoint :: "RecoveryPoint \<Rightarrow> json" where
  "enc_RecoveryPoint x = jobject
     [(''extId'', opt_string (rp_ExtID x)),
      (''name'', opt_string (rp_Name x)),
      (''status'', opt_string (rp_Status x)),
      (''vmExtId'', opt_string (rp_VMExtID x)),
      (''expirationTime'', opt_string (rp_ExpirationTime x)),
      (''recoveryPointType'', opt_string (rp_RecoveryPointType x))]"

definition dec_RecoveryPoint :: "json \<Rightarrow> RecoveryPoint option" where
  "dec_RecoveryPoint j =
     (if \<not> is_struct j then None
      else do {
        x0 \<leftarrow> dec_string (get_field ''extId'' j);
        x1 \<leftarrow> dec_string (get_field ''name'' j);
        x2 \<leftarrow> dec_string (get_field ''status'' j);
        x3 \<leftarrow> dec_string (get_field ''vmExtId'' j);
        x4 \<leftarrow> dec_string (get_field ''expirationTime'' j);
        x5 \<leftarrow> dec_string (get_field ''recoveryPointType'' j);
        Some \<lparr>rp_ExtID = x0, rp_Name = x1, rp_Status = x2, rp_VMExtID = x3, rp_ExpirationTime = x4, rp_RecoveryPointType = x5\<rparr>
      })"

interpretation rp_codec: json_codec enc_RecoveryPoint dec_RecoveryPoint "\<lambda>_. True"
  by unfold_locales (simp_all add: enc_RecoveryPoint_def dec_RecoveryPoint_def)

record Image =
  img_ExtID :: string
  img_Name :: string
  img_Type :: string
  img_SizeBytes :: int
  img_SourceURI :: string

definition ok_Image :: "Image \<Rightarrow> bool" where
  "ok_Image x \<longleftrightarrow> int64 (img_SizeBytes x)"

definition enc_Image :: "Image \<Rightarrow> json" where
  "enc_Image x = jobject
     [(''extId'', opt_string (img_ExtID x)),
      (''name'', opt_string (img_Name x)),
      (''type'', opt_string (img_Type x)),
      (''sizeBytes'', opt_int (img_SizeBytes x)),
      (''sourceUri'', opt_string (img_SourceURI x))]"

definition dec_Image :: "json \<Rightarrow> Image option" where
  "dec_Image j =
     (if \<not> is_struct j then None
      else do {
        x0 \<leftarrow> dec_string (get_field ''extId'' j);
        x1 \<leftarrow> dec_string (get_field ''name'' j);
        x2 \<leftarrow> dec_string (get_field ''type'' j);
        x3 \<leftarrow> dec_int (get_field ''sizeBytes'' j);
        x4 \<leftarrow> dec_string (get_field ''sourceUri'' j);
        Some \<lparr>img_ExtID = x0, img_Name = x1, img_Type = x2, img_SizeBytes = x3, img_SourceURI = x4\<rparr>
      })"

interpretation img_codec: json_codec enc_Image dec_Image ok_Image
  by unfold_locales (simp_all add: enc_Image_def dec_Image_def ok_Image_def)

record TaskError =
  te_Message :: string

definition enc_TaskError :: "TaskError \<Rightarrow> json" where
  "enc_TaskError x = jobject
     [(''message'', opt_string (te_Message x))]"

definition dec_TaskError :: "json \<Rightarrow> TaskError option" where
  "dec_TaskError j =
     (if \<not> is_struct j then None
      else do {
        x0 \<leftarrow> dec_string (get_field ''message'' j);
        Some \<lparr>te_Message = x0\<rparr>
      })"

interpretation terr_codec: json_codec enc_TaskError dec_TaskError "\<lambda>_. True"
  by unfold_locales (simp_all add: enc_TaskError_def dec_TaskError_def)

record TaskEntity =
  ten_ExtID :: string
  ten_Rel :: string

definition enc_TaskEntity :: "TaskEntity \<Rightarrow> json" where
  "enc_TaskEntity x = jobject
     [(''extId'', opt_string (ten_ExtID x)),
      (''rel'', opt_string (ten_Rel x))]"

definition dec_TaskEntity :: "json \<Rightarrow> TaskEntity option" where
  "dec_TaskEntity j =
     (if \<not> is_struct j then None
      else do {
        x0 \<leftarrow> dec_string (get_field ''extId'' j);
        x1 \<leftarrow> dec_string (get_field ''rel'' j);
        Some \<lparr>ten_ExtID = x0, ten_Rel = x1\<rparr>
      })"

interpretation tent_codec: json_codec enc_TaskEntity dec_TaskEntity "\<lambda>_. True"
  by unfold_locales (simp_all add: enc_TaskEntity_def dec_TaskEntity_def)

record Task =
  task_ExtID :: string
  task_Status :: string
  task_OperationType :: string
  task_PercentComplete :: int
  task_ErrorMessages :: "TaskError list"
  task_EntitiesAffected :: "TaskEntity list"

definition ok_Task :: "Task \<Rightarrow> bool" where
  "ok_Task x \<longleftrightarrow> int64 (task_PercentComplete x)"

definition enc_Task :: "Task \<Rightarrow> json" where
  "enc_Task x = jobject
     [(''extId'', opt_string (task_ExtID x)),
      (''status'', opt_string (task_Status x)),
      (''operation'', opt_string (task_OperationType x)),
      (''percentageComplete'', opt_int (task_PercentComplete x)),
      (''errorMessages'', opt_list enc_TaskError (task_ErrorMessages x)),
      (''entitiesAffected'', opt_list enc_TaskEntity (task_EntitiesAffected x))]"

definition dec_Task :: "json \<Rightarrow> Task option" where
  "dec_Task j =
     (if \<not> is_struct j then None
      else do {
        x0 \<leftarrow> dec_string (get_field ''extId'' j);
        x1 \<leftarrow> dec_string (get_field ''status'' j);
        x2 \<leftarrow> dec_string (get_field ''operation'' j);
        x3 \<leftarrow> dec_int (get_field ''percentageComplete'' j);
        x4 \<leftarrow> dec_list dec_TaskError (get_field ''errorMessages'' j);
        x5 \<leftarrow> dec_list dec_TaskEntity (get_field ''entitiesAffected'' j);
        Some \<lparr>task_ExtID = x0, task_Status = x1, task_OperationType = x2, task_PercentComplete = x3, task_ErrorMessages = x4, task_EntitiesAffected = x5\<rparr>
      })"

interpretation task_codec: json_codec enc_Task dec_Task ok_Task
  by unfold_locales (simp_all add: enc_Task_def dec_Task_def ok_Task_def tent_codec.dec_list_opt terr_codec.dec_list_opt)

definition enc_CBTClusterInfo :: "CBTClusterInfo \<Rightarrow> json" where
  "enc_CBTClusterInfo x = jobject
     [(''prismElementUrl'', opt_string (cbt_PrismElementURL x)),
      (''jwtToken'', opt_string (cbt_JWTToken x))]"

definition dec_CBTClusterInfo :: "json \<Rightarrow> CBTClusterInfo option" where
  "dec_CBTClusterInfo j =
     (if \<not> is_struct j then None
      else do {
        x0 \<leftarrow> dec_string (get_field ''prismElementUrl'' j);
        x1 \<leftarrow> dec_string (get_field ''jwtToken'' j);
        Some \<lparr>cbt_PrismElementURL = x0, cbt_JWTToken = x1\<rparr>
      })"

interpretation cbt_codec: json_codec enc_CBTClusterInfo dec_CBTClusterInfo "\<lambda>_. True"
  by unfold_locales (simp_all add: enc_CBTClusterInfo_def dec_CBTClusterInfo_def)

definition ok_ChangedRegion :: "ChangedRegion \<Rightarrow> bool" where
  "ok_ChangedRegion x \<longleftrightarrow> int64 (cr_Offset x) \<and> int64 (cr_Length x)"

definition enc_ChangedRegion :: "ChangedRegion \<Rightarrow> json" where
  "enc_ChangedRegion x = jobject
     [(''offset'', Some (JNum (cr_Offset x))),
      (''length'', Some (JNum (cr_Length x)))]"

definition dec_ChangedRegion :: "json \<Rightarrow> ChangedRegion option" where
  "dec_ChangedRegion j =
     (if \<not> is_struct j then None
      else do {
        x0 \<leftarrow> dec_int (get_field ''offset'' j);
        x1 \<leftarrow> dec_int (get_field ''length'' j);
        Some \<lparr>cr_Offset = x0, cr_Length = x1\<rparr>
      })"

interpretation region_codec: json_codec enc_ChangedRegion dec_ChangedRegion ok_ChangedRegion
  by unfold_locales (simp_all add: enc_ChangedRegion_def dec_ChangedRegion_def ok_ChangedRegion_def)

definition ok_ChangedRegions :: "ChangedRegions \<Rightarrow> bool" where
  "ok_ChangedRegions x \<longleftrightarrow> (\<forall>y \<in> set (crs_Regions x). ok_ChangedRegion y) \<and> pred_option int64 (crs_NextOffset x)"

definition enc_ChangedRegions :: "ChangedRegions \<Rightarrow> json" where
  "enc_ChangedRegions x = jobject
     [(''changedRegions'', opt_list enc_ChangedRegion (crs_Regions x)),
      (''nextOffset'', opt_ptr JNum (crs_NextOffset x))]"

definition dec_ChangedRegions :: "json \<Rightarrow> ChangedRegions option" where
  "dec_ChangedRegions j =
     (if \<not> is_struct j then None
      else do {
        x0 \<leftarrow> dec_list dec_ChangedRegion (get_field ''changedRegions'' j);
        x1 \<leftarrow> dec_ptr dec_int (get_field ''nextOffset'' j);
        Some \<lparr>crs_Regions = x0, crs_NextOffset = x1\<rparr>
      })"

interpretation regions_codec: json_codec enc_ChangedRegions dec_ChangedRegions ok_ChangedRegions
  by unfold_locales (simp_all add: enc_ChangedRegions_def dec_ChangedRegions_def ok_ChangedRegions_def int_codec.dec_ptr_opt region_codec.dec_list_opt)


text \<open>
  What the server encodes the client decodes: the JSON form of a VM, with all its disks, NICs, GPUs and
  references, and with every member that is empty left out, is decoded to the same VM, as long as its
  numbers fit an \<^verbatim>\<open>int64\<close>.
\<close>

theorem VM_json_roundtrip: "ok_VM vm \<Longrightarrow> dec_VM (enc_VM vm) = Some vm"
  by (rule vm_codec.dec_enc)

theorem VM_json_roundtrip_witness: "dec_VM (enc_VM vm_windows) = Some vm_windows"
  by (rule VM_json_roundtrip)
    (simp add: ok_VM_def ok_Disk_def ok_DiskAddress_def ok_DiskBackingInfo_def int64_def vm_windows_def fixture_disk_def fixture_cdrom_def)

end
