(* ===== verification/Mock_Store.thy ===== *)
theory Mock_Store
  imports Api_Json Mock_Fixtures
begin

text \<open>
  The state of the mock Prism server (\<^verbatim>\<open>pkg/mock/store.go\<close>): the inventory as lists, tasks, recovery points and
  images as maps, and the two counters the identifiers come from. A method is one function here, what it does
  when no other request interferes; a method that changes the store returns it. (\<^verbatim>\<open>Mock_Concurrency\<close> has the
  atomic steps the methods consist of and their interleavings.) The counters are
  natural numbers (\<^verbatim>\<open>atomic.Int64\<close>, 2^63 calls away from wrapping). Recovery points and images keep the same
  contract, the interface \<open>entity_table\<close>: an added entity gets an identifier that was not in use, is found
  under it until it is deleted, and no operation touches the other entries.
\<close>

section \<open>Data\<close>

abbreviation recoveryPointStatusComplete :: string where "recoveryPointStatusComplete \<equiv> ''COMPLETE''"
abbreviation TaskStatusQueued :: string where "TaskStatusQueued \<equiv> ''QUEUED''"
abbreviation TaskStatusRunning :: string where "TaskStatusRunning \<equiv> ''RUNNING''"
abbreviation TaskStatusSucceeded :: string where "TaskStatusSucceeded \<equiv> ''SUCCEEDED''"

record CBTConfig =
  cbc_ChangedRegions :: "ChangedRegion list"
  cbc_JWTToken :: string

definition DefaultCBTConfig :: CBTConfig where
  "DefaultCBTConfig =
     \<lparr>cbc_ChangedRegions = [\<lparr>cr_Offset = 0, cr_Length = 65536\<rparr>, \<lparr>cr_Offset = 1048576, cr_Length = 131072\<rparr>,
                            \<lparr>cr_Offset = 4194304, cr_Length = 65536\<rparr>],
      cbc_JWTToken = ''mock-jwt-token-for-cbt''\<rparr>"

record TaskState =
  ts_Task :: Task
  ts_PollCount :: nat
  ts_TargetPolls :: nat

record Store =
  sto_VMs :: "VM list"
  sto_Subnets :: "Subnet list"
  sto_StorageContainers :: "StorageContainer list"
  sto_Clusters :: "Cluster list"
  sto_Tasks :: "string \<Rightarrow> TaskState option"
  sto_RecoveryPoints :: "string \<Rightarrow> RecoveryPoint option"
  sto_Images :: "string \<Rightarrow> Image option"
  sto_CBTConfig :: CBTConfig
  sto_imageCounter :: nat
  sto_taskCounter :: nat

definition NewStore :: Store where
  "NewStore =
     \<lparr>sto_VMs = [], sto_Subnets = [], sto_StorageContainers = [], sto_Clusters = [], sto_Tasks = Map.empty,
      sto_RecoveryPoints = Map.empty, sto_Images = Map.empty, sto_CBTConfig = \<lparr>cbc_ChangedRegions = [], cbc_JWTToken = []\<rparr>,
      sto_imageCounter = 0, sto_taskCounter = 0\<rparr>"

definition WithFixtures :: "Store \<Rightarrow> Store" where
  "WithFixtures s = s\<lparr>sto_VMs := defaultVMs, sto_Subnets := defaultSubnets, sto_StorageContainers := defaultStorageContainers,
     sto_Clusters := defaultClusters\<rparr>"

definition WithCBTConfig :: "CBTConfig \<Rightarrow> Store \<Rightarrow> Store" where
  "WithCBTConfig cfg s = s\<lparr>sto_CBTConfig := cfg\<rparr>"

section \<open>Identifiers\<close>

text \<open>\<^verbatim>\<open>%08d\<close> of a counter.\<close>

definition pad8 :: "nat \<Rightarrow> string" where
  "pad8 n = replicate (8 - length (show_nat n)) CHR ''0'' @ show_nat n"

definition taskUUIDFromCounter :: "nat \<Rightarrow> string" where
  "taskUUIDFromCounter n = ''task-'' @ pad8 n"

lemma read_nat_zeros: "read_nat (replicate k CHR ''0'' @ s) = read_nat s"
  by (induction k) (simp_all add: read_nat_def digit_val_def)

lemma read_pad8: "read_nat (pad8 n) = n"
  by (simp add: pad8_def read_nat_zeros)

lemma pad8_inject [simp]: "pad8 m = pad8 n \<longleftrightarrow> m = n"
  using read_pad8 by metis

lemma pad8_digits: "\<forall>c \<in> set (pad8 n). is_digit c"
  using show_nat_digits [of n] by (auto simp: pad8_def is_digit_def [of "CHR ''0''"])

section \<open>Virtual machines\<close>

text \<open>The getters return copies of the lists, \<^verbatim>\<open>GetVM\<close> a copy of the first VM with the identifier.\<close>

definition store_GetVMs :: "Store \<Rightarrow> VM list" where
  [simp]: "store_GetVMs s = sto_VMs s"

definition store_GetSubnets :: "Store \<Rightarrow> Subnet list" where
  [simp]: "store_GetSubnets s = sto_Subnets s"

definition store_GetStorageContainers :: "Store \<Rightarrow> StorageContainer list" where
  [simp]: "store_GetStorageContainers s = sto_StorageContainers s"

definition store_GetClusters :: "Store \<Rightarrow> Cluster list" where
  [simp]: "store_GetClusters s = sto_Clusters s"

definition store_GetVM :: "string \<Rightarrow> Store \<Rightarrow> VM option" where
  "store_GetVM extID s = find (\<lambda>vm. vm_ExtID vm = extID) (sto_VMs s)"

fun set_power :: "string \<Rightarrow> string \<Rightarrow> VM list \<Rightarrow> VM list option" where
  "set_power extID state [] = None"
| "set_power extID state (vm # vms) =
     (if vm_ExtID vm = extID then Some (vm\<lparr>vm_PowerState := state\<rparr> # vms) else map_option (Cons vm) (set_power extID state vms))"

definition store_SetVMPowerState :: "string \<Rightarrow> string \<Rightarrow> Store \<Rightarrow> bool \<times> Store" where
  "store_SetVMPowerState extID state s =
     (case set_power extID state (sto_VMs s) of None \<Rightarrow> (False, s) | Some vms \<Rightarrow> (True, s\<lparr>sto_VMs := vms\<rparr>))"

fun remove_vm :: "string \<Rightarrow> VM list \<Rightarrow> VM list" where
  "remove_vm extID [] = []"
| "remove_vm extID (vm # vms) = (if vm_ExtID vm = extID then vms else vm # remove_vm extID vms)"

lemma find_set_power:
  assumes "find (\<lambda>vm. vm_ExtID vm = u) vms = Some vm"
  shows "\<exists>vms'. set_power u state vms = Some vms' \<and> length vms' = length vms \<and>
    find (\<lambda>v. vm_ExtID v = u) vms' = Some (vm\<lparr>vm_PowerState := state\<rparr>) \<and>
    (\<forall>u'. u' \<noteq> u \<longrightarrow> find (\<lambda>v. vm_ExtID v = u') vms' = find (\<lambda>v. vm_ExtID v = u') vms)"
  using assms by (induction vms) (auto split: if_splits)

lemma find_remove_vm:
  assumes "distinct (map vm_ExtID vms)"
  shows "find (\<lambda>v. vm_ExtID v = u') (remove_vm u vms) = (if u' = u then None else find (\<lambda>v. vm_ExtID v = u') vms)"
  using assms
proof (induction vms)
  case (Cons vm vms)
  have "find (\<lambda>v. vm_ExtID v = vm_ExtID vm) vms = None" using Cons.prems by (metis (mono_tags) distinct.simps(2) find_None_iff image_eqI list.set_map list.simps(9))
  then show ?case using Cons by auto
qed simp

section \<open>Recovery points and images\<close>

definition store_AddRecoveryPoint :: "RecoveryPoint \<Rightarrow> Store \<Rightarrow> string \<times> Store" where
  "store_AddRecoveryPoint rp s =
     (let n = sto_imageCounter s + 1; u = ''rp-'' @ pad8 n;
          rp' = rp\<lparr>rp_ExtID := u, rp_Status := recoveryPointStatusComplete\<rparr>
      in (u, s\<lparr>sto_imageCounter := n, sto_RecoveryPoints := (sto_RecoveryPoints s)(u \<mapsto> rp')\<rparr>))"

definition store_GetRecoveryPoint :: "string \<Rightarrow> Store \<Rightarrow> RecoveryPoint option" where
  "store_GetRecoveryPoint u s = sto_RecoveryPoints s u"

definition store_DeleteRecoveryPoint :: "string \<Rightarrow> Store \<Rightarrow> bool \<times> Store" where
  "store_DeleteRecoveryPoint u s =
     (case sto_RecoveryPoints s u of
        None \<Rightarrow> (False, s)
      | Some _ \<Rightarrow> (True, s\<lparr>sto_RecoveryPoints := (sto_RecoveryPoints s)(u := None)\<rparr>))"

definition store_AddImage :: "Image \<Rightarrow> Store \<Rightarrow> string \<times> Store" where
  "store_AddImage img s =
     (let n = sto_imageCounter s + 1; u = ''img-'' @ pad8 n
      in (u, s\<lparr>sto_imageCounter := n, sto_Images := (sto_Images s)(u \<mapsto> img\<lparr>img_ExtID := u\<rparr>)\<rparr>))"

definition store_GetImage :: "string \<Rightarrow> Store \<Rightarrow> Image option" where
  "store_GetImage u s = sto_Images s u"

definition store_DeleteImage :: "string \<Rightarrow> Store \<Rightarrow> bool \<times> Store" where
  "store_DeleteImage u s =
     (case sto_Images s u of None \<Rightarrow> (False, s) | Some _ \<Rightarrow> (True, s\<lparr>sto_Images := (sto_Images s)(u := None)\<rparr>))"

section \<open>Tasks\<close>

definition store_CreateTask :: "TaskEntity list \<Rightarrow> nat \<Rightarrow> Store \<Rightarrow> string \<times> Store" where
  "store_CreateTask entities targetPolls s =
     (let n = sto_taskCounter s + 1; u = taskUUIDFromCounter n;
          t = \<lparr>task_ExtID = u, task_Status = TaskStatusQueued, task_OperationType = [], task_PercentComplete = 0,
               task_ErrorMessages = [], task_EntitiesAffected = entities\<rparr>
      in (u, s\<lparr>sto_taskCounter := n,
              sto_Tasks := (sto_Tasks s)(u \<mapsto> \<lparr>ts_Task = t, ts_PollCount = 0, ts_TargetPolls = targetPolls\<rparr>)\<rparr>))"

definition poll_state :: "TaskState \<Rightarrow> TaskState" where
  "poll_state ts =
     (let n = ts_PollCount ts + 1
      in if n \<ge> ts_TargetPolls ts
         then ts\<lparr>ts_PollCount := n, ts_Task := (ts_Task ts)\<lparr>task_Status := TaskStatusSucceeded, task_PercentComplete := 100\<rparr>\<rparr>
         else ts\<lparr>ts_PollCount := n, ts_Task := (ts_Task ts)\<lparr>task_Status := TaskStatusRunning, task_PercentComplete := 50\<rparr>\<rparr>)"

definition store_GetTask :: "string \<Rightarrow> Store \<Rightarrow> Task option \<times> Store" where
  "store_GetTask u s =
     (case sto_Tasks s u of
        None \<Rightarrow> (None, s)
      | Some ts \<Rightarrow> (Some (ts_Task (poll_state ts)), s\<lparr>sto_Tasks := (sto_Tasks s)(u \<mapsto> poll_state ts)\<rparr>))"

section \<open>The invariant of the store\<close>

text \<open>
  Every entity is stored under its own identifier, and that identifier was issued by a counter. The status of a
  task is the one its number of polls gives.
\<close>

definition issued :: "string \<Rightarrow> nat \<Rightarrow> string \<Rightarrow> bool" where
  "issued p n u \<longleftrightarrow> (\<exists>k. 1 \<le> k \<and> k \<le> n \<and> u = p @ pad8 k)"

definition task_ok :: "TaskState \<Rightarrow> bool" where
  "task_ok ts \<longleftrightarrow>
     (task_Status (ts_Task ts), task_PercentComplete (ts_Task ts)) =
       (if ts_PollCount ts = 0 then (TaskStatusQueued, 0)
        else if ts_PollCount ts < ts_TargetPolls ts then (TaskStatusRunning, 50) else (TaskStatusSucceeded, 100))"

definition store_ok :: "Store \<Rightarrow> bool" where
  "store_ok s \<longleftrightarrow>
     (\<forall>u rp. sto_RecoveryPoints s u = Some rp \<longrightarrow> rp_ExtID rp = u \<and> issued ''rp-'' (sto_imageCounter s) u) \<and>
     (\<forall>u img. sto_Images s u = Some img \<longrightarrow> img_ExtID img = u \<and> issued ''img-'' (sto_imageCounter s) u) \<and>
     (\<forall>u ts. sto_Tasks s u = Some ts \<longrightarrow> task_ExtID (ts_Task ts) = u \<and> issued ''task-'' (sto_taskCounter s) u \<and> task_ok ts)"

text \<open>The part of it that says where recovery points and images are, which no task operation touches.\<close>

definition entities_ok :: "Store \<Rightarrow> bool" where
  "entities_ok s \<longleftrightarrow>
     (\<forall>u rp. sto_RecoveryPoints s u = Some rp \<longrightarrow> rp_ExtID rp = u \<and> issued ''rp-'' (sto_imageCounter s) u) \<and>
     (\<forall>u img. sto_Images s u = Some img \<longrightarrow> img_ExtID img = u \<and> issued ''img-'' (sto_imageCounter s) u)"

lemma store_ok_entities: "store_ok s \<Longrightarrow> entities_ok s"
  by (auto simp: store_ok_def entities_ok_def)

lemma issued_mono: "issued p n u \<Longrightarrow> n \<le> m \<Longrightarrow> issued p m u"
  unfolding issued_def by (metis le_trans)

lemma issued_Suc: "issued p n u \<Longrightarrow> issued p (Suc n) u"
  by (erule issued_mono) simp

lemma issued_next: "issued p (Suc n) (p @ pad8 (Suc n))"
  unfolding issued_def by auto

lemmas issued_next_ids [simp] =
  issued_next [of "''rp-''", simplified] issued_next [of "''img-''", simplified] issued_next [of "''task-''", simplified]

lemma not_issued_next: "\<not> issued p n (p @ pad8 (Suc n))"
  by (auto simp: issued_def)

lemma task_ok_poll [simp]: "task_ok (poll_state ts)"
  by (simp add: task_ok_def poll_state_def Let_def)

lemma poll_state_ids [simp]:
  "task_ExtID (ts_Task (poll_state ts)) = task_ExtID (ts_Task ts)"
  "task_EntitiesAffected (ts_Task (poll_state ts)) = task_EntitiesAffected (ts_Task ts)"
  "ts_TargetPolls (poll_state ts) = ts_TargetPolls ts" "ts_PollCount (poll_state ts) = Suc (ts_PollCount ts)"
  by (simp_all add: poll_state_def Let_def)

lemma store_ok_New: "store_ok NewStore"
  by (simp add: store_ok_def NewStore_def)

lemma store_ok_inventory [simp]:
  "store_ok (s\<lparr>sto_VMs := vms\<rparr>) = store_ok s" "store_ok (s\<lparr>sto_Subnets := x\<rparr>) = store_ok s"
  "store_ok (s\<lparr>sto_Clusters := y\<rparr>) = store_ok s" "store_ok (s\<lparr>sto_StorageContainers := z\<rparr>) = store_ok s"
  "store_ok (s\<lparr>sto_CBTConfig := cfg\<rparr>) = store_ok s"
  by (simp_all add: store_ok_def)

lemma store_ok_AddRecoveryPoint: "store_ok s \<Longrightarrow> store_ok (snd (store_AddRecoveryPoint rp s))"
  by (auto simp: store_ok_def store_AddRecoveryPoint_def Let_def intro!: issued_Suc)

lemma store_ok_AddImage: "store_ok s \<Longrightarrow> store_ok (snd (store_AddImage img s))"
  by (auto simp: store_ok_def store_AddImage_def Let_def intro!: issued_Suc)

lemma store_ok_bump: "store_ok s \<Longrightarrow> store_ok (s\<lparr>sto_imageCounter := sto_imageCounter s + 1\<rparr>)"
  by (auto simp: store_ok_def intro!: issued_Suc)

lemma store_ok_deletes:
  "store_ok s \<Longrightarrow> store_ok (snd (store_DeleteRecoveryPoint u s))"
  "store_ok s \<Longrightarrow> store_ok (snd (store_DeleteImage u s))"
  by (auto simp: store_ok_def store_DeleteRecoveryPoint_def store_DeleteImage_def split: option.split)

lemma store_ok_CreateTask: "store_ok s \<Longrightarrow> store_ok (snd (store_CreateTask es n s))"
  by (auto simp: store_ok_def store_CreateTask_def Let_def taskUUIDFromCounter_def task_ok_def intro!: issued_Suc)

lemma store_ok_GetTask: "store_ok s \<Longrightarrow> store_ok (snd (store_GetTask u s))"
  by (auto simp: store_ok_def store_GetTask_def split: option.split)

lemma store_ok_SetVMPowerState: "store_ok s \<Longrightarrow> store_ok (snd (store_SetVMPowerState u p s))"
  by (simp add: store_SetVMPowerState_def split: option.split)

lemma entities_ok_ops:
  assumes "entities_ok s"
  shows "entities_ok (snd (store_AddRecoveryPoint rp s))" "entities_ok (snd (store_AddImage img s))"
    "entities_ok (snd (store_DeleteRecoveryPoint u s))" "entities_ok (snd (store_DeleteImage u s))"
proof -
  show "entities_ok (snd (store_AddRecoveryPoint rp s))"
    using assms by (auto simp: entities_ok_def store_AddRecoveryPoint_def Let_def intro!: issued_Suc)
  show "entities_ok (snd (store_AddImage img s))"
    using assms by (auto simp: entities_ok_def store_AddImage_def Let_def intro!: issued_Suc)
  show "entities_ok (snd (store_DeleteRecoveryPoint u s))" "entities_ok (snd (store_DeleteImage u s))"
    using assms by (auto simp: entities_ok_def store_DeleteRecoveryPoint_def store_DeleteImage_def split: option.split)
qed

lemmas store_ok_rules =
  store_ok_AddRecoveryPoint store_ok_AddImage store_ok_bump store_ok_deletes store_ok_CreateTask store_ok_GetTask
  store_ok_SetVMPowerState

section \<open>The contract of a table\<close>

locale entity_table =
  fixes inv :: "'s \<Rightarrow> bool"
    and add :: "'a \<Rightarrow> 's \<Rightarrow> string \<times> 's"
    and get :: "string \<Rightarrow> 's \<Rightarrow> 'a option"
    and del :: "string \<Rightarrow> 's \<Rightarrow> bool \<times> 's"
    and stamp :: "string \<Rightarrow> 'a \<Rightarrow> 'a"
  assumes add_inv: "inv s \<Longrightarrow> inv (snd (add x s))"
    and del_inv: "inv s \<Longrightarrow> inv (snd (del u s))"
    and add_fresh: "inv s \<Longrightarrow> get (fst (add x s)) s = None"
    and get_add: "get u (snd (add x s)) = (if u = fst (add x s) then Some (stamp u x) else get u s)"
    and del_found: "fst (del u s) \<longleftrightarrow> get u s \<noteq> None"
    and get_del: "get u' (snd (del u s)) = (if u' = u then None else get u' s)"
begin

lemma add_del: "inv s \<Longrightarrow> get u (snd (del (fst (add x s)) (snd (add x s)))) = get u s"
  by (simp add: get_del get_add add_fresh)

lemma del_twice: "\<not> fst (del u (snd (del u s)))"
  by (simp add: del_found get_del)

lemma adds_distinct: "inv s \<Longrightarrow> fst (add y (snd (add x s))) \<noteq> fst (add x s)"
  using add_fresh [of "snd (add x s)" y] add_inv get_add by (metis option.distinct(1))

end

interpretation rp_table: entity_table entities_ok store_AddRecoveryPoint store_GetRecoveryPoint store_DeleteRecoveryPoint
  "\<lambda>u rp. rp\<lparr>rp_ExtID := u, rp_Status := recoveryPointStatusComplete\<rparr>"
proof unfold_locales
  fix s rp assume "entities_ok s"
  then show "store_GetRecoveryPoint (fst (store_AddRecoveryPoint rp s)) s = None"
    using not_issued_next [of "''rp-''" "sto_imageCounter s"]
    by (cases "sto_RecoveryPoints s (''rp-'' @ pad8 (Suc (sto_imageCounter s)))")
      (auto simp: entities_ok_def store_GetRecoveryPoint_def store_AddRecoveryPoint_def Let_def)
qed (simp_all add: entities_ok_ops,
     auto simp: store_GetRecoveryPoint_def store_AddRecoveryPoint_def store_DeleteRecoveryPoint_def Let_def split: option.split)

interpretation image_table: entity_table entities_ok store_AddImage store_GetImage store_DeleteImage "\<lambda>u img. img\<lparr>img_ExtID := u\<rparr>"
proof unfold_locales
  fix s img assume "entities_ok s"
  then show "store_GetImage (fst (store_AddImage img s)) s = None"
    using not_issued_next [of "''img-''" "sto_imageCounter s"]
    by (cases "sto_Images s (''img-'' @ pad8 (Suc (sto_imageCounter s)))")
      (auto simp: entities_ok_def store_GetImage_def store_AddImage_def Let_def)
qed (simp_all add: entities_ok_ops,
     auto simp: store_GetImage_def store_AddImage_def store_DeleteImage_def Let_def split: option.split)

end
