(* ===== verification/Prism_Client.thy ===== *)
theory Prism_Client
  imports Api_Json
begin

text \<open>
  The HTTP client of the Nutanix API (\<^verbatim>\<open>internal/nutanix\<close>): requests with retry and backoff, JSON
  responses, the polling of tasks, pagination, and the operations of the interface \<^verbatim>\<open>NutanixClient\<close>. The
  network, the clock and the context are the record \<open>net\<close> over an environment \<^typ>\<open>'e\<close>: a round trip
  yields a response or an error and says whether it read the request body to its end, a sleep says
  whether the context was cancelled. The state logs every request that is sent and carries the cache of
  CBT tokens. A response has its raw text, used in error messages, and the JSON tree it parses to, if it is
  JSON at all. Loops that may not end are partial functions: \<^term>\<open>None\<close> is a call that never returns.
\<close>

record http_request =
  rq_Method :: string
  rq_URL :: string
  rq_Auth :: "(string \<times> string) option"
  rq_Cookie :: "(string \<times> string) option"
  rq_Range :: string
  rq_ContentType :: bool
  rq_Body :: "json option"

record http_response =
  rs_Status :: int
  rs_Text :: string
  rs_Json :: "json option"

record 'e net =
  net_ParseURL :: "string \<Rightarrow> go_error option"
  net_Do :: "http_request \<Rightarrow> 'e \<Rightarrow> (go_error + http_response) \<times> bool \<times> 'e"
  net_Now :: "'e \<Rightarrow> int \<times> 'e"
  net_Sleep :: "int \<Rightarrow> 'e \<Rightarrow> bool \<times> 'e"
  net_CtxErr :: go_error
  net_JsonErr :: "http_response \<Rightarrow> go_error"

record cbtTokenEntry =
  tok_prismElementURL :: string
  tok_jwtToken :: string
  tok_discoveredAt :: int

record 'e nstate =
  st_env :: 'e
  st_log :: "http_request list"
  st_cbtTokens :: "string \<Rightarrow> cbtTokenEntry option"

record 'e httpClient =
  hc_client :: "'e net"
  hc_host :: string
  hc_username :: string
  hc_password :: string
  hc_maxRetries :: nat

section \<open>Construction\<close>

text \<open>\<^verbatim>\<open>NewClient\<close>; the transport is a parameter, as is the failure to build it. \<^verbatim>\<open>MaxRetries\<close> is a natural
  number: no caller sets it, and zero stands for the default.\<close>

definition NewClient :: "go_error + 'e net \<Rightarrow> string \<Rightarrow> string \<Rightarrow> string \<Rightarrow> nat \<Rightarrow> go_error + 'e httpClient" where
  "NewClient transport host username password maxRetries =
     (if host = [] then Inl (errors_New ''nutanix client: host is required'')
      else if username = [] \<or> password = [] then Inl (errors_New ''nutanix client: username and password are required'')
      else case transport of
          Inl err \<Rightarrow> Inl (errorf_w ''nutanix client: failed to build transport: '' err)
        | Inr t \<Rightarrow> Inr \<lparr>hc_client = t, hc_host = TrimRight host CHR ''/'', hc_username = username, hc_password = password,
                        hc_maxRetries = (if maxRetries = 0 then 3 else maxRetries)\<rparr>)"

section \<open>Requests\<close>

definition api_error :: "http_response \<Rightarrow> string \<Rightarrow> go_error" where
  "api_error resp url =
     errors_New (''nutanix API error: '' @ show_int (rs_Status resp) @ '' '' @ rs_Text resp @ '' (url: '' @ url @ '')'')"

definition shouldRetry :: "int \<Rightarrow> bool \<Rightarrow> bool" where
  "shouldRetry statusCode isErr = (isErr \<or> statusCode = 429 \<or> statusCode \<ge> 500)"

definition backoffDuration :: "nat \<Rightarrow> int" where
  "backoffDuration attempt = 2 ^ attempt * 1000000000"

definition sleepWithContext :: "'e httpClient \<Rightarrow> int \<Rightarrow> 'e nstate \<Rightarrow> bool \<times> 'e nstate" where
  "sleepWithContext c d st = (case net_Sleep (hc_client c) d (st_env st) of (cancelled, e) \<Rightarrow> (cancelled, st\<lparr>st_env := e\<rparr>))"

definition client_Do :: "'e httpClient \<Rightarrow> http_request \<Rightarrow> 'e nstate \<Rightarrow> (go_error + http_response) \<times> bool \<times> 'e nstate" where
  "client_Do c req st =
     (case net_Do (hc_client c) req (st_env st) of
        (r, drained, e) \<Rightarrow> (r, drained, st\<lparr>st_env := e, st_log := st_log st @ [req]\<rparr>))"

definition client_Now :: "'e httpClient \<Rightarrow> 'e nstate \<Rightarrow> int \<times> 'e nstate" where
  "client_Now c st = (case net_Now (hc_client c) (st_env st) of (t, e) \<Rightarrow> (t, st\<lparr>st_env := e\<rparr>))"

definition basic_request :: "'e httpClient \<Rightarrow> string \<Rightarrow> string \<Rightarrow> bool \<Rightarrow> json option \<Rightarrow> http_request" where
  "basic_request c method url hasBody content =
     \<lparr>rq_Method = method, rq_URL = url, rq_Auth = Some (hc_username c, hc_password c), rq_Cookie = None, rq_Range = [],
      rq_ContentType = (hasBody \<and> (method = ''POST'' \<or> method = ''PUT'' \<or> method = ''PATCH'')), rq_Body = content\<rparr>"

text \<open>
  One round of the retry loop and the loop. The body is a reader that all attempts share: \<open>content\<close> is
  what is left in it, nothing once a round trip has read it. \<open>left\<close> counts the attempts after this one.
\<close>

fun request_loop ::
  "'e httpClient \<Rightarrow> string \<Rightarrow> string \<Rightarrow> bool \<Rightarrow> json option \<Rightarrow> nat \<Rightarrow> nat \<Rightarrow> 'e nstate \<Rightarrow> (go_error + http_response) \<times> 'e nstate" where
  "request_loop c method url hasBody content attempt left st =
     (case net_ParseURL (hc_client c) url of
        Some err \<Rightarrow> (Inl (errorf_w ''nutanix client: failed to create request: '' err), st)
      | None \<Rightarrow>
          (case client_Do c (basic_request c method url hasBody content) st of
             (r, drained, st1) \<Rightarrow>
               let content' = (if drained then None else content);
                   retry = (\<lambda>failure. case left of
                       0 \<Rightarrow> (Inl failure, st1)
                     | Suc l \<Rightarrow> request_loop c method url hasBody content' (Suc attempt) l
                                  (snd (sleepWithContext c (backoffDuration attempt) st1)))
               in case r of
                   Inl err \<Rightarrow> retry (errorf_w ''nutanix client: request failed: '' err)
                 | Inr resp \<Rightarrow>
                     if 200 \<le> rs_Status resp \<and> rs_Status resp < 300 then (Inr resp, st1)
                     else if shouldRetry (rs_Status resp) False then retry (api_error resp url)
                     else (Inl (api_error resp url), st1)))"

definition doRequest ::
  "'e httpClient \<Rightarrow> string \<Rightarrow> string \<Rightarrow> json option \<Rightarrow> 'e nstate \<Rightarrow> (go_error + http_response) \<times> 'e nstate" where
  "doRequest c method url body st = request_loop c method url (body \<noteq> None) body 0 (hc_maxRetries c) st"

definition doJSON ::
  "'e httpClient \<Rightarrow> string \<Rightarrow> string \<Rightarrow> json option \<Rightarrow> (json \<Rightarrow> 'a option) \<Rightarrow> 'e nstate \<Rightarrow> (go_error + 'a) \<times> 'e nstate" where
  "doJSON c method url body dec st =
     (case doRequest c method url body st of
        (Inl err, st1) \<Rightarrow> (Inl err, st1)
      | (Inr resp, st1) \<Rightarrow>
          (case Option.bind (rs_Json resp) dec of
             None \<Rightarrow> (Inl (errorf_w ''nutanix client: failed to decode response: '' (net_JsonErr (hc_client c) resp)), st1)
           | Some x \<Rightarrow> (Inr x, st1)))"

definition labelled :: "string \<Rightarrow> go_error \<Rightarrow> go_error" where
  "labelled what err = errorf_w (''nutanix client: '' @ what @ '': '') err"

definition fails :: "string \<Rightarrow> string \<Rightarrow> go_error" where
  "fails what msg = errors_New (''nutanix client: '' @ what @ '': '' @ msg)"

section \<open>Response wrappers\<close>

definition dec_data :: "(json \<Rightarrow> 'a option) \<Rightarrow> json \<Rightarrow> 'a option" where
  "dec_data dec j = (if \<not> is_struct j then None else dec (get_field ''data'' j))"

definition dec_task_ref :: "json \<Rightarrow> string option" where
  "dec_task_ref = dec_data (\<lambda>d. if \<not> is_struct d then None else dec_string (get_field ''extId'' d))"

record ListMetadata =
  lm_TotalAvailableResults :: int
  lm_Offset :: int

definition dec_ListMetadata :: "json \<Rightarrow> ListMetadata option" where
  "dec_ListMetadata j =
     (if \<not> is_struct j then None
      else do { t \<leftarrow> dec_int (get_field ''totalAvailableResults'' j); off \<leftarrow> dec_int (get_field ''offset'' j);
                Some \<lparr>lm_TotalAvailableResults = t, lm_Offset = off\<rparr> })"

definition dec_page :: "(json \<Rightarrow> 'a option) \<Rightarrow> json \<Rightarrow> ('a list \<times> ListMetadata option) option" where
  "dec_page dec j =
     (if \<not> is_struct j then None
      else do { xs \<leftarrow> dec_list dec (get_field ''data'' j); m \<leftarrow> dec_ptr dec_ListMetadata (get_field ''metadata'' j);
                Some (xs, m) })"

section \<open>Tasks\<close>

text \<open>\<^verbatim>\<open>Duration.String\<close> for a whole number of seconds.\<close>

definition show_seconds :: "int \<Rightarrow> string" where
  "show_seconds d =
     (let s = nat d div 1000000000; h = s div 3600; m = s div 60
      in if h > 0 then show_nat h @ ''h'' @ show_nat (m mod 60) @ ''m'' @ show_nat (s mod 60) @ ''s''
         else if m > 0 then show_nat m @ ''m'' @ show_nat (s mod 60) @ ''s'' else show_nat s @ ''s'')"

definition task_failure :: "Task \<Rightarrow> string" where
  "task_failure task = (case task_ErrorMessages task of [] \<Rightarrow> ''unknown error'' | m # _ \<Rightarrow> te_Message m)"

definition task_url :: "'e httpClient \<Rightarrow> string \<Rightarrow> string" where
  "task_url c taskUUID = hc_host c @ ''/api/prism/v4.0/config/tasks/'' @ taskUUID"

partial_function (option) poll_loop ::
  "'e httpClient \<Rightarrow> string \<Rightarrow> int \<Rightarrow> int \<Rightarrow> int \<Rightarrow> 'e nstate \<Rightarrow> ((go_error + Task) \<times> 'e nstate) option" where
  "poll_loop c taskUUID interval timeout deadline st =
     (case client_Now c st of
        (now, st1) \<Rightarrow>
          if now > deadline
          then Some (Inl (errors_New (''nutanix client: task '' @ taskUUID @ '' timed out after '' @ show_seconds timeout)), st1)
          else case doJSON c ''GET'' (task_url c taskUUID) None dec_Task st1 of
              (Inl err, st2) \<Rightarrow> Some (Inl (errorf_w (''nutanix client: failed to poll task '' @ taskUUID @ '': '') err), st2)
            | (Inr task, st2) \<Rightarrow>
                if task_Status task = ''SUCCEEDED'' then Some (Inr task, st2)
                else if task_Status task = ''FAILED''
                then Some (Inl (errors_New (''nutanix client: task '' @ taskUUID @ '' failed: '' @ task_failure task)), st2)
                else if task_Status task = ''CANCELLED''
                then Some (Inl (errors_New (''nutanix client: task '' @ taskUUID @ '' was cancelled'')), st2)
                else if task_Status task = ''QUEUED'' \<or> task_Status task = ''RUNNING''
                then (case sleepWithContext c interval st2 of
                        (cancelled, st3) \<Rightarrow>
                          if cancelled
                          then Some (Inl (errorf_w (''nutanix client: context cancelled while polling task '' @ taskUUID @ '': '')
                                            (net_CtxErr (hc_client c))), st3)
                          else poll_loop c taskUUID interval timeout deadline st3)
                else Some (Inl (errors_New (''nutanix client: task '' @ taskUUID @ '' has unknown status: '' @ task_Status task)), st2))"

definition pollTaskWithOptions ::
  "'e httpClient \<Rightarrow> string \<Rightarrow> int \<Rightarrow> int \<Rightarrow> 'e nstate \<Rightarrow> ((go_error + Task) \<times> 'e nstate) option" where
  "pollTaskWithOptions c taskUUID interval timeout st =
     (case client_Now c st of (now, st1) \<Rightarrow> poll_loop c taskUUID interval timeout (now + timeout) st1)"

abbreviation DefaultPollInterval :: int where "DefaultPollInterval \<equiv> 2000000000"
abbreviation DefaultPollTimeout :: int where "DefaultPollTimeout \<equiv> 1800000000000"

definition PollTask :: "'e httpClient \<Rightarrow> string \<Rightarrow> 'e nstate \<Rightarrow> ((go_error + Task) \<times> 'e nstate) option" where
  "PollTask c taskUUID = pollTaskWithOptions c taskUUID DefaultPollInterval DefaultPollTimeout"

text \<open>The pattern of every asynchronous operation: a request that returns a task, then the poll.\<close>

definition run_task ::
  "'e httpClient \<Rightarrow> string \<Rightarrow> string \<Rightarrow> string \<Rightarrow> json option \<Rightarrow> 'e nstate \<Rightarrow> ((go_error + Task) \<times> 'e nstate) option" where
  "run_task c what method url body st =
     (case doJSON c method url body dec_task_ref st of
        (Inl err, st1) \<Rightarrow> Some (Inl (labelled what err), st1)
      | (Inr extID, st1) \<Rightarrow>
          if extID = [] then Some (Inl (fails what ''no task ID returned''), st1)
          else map_option (\<lambda>(r, st2). (case r of Inl err \<Rightarrow> Inl (labelled what err) | Inr task \<Rightarrow> Inr task, st2)) (PollTask c extID st1))"

definition task_done :: "((go_error + Task) \<times> 'e nstate) option \<Rightarrow> (go_error option \<times> 'e nstate) option" where
  "task_done = map_option (\<lambda>(r, st). (case r of Inl err \<Rightarrow> Some err | Inr task \<Rightarrow> None, st))"

fun find_entity :: "string list \<Rightarrow> TaskEntity list \<Rightarrow> string option" where
  "find_entity rels [] = None"
| "find_entity rels (e # es) = (if ten_Rel e \<in> set rels then Some (ten_ExtID e) else find_entity rels es)"

definition task_entity :: "string \<Rightarrow> string \<Rightarrow> string list \<Rightarrow> Task \<Rightarrow> go_error + string" where
  "task_entity what kind rels task =
     (case find_entity rels (task_EntitiesAffected task) of
        Some u \<Rightarrow> Inr u
      | None \<Rightarrow>
          (case task_EntitiesAffected task of
             e # _ \<Rightarrow> Inr (ten_ExtID e)
           | [] \<Rightarrow> Inl (fails what (''no '' @ kind @ '' UUID in task entities''))))"

definition task_result ::
  "string \<Rightarrow> string \<Rightarrow> string list \<Rightarrow> ((go_error + Task) \<times> 'e nstate) option \<Rightarrow> ((go_error + string) \<times> 'e nstate) option" where
  "task_result what kind rels =
     map_option (\<lambda>(r, st). (case r of Inl err \<Rightarrow> Inl err | Inr task \<Rightarrow> task_entity what kind rels task, st))"

section \<open>Pagination\<close>

abbreviation pageSize :: nat where "pageSize \<equiv> 500"

definition page_url :: "'e httpClient \<Rightarrow> string \<Rightarrow> nat \<Rightarrow> string" where
  "page_url c path offset = hc_host c @ path @ ''?$top='' @ show_nat pageSize @ ''&$skip='' @ show_nat offset"

partial_function (option) list_loop ::
  "'e httpClient \<Rightarrow> string \<Rightarrow> string \<Rightarrow> (json \<Rightarrow> 'a option) \<Rightarrow> nat \<Rightarrow> 'a list \<Rightarrow> 'e nstate \<Rightarrow> ((go_error + 'a list) \<times> 'e nstate) option" where
  "list_loop c what path dec offset acc st =
     (case doJSON c ''GET'' (page_url c path offset) None (dec_page dec) st of
        (Inl err, st1) \<Rightarrow> Some (Inl (labelled what err), st1)
      | (Inr (xs, metadata), st1) \<Rightarrow>
          (case metadata of
             None \<Rightarrow> Some (Inr (acc @ xs), st1)
           | Some m \<Rightarrow>
               if int (length (acc @ xs)) \<ge> lm_TotalAvailableResults m then Some (Inr (acc @ xs), st1)
               else list_loop c what path dec (offset + pageSize) (acc @ xs) st1))"

section \<open>Virtual machines\<close>

abbreviation vmBasePath :: string where "vmBasePath \<equiv> ''/api/vmm/v4.0/ahv/config/vms''"
abbreviation imageBasePath :: string where "imageBasePath \<equiv> ''/api/vmm/v4.0/images''"
abbreviation recoveryPointBasePath :: string where "recoveryPointBasePath \<equiv> ''/api/dataprotection/v4.0/config/recovery-points''"
abbreviation clusterBasePath :: string where "clusterBasePath \<equiv> ''/api/clustermgmt/v4.0/config/clusters''"
abbreviation subnetBasePath :: string where "subnetBasePath \<equiv> ''/api/networking/v4.0/config/subnets''"
abbreviation storageContainerV2Path :: string where
  "storageContainerV2Path \<equiv> ''/PrismGateway/services/rest/v2.0/storage_containers''"
abbreviation cbtDiscoverPath :: string where
  "cbtDiscoverPath \<equiv> ''/api/storage/v4.0/config/changed-regions/$actions/discover-cluster''"
abbreviation cbtChangedRegionsPath :: string where "cbtChangedRegionsPath \<equiv> ''/api/storage/v4.0/config/changed-regions''"

definition http_ListVMs :: "'e httpClient \<Rightarrow> 'e nstate \<Rightarrow> ((go_error + VM list) \<times> 'e nstate) option" where
  "http_ListVMs c = list_loop c ''ListVMs'' vmBasePath dec_VM 0 []"

definition http_GetVM :: "'e httpClient \<Rightarrow> string \<Rightarrow> 'e nstate \<Rightarrow> (go_error + VM) \<times> 'e nstate" where
  "http_GetVM c uuid st =
     (case doJSON c ''GET'' (hc_host c @ vmBasePath @ ''/'' @ uuid) None (dec_data dec_VM) st of
        (Inl err, st1) \<Rightarrow> (Inl (labelled ''GetVM'' err), st1)
      | (Inr vm, st1) \<Rightarrow> (Inr vm, st1))"

definition http_PowerOffVM :: "'e httpClient \<Rightarrow> string \<Rightarrow> 'e nstate \<Rightarrow> (go_error option \<times> 'e nstate) option" where
  "http_PowerOffVM c uuid st =
     task_done (run_task c ''PowerOffVM'' ''POST'' (hc_host c @ vmBasePath @ ''/'' @ uuid @ ''/$actions/power-off'') (Some (JObject [])) st)"

definition http_PowerOnVM :: "'e httpClient \<Rightarrow> string \<Rightarrow> 'e nstate \<Rightarrow> (go_error option \<times> 'e nstate) option" where
  "http_PowerOnVM c uuid st =
     task_done (run_task c ''PowerOnVM'' ''POST'' (hc_host c @ vmBasePath @ ''/'' @ uuid @ ''/$actions/power-on'') (Some (JObject [])) st)"

definition http_GetVMPowerState :: "'e httpClient \<Rightarrow> string \<Rightarrow> 'e nstate \<Rightarrow> (go_error + string) \<times> 'e nstate" where
  "http_GetVMPowerState c uuid st =
     (case http_GetVM c uuid st of
        (Inl err, st1) \<Rightarrow> (Inl (labelled ''GetVMPowerState'' err), st1)
      | (Inr vm, st1) \<Rightarrow> (Inr (vm_PowerState vm), st1))"

definition http_DeleteVM :: "'e httpClient \<Rightarrow> string \<Rightarrow> 'e nstate \<Rightarrow> (go_error option \<times> 'e nstate) option" where
  "http_DeleteVM c uuid st = task_done (run_task c ''DeleteVM'' ''DELETE'' (hc_host c @ vmBasePath @ ''/'' @ uuid) None st)"

section \<open>Recovery points and images\<close>

definition http_CreateRecoveryPoint ::
  "'e httpClient \<Rightarrow> string \<Rightarrow> string \<Rightarrow> 'e nstate \<Rightarrow> ((go_error + string) \<times> 'e nstate) option" where
  "http_CreateRecoveryPoint c vmUUID name st =
     task_result ''CreateRecoveryPoint'' ''recovery point'' [''dataprotection:config:recovery-point'', ''recovery-point'']
       (run_task c ''CreateRecoveryPoint'' ''POST'' (hc_host c @ recoveryPointBasePath)
         (Some (JObject [(''name'', JString name), (''recoveryPointType'', JString ''APPLICATION_CONSISTENT''),
                         (''vmRecoveryPoints'', JArray [JObject [(''vmExtId'', JString vmUUID)]])])) st)"

definition http_GetRecoveryPoint :: "'e httpClient \<Rightarrow> string \<Rightarrow> 'e nstate \<Rightarrow> (go_error + RecoveryPoint) \<times> 'e nstate" where
  "http_GetRecoveryPoint c uuid st =
     (case doJSON c ''GET'' (hc_host c @ recoveryPointBasePath @ ''/'' @ uuid) None (dec_data dec_RecoveryPoint) st of
        (Inl err, st1) \<Rightarrow> (Inl (labelled ''GetRecoveryPoint'' err), st1)
      | (Inr rp, st1) \<Rightarrow> (Inr rp, st1))"

definition http_DeleteRecoveryPoint :: "'e httpClient \<Rightarrow> string \<Rightarrow> 'e nstate \<Rightarrow> (go_error option \<times> 'e nstate) option" where
  "http_DeleteRecoveryPoint c uuid st =
     task_done (run_task c ''DeleteRecoveryPoint'' ''DELETE'' (hc_host c @ recoveryPointBasePath @ ''/'' @ uuid) None st)"

definition http_CreateImageFromDisk ::
  "'e httpClient \<Rightarrow> string \<Rightarrow> string \<Rightarrow> string \<Rightarrow> 'e nstate \<Rightarrow> ((go_error + string) \<times> 'e nstate) option" where
  "http_CreateImageFromDisk c name diskUUID clusterRef st =
     task_result ''CreateImageFromDisk'' ''image'' [''vmm:images:image'', ''image'']
       (run_task c ''CreateImageFromDisk'' ''POST'' (hc_host c @ imageBasePath)
         (Some (JObject [(''name'', JString name),
                         (''source'', JObject [(''$objectType'', JString ''vmm.v4.images.VmDiskImageSource''),
                                               (''extId'', JString clusterRef), (''vmDiskExtId'', JString diskUUID)]),
                         (''type'', JString ''DISK_IMAGE'')])) st)"

definition http_GetImage :: "'e httpClient \<Rightarrow> string \<Rightarrow> 'e nstate \<Rightarrow> (go_error + Image) \<times> 'e nstate" where
  "http_GetImage c uuid st =
     (case doJSON c ''GET'' (hc_host c @ imageBasePath @ ''/'' @ uuid) None (dec_data dec_Image) st of
        (Inl err, st1) \<Rightarrow> (Inl (labelled ''GetImage'' err), st1)
      | (Inr img, st1) \<Rightarrow> (Inr img, st1))"

text \<open>The result is what is written to the writer; a failure of the copy itself is not modelled.\<close>

definition http_DownloadImage :: "'e httpClient \<Rightarrow> string \<Rightarrow> 'e nstate \<Rightarrow> (go_error + string) \<times> 'e nstate" where
  "http_DownloadImage c uuid st =
     (case doRequest c ''GET'' (hc_host c @ imageBasePath @ ''/'' @ uuid @ ''/file'') None st of
        (Inl err, st1) \<Rightarrow> (Inl (labelled ''DownloadImage'' err), st1)
      | (Inr resp, st1) \<Rightarrow> (Inr (rs_Text resp), st1))"

definition http_DeleteImage :: "'e httpClient \<Rightarrow> string \<Rightarrow> 'e nstate \<Rightarrow> (go_error option \<times> 'e nstate) option" where
  "http_DeleteImage c uuid st = task_done (run_task c ''DeleteImage'' ''DELETE'' (hc_host c @ imageBasePath @ ''/'' @ uuid) None st)"

definition http_CloneVMFromRecoveryPoint ::
  "'e httpClient \<Rightarrow> string \<Rightarrow> string \<Rightarrow> 'e nstate \<Rightarrow> ((go_error + string) \<times> 'e nstate) option" where
  "http_CloneVMFromRecoveryPoint c recoveryPointUUID vmName st =
     task_result ''CloneVMFromRecoveryPoint'' ''VM'' [''vmm:ahv:config:vm'', ''vm'']
       (run_task c ''CloneVMFromRecoveryPoint'' ''POST''
         (hc_host c @ recoveryPointBasePath @ ''/'' @ recoveryPointUUID @ ''/$actions/vm-recovery'')
         (Some (JObject [(''vmRecoveryPoints'', JArray [JObject [(''vmName'', JString vmName)]])])) st)"

section \<open>Changed block tracking\<close>

abbreviation CBTTokenMaxAge :: int where "CBTTokenMaxAge \<equiv> 720000000000"
abbreviation CBTJWTCookieName :: string where "CBTJWTCookieName \<equiv> ''NTNX_IGW_SESSION''"

definition http_DiscoverClusterForCBT :: "'e httpClient \<Rightarrow> string \<Rightarrow> 'e nstate \<Rightarrow> (go_error + CBTClusterInfo) \<times> 'e nstate" where
  "http_DiscoverClusterForCBT c vmUUID st =
     (case doJSON c ''POST'' (hc_host c @ cbtDiscoverPath) (Some (JObject [(''vmExtId'', JString vmUUID)])) (dec_data dec_CBTClusterInfo) st of
        (Inl err, st1) \<Rightarrow> (Inl (labelled ''DiscoverClusterForCBT'' err), st1)
      | (Inr info, st1) \<Rightarrow>
          if cbt_PrismElementURL info = [] \<or> cbt_JWTToken info = []
          then (Inl (fails ''DiscoverClusterForCBT'' ''incomplete response (missing PE URL or JWT token)''), st1)
          else case client_Now c st1 of
              (now, st2) \<Rightarrow>
                (Inr info, st2\<lparr>st_cbtTokens := (st_cbtTokens st2)(vmUUID \<mapsto>
                   \<lparr>tok_prismElementURL = cbt_PrismElementURL info, tok_jwtToken = cbt_JWTToken info, tok_discoveredAt = now\<rparr>)\<rparr>))"

definition cbt_url :: "string \<Rightarrow> string \<Rightarrow> string \<Rightarrow> string \<Rightarrow> int \<Rightarrow> int \<Rightarrow> int \<Rightarrow> string" where
  "cbt_url peURL vmUUID snapshotUUID baseSnapshotUUID offset len blockSize =
     TrimRight peURL CHR ''/'' @ cbtChangedRegionsPath @ ''?vmExtId='' @ vmUUID @ ''&snapshotExtId='' @ snapshotUUID @
     ''&baseSnapshotExtId='' @ baseSnapshotUUID @ ''&offset='' @ show_int offset @ ''&length='' @ show_int len @
     ''&blockSize='' @ show_int blockSize"

text \<open>The token to use: the one given, or a new one when the cached one of the VM is too old.\<close>

definition fresh_token ::
  "'e httpClient \<Rightarrow> string \<Rightarrow> string \<Rightarrow> string \<Rightarrow> 'e nstate \<Rightarrow> (go_error + (string \<times> string)) \<times> 'e nstate" where
  "fresh_token c peURL jwtToken vmUUID st =
     (case st_cbtTokens st vmUUID of
        None \<Rightarrow> (Inr (peURL, jwtToken), st)
      | Some entry \<Rightarrow>
          (case client_Now c st of
             (now, st1) \<Rightarrow>
               if now - tok_discoveredAt entry > CBTTokenMaxAge
               then (case http_DiscoverClusterForCBT c vmUUID st1 of
                       (Inl err, st2) \<Rightarrow> (Inl (labelled ''GetChangedRegions: token refresh failed'' err), st2)
                     | (Inr info, st2) \<Rightarrow> (Inr (cbt_PrismElementURL info, cbt_JWTToken info), st2))
               else (Inr (peURL, jwtToken), st1)))"

definition http_GetChangedRegions ::
  "'e httpClient \<Rightarrow> string \<Rightarrow> string \<Rightarrow> string \<Rightarrow> string \<Rightarrow> string \<Rightarrow> int \<Rightarrow> int \<Rightarrow> int \<Rightarrow> 'e nstate \<Rightarrow>
     (go_error + ChangedRegions) \<times> 'e nstate" where
  "http_GetChangedRegions c peURL jwtToken vmUUID snapshotUUID baseSnapshotUUID offset len blockSize st =
     (case fresh_token c peURL jwtToken vmUUID st of
        (Inl err, st1) \<Rightarrow> (Inl err, st1)
      | (Inr (effectivePEURL, effectiveToken), st1) \<Rightarrow>
          (let url = cbt_url effectivePEURL vmUUID snapshotUUID baseSnapshotUUID offset len blockSize in
           case net_ParseURL (hc_client c) url of
             Some err \<Rightarrow> (Inl (labelled ''GetChangedRegions: failed to create request'' err), st1)
           | None \<Rightarrow>
               (case client_Do c \<lparr>rq_Method = ''GET'', rq_URL = url, rq_Auth = None, rq_Cookie = Some (CBTJWTCookieName, effectiveToken), rq_Range = [],
                                  rq_ContentType = False, rq_Body = None\<rparr> st1 of
                  (Inl err, drained, st2) \<Rightarrow> (Inl (labelled ''GetChangedRegions: request failed'' err), st2)
                | (Inr resp, drained, st2) \<Rightarrow>
                    if rs_Status resp < 200 \<or> rs_Status resp \<ge> 300 then (Inl (api_error resp url), st2)
                    else (case Option.bind (rs_Json resp) (dec_data dec_ChangedRegions) of
                            None \<Rightarrow> (Inl (labelled ''GetChangedRegions: failed to decode response'' (net_JsonErr (hc_client c) resp)), st2)
                          | Some regions \<Rightarrow> (Inr regions, st2)))))"

section \<open>Networks, clusters and storage\<close>

definition http_ListSubnets :: "'e httpClient \<Rightarrow> 'e nstate \<Rightarrow> ((go_error + Subnet list) \<times> 'e nstate) option" where
  "http_ListSubnets c = list_loop c ''ListSubnets'' subnetBasePath dec_Subnet 0 []"

definition http_ListClusters :: "'e httpClient \<Rightarrow> 'e nstate \<Rightarrow> ((go_error + Cluster list) \<times> 'e nstate) option" where
  "http_ListClusters c = list_loop c ''ListClusters'' clusterBasePath dec_Cluster 0 []"

record v2Metadata =
  v2_GrandTotalEntities :: int
  v2_TotalEntities :: int

definition dec_v2Metadata :: "json \<Rightarrow> v2Metadata option" where
  "dec_v2Metadata j =
     (if \<not> is_struct j then None
      else do { g \<leftarrow> dec_int (get_field ''grandTotalEntities'' j); t \<leftarrow> dec_int (get_field ''totalEntities'' j);
                Some \<lparr>v2_GrandTotalEntities = g, v2_TotalEntities = t\<rparr> })"

definition dec_containers :: "json \<Rightarrow> StorageContainer list option" where
  "dec_containers j =
     (if \<not> is_struct j then None
      else do { xs \<leftarrow> dec_list dec_StorageContainer (get_field ''entities'' j);
                m \<leftarrow> dec_ptr dec_v2Metadata (get_field ''metadata'' j); Some xs })"

definition http_ListStorageContainers ::
  "'e httpClient \<Rightarrow> string \<Rightarrow> 'e nstate \<Rightarrow> (go_error + StorageContainer list) \<times> 'e nstate" where
  "http_ListStorageContainers c peURL st =
     (case doJSON c ''GET'' (TrimRight peURL CHR ''/'' @ storageContainerV2Path) None dec_containers st of
        (Inl err, st1) \<Rightarrow> (Inl (labelled ''ListStorageContainers'' err), st1)
      | (Inr xs, st1) \<Rightarrow> (Inr xs, st1))"

section \<open>Requests are bounded\<close>

declare request_loop.simps [simp del]

lemma request_loop_spec:
  assumes "request_loop c method url hasBody content attempt left st = (r, st')"
  shows "\<exists>reqs. st_log st' = st_log st @ reqs \<and> length reqs \<le> Suc left \<and>
    (\<forall>q \<in> set reqs. rq_Method q = method \<and> rq_URL q = url) \<and> (\<forall>resp. r = Inr resp \<longrightarrow> 200 \<le> rs_Status resp \<and> rs_Status resp < 300)"
  using assms
proof (induction left arbitrary: content attempt st r st')
  case 0
  then show ?case
    by (auto simp: request_loop.simps [of _ _ _ _ _ _ 0] client_Do_def basic_request_def Let_def split: option.splits prod.splits sum.splits if_splits)
next
  case (Suc left)
  show ?case
  proof (cases "net_ParseURL (hc_client c) url")
    case (Some err)
    then show ?thesis using Suc.prems by (auto simp: request_loop.simps [of _ _ _ _ _ _ "Suc left"])
  next
    case None
    let ?q = "basic_request c method url hasBody content"
    obtain x drained st1 where d: "client_Do c ?q st = (x, drained, st1)" by (metis prod_cases3)
    have log: "st_log st1 = st_log st @ [?q]" using d by (auto simp: client_Do_def split: prod.splits)
    let ?content = "if drained then None else content"
    let ?st2 = "snd (sleepWithContext c (backoffDuration attempt) st1)"
    have log2: "st_log ?st2 = st_log st @ [?q]" using log by (simp add: sleepWithContext_def split: prod.split)
    have q: "rq_Method ?q = method" "rq_URL ?q = url" by (simp_all add: basic_request_def)
    consider (again) "request_loop c method url hasBody ?content (Suc attempt) left ?st2 = (r, st')"
      | (ok) resp where "x = Inr resp" "200 \<le> rs_Status resp" "rs_Status resp < 300" "r = Inr resp" "st' = st1"
      | (bad) err where "r = Inl err" "st' = st1"
      using Suc.prems None d by (fastforce simp: request_loop.simps [of _ _ _ _ _ _ "Suc left"] Let_def split: sum.splits if_splits)
    then show ?thesis
    proof cases
      case again
      from Suc.IH [OF again] obtain reqs where "st_log st' = st_log ?st2 @ reqs" "length reqs \<le> Suc left"
        "\<forall>q \<in> set reqs. rq_Method q = method \<and> rq_URL q = url" "\<forall>resp. r = Inr resp \<longrightarrow> 200 \<le> rs_Status resp \<and> rs_Status resp < 300"
        by blast
      then show ?thesis using log2 q by (intro exI [of _ "?q # reqs"]) auto
    qed (use log q in \<open>auto intro!: exI [of _ "[?q]"]\<close>)
  qed
qed

text \<open>
  A request is bounded and honest: \<^verbatim>\<open>doRequest\<close> sends at most \<^verbatim>\<open>maxRetries + 1\<close> requests, all with the given
  method and URL, and hands out a response only if its status is 2xx.
\<close>

theorem doRequest_bounded:
  assumes "doRequest c method url body st = (r, st')"
  shows "\<exists>reqs. st_log st' = st_log st @ reqs \<and> length reqs \<le> hc_maxRetries c + 1 \<and>
    (\<forall>q \<in> set reqs. rq_Method q = method \<and> rq_URL q = url) \<and> (\<forall>resp. r = Inr resp \<longrightarrow> 200 \<le> rs_Status resp \<and> rs_Status resp < 300)"
  using request_loop_spec [OF assms [unfolded doRequest_def]] by simp

text \<open>
  A retried request loses its body. All attempts of \<^verbatim>\<open>doRequest\<close> share one reader: when the server has read
  the body of the first attempt and answers with a status that is retried, the second attempt is sent
  with the same headers and without a body.
\<close>

theorem doRequest_retry_loses_body:
  assumes "net_ParseURL (hc_client c) url = None" and "0 < hc_maxRetries c"
    and "net_Do (hc_client c) (basic_request c method url True (Some body)) (st_env st) = (Inr resp, True, e')"
    and "shouldRetry (rs_Status resp) False"
    and "doRequest c method url (Some body) st = (r, st')"
  shows "\<exists>rest. st_log st' = st_log st @ basic_request c method url True (Some body) # basic_request c method url True None # rest"
proof -
  obtain l where l: "hc_maxRetries c = Suc l" using assms(2) by (cases "hc_maxRetries c") auto
  let ?st1 = "st\<lparr>st_env := e', st_log := st_log st @ [basic_request c method url True (Some body)]\<rparr>"
  let ?st2 = "snd (sleepWithContext c (backoffDuration 0) ?st1)"
  have "request_loop c method url True (Some body) 0 (Suc l) st = request_loop c method url True None 1 l ?st2"
    using assms(1,3,4) by (subst request_loop.simps) (auto simp: client_Do_def Let_def shouldRetry_def)
  then have run: "request_loop c method url True None 1 l ?st2 = (r, st')" using assms(5) l by (simp add: doRequest_def)
  obtain x drained e3 where d: "net_Do (hc_client c) (basic_request c method url True None) (st_env ?st2) = (x, drained, e3)"
    by (metis prod_cases3)
  let ?st3 = "?st2\<lparr>st_env := e3, st_log := st_log ?st2 @ [basic_request c method url True None]\<rparr>"
  have log2: "st_log ?st2 = st_log st @ [basic_request c method url True (Some body)]"
    by (simp add: sleepWithContext_def split: prod.split)
  have "st' = ?st3 \<or> (\<exists>l'. l = Suc l' \<and>
      request_loop c method url True None (Suc 1) l' (snd (sleepWithContext c (backoffDuration 1) ?st3)) = (r, st'))"
    using run assms(1) d by (subst (asm) request_loop.simps)
      (auto simp: client_Do_def Let_def split: sum.splits if_splits nat.splits)
  then obtain rest where "st_log st' = st_log ?st3 @ rest"
  proof
    assume "\<exists>l'. l = Suc l' \<and> request_loop c method url True None (Suc 1) l' (snd (sleepWithContext c (backoffDuration 1) ?st3)) = (r, st')"
    then obtain l' where "request_loop c method url True None (Suc 1) l' (snd (sleepWithContext c (backoffDuration 1) ?st3)) = (r, st')"
      by blast
    from request_loop_spec [OF this] show ?thesis using that by (auto simp: sleepWithContext_def split: prod.splits)
  qed (use that in simp)
  then show ?thesis using log2 by simp
qed

section \<open>Polling ends\<close>

text \<open>A clock that never goes back, and that a sleep which is not cancelled moves by its duration.\<close>

definition clock_ok :: "'e net \<Rightarrow> ('e \<Rightarrow> int) \<Rightarrow> bool" where
  "clock_ok n time \<longleftrightarrow>
     (\<forall>e. fst (net_Now n e) = time e \<and> time e \<le> time (snd (net_Now n e))) \<and>
     (\<forall>q e. time e \<le> time (snd (snd (net_Do n q e)))) \<and>
     (\<forall>d e. time e \<le> time (snd (net_Sleep n d e)) \<and> (\<not> fst (net_Sleep n d e) \<longrightarrow> time e + d \<le> time (snd (net_Sleep n d e))))"

lemma clock_steps:
  assumes "clock_ok (hc_client c) time"
  shows "client_Now c st = (t, st') \<Longrightarrow> t = time (st_env st) \<and> time (st_env st) \<le> time (st_env st')"
    and "client_Do c q st = (r, dr, st') \<Longrightarrow> time (st_env st) \<le> time (st_env st')"
    and "sleepWithContext c d st = (b, st') \<Longrightarrow>
      time (st_env st) \<le> time (st_env st') \<and> (\<not> b \<longrightarrow> time (st_env st) + d \<le> time (st_env st'))"
proof -
  assume "client_Now c st = (t, st')"
  moreover have "fst (net_Now (hc_client c) (st_env st)) = time (st_env st)"
    "time (st_env st) \<le> time (snd (net_Now (hc_client c) (st_env st)))" using assms by (simp_all add: clock_ok_def)
  ultimately show "t = time (st_env st) \<and> time (st_env st) \<le> time (st_env st')" by (auto simp: client_Now_def split: prod.splits)
next
  assume "client_Do c q st = (r, dr, st')"
  moreover have "time (st_env st) \<le> time (snd (snd (net_Do (hc_client c) q (st_env st))))" using assms by (simp add: clock_ok_def)
  ultimately show "time (st_env st) \<le> time (st_env st')" by (auto simp: client_Do_def split: prod.splits)
next
  assume "sleepWithContext c d st = (b, st')"
  moreover have "time (st_env st) \<le> time (snd (net_Sleep (hc_client c) d (st_env st)))"
    "\<not> fst (net_Sleep (hc_client c) d (st_env st)) \<longrightarrow> time (st_env st) + d \<le> time (snd (net_Sleep (hc_client c) d (st_env st)))"
    using assms by (simp_all add: clock_ok_def)
  ultimately show "time (st_env st) \<le> time (st_env st') \<and> (\<not> b \<longrightarrow> time (st_env st) + d \<le> time (st_env st'))"
    by (auto simp: sleepWithContext_def split: prod.splits)
qed

lemma request_loop_clock:
  assumes "clock_ok (hc_client c) time"
  shows "request_loop c method url hasBody content attempt left st = (r, st') \<Longrightarrow> time (st_env st) \<le> time (st_env st')"
proof (induction left arbitrary: content attempt st)
  case 0
  then show ?case using clock_steps(2) [OF assms]
    by (force simp: request_loop.simps [of _ _ _ _ _ _ 0] Let_def split: option.splits prod.splits sum.splits if_splits)
next
  case (Suc left)
  obtain x drained st1 where d: "client_Do c (basic_request c method url hasBody content) st = (x, drained, st1)" by (metis prod_cases3)
  obtain b st2 where s: "sleepWithContext c (backoffDuration attempt) st1 = (b, st2)" by fastforce
  have le: "time (st_env st) \<le> time (st_env st1)" "time (st_env st1) \<le> time (st_env st2)"
    using clock_steps(2) [OF assms d] clock_steps(3) [OF assms s] by auto
  have "st' = st \<or> st' = st1 \<or> (\<exists>content'. request_loop c method url hasBody content' (Suc attempt) left st2 = (r, st'))"
    using Suc.prems d s by (fastforce simp: request_loop.simps [of _ _ _ _ _ _ "Suc left"] Let_def split: option.splits sum.splits if_splits)
  then show ?case using Suc.IH le by fastforce
qed

lemma doJSON_clock:
  assumes "clock_ok (hc_client c) time" "doJSON c method url body dec st = (r, st')"
  shows "time (st_env st) \<le> time (st_env st')"
proof -
  obtain x st1 where d: "doRequest c method url body st = (x, st1)" by fastforce
  have "st' = st1" using assms(2) d by (auto simp: doJSON_def split: sum.splits option.splits)
  then show ?thesis using request_loop_clock [OF assms(1) d [unfolded doRequest_def]] by simp
qed

lemma poll_loop_returns:
  assumes "clock_ok (hc_client c) time" and "0 < interval"
  shows "\<exists>r st'. poll_loop c u interval timeout deadline st = Some (r, st')"
proof (induction "nat (deadline + 1 - time (st_env st))" arbitrary: st rule: less_induct)
  case less
  obtain now st1 where n: "client_Now c st = (now, st1)" by fastforce
  obtain x st2 where j: "doJSON c ''GET'' (task_url c u) None dec_Task st1 = (x, st2)" by fastforce
  obtain b st3 where s: "sleepWithContext c interval st2 = (b, st3)" by fastforce
  have t: "now = time (st_env st)" "time (st_env st) \<le> time (st_env st2)" "\<not> b \<Longrightarrow> time (st_env st2) + interval \<le> time (st_env st3)"
    using clock_steps(1) [OF assms(1) n] doJSON_clock [OF assms(1) j] clock_steps(3) [OF assms(1) s] by auto
  have IH: "\<exists>r st'. poll_loop c u interval timeout deadline st3 = Some (r, st')" if "\<not> b" "now \<le> deadline"
    by (rule less.hyps) (use that t assms(2) in simp)
  show ?case
    by (subst poll_loop.simps) (use IH n j s in \<open>auto split: sum.splits\<close>)
qed

text \<open>
  C33. Polling ends. Whatever the server answers, \<^verbatim>\<open>pollTaskWithOptions\<close> returns: with a clock that never goes
  back and that a sleep moves on, a positive interval is enough for the deadline to be reached.
\<close>

theorem pollTask_returns:
  assumes "clock_ok (hc_client c) time" and "0 < interval"
  shows "\<exists>r st'. pollTaskWithOptions c taskUUID interval timeout st = Some (r, st')"
proof -
  obtain now st1 where "client_Now c st = (now, st1)" by fastforce
  then show ?thesis using poll_loop_returns [OF assms] by (simp add: pollTaskWithOptions_def)
qed

section \<open>Pagination may not end\<close>

lemma list_loop_stuck:
  assumes "\<And>offset st. \<exists>st'. doJSON c ''GET'' (page_url c path offset) None (dec_page dec) st = (Inr ([], Some m), st')"
    and "int (length acc) < lm_TotalAvailableResults m"
  shows "list_loop c what path dec offset acc st = None"
proof (rule ccontr)
  assume "list_loop c what path dec offset acc st \<noteq> None"
  then obtain y where y: "list_loop c what path dec offset acc st = Some y" by blast
  have "\<lbrakk>list_loop c' what' path' dec' offset acc' st = Some y\<rbrakk> \<Longrightarrow> c' = c \<longrightarrow> path' = path \<longrightarrow> dec' = dec \<longrightarrow> acc' = acc \<longrightarrow> False"
    for c' what' path' dec' offset acc' st y
  proof (induction rule: list_loop.raw_induct [rotated, consumes 1])
    case (1 loop c' what' path' dec' offset acc' st y)
    show ?case
    proof (intro impI)
      assume eq: "c' = c" "path' = path" "dec' = dec" "acc' = acc"
      obtain st1 where "doJSON c ''GET'' (page_url c path offset) None (dec_page dec) st = (Inr ([], Some m), st1)" using assms(1) by blast
      with 1(2) eq assms(2) have "loop c what' path dec (offset + pageSize) acc st1 = Some y" by simp
      from 1(1) [OF this] show False by simp
    qed
  qed
  with y show False by blast
qed

text \<open>
  Pagination trusts the reported total. Against a server that answers every page request with no VMs and a
  positive total, for instance because entries it counts are not visible to the user, \<^verbatim>\<open>ListVMs\<close> never
  returns: it requests page after page.
\<close>

theorem ListVMs_never_returns:
  assumes "\<And>url. net_ParseURL (hc_client c) url = None"
    and "\<And>q e. \<exists>dr e'. net_Do (hc_client c) q e = (Inr resp, dr, e')"
    and "rs_Status resp = 200" and "Option.bind (rs_Json resp) (dec_page dec_VM) = Some ([], Some m)"
    and "0 < lm_TotalAvailableResults m"
  shows "http_ListVMs (c :: 'e httpClient) st = None"
  unfolding http_ListVMs_def
proof (rule list_loop_stuck)
  fix offset and st :: "'e nstate"
  obtain dr e' where d: "net_Do (hc_client c) (basic_request c ''GET'' (page_url c vmBasePath offset) False None) (st_env st) = (Inr resp, dr, e')"
    using assms(2) by blast
  have "\<exists>st'. doRequest c ''GET'' (page_url c vmBasePath offset) None st = (Inr resp, st')"
    using assms(1,3) d unfolding doRequest_def by (subst request_loop.simps) (simp add: client_Do_def Let_def)
  then show "\<exists>st'. doJSON c ''GET'' (page_url c vmBasePath offset) None (dec_page dec_VM) st = (Inr ([], Some m), st')"
    using assms(4) by (auto simp: doJSON_def)
qed (use assms(5) in simp)

section \<open>A sample network\<close>

text \<open>A server that gives one answer to everything, with a clock that counts nanoseconds.\<close>

definition echo_net :: "http_response \<Rightarrow> int net" where
  "echo_net resp =
     \<lparr>net_ParseURL = \<lambda>_. None, net_Do = \<lambda>q e. (Inr resp, True, e + 1), net_Now = \<lambda>e. (e, e), net_Sleep = \<lambda>d e. (False, e + max 0 d),
      net_CtxErr = errors_New ''context canceled'', net_JsonErr = \<lambda>_. errors_New ''invalid character''\<rparr>"

definition echo_client :: "http_response \<Rightarrow> int httpClient" where
  "echo_client resp =
     \<lparr>hc_client = echo_net resp, hc_host = ''https://prism:9440'', hc_username = ''admin'', hc_password = ''secret'', hc_maxRetries = 3\<rparr>"

definition echo_state :: "int nstate" where
  "echo_state = \<lparr>st_env = 0, st_log = [], st_cbtTokens = Map.empty\<rparr>"

definition busy_response :: http_response where
  "busy_response = \<lparr>rs_Status = 503, rs_Text = ''busy'', rs_Json = None\<rparr>"

definition empty_page :: http_response where
  "empty_page = \<lparr>rs_Status = 200, rs_Text = [],
     rs_Json = Some (JObject [(''data'', JArray []), (''metadata'', JObject [(''totalAvailableResults'', JNum 1)])])\<rparr>"

lemma echo_clock: "clock_ok (hc_client (echo_client resp)) (\<lambda>e. e)"
  by (simp add: clock_ok_def echo_client_def echo_net_def)

theorem doRequest_bounded_witness:
  "\<exists>r st' reqs. doRequest (echo_client busy_response) ''GET'' ''u'' None echo_state = (r, st') \<and>
     st_log st' = st_log echo_state @ reqs \<and> length reqs \<le> 4 \<and> (\<forall>resp. r \<noteq> Inr resp \<or> 200 \<le> rs_Status resp)"
proof -
  obtain r st' where run: "doRequest (echo_client busy_response) ''GET'' ''u'' None echo_state = (r, st')" by fastforce
  from doRequest_bounded [OF run] run show ?thesis by (fastforce simp: echo_client_def)
qed

theorem doRequest_retry_loses_body_witness:
  "\<exists>r st' rest. doRequest (echo_client busy_response) ''POST'' ''u'' (Some (JObject [])) echo_state = (r, st') \<and>
     st_log st' = basic_request (echo_client busy_response) ''POST'' ''u'' True (Some (JObject [])) #
       basic_request (echo_client busy_response) ''POST'' ''u'' True None # rest"
proof -
  obtain r st' where run: "doRequest (echo_client busy_response) ''POST'' ''u'' (Some (JObject [])) echo_state = (r, st')" by fastforce
  have "\<exists>rest. st_log st' = st_log echo_state @ basic_request (echo_client busy_response) ''POST'' ''u'' True (Some (JObject [])) #
       basic_request (echo_client busy_response) ''POST'' ''u'' True None # rest"
    by (rule doRequest_retry_loses_body [where resp = busy_response and e' = 1, OF _ _ _ _ run])
      (simp_all add: echo_client_def echo_net_def echo_state_def shouldRetry_def busy_response_def)
  then show ?thesis using run by (auto simp: echo_state_def)
qed

theorem pollTask_returns_witness:
  "\<exists>r st'. pollTaskWithOptions (echo_client busy_response) ''task-1'' DefaultPollInterval DefaultPollTimeout echo_state = Some (r, st')"
  by (rule pollTask_returns [OF echo_clock]) simp

theorem ListVMs_never_returns_witness: "http_ListVMs (echo_client empty_page) echo_state = None"
  by (rule ListVMs_never_returns [where resp = empty_page and m = "\<lparr>lm_TotalAvailableResults = 1, lm_Offset = 0\<rparr>"])
    (auto simp: echo_client_def echo_net_def empty_page_def dec_page_def is_struct_def get_field_def dec_list_def dec_ptr_def
      dec_ListMetadata_def dec_int_def int64_def)

end
