(* ===== verification/Mock_Server.thy ===== *)
theory Mock_Server
  imports Mock_Store Prism_Client "HOL-Library.Sublist"
begin

text \<open>
  The handlers of the mock Prism server (\<^verbatim>\<open>pkg/mock/handlers_*.go\<close>, \<^verbatim>\<open>helpers.go\<close>, \<^verbatim>\<open>server.go\<close>). A handler
  takes the request and the store and yields the response, or \<^term>\<open>None\<close> when it panics and the connection is
  closed, together with the new store. Requests are served one after the other. The paths are those of the
  client. Percent-encoding, the path cleaning and redirects of \<^verbatim>\<open>ServeMux\<close> and the response headers are
  not modelled: the client never sends the former (except for identifiers that are not plain) and never reads
  the latter.
\<close>

section \<open>Requests and responses\<close>

type_synonym served = "http_response option \<times> Store"

abbreviation defaultPageSize :: int where "defaultPageSize \<equiv> 500"

definition writeJSON :: "int \<Rightarrow> json \<Rightarrow> http_response" where
  "writeJSON status v = \<lparr>rs_Status = status, rs_Text = render v @ [CHR 0x0A], rs_Json = Some v\<rparr>"

definition writeError :: "int \<Rightarrow> string \<Rightarrow> http_response" where
  "writeError status message = writeJSON status (JObject [(''error'', JString message)])"

definition method_not_allowed :: http_response where
  "method_not_allowed = writeError 405 ''method not allowed''"

text \<open>\<^verbatim>\<open>strconv.Atoi\<close> and \<^verbatim>\<open>strconv.ParseInt(s, 10, 64)\<close>.\<close>

definition Atoi :: "string \<Rightarrow> int option" where
  "Atoi s =
     (let signed = (s \<noteq> [] \<and> (hd s = CHR ''-'' \<or> hd s = CHR ''+'')); digits = (if signed then tl s else s);
          v = (if signed \<and> hd s = CHR ''-'' then - int (read_nat digits) else int (read_nat digits))
      in if digits = [] \<or> \<not> list_all is_digit digits \<or> \<not> int64 v then None else Some v)"

text \<open>\<^verbatim>\<open>strings.Split(s, c)\<close>, \<^verbatim>\<open>strings.SplitN(s, "/", 2)\<close>, \<^verbatim>\<open>strings.TrimPrefix\<close>, and the value of a query parameter.\<close>

fun split_on :: "char \<Rightarrow> string \<Rightarrow> string list" where
  "split_on c [] = [[]]"
| "split_on c (x # xs) = (if x = c then [] # split_on c xs else (x # hd (split_on c xs)) # tl (split_on c xs))"

definition split_first :: "char \<Rightarrow> string \<Rightarrow> string \<times> string option" where
  "split_first c s = (takeWhile (\<lambda>x. x \<noteq> c) s, case dropWhile (\<lambda>x. x \<noteq> c) s of [] \<Rightarrow> None | _ # rest \<Rightarrow> Some rest)"

definition TrimPrefix :: "string \<Rightarrow> string \<Rightarrow> string" where
  "TrimPrefix s p = (if take (length p) s = p then drop (length p) s else s)"

definition query_get :: "string \<Rightarrow> string \<Rightarrow> string" where
  "query_get k query =
     (case find (\<lambda>kv. fst (split_first CHR ''='' kv) = k) (split_on CHR ''&'' query) of
        None \<Rightarrow> [] | Some kv \<Rightarrow> (case snd (split_first CHR ''='' kv) of None \<Rightarrow> [] | Some v \<Rightarrow> v))"

text \<open>The path and the query of a request to the server at \<open>base\<close>.\<close>

definition url_path :: "string \<Rightarrow> http_request \<Rightarrow> string" where
  "url_path base q = fst (split_first CHR ''?'' (TrimPrefix (rq_URL q) base))"

definition url_query :: "string \<Rightarrow> http_request \<Rightarrow> string" where
  "url_query base q = (case snd (split_first CHR ''?'' (TrimPrefix (rq_URL q) base)) of None \<Rightarrow> [] | Some query \<Rightarrow> query)"

definition parsePagination :: "string \<Rightarrow> int \<times> int" where
  "parsePagination query =
     (case Atoi (query_get ''$top'' query) of Some v \<Rightarrow> if v > 0 then v else defaultPageSize | None \<Rightarrow> defaultPageSize,
      case Atoi (query_get ''$skip'' query) of Some v \<Rightarrow> if v \<ge> 0 then v else 0 | None \<Rightarrow> 0)"

definition paginatedResponse :: "('a \<Rightarrow> json) \<Rightarrow> 'a list \<Rightarrow> nat \<Rightarrow> json" where
  "paginatedResponse enc data available =
     JObject [(''data'', JArray (map enc data)), (''metadata'', JObject [(''totalAvailableResults'', JNum (int available))])]"

definition singleResponse :: "json \<Rightarrow> json" where
  "singleResponse data = JObject [(''data'', data)]"

definition taskRefBody :: "string \<Rightarrow> json" where
  "taskRefBody taskUUID = JObject [(''data'', JObject [(''extId'', JString taskUUID)])]"

text \<open>
  The body shared by the three list handlers: the slice from \<^verbatim>\<open>skip\<close> of at most \<^verbatim>\<open>top\<close> entries and the total.
  The sum of the two is an \<^verbatim>\<open>int\<close> and may wrap; a slice whose end is before its start panics.
\<close>

definition list_page :: "('a \<Rightarrow> json) \<Rightarrow> 'a list \<Rightarrow> string \<Rightarrow> http_response option" where
  "list_page enc xs query =
     (let (top, skip) = parsePagination query; available = int (length xs)
      in if skip \<ge> available then Some (writeJSON 200 (paginatedResponse enc [] (length xs)))
         else let stop = min (wrap64 (skip + top)) available
           in if stop < skip then None
              else Some (writeJSON 200 (paginatedResponse enc (take (nat (stop - skip)) (drop (nat skip) xs)) (length xs))))"

section \<open>Virtual machines\<close>

definition handleVMList :: "http_request \<Rightarrow> string \<Rightarrow> Store \<Rightarrow> served" where
  "handleVMList q query s =
     (if rq_Method q \<noteq> ''GET'' then (Some method_not_allowed, s) else (list_page enc_VM (store_GetVMs s) query, s))"

definition handleVMGet :: "string \<Rightarrow> Store \<Rightarrow> served" where
  "handleVMGet uuid s =
     (case store_GetVM uuid s of
        None \<Rightarrow> (Some (writeError 404 ''VM not found''), s)
      | Some vm \<Rightarrow> (Some (writeJSON 200 (singleResponse (enc_VM vm))), s))"

text \<open>The common end of the asynchronous operations: a task on the entity, to succeed at its second poll.\<close>

definition accept_task :: "string \<Rightarrow> string \<Rightarrow> Store \<Rightarrow> served" where
  "accept_task uuid rel s =
     (case store_CreateTask [\<lparr>ten_ExtID = uuid, ten_Rel = rel\<rparr>] 2 s of
        (taskUUID, s') \<Rightarrow> (Some (writeJSON 202 (taskRefBody taskUUID)), s'))"

definition handleVMPowerOff :: "string \<Rightarrow> Store \<Rightarrow> served" where
  "handleVMPowerOff uuid s =
     (case store_GetVM uuid s of
        None \<Rightarrow> (Some (writeError 404 ''VM not found''), s)
      | Some vm \<Rightarrow>
          (case accept_task uuid ''vmm:ahv:config:vm'' s of (r, s1) \<Rightarrow> (r, snd (store_SetVMPowerState uuid ''OFF'' s1))))"

definition handleVMPowerOn :: "string \<Rightarrow> Store \<Rightarrow> served" where
  "handleVMPowerOn uuid s =
     (case store_GetVM uuid s of
        None \<Rightarrow> (Some (writeError 404 ''VM not found''), s)
      | Some vm \<Rightarrow>
          (case accept_task uuid ''vmm:ahv:config:vm'' s of (r, s1) \<Rightarrow> (r, snd (store_SetVMPowerState uuid ''ON'' s1))))"

definition handleVMDelete :: "string \<Rightarrow> Store \<Rightarrow> served" where
  "handleVMDelete uuid s =
     (case store_GetVM uuid s of
        None \<Rightarrow> (Some (writeError 404 ''VM not found''), s)
      | Some vm \<Rightarrow>
          (case accept_task uuid ''vmm:ahv:config:vm'' s of (r, s1) \<Rightarrow> (r, s1\<lparr>sto_VMs := remove_vm uuid (sto_VMs s1)\<rparr>)))"

definition handleVMByID :: "http_request \<Rightarrow> string \<Rightarrow> Store \<Rightarrow> served" where
  "handleVMByID q path s =
     (case split_first CHR ''/'' (TrimPrefix path (vmBasePath @ ''/'')) of
        (uuid, Some action) \<Rightarrow>
          if action = ''$actions/power-off'' \<and> rq_Method q = ''POST'' then handleVMPowerOff uuid s
          else if action = ''$actions/power-on'' \<and> rq_Method q = ''POST'' then handleVMPowerOn uuid s
          else (Some (writeError 404 ''unknown action''), s)
      | (uuid, None) \<Rightarrow>
          if rq_Method q = ''GET'' then handleVMGet uuid s
          else if rq_Method q = ''DELETE'' then handleVMDelete uuid s
          else (Some method_not_allowed, s))"

section \<open>Recovery points\<close>

text \<open>The first entry of a list member of the request body, as far as the handlers read it.\<close>

definition dec_entries :: "string \<Rightarrow> json \<Rightarrow> string list option" where
  "dec_entries k j = dec_list (\<lambda>e. if \<not> is_struct e then None else dec_string (get_field k e)) (get_field ''vmRecoveryPoints'' j)"

definition dec_rp_body :: "json \<Rightarrow> (string \<times> string list) option" where
  "dec_rp_body j =
     (if \<not> is_struct j then None
      else do { name \<leftarrow> dec_string (get_field ''name'' j); vms \<leftarrow> dec_entries ''vmExtId'' j; Some (name, vms) })"

definition handleRecoveryPointCreate :: "http_request \<Rightarrow> Store \<Rightarrow> served" where
  "handleRecoveryPointCreate q s =
     (if rq_Method q \<noteq> ''POST'' then (Some method_not_allowed, s)
      else case Option.bind (rq_Body q) dec_rp_body of
          None \<Rightarrow> (Some (writeError 400 ''invalid request body''), s)
        | Some (name, vms) \<Rightarrow>
            (case store_AddRecoveryPoint
                    \<lparr>rp_ExtID = [], rp_Name = name, rp_Status = [], rp_VMExtID = (case vms of [] \<Rightarrow> [] | v # _ \<Rightarrow> v),
                     rp_ExpirationTime = [], rp_RecoveryPointType = ''APPLICATION_CONSISTENT''\<rparr> s of
               (rpUUID, s1) \<Rightarrow> accept_task rpUUID ''dataprotection:config:recovery-point'' s1))"

definition handleRecoveryPointGet :: "string \<Rightarrow> Store \<Rightarrow> served" where
  "handleRecoveryPointGet uuid s =
     (case store_GetRecoveryPoint uuid s of
        None \<Rightarrow> (Some (writeError 404 ''recovery point not found''), s)
      | Some rp \<Rightarrow> (Some (writeJSON 200 (singleResponse (enc_RecoveryPoint rp))), s))"

definition handleRecoveryPointDelete :: "string \<Rightarrow> Store \<Rightarrow> served" where
  "handleRecoveryPointDelete uuid s =
     (case store_DeleteRecoveryPoint uuid s of
        (False, s1) \<Rightarrow> (Some (writeError 404 ''recovery point not found''), s1)
      | (True, s1) \<Rightarrow> accept_task uuid ''dataprotection:config:recovery-point'' s1)"

definition cloned_vm :: "string \<Rightarrow> string \<Rightarrow> VM" where
  "cloned_vm uuid name =
     \<lparr>vm_ExtID = uuid, vm_Name = name, vm_Description = [], vm_PowerState = ''OFF'', vm_NumSockets = 0, vm_NumCoresPerSocket = 0,
      vm_NumThreadsPerCore = 0, vm_MemorySizeBytes = 0, vm_MachineType = [], vm_BootConfig = None, vm_Disks = [], vm_Nics = [],
      vm_Gpus = [], vm_Cluster = None\<rparr>"

definition handleCloneVMFromRP :: "http_request \<Rightarrow> string \<Rightarrow> Store \<Rightarrow> served" where
  "handleCloneVMFromRP q rpUUID s =
     (case store_GetRecoveryPoint rpUUID s of
        None \<Rightarrow> (Some (writeError 404 ''recovery point not found''), s)
      | Some rp \<Rightarrow>
          (case Option.bind (rq_Body q) (\<lambda>j. if \<not> is_struct j then None else dec_entries ''vmName'' j) of
             None \<Rightarrow> (Some (writeError 400 ''invalid request body''), s)
           | Some names \<Rightarrow>
               (let vmName = (case names of v # _ \<Rightarrow> if v \<noteq> [] then v else ''cloned-vm'' | [] \<Rightarrow> ''cloned-vm'');
                    n = sto_imageCounter s + 1;
                    cloneUUID = ''clone-'' @ pad8 n;
                    s1 = s\<lparr>sto_imageCounter := n\<rparr>
                in accept_task cloneUUID ''vmm:ahv:config:vm'' (s1\<lparr>sto_VMs := sto_VMs s1 @ [cloned_vm cloneUUID vmName]\<rparr>))))"

definition handleRecoveryPointByID :: "http_request \<Rightarrow> string \<Rightarrow> Store \<Rightarrow> served" where
  "handleRecoveryPointByID q path s =
     (case split_first CHR ''/'' (TrimPrefix path (recoveryPointBasePath @ ''/'')) of
        (uuid, Some action) \<Rightarrow>
          if action = ''$actions/vm-recovery'' \<and> rq_Method q = ''POST'' then handleCloneVMFromRP q uuid s
          else (Some (writeError 404 ''unknown action''), s)
      | (uuid, None) \<Rightarrow>
          if rq_Method q = ''GET'' then handleRecoveryPointGet uuid s
          else if rq_Method q = ''DELETE'' then handleRecoveryPointDelete uuid s
          else (Some method_not_allowed, s))"

section \<open>Images\<close>

abbreviation defaultImageSize :: int where "defaultImageSize \<equiv> 4096"

definition dec_image_body :: "json \<Rightarrow> (string \<times> string) option" where
  "dec_image_body j =
     (if \<not> is_struct j then None
      else do { name \<leftarrow> dec_string (get_field ''name'' j); ty \<leftarrow> dec_string (get_field ''type'' j); Some (name, ty) })"

definition handleImageCreate :: "http_request \<Rightarrow> Store \<Rightarrow> served" where
  "handleImageCreate q s =
     (if rq_Method q \<noteq> ''POST'' then (Some method_not_allowed, s)
      else case Option.bind (rq_Body q) dec_image_body of
          None \<Rightarrow> (Some (writeError 400 ''invalid request body''), s)
        | Some (name, ty) \<Rightarrow>
            (case store_AddImage \<lparr>img_ExtID = [], img_Name = name, img_Type = ty, img_SizeBytes = defaultImageSize, img_SourceURI = []\<rparr> s of
               (imgUUID, s1) \<Rightarrow> accept_task imgUUID ''vmm:images:image'' s1))"

definition handleImageGet :: "string \<Rightarrow> Store \<Rightarrow> served" where
  "handleImageGet uuid s =
     (case store_GetImage uuid s of
        None \<Rightarrow> (Some (writeError 404 ''image not found''), s)
      | Some img \<Rightarrow> (Some (writeJSON 200 (singleResponse (enc_Image img))), s))"

definition handleImageDelete :: "string \<Rightarrow> Store \<Rightarrow> served" where
  "handleImageDelete uuid s =
     (case store_DeleteImage uuid s of
        (False, s1) \<Rightarrow> (Some (writeError 404 ''image not found''), s1)
      | (True, s1) \<Rightarrow> accept_task uuid ''vmm:images:image'' s1)"

text \<open>\<^verbatim>\<open>parseRangeHeader\<close>: the first and the last byte of the range, or nothing when it is not valid.\<close>

definition parseRangeHeader :: "string \<Rightarrow> int \<Rightarrow> (int \<times> int) option" where
  "parseRangeHeader header totalSize =
     (if take 6 header \<noteq> ''bytes='' then None
      else case split_first CHR ''-'' (drop 6 header) of
          (_, None) \<Rightarrow> None
        | (lo, Some hi) \<Rightarrow>
            if lo = []
            then (case Atoi hi of
                    None \<Rightarrow> None
                  | Some n \<Rightarrow> if n \<le> 0 then None else Some (max (totalSize - n) 0, totalSize - 1))
            else (case Atoi lo of
                    None \<Rightarrow> None
                  | Some start \<Rightarrow>
                      if start < 0 \<or> start \<ge> totalSize then None
                      else if hi = [] then Some (start, totalSize - 1)
                      else (case Atoi hi of
                              None \<Rightarrow> None
                            | Some stop \<Rightarrow>
                                if stop < start then None
                                else Some (start, if stop \<ge> totalSize then totalSize - 1 else stop))))"

definition image_data :: "int \<Rightarrow> string" where
  "image_data sz = replicate (nat sz) CHR 0xAA"

definition binary_response :: "int \<Rightarrow> string \<Rightarrow> http_response" where
  "binary_response status data = \<lparr>rs_Status = status, rs_Text = data, rs_Json = None\<rparr>"

definition handleImageDownload :: "http_request \<Rightarrow> string \<Rightarrow> Store \<Rightarrow> served" where
  "handleImageDownload q uuid s =
     (case store_GetImage uuid s of
        None \<Rightarrow> (Some (writeError 404 ''image not found''), s)
      | Some img \<Rightarrow>
          (let totalSize = (if img_SizeBytes img \<le> 0 then defaultImageSize else img_SizeBytes img); data = image_data totalSize
           in if rq_Range q = [] then (Some (binary_response 200 data), s)
              else case parseRangeHeader (rq_Range q) totalSize of
                  None \<Rightarrow> (Some (writeError 416 ''invalid range''), s)
                | Some (start, stop) \<Rightarrow> (Some (binary_response 206 (take (nat (stop + 1 - start)) (drop (nat start) data))), s)))"

definition handleImageByID :: "http_request \<Rightarrow> string \<Rightarrow> Store \<Rightarrow> served" where
  "handleImageByID q path s =
     (case split_first CHR ''/'' (TrimPrefix path (imageBasePath @ ''/'')) of
        (uuid, rest) \<Rightarrow>
          if rest = Some ''file''
          then if rq_Method q \<noteq> ''GET'' then (Some method_not_allowed, s) else handleImageDownload q uuid s
          else if rq_Method q = ''GET'' then handleImageGet uuid s
          else if rq_Method q = ''DELETE'' then handleImageDelete uuid s
          else (Some method_not_allowed, s))"

section \<open>Tasks, networks, storage, clusters\<close>

abbreviation taskBasePath :: string where "taskBasePath \<equiv> ''/api/prism/v4.0/config/tasks/''"

definition handleTask :: "http_request \<Rightarrow> string \<Rightarrow> Store \<Rightarrow> served" where
  "handleTask q path s =
     (if rq_Method q \<noteq> ''GET'' then (Some method_not_allowed, s)
      else let uuid = TrimPrefix path taskBasePath
        in if uuid = [] then (Some (writeError 400 ''task UUID required''), s)
           else case store_GetTask uuid s of
               (None, s1) \<Rightarrow> (Some (writeError 404 ''task not found''), s1)
             | (Some task, s1) \<Rightarrow> (Some (writeJSON 200 (enc_Task task)), s1))"

definition handleSubnetList :: "http_request \<Rightarrow> string \<Rightarrow> Store \<Rightarrow> served" where
  "handleSubnetList q query s =
     (if rq_Method q \<noteq> ''GET'' then (Some method_not_allowed, s) else (list_page enc_Subnet (store_GetSubnets s) query, s))"

definition handleClusterList :: "http_request \<Rightarrow> string \<Rightarrow> Store \<Rightarrow> served" where
  "handleClusterList q query s =
     (if rq_Method q \<noteq> ''GET'' then (Some method_not_allowed, s) else (list_page enc_Cluster (store_GetClusters s) query, s))"

definition handleStorageContainerList :: "http_request \<Rightarrow> Store \<Rightarrow> served" where
  "handleStorageContainerList q s =
     (if rq_Method q \<noteq> ''GET'' then (Some method_not_allowed, s)
      else let available = JNum (int (length (store_GetStorageContainers s)))
        in (Some (writeJSON 200 (JObject [(''entities'', JArray (map enc_StorageContainer (store_GetStorageContainers s))),
              (''metadata'', JObject [(''grandTotalEntities'', available), (''totalEntities'', available)])])), s))"

section \<open>Changed block tracking\<close>

abbreviation cbtPageSize :: int where "cbtPageSize \<equiv> 3"

definition expected_token :: "Store \<Rightarrow> string" where
  "expected_token s = (if cbc_JWTToken (sto_CBTConfig s) = [] then ''mock-jwt-token'' else cbc_JWTToken (sto_CBTConfig s))"

definition handleCBTDiscoverCluster :: "string \<Rightarrow> http_request \<Rightarrow> Store \<Rightarrow> served" where
  "handleCBTDiscoverCluster base q s =
     (if rq_Method q \<noteq> ''POST'' then (Some method_not_allowed, s)
      else (Some (writeJSON 200 (JObject [(''data'',
              enc_CBTClusterInfo \<lparr>cbt_PrismElementURL = base, cbt_JWTToken = expected_token s\<rparr>)])), s))"

definition region_page :: "ChangedRegion list \<Rightarrow> int \<Rightarrow> ChangedRegions" where
  "region_page regions start =
     (let available = int (length regions); stop = min (start + cbtPageSize) available
      in if start \<ge> available then \<lparr>crs_Regions = [], crs_NextOffset = None\<rparr>
         else \<lparr>crs_Regions = take (nat (stop - start)) (drop (nat start) regions),
               crs_NextOffset = (if stop < available then Some stop else None)\<rparr>)"

definition handleCBTChangedRegions :: "http_request \<Rightarrow> string \<Rightarrow> Store \<Rightarrow> served" where
  "handleCBTChangedRegions q query s =
     (if rq_Method q \<noteq> ''GET'' then (Some method_not_allowed, s)
      else case rq_Cookie q of
          None \<Rightarrow> (Some (writeError 401 ''missing JWT token in cookie''), s)
        | Some (name, value) \<Rightarrow>
            if name \<noteq> CBTJWTCookieName \<or> value = [] then (Some (writeError 401 ''missing JWT token in cookie''), s)
            else if value \<noteq> expected_token s then (Some (writeError 401 ''invalid JWT token''), s)
            else let start = (case Atoi (query_get ''offset'' query) of Some v \<Rightarrow> if v \<ge> 0 then v else 0 | None \<Rightarrow> 0)
              in (Some (writeJSON 200 (JObject [(''data'', enc_ChangedRegions (region_page (cbc_ChangedRegions (sto_CBTConfig s)) start))])), s))"

section \<open>Routing\<close>

definition ServeHTTP :: "string \<Rightarrow> http_request \<Rightarrow> Store \<Rightarrow> served" where
  "ServeHTTP base q s =
     (let path = url_path base q; query = url_query base q
      in if path = vmBasePath then handleVMList q query s
         else if prefix (vmBasePath @ ''/'') path then handleVMByID q path s
         else if prefix taskBasePath path then handleTask q path s
         else if path = subnetBasePath then handleSubnetList q query s
         else if path = storageContainerV2Path then handleStorageContainerList q s
         else if path = clusterBasePath then handleClusterList q query s
         else if path = recoveryPointBasePath then handleRecoveryPointCreate q s
         else if prefix (recoveryPointBasePath @ ''/'') path then handleRecoveryPointByID q path s
         else if path = imageBasePath then handleImageCreate q s
         else if prefix (imageBasePath @ ''/'') path then handleImageByID q path s
         else if path = cbtDiscoverPath then handleCBTDiscoverCluster base q s
         else if path = cbtChangedRegionsPath then handleCBTChangedRegions q query s
         else (Some \<lparr>rs_Status = 404, rs_Text = ''404 page not found'' @ [CHR 0x0A], rs_Json = None\<rparr>, s))"

section \<open>Every request keeps the invariant of the store\<close>

lemma accept_task_ok: "store_ok s \<Longrightarrow> store_ok (snd (accept_task u rel s))"
  using store_ok_CreateTask [of s "[\<lparr>ten_ExtID = u, ten_Rel = rel\<rparr>]" 2] by (auto simp: accept_task_def split: prod.split)

lemma store_read_only [simp]:
  "snd (handleVMList q query s) = s" "snd (handleSubnetList q query s) = s" "snd (handleClusterList q query s) = s"
  "snd (handleStorageContainerList q s) = s" "snd (handleCBTDiscoverCluster base q s) = s" "snd (handleCBTChangedRegions q query s) = s"
  "snd (handleVMGet u s) = s" "snd (handleRecoveryPointGet u s) = s" "snd (handleImageGet u s) = s" "snd (handleImageDownload q u s) = s"
  by (simp_all add: handleVMList_def handleSubnetList_def handleClusterList_def handleStorageContainerList_def handleCBTDiscoverCluster_def
      handleCBTChangedRegions_def handleVMGet_def handleRecoveryPointGet_def handleImageGet_def handleImageDownload_def Let_def
      split: option.split prod.split)

lemma vm_handlers_ok:
  assumes "store_ok s"
  shows "store_ok (snd (handleVMByID q path s))"
proof -
  note task = accept_task_ok [OF assms]
  have "store_ok (snd (handleVMPowerOff u s))" "store_ok (snd (handleVMPowerOn u s))" "store_ok (snd (handleVMDelete u s))" for u
    using assms task [of u "''vmm:ahv:config:vm''"]
    by (auto simp: handleVMPowerOff_def handleVMPowerOn_def handleVMDelete_def store_ok_SetVMPowerState split: option.split prod.split)
  then show ?thesis using assms by (auto simp: handleVMByID_def split: prod.split option.split)
qed

lemma rp_handlers_ok:
  assumes "store_ok s"
  shows "store_ok (snd (handleRecoveryPointByID q path s))" "store_ok (snd (handleRecoveryPointCreate q s))"
proof -
  show "store_ok (snd (handleRecoveryPointCreate q s))"
    using store_ok_AddRecoveryPoint [OF assms] assms
    by (auto simp: handleRecoveryPointCreate_def split: option.split prod.split intro!: accept_task_ok) (metis snd_conv)
  have "store_ok (snd (handleRecoveryPointDelete u s))" for u
    using store_ok_deletes(1) [OF assms, of u] by (auto simp: handleRecoveryPointDelete_def split: prod.split bool.split intro!: accept_task_ok)
  moreover have "store_ok (snd (handleCloneVMFromRP q u s))" for u
    using store_ok_bump [OF assms] assms by (auto simp: handleCloneVMFromRP_def Let_def split: option.split intro!: accept_task_ok)
  ultimately show "store_ok (snd (handleRecoveryPointByID q path s))"
    using assms by (auto simp: handleRecoveryPointByID_def split: prod.split option.split)
qed

lemma image_handlers_ok:
  assumes "store_ok s"
  shows "store_ok (snd (handleImageByID q path s))" "store_ok (snd (handleImageCreate q s))"
proof -
  show "store_ok (snd (handleImageCreate q s))"
    using store_ok_AddImage [OF assms] assms
    by (auto simp: handleImageCreate_def split: option.split prod.split intro!: accept_task_ok) (metis snd_conv)
  have "store_ok (snd (handleImageDelete u s))" for u
    using store_ok_deletes(2) [OF assms, of u] by (auto simp: handleImageDelete_def split: prod.split bool.split intro!: accept_task_ok)
  then show "store_ok (snd (handleImageByID q path s))"
    using assms by (auto simp: handleImageByID_def split: prod.split)
qed

lemma task_handler_ok: "store_ok s \<Longrightarrow> store_ok (snd (handleTask q path s))"
  using store_ok_GetTask [of s "TrimPrefix path taskBasePath"] by (auto simp: handleTask_def Let_def split: prod.split option.split)

text \<open>
  The mock server never loses track of its entities. Whatever requests it serves, in whatever order, every
  recovery point, image and task stays stored under its own identifier, which one of the counters issued, and
  the status of a task is the one its number of polls determines.
\<close>

theorem mock_store_invariant: "store_ok s \<Longrightarrow> store_ok (fold (\<lambda>q s. snd (ServeHTTP base q s)) qs s)"
proof (induction qs arbitrary: s)
  case (Cons q qs)
  have "store_ok (snd (ServeHTTP base q s))" using Cons.prems
    by (simp add: ServeHTTP_def Let_def vm_handlers_ok rp_handlers_ok image_handlers_ok task_handler_ok)
  then show ?case using Cons.IH by simp
qed simp

theorem mock_store_invariant_witness:
  "store_ok (fold (\<lambda>q s. snd (ServeHTTP ''http://mock'' q s))
     [\<lparr>rq_Method = ''POST'', rq_URL = ''http://mock/api/vmm/v4.0/images'', rq_Auth = None, rq_Cookie = None, rq_Range = [], rq_ContentType = True,
       rq_Body = Some (JObject [(''name'', JString ''disk'')])\<rparr>] (WithFixtures NewStore))"
  by (rule mock_store_invariant) (simp add: WithFixtures_def store_ok_New)

section \<open>Ranges\<close>

text \<open>
  A range that \<^verbatim>\<open>parseRangeHeader\<close> accepts lies within the image: it starts at or after the first byte,
  is not empty and ends before the size, so the slice taken from the data is exactly as long as announced.
\<close>

theorem parseRangeHeader_bounds:
  assumes "parseRangeHeader header totalSize = Some (start, stop)" and "0 < totalSize"
  shows "0 \<le> start \<and> start \<le> stop \<and> stop < totalSize \<and>
    int (length (take (nat (stop + 1 - start)) (drop (nat start) (image_data totalSize)))) = stop - start + 1"
proof -
  have "0 \<le> start \<and> start \<le> stop \<and> stop < totalSize"
    using assms unfolding parseRangeHeader_def
    by (auto split: if_splits option.splits prod.splits)
  then show ?thesis by (auto simp: image_data_def)
qed

theorem parseRangeHeader_bounds_witness:
  "parseRangeHeader ''bytes=-96'' 4096 = Some (4000, 4095) \<and>
   length (take (nat (4095 + 1 - 4000)) (drop (nat 4000) (image_data 4096))) = 96"
proof -
  have r: "parseRangeHeader ''bytes=-96'' 4096 = Some (4000, 4095)"
    by (simp add: parseRangeHeader_def split_first_def Atoi_def is_digit_def read_nat_def digit_val_def int64_def)
  from parseRangeHeader_bounds [OF this] have "int (length (take (nat (4095 + 1 - 4000)) (drop (nat 4000) (image_data 4096)))) = 96" by simp
  with r show ?thesis by linarith
qed

end
