(* ===== verification/Client_Server.thy ===== *)
theory Client_Server
  imports Mock_Server
begin

text \<open>
  The HTTP client talking to the mock server. The interface \<open>mock_backed\<close> states what the client is
  connected to: requests reach the server at the host of the client and are answered by its handlers, the
  clock and the sleeps leave the store alone, the context is not cancelled, and answers and sleeps are not
  late by more than a minute. Inside it the operations of the client are shown to do on the store what their
  names promise; the interpretation is the network that runs the server in the same process.
\<close>

section \<open>Addresses\<close>

lemma TrimPrefix_append [simp]: "TrimPrefix (p @ s) p = s"
  by (simp add: TrimPrefix_def)

lemma split_first_append: "c \<notin> set a \<Longrightarrow> split_first c (a @ c # b) = (a, Some b)"
  by (induction a) (auto simp: split_first_def)

lemma split_first_none: "c \<notin> set a \<Longrightarrow> split_first c a = (a, None)"
  by (induction a) (auto simp: split_first_def)

lemma split_on_append: "c \<notin> set a \<Longrightarrow> split_on c (a @ c # b) = a # split_on c b"
  by (induction a) auto

lemma split_on_none: "c \<notin> set a \<Longrightarrow> split_on c a = [a]"
  by (induction a) auto

lemma Atoi_show_nat: "int n < 2 ^ 63 \<Longrightarrow> Atoi (show_nat n) = Some (int n)"
proof -
  assume n: "int n < 2 ^ 63"
  have hd: "hd (show_nat n) \<noteq> CHR ''-'' \<and> hd (show_nat n) \<noteq> CHR ''+''" using show_nat_hd [of n] by (auto simp: is_digit_def)
  have "list_all is_digit (show_nat n)" using show_nat_digits [of n] by (simp add: list_all_iff)
  then show ?thesis using n hd by (simp add: Atoi_def Let_def int64_def)
qed

lemma digits_plain: "\<forall>x \<in> set s. is_digit x \<Longrightarrow> \<not> is_digit c \<Longrightarrow> c \<notin> set s"
  by blast

definition page_query :: "nat \<Rightarrow> string" where
  "page_query offset = ''$top=500&$skip='' @ show_nat offset"

lemma show_nat_500: "show_nat 500 = ''500''"
  by (simp add: show_nat.simps [of 500] show_nat.simps [of 50] show_nat.simps [of 5])

lemma query_get_other:
  assumes "CHR ''&'' \<notin> set v" "CHR ''&'' \<notin> set k" "CHR ''='' \<notin> set k"
  shows "query_get k' (k @ CHR ''='' # v @ CHR ''&'' # rest) = (if k' = k then v else query_get k' rest)"
  using split_on_append [of "CHR ''&''" "k @ CHR ''='' # v" rest] split_first_append [of "CHR ''=''" k v] assms
  by (simp add: query_get_def)

lemma query_get_last:
  assumes "CHR ''&'' \<notin> set v" "CHR ''&'' \<notin> set k" "CHR ''='' \<notin> set k"
  shows "query_get k (k @ CHR ''='' # v) = v"
  using split_on_none [of "CHR ''&''" "k @ CHR ''='' # v"] split_first_append [of "CHR ''=''" k v] assms by (simp add: query_get_def)

lemma parsePagination_page: "int offset < 2 ^ 63 \<Longrightarrow> parsePagination (page_query offset) = (500, int offset)"
proof -
  assume n: "int offset < 2 ^ 63"
  have amp: "CHR ''&'' \<notin> set (show_nat offset)"
    by (rule digits_plain [OF show_nat_digits]) (simp add: is_digit_def)
  have q: "page_query offset = ''$top'' @ CHR ''='' # ''500'' @ CHR ''&'' # ''$skip'' @ CHR ''='' # show_nat offset"
    by (simp add: page_query_def)
  have "query_get ''$top'' (page_query offset) = show_nat 500"
    unfolding q by (subst query_get_other) (simp_all add: show_nat_500)
  moreover have "query_get ''$skip'' (page_query offset) = show_nat offset"
    using query_get_other [of "''500''" "''$top''" "''$skip''" "''$skip'' @ CHR ''='' # show_nat offset"]
      query_get_last [OF amp, of "''$skip''"] unfolding q by simp
  ultimately show ?thesis using Atoi_show_nat [OF n] Atoi_show_nat [of 500] by (simp add: parsePagination_def)
qed

lemma list_page_query:
  assumes "length xs < 2 ^ 62" "offset < 2 ^ 62"
  shows "list_page enc xs (page_query offset) = Some (writeJSON 200 (paginatedResponse enc (take 500 (drop offset xs)) (length xs)))"
proof -
  have p: "parsePagination (page_query offset) = (500, int offset)" by (rule parsePagination_page) (use assms(2) in simp)
  have w: "wrap64 (int offset + 500) = int offset + 500" by (rule wrap64_id) (use assms(2) in simp_all)
  show ?thesis
  proof (cases "length xs \<le> offset")
    case False
    have "nat (min (int offset + 500) (int (length xs)) - int offset) = min 500 (length xs - offset)" using False by simp
    moreover have "take (min 500 (length xs - offset)) (drop offset xs) = take 500 (drop offset xs)"
      by (metis length_drop min.commute take_all_iff take_take order_refl)
    ultimately show ?thesis using False p w by (simp add: list_page_def Let_def)
  qed (use p in \<open>simp add: list_page_def Let_def\<close>)
qed

context json_codec
begin

lemma dec_page_enc:
  assumes "\<forall>x \<in> set xs. ok x" and "int n < 2 ^ 63"
  shows "dec_page dec (paginatedResponse enc xs n) = Some (xs, Some \<lparr>lm_TotalAvailableResults = int n, lm_Offset = 0\<rparr>)"
  using assms dec_list_enc [of xs]
  by (simp add: dec_page_def paginatedResponse_def is_struct_def get_field_def dec_ptr_def dec_ListMetadata_def dec_int_def int64_def)

lemma dec_data_enc: "ok x \<Longrightarrow> dec_data dec (singleResponse (enc x)) = Some x"
  by (simp add: dec_data_def singleResponse_def is_struct_def get_field_def dec_enc)

end

lemma dec_task_ref_body: "dec_task_ref (taskRefBody u) = Some u"
  by (simp add: dec_task_ref_def dec_data_def taskRefBody_def is_struct_def get_field_def dec_string_def)

section \<open>Routes\<close>

definition get_request :: "string \<Rightarrow> http_request \<Rightarrow> bool" where
  "get_request url q \<longleftrightarrow> rq_Method q = ''GET'' \<and> rq_URL q = url"

lemma url_of_path:
  assumes "rq_URL q = base @ p" "CHR ''?'' \<notin> set p"
  shows "url_path base q = p \<and> url_query base q = []"
  using assms by (simp_all add: url_path_def url_query_def split_first_none)

lemma url_of_query:
  assumes "rq_URL q = base @ p @ ''?'' @ query" "CHR ''?'' \<notin> set p"
  shows "url_path base q = p \<and> url_query base q = query"
  using assms split_first_append [of "CHR ''?''" p query] by (simp_all add: url_path_def url_query_def)

lemma route_lists:
  "rq_URL q = base @ vmBasePath @ ''?'' @ query \<Longrightarrow> ServeHTTP base q s = handleVMList q query s"
  "rq_URL q = base @ subnetBasePath @ ''?'' @ query \<Longrightarrow> ServeHTTP base q s = handleSubnetList q query s"
  "rq_URL q = base @ clusterBasePath @ ''?'' @ query \<Longrightarrow> ServeHTTP base q s = handleClusterList q query s"
  "rq_URL q = base @ cbtChangedRegionsPath @ ''?'' @ query \<Longrightarrow> ServeHTTP base q s = handleCBTChangedRegions q query s"
  by (drule url_of_query; simp add: ServeHTTP_def Let_def)+

lemma route_exact:
  "rq_URL q = base @ storageContainerV2Path \<Longrightarrow> ServeHTTP base q s = handleStorageContainerList q s"
  "rq_URL q = base @ recoveryPointBasePath \<Longrightarrow> ServeHTTP base q s = handleRecoveryPointCreate q s"
  "rq_URL q = base @ imageBasePath \<Longrightarrow> ServeHTTP base q s = handleImageCreate q s"
  "rq_URL q = base @ cbtDiscoverPath \<Longrightarrow> ServeHTTP base q s = handleCBTDiscoverCluster base q s"
  by (drule url_of_path; simp add: ServeHTTP_def Let_def)+

lemma route_entity:
  "rq_URL q = base @ vmBasePath @ ''/'' @ r \<Longrightarrow> CHR ''?'' \<notin> set r \<Longrightarrow> ServeHTTP base q s = handleVMByID q (vmBasePath @ ''/'' @ r) s"
  "rq_URL q = base @ recoveryPointBasePath @ ''/'' @ r \<Longrightarrow> CHR ''?'' \<notin> set r \<Longrightarrow>
     ServeHTTP base q s = handleRecoveryPointByID q (recoveryPointBasePath @ ''/'' @ r) s"
  "rq_URL q = base @ imageBasePath @ ''/'' @ r \<Longrightarrow> CHR ''?'' \<notin> set r \<Longrightarrow> ServeHTTP base q s = handleImageByID q (imageBasePath @ ''/'' @ r) s"
  "rq_URL q = base @ taskBasePath @ r \<Longrightarrow> CHR ''?'' \<notin> set r \<Longrightarrow> ServeHTTP base q s = handleTask q (taskBasePath @ r) s"
  by (drule url_of_path; simp add: ServeHTTP_def Let_def)+

text \<open>An identifier that can be part of a path as it is; two stores that differ in their tasks only.\<close>

definition plain_id :: "string \<Rightarrow> bool" where
  "plain_id u \<longleftrightarrow> CHR ''?'' \<notin> set u \<and> CHR ''/'' \<notin> set u \<and> CHR ''&'' \<notin> set u"

definition same_but_tasks :: "Store \<Rightarrow> Store \<Rightarrow> bool" where
  "same_but_tasks s s' \<longleftrightarrow> s' = s\<lparr>sto_Tasks := sto_Tasks s', sto_taskCounter := sto_taskCounter s'\<rparr>"

lemma same_but_tasks_fields:
  assumes "same_but_tasks s s'"
  shows "sto_VMs s' = sto_VMs s" "sto_RecoveryPoints s' = sto_RecoveryPoints s" "sto_Images s' = sto_Images s"
    "sto_imageCounter s' = sto_imageCounter s" "sto_CBTConfig s' = sto_CBTConfig s"
  using assms unfolding same_but_tasks_def by (metis Store.simps(1-10) Store.surjective Store.update_convs(5,10))+

lemma same_but_tasks_trans: "same_but_tasks s1 s2 \<Longrightarrow> same_but_tasks s2 s3 \<Longrightarrow> same_but_tasks s1 s3"
  by (cases s1; cases s2; cases s3) (simp add: same_but_tasks_def)

lemma same_but_tasks_VMs: "same_but_tasks s s' \<Longrightarrow> same_but_tasks (s\<lparr>sto_VMs := vms\<rparr>) (s'\<lparr>sto_VMs := vms\<rparr>)"
  by (cases s; cases s') (simp add: same_but_tasks_def)

lemma same_but_tasks_entities: "same_but_tasks s s' \<Longrightarrow> entities_ok s' = entities_ok s"
  using same_but_tasks_fields [of s s'] by (simp add: entities_ok_def)

lemma accept_task_cases:
  obtains t ts s1 where "accept_task u rel s = (Some (writeJSON 202 (taskRefBody t)), s1)" "same_but_tasks s s1"
    "sto_Tasks s1 t = Some ts" "ts_PollCount ts = 0" "ts_TargetPolls ts = 2" "t \<noteq> []" "CHR ''?'' \<notin> set t"
    "task_EntitiesAffected (ts_Task ts) = [\<lparr>ten_ExtID = u, ten_Rel = rel\<rparr>]"
proof -
  have "CHR ''?'' \<notin> set (pad8 n)" for n by (rule digits_plain [OF pad8_digits]) (simp add: is_digit_def)
  then show ?thesis
    by (intro that [of "taskUUIDFromCounter (sto_taskCounter s + 1)" "snd (accept_task u rel s)"])
      (auto simp: accept_task_def store_CreateTask_def Let_def same_but_tasks_def taskUUIDFromCounter_def)
qed

lemma entity_paths:
  assumes "plain_id u"
  shows "split_first CHR ''/'' u = (u, None)" "split_first CHR ''/'' (u @ CHR ''/'' # action) = (u, Some action)"
  using assms by (simp_all add: plain_id_def split_first_none split_first_append)

text \<open>What the server stores for the request bodies of the client.\<close>

definition new_rp :: "string \<Rightarrow> string \<Rightarrow> RecoveryPoint" where
  "new_rp vmUUID name =
     \<lparr>rp_ExtID = [], rp_Name = name, rp_Status = [], rp_VMExtID = vmUUID, rp_ExpirationTime = [], rp_RecoveryPointType = ''APPLICATION_CONSISTENT''\<rparr>"

definition new_image :: "string \<Rightarrow> Image" where
  "new_image name = \<lparr>img_ExtID = [], img_Name = name, img_Type = ''DISK_IMAGE'', img_SizeBytes = defaultImageSize, img_SourceURI = []\<rparr>"

lemma added_plain: "plain_id (fst (store_AddRecoveryPoint rp s))" "plain_id (fst (store_AddImage img s))"
proof -
  have "CHR ''?'' \<notin> set (pad8 n)" "CHR ''/'' \<notin> set (pad8 n)" "CHR ''&'' \<notin> set (pad8 n)" for n
    by (rule digits_plain [OF pad8_digits], simp add: is_digit_def)+
  then show "plain_id (fst (store_AddRecoveryPoint rp s))" "plain_id (fst (store_AddImage img s))"
    by (simp_all add: plain_id_def store_AddRecoveryPoint_def store_AddImage_def Let_def)
qed

text \<open>The query of a changed regions request, and what the server reads of it.\<close>

definition region_query :: "string \<Rightarrow> string \<Rightarrow> string \<Rightarrow> int \<Rightarrow> int \<Rightarrow> int \<Rightarrow> string" where
  "region_query vm snap bsnap offset len blockSize =
     ''vmExtId='' @ vm @ ''&snapshotExtId='' @ snap @ ''&baseSnapshotExtId='' @ bsnap @ ''&offset='' @ show_int offset @
     ''&length='' @ show_int len @ ''&blockSize='' @ show_int blockSize"

lemma Atoi_offset:
  assumes "CHR ''&'' \<notin> set vm" "CHR ''&'' \<notin> set snap" "CHR ''&'' \<notin> set bsnap" "0 \<le> offset" "offset < 2 ^ 63"
  shows "Atoi (query_get ''offset'' (region_query vm snap bsnap offset len blockSize)) = Some offset"
proof -
  have amp: "CHR ''&'' \<notin> set (show_nat (nat offset))" by (rule digits_plain [OF show_nat_digits]) (simp add: is_digit_def)
  have "query_get ''offset'' (region_query vm snap bsnap offset len blockSize) = show_nat (nat offset)"
    using query_get_other [of vm "''vmExtId''" "''offset''"] query_get_other [of snap "''snapshotExtId''" "''offset''"]
      query_get_other [of bsnap "''baseSnapshotExtId''" "''offset''"] query_get_other [OF amp, of "''offset''" "''offset''"] assms
    by (simp add: region_query_def show_int_def)
  then show ?thesis using Atoi_show_nat [of "nat offset"] assms by simp
qed

lemma ok_region_page:
  assumes "\<forall>r \<in> set regions. ok_ChangedRegion r" "int (length regions) < 2 ^ 63" "0 \<le> start"
  shows "ok_ChangedRegions (region_page regions start)"
  using assms by (auto simp: ok_ChangedRegions_def region_page_def Let_def int64_def dest!: in_set_takeD in_set_dropD)

section \<open>A client connected to the server\<close>

abbreviation minute :: int where "minute \<equiv> 60000000000"

locale mock_backed =
  fixes c :: "'e httpClient"
    and store :: "'e \<Rightarrow> Store"
    and time :: "'e \<Rightarrow> int"
  assumes parses: "net_ParseURL (hc_client c) url = None"
    and answered: "fst (ServeHTTP (hc_host c) q (store e)) = Some r \<Longrightarrow>
      \<exists>dr e'. net_Do (hc_client c) q e = (Inr r, dr, e') \<and> store e' = snd (ServeHTTP (hc_host c) q (store e)) \<and> time e' \<le> time e + minute"
    and clock: "\<exists>e'. net_Now (hc_client c) e = (time e, e') \<and> store e' = store e \<and> time e' \<le> time e + minute"
    and sleeps: "\<exists>e'. net_Sleep (hc_client c) d e = (False, e') \<and> store e' = store e \<and> time e' \<le> time e + max 0 d + minute"
begin

lemma doRequest_answered:
  assumes "ServeHTTP (hc_host c) (basic_request c m url (body \<noteq> None) body) (store (st_env st)) = (Some r, s')"
    and "200 \<le> rs_Status r" "rs_Status r < 300"
  shows "\<exists>st'. doRequest c m url body st = (Inr r, st') \<and> store (st_env st') = s' \<and> time (st_env st') \<le> time (st_env st) + minute \<and>
    st_cbtTokens st' = st_cbtTokens st"
proof -
  let ?q = "basic_request c m url (body \<noteq> None) body"
  obtain dr e' where d: "net_Do (hc_client c) ?q (st_env st) = (Inr r, dr, e')" "store e' = s'" "time e' \<le> time (st_env st) + minute"
    using answered [of ?q "st_env st" r] assms(1) by auto
  have "doRequest c m url body st = (Inr r, st\<lparr>st_env := e', st_log := st_log st @ [?q]\<rparr>)"
    unfolding doRequest_def by (subst request_loop.simps) (use parses d(1) assms(2,3) in \<open>simp add: client_Do_def Let_def\<close>)
  then show ?thesis using d by simp
qed

lemma doJSON_answered:
  assumes "ServeHTTP (hc_host c) (basic_request c m url (body \<noteq> None) body) (store (st_env st)) = (Some (writeJSON code j), s')"
    and "200 \<le> code" "code < 300" "dec j = Some x"
  shows "\<exists>st'. doJSON c m url body dec st = (Inr x, st') \<and> store (st_env st') = s' \<and> time (st_env st') \<le> time (st_env st) + minute \<and>
    st_cbtTokens st' = st_cbtTokens st"
  using doRequest_answered [OF assms(1)] assms(2-4) by (auto simp: writeJSON_def doJSON_def)

lemma doJSON_rejected:
  assumes "ServeHTTP (hc_host c) (basic_request c m url (body \<noteq> None) body) (store (st_env st)) = (Some r, s')"
    and "400 \<le> rs_Status r" "rs_Status r < 500" "rs_Status r \<noteq> 429"
  shows "\<exists>st'. doJSON c m url body dec st = (Inl (api_error r url), st') \<and> store (st_env st') = s'"
proof -
  let ?q = "basic_request c m url (body \<noteq> None) body"
  obtain dr e' where d: "net_Do (hc_client c) ?q (st_env st) = (Inr r, dr, e')" "store e' = s'"
    using answered [of ?q "st_env st" r] assms(1) by auto
  have "doRequest c m url body st = (Inl (api_error r url), st\<lparr>st_env := e', st_log := st_log st @ [?q]\<rparr>)"
    unfolding doRequest_def
    by (subst request_loop.simps) (use parses d(1) assms(2-4) in \<open>simp add: client_Do_def Let_def shouldRetry_def\<close>)
  then show ?thesis using d by (simp add: doJSON_def)
qed

text \<open>Listing: page after page until everything is there.\<close>

lemma list_loop_complete:
  assumes codec: "json_codec enc dec ok" and ok: "\<forall>x \<in> set xs. ok x" and short: "length xs < 2 ^ 61"
    and route: "\<And>q query s. rq_Method q = ''GET'' \<Longrightarrow> rq_URL q = hc_host c @ path @ ''?'' @ query \<Longrightarrow> sel s = xs \<Longrightarrow>
      ServeHTTP (hc_host c) q s = (list_page enc xs query, s)"
    and "sel (store (st_env st)) = xs" and "offset < length xs + 500"
  shows "\<exists>st'. list_loop c what path dec offset (take offset xs) st = Some (Inr xs, st') \<and> store (st_env st') = store (st_env st)"
  using assms(5,6)
proof (induction "length xs + 500 - offset" arbitrary: offset st rule: less_induct)
  case less
  let ?page = "take 500 (drop offset xs)"
  have "offset < 2 ^ 62" using less.prems(2) short by simp
  then have page: "list_page enc xs (page_query offset) = Some (writeJSON 200 (paginatedResponse enc ?page (length xs)))"
    using list_page_query [of xs offset enc] short by simp
  have decd: "dec_page dec (paginatedResponse enc ?page (length xs)) = Some (?page, Some \<lparr>lm_TotalAvailableResults = int (length xs), lm_Offset = 0\<rparr>)"
    using json_codec.dec_page_enc [OF codec, of ?page "length xs"] ok short by (auto dest!: in_set_takeD in_set_dropD)
  have srv: "ServeHTTP (hc_host c) (basic_request c ''GET'' (page_url c path offset) (None \<noteq> (None :: json option)) None) (store (st_env st)) =
      (Some (writeJSON 200 (paginatedResponse enc ?page (length xs))), store (st_env st))"
    using page route [of "basic_request c ''GET'' (page_url c path offset) False None" "page_query offset"] less.prems(1)
    by (simp add: basic_request_def page_url_def page_query_def show_nat_500)
  obtain st1 where j: "doJSON c ''GET'' (page_url c path offset) None (dec_page dec) st =
      (Inr (?page, Some \<lparr>lm_TotalAvailableResults = int (length xs), lm_Offset = 0\<rparr>), st1)" and st1: "store (st_env st1) = store (st_env st)"
    using doJSON_answered [where dec = "dec_page dec", OF srv _ _ decd] by auto
  have acc: "take offset xs @ ?page = take (offset + 500) xs" by (simp add: take_add)
  show ?case
  proof (cases "length xs \<le> offset + 500")
    case True
    moreover have "int (length xs) \<le> int (min (length xs) offset) + int (length xs - offset)" by linarith
    ultimately show ?thesis by (subst list_loop.simps) (use j st1 acc in simp)
  next
    case False
    then have "\<exists>st'. list_loop c what path dec (offset + 500) (take (offset + 500) xs) st1 = Some (Inr xs, st') \<and>
        store (st_env st') = store (st_env st1)"
      using less.hyps [of "offset + 500" st1] less.prems st1 by simp
    then show ?thesis by (subst list_loop.simps) (use False j st1 acc in simp)
  qed
qed

text \<open>Polling: every poll advances the task, and the second one completes a task that was just accepted.\<close>

lemma poll_step:
  assumes "sto_Tasks (store (st_env st)) u = Some ts" "u \<noteq> []" "CHR ''?'' \<notin> set u" "time (st_env st) \<le> deadline"
  shows "\<exists>st'. store (st_env st') = (store (st_env st))\<lparr>sto_Tasks := (sto_Tasks (store (st_env st)))(u \<mapsto> poll_state ts)\<rparr> \<and>
    time (st_env st') \<le> time (st_env st) + max 0 interval + 3 * minute \<and>
    poll_loop c u interval timeout deadline st =
      (if ts_TargetPolls ts \<le> Suc (ts_PollCount ts) then Some (Inr (ts_Task (poll_state ts)), st')
       else poll_loop c u interval timeout deadline st')"
proof -
  let ?s' = "(store (st_env st))\<lparr>sto_Tasks := (sto_Tasks (store (st_env st)))(u \<mapsto> poll_state ts)\<rparr>"
  obtain st1 where n: "client_Now c st = (time (st_env st), st1)" "store (st_env st1) = store (st_env st)"
      "time (st_env st1) \<le> time (st_env st) + minute"
    using clock [of "st_env st"] by (auto simp: client_Now_def)
  have "ServeHTTP (hc_host c) (basic_request c ''GET'' (task_url c u) (None \<noteq> (None :: json option)) None) (store (st_env st1)) =
      (Some (writeJSON 200 (enc_Task (ts_Task (poll_state ts)))), ?s')"
    using route_entity(4) [of "basic_request c ''GET'' (task_url c u) False None" "hc_host c" u "store (st_env st)"] assms n(2)
    by (simp add: basic_request_def task_url_def handleTask_def TrimPrefix_def store_GetTask_def)
  moreover have "dec_Task (enc_Task (ts_Task (poll_state ts))) = Some (ts_Task (poll_state ts))"
    by (rule task_codec.dec_enc) (simp add: ok_Task_def poll_state_def Let_def int64_def)
  ultimately obtain st2 where j: "doJSON c ''GET'' (task_url c u) None dec_Task st1 = (Inr (ts_Task (poll_state ts)), st2)"
      "store (st_env st2) = ?s'" "time (st_env st2) \<le> time (st_env st1) + minute"
    using doJSON_answered [where dec = dec_Task and x = "ts_Task (poll_state ts)" and code = 200] by fastforce
  obtain st3 where s: "sleepWithContext c interval st2 = (False, st3)" "store (st_env st3) = ?s'"
      "time (st_env st3) \<le> time (st_env st2) + max 0 interval + minute"
    using sleeps [of interval "st_env st2"] j(2) by (auto simp: sleepWithContext_def)
  have "poll_loop c u interval timeout deadline st =
      (if ts_TargetPolls ts \<le> Suc (ts_PollCount ts) then Some (Inr (ts_Task (poll_state ts)), st2)
       else poll_loop c u interval timeout deadline st3)"
    by (subst poll_loop.simps) (use n j s assms(4) in \<open>simp add: poll_state_def Let_def\<close>)
  then show ?thesis using n j s by (cases "ts_TargetPolls ts \<le> Suc (ts_PollCount ts)") (force intro!: exI [of _ st2], force intro!: exI [of _ st3])
qed

lemma PollTask_accepted:
  assumes "sto_Tasks (store (st_env st)) u = Some ts" "u \<noteq> []" "CHR ''?'' \<notin> set u" "ts_PollCount ts = 0" "ts_TargetPolls ts = 2"
  shows "\<exists>st'. PollTask c u st = Some (Inr (ts_Task (poll_state (poll_state ts))), st') \<and>
    store (st_env st') = (store (st_env st))\<lparr>sto_Tasks := (sto_Tasks (store (st_env st)))(u \<mapsto> poll_state (poll_state ts))\<rparr>"
proof -
  obtain st1 where n: "client_Now c st = (time (st_env st), st1)" "store (st_env st1) = store (st_env st)"
      "time (st_env st1) \<le> time (st_env st) + minute"
    using clock [of "st_env st"] by (auto simp: client_Now_def)
  let ?dl = "time (st_env st) + DefaultPollTimeout"
  obtain st2 where p: "store (st_env st2) = (store (st_env st))\<lparr>sto_Tasks := (sto_Tasks (store (st_env st)))(u \<mapsto> poll_state ts)\<rparr>"
      "time (st_env st2) \<le> time (st_env st1) + DefaultPollInterval + 3 * minute"
      "poll_loop c u DefaultPollInterval DefaultPollTimeout ?dl st1 = poll_loop c u DefaultPollInterval DefaultPollTimeout ?dl st2"
    using poll_step [of st1 u ts ?dl DefaultPollInterval DefaultPollTimeout] assms n by auto
  obtain st3 where q: "store (st_env st3) = (store (st_env st2))\<lparr>sto_Tasks := (sto_Tasks (store (st_env st2)))(u \<mapsto> poll_state (poll_state ts))\<rparr>"
      "poll_loop c u DefaultPollInterval DefaultPollTimeout ?dl st2 = Some (Inr (ts_Task (poll_state (poll_state ts))), st3)"
    using poll_step [of st2 u "poll_state ts" ?dl DefaultPollInterval DefaultPollTimeout] assms n(3) p(1,2) by auto
  have "PollTask c u st = Some (Inr (ts_Task (poll_state (poll_state ts))), st3)"
    using n p q by (simp add: PollTask_def pollTaskWithOptions_def)
  then show ?thesis using p q by simp
qed

lemma run_task_accepted:
  assumes "ServeHTTP (hc_host c) (basic_request c m url (body \<noteq> None) body) (store (st_env st)) = (Some (writeJSON 202 (taskRefBody t)), s1)"
    and "sto_Tasks s1 t = Some ts" "ts_PollCount ts = 0" "ts_TargetPolls ts = 2" "t \<noteq> []" "CHR ''?'' \<notin> set t"
  shows "\<exists>st'. run_task c what m url body st = Some (Inr (ts_Task (poll_state (poll_state ts))), st') \<and> same_but_tasks s1 (store (st_env st'))"
proof -
  obtain st1 where j: "doJSON c m url body dec_task_ref st = (Inr t, st1)" "store (st_env st1) = s1"
    using doJSON_answered [where dec = dec_task_ref and x = t, OF assms(1)] dec_task_ref_body by auto
  then show ?thesis using PollTask_accepted [of st1 t ts] assms(2-6) by (auto simp: run_task_def same_but_tasks_def)
qed

text \<open>Virtual machines: reading one, and switching one off or on.\<close>

lemma GetVM_stored:
  assumes "store_GetVM u (store (st_env st)) = Some vm" "ok_VM vm" "plain_id u"
  shows "\<exists>st'. http_GetVM c u st = (Inr vm, st') \<and> store (st_env st') = store (st_env st)"
proof -
  let ?url = "hc_host c @ vmBasePath @ ''/'' @ u"
  have "ServeHTTP (hc_host c) (basic_request c ''GET'' ?url (None \<noteq> (None :: json option)) None) (store (st_env st)) =
      (Some (writeJSON 200 (singleResponse (enc_VM vm))), store (st_env st))"
    using route_entity(1) [of "basic_request c ''GET'' ?url False None" "hc_host c" u] assms(1,3)
    by (simp add: basic_request_def handleVMByID_def handleVMGet_def plain_id_def TrimPrefix_def split_first_none)
  then show ?thesis
    using doJSON_answered [where dec = "dec_data dec_VM" and x = vm and code = 200 and url = ?url and body = None]
      vm_codec.dec_data_enc [OF assms(2)] by (fastforce simp: http_GetVM_def)
qed

lemma power_switched:
  assumes "store_GetVM u (store (st_env st)) = Some vm" "plain_id u"
  shows "\<exists>vms st'. http_PowerOffVM c u st = Some (None, st') \<and> set_power u ''OFF'' (sto_VMs (store (st_env st))) = Some vms \<and>
      same_but_tasks ((store (st_env st))\<lparr>sto_VMs := vms\<rparr>) (store (st_env st'))"
    and "\<exists>vms st'. http_PowerOnVM c u st = Some (None, st') \<and> set_power u ''ON'' (sto_VMs (store (st_env st))) = Some vms \<and>
      same_but_tasks ((store (st_env st))\<lparr>sto_VMs := vms\<rparr>) (store (st_env st'))"
proof -
  let ?s = "store (st_env st)"
  obtain t ts s1 where a: "accept_task u ''vmm:ahv:config:vm'' ?s = (Some (writeJSON 202 (taskRefBody t)), s1)" "same_but_tasks ?s s1"
      "sto_Tasks s1 t = Some ts" "ts_PollCount ts = 0" "ts_TargetPolls ts = 2" "t \<noteq> []" "CHR ''?'' \<notin> set t"
    by (rule accept_task_cases [of u "''vmm:ahv:config:vm''" ?s]) blast
  have done': "\<exists>vms st'. task_done (run_task c what ''POST'' (hc_host c @ vmBasePath @ ''/'' @ u @ ''/$actions/'' @ act) (Some (JObject [])) st) = Some (None, st') \<and>
      set_power u p (sto_VMs ?s) = Some vms \<and> same_but_tasks (?s\<lparr>sto_VMs := vms\<rparr>) (store (st_env st'))"
    if act: "act = ''power-off'' \<and> p = ''OFF'' \<or> act = ''power-on'' \<and> p = ''ON''" for act p what
  proof -
    let ?url = "hc_host c @ vmBasePath @ ''/'' @ u @ ''/$actions/'' @ act"
    obtain vms where vms: "set_power u p (sto_VMs ?s) = Some vms"
      using find_set_power assms(1) unfolding store_GetVM_def by blast
    have "CHR ''?'' \<notin> set (u @ ''/$actions/'' @ act)" using act assms(2) by (auto simp: plain_id_def)
    moreover have "split_first CHR ''/'' (u @ ''/$actions/'' @ act) = (u, Some (''$actions/'' @ act))"
      using entity_paths(2) [OF assms(2), of "''$actions/'' @ act"] by simp
    ultimately have "ServeHTTP (hc_host c) (basic_request c ''POST'' ?url (Some (JObject []) \<noteq> None) (Some (JObject []))) ?s =
        (Some (writeJSON 202 (taskRefBody t)), s1\<lparr>sto_VMs := vms\<rparr>)"
      using route_entity(1) [of "basic_request c ''POST'' ?url True (Some (JObject []))" "hc_host c" "u @ ''/$actions/'' @ act" ?s]
        act a(1) vms assms(1) same_but_tasks_fields(1) [OF a(2)]
      by (auto simp: basic_request_def handleVMByID_def handleVMPowerOff_def handleVMPowerOn_def TrimPrefix_def store_SetVMPowerState_def)
    from run_task_accepted [where body = "Some (JObject [])", OF this, of ts what] a(3-7)
    obtain st' where "run_task c what ''POST'' ?url (Some (JObject [])) st = Some (Inr (ts_Task (poll_state (poll_state ts))), st')"
        "same_but_tasks (s1\<lparr>sto_VMs := vms\<rparr>) (store (st_env st'))" by auto
    then show ?thesis using vms same_but_tasks_trans [OF same_but_tasks_VMs [OF a(2)]] by (auto simp: task_done_def)
  qed
  from done' [of "''power-off''" "''OFF''" "''PowerOffVM''"]
  show "\<exists>vms st'. http_PowerOffVM c u st = Some (None, st') \<and> set_power u ''OFF'' (sto_VMs ?s) = Some vms \<and>
      same_but_tasks (?s\<lparr>sto_VMs := vms\<rparr>) (store (st_env st'))"
    by (simp add: http_PowerOffVM_def)
  from done' [of "''power-on''" "''ON''" "''PowerOnVM''"]
  show "\<exists>vms st'. http_PowerOnVM c u st = Some (None, st') \<and> set_power u ''ON'' (sto_VMs ?s) = Some vms \<and>
      same_but_tasks (?s\<lparr>sto_VMs := vms\<rparr>) (store (st_env st'))"
    by (simp add: http_PowerOnVM_def)
qed

text \<open>The two kinds of operations on entities that end with a task: creating one and deleting one.\<close>

lemma created:
  assumes "ServeHTTP (hc_host c) (basic_request c ''POST'' url True (Some body)) (store (st_env st)) = accept_task u rel s1" and "rel \<in> set rels"
  shows "\<exists>st'. task_result what kind rels (run_task c what ''POST'' url (Some body) st) = Some (Inr u, st') \<and> same_but_tasks s1 (store (st_env st'))"
proof -
  obtain t ts s2 where a: "accept_task u rel s1 = (Some (writeJSON 202 (taskRefBody t)), s2)" "same_but_tasks s1 s2"
      "sto_Tasks s2 t = Some ts" "ts_PollCount ts = 0" "ts_TargetPolls ts = 2" "t \<noteq> []" "CHR ''?'' \<notin> set t"
      "task_EntitiesAffected (ts_Task ts) = [\<lparr>ten_ExtID = u, ten_Rel = rel\<rparr>]"
    by (rule accept_task_cases [of u rel s1]) blast
  have "ServeHTTP (hc_host c) (basic_request c ''POST'' url (Some body \<noteq> None) (Some body)) (store (st_env st)) = (Some (writeJSON 202 (taskRefBody t)), s2)"
    using assms(1) a(1) by simp
  from run_task_accepted [where body = "Some body", OF this a(3-7), of what]
  obtain st' where "run_task c what ''POST'' url (Some body) st = Some (Inr (ts_Task (poll_state (poll_state ts))), st')"
      "same_but_tasks s2 (store (st_env st'))" by auto
  then show ?thesis using same_but_tasks_trans [OF a(2)] a(8) assms(2) by (auto simp: task_result_def task_entity_def)
qed

lemma deleted:
  assumes "ServeHTTP (hc_host c) (basic_request c ''DELETE'' url False None) (store (st_env st)) = accept_task u rel s1"
  shows "\<exists>st'. task_done (run_task c what ''DELETE'' url None st) = Some (None, st') \<and> same_but_tasks s1 (store (st_env st'))"
proof -
  obtain t ts s2 where a: "accept_task u rel s1 = (Some (writeJSON 202 (taskRefBody t)), s2)" "same_but_tasks s1 s2"
      "sto_Tasks s2 t = Some ts" "ts_PollCount ts = 0" "ts_TargetPolls ts = 2" "t \<noteq> []" "CHR ''?'' \<notin> set t"
    by (rule accept_task_cases [of u rel s1]) blast
  have "ServeHTTP (hc_host c) (basic_request c ''DELETE'' url (None \<noteq> (None :: json option)) None) (store (st_env st)) =
      (Some (writeJSON 202 (taskRefBody t)), s2)"
    using assms(1) a(1) by simp
  from run_task_accepted [where body = None, OF this a(3-7), of what]
  obtain st' where "run_task c what ''DELETE'' url None st = Some (Inr (ts_Task (poll_state (poll_state ts))), st')"
      "same_but_tasks s2 (store (st_env st'))" by auto
  then show ?thesis using same_but_tasks_trans [OF a(2)] by (auto simp: task_done_def)
qed

lemma CreateRecoveryPoint_stored:
  "\<exists>st'. http_CreateRecoveryPoint c vm name st = Some (Inr (fst (store_AddRecoveryPoint (new_rp vm name) (store (st_env st)))), st') \<and>
     same_but_tasks (snd (store_AddRecoveryPoint (new_rp vm name) (store (st_env st)))) (store (st_env st'))"
proof -
  obtain u s1 where add: "store_AddRecoveryPoint (new_rp vm name) (store (st_env st)) = (u, s1)" by fastforce
  show ?thesis unfolding http_CreateRecoveryPoint_def add fst_conv snd_conv
    by (rule created [where rel = "''dataprotection:config:recovery-point''"], subst route_exact(2))
      (use add in \<open>simp_all add: basic_request_def handleRecoveryPointCreate_def dec_rp_body_def dec_entries_def is_struct_def get_field_def
        dec_string_def dec_list_def new_rp_def\<close>)
qed

lemma CreateImageFromDisk_stored:
  "\<exists>st'. http_CreateImageFromDisk c name disk cluster st = Some (Inr (fst (store_AddImage (new_image name) (store (st_env st)))), st') \<and>
     same_but_tasks (snd (store_AddImage (new_image name) (store (st_env st)))) (store (st_env st'))"
proof -
  obtain u s1 where add: "store_AddImage (new_image name) (store (st_env st)) = (u, s1)" by fastforce
  show ?thesis unfolding http_CreateImageFromDisk_def add fst_conv snd_conv
    by (rule created [where rel = "''vmm:images:image''"], subst route_exact(3))
      (use add in \<open>simp_all add: basic_request_def handleImageCreate_def dec_image_body_def is_struct_def get_field_def dec_string_def new_image_def\<close>)
qed

lemma DeleteRecoveryPoint_stored:
  assumes "store_GetRecoveryPoint u (store (st_env st)) \<noteq> None" "plain_id u"
  shows "\<exists>st'. http_DeleteRecoveryPoint c u st = Some (None, st') \<and>
    same_but_tasks (snd (store_DeleteRecoveryPoint u (store (st_env st)))) (store (st_env st'))"
  unfolding http_DeleteRecoveryPoint_def
  by (rule deleted [where u = u and rel = "''dataprotection:config:recovery-point''"], subst route_entity(2))
    (use assms rp_table.del_found [of u "store (st_env st)"] in
      \<open>auto simp: basic_request_def handleRecoveryPointByID_def handleRecoveryPointDelete_def TrimPrefix_def plain_id_def split_first_none split: prod.split\<close>)

lemma DeleteImage_stored:
  assumes "store_GetImage u (store (st_env st)) \<noteq> None" "plain_id u"
  shows "\<exists>st'. http_DeleteImage c u st = Some (None, st') \<and> same_but_tasks (snd (store_DeleteImage u (store (st_env st)))) (store (st_env st'))"
  unfolding http_DeleteImage_def
  by (rule deleted [where u = u and rel = "''vmm:images:image''"], subst route_entity(3))
    (use assms image_table.del_found [of u "store (st_env st)"] in
      \<open>auto simp: basic_request_def handleImageByID_def handleImageDelete_def TrimPrefix_def plain_id_def split_first_none split: prod.split\<close>)

lemma GetRecoveryPoint_stored:
  assumes "store_GetRecoveryPoint u (store (st_env st)) = Some rp" "plain_id u"
  shows "\<exists>st'. http_GetRecoveryPoint c u st = (Inr rp, st') \<and> store (st_env st') = store (st_env st)"
proof -
  let ?url = "hc_host c @ recoveryPointBasePath @ ''/'' @ u"
  have "ServeHTTP (hc_host c) (basic_request c ''GET'' ?url (None \<noteq> (None :: json option)) None) (store (st_env st)) =
      (Some (writeJSON 200 (singleResponse (enc_RecoveryPoint rp))), store (st_env st))"
    using route_entity(2) [of "basic_request c ''GET'' ?url False None" "hc_host c" u] assms
    by (simp add: basic_request_def handleRecoveryPointByID_def handleRecoveryPointGet_def plain_id_def TrimPrefix_def split_first_none)
  then show ?thesis
    using doJSON_answered [where dec = "dec_data dec_RecoveryPoint" and x = rp and code = 200 and url = ?url and body = None]
      rp_codec.dec_data_enc [of rp] by (fastforce simp: http_GetRecoveryPoint_def)
qed

lemma GetImage_stored:
  assumes "store_GetImage u (store (st_env st)) = Some img" "ok_Image img" "plain_id u"
  shows "\<exists>st'. http_GetImage c u st = (Inr img, st') \<and> store (st_env st') = store (st_env st)"
proof -
  let ?url = "hc_host c @ imageBasePath @ ''/'' @ u"
  have "ServeHTTP (hc_host c) (basic_request c ''GET'' ?url (None \<noteq> (None :: json option)) None) (store (st_env st)) =
      (Some (writeJSON 200 (singleResponse (enc_Image img))), store (st_env st))"
    using route_entity(3) [of "basic_request c ''GET'' ?url False None" "hc_host c" u] assms
    by (simp add: basic_request_def handleImageByID_def handleImageGet_def plain_id_def TrimPrefix_def split_first_none)
  then show ?thesis
    using doJSON_answered [where dec = "dec_data dec_Image" and x = img and code = 200 and url = ?url and body = None]
      img_codec.dec_data_enc [OF assms(2)] by (fastforce simp: http_GetImage_def)
qed

lemma DownloadImage_stored:
  assumes "store_GetImage u (store (st_env st)) = Some img" "0 < img_SizeBytes img" "plain_id u"
  shows "\<exists>st'. http_DownloadImage c u st = (Inr (image_data (img_SizeBytes img)), st') \<and> store (st_env st') = store (st_env st)"
proof -
  let ?url = "hc_host c @ imageBasePath @ ''/'' @ u @ ''/file''"
  have "ServeHTTP (hc_host c) (basic_request c ''GET'' ?url (None \<noteq> (None :: json option)) None) (store (st_env st)) =
      (Some (binary_response 200 (image_data (img_SizeBytes img))), store (st_env st))"
    using route_entity(3) [of "basic_request c ''GET'' ?url False None" "hc_host c" "u @ ''/file''"] assms
      entity_paths(2) [OF assms(3), of "''file''"]
    by (simp add: basic_request_def handleImageByID_def handleImageDownload_def plain_id_def TrimPrefix_def Let_def)
  then show ?thesis
    using doRequest_answered [where r = "binary_response 200 (image_data (img_SizeBytes img))" and url = ?url and body = None]
    by (fastforce simp: http_DownloadImage_def binary_response_def)
qed

lemma ListStorageContainers_stored:
  assumes "TrimRight (hc_host c) CHR ''/'' = hc_host c" "int (length (sto_StorageContainers (store (st_env st)))) < 2 ^ 63"
  shows "\<exists>st'. http_ListStorageContainers c (hc_host c) st = (Inr (sto_StorageContainers (store (st_env st))), st') \<and>
    store (st_env st') = store (st_env st)"
proof -
  let ?url = "hc_host c @ storageContainerV2Path" and ?xs = "sto_StorageContainers (store (st_env st))"
  let ?j = "JObject [(''entities'', JArray (map enc_StorageContainer ?xs)),
    (''metadata'', JObject [(''grandTotalEntities'', JNum (int (length ?xs))), (''totalEntities'', JNum (int (length ?xs)))])]"
  have "ServeHTTP (hc_host c) (basic_request c ''GET'' ?url (None \<noteq> (None :: json option)) None) (store (st_env st)) =
      (Some (writeJSON 200 ?j), store (st_env st))"
    using route_exact(1) [of "basic_request c ''GET'' ?url False None" "hc_host c"]
    by (simp add: basic_request_def handleStorageContainerList_def Let_def)
  moreover have "dec_containers ?j = Some ?xs"
    using assms(2) sc_codec.dec_list_enc [of ?xs]
    by (simp add: dec_containers_def is_struct_def get_field_def dec_ptr_def dec_v2Metadata_def dec_int_def int64_def)
  ultimately show ?thesis
    using doJSON_answered [where dec = dec_containers and code = 200 and url = ?url and body = None] assms(1)
    by (fastforce simp: http_ListStorageContainers_def)
qed

lemma recovery_point_lifecycle:
  assumes "entities_ok (store (st_env st))"
  shows "\<exists>u st1 st2 st3. http_CreateRecoveryPoint c vm name st = Some (Inr u, st1) \<and>
      sto_RecoveryPoints (store (st_env st)) u = None \<and>
      http_GetRecoveryPoint c u st1 =
        (Inr \<lparr>rp_ExtID = u, rp_Name = name, rp_Status = ''COMPLETE'', rp_VMExtID = vm, rp_ExpirationTime = [],
              rp_RecoveryPointType = ''APPLICATION_CONSISTENT''\<rparr>, st2) \<and>
      http_DeleteRecoveryPoint c u st2 = Some (None, st3) \<and>
      sto_RecoveryPoints (store (st_env st3)) = sto_RecoveryPoints (store (st_env st))"
proof -
  let ?s = "store (st_env st)"
  let ?u = "fst (store_AddRecoveryPoint (new_rp vm name) ?s)" and ?s1 = "snd (store_AddRecoveryPoint (new_rp vm name) ?s)"
  obtain st1 where c: "http_CreateRecoveryPoint c vm name st = Some (Inr ?u, st1)" "same_but_tasks ?s1 (store (st_env st1))"
    using CreateRecoveryPoint_stored by blast
  have got: "store_GetRecoveryPoint ?u (store (st_env st1)) = Some ((new_rp vm name)\<lparr>rp_ExtID := ?u, rp_Status := ''COMPLETE''\<rparr>)"
    using rp_table.get_add [of ?u "new_rp vm name" ?s] same_but_tasks_fields(2) [OF c(2)] by (simp add: store_GetRecoveryPoint_def)
  obtain st2 where g: "http_GetRecoveryPoint c ?u st1 = (Inr ((new_rp vm name)\<lparr>rp_ExtID := ?u, rp_Status := ''COMPLETE''\<rparr>), st2)"
      "store (st_env st2) = store (st_env st1)"
    using GetRecoveryPoint_stored [OF got added_plain(1)] by blast
  obtain st3 where d: "http_DeleteRecoveryPoint c ?u st2 = Some (None, st3)"
      "same_but_tasks (snd (store_DeleteRecoveryPoint ?u (store (st_env st2)))) (store (st_env st3))"
    using DeleteRecoveryPoint_stored [of ?u st2] got g(2) added_plain(1) by auto
  have "sto_RecoveryPoints (store (st_env st3)) = sto_RecoveryPoints ?s"
  proof
    fix x
    show "sto_RecoveryPoints (store (st_env st3)) x = sto_RecoveryPoints ?s x"
      using rp_table.get_del [of x ?u "store (st_env st2)"] rp_table.get_add [of x "new_rp vm name" ?s] rp_table.add_fresh [OF assms, of "new_rp vm name"]
        same_but_tasks_fields(2) [OF c(2)] same_but_tasks_fields(2) [OF d(2)] g(2) by (simp add: store_GetRecoveryPoint_def split: if_splits)
  qed
  moreover have "sto_RecoveryPoints ?s ?u = None" using rp_table.add_fresh [OF assms] by (simp add: store_GetRecoveryPoint_def)
  ultimately show ?thesis
    using c(1) g(1) d(1) by (intro exI [of _ ?u] exI [of _ st1] exI [of _ st2] exI [of _ st3]) (simp add: new_rp_def)
qed

lemma image_lifecycle:
  assumes "entities_ok (store (st_env st))"
  shows "\<exists>u st1 st2 st3. http_CreateImageFromDisk c name disk cluster st = Some (Inr u, st1) \<and>
      sto_Images (store (st_env st)) u = None \<and>
      http_DownloadImage c u st1 = (Inr (replicate 4096 CHR 0xAA), st2) \<and>
      http_DeleteImage c u st2 = Some (None, st3) \<and>
      sto_Images (store (st_env st3)) = sto_Images (store (st_env st))"
proof -
  let ?s = "store (st_env st)"
  let ?u = "fst (store_AddImage (new_image name) ?s)" and ?s1 = "snd (store_AddImage (new_image name) ?s)"
  obtain st1 where c: "http_CreateImageFromDisk c name disk cluster st = Some (Inr ?u, st1)" "same_but_tasks ?s1 (store (st_env st1))"
    using CreateImageFromDisk_stored by blast
  have got: "store_GetImage ?u (store (st_env st1)) = Some ((new_image name)\<lparr>img_ExtID := ?u\<rparr>)"
    using image_table.get_add [of ?u "new_image name" ?s] same_but_tasks_fields(3) [OF c(2)] by (simp add: store_GetImage_def)
  obtain st2 where g: "http_DownloadImage c ?u st1 = (Inr (replicate 4096 CHR 0xAA), st2)" "store (st_env st2) = store (st_env st1)"
    using DownloadImage_stored [OF got _ added_plain(2)] by (auto simp: new_image_def image_data_def)
  obtain st3 where d: "http_DeleteImage c ?u st2 = Some (None, st3)"
      "same_but_tasks (snd (store_DeleteImage ?u (store (st_env st2)))) (store (st_env st3))"
    using DeleteImage_stored [of ?u st2] got g(2) added_plain(2) by auto
  have "sto_Images (store (st_env st3)) = sto_Images ?s"
  proof
    fix x
    show "sto_Images (store (st_env st3)) x = sto_Images ?s x"
      using image_table.get_del [of x ?u "store (st_env st2)"] image_table.get_add [of x "new_image name" ?s] image_table.add_fresh [OF assms, of "new_image name"]
        same_but_tasks_fields(3) [OF c(2)] same_but_tasks_fields(3) [OF d(2)] g(2) by (simp add: store_GetImage_def split: if_splits)
  qed
  moreover have "sto_Images ?s ?u = None" using image_table.add_fresh [OF assms] by (simp add: store_GetImage_def)
  ultimately show ?thesis
    using c(1) g(1) d(1) by (intro exI [of _ ?u] exI [of _ st1] exI [of _ st2] exI [of _ st3]) simp
qed

text \<open>Changed regions: discovery, and a request with the right and with a wrong token.\<close>

lemma DiscoverClusterForCBT_answered:
  assumes "hc_host c \<noteq> []"
  shows "\<exists>st' now. http_DiscoverClusterForCBT c vm st =
      (Inr \<lparr>cbt_PrismElementURL = hc_host c, cbt_JWTToken = expected_token (store (st_env st))\<rparr>, st') \<and>
    store (st_env st') = store (st_env st) \<and> time (st_env st') \<le> now + minute \<and>
    st_cbtTokens st' vm = Some \<lparr>tok_prismElementURL = hc_host c, tok_jwtToken = expected_token (store (st_env st)), tok_discoveredAt = now\<rparr>"
proof -
  let ?url = "hc_host c @ cbtDiscoverPath" and ?body = "JObject [(''vmExtId'', JString vm)]"
  let ?info = "\<lparr>cbt_PrismElementURL = hc_host c, cbt_JWTToken = expected_token (store (st_env st))\<rparr>"
  have "ServeHTTP (hc_host c) (basic_request c ''POST'' ?url (Some ?body \<noteq> None) (Some ?body)) (store (st_env st)) =
      (Some (writeJSON 200 (singleResponse (enc_CBTClusterInfo ?info))), store (st_env st))"
    using route_exact(4) [of "basic_request c ''POST'' ?url True (Some ?body)" "hc_host c"]
    by (simp add: basic_request_def handleCBTDiscoverCluster_def singleResponse_def)
  then obtain st1 where j: "doJSON c ''POST'' ?url (Some ?body) (dec_data dec_CBTClusterInfo) st = (Inr ?info, st1)"
      "store (st_env st1) = store (st_env st)"
    using doJSON_answered [where dec = "dec_data dec_CBTClusterInfo" and x = ?info and code = 200 and url = ?url and body = "Some ?body"]
      cbt_codec.dec_data_enc [of ?info] by fastforce
  obtain e' where n: "net_Now (hc_client c) (st_env st1) = (time (st_env st1), e')" "store e' = store (st_env st1)"
      "time e' \<le> time (st_env st1) + minute"
    using clock by blast
  show ?thesis using j n assms
    by (intro exI [of _ "st1\<lparr>st_env := e', st_cbtTokens := (st_cbtTokens st1)(vm \<mapsto> \<lparr>tok_prismElementURL = hc_host c,
        tok_jwtToken = expected_token (store (st_env st)), tok_discoveredAt = time (st_env st1)\<rparr>)\<rparr>"] exI [of _ "time (st_env st1)"])
      (auto simp: http_DiscoverClusterForCBT_def client_Now_def expected_token_def)
qed

lemma GetChangedRegions_answered:
  assumes "fresh_token c pe jwt vm st = (Inr (pe', tok), st1)" and "store (st_env st1) = store (st_env st)" and "TrimRight pe' CHR ''/'' = hc_host c"
    and plain: "CHR ''&'' \<notin> set vm" "CHR ''&'' \<notin> set snap" "CHR ''&'' \<notin> set bsnap" and off: "0 \<le> offset" "offset < 2 ^ 63"
    and regs: "\<forall>r \<in> set (cbc_ChangedRegions (sto_CBTConfig (store (st_env st)))). ok_ChangedRegion r"
      "int (length (cbc_ChangedRegions (sto_CBTConfig (store (st_env st))))) < 2 ^ 63" and "tok \<noteq> []"
  shows "\<exists>st2. http_GetChangedRegions c pe jwt vm snap bsnap offset len bs st =
      (if tok = expected_token (store (st_env st)) then Inr (region_page (cbc_ChangedRegions (sto_CBTConfig (store (st_env st)))) offset)
       else Inl (api_error (writeError 401 ''invalid JWT token'') (cbt_url pe' vm snap bsnap offset len bs)), st2) \<and>
    store (st_env st2) = store (st_env st) \<and> time (st_env st2) \<le> time (st_env st1) + minute \<and> st_cbtTokens st2 = st_cbtTokens st1"
proof -
  let ?s = "store (st_env st)" and ?url = "cbt_url pe' vm snap bsnap offset len bs"
  let ?page = "region_page (cbc_ChangedRegions (sto_CBTConfig ?s)) offset"
  let ?q = "\<lparr>rq_Method = ''GET'', rq_URL = ?url, rq_Auth = None, rq_Cookie = Some (CBTJWTCookieName, tok), rq_Range = [],
    rq_ContentType = False, rq_Body = None\<rparr>"
  let ?r = "if tok = expected_token ?s then writeJSON 200 (singleResponse (enc_ChangedRegions ?page)) else writeError 401 ''invalid JWT token''"
  have url: "?url = hc_host c @ cbtChangedRegionsPath @ ''?'' @ region_query vm snap bsnap offset len bs"
    using assms(3) by (simp add: cbt_url_def region_query_def)
  have "ServeHTTP (hc_host c) ?q ?s = handleCBTChangedRegions ?q (region_query vm snap bsnap offset len bs) ?s"
    by (rule route_lists(4)) (use url in simp)
  also have "\<dots> = (Some ?r, ?s)"
    using Atoi_offset [OF plain off] assms(11) off by (simp add: handleCBTChangedRegions_def singleResponse_def)
  finally obtain dr e' where d: "net_Do (hc_client c) ?q (st_env st1) = (Inr ?r, dr, e')" "store e' = ?s" "time e' \<le> time (st_env st1) + minute"
    using answered [of ?q "st_env st1" ?r] assms(2) by auto
  have "dec_data dec_ChangedRegions (singleResponse (enc_ChangedRegions ?page)) = Some ?page"
    using regions_codec.dec_data_enc ok_region_page regs off(1) by blast
  then show ?thesis
    using assms(1) d parses by (simp add: http_GetChangedRegions_def Let_def client_Do_def writeError_def writeJSON_def)
qed

end

section \<open>The server in the same process\<close>

definition mock_net :: "string \<Rightarrow> (Store \<times> int) net" where
  "mock_net base =
     \<lparr>net_ParseURL = \<lambda>_. None,
      net_Do = \<lambda>q (s, t). case ServeHTTP base q s of
          (None, s') \<Rightarrow> (Inl (errors_New ''EOF''), True, (s', t + 1)) | (Some r, s') \<Rightarrow> (Inr r, True, (s', t + 1)),
      net_Now = \<lambda>e. (snd e, e), net_Sleep = \<lambda>d (s, t). (False, (s, t + max 0 d)),
      net_CtxErr = errors_New ''context canceled'', net_JsonErr = \<lambda>_. errors_New ''invalid character''\<rparr>"

definition mock_client :: "string \<Rightarrow> (Store \<times> int) httpClient" where
  "mock_client base = \<lparr>hc_client = mock_net base, hc_host = base, hc_username = ''admin'', hc_password = ''secret'', hc_maxRetries = 3\<rparr>"

lemma mock_client_host [simp]: "hc_host (mock_client base) = base"
  by (simp add: mock_client_def)

lemma mock_client_Now [simp]: "client_Now (mock_client base) st = (snd (st_env st), st)"
  by (simp add: client_Now_def mock_client_def mock_net_def)

interpretation in_process: mock_backed "mock_client base" fst snd
  by unfold_locales (auto simp: mock_client_def mock_net_def split: prod.splits option.splits)

text \<open>
  C31. Against the mock server the client sees the whole inventory. However many VMs, subnets and clusters the
  server has, the pagination of the client ends, and with its offsets and the pages of the server every entry
  arrives exactly once and in order; the storage containers arrive in their single response.
\<close>

theorem mock_inventory_listed:
  assumes "fst (st_env st) = s" and "\<forall>vm \<in> set (sto_VMs s). ok_VM vm" and "\<forall>x \<in> set (sto_Subnets s). ok_Subnet x"
    and "length (sto_VMs s) < 2 ^ 61" "length (sto_Subnets s) < 2 ^ 61" "length (sto_Clusters s) < 2 ^ 61"
    and "length (sto_StorageContainers s) < 2 ^ 61" and "TrimRight base CHR ''/'' = base"
  shows "(\<exists>st'. http_ListVMs (mock_client base) st = Some (Inr (sto_VMs s), st') \<and> fst (st_env st') = s) \<and>
    (\<exists>st'. http_ListSubnets (mock_client base) st = Some (Inr (sto_Subnets s), st') \<and> fst (st_env st') = s) \<and>
    (\<exists>st'. http_ListClusters (mock_client base) st = Some (Inr (sto_Clusters s), st') \<and> fst (st_env st') = s) \<and>
    (\<exists>st'. http_ListStorageContainers (mock_client base) base st = (Inr (sto_StorageContainers s), st') \<and> fst (st_env st') = s)"
proof (intro conjI)
  note loop = in_process.list_loop_complete [where st = st and offset = 0, simplified]
  show "\<exists>st'. http_ListVMs (mock_client base) st = Some (Inr (sto_VMs s), st') \<and> fst (st_env st') = s"
    unfolding http_ListVMs_def
    by (use loop [OF vm_codec.json_codec_axioms, of "sto_VMs s" base vmBasePath sto_VMs] assms in \<open>simp add: route_lists handleVMList_def\<close>)
  show "\<exists>st'. http_ListSubnets (mock_client base) st = Some (Inr (sto_Subnets s), st') \<and> fst (st_env st') = s"
    unfolding http_ListSubnets_def
    by (use loop [OF subnet_codec.json_codec_axioms, of "sto_Subnets s" base subnetBasePath sto_Subnets] assms in \<open>simp add: route_lists handleSubnetList_def\<close>)
  show "\<exists>st'. http_ListClusters (mock_client base) st = Some (Inr (sto_Clusters s), st') \<and> fst (st_env st') = s"
    unfolding http_ListClusters_def
    by (use loop [OF clu_codec.json_codec_axioms, of "sto_Clusters s" base clusterBasePath sto_Clusters] assms in \<open>simp add: route_lists handleClusterList_def\<close>)
  show "\<exists>st'. http_ListStorageContainers (mock_client base) base st = (Inr (sto_StorageContainers s), st') \<and> fst (st_env st') = s"
    using in_process.ListStorageContainers_stored [of base st] assms by simp
qed

text \<open>
  Switching a VM off and on again through the client. \<^verbatim>\<open>PowerOffVM\<close> returns without an error once the task
  has succeeded, from then on \<^verbatim>\<open>GetVMPowerState\<close> reports OFF, and \<^verbatim>\<open>PowerOnVM\<close> brings it back to ON; no other
  VM changes.
\<close>

theorem mock_power_cycle:
  assumes "store_GetVM u (fst (st_env st)) = Some vm" and "ok_VM vm" and "plain_id u"
  shows "\<exists>st1 st2 st3 st4. http_PowerOffVM (mock_client base) u st = Some (None, st1) \<and>
    http_GetVMPowerState (mock_client base) u st1 = (Inr ''OFF'', st2) \<and>
    http_PowerOnVM (mock_client base) u st2 = Some (None, st3) \<and>
    http_GetVMPowerState (mock_client base) u st3 = (Inr ''ON'', st4) \<and>
    (\<forall>u'. u' = u \<or> store_GetVM u' (fst (st_env st4)) = store_GetVM u' (fst (st_env st)))"
proof -
  have power: "\<exists>vms. set_power u p (sto_VMs s) = Some vms \<and> (\<forall>s'. sto_VMs s' = vms \<longrightarrow>
      store_GetVM u s' = Some (vm'\<lparr>vm_PowerState := p\<rparr>) \<and> (\<forall>u'. u' \<noteq> u \<longrightarrow> store_GetVM u' s' = store_GetVM u' s))"
    if "store_GetVM u s = Some vm'" for p s vm'
    using find_set_power [of u "sto_VMs s" vm' p] that unfolding store_GetVM_def by blast
  have ok: "ok_VM (vm\<lparr>vm_PowerState := p\<rparr>)" "ok_VM (vm\<lparr>vm_PowerState := p, vm_PowerState := p'\<rparr>)" for p p'
    using assms(2) by (simp_all add: ok_VM_def)
  obtain st1 where off: "http_PowerOffVM (mock_client base) u st = Some (None, st1)"
      "store_GetVM u (fst (st_env st1)) = Some (vm\<lparr>vm_PowerState := ''OFF''\<rparr>)"
      "\<forall>u'. u' \<noteq> u \<longrightarrow> store_GetVM u' (fst (st_env st1)) = store_GetVM u' (fst (st_env st))"
    using in_process.power_switched(1) [OF assms(1,3), of base] power [OF assms(1), of "''OFF''"] same_but_tasks_fields(1) by fastforce
  obtain st2 where g1: "http_GetVM (mock_client base) u st1 = (Inr (vm\<lparr>vm_PowerState := ''OFF''\<rparr>), st2)" "fst (st_env st2) = fst (st_env st1)"
    using in_process.GetVM_stored [OF off(2) ok(1) assms(3), of base] by blast
  have vm2: "store_GetVM u (fst (st_env st2)) = Some (vm\<lparr>vm_PowerState := ''OFF''\<rparr>)" using off g1 by simp
  obtain st3 where on: "http_PowerOnVM (mock_client base) u st2 = Some (None, st3)"
      "store_GetVM u (fst (st_env st3)) = Some (vm\<lparr>vm_PowerState := ''OFF'', vm_PowerState := ''ON''\<rparr>)"
      "\<forall>u'. u' \<noteq> u \<longrightarrow> store_GetVM u' (fst (st_env st3)) = store_GetVM u' (fst (st_env st2))"
    using in_process.power_switched(2) [OF vm2 assms(3), of base] power [OF vm2, of "''ON''"] same_but_tasks_fields(1) by fastforce
  obtain st4 where g2: "http_GetVM (mock_client base) u st3 = (Inr (vm\<lparr>vm_PowerState := ''OFF'', vm_PowerState := ''ON''\<rparr>), st4)"
      "fst (st_env st4) = fst (st_env st3)"
    using in_process.GetVM_stored [OF on(2) ok(2) assms(3), of base] by blast
  show ?thesis using off g1 on g2 by (intro exI [of _ st1] exI [of _ st2] exI [of _ st3] exI [of _ st4]) (auto simp: http_GetVMPowerState_def)
qed

text \<open>
  The life of a recovery point and of an image. What \<^verbatim>\<open>CreateRecoveryPoint\<close> and \<^verbatim>\<open>CreateImageFromDisk\<close> return is
  the identifier, new to the server, of the entity that was created; it can be read back (and the image
  downloaded in full), deleting it succeeds, and then the server has exactly the entities it had before.
\<close>

theorem mock_entity_lifecycle:
  assumes "store_ok (fst (st_env st))"
  shows "(\<exists>u st1 st2 st3. http_CreateRecoveryPoint (mock_client base) vm name st = Some (Inr u, st1) \<and>
      sto_RecoveryPoints (fst (st_env st)) u = None \<and>
      http_GetRecoveryPoint (mock_client base) u st1 =
        (Inr \<lparr>rp_ExtID = u, rp_Name = name, rp_Status = ''COMPLETE'', rp_VMExtID = vm, rp_ExpirationTime = [],
              rp_RecoveryPointType = ''APPLICATION_CONSISTENT''\<rparr>, st2) \<and>
      http_DeleteRecoveryPoint (mock_client base) u st2 = Some (None, st3) \<and>
      sto_RecoveryPoints (fst (st_env st3)) = sto_RecoveryPoints (fst (st_env st))) \<and>
    (\<exists>u st1 st2 st3. http_CreateImageFromDisk (mock_client base) name disk cluster st = Some (Inr u, st1) \<and>
      sto_Images (fst (st_env st)) u = None \<and>
      http_DownloadImage (mock_client base) u st1 = (Inr (replicate 4096 CHR 0xAA), st2) \<and>
      http_DeleteImage (mock_client base) u st2 = Some (None, st3) \<and>
      sto_Images (fst (st_env st3)) = sto_Images (fst (st_env st)))"
  using in_process.recovery_point_lifecycle [OF store_ok_entities [OF assms], of base vm name] in_process.image_lifecycle [OF store_ok_entities [OF assms], of base name disk cluster] by blast

text \<open>
  A refreshed token is used once. When the token of a VM is older than twelve minutes, \<^verbatim>\<open>GetChangedRegions\<close>
  discovers a new one and answers with it; but the caller keeps passing the old token, and the next call finds
  the cache entry fresh and sends the old token again, so the server refuses it although the client holds a valid one.
\<close>

theorem refreshed_token_is_lost:
  assumes "st_cbtTokens st vm = Some entry" and "snd (st_env st) - tok_discoveredAt entry > CBTTokenMaxAge"
    and "jwt \<noteq> expected_token (fst (st_env st))" "jwt \<noteq> []" "base \<noteq> []" "TrimRight base CHR ''/'' = base"
    and "CHR ''&'' \<notin> set vm" "CHR ''&'' \<notin> set snap" "CHR ''&'' \<notin> set bsnap" "0 \<le> offset" "offset < 2 ^ 63" "0 \<le> offset'" "offset' < 2 ^ 63"
    and "\<forall>r \<in> set (cbc_ChangedRegions (sto_CBTConfig (fst (st_env st)))). ok_ChangedRegion r"
      "int (length (cbc_ChangedRegions (sto_CBTConfig (fst (st_env st))))) < 2 ^ 63"
  shows "\<exists>st1 st2. http_GetChangedRegions (mock_client base) base jwt vm snap bsnap offset len bs st =
      (Inr (region_page (cbc_ChangedRegions (sto_CBTConfig (fst (st_env st)))) offset), st1) \<and>
    map_option tok_jwtToken (st_cbtTokens st1 vm) = Some (expected_token (fst (st_env st))) \<and>
    http_GetChangedRegions (mock_client base) base jwt vm snap bsnap offset' len bs st1 =
      (Inl (api_error (writeError 401 ''invalid JWT token'') (cbt_url base vm snap bsnap offset' len bs)), st2)"
proof -
  obtain st0 t where d: "http_DiscoverClusterForCBT (mock_client base) vm st =
        (Inr \<lparr>cbt_PrismElementURL = base, cbt_JWTToken = expected_token (fst (st_env st))\<rparr>, st0)"
      "fst (st_env st0) = fst (st_env st)" "snd (st_env st0) \<le> t + minute"
      "st_cbtTokens st0 vm = Some \<lparr>tok_prismElementURL = base, tok_jwtToken = expected_token (fst (st_env st)), tok_discoveredAt = t\<rparr>"
    using in_process.DiscoverClusterForCBT_answered [of base vm st] assms(5) by auto
  have f1: "fresh_token (mock_client base) base jwt vm st = (Inr (base, expected_token (fst (st_env st))), st0)"
    using assms(1,2) d(1) by (simp add: fresh_token_def)
  have tok: "expected_token (fst (st_env st)) \<noteq> []" by (simp add: expected_token_def)
  obtain st1 where g1: "http_GetChangedRegions (mock_client base) base jwt vm snap bsnap offset len bs st =
        (Inr (region_page (cbc_ChangedRegions (sto_CBTConfig (fst (st_env st)))) offset), st1)"
      "fst (st_env st1) = fst (st_env st)" "snd (st_env st1) \<le> snd (st_env st0) + minute" "st_cbtTokens st1 = st_cbtTokens st0"
    using in_process.GetChangedRegions_answered [OF f1, of snap bsnap offset len bs] assms tok d(2) by auto
  have f2: "fresh_token (mock_client base) base jwt vm st1 = (Inr (base, jwt), st1)"
    using g1(3,4) d(3,4) by (simp add: fresh_token_def)
  have "\<exists>st2. http_GetChangedRegions (mock_client base) base jwt vm snap bsnap offset' len bs st1 =
      (Inl (api_error (writeError 401 ''invalid JWT token'') (cbt_url base vm snap bsnap offset' len bs)), st2)"
    using in_process.GetChangedRegions_answered [OF f2, of snap bsnap offset' len bs] assms g1(2) by auto
  then show ?thesis using g1 d(4) by auto
qed

section \<open>Sample runs against the fixtures\<close>

definition fixture_state :: "(Store \<times> int) nstate" where
  "fixture_state = \<lparr>st_env = (WithFixtures NewStore, 0), st_log = [], st_cbtTokens = Map.empty\<rparr>"

lemmas fixture_defs = fixture_state_def WithFixtures_def NewStore_def defaultVMs_def defaultSubnets_def defaultClusters_def
  defaultStorageContainers_def

lemma fixture_vms_ok: "\<forall>vm \<in> set defaultVMs. ok_VM vm" "\<forall>x \<in> set defaultSubnets. ok_Subnet x"
  by (simp_all add: defaultVMs_def defaultSubnets_def vm_linux_def vm_windows_def vm_gpu_def fixture_disk_def fixture_cdrom_def ok_VM_def ok_Disk_def
      ok_DiskAddress_def ok_DiskBackingInfo_def ok_GPU_def ok_Subnet_def int64_def)

theorem mock_inventory_listed_witness:
  "(\<exists>st'. http_ListVMs (mock_client ''http://mock'') fixture_state = Some (Inr defaultVMs, st')) \<and>
   (\<exists>st'. http_ListSubnets (mock_client ''http://mock'') fixture_state = Some (Inr defaultSubnets, st'))"
proof -
  have s: "fst (st_env fixture_state) = WithFixtures NewStore" "sto_VMs (WithFixtures NewStore) = defaultVMs"
    "sto_Subnets (WithFixtures NewStore) = defaultSubnets" by (simp_all add: fixture_state_def WithFixtures_def)
  have "length defaultVMs < 2 ^ 61" "length defaultSubnets < 2 ^ 61" "length (sto_Clusters (WithFixtures NewStore)) < 2 ^ 61"
    "length (sto_StorageContainers (WithFixtures NewStore)) < 2 ^ 61" "TrimRight ''http://mock'' CHR ''/'' = ''http://mock''"
    by (simp_all add: fixture_defs TrimRight_def)
  then show ?thesis
    using mock_inventory_listed [OF s(1), of "''http://mock''"] fixture_vms_ok unfolding s(2,3) by blast
qed

theorem mock_power_cycle_witness:
  "\<exists>st1 st2. http_PowerOffVM (mock_client ''http://mock'') ''vm-uuid-001'' fixture_state = Some (None, st1) \<and>
     http_GetVMPowerState (mock_client ''http://mock'') ''vm-uuid-001'' st1 = (Inr ''OFF'', st2)"
proof -
  have "store_GetVM ''vm-uuid-001'' (fst (st_env fixture_state)) = Some vm_linux" "plain_id ''vm-uuid-001''"
    by (simp_all add: store_GetVM_def fixture_defs vm_linux_def plain_id_def)
  moreover have "ok_VM vm_linux" using fixture_vms_ok(1) by (simp add: defaultVMs_def)
  ultimately show ?thesis using mock_power_cycle [of "''vm-uuid-001''" fixture_state vm_linux "''http://mock''"] by blast
qed

theorem mock_entity_lifecycle_witness:
  "\<exists>u st1. http_CreateRecoveryPoint (mock_client ''http://mock'') ''vm-uuid-001'' ''snap'' fixture_state = Some (Inr u, st1) \<and>
     (\<exists>st2 st3. http_DeleteRecoveryPoint (mock_client ''http://mock'') u st2 = Some (None, st3) \<and>
        sto_RecoveryPoints (fst (st_env st3)) = Map.empty)"
proof -
  have "store_ok (fst (st_env fixture_state))" "sto_RecoveryPoints (fst (st_env fixture_state)) = Map.empty"
    by (simp_all add: fixture_state_def WithFixtures_def store_ok_New) (simp add: NewStore_def)
  from mock_entity_lifecycle [OF this(1), of "''http://mock''" "''vm-uuid-001''" "''snap''"] this(2) show ?thesis by metis
qed

definition stale_state :: "(Store \<times> int) nstate" where
  "stale_state = \<lparr>st_env = (WithCBTConfig DefaultCBTConfig (WithFixtures NewStore), 800000000000), st_log = [],
     st_cbtTokens = [''vm-uuid-001'' \<mapsto> \<lparr>tok_prismElementURL = ''http://mock'', tok_jwtToken = ''old'', tok_discoveredAt = 0\<rparr>]\<rparr>"

theorem refreshed_token_is_lost_witness:
  "\<exists>st1 st2. http_GetChangedRegions (mock_client ''http://mock'') ''http://mock'' ''old'' ''vm-uuid-001'' ''rp-2'' ''rp-1'' 0 1024 65536 stale_state =
      (Inr (region_page (cbc_ChangedRegions DefaultCBTConfig) 0), st1) \<and>
    http_GetChangedRegions (mock_client ''http://mock'') ''http://mock'' ''old'' ''vm-uuid-001'' ''rp-2'' ''rp-1'' 0 1024 65536 st1 =
      (Inl (api_error (writeError 401 ''invalid JWT token'') (cbt_url ''http://mock'' ''vm-uuid-001'' ''rp-2'' ''rp-1'' 0 1024 65536)), st2)"
proof -
  have env: "fst (st_env stale_state) = WithCBTConfig DefaultCBTConfig (WithFixtures NewStore)"
    "sto_CBTConfig (WithCBTConfig DefaultCBTConfig (WithFixtures NewStore)) = DefaultCBTConfig"
    "expected_token (WithCBTConfig DefaultCBTConfig (WithFixtures NewStore)) = ''mock-jwt-token-for-cbt''"
    by (simp_all add: stale_state_def WithCBTConfig_def expected_token_def DefaultCBTConfig_def)
  have "\<forall>r \<in> set (cbc_ChangedRegions DefaultCBTConfig). ok_ChangedRegion r" "int (length (cbc_ChangedRegions DefaultCBTConfig)) < 2 ^ 63"
    by (simp_all add: DefaultCBTConfig_def ok_ChangedRegion_def int64_def)
  moreover have "st_cbtTokens stale_state ''vm-uuid-001'' =
      Some \<lparr>tok_prismElementURL = ''http://mock'', tok_jwtToken = ''old'', tok_discoveredAt = 0\<rparr>" "snd (st_env stale_state) = 800000000000"
    by (simp_all add: stale_state_def)
  moreover have "TrimRight ''http://mock'' CHR ''/'' = ''http://mock''" by (simp add: TrimRight_def)
  ultimately show ?thesis
    using refreshed_token_is_lost [of stale_state "''vm-uuid-001''" _ "''old''" "''http://mock''" "''rp-2''" "''rp-1''" 0 0 1024 65536]
    unfolding env by auto
qed

end
