(* ===== verification/Cbt_Transfer.thy ===== *)
theory Cbt_Transfer
  imports Client_Server Warm_Contract Sample_Cluster
begin

text \<open>
  Changed block tracking through all layers: the loop of the delta round over the pages of changed regions,
  the HTTP client with its token cache, and the mock server that serves the pages; and what the final round of
  a warm migration is based on.
\<close>

section \<open>The pages\<close>

lemma region_page_step:
  assumes "0 \<le> off" "off \<le> int (length regions)"
  shows "take (nat off) regions @ crs_Regions (region_page regions off) = take (nat (off + cbtPageSize)) regions"
    and "crs_NextOffset (region_page regions off) =
      (if off + cbtPageSize < int (length regions) then Some (off + cbtPageSize) else None)"
proof -
  show "crs_NextOffset (region_page regions off) = (if off + cbtPageSize < int (length regions) then Some (off + cbtPageSize) else None)"
    by (simp add: region_page_def Let_def min_def)
  show "take (nat off) regions @ crs_Regions (region_page regions off) = take (nat (off + cbtPageSize)) regions"
  proof (cases "off < int (length regions)")
    case True
    have "take (nat (min (off + cbtPageSize) (int (length regions)) - off)) (drop (nat off) regions) = take 3 (drop (nat off) regions)"
      using True assms(1) by (auto simp: min_def take_all_iff)
    moreover have "nat (off + cbtPageSize) = nat off + 3" using assms(1) by simp
    ultimately show ?thesis using True by (simp add: region_page_def Let_def take_add)
  qed (use assms in \<open>simp add: region_page_def Let_def\<close>)
qed

lemma cbt_loop_collects:
  assumes "\<And>off w. 0 \<le> off \<Longrightarrow> off \<le> int (length regions) \<Longrightarrow> Q w \<Longrightarrow>
      \<exists>w'. query off w = (Inr (region_page regions off), w') \<and> Q w'"
    and "Q w" "0 \<le> off" "off \<le> int (length regions)"
  shows "\<exists>w'. cbt_loop query off (take (nat off) regions) w = Some (Inr regions, w') \<and> Q w'"
  using assms(2-4)
proof (induction "nat (int (length regions) - off)" arbitrary: off w rule: less_induct)
  case less
  obtain w1 where q: "query off w = (Inr (region_page regions off), w1)" "Q w1" using assms(1) less.prems by blast
  note step = region_page_step [OF less.prems(2,3)]
  show ?case
  proof (cases "off + cbtPageSize < int (length regions)")
    case True
    then have "\<exists>w'. cbt_loop query (off + cbtPageSize) (take (nat (off + cbtPageSize)) regions) w1 = Some (Inr regions, w') \<and> Q w'"
      by (intro less.hyps) (use less.prems q(2) in auto)
    then show ?thesis by (subst cbt_loop.simps) (use q True step in simp)
  next
    case False
    then have "take (nat (off + cbtPageSize)) regions = regions" by (simp add: take_all_iff nat_le_iff)
    then show ?thesis by (subst cbt_loop.simps) (use q False step in simp)
  qed
qed

lemma valid_token_answered:
  assumes "jwt = expected_token (fst (st_env st))" "base \<noteq> []" "TrimRight base CHR ''/'' = base"
    and "CHR ''&'' \<notin> set vm" "CHR ''&'' \<notin> set snap" "CHR ''&'' \<notin> set bsnap" "0 \<le> off" "off < 2 ^ 63"
    and "\<forall>r \<in> set (cbc_ChangedRegions (sto_CBTConfig (fst (st_env st)))). ok_ChangedRegion r"
      "int (length (cbc_ChangedRegions (sto_CBTConfig (fst (st_env st))))) < 2 ^ 63"
  shows "\<exists>st'. http_GetChangedRegions (mock_client base) base jwt vm snap bsnap off len bs st =
      (Inr (region_page (cbc_ChangedRegions (sto_CBTConfig (fst (st_env st)))) off), st') \<and> fst (st_env st') = fst (st_env st)"
proof -
  obtain st0 where d: "http_DiscoverClusterForCBT (mock_client base) vm st = (Inr \<lparr>cbt_PrismElementURL = base, cbt_JWTToken = jwt\<rparr>, st0)"
      "fst (st_env st0) = fst (st_env st)"
    using in_process.DiscoverClusterForCBT_answered [of base vm st] assms(1,2) by auto
  have "\<exists>st1. fresh_token (mock_client base) base jwt vm st = (Inr (base, jwt), st1) \<and> fst (st_env st1) = fst (st_env st)"
  proof (cases "st_cbtTokens st vm")
    case (Some entry)
    then show ?thesis using d by (cases "snd (st_env st) - tok_discoveredAt entry > CBTTokenMaxAge") (simp_all add: fresh_token_def)
  qed (simp add: fresh_token_def)
  then obtain st1 where f: "fresh_token (mock_client base) base jwt vm st = (Inr (base, jwt), st1)" "fst (st_env st1) = fst (st_env st)"
    by blast
  have "jwt \<noteq> []" using assms(1) by (simp add: expected_token_def)
  then show ?thesis using in_process.GetChangedRegions_answered [OF f(1), of snap bsnap off len bs] f(2) assms by auto
qed

lemma regions_collected:
  assumes nx: "nx_GetChangedRegions nx = http_GetChangedRegions (mock_client base)"
    and "jwt = expected_token (fst (st_env (w_env w)))" "base \<noteq> []" "TrimRight base CHR ''/'' = base"
    and "CHR ''&'' \<notin> set vm" "CHR ''&'' \<notin> set snap" "CHR ''&'' \<notin> set bsnap"
    and "\<forall>r \<in> set (cbc_ChangedRegions (sto_CBTConfig (fst (st_env (w_env w))))). ok_ChangedRegion r"
      "int (length (cbc_ChangedRegions (sto_CBTConfig (fst (st_env (w_env w)))))) < 2 ^ 63"
  shows "\<exists>w'. cbt_loop (\<lambda>off. GetChangedRegions nx base jwt vm snap bsnap off len bs) 0 [] w =
      Some (Inr (cbc_ChangedRegions (sto_CBTConfig (fst (st_env (w_env w))))), w') \<and> w_trace w' = w_trace w \<and>
      fst (st_env (w_env w')) = fst (st_env (w_env w))"
proof -
  let ?s = "fst (st_env (w_env w))" and ?regs = "cbc_ChangedRegions (sto_CBTConfig (fst (st_env (w_env w))))"
  let ?Q = "\<lambda>w'. fst (st_env (w_env w')) = ?s \<and> w_trace w' = w_trace w"
  have "\<exists>w''. GetChangedRegions nx base jwt vm snap bsnap off len bs w' = (Inr (region_page ?regs off), w'') \<and> ?Q w''"
    if "0 \<le> off" "off \<le> int (length ?regs)" "?Q w'" for off w'
    using valid_token_answered [of jwt "w_env w'" base vm snap bsnap off len bs] assms that
    by (auto simp: GetChangedRegions_def perform_def)
  then have "\<exists>w'. cbt_loop (\<lambda>off. GetChangedRegions nx base jwt vm snap bsnap off len bs) 0 (take (nat 0) ?regs) w = Some (Inr ?regs, w') \<and> ?Q w'"
    by (rule cbt_loop_collects [where Q = ?Q]) simp_all
  then show ?thesis unfolding nat_zero_as_int [symmetric] by (metis nat_0 take_0)
qed

text \<open>
  The delta round sees every change. With the token of the discovery, the loop of the controller over the HTTP
  client and the mock server ends and returns all changed regions, in order and none twice, however many pages
  the server cuts them into and whether or not the token has to be refreshed on the way.
\<close>

theorem changed_regions_collected:
  assumes nx: "nx_GetChangedRegions nx = http_GetChangedRegions (mock_client base)"
    and "jwt = expected_token (fst (st_env (w_env w)))" "base \<noteq> []" "TrimRight base CHR ''/'' = base"
    and "CHR ''&'' \<notin> set vm" "CHR ''&'' \<notin> set snap" "CHR ''&'' \<notin> set bsnap"
    and "\<forall>r \<in> set (cbc_ChangedRegions (sto_CBTConfig (fst (st_env (w_env w))))). ok_ChangedRegion r"
      "int (length (cbc_ChangedRegions (sto_CBTConfig (fst (st_env (w_env w)))))) < 2 ^ 63"
  shows "\<exists>w'. cbt_loop (\<lambda>off. GetChangedRegions nx base jwt vm snap bsnap off len bs) 0 [] w =
      Some (Inr (cbc_ChangedRegions (sto_CBTConfig (fst (st_env (w_env w))))), w') \<and> w_trace w' = w_trace w"
  using regions_collected [OF assms] by blast

section \<open>The final round\<close>

fun is_snapshot :: "effect \<Rightarrow> bool" where
  "is_snapshot (ECreateRecoveryPoint u n r) = True"
| "is_snapshot _ = False"

definition no_snapshot :: "'e world \<Rightarrow> 'e world \<Rightarrow> bool" where
  "no_snapshot w w' \<longleftrightarrow> (\<exists>es. w_trace w' = w_trace w @ es \<and> (\<forall>e \<in> set es. \<not> is_snapshot e))"

lemma no_snapshot_same: "w_trace w' = w_trace w \<Longrightarrow> no_snapshot w w'"
  by (simp add: no_snapshot_def)

lemma no_snapshot_one: "w_trace w' = w_trace w @ [e] \<Longrightarrow> \<not> is_snapshot e \<Longrightarrow> no_snapshot w w'"
  by (simp add: no_snapshot_def)

lemma no_snapshot_trans: "no_snapshot a b \<Longrightarrow> no_snapshot b c \<Longrightarrow> no_snapshot a c"
  unfolding no_snapshot_def by (metis Un_iff append.assoc set_append)

lemma no_snapshot_export: "export_loop c name uuid_of cluster i disks images w = (err, images', w') \<Longrightarrow> no_snapshot w w'"
proof (induction disks arbitrary: i images w)
  case (Cons d ds)
  obtain r w1 where call: "CreateImageFromDisk c (name i) (uuid_of d) cluster w = (r, w1)" by fastforce
  have one: "no_snapshot w w1" by (rule no_snapshot_one [OF call_trace(7) [OF call]]) simp
  show ?case using Cons.prems Cons.IH one call
    by (auto split: if_splits sum.splits intro: no_snapshot_trans)
qed (simp add: no_snapshot_same)

lemma no_snapshot_deletes:
  "no_snapshot w (for_each (try_DeleteImage c) us w)" "no_snapshot w (try_DeleteRecoveryPoint c u w)" "no_snapshot w (try_Delete k kind ns n w)"
proof -
  obtain es where es: "w_trace (for_each (try_DeleteImage c) us w) = w_trace w @ es" "list_all2 deletes_image us es"
    using images.for_each_attempts_all by blast
  have "\<forall>e \<in> set es. \<not> is_snapshot e" using es(2) by (induction rule: list_all2_induct) (auto simp: deletes_image_def)
  then show "no_snapshot w (for_each (try_DeleteImage c) us w)" using es(1) by (auto simp: no_snapshot_def)
  show "no_snapshot w (try_DeleteRecoveryPoint c u w)"
    using try_DeleteRecoveryPoint_trace [of c u w] by (auto simp: no_snapshot_def split: if_splits)
  show "no_snapshot w (try_Delete k kind ns n w)"
    using try_Delete_trace [of k kind ns n w] by (auto simp: no_snapshot_def)
qed

lemma no_snapshot_final: "finalizeFinalSync warm vs mctx w = (res, vs', w') \<Longrightarrow> no_snapshot w w'"
  by (auto simp: finalizeFinalSync_def Let_def intro!: no_snapshot_trans [OF _ no_snapshot_deletes(2)]
      no_snapshot_trans [OF _ no_snapshot_deletes(1)] no_snapshot_deletes)

lemma no_snapshot_pod: "start_delta_pod r label warm pod cm vs w = (res, vs', w') \<Longrightarrow> no_snapshot w w'"
proof -
  assume run: "start_delta_pod r label warm pod cm vs w = (res, vs', w')"
  obtain e' w1 where c1: "Create (r_Client r) (ObjConfigMap cm) w = (e', w1)" by fastforce
  obtain e'' w2 where c2: "Create (r_Client r) (ObjPod pod) w1 = (e'', w2)" by fastforce
  have "no_snapshot w w1" "no_snapshot w1 w2"
    by (rule no_snapshot_one [OF call_trace(11) [OF c1]], simp, rule no_snapshot_one [OF call_trace(11) [OF c2]], simp)
  then show ?thesis using run c1 c2 by (auto simp: start_delta_pod_def split: option.splits intro: no_snapshot_trans)
qed

lemma no_snapshot_disk:
  assumes "delta_disk r label finalizeFinalSync warm ds vs mctx w = Some (Returns (res, vs', w'))"
  shows "no_snapshot w w'"
proof (cases "ws_DeltaDiskIndex warm \<ge> length ds")
  case True
  then show ?thesis using assms by (auto simp: delta_disk_def intro: no_snapshot_final)
next
  case False
  let ?q = "\<lambda>info off. GetChangedRegions (mc_NutanixClient mctx) (cbt_PrismElementURL info) (cbt_JWTToken info) (vs_ID vs)
    (ws_DeltaSnapshotUUID warm) (ws_BaseSnapshotUUID warm) off (getDiskSize (ds ! ws_DeltaDiskIndex warm)) CBTBlockSize"
  obtain d w1 where disc: "DiscoverClusterForCBT (mc_NutanixClient mctx) (vs_ID vs) w = (d, w1)" by fastforce
  have t1: "no_snapshot w w1" by (rule no_snapshot_same [OF call_trace(9) [OF disc]])
  show ?thesis
  proof (cases d)
    case (Inl err)
    then show ?thesis using assms False disc t1 by (auto simp: delta_disk_def)
  next
    case (Inr info)
    obtain x w2 where y: "cbt_loop (?q info) 0 [] w1 = Some (x, w2)"
      using assms False disc Inr by (cases "cbt_loop (?q info) 0 [] w1") (auto simp: delta_disk_def Let_def)
    have "w_trace (snd (x, w2)) = w_trace w1" by (rule cbt_loop_trace [OF y]) (rule call_trace(10))
    then have t2: "no_snapshot w w2" using no_snapshot_trans [OF t1 no_snapshot_same] by simp
    show ?thesis using assms False disc Inr y t2
      by (auto simp: delta_disk_def Let_def split: sum.splits if_splits option.splits
          intro: no_snapshot_trans [OF t2 no_snapshot_final] no_snapshot_trans [OF t2 no_snapshot_pod])
  qed
qed

lemma no_snapshot_round:
  assumes run: "runDeltaRound r label finalizeFinalSync warm vs mctx w = Some (Returns (res, vs', w'))" and "ws_DeltaSnapshotUUID warm \<noteq> []"
  shows "no_snapshot w w'"
proof -
  let ?c = "mc_NutanixClient mctx"
  obtain g w1 where get: "GetVM ?c (vs_ID vs) w = (g, w1)" by fastforce
  have t1: "no_snapshot w w1" by (rule no_snapshot_same [OF call_trace(1) [OF get]])
  show ?thesis
  proof (cases g)
    case (Inl err)
    then show ?thesis using run assms(2) get t1 by (auto simp: runDeltaRound_def Let_def)
  next
    case (Inr vm)
    let ?ds = "filterDataDisks (vm_Disks vm)"
    obtain e images w2 where x: "(if length (ws_DeltaImageUUIDs warm) < length ?ds
         then export_loop ?c (delta_image_name (mc_Migration mctx) vs label) getDiskUUID (cluster_ref vm) 0 ?ds (ws_DeltaImageUUIDs warm) w1
         else (None, ws_DeltaImageUUIDs warm, w1)) = (e, images, w2)" by (rule prod_cases3)
    have t2: "no_snapshot w w2" using x t1 by (auto split: if_splits dest!: no_snapshot_export intro: no_snapshot_trans)
    show ?thesis using run assms(2) get Inr x t2
      by (auto simp: runDeltaRound_def Let_def split: option.splits intro: no_snapshot_trans [OF _ no_snapshot_disk])
  qed
qed

text \<open>
  C40. The final round may copy too little. When the cutover comes while a precopy round is open, \<^verbatim>\<open>Precopy\<close> completes
  and keeps the recovery point of that round; \<^verbatim>\<open>FinalSync\<close>, which runs after the power-off, then takes no new
  one, so it transfers the changes up to a point before the VM was switched off, and later writes are lost.
\<close>

theorem final_sync_reuses_open_round:
  assumes "vs_Warm vs = Some warm" and "ws_DeltaSnapshotUUID warm \<noteq> []" and "ws_DeltaPodName warm = []"
    and "isCutoverTime (r_Now r) (mc_Migration mctx) w = (True, w0)"
  shows "phasePrecopy r vs mctx w = Some (Returns (phase_completed, vs, w0)) \<and>
    (\<forall>vs1 w1 res vs' w'. vs_Warm vs1 = Some warm \<longrightarrow> phaseFinalSync r vs1 mctx w1 = Some (Returns (res, vs', w')) \<longrightarrow>
       (\<forall>e \<in> set (new_effects w1 w'). \<not> is_snapshot e))"
proof (intro conjI allI impI)
  show "phasePrecopy r vs mctx w = Some (Returns (phase_completed, vs, w0))" using assms by (simp add: phasePrecopy_def)
next
  fix vs1 w1 res vs' w'
  assume "vs_Warm vs1 = Some warm" "phaseFinalSync r vs1 mctx w1 = Some (Returns (res, vs', w'))"
  then have "no_snapshot w1 w'" using assms(2,3) by (auto simp: phaseFinalSync_def intro: no_snapshot_round)
  then show "\<forall>e \<in> set (new_effects w1 w'). \<not> is_snapshot e" by (auto simp: no_snapshot_def new_effects_append)
qed

section \<open>Sample runs\<close>

text \<open>
  The interface the controllers use, implemented by the HTTP client against the mock server; \<open>Client_Server\<close> shows
  that the calls made through \<^const>\<open>the\<close> return.
\<close>

definition mock_nx :: "string \<Rightarrow> (Store \<times> int) nstate NutanixClient" where
  "mock_nx base = (let c = mock_client base in
     \<lparr>nx_GetVM = http_GetVM c, nx_PowerOffVM = \<lambda>u st. the (http_PowerOffVM c u st), nx_PowerOnVM = \<lambda>u st. the (http_PowerOnVM c u st),
      nx_GetVMPowerState = http_GetVMPowerState c, nx_CreateRecoveryPoint = \<lambda>u n st. the (http_CreateRecoveryPoint c u n st),
      nx_DeleteRecoveryPoint = \<lambda>u st. the (http_DeleteRecoveryPoint c u st),
      nx_CreateImageFromDisk = \<lambda>n d cl st. the (http_CreateImageFromDisk c n d cl st), nx_DeleteImage = \<lambda>u st. the (http_DeleteImage c u st),
      nx_DiscoverClusterForCBT = http_DiscoverClusterForCBT c, nx_GetChangedRegions = http_GetChangedRegions c,
      nx_ListVMs = \<lambda>st. the (http_ListVMs c st), nx_ListSubnets = \<lambda>st. the (http_ListSubnets c st),
      nx_ListClusters = \<lambda>st. the (http_ListClusters c st), nx_ListStorageContainers = http_ListStorageContainers c\<rparr>)"

definition cbt_world :: "(Store \<times> int) nstate world" where
  "cbt_world =
     \<lparr>w_env = \<lparr>st_env = (WithCBTConfig DefaultCBTConfig (WithFixtures NewStore), 0), st_log = [], st_cbtTokens = Map.empty\<rparr>,
      w_trace = [], w_events = [],
      w_metrics = \<lparr>met_MigrationsTotal = \<lambda>_. 0, met_MigrationDurationSeconds = [], met_DiskTransferBytes = \<lambda>_. 0, met_ActiveMigrations = 0\<rparr>\<rparr>"

theorem changed_regions_collected_witness:
  "\<exists>w'. cbt_loop (\<lambda>off. GetChangedRegions (mock_nx ''http://mock'') ''http://mock'' ''mock-jwt-token-for-cbt'' ''vm-uuid-001'' ''rp-2'' ''rp-1'' off 1024 65536)
     0 [] cbt_world = Some (Inr (cbc_ChangedRegions DefaultCBTConfig), w')"
proof -
  have s: "fst (st_env (w_env cbt_world)) = WithCBTConfig DefaultCBTConfig (WithFixtures NewStore)"
    "sto_CBTConfig (WithCBTConfig DefaultCBTConfig (WithFixtures NewStore)) = DefaultCBTConfig"
    "expected_token (WithCBTConfig DefaultCBTConfig (WithFixtures NewStore)) = ''mock-jwt-token-for-cbt''"
    by (simp_all add: cbt_world_def WithCBTConfig_def expected_token_def DefaultCBTConfig_def)
  have "\<forall>r \<in> set (cbc_ChangedRegions DefaultCBTConfig). ok_ChangedRegion r" "int (length (cbc_ChangedRegions DefaultCBTConfig)) < 2 ^ 63"
    by (simp_all add: DefaultCBTConfig_def ok_ChangedRegion_def int64_def)
  moreover have "nx_GetChangedRegions (mock_nx ''http://mock'') = http_GetChangedRegions (mock_client ''http://mock'')"
    by (simp add: mock_nx_def Let_def)
  moreover have "TrimRight ''http://mock'' CHR ''/'' = ''http://mock''" by (simp add: TrimRight_def)
  ultimately show ?thesis
    using changed_regions_collected [of "mock_nx ''http://mock''" "''http://mock''" "''mock-jwt-token-for-cbt''" cbt_world
        "''vm-uuid-001''" "''rp-2''" "''rp-1''" 1024 65536] unfolding s by auto
qed

definition open_round :: VMMigrationStatus where
  "open_round = (sim_status VMPhasePrecopy)\<lparr>vs_Warm := Some (zero_WarmMigrationStatus\<lparr>ws_DeltaSnapshotUUID := ''rp-2''\<rparr>)\<rparr>"

theorem final_sync_reuses_open_round_witness:
  "phasePrecopy (sim_reconciler (sim_plan MigrationTypeWarm TargetPowerStateStopped)) open_round
     ((sim_mctx (sim_plan MigrationTypeWarm TargetPowerStateStopped))\<lparr>mc_Migration := sim_migration\<lparr>mig_Cutover := Some 0\<rparr>\<rparr>) (sim_world True) =
   Some (Returns (phase_completed, open_round, sim_world True))"
proof -
  let ?r = "sim_reconciler (sim_plan MigrationTypeWarm TargetPowerStateStopped)"
  let ?m = "(sim_mctx (sim_plan MigrationTypeWarm TargetPowerStateStopped))\<lparr>mc_Migration := sim_migration\<lparr>mig_Cutover := Some 0\<rparr>\<rparr>"
  let ?warm = "zero_WarmMigrationStatus\<lparr>ws_DeltaSnapshotUUID := ''rp-2''\<rparr>"
  have "vs_Warm open_round = Some ?warm" "ws_DeltaSnapshotUUID ?warm \<noteq> []" "ws_DeltaPodName ?warm = []"
    by (simp_all add: open_round_def zero_WarmMigrationStatus_def)
  moreover have "isCutoverTime (r_Now ?r) (mc_Migration ?m) (sim_world True) = (True, sim_world True)"
    by (simp add: isCutoverTime_def sim_reconciler_def Now_def perform_def sim_world_def)
  ultimately show ?thesis using final_sync_reuses_open_round by blast
qed

end
