(* ===== verification/End_To_End.thy ===== *)
theory End_To_End
  imports Cbt_Transfer
begin

text \<open>
  The source side of a cold migration through all layers: the phase handlers of the controller call the interface,
  which the HTTP client implements, whose requests the mock server answers. \<open>server\<close> is the store of the
  server in the environment of the world. Every call is shown to have its effect on that store; the property
  is that the handlers complete and that the cleanup leaves the server as the migration found it.
\<close>

definition server :: "(Store \<times> int) nstate world \<Rightarrow> Store" where
  "server w = fst (st_env (w_env w))"

section \<open>Calls of the interface\<close>

lemma call_GetVM:
  assumes "store_GetVM u (server w) = Some vm" "ok_VM vm" "plain_id u"
  shows "\<exists>w'. GetVM (mock_nx base) u w = (Inr vm, w') \<and> server w' = server w"
  using in_process.GetVM_stored [of u "w_env w" vm base] assms
  by (auto simp: GetVM_def perform_def mock_nx_def server_def Let_def)

lemma call_GetVMPowerState:
  assumes "store_GetVM u (server w) = Some vm" "ok_VM vm" "plain_id u"
  shows "\<exists>w'. GetVMPowerState (mock_nx base) u w = (Inr (vm_PowerState vm), w') \<and> server w' = server w"
  using in_process.GetVM_stored [of u "w_env w" vm base] assms
  by (auto simp: GetVMPowerState_def perform_def mock_nx_def server_def http_GetVMPowerState_def Let_def)

text \<open>A power action switches the VM and nothing else that a migration reads.\<close>

definition power_set :: "string \<Rightarrow> string \<Rightarrow> Store \<Rightarrow> Store \<Rightarrow> bool" where
  "power_set u p s s' \<longleftrightarrow> set_power u p (sto_VMs s) = Some (sto_VMs s') \<and> sto_RecoveryPoints s' = sto_RecoveryPoints s \<and>
     sto_Images s' = sto_Images s \<and> sto_CBTConfig s' = sto_CBTConfig s \<and> entities_ok s' = entities_ok s"

lemma power_set_GetVM: "power_set u p s s' \<Longrightarrow> store_GetVM u s = Some vm \<Longrightarrow> store_GetVM u s' = Some (vm\<lparr>vm_PowerState := p\<rparr>)"
  using find_set_power [of u "sto_VMs s" vm p] by (auto simp: power_set_def store_GetVM_def)

lemma power_set_others: "power_set u p s s' \<Longrightarrow> store_GetVM u s = Some vm \<Longrightarrow> u' \<noteq> u \<Longrightarrow> store_GetVM u' s' = store_GetVM u' s"
  using find_set_power [of u "sto_VMs s" vm p] by (auto simp: power_set_def store_GetVM_def)

lemma set_power_back:
  assumes "set_power u p vms = Some vms'" "set_power u q vms' = Some vms''" "find (\<lambda>vm. vm_ExtID vm = u) vms = Some vm" "vm_PowerState vm = q"
  shows "vms'' = vms"
  using assms by (induction vms arbitrary: vms' vms'') (auto split: if_splits)

lemma same_but_tasks_power:
  "set_power u p (sto_VMs s) = Some vms \<Longrightarrow> same_but_tasks (s\<lparr>sto_VMs := vms\<rparr>) s' \<Longrightarrow> power_set u p s s'"
  using same_but_tasks_fields [of "s\<lparr>sto_VMs := vms\<rparr>" s'] same_but_tasks_entities [of "s\<lparr>sto_VMs := vms\<rparr>" s']
  by (simp add: power_set_def entities_ok_def)

lemma call_power:
  assumes "store_GetVM u (server w) = Some vm" "plain_id u"
  shows "\<exists>w'. PowerOffVM (mock_nx base) u w = (None, w') \<and> power_set u ''OFF'' (server w) (server w')"
    and "\<exists>w'. PowerOnVM (mock_nx base) u w = (None, w') \<and> power_set u ''ON'' (server w) (server w')"
  using in_process.power_switched [of u "w_env w" vm base] assms same_but_tasks_power
  by (fastforce simp: PowerOffVM_def PowerOnVM_def perform_def mock_nx_def server_def Let_def)+

lemma call_CreateRecoveryPoint:
  "\<exists>w'. CreateRecoveryPoint (mock_nx base) u n w = (Inr (fst (store_AddRecoveryPoint (new_rp u n) (server w))), w') \<and>
     same_but_tasks (snd (store_AddRecoveryPoint (new_rp u n) (server w))) (server w')"
  using in_process.CreateRecoveryPoint_stored [of base u n "w_env w"]
  by (auto simp: CreateRecoveryPoint_def perform_def mock_nx_def server_def Let_def)

lemma call_CreateImageFromDisk:
  "\<exists>w'. CreateImageFromDisk (mock_nx base) n d cl w = (Inr (fst (store_AddImage (new_image n) (server w))), w') \<and>
     same_but_tasks (snd (store_AddImage (new_image n) (server w))) (server w')"
  using in_process.CreateImageFromDisk_stored [of base n d cl "w_env w"]
  by (auto simp: CreateImageFromDisk_def perform_def mock_nx_def server_def Let_def)

text \<open>Deleting an entity that is not there is refused and changes nothing, so both outcomes leave the store without it.\<close>

definition deleted :: "string list \<Rightarrow> string list \<Rightarrow> Store \<Rightarrow> Store \<Rightarrow> bool" where
  "deleted rps imgs s s' \<longleftrightarrow> sto_VMs s' = sto_VMs s \<and> sto_CBTConfig s' = sto_CBTConfig s \<and> (entities_ok s \<longrightarrow> entities_ok s') \<and>
     (\<forall>x. sto_RecoveryPoints s' x = (if x \<in> set rps then None else sto_RecoveryPoints s x)) \<and>
     (\<forall>x. sto_Images s' x = (if x \<in> set imgs then None else sto_Images s x))"

lemma deleted_refl: "deleted [] [] s s"
  by (simp add: deleted_def)

lemma deleted_trans: "deleted a b s s' \<Longrightarrow> deleted c d s' s'' \<Longrightarrow> deleted (a @ c) (b @ d) s s''"
  by (simp add: deleted_def)

lemma same_but_tasks_deleted:
  "same_but_tasks (snd (store_DeleteImage u s)) s' \<Longrightarrow> deleted [] [u] s s'"
  "same_but_tasks (snd (store_DeleteRecoveryPoint u s)) s' \<Longrightarrow> deleted [u] [] s s'"
proof -
  assume sb: "same_but_tasks (snd (store_DeleteImage u s)) s'"
  have "entities_ok s \<longrightarrow> entities_ok s'" using same_but_tasks_entities [OF sb] image_table.del_inv by blast
  moreover have "sto_Images s' x = (if x = u then None else sto_Images s x)" for x
    using same_but_tasks_fields(3) [OF sb] image_table.get_del [of x u s] by (simp add: store_GetImage_def)
  ultimately show "deleted [] [u] s s'"
    using same_but_tasks_fields [OF sb] by (simp add: deleted_def store_DeleteImage_def split: option.splits)
next
  assume sb: "same_but_tasks (snd (store_DeleteRecoveryPoint u s)) s'"
  have "entities_ok s \<longrightarrow> entities_ok s'" using same_but_tasks_entities [OF sb] rp_table.del_inv by blast
  moreover have "sto_RecoveryPoints s' x = (if x = u then None else sto_RecoveryPoints s x)" for x
    using same_but_tasks_fields(2) [OF sb] rp_table.get_del [of x u s] by (simp add: store_GetRecoveryPoint_def)
  ultimately show "deleted [u] [] s s'"
    using same_but_tasks_fields [OF sb] by (simp add: deleted_def store_DeleteRecoveryPoint_def split: option.splits)
qed

context mock_backed
begin

lemma refused:
  assumes "ServeHTTP (hc_host c) (basic_request c ''DELETE'' url False None) (store (st_env st)) = (Some (writeError 404 msg), store (st_env st))"
  shows "\<exists>e st'. task_done (run_task c what ''DELETE'' url None st) = Some (Some e, st') \<and> store (st_env st') = store (st_env st)"
proof -
  have "ServeHTTP (hc_host c) (basic_request c ''DELETE'' url (None \<noteq> (None :: json option)) None) (store (st_env st)) =
      (Some (writeError 404 msg), store (st_env st))"
    using assms by simp
  from doJSON_rejected [OF this, of dec_task_ref] show ?thesis by (auto simp: run_task_def task_done_def writeError_def writeJSON_def)
qed

lemma DeleteImage_missing:
  assumes "store_GetImage u (store (st_env st)) = None" "plain_id u"
  shows "\<exists>e st'. http_DeleteImage c u st = Some (Some e, st') \<and> store (st_env st') = store (st_env st)"
  unfolding http_DeleteImage_def
  by (rule refused [where msg = "''image not found''"], subst route_entity(3))
    (use assms in \<open>auto simp: basic_request_def handleImageByID_def handleImageDelete_def store_DeleteImage_def store_GetImage_def TrimPrefix_def
      plain_id_def split_first_none\<close>)

lemma DeleteRecoveryPoint_missing:
  assumes "store_GetRecoveryPoint u (store (st_env st)) = None" "plain_id u"
  shows "\<exists>e st'. http_DeleteRecoveryPoint c u st = Some (Some e, st') \<and> store (st_env st') = store (st_env st)"
  unfolding http_DeleteRecoveryPoint_def
  by (rule refused [where msg = "''recovery point not found''"], subst route_entity(2))
    (use assms in \<open>auto simp: basic_request_def handleRecoveryPointByID_def handleRecoveryPointDelete_def store_DeleteRecoveryPoint_def
      store_GetRecoveryPoint_def TrimPrefix_def plain_id_def split_first_none\<close>)

end

lemma call_DeleteImage:
  assumes "plain_id u"
  shows "deleted [] [u] (server w) (server (try_DeleteImage (mock_nx base) u w))"
proof (cases "store_GetImage u (server w)")
  case None
  then obtain e st' where "http_DeleteImage (mock_client base) u (w_env w) = Some (Some e, st')" "fst (st_env st') = server w"
    using in_process.DeleteImage_missing [of u "w_env w" base] assms by (auto simp: server_def)
  then have "server (try_DeleteImage (mock_nx base) u w) = server w"
    by (simp add: try_DeleteImage_def DeleteImage_def perform_def mock_nx_def server_def Let_def)
  then show ?thesis using None by (auto simp: deleted_def store_GetImage_def)
next
  case (Some img)
  then have "same_but_tasks (snd (store_DeleteImage u (server w))) (server (try_DeleteImage (mock_nx base) u w))"
    using in_process.DeleteImage_stored [of u "w_env w" base] assms
    by (auto simp: try_DeleteImage_def DeleteImage_def perform_def mock_nx_def server_def Let_def)
  then show ?thesis by (rule same_but_tasks_deleted)
qed

lemma call_DeleteRecoveryPoint:
  assumes "plain_id u" "u \<noteq> []"
  shows "deleted [u] [] (server w) (server (try_DeleteRecoveryPoint (mock_nx base) u w))"
proof (cases "store_GetRecoveryPoint u (server w)")
  case None
  then obtain e st' where "http_DeleteRecoveryPoint (mock_client base) u (w_env w) = Some (Some e, st')" "fst (st_env st') = server w"
    using in_process.DeleteRecoveryPoint_missing [of u "w_env w" base] assms by (auto simp: server_def)
  then have "server (try_DeleteRecoveryPoint (mock_nx base) u w) = server w"
    using assms(2) by (simp add: try_DeleteRecoveryPoint_def DeleteRecoveryPoint_def perform_def mock_nx_def server_def Let_def)
  then show ?thesis using None by (auto simp: deleted_def store_GetRecoveryPoint_def)
next
  case (Some rp)
  then have "same_but_tasks (snd (store_DeleteRecoveryPoint u (server w))) (server (try_DeleteRecoveryPoint (mock_nx base) u w))"
    using in_process.DeleteRecoveryPoint_stored [of u "w_env w" base] assms
    by (auto simp: try_DeleteRecoveryPoint_def DeleteRecoveryPoint_def perform_def mock_nx_def server_def Let_def)
  then show ?thesis by (rule same_but_tasks_deleted)
qed

section \<open>The loops\<close>

text \<open>What the export adds: one image per disk under identifiers that were free, and nothing else changes.\<close>

definition images_added :: "Store \<Rightarrow> string list \<Rightarrow> Store \<Rightarrow> bool" where
  "images_added s us s' \<longleftrightarrow>
     sto_VMs s' = sto_VMs s \<and> sto_CBTConfig s' = sto_CBTConfig s \<and> sto_RecoveryPoints s' = sto_RecoveryPoints s \<and> entities_ok s' \<and> distinct us \<and>
     (\<forall>x. if x \<in> set us then sto_Images s x = None \<and> sto_Images s' x \<noteq> None \<and> plain_id x else sto_Images s' x = sto_Images s x)"

lemma images_added_one:
  assumes "entities_ok s" "same_but_tasks (snd (store_AddImage img s)) s'"
  shows "images_added s [fst (store_AddImage img s)] s'"
proof -
  let ?u = "fst (store_AddImage img s)"
  have "sto_Images s' x = (if x = ?u then Some (img\<lparr>img_ExtID := ?u\<rparr>) else sto_Images s x)" for x
    using image_table.get_add [of x img s] same_but_tasks_fields(3) [OF assms(2)] by (simp add: store_GetImage_def)
  moreover have "sto_Images s ?u = None" using image_table.add_fresh [OF assms(1), of img] by (simp add: store_GetImage_def)
  moreover have "sto_VMs s' = sto_VMs s" "sto_CBTConfig s' = sto_CBTConfig s" "sto_RecoveryPoints s' = sto_RecoveryPoints s"
    using same_but_tasks_fields(1,2,5) [OF assms(2)] by (simp_all add: store_AddImage_def Let_def)
  moreover have "entities_ok s'" using same_but_tasks_entities [OF assms(2)] image_table.add_inv [OF assms(1)] by simp
  ultimately show ?thesis using added_plain(2) [of img s] by (simp add: images_added_def)
qed

lemma images_added_trans:
  assumes "images_added s us s'" "images_added s' vs s''"
  shows "images_added s (us @ vs) s''"
proof -
  have new: "sto_Images s x = None \<and> sto_Images s' x \<noteq> None \<and> plain_id x" if "x \<in> set us" for x
    using assms(1) that by (simp add: images_added_def)
  have old: "sto_Images s' x = sto_Images s x" if "x \<notin> set us" for x using assms(1) that by (simp add: images_added_def)
  have new': "sto_Images s' x = None \<and> sto_Images s'' x \<noteq> None \<and> plain_id x" if "x \<in> set vs" for x
    using assms(2) that by (simp add: images_added_def)
  have old': "sto_Images s'' x = sto_Images s' x" if "x \<notin> set vs" for x using assms(2) that by (simp add: images_added_def)
  have dis: "x \<notin> set vs" if "x \<in> set us" for x using new [OF that] new' [of x] by auto
  have "if x \<in> set (us @ vs) then sto_Images s x = None \<and> sto_Images s'' x \<noteq> None \<and> plain_id x else sto_Images s'' x = sto_Images s x" for x
  proof (cases "x \<in> set us")
    case True
    then show ?thesis using new [OF True] old' [OF dis [OF True]] by simp
  next
    case False
    then show ?thesis using old [OF False] new' [of x] old' [of x] by (cases "x \<in> set vs") simp_all
  qed
  moreover have "sto_VMs s'' = sto_VMs s" "sto_CBTConfig s'' = sto_CBTConfig s" "sto_RecoveryPoints s'' = sto_RecoveryPoints s" "entities_ok s''" "distinct (us @ vs)"
    using assms dis by (auto simp: images_added_def)
  ultimately show ?thesis by (simp add: images_added_def)
qed

lemma export_loop_served:
  assumes "entities_ok (server w)" "length images \<le> i"
  shows "\<exists>us w'. export_loop (mock_nx base) name uuid_of cluster i disks images w = (None, images @ us, w') \<and>
    length us = length disks \<and> images_added (server w) us (server w')"
  using assms
proof (induction disks arbitrary: i images w)
  case Nil
  then show ?case by (auto simp: images_added_def)
next
  case (Cons d ds)
  let ?u = "fst (store_AddImage (new_image (name i)) (server w))"
  obtain w1 where c: "CreateImageFromDisk (mock_nx base) (name i) (uuid_of d) cluster w = (Inr ?u, w1)"
      "same_but_tasks (snd (store_AddImage (new_image (name i)) (server w))) (server w1)"
    using call_CreateImageFromDisk by blast
  note one = images_added_one [OF Cons.prems(1) c(2)]
  then have "entities_ok (server w1)" by (simp add: images_added_def)
  then obtain us w' where rest: "export_loop (mock_nx base) name uuid_of cluster (Suc i) ds (images @ [?u]) w1 = (None, (images @ [?u]) @ us, w')"
      "length us = length ds" "images_added (server w1) us (server w')"
    using Cons.IH [of w1 "images @ [?u]" "Suc i"] Cons.prems(2) by auto
  then show ?case using c Cons.prems(2) images_added_trans [OF one rest(3)] by (intro exI [of _ "?u # us"] exI [of _ w']) simp
qed

lemma delete_images_served:
  assumes "\<forall>u \<in> set us. plain_id u"
  shows "deleted [] us (server w) (server (for_each (try_DeleteImage (mock_nx base)) us w))"
  using assms
proof (induction us arbitrary: w)
  case (Cons u us)
  then show ?case
    using deleted_trans [OF call_DeleteImage [of u w base] Cons.IH [of "try_DeleteImage (mock_nx base) u w"]] by simp
qed (simp add: deleted_refl)

section \<open>The handlers\<close>

text \<open>The state of the source side between the export and the cleanup: one new recovery point, and the new images.\<close>

definition exported :: "Store \<Rightarrow> string \<Rightarrow> string list \<Rightarrow> Store \<Rightarrow> bool" where
  "exported s u us s' \<longleftrightarrow> u \<noteq> [] \<and> plain_id u \<and> sto_CBTConfig s' = sto_CBTConfig s \<and> entities_ok s' \<and>
     sto_RecoveryPoints s u = None \<and> sto_RecoveryPoints s' u \<noteq> None \<and> (\<forall>x. x \<noteq> u \<longrightarrow> sto_RecoveryPoints s' x = sto_RecoveryPoints s x) \<and>
     (\<forall>x. if x \<in> set us then sto_Images s x = None \<and> sto_Images s' x \<noteq> None \<and> plain_id x else sto_Images s' x = sto_Images s x)"

lemma exported_images: "exported s u [] s1 \<Longrightarrow> images_added s1 us s' \<Longrightarrow> exported s u us s'"
  by (auto simp: exported_def images_added_def split: if_splits)

lemma exported_plain: "exported s u us s' \<Longrightarrow> \<forall>x \<in> set us. plain_id x"
  by (simp add: exported_def)

lemma exported_undone:
  assumes "exported s u us s'" "deleted [u] us s' s''"
  shows "sto_RecoveryPoints s'' = sto_RecoveryPoints s" "sto_Images s'' = sto_Images s" "entities_ok s''"
proof -
  show "sto_RecoveryPoints s'' = sto_RecoveryPoints s" using assms by (auto simp: exported_def deleted_def)
  show "entities_ok s''" using assms by (simp add: exported_def deleted_def)
  show "sto_Images s'' = sto_Images s"
  proof
    fix x
    show "sto_Images s'' x = sto_Images s x" using assms by (cases "x \<in> set us") (simp_all add: exported_def deleted_def)
  qed
qed

text \<open>A recovery point of a VM, created by whatever name.\<close>

lemma recovery_point_added:
  assumes "entities_ok s" "same_but_tasks (snd (store_AddRecoveryPoint rp s)) s'"
  shows "exported s (fst (store_AddRecoveryPoint rp s)) [] s'" "sto_VMs s' = sto_VMs s"
proof -
  let ?u = "fst (store_AddRecoveryPoint rp s)"
  note f = same_but_tasks_fields [OF assms(2)]
  have "sto_RecoveryPoints s ?u = None" using rp_table.add_fresh [OF assms(1), of rp] by (simp add: store_GetRecoveryPoint_def)
  moreover have "sto_RecoveryPoints s' ?u \<noteq> None" "\<forall>x. x \<noteq> ?u \<longrightarrow> sto_RecoveryPoints s' x = sto_RecoveryPoints s x"
    using rp_table.get_add [of _ rp s] f(2) by (simp_all add: store_GetRecoveryPoint_def)
  moreover have "sto_Images s' = sto_Images s" "sto_CBTConfig s' = sto_CBTConfig s" "?u \<noteq> []" and v: "sto_VMs s' = sto_VMs s"
    using f(1,3,5) by (simp_all add: store_AddRecoveryPoint_def Let_def)
  moreover have "entities_ok s'" using same_but_tasks_entities [OF assms(2)] rp_table.add_inv [OF assms(1)] by simp
  ultimately show "exported s ?u [] s'" using added_plain(1) [of rp s] by (simp add: exported_def)
  show "sto_VMs s' = sto_VMs s" by (rule v)
qed

lemma recovery_point_served:
  assumes "entities_ok (server w)"
  shows "\<exists>u w'. CreateRecoveryPoint (mock_nx base) i n w = (Inr u, w') \<and> exported (server w) u [] (server w') \<and> sto_VMs (server w') = sto_VMs (server w)"
  using call_CreateRecoveryPoint [of base i n w] recovery_point_added [OF assms] by blast

lemma snapshot_served:
  assumes "mc_NutanixClient mctx = mock_nx base" "vs_SnapshotUUID vs = []" "entities_ok (server w)"
  shows "\<exists>u w'. phaseCreateSnapshot vs mctx w = (phase_completed, vs\<lparr>vs_SnapshotUUID := u\<rparr>, w') \<and> exported (server w) u [] (server w') \<and>
    sto_VMs (server w') = sto_VMs (server w)"
proof -
  obtain u w' where "CreateRecoveryPoint (mock_nx base) (vs_ID vs) (snapshot_name (mc_Migration mctx) vs) w = (Inr u, w')"
      "exported (server w) u [] (server w')" "sto_VMs (server w') = sto_VMs (server w)"
    using recovery_point_served [OF assms(3)] by blast
  then show ?thesis using assms(1,2) by (auto simp: phaseCreateSnapshot_def)
qed

lemma export_served:
  assumes "mc_NutanixClient mctx = mock_nx base" "vs_ImageUUIDs vs = []" "exported s u [] (server w)"
    and "store_GetVM (vs_ID vs) (server w) = Some vm" "ok_VM vm" "plain_id (vs_ID vs)"
  shows "\<exists>us w'. phaseExportDisks vs mctx w = (phase_completed, vs\<lparr>vs_ImageUUIDs := us\<rparr>, w') \<and> exported s u us (server w') \<and>
    length us = length (filterDataDisks (vm_Disks vm)) \<and> sto_VMs (server w') = sto_VMs (server w)"
proof -
  obtain w1 where g: "GetVM (mock_nx base) (vs_ID vs) w = (Inr vm, w1)" "server w1 = server w" using call_GetVM [OF assms(4-6)] by blast
  have "entities_ok (server w1)" using assms(3) g(2) by (simp add: exported_def)
  then obtain us w2 where x: "export_loop (mock_nx base) (disk_object_name (mc_Migration mctx) vs) export_disk_uuid (cluster_ref vm) 0
        (filterDataDisks (vm_Disks vm)) [] w1 = (None, us, w2)"
      "length us = length (filterDataDisks (vm_Disks vm))" "images_added (server w1) us (server w2)"
    using export_loop_served [of w1 "[]" 0 base "disk_object_name (mc_Migration mctx) vs" export_disk_uuid "cluster_ref vm" "filterDataDisks (vm_Disks vm)"]
    by auto
  have e: "exported s u us (server w2)" using exported_images [OF assms(3)] x(3) g(2) by simp
  have v: "sto_VMs (server w2) = sto_VMs (server w)" using x(3) g(2) by (simp add: images_added_def)
  show ?thesis
  proof (cases "filterDataDisks (vm_Disks vm) = []")
    case True
    then have "us = []" "w2 = w1" using x by auto
    then have "phaseExportDisks vs mctx w = (phase_completed, vs\<lparr>vs_ImageUUIDs := us\<rparr>, w2)"
      using g True assms(1,2) by (simp add: phaseExportDisks_def)
    with e v x(2) show ?thesis by blast
  next
    case False
    then have "phaseExportDisks vs mctx w = (phase_completed, vs\<lparr>vs_ImageUUIDs := us\<rparr>, w2)"
      using g x(1) assms(1,2) by (simp add: phaseExportDisks_def)
    with e v x(2) show ?thesis by blast
  qed
qed

lemma deletes_served:
  assumes "plain_id u" "u \<noteq> []" "\<forall>x \<in> set us. plain_id x"
  shows "deleted [u] us (server w) (server (try_DeleteRecoveryPoint (mock_nx base) u (for_each (try_DeleteImage (mock_nx base)) us w)))"
  using deleted_trans [OF delete_images_served [OF assms(3), of w base] call_DeleteRecoveryPoint [OF assms(1,2)]] by simp

lemma exported_deletes:
  assumes "exported s u us (server w)"
  shows "deleted [u] us (server w) (server (try_DeleteRecoveryPoint (mock_nx base) u (for_each (try_DeleteImage (mock_nx base)) us w)))"
  using assms by (intro deletes_served) (simp_all add: exported_def)

lemma power_off_served:
  assumes "mc_NutanixClient mctx = mock_nx base" "store_GetVM (vs_ID vs) (server w) = Some vm" "plain_id (vs_ID vs)"
    and "vs_OriginalPowerState vs = vm_PowerState vm"
  shows "\<exists>w'. phasePowerOff vs mctx w = (phase_completed, vs, w') \<and> store_GetVM (vs_ID vs) (server w') = Some (vm\<lparr>vm_PowerState := ''OFF''\<rparr>) \<and>
    (if vm_PowerState vm = ''OFF'' then server w' = server w else power_set (vs_ID vs) ''OFF'' (server w) (server w'))"
proof (cases "vm_PowerState vm = ''OFF''")
  case False
  obtain w1 where "PowerOffVM (mock_nx base) (vs_ID vs) w = (None, w1)" "power_set (vs_ID vs) ''OFF'' (server w) (server w1)"
    using call_power(1) [OF assms(2,3)] by blast
  then show ?thesis using False assms(1,2,4) power_set_GetVM by (auto simp: phasePowerOff_def)
qed (use assms in \<open>simp add: phasePowerOff_def\<close>)

lemma wait_off_served:
  assumes "mc_NutanixClient mctx = mock_nx base" "store_GetVM (vs_ID vs) (server w) = Some vm" "ok_VM vm" "plain_id (vs_ID vs)"
    and "vm_PowerState vm = ''OFF''"
  shows "\<exists>w'. phaseWaitForPowerOff vs mctx w = (phase_completed, vs, w') \<and> server w' = server w"
  using call_GetVMPowerState [OF assms(2-4), of base] assms(1,5) by (auto simp: phaseWaitForPowerOff_def)

text \<open>The Kubernetes calls of a cleanup go to another server.\<close>

definition spares_server :: "(Store \<times> int) nstate KubeClient \<Rightarrow> bool" where
  "spares_server k \<longleftrightarrow> (\<forall>kind ns name st. fst (st_env (snd (kc_Delete k kind ns name st))) = fst (st_env st))"

lemma spares_Delete: "spares_server k \<Longrightarrow> server (snd (Delete k kind ns name w)) = server w"
  by (simp add: spares_server_def Delete_def perform_def server_def split: prod.splits) (metis snd_conv)

lemma cleanup_deletes:
  assumes "mc_NutanixClient mctx = mock_nx base" "spares_server (tm_Client (mc_TransferMgr mctx))"
    and "plain_id (vs_SnapshotUUID vs)" "vs_SnapshotUUID vs \<noteq> []" "\<forall>x \<in> set (vs_ImageUUIDs vs). plain_id x"
  shows "\<exists>w'. phaseCleanup vs mctx w = (phase_completed, vs, w') \<and> deleted [vs_SnapshotUUID vs] (vs_ImageUUIDs vs) (server w) (server w')"
  using deletes_served [OF assms(3-5), of w base] assms(1) spares_Delete [OF assms(2)]
  by (simp add: phaseCleanup_def Let_def DeleteCredentialSecret_def DeleteCAConfigMap_def case_prod_unfold)

lemma cleanup_served:
  assumes "mc_NutanixClient mctx = mock_nx base" "exported s (vs_SnapshotUUID vs) (vs_ImageUUIDs vs) (server w)"
    and "spares_server (tm_Client (mc_TransferMgr mctx))"
  shows "\<exists>w'. phaseCleanup vs mctx w = (phase_completed, vs, w') \<and> sto_VMs (server w') = sto_VMs (server w) \<and>
    sto_RecoveryPoints (server w') = sto_RecoveryPoints s \<and> sto_Images (server w') = sto_Images s"
proof -
  obtain w' where d: "phaseCleanup vs mctx w = (phase_completed, vs, w')" "deleted [vs_SnapshotUUID vs] (vs_ImageUUIDs vs) (server w) (server w')"
    using cleanup_deletes [OF assms(1,3), of vs w] assms(2) by (auto simp: exported_def)
  then show ?thesis using exported_undone [OF assms(2) d(2)] by (auto simp: deleted_def)
qed

lemma rollback_served:
  fixes r :: "(Store \<times> int) nstate MigrationReconciler"
  assumes "mc_NutanixClient mctx = mock_nx base" "exported s (vs_SnapshotUUID vs) (vs_ImageUUIDs vs) (server w)"
    and "vs_DataVolumeNames vs = []" "vs_Warm vs = None" "plain_id (vs_ID vs)"
    and "store_GetVM (vs_ID vs) (server w) = Some vm'"
  defines "w' \<equiv> cleanupFailedVM r vs mctx w"
  shows "sto_RecoveryPoints (server w') = sto_RecoveryPoints s \<and> sto_Images (server w') = sto_Images s \<and>
    (if vs_OriginalPowerState vs = ''ON'' then set_power (vs_ID vs) ''ON'' (sto_VMs (server w)) = Some (sto_VMs (server w'))
     else sto_VMs (server w') = sto_VMs (server w))"
proof -
  let ?w1 = "try_DeleteRecoveryPoint (mock_nx base) (vs_SnapshotUUID vs) (for_each (try_DeleteImage (mock_nx base)) (vs_ImageUUIDs vs) w)"
  note d = exported_deletes [OF assms(2), of base] and un = exported_undone [OF assms(2) exported_deletes [OF assms(2), of base]]
  have w': "w' = (if vs_OriginalPowerState vs = ''ON'' then snd (PowerOnVM (mock_nx base) (vs_ID vs) ?w1) else ?w1)"
    using assms(1,3,4) by (simp add: w'_def cleanupFailedVM_def Let_def)
  have "store_GetVM (vs_ID vs) (server ?w1) = Some vm'" using d assms(6) by (simp add: store_GetVM_def deleted_def)
  moreover have "sto_VMs (server ?w1) = sto_VMs (server w)" using d by (simp add: deleted_def)
  ultimately show ?thesis using call_power(2) [of "vs_ID vs" ?w1 vm' base] assms(5) un w' by (auto simp: power_set_def)
qed

section \<open>The source side of a migration\<close>

text \<open>
  C12. A migration leaves its source as it found it. Through the controller, the HTTP client and the mock server, the
  phases \<^verbatim>\<open>PowerOff\<close>, \<^verbatim>\<open>WaitForPowerOff\<close>, \<^verbatim>\<open>CreateSnapshot\<close> and \<^verbatim>\<open>ExportDisks\<close> complete; the VM is off, the recovery point
  the status names exists and was not there before, and there is one new image per data disk. From there \<^verbatim>\<open>phaseCleanup\<close>
  removes exactly these entities, and \<^verbatim>\<open>cleanupFailedVM\<close> also switches a VM back on that was running, so that
  the VMs, recovery points and images of the server are the ones before the migration.
\<close>

theorem source_restored:
  assumes "mc_NutanixClient mctx = mock_nx base" and "spares_server (tm_Client (mc_TransferMgr mctx))"
    and "entities_ok (server w)" and vm: "store_GetVM (vs_ID vs) (server w) = Some vm" "ok_VM vm" "plain_id (vs_ID vs)"
    and "vs_OriginalPowerState vs = vm_PowerState vm" "vm_PowerState vm \<in> {''ON'', ''OFF''}"
    and "vs_SnapshotUUID vs = []" "vs_ImageUUIDs vs = []" "vs_DataVolumeNames vs = []" "vs_Warm vs = None"
  shows "\<exists>w1 w2 u w3 us w4 w5.
    phasePowerOff vs mctx w = (phase_completed, vs, w1) \<and> phaseWaitForPowerOff vs mctx w1 = (phase_completed, vs, w2) \<and>
    phaseCreateSnapshot vs mctx w2 = (phase_completed, vs\<lparr>vs_SnapshotUUID := u\<rparr>, w3) \<and>
    phaseExportDisks (vs\<lparr>vs_SnapshotUUID := u\<rparr>) mctx w3 = (phase_completed, vs\<lparr>vs_SnapshotUUID := u, vs_ImageUUIDs := us\<rparr>, w4) \<and>
    store_GetVM (vs_ID vs) (server w4) = Some (vm\<lparr>vm_PowerState := ''OFF''\<rparr>) \<and>
    exported (server w) u us (server w4) \<and> length us = length (filterDataDisks (vm_Disks vm)) \<and>
    phaseCleanup (vs\<lparr>vs_SnapshotUUID := u, vs_ImageUUIDs := us\<rparr>) mctx w4 = (phase_completed, vs\<lparr>vs_SnapshotUUID := u, vs_ImageUUIDs := us\<rparr>, w5) \<and>
    sto_VMs (server w5) = sto_VMs (server w4) \<and> sto_RecoveryPoints (server w5) = sto_RecoveryPoints (server w) \<and>
    sto_Images (server w5) = sto_Images (server w) \<and>
    (let w6 = cleanupFailedVM r (vs\<lparr>vs_SnapshotUUID := u, vs_ImageUUIDs := us\<rparr>) mctx w4
     in sto_VMs (server w6) = sto_VMs (server w) \<and> sto_RecoveryPoints (server w6) = sto_RecoveryPoints (server w) \<and>
       sto_Images (server w6) = sto_Images (server w))"
proof -
  let ?off = "vm\<lparr>vm_PowerState := ''OFF''\<rparr>"
  have ok: "ok_VM ?off" using vm(2) by (simp add: ok_VM_def)
  obtain w1 where p1: "phasePowerOff vs mctx w = (phase_completed, vs, w1)" "store_GetVM (vs_ID vs) (server w1) = Some ?off"
      "if vm_PowerState vm = ''OFF'' then server w1 = server w else power_set (vs_ID vs) ''OFF'' (server w) (server w1)"
    using power_off_served [OF assms(1) vm(1,3) assms(7)] by blast
  obtain w2 where p2: "phaseWaitForPowerOff vs mctx w1 = (phase_completed, vs, w2)" "server w2 = server w1"
    using wait_off_served [OF assms(1) p1(2) ok vm(3)] by auto
  have p: "if vm_PowerState vm = ''OFF'' then server w2 = server w else power_set (vs_ID vs) ''OFF'' (server w) (server w2)"
    using p1(3) p2(2) by simp
  have s2: "sto_RecoveryPoints (server w2) = sto_RecoveryPoints (server w)" "sto_Images (server w2) = sto_Images (server w)"
      "entities_ok (server w2)" "sto_CBTConfig (server w2) = sto_CBTConfig (server w)" and vm2: "store_GetVM (vs_ID vs) (server w2) = Some ?off"
    using p p1(2) p2(2) assms(3) by (auto simp: power_set_def split: if_splits)
  obtain u w3 where c: "phaseCreateSnapshot vs mctx w2 = (phase_completed, vs\<lparr>vs_SnapshotUUID := u\<rparr>, w3)"
      "exported (server w2) u [] (server w3)" "sto_VMs (server w3) = sto_VMs (server w2)"
    using snapshot_served [OF assms(1,9) s2(3)] by blast
  let ?vs1 = "vs\<lparr>vs_SnapshotUUID := u\<rparr>"
  have e0: "exported (server w) u [] (server w3)" using c(2) s2 by (simp add: exported_def)
  have "store_GetVM (vs_ID ?vs1) (server w3) = Some ?off" "ok_VM ?off" "vs_ImageUUIDs ?vs1 = []" "plain_id (vs_ID ?vs1)"
    using vm2 c(3) assms(5,6,10) by (simp_all add: store_GetVM_def ok_VM_def)
  then obtain us w4 where x: "phaseExportDisks ?vs1 mctx w3 = (phase_completed, ?vs1\<lparr>vs_ImageUUIDs := us\<rparr>, w4)"
      "exported (server w) u us (server w4)" "length us = length (filterDataDisks (vm_Disks vm))" "sto_VMs (server w4) = sto_VMs (server w3)"
    using export_served [OF assms(1) _ e0, of ?vs1 ?off] by auto
  let ?vs2 = "vs\<lparr>vs_SnapshotUUID := u, vs_ImageUUIDs := us\<rparr>"
  have vm4: "store_GetVM (vs_ID vs) (server w4) = Some ?off" using vm2 c(3) x(4) by (simp add: store_GetVM_def)
  obtain w5 where d: "phaseCleanup ?vs2 mctx w4 = (phase_completed, ?vs2, w5)" "sto_VMs (server w5) = sto_VMs (server w4)"
      "sto_RecoveryPoints (server w5) = sto_RecoveryPoints (server w)" "sto_Images (server w5) = sto_Images (server w)"
    using cleanup_served [OF assms(1) _ assms(2), of "server w" ?vs2 w4] x(2) by auto
  let ?w6 = "cleanupFailedVM r ?vs2 mctx w4"
  have rb: "sto_RecoveryPoints (server ?w6) = sto_RecoveryPoints (server w) \<and> sto_Images (server ?w6) = sto_Images (server w) \<and>
      (if vs_OriginalPowerState vs = ''ON'' then set_power (vs_ID vs) ''ON'' (sto_VMs (server w4)) = Some (sto_VMs (server ?w6))
       else sto_VMs (server ?w6) = sto_VMs (server w4))"
    using rollback_served [OF assms(1), of "server w" ?vs2 w4 ?off r] x(2) vm4 assms(6,11,12) by (auto split: if_splits)
  have "sto_VMs (server ?w6) = sto_VMs (server w)"
  proof (cases "vm_PowerState vm = ''ON''")
    case True
    then show ?thesis using rb p c(3) x(4) assms(7) vm(1) set_power_back [of "vs_ID vs" "''OFF''" "sto_VMs (server w)" "sto_VMs (server w4)" "''ON''"]
      by (auto simp: power_set_def store_GetVM_def)
  next
    case False
    then show ?thesis using rb p c(3) x(4) assms(7,8) by simp
  qed
  then show ?thesis using p1(1) p2(1) c(1) x(1-3) vm4 d rb unfolding Let_def by (intro exI conjI) (assumption | simp)+
qed

section \<open>A sample run\<close>

definition served_mctx :: "(Store \<times> int) nstate migrationContext" where
  "served_mctx = (let plan = sim_plan MigrationTypeCold TargetPowerStateStopped in
     \<lparr>mc_NutanixClient = mock_nx ''http://mock'', mc_Plan = plan, mc_NetworkMap = sample_network_map,
      mc_StorageMap = sample_storage_map, mc_Provider = sim_provider, mc_Migration = sim_migration, mc_Secret = sim_secret,
      mc_TransferMgr = \<lparr>tm_Client = sim_kube plan, tm_PrismURL = ''http://mock'', tm_Username = ''admin'',
        tm_Password = ''secret'', tm_CACert = [], tm_Insecure = True\<rparr>\<rparr>)"

definition served_status :: VMMigrationStatus where
  "served_status = (sim_status VMPhasePowerOff)\<lparr>vs_OriginalPowerState := ''ON''\<rparr>"

theorem source_restored_witness:
  "\<exists>u us w4. length us = 1 \<and>
     (let w6 = cleanupFailedVM \<lparr>r_Client = sim_kube (mc_Plan served_mctx), r_ClientFactory = (\<lambda>cfg. Inr (mock_nx ''http://mock'')), r_Recorder = True,
          r_Now = (\<lambda>e. (1000, e))\<rparr> (served_status\<lparr>vs_SnapshotUUID := u, vs_ImageUUIDs := us\<rparr>) served_mctx w4
      in sto_VMs (server w6) = defaultVMs \<and> sto_RecoveryPoints (server w6) = Map.empty \<and> sto_Images (server w6) = Map.empty)"
proof -
  have s: "sto_VMs (server cbt_world) = defaultVMs" "sto_RecoveryPoints (server cbt_world) = Map.empty" "sto_Images (server cbt_world) = Map.empty"
    by (simp_all add: server_def cbt_world_def WithCBTConfig_def WithFixtures_def NewStore_def)
  then have "entities_ok (server cbt_world)" by (simp add: entities_ok_def)
  moreover have "store_GetVM (vs_ID served_status) (server cbt_world) = Some vm_linux"
    using s(1) by (simp add: store_GetVM_def served_status_def sim_status_def new_VMMigrationStatus_def defaultVMs_def vm_linux_def)
  moreover have "ok_VM vm_linux" using fixture_vms_ok(1) by (simp add: defaultVMs_def)
  moreover have "mc_NutanixClient served_mctx = mock_nx ''http://mock''" "spares_server (tm_Client (mc_TransferMgr served_mctx))"
    by (simp_all add: served_mctx_def Let_def spares_server_def sim_kube_def)
  moreover have "plain_id (vs_ID served_status)" "vs_OriginalPowerState served_status = vm_PowerState vm_linux" "vs_SnapshotUUID served_status = []"
      "vs_ImageUUIDs served_status = []" "vs_DataVolumeNames served_status = []" "vs_Warm served_status = None"
    by (simp_all add: served_status_def sim_status_def new_VMMigrationStatus_def plain_id_def vm_linux_def)
  moreover have "vm_PowerState vm_linux \<in> {''ON'', ''OFF''}" "length (filterDataDisks (vm_Disks vm_linux)) = 1"
    by (simp_all add: vm_linux_def filterDataDisks_def fixture_disk_def is_cdrom_def upper_char_def is_lower_def)
  ultimately show ?thesis unfolding s [symmetric] using source_restored [of served_mctx "''http://mock''" cbt_world served_status vm_linux] by metis
qed

end
