(* ===== verification/Phase_Runs.thy ===== *)
theory Phase_Runs
  imports End_To_End Pipeline
begin

text \<open>
  The phases that cold and warm migrations share, as steps of \<^verbatim>\<open>advanceSingleVM\<close>: against the mock server and a
  Kubernetes API that accepts what it is given and reports the imports as done, every one of them completes and the loop
  goes on with the next phase of the pipeline.
\<close>

section \<open>A cooperating cluster\<close>

text \<open>
  Creations and updates are accepted, deletions answer something, every DataVolume has succeeded, a VM can be
  read; and none of this touches the Prism Central server.
\<close>

definition cooperating :: "(Store \<times> int) nstate KubeClient \<Rightarrow> bool" where
  "cooperating k \<longleftrightarrow> spares_server k \<and>
     (\<forall>obj st. \<exists>st'. kc_Create k obj st = (None, st') \<and> fst (st_env st') = fst (st_env st)) \<and>
     (\<forall>ns n st. \<exists>p st'. kc_GetDataVolume k ns n st = (Inr (DVSucceeded, p), st') \<and> fst (st_env st') = fst (st_env st)) \<and>
     (\<forall>ns n st. \<exists>v st'. kc_GetVirtualMachine k ns n st = (Inr v, st') \<and> fst (st_env st') = fst (st_env st)) \<and>
     (\<forall>v st. \<exists>st'. kc_UpdateVM k v st = (None, st') \<and> fst (st_env st') = fst (st_env st))"

lemma coop_calls:
  assumes "cooperating k"
  shows "\<exists>w'. Create k obj w = (None, w') \<and> server w' = server w \<and> w_trace w' = w_trace w @ [ECreate obj None]"
    and "\<exists>p w'. GetDataVolume k ns n w = (Inr (DVSucceeded, p), w') \<and> server w' = server w"
    and "\<exists>v w'. Get (kc_GetVirtualMachine k ns n) w = (Inr v, w') \<and> server w' = server w"
    and "\<exists>w'. UpdateVM k v w = (None, w') \<and> server w' = server w"
proof -
  note c = assms [unfolded cooperating_def]
  obtain st1 where "kc_Create k obj (w_env w) = (None, st1)" "fst (st_env st1) = server w"
    using c unfolding server_def by blast
  then show "\<exists>w'. Create k obj w = (None, w') \<and> server w' = server w \<and> w_trace w' = w_trace w @ [ECreate obj None]"
    by (simp add: Create_def perform_def server_def)
  obtain p st2 where "kc_GetDataVolume k ns n (w_env w) = (Inr (DVSucceeded, p), st2)" "fst (st_env st2) = server w"
    using c unfolding server_def by blast
  then show "\<exists>p w'. GetDataVolume k ns n w = (Inr (DVSucceeded, p), w') \<and> server w' = server w"
    by (simp add: GetDataVolume_def perform_def server_def)
  obtain v' st3 where "kc_GetVirtualMachine k ns n (w_env w) = (Inr v', st3)" "fst (st_env st3) = server w"
    using c unfolding server_def by blast
  then show "\<exists>v w'. Get (kc_GetVirtualMachine k ns n) w = (Inr v, w') \<and> server w' = server w"
    by (simp add: Get_def perform_def server_def)
  obtain st4 where "kc_UpdateVM k v (w_env w) = (None, st4)" "fst (st_env st4) = server w"
    using c unfolding server_def by blast
  then show "\<exists>w'. UpdateVM k v w = (None, w') \<and> server w' = server w"
    by (simp add: UpdateVM_def perform_def server_def)
qed

section \<open>The target side\<close>

lemma coop_manager:
  assumes "cooperating (tm_Client m)"
  shows "\<exists>w'. CreateCredentialSecret m n ns own w = (None, w') \<and> server w' = server w"
    and "\<exists>w'. CreateCAConfigMap m n ns own w = (None, w') \<and> server w' = server w"
    and "\<exists>w'. CreateDataVolume m opts w = (None, w') \<and> server w' = server w"
proof -
  have "\<exists>w'. (case Create (tm_Client m) obj w of (err, w1) \<Rightarrow> (ignore_exists err, w1)) = (None, w') \<and> server w' = server w" for obj
    using coop_calls(1) [OF assms, of obj w] by (auto simp: ignore_exists_def)
  then show "\<exists>w'. CreateCredentialSecret m n ns own w = (None, w') \<and> server w' = server w"
    "\<exists>w'. CreateCAConfigMap m n ns own w = (None, w') \<and> server w' = server w"
    "\<exists>w'. CreateDataVolume m opts w = (None, w') \<and> server w' = server w"
    by (simp_all add: CreateCredentialSecret_def CreateCAConfigMap_def CreateDataVolume_def Let_def)
qed

lemma coop_create_dvs:
  assumes "cooperating (tm_Client m)"
  shows "\<exists>names' w'. create_dvs_loop m opts i images names w = (None, names', w') \<and> server w' = server w"
proof (induction images arbitrary: i names w)
  case (Cons u images)
  obtain w1 where c: "CreateDataVolume m (opts i u) w = (None, w1)" "server w1 = server w" using coop_manager(3) [OF assms] by blast
  have "\<exists>names' w'. create_dvs_loop m opts (Suc i) images (names @ [dvo_Name (opts i u)]) w1 = (None, names', w') \<and> server w' = server w"
    using Cons.IH [of "Suc i" _ w1] c(2) by simp
  then show ?case using Cons.IH [of "Suc i" names w] c(1) by simp
qed simp

lemma coop_poll:
  assumes "cooperating (tm_Client m)"
  shows "\<exists>w'. poll_dvs_loop m ns p f names True w = (phase_completed, w') \<and> server w' = server w"
proof (induction names arbitrary: w)
  case (Cons n names)
  obtain pr w1 where "GetDataVolume (tm_Client m) ns n w = (Inr (DVSucceeded, pr), w1)" "server w1 = server w"
    using coop_calls(2) [OF assms] by blast
  then show ?case using Cons.IH [of w1] by (simp add: GetDataVolumeProgress_def)
qed simp

lemma coop_create_volumes:
  assumes "cooperating (tm_Client (mc_TransferMgr mctx))" "vs_DataVolumeNames vs = []"
  shows "\<exists>w'. create_volumes p dp size_of ds vs mctx w =
      (None, vs\<lparr>vs_DataVolumeNames := map (disk_object_name (mc_Migration mctx) vs) [0..<length (vs_ImageUUIDs vs)]\<rparr>, w') \<and> server w' = server w"
proof -
  let ?mgr = "mc_TransferMgr mctx"
  obtain w1 where c1: "CreateCredentialSecret ?mgr (cred_secret_name (mc_Migration mctx)) (plan_TargetNamespace (mc_Plan mctx))
      (migration_owner (mc_Migration mctx)) w = (None, w1)" "server w1 = server w"
    using coop_manager(1) [OF assms(1)] by blast
  obtain w2 where ca: "CreateCAConfigMap ?mgr (ca_config_name (mc_Migration mctx)) (plan_TargetNamespace (mc_Plan mctx))
      (migration_owner (mc_Migration mctx)) w1 = (None, w2)" "server w2 = server w1"
    using coop_manager(2) [OF assms(1)] by blast
  obtain cert w2 where c2: "create_ca mctx w1 = (None, cert, w2)" "server w2 = server w1"
    using ca by (cases "tm_CACert ?mgr = []") (simp_all add: create_ca_def Let_def)
  obtain names w3 where c3: "create_dvs_loop ?mgr (dv_options mctx vs size_of ds cert) 0 (vs_ImageUUIDs vs) [] w2 = (None, names, w3)" "server w3 = server w2"
    using coop_create_dvs [OF assms(1)] by blast
  obtain vs' w' where r: "create_volumes p dp size_of ds vs mctx w = (None, vs', w')" "server w' = server w"
    using c1 c2 c3 assms(2) by (cases "vs_ImageUUIDs vs = []") (simp_all add: create_volumes_def)
  then show ?thesis using create_volumes_spec [OF r(1)] assms(2) by auto
qed

text \<open>The phases of the target side. The VM that is created has the volumes of the exported disks, in order.\<close>

lemma import_served:
  assumes "mc_NutanixClient mctx = mock_nx base" "cooperating (tm_Client (mc_TransferMgr mctx))" "vs_DataVolumeNames vs = []"
    and "store_GetVM (vs_ID vs) (server w) = Some vm" "ok_VM vm" "plain_id (vs_ID vs)"
  shows "\<exists>w'. phaseImportDisks vs mctx w = (phase_completed,
      vs\<lparr>vs_DataVolumeNames := map (disk_object_name (mc_Migration mctx) vs) [0..<length (vs_ImageUUIDs vs)]\<rparr>, w') \<and> server w' = server w"
proof -
  let ?vs = "vs\<lparr>vs_DataVolumeNames := map (disk_object_name (mc_Migration mctx) vs) [0..<length (vs_ImageUUIDs vs)]\<rparr>"
  have bytes: "server (record_disk_bytes n ds w) = server w" for n ds w
    by (induction ds arbitrary: w) (simp_all add: add_DiskTransferBytes_def server_def)
  obtain w1 where g: "GetVM (mock_nx base) (vs_ID vs) w = (Inr vm, w1)" "server w1 = server w" using call_GetVM [OF assms(4-6)] by blast
  obtain w2 where c: "create_volumes ''ImportDisks: '' ''ImportDisks: '' import_disk_size (filterDataDisks (vm_Disks vm)) vs mctx w1 = (None, ?vs, w2)"
      "server w2 = server w1" using coop_create_volumes [OF assms(2,3)] by blast
  obtain w3 where "poll_dvs_loop (mc_TransferMgr mctx) (plan_TargetNamespace (mc_Plan mctx)) ''ImportDisks: poll '' ''ImportDisks: DataVolume ''
      (vs_DataVolumeNames ?vs) True w2 = (phase_completed, w3)" "server w3 = server w2" using coop_poll [OF assms(2)] by blast
  then show ?thesis using g c assms(1) by (simp add: phaseImportDisks_def bytes)
qed

lemma create_vm_served:
  assumes "mc_NutanixClient mctx = mock_nx base" "cooperating (r_Client r)"
    and "store_GetVM (vs_ID vs) (server w) = Some vm" "ok_VM vm" "plain_id (vs_ID vs)"
  shows "\<exists>w'. phaseCreateVM r vs mctx w = (phase_completed, vs, w') \<and> server w' = server w \<and>
    ECreate (ObjVirtualMachine (Build vm (Some (mc_NetworkMap mctx)) (Some (mc_StorageMap mctx))
      \<lparr>bo_Namespace = plan_TargetNamespace (mc_Plan mctx), bo_PVCNames = vs_DataVolumeNames vs, bo_ExistingNames = None\<rparr>)) None \<in> set (w_trace w')"
proof -
  obtain w1 where "GetVM (mock_nx base) (vs_ID vs) w = (Inr vm, w1)" "server w1 = server w" using call_GetVM [OF assms(3-5)] by blast
  then show ?thesis using assms(1) coop_calls(1) [OF assms(2), of "ObjVirtualMachine (Build vm (Some (mc_NetworkMap mctx)) (Some (mc_StorageMap mctx))
      \<lparr>bo_Namespace = plan_TargetNamespace (mc_Plan mctx), bo_PVCNames = vs_DataVolumeNames vs, bo_ExistingNames = None\<rparr>)" w1]
    by (auto simp: phaseCreateVM_def Let_def)
qed

lemma start_vm_served:
  assumes "mc_NutanixClient mctx = mock_nx base" "cooperating (r_Client r)"
    and "store_GetVM (vs_ID vs) (server w) = Some vm" "ok_VM vm" "plain_id (vs_ID vs)"
  shows "\<exists>w'. phaseStartVM r vs mctx w = (phase_completed, vs, w') \<and> server w' = server w"
proof (cases "plan_TargetPowerState (mc_Plan mctx) = TargetPowerStateStopped")
  case False
  obtain w1 where g: "GetVM (mock_nx base) (vs_ID vs) w = (Inr vm, w1)" "server w1 = server w" using call_GetVM [OF assms(3-5)] by blast
  obtain v w2 where v: "Get (kc_GetVirtualMachine (r_Client r) (plan_TargetNamespace (mc_Plan mctx)) (SanitizeName (vm_Name vm) None)) w1 = (Inr v, w2)"
      "server w2 = server w1" using coop_calls(3) [OF assms(2)] by blast
  obtain w3 where "UpdateVM (r_Client r) (v\<lparr>kv_RunStrategy := RunStrategyAlways\<rparr>) w2 = (None, w3)" "server w3 = server w2"
    using coop_calls(4) [OF assms(2)] by blast
  then show ?thesis using False g v assms(1) by (simp add: phaseStartVM_def)
qed (simp add: phaseStartVM_def)

section \<open>The run\<close>

lemma server_bookkeeping [simp]:
  "server (recordEvent r ty reason msg w) = server w" "server (recordVMDuration vs w) = server w"
  by (simp_all add: recordEvent_def emit_event_def recordVMDuration_def observe_Duration_def server_def split: option.splits)

text \<open>The successors in either pipeline.\<close>

lemma next_in_pipeline:
  "nextPhaseInOrder VMPhasePending (if b then warmPhaseOrder else phaseOrder) = VMPhasePreHook"
  "nextPhaseInOrder VMPhasePreHook (if b then warmPhaseOrder else phaseOrder) = VMPhaseStorePowerState"
  "nextPhaseInOrder VMPhaseStorePowerState (if b then warmPhaseOrder else phaseOrder) = (if b then VMPhaseBulkCopy else VMPhasePowerOff)"
  "nextPhaseInOrder VMPhasePowerOff (if b then warmPhaseOrder else phaseOrder) = VMPhaseWaitForPowerOff"
  "nextPhaseInOrder VMPhaseWaitForPowerOff (if b then warmPhaseOrder else phaseOrder) = (if b then VMPhaseFinalSync else VMPhaseCreateSnapshot)"
  "nextPhaseInOrder VMPhaseCreateVM (if b then warmPhaseOrder else phaseOrder) = VMPhaseStartVM"
  "nextPhaseInOrder VMPhaseStartVM (if b then warmPhaseOrder else phaseOrder) = VMPhasePostHook"
  "nextPhaseInOrder VMPhasePostHook (if b then warmPhaseOrder else phaseOrder) = VMPhaseCleanup"
  "nextPhaseInOrder VMPhaseCleanup (if b then warmPhaseOrder else phaseOrder) = VMPhaseCompleted"
  by (simp_all add: phaseOrder_def warmPhaseOrder_def)

lemmas run_simps = executePhase_def isTerminalVMPhase_def pipeline_order_def phaseOrder_def warmPhaseOrder_def next_in_pipeline

lemma resume:
  assumes "executePhase r vs mctx w = Some (Returns (phase_completed, vs', w'))"
    and "\<not> isTerminalVMPhase (vs_Phase vs)" "vs_Phase vs' = vs_Phase vs"
    and "nextPhaseInOrder (vs_Phase vs) (pipeline_order (mc_Plan mctx)) = q" "q \<noteq> VMPhaseCompleted"
  shows "\<exists>w''. advanceSingleVM r mctx vs w = advanceSingleVM r mctx (vs'\<lparr>vs_Phase := q\<rparr>) w'' \<and> server w'' = server w' \<and> w_trace w'' = w_trace w'"
  using assms by (subst advanceSingleVM.simps) (auto simp: enter_next_def recordEvent_def Let_def server_def emit_event_def)

lemma executePhase_keeps:
  assumes "executePhase r vs mctx w = Some (Returns (res, vs', w'))"
    and "vs_Phase vs \<notin> {VMPhaseNone, VMPhasePending, VMPhasePreHook, VMPhaseStorePowerState, VMPhaseBulkCopy}"
  shows "set (w_trace w) \<subseteq> set (w_trace w')"
  using executePhase_ok [OF assms(1)] assms(2) by (auto simp: bulk_ready_def phase_ok_def tracks_def)

definition hookless :: "VMMigrationStatus \<Rightarrow> 'e migrationContext \<Rightarrow> bool" where
  "hookless vs mctx \<longleftrightarrow> (\<forall>p. find (\<lambda>p. pvm_ID p = vs_ID vs) (plan_VMs (mc_Plan mctx)) = Some p \<longrightarrow> pvm_Hooks p = [])"

lemma hookless_runs: "hookless vs mctx \<Longrightarrow> runHook r step vs mctx w = (phase_completed, vs, w)"
  by (auto simp: hookless_def runHook_def findHook_def split: option.splits)

definition fresh_vm :: "VMMigrationStatus \<Rightarrow> bool" where
  "fresh_vm vs \<longleftrightarrow> vs_OriginalPowerState vs = [] \<and> vs_SnapshotUUID vs = [] \<and> vs_ImageUUIDs vs = [] \<and> vs_DataVolumeNames vs = []"

lemma hook_passed:
  assumes "hookless vs mctx" "vs_Phase vs \<in> {VMPhasePreHook, VMPhasePostHook}"
  shows "executePhase r vs mctx w = Some (Returns (phase_completed, vs, w))"
  using assms(2) hookless_runs [OF assms(1)] by (auto simp: executePhase_def)

text \<open>The start: the power state is recorded, then the two pipelines part.\<close>

lemma run_start:
  assumes "mc_NutanixClient mctx = mock_nx base" "hookless vs mctx"
    and "store_GetVM (vs_ID vs) (server w) = Some vm" "ok_VM vm" "plain_id (vs_ID vs)"
    and "vs_Phase vs \<in> {VMPhasePending, VMPhasePreHook}" "vs_OriginalPowerState vs = []"
  shows "\<exists>w'. advanceSingleVM r mctx vs w =
      advanceSingleVM r mctx (vs\<lparr>vs_OriginalPowerState := vm_PowerState vm,
        vs_Phase := (if plan_Type (mc_Plan mctx) = MigrationTypeWarm then VMPhaseBulkCopy else VMPhasePowerOff)\<rparr>) w' \<and> server w' = server w"
proof -
  let ?v = "vs\<lparr>vs_Phase := VMPhaseStorePowerState\<rparr>"
  have hook: "\<exists>w2. advanceSingleVM r mctx v w1 = advanceSingleVM r mctx (v\<lparr>vs_Phase := VMPhaseStorePowerState\<rparr>) w2 \<and> server w2 = server w1"
    if "vs_Phase v = VMPhasePreHook" "hookless v mctx" for v w1
    using resume [OF hook_passed [OF that(2), of r w1], of VMPhaseStorePowerState] that(1) by (auto simp: run_simps)
  have "\<exists>w2. advanceSingleVM r mctx vs w = advanceSingleVM r mctx ?v w2 \<and> server w2 = server w"
  proof (cases "vs_Phase vs = VMPhasePreHook")
    case True
    then show ?thesis using hook assms(2) by blast
  next
    case False
    then obtain w1 where a1: "advanceSingleVM r mctx vs w = advanceSingleVM r mctx (vs\<lparr>vs_Phase := VMPhasePreHook\<rparr>) w1" "server w1 = server w"
      using resume [of r vs mctx w vs w VMPhasePreHook] assms(6) by (auto simp: run_simps)
    then show ?thesis using hook [of "vs\<lparr>vs_Phase := VMPhasePreHook\<rparr>" w1] assms(2) by (auto simp: hookless_def)
  qed
  then obtain w2 where a2: "advanceSingleVM r mctx vs w = advanceSingleVM r mctx ?v w2" "server w2 = server w" by blast
  obtain w3 where g: "GetVMPowerState (mock_nx base) (vs_ID vs) w2 = (Inr (vm_PowerState vm), w3)" "server w3 = server w2"
    using call_GetVMPowerState [of "vs_ID vs" w2 vm base] assms(3-5) a2(2) by auto
  have "executePhase r ?v mctx w2 = Some (Returns (phase_completed, ?v\<lparr>vs_OriginalPowerState := vm_PowerState vm\<rparr>, w3))"
    using g(1) assms(1,7) by (simp add: executePhase_def phaseStorePowerState_def)
  from resume [OF this _ _ refl] show ?thesis using a2 g(2) by (auto simp: run_simps)
qed

text \<open>The power-off; the other VMs and the recovery points and images stay.\<close>

definition switched_off :: "string \<Rightarrow> VM \<Rightarrow> Store \<Rightarrow> Store \<Rightarrow> bool" where
  "switched_off u vm s s' \<longleftrightarrow> store_GetVM u s' = Some (vm\<lparr>vm_PowerState := ''OFF''\<rparr>) \<and>
     (\<forall>u'. u' \<noteq> u \<longrightarrow> store_GetVM u' s' = store_GetVM u' s) \<and> sto_RecoveryPoints s' = sto_RecoveryPoints s \<and> sto_Images s' = sto_Images s \<and>
     sto_CBTConfig s' = sto_CBTConfig s \<and> (entities_ok s \<longrightarrow> entities_ok s')"

lemma run_power_off:
  assumes "mc_NutanixClient mctx = mock_nx base"
    and "store_GetVM (vs_ID vs) (server w) = Some vm" "ok_VM vm" "plain_id (vs_ID vs)"
    and "vs_Phase vs = VMPhasePowerOff" "vs_OriginalPowerState vs = vm_PowerState vm"
  shows "\<exists>w'. advanceSingleVM r mctx vs w = advanceSingleVM r mctx
      (vs\<lparr>vs_Phase := (if plan_Type (mc_Plan mctx) = MigrationTypeWarm then VMPhaseFinalSync else VMPhaseCreateSnapshot)\<rparr>) w' \<and>
    switched_off (vs_ID vs) vm (server w) (server w') \<and> set (w_trace w) \<subseteq> set (w_trace w')"
proof -
  let ?v = "vs\<lparr>vs_Phase := VMPhaseWaitForPowerOff\<rparr>" and ?off = "vm\<lparr>vm_PowerState := ''OFF''\<rparr>"
  have ok: "ok_VM ?off" using assms(3) by (simp add: ok_VM_def)
  obtain w1 where p1: "phasePowerOff vs mctx w = (phase_completed, vs, w1)" "store_GetVM (vs_ID vs) (server w1) = Some ?off"
      "if vm_PowerState vm = ''OFF'' then server w1 = server w else power_set (vs_ID vs) ''OFF'' (server w) (server w1)"
    using power_off_served [OF assms(1,2,4,6)] by blast
  have ex1: "executePhase r vs mctx w = Some (Returns (phase_completed, vs, w1))" using p1(1) assms(5) by (simp add: run_simps)
  obtain w1' where a1: "advanceSingleVM r mctx vs w = advanceSingleVM r mctx ?v w1'" "server w1' = server w1" "w_trace w1' = w_trace w1"
    using resume [OF ex1, of VMPhaseWaitForPowerOff] assms(5) by (auto simp: run_simps)
  obtain w2 where p2: "phaseWaitForPowerOff ?v mctx w1' = (phase_completed, ?v, w2)" "server w2 = server w1"
    using wait_off_served [OF assms(1) _ ok, of ?v w1'] p1(2) a1(2) assms(4) by auto
  have ex2: "executePhase r ?v mctx w1' = Some (Returns (phase_completed, ?v, w2))" using p2(1) by (simp add: run_simps)
  obtain w2' where a2: "advanceSingleVM r mctx ?v w1' = advanceSingleVM r mctx
        (?v\<lparr>vs_Phase := (if plan_Type (mc_Plan mctx) = MigrationTypeWarm then VMPhaseFinalSync else VMPhaseCreateSnapshot)\<rparr>) w2'"
      "server w2' = server w2" "w_trace w2' = w_trace w2"
    using resume [OF ex2 _ _ refl] by (cases "plan_Type (mc_Plan mctx) = MigrationTypeWarm") (auto simp: run_simps)
  have "store_GetVM u' (server w1) = store_GetVM u' (server w)" if "u' \<noteq> vs_ID vs" for u'
    using p1(3) power_set_others [OF _ assms(2) that] by (auto split: if_splits)
  then have "switched_off (vs_ID vs) vm (server w) (server w2')"
    using p1(2,3) p2(2) a2(2) by (auto simp: switched_off_def power_set_def split: if_splits)
  moreover have "set (w_trace w) \<subseteq> set (w_trace w2')"
    using executePhase_keeps [OF ex1] executePhase_keeps [OF ex2] assms(5) a1(3) a2(3) by auto
  ultimately show ?thesis using a1(1) a2(1) by (intro exI [of _ w2']) simp
qed

text \<open>From the creation of the target VM to the cleanup.\<close>

definition vm_created :: "'e migrationContext \<Rightarrow> VM \<Rightarrow> string list \<Rightarrow> effect" where
  "vm_created mctx vm names = ECreate (ObjVirtualMachine (Build vm (Some (mc_NetworkMap mctx)) (Some (mc_StorageMap mctx))
     \<lparr>bo_Namespace = plan_TargetNamespace (mc_Plan mctx), bo_PVCNames = names, bo_ExistingNames = None\<rparr>)) None"

lemma run_create_vm:
  assumes "mc_NutanixClient mctx = mock_nx base" "hookless vs mctx" "cooperating (r_Client r)"
    and "store_GetVM (vs_ID vs) (server w) = Some vm" "ok_VM vm" "plain_id (vs_ID vs)" "vs_Phase vs = VMPhaseCreateVM"
  shows "\<exists>w'. advanceSingleVM r mctx vs w = advanceSingleVM r mctx (vs\<lparr>vs_Phase := VMPhaseCleanup\<rparr>) w' \<and>
    server w' = server w \<and> vm_created mctx vm (vs_DataVolumeNames vs) \<in> set (w_trace w') \<and> set (w_trace w) \<subseteq> set (w_trace w')"
proof -
  let ?v = "\<lambda>p. vs\<lparr>vs_Phase := p\<rparr>" and ?e = "vm_created mctx vm (vs_DataVolumeNames vs)"
  obtain w1 where c: "phaseCreateVM r vs mctx w = (phase_completed, vs, w1)" "server w1 = server w" "?e \<in> set (w_trace w1)"
    using create_vm_served [OF assms(1,3-6)] by (auto simp: vm_created_def)
  have ex1: "executePhase r vs mctx w = Some (Returns (phase_completed, vs, w1))" using c(1) assms(7) by (simp add: run_simps)
  obtain w1' where a1: "advanceSingleVM r mctx vs w = advanceSingleVM r mctx (?v VMPhaseStartVM) w1'" "server w1' = server w" "w_trace w1' = w_trace w1"
    using resume [OF ex1, of VMPhaseStartVM] c(2) assms(7) by (auto simp: run_simps)
  obtain w2 where s: "phaseStartVM r (?v VMPhaseStartVM) mctx w1' = (phase_completed, ?v VMPhaseStartVM, w2)" "server w2 = server w"
    using start_vm_served [OF assms(1,3), of "?v VMPhaseStartVM" w1' vm] assms(4-6) a1(2) by auto
  have ex2: "executePhase r (?v VMPhaseStartVM) mctx w1' = Some (Returns (phase_completed, ?v VMPhaseStartVM, w2))" using s(1) by (simp add: run_simps)
  obtain w2' where a2: "advanceSingleVM r mctx (?v VMPhaseStartVM) w1' = advanceSingleVM r mctx (?v VMPhasePostHook) w2'" "server w2' = server w"
      "w_trace w2' = w_trace w2"
    using resume [OF ex2, of VMPhasePostHook] s(2) by (auto simp: run_simps)
  have "hookless (?v VMPhasePostHook) mctx" using assms(2) by (simp add: hookless_def)
  from resume [OF hook_passed [OF this, of r w2'], of VMPhaseCleanup]
  obtain w3 where a3: "advanceSingleVM r mctx (?v VMPhasePostHook) w2' = advanceSingleVM r mctx (?v VMPhaseCleanup) w3" "server w3 = server w2'"
      "w_trace w3 = w_trace w2'"
    by (auto simp: run_simps)
  have "set (w_trace w) \<subseteq> set (w_trace w1)" "set (w_trace w1) \<subseteq> set (w_trace w2)"
    using executePhase_keeps [OF ex1] executePhase_keeps [OF ex2] assms(7) a1(3) by simp_all
  then show ?thesis using a1(1) a2 a3 c(3) by (intro exI [of _ w3]) auto
qed

lemma now_served:
  assumes "\<forall>st. fst (st_env (snd (clock st))) = fst (st_env st)"
  shows "\<exists>now w'. Now clock w = (now, w') \<and> server w' = server w \<and> w_trace w' = w_trace w"
  using spec [OF assms, of "w_env w"] by (cases "clock (w_env w)") (simp add: Now_def perform_def server_def)

lemma run_cleanup:
  assumes "mc_NutanixClient mctx = mock_nx base"
    and "spares_server (tm_Client (mc_TransferMgr mctx))" "\<forall>st. fst (st_env (snd (r_Now r st))) = fst (st_env st)"
    and "vs_Phase vs = VMPhaseCleanup" "plain_id (vs_SnapshotUUID vs)" "vs_SnapshotUUID vs \<noteq> []" "\<forall>x \<in> set (vs_ImageUUIDs vs). plain_id x"
  shows "\<exists>now w'. advanceSingleVM r mctx vs w = Some (Returns (False, vs\<lparr>vs_Phase := VMPhaseCompleted, vs_Completed := Some now\<rparr>, w')) \<and>
    deleted [vs_SnapshotUUID vs] (vs_ImageUUIDs vs) (server w) (server w') \<and> set (w_trace w) \<subseteq> set (w_trace w')"
proof -
  obtain w1 where c: "phaseCleanup vs mctx w = (phase_completed, vs, w1)" "deleted [vs_SnapshotUUID vs] (vs_ImageUUIDs vs) (server w) (server w1)"
    using cleanup_deletes [OF assms(1,2,5-7)] by blast
  have ex: "executePhase r vs mctx w = Some (Returns (phase_completed, vs, w1))" using c(1) assms(4) by (simp add: executePhase_def)
  have t: "set (w_trace w) \<subseteq> set (w_trace w1)" using executePhase_keeps [OF ex] assms(4) by simp
  obtain v2 w2 where e: "enter_next r mctx vs w1 = (v2, w2)" "v2 = vs\<lparr>vs_Phase := VMPhaseCompleted\<rparr>" "server w2 = server w1" "w_trace w2 = w_trace w1"
    using assms(4) by (simp add: enter_next_def run_simps Let_def recordEvent_def server_def emit_event_def)
  obtain now w3 where n: "Now (r_Now r) w2 = (now, w3)" "server w3 = server w2" "w_trace w3 = w_trace w2"
    using now_served [OF assms(3)] by blast
  have "w_trace (recordVMDuration v w) = w_trace w" for v and w :: "(Store \<times> int) nstate world"
    by (simp add: recordVMDuration_def observe_Duration_def split: option.splits)
  then show ?thesis using ex e n c t assms(4)
    by (subst advanceSingleVM.simps) (auto simp: isTerminalVMPhase_def complete_vm_def Let_def)
qed

section \<open>A sample cluster\<close>

definition served_reconciler :: "(Store \<times> int) nstate MigrationReconciler" where
  "served_reconciler =
     \<lparr>r_Client = (sim_kube (mc_Plan served_mctx))\<lparr>kc_GetVirtualMachine := \<lambda>ns n e. (Inr (Build vm_linux None None
        \<lparr>bo_Namespace = ns, bo_PVCNames = [], bo_ExistingNames = None\<rparr>), e)\<rparr>,
      r_ClientFactory = (\<lambda>cfg. Inr (mock_nx ''http://mock'')), r_Recorder = True, r_Now = (\<lambda>e. (1000, e))\<rparr>"

end
