(* ===== verification/Delta_Round.thy ===== *)
theory Delta_Round
  imports Phase_Runs
begin

text \<open>
  The copying phases of a warm migration against the mock server and a cooperating cluster: the bulk copy, and the
  delta round, which goes through the data disks one by one, a pod for each. The round is followed from one call
  of its handler to the next with the invariant \<open>in_round\<close> and the measure \<open>round_left\<close>.
\<close>

section \<open>The cluster and the bulk copy\<close>

text \<open>A cluster that also runs the delta pods to success.\<close>

definition warm_cooperating :: "(Store \<times> int) nstate KubeClient \<Rightarrow> bool" where
  "warm_cooperating k \<longleftrightarrow> cooperating k \<and>
     (\<forall>ns n st. \<exists>st'. kc_GetPod k ns n st = (Inr PodSucceeded, st') \<and> fst (st_env st') = fst (st_env st))"

lemma bulk_copy_served:
  assumes "mc_NutanixClient mctx = mock_nx base" "cooperating (tm_Client (mc_TransferMgr mctx))"
    and "vs_SnapshotUUID vs = []" "vs_ImageUUIDs vs = []" "vs_DataVolumeNames vs = []" "vs_Warm vs = None"
    and "store_GetVM (vs_ID vs) (server w) = Some vm" "ok_VM vm" "plain_id (vs_ID vs)" "entities_ok (server w)"
  defines "names \<equiv> map (disk_object_name (mc_Migration mctx) vs) [0..<length (filterDataDisks (vm_Disks vm))]"
  shows "\<exists>u us w'. phaseBulkCopy vs mctx w = (phase_completed, vs\<lparr>vs_SnapshotUUID := u, vs_ImageUUIDs := us, vs_DataVolumeNames := names,
      vs_Warm := Some (zero_WarmMigrationStatus\<lparr>ws_BaseSnapshotUUID := u, ws_BaseImageUUIDs := us\<rparr>)\<rparr>, w') \<and>
    exported (server w) u us (server w') \<and> length us = length (filterDataDisks (vm_Disks vm)) \<and> sto_VMs (server w') = sto_VMs (server w)"
proof -
  let ?ds = "filterDataDisks (vm_Disks vm)"
  obtain u w1 where c: "CreateRecoveryPoint (mock_nx base) (vs_ID vs) (snapshot_name (mc_Migration mctx) vs) w = (Inr u, w1)"
      "exported (server w) u [] (server w1)" "sto_VMs (server w1) = sto_VMs (server w)"
    using recovery_point_served [OF assms(10)] by blast
  let ?v1 = "vs\<lparr>vs_SnapshotUUID := u\<rparr>"
  obtain w2 where g: "GetVM (mock_nx base) (vs_ID vs) w1 = (Inr vm, w2)" "server w2 = server w1"
    using call_GetVM [of "vs_ID vs" w1 vm base] assms(7-9) c(3) by (auto simp: store_GetVM_def)
  have "entities_ok (server w2)" using c(2) g(2) by (simp add: exported_def)
  then obtain us w3 where x: "export_loop (mock_nx base) (disk_object_name (mc_Migration mctx) ?v1) getDiskUUID (cluster_ref vm) 0 ?ds [] w2 = (None, us, w3)"
      "length us = length ?ds" "images_added (server w2) us (server w3)"
    using export_loop_served [of w2 "[]" 0] by fastforce
  let ?v2 = "?v1\<lparr>vs_ImageUUIDs := us\<rparr>"
  have names: "map (disk_object_name (mc_Migration mctx) ?v2) [0..<length us] = names" using x(2) by (simp add: names_def disk_object_name_def)
  obtain w4 where d: "create_volumes ''create '' [] getDiskSize ?ds ?v2 mctx w3 = (None, ?v2\<lparr>vs_DataVolumeNames := names\<rparr>, w4)" "server w4 = server w3"
    using coop_create_volumes [OF assms(2), of ?v2 "''create ''" "[]" getDiskSize ?ds w3] assms(5) names by auto
  have "(if length (vs_ImageUUIDs ?v1) < length ?ds
      then export_loop (mock_nx base) (disk_object_name (mc_Migration mctx) ?v1) getDiskUUID (cluster_ref vm) 0 ?ds (vs_ImageUUIDs ?v1) w2
      else (None, vs_ImageUUIDs ?v1, w2)) = (None, us, w3)"
    using x(1) assms(4) by (cases "?ds = []") auto
  then have "phaseBulkCopy vs mctx w = (phase_completed, vs\<lparr>vs_SnapshotUUID := u, vs_ImageUUIDs := us, vs_DataVolumeNames := names,
      vs_Warm := Some (zero_WarmMigrationStatus\<lparr>ws_BaseSnapshotUUID := u, ws_BaseImageUUIDs := us\<rparr>)\<rparr>, w4)"
    using c(1) g(1) d(1) assms(1,3,6) by (simp add: phaseBulkCopy_def createDataVolumes_def Let_def)
  moreover have "exported (server w) u us (server w4)" using exported_images [OF c(2)] x(3) g(2) d(2) by simp
  moreover have "sto_VMs (server w4) = sto_VMs (server w)" using x(3) g(2) d(2) c(3) by (simp add: images_added_def)
  ultimately show ?thesis using x(2) by blast
qed

section \<open>Changed regions and pods\<close>

text \<open>What the mock server needs to serve changed regions: a base URL and regions that a reply can carry.\<close>

definition cbt_ready :: "string \<Rightarrow> Store \<Rightarrow> bool" where
  "cbt_ready base s \<longleftrightarrow> base \<noteq> [] \<and> TrimRight base CHR ''/'' = base \<and> (\<forall>r \<in> set (cbc_ChangedRegions (sto_CBTConfig s)). ok_ChangedRegion r) \<and>
     int (length (cbc_ChangedRegions (sto_CBTConfig s))) < 2 ^ 63"

lemma regions_served:
  assumes "cbt_ready base (server w)" "plain_id vm" "plain_id snap" "plain_id bsnap"
  shows "\<exists>info w1 w2. DiscoverClusterForCBT (mock_nx base) vm w = (Inr info, w1) \<and>
    cbt_loop (\<lambda>off. GetChangedRegions (mock_nx base) (cbt_PrismElementURL info) (cbt_JWTToken info) vm snap bsnap off len bs) 0 [] w1 =
      Some (Inr (cbc_ChangedRegions (sto_CBTConfig (server w))), w2) \<and> server w2 = server w \<and> w_trace w2 = w_trace w"
proof -
  let ?info = "\<lparr>cbt_PrismElementURL = base, cbt_JWTToken = expected_token (server w)\<rparr>"
  obtain w1 where d: "DiscoverClusterForCBT (mock_nx base) vm w = (Inr ?info, w1)" "server w1 = server w"
    using in_process.DiscoverClusterForCBT_answered [of base vm "w_env w"] assms(1)
    by (auto simp: DiscoverClusterForCBT_def perform_def mock_nx_def server_def cbt_ready_def Let_def)
  have nx: "nx_GetChangedRegions (mock_nx base) = http_GetChangedRegions (mock_client base)" by (simp add: mock_nx_def Let_def)
  obtain w2 where "cbt_loop (\<lambda>off. GetChangedRegions (mock_nx base) base (expected_token (server w)) vm snap bsnap off len bs) 0 [] w1 =
      Some (Inr (cbc_ChangedRegions (sto_CBTConfig (server w1))), w2)" "w_trace w2 = w_trace w1" "server w2 = server w1"
    using regions_collected [OF nx, of "expected_token (server w)" w1 vm snap bsnap len bs] d(2) assms unfolding cbt_ready_def plain_id_def server_def by auto
  then show ?thesis using d call_trace(9) [OF d(1)] by (intro exI [of _ ?info] exI [of _ w1] exI [of _ w2]) simp
qed

lemma pod_checked:
  assumes "mc_NutanixClient mctx = mock_nx base" "warm_cooperating (r_Client r)"
    and "store_GetVM (vs_ID vs) (server w) = Some vm" "ok_VM vm" "plain_id (vs_ID vs)"
  shows "\<exists>w'. checkDeltaPod r warm vs mctx w = (phase_not_completed,
      vs\<lparr>vs_Warm := Some (warm\<lparr>ws_DeltaPodName := [], ws_DeltaDiskIndex := Suc (ws_DeltaDiskIndex warm)\<rparr>)\<rparr>, w') \<and>
    server w' = server w \<and> set (w_trace w) \<subseteq> set (w_trace w')"
proof -
  let ?ns = "plan_TargetNamespace (mc_Plan mctx)" and ?n = "ws_DeltaPodName warm"
  have coop: "spares_server (r_Client r)" using assms(2) by (simp add: warm_cooperating_def cooperating_def)
  obtain st' where "kc_GetPod (r_Client r) ?ns ?n (w_env w) = (Inr PodSucceeded, st')" "fst (st_env st') = server w"
    using assms(2) unfolding warm_cooperating_def server_def by blast
  then obtain w1 where p: "getPodPhase r ?n ?ns w = (PodSucceeded, w1)" "server w1 = server w" "set (w_trace w) \<subseteq> set (w_trace w1)"
    by (auto simp: getPodPhase_def perform_def server_def Let_def)
  let ?w3 = "deleteConfigMap r (?n @ ''-regions'') ?ns (deletePod r ?n ?ns w1)"
  have d: "server (try_Delete (r_Client r) k n1 n2 v) = server v" for k n1 n2 v
    using spares_Delete [OF coop] by (simp add: try_Delete_def)
  have t: "set (w_trace v) \<subseteq> set (w_trace (try_Delete (r_Client r) k n1 n2 v))" for k n1 n2 v
    using try_Delete_trace [of "r_Client r" k n1 n2 v] by auto
  have s3: "server ?w3 = server w" using d p(2) by (simp add: deleteConfigMap_def deletePod_def)
  have t3: "set (w_trace w) \<subseteq> set (w_trace ?w3)" unfolding deleteConfigMap_def deletePod_def using p(3) t by blast
  obtain w4 where g: "GetVM (mock_nx base) (vs_ID vs) ?w3 = (Inr vm, w4)" "server w4 = server ?w3"
    using call_GetVM [of "vs_ID vs" ?w3 vm base] assms(3-5) s3 by auto
  then show ?thesis using p(1) assms(1) s3 t3 call_trace(1) [OF g(1)] by (simp add: checkDeltaPod_def Let_def)
qed

text \<open>The pod that patches disk \<open>i\<close> from its image with all changed regions, and the ConfigMap it reads them from, were created.\<close>

definition patched :: "'e migrationContext \<Rightarrow> VMMigrationStatus \<Rightarrow> string \<Rightarrow> string list \<Rightarrow> ChangedRegion list \<Rightarrow> effect list \<Rightarrow> nat \<Rightarrow> bool" where
  "patched mctx vs label images regions tr i \<longleftrightarrow>
     (\<exists>pod cm. delta_pod vs mctx label (zero_WarmMigrationStatus\<lparr>ws_DeltaImageUUIDs := images, ws_DeltaDiskIndex := i\<rparr>) regions = Some (pod, cm) \<and>
        ECreate (ObjConfigMap cm) None \<in> set tr \<and> ECreate (ObjPod pod) None \<in> set tr)"

lemma patched_mono: "patched mctx vs label images regions tr i \<Longrightarrow> set tr \<subseteq> set tr' \<Longrightarrow> patched mctx vs label images regions tr' i"
  unfolding patched_def by blast

lemma pod_started:
  assumes "cooperating (r_Client r)" "ws_DeltaDiskIndex warm < length (ws_DeltaImageUUIDs warm)" "ws_DeltaDiskIndex warm < length (vs_DataVolumeNames vs)"
  shows "\<exists>pod cm w'. delta_pod vs mctx label warm regions = Some (pod, cm) \<and> pod_Name pod \<noteq> [] \<and>
    start_delta_pod r label warm pod cm v w = (phase_not_completed, v\<lparr>vs_Warm := Some (warm\<lparr>ws_DeltaPodName := pod_Name pod\<rparr>)\<rparr>, w') \<and>
    server w' = server w \<and> set (w_trace w) \<subseteq> set (w_trace w') \<and>
    patched mctx vs label (ws_DeltaImageUUIDs warm) regions (w_trace w') (ws_DeltaDiskIndex warm)"
proof -
  obtain pod cm where p: "delta_pod vs mctx label warm regions = Some (pod, cm)" "pod_Name pod \<noteq> []"
    using assms(2,3) by (simp add: delta_pod_def BuildDeltaPod_def Let_def delta_pod_name_def)
  have p': "delta_pod vs mctx label (zero_WarmMigrationStatus\<lparr>ws_DeltaImageUUIDs := ws_DeltaImageUUIDs warm, ws_DeltaDiskIndex := ws_DeltaDiskIndex warm\<rparr>) regions
      = Some (pod, cm)" using p(1) assms(2,3) by (simp add: delta_pod_def Let_def)
  obtain w1 where c1: "Create (r_Client r) (ObjConfigMap cm) w = (None, w1)" "server w1 = server w" "w_trace w1 = w_trace w @ [ECreate (ObjConfigMap cm) None]"
    using coop_calls(1) [OF assms(1)] by blast
  obtain w2 where c2: "Create (r_Client r) (ObjPod pod) w1 = (None, w2)" "server w2 = server w1" "w_trace w2 = w_trace w1 @ [ECreate (ObjPod pod) None]"
    using coop_calls(1) [OF assms(1)] by blast
  have "patched mctx vs label (ws_DeltaImageUUIDs warm) regions (w_trace w2) (ws_DeltaDiskIndex warm)"
    unfolding patched_def using p' c1(3) c2(3) by auto
  then show ?thesis using p c1 c2
    by (intro exI [of _ pod] exI [of _ cm] exI [of _ w2]) (auto simp: start_delta_pod_def ignore_exists_def)
qed

section \<open>The round\<close>

text \<open>
  Between two calls of the handler: the round is not begun, or its recovery point and one image per data disk exist beside what the server
  had at its start, the store \<open>s\<close>; every disk before the current one, and that one when its pod is running, has been given its pod.
\<close>

definition in_round :: "'e migrationContext \<Rightarrow> string \<Rightarrow> Store \<Rightarrow> VM \<Rightarrow> VMMigrationStatus \<Rightarrow> WarmMigrationStatus \<Rightarrow> (Store \<times> int) nstate world \<Rightarrow> bool" where
  "in_round mctx label s vm vs warm w \<longleftrightarrow>
     (let D = length (filterDataDisks (vm_Disks vm)); regions = cbc_ChangedRegions (sto_CBTConfig s); pod = ws_DeltaPodName warm in
      store_GetVM (vs_ID vs) (server w) = Some vm \<and> length (vs_DataVolumeNames vs) = D \<and> ws_DeltaDiskIndex warm \<le> D \<and>
      (pod \<noteq> [] \<longrightarrow> ws_DeltaDiskIndex warm < D) \<and>
      (if ws_DeltaSnapshotUUID warm = []
       then ws_DeltaImageUUIDs warm = [] \<and> ws_DeltaDiskIndex warm = 0 \<and> pod = [] \<and> server w = s \<and> entities_ok s
       else exported s (ws_DeltaSnapshotUUID warm) (ws_DeltaImageUUIDs warm) (server w) \<and> length (ws_DeltaImageUUIDs warm) = D \<and>
         sto_VMs (server w) = sto_VMs s) \<and>
      (\<forall>i < ws_DeltaDiskIndex warm + (if pod = [] then 0 else 1).
         regions \<noteq> [] \<longrightarrow> patched mctx vs label (ws_DeltaImageUUIDs warm) regions (w_trace w) i))"

definition round_left :: "VM \<Rightarrow> WarmMigrationStatus \<Rightarrow> nat" where
  "round_left vm warm = 2 * (length (filterDataDisks (vm_Disks vm)) - ws_DeltaDiskIndex warm) + (if ws_DeltaPodName warm = [] then 1 else 0)"

definition same_base :: "WarmMigrationStatus \<Rightarrow> WarmMigrationStatus \<Rightarrow> bool" where
  "same_base warm warm' \<longleftrightarrow> ws_BaseSnapshotUUID warm' = ws_BaseSnapshotUUID warm \<and> ws_BaseImageUUIDs warm' = ws_BaseImageUUIDs warm \<and>
     ws_PrecopyRounds warm' = ws_PrecopyRounds warm \<and> ws_LastPrecopyTime warm' = ws_LastPrecopyTime warm"

lemma in_round_cong: "server w' = server w \<Longrightarrow> w_trace w' = w_trace w \<Longrightarrow> in_round mctx label s vm vs warm w' = in_round mctx label s vm vs warm w"
  unfolding in_round_def by (rule HOL.arg_cong2 [where f = Let]) simp_all

lemma delta_pod_warm [simp]: "delta_pod (vs\<lparr>vs_Warm := x\<rparr>) mctx label warm regions = delta_pod vs mctx label warm regions"
  by (simp add: delta_pod_def delta_pod_name_def Let_def)

lemma delta_pod_bytes [simp]: "delta_pod vs mctx label (warm\<lparr>ws_DeltaBytes := b\<rparr>) regions = delta_pod vs mctx label warm regions"
  by (simp add: delta_pod_def Let_def)

lemma round_opened:
  assumes "mc_NutanixClient mctx = mock_nx base" "ok_VM vm" "plain_id (vs_ID vs)" "in_round mctx label s vm vs warm w" "ws_DeltaPodName warm = []"
  shows "\<exists>u us w'. let warm' = warm\<lparr>ws_DeltaSnapshotUUID := u, ws_DeltaImageUUIDs := us\<rparr> in
    runDeltaRound r label fin warm vs mctx w = delta_disk r label fin warm' (filterDataDisks (vm_Disks vm)) (vs\<lparr>vs_Warm := Some warm'\<rparr>) mctx w' \<and>
    in_round mctx label s vm vs warm' w' \<and> u \<noteq> [] \<and> set (w_trace w) \<subseteq> set (w_trace w')"
proof (cases "ws_DeltaSnapshotUUID warm = []")
  case True
  let ?ds = "filterDataDisks (vm_Disks vm)"
  have new: "ws_DeltaImageUUIDs warm = []" "ws_DeltaDiskIndex warm = 0" "server w = s" "entities_ok (server w)" "store_GetVM (vs_ID vs) (server w) = Some vm"
      "length (vs_DataVolumeNames vs) = length ?ds"
    using assms(4) True by (auto simp: in_round_def Let_def)
  obtain u w1 where c: "CreateRecoveryPoint (mock_nx base) (vs_ID vs) (delta_snapshot_name (mc_Migration mctx) vs label) w = (Inr u, w1)"
      "exported (server w) u [] (server w1)" "sto_VMs (server w1) = sto_VMs (server w)"
    using recovery_point_served [OF new(4)] by blast
  obtain w2 where g: "GetVM (mock_nx base) (vs_ID vs) w1 = (Inr vm, w2)" "server w2 = server w1"
    using call_GetVM [of "vs_ID vs" w1 vm base] assms(2,3) new(5) c(3) by (auto simp: store_GetVM_def)
  have "entities_ok (server w2)" using c(2) g(2) by (simp add: exported_def)
  then obtain us w3 where x: "export_loop (mock_nx base) (delta_image_name (mc_Migration mctx) vs label) getDiskUUID (cluster_ref vm) 0 ?ds [] w2 = (None, us, w3)"
      "length us = length ?ds" "images_added (server w2) us (server w3)"
    using export_loop_served [of w2 "[]" 0] by fastforce
  have run: "runDeltaRound r label fin warm vs mctx w = delta_disk r label fin (warm\<lparr>ws_DeltaSnapshotUUID := u, ws_DeltaImageUUIDs := us\<rparr>) ?ds
      (vs\<lparr>vs_Warm := Some (warm\<lparr>ws_DeltaSnapshotUUID := u, ws_DeltaImageUUIDs := us\<rparr>)\<rparr>) mctx w3"
    using True c(1) g(1) x(1) new(1) assms(1) by (cases "?ds = []") (simp_all add: runDeltaRound_def Let_def)
  have "exported s u us (server w3)" using exported_images [OF c(2)] x(3) g(2) new(3) by simp
  moreover have "sto_VMs (server w3) = sto_VMs s" using x(3) g(2) c(3) new(3) by (simp add: images_added_def)
  moreover have "set (w_trace w) \<subseteq> set (w_trace w3)"
    using call_trace(5) [OF c(1)] call_trace(1) [OF g(1)] no_snapshot_export [OF x(1)] by (auto simp: no_snapshot_def)
  moreover have "u \<noteq> []" using c(2) by (simp add: exported_def)
  ultimately show ?thesis using run x(2) new assms(5)
    by (intro exI [of _ u] exI [of _ us] exI [of _ w3]) (simp add: in_round_def Let_def store_GetVM_def)
next
  case False
  let ?ds = "filterDataDisks (vm_Disks vm)"
  have old: "store_GetVM (vs_ID vs) (server w) = Some vm" "length (ws_DeltaImageUUIDs warm) = length ?ds"
    using assms(4) False by (simp_all add: in_round_def Let_def)
  obtain w2 where g: "GetVM (mock_nx base) (vs_ID vs) w = (Inr vm, w2)" "server w2 = server w"
    using call_GetVM [OF old(1) assms(2,3)] by blast
  have same: "warm\<lparr>ws_DeltaSnapshotUUID := ws_DeltaSnapshotUUID warm, ws_DeltaImageUUIDs := ws_DeltaImageUUIDs warm\<rparr> = warm" by simp
  have "runDeltaRound r label fin warm vs mctx w = delta_disk r label fin warm ?ds (vs\<lparr>vs_Warm := Some warm\<rparr>) mctx w2"
    using False g(1) old(2) assms(1) by (simp add: runDeltaRound_def Let_def)
  moreover have "in_round mctx label s vm vs warm w2" using assms(4) by (simp add: in_round_cong [OF g(2) call_trace(1) [OF g(1)]])
  moreover have "w_trace w2 = w_trace w" by (rule call_trace(1) [OF g(1)])
  ultimately show ?thesis using False
    by (intro exI [of _ "ws_DeltaSnapshotUUID warm"] exI [of _ "ws_DeltaImageUUIDs warm"] exI [of _ w2]) (simp only: same Let_def, simp)
qed

text \<open>One disk: no changes and the round goes on, or a pod is started.\<close>

lemma round_disk:
  assumes "mc_NutanixClient mctx = mock_nx base" "cooperating (r_Client r)" "plain_id (vs_ID vs)" "plain_id (ws_BaseSnapshotUUID warm)" "cbt_ready base s"
    and inv: "in_round mctx label s vm vs warm w" and "ws_DeltaPodName warm = []" "ws_DeltaSnapshotUUID warm \<noteq> []"
    and lt: "ws_DeltaDiskIndex warm < length (filterDataDisks (vm_Disks vm))"
  shows "\<exists>warm' w'. in_round mctx label s vm vs warm' w' \<and> round_left vm warm' < round_left vm warm \<and> same_base warm warm' \<and>
    ws_DeltaSnapshotUUID warm' \<noteq> [] \<and> set (w_trace w) \<subseteq> set (w_trace w') \<and>
    delta_disk r label fin warm (filterDataDisks (vm_Disks vm)) (vs\<lparr>vs_Warm := Some warm\<rparr>) mctx w =
      (if ws_DeltaDiskIndex warm' = length (filterDataDisks (vm_Disks vm)) then Some (Returns (fin warm' (vs\<lparr>vs_Warm := Some warm'\<rparr>) mctx w'))
       else returns phase_not_completed (vs\<lparr>vs_Warm := Some warm'\<rparr>) w')"
proof -
  let ?ds = "filterDataDisks (vm_Disks vm)" and ?i = "ws_DeltaDiskIndex warm" and ?regs = "cbc_ChangedRegions (sto_CBTConfig s)"
  have ex: "exported s (ws_DeltaSnapshotUUID warm) (ws_DeltaImageUUIDs warm) (server w)" "length (ws_DeltaImageUUIDs warm) = length ?ds"
      "length (vs_DataVolumeNames vs) = length ?ds"
    using inv assms(8) by (simp_all add: in_round_def Let_def)
  have cfg: "sto_CBTConfig (server w) = sto_CBTConfig s" "plain_id (ws_DeltaSnapshotUUID warm)" using ex(1) by (simp_all add: exported_def)
  have "cbt_ready base (server w)" using assms(5) cfg(1) by (simp add: cbt_ready_def)
  from regions_served [OF this assms(3) cfg(2) assms(4), of "getDiskSize (?ds ! ?i)" CBTBlockSize]
  obtain info w1 w2 where d: "DiscoverClusterForCBT (mock_nx base) (vs_ID vs) w = (Inr info, w1)"
      "cbt_loop (\<lambda>off. GetChangedRegions (mock_nx base) (cbt_PrismElementURL info) (cbt_JWTToken info) (vs_ID vs) (ws_DeltaSnapshotUUID warm)
         (ws_BaseSnapshotUUID warm) off (getDiskSize (?ds ! ?i)) CBTBlockSize) 0 [] w1 = Some (Inr ?regs, w2)"
      "server w2 = server w" "w_trace w2 = w_trace w"
    unfolding cfg(1) by blast
  let ?warm1 = "warm\<lparr>ws_DeltaBytes := wrap64 (ws_DeltaBytes warm + DeltaBytes ?regs)\<rparr>"
  show ?thesis
  proof (cases "?regs = []")
    case True
    let ?warm2 = "?warm1\<lparr>ws_DeltaDiskIndex := Suc ?i\<rparr>"
    have "in_round mctx label s vm vs ?warm2 w2" using inv assms(7,8) lt d(3) True by (simp add: in_round_def Let_def)
    moreover have "round_left vm ?warm2 < round_left vm warm" "same_base warm ?warm2" using lt assms(7) by (simp_all add: round_left_def same_base_def)
    moreover have "delta_disk r label fin warm ?ds (vs\<lparr>vs_Warm := Some warm\<rparr>) mctx w =
      (if Suc ?i = length ?ds then Some (Returns (fin ?warm2 (vs\<lparr>vs_Warm := Some ?warm2\<rparr>) mctx w2))
       else returns phase_not_completed (vs\<lparr>vs_Warm := Some ?warm2\<rparr>) w2)"
      using lt d(1,2) True assms(1) by (simp add: delta_disk_def Let_def)
    ultimately show ?thesis using assms(8) d(4) by (intro exI [of _ ?warm2] exI [of _ w2]) simp
  next
    case False
    obtain pod cm w3 where p: "delta_pod vs mctx label ?warm1 ?regs = Some (pod, cm)" "pod_Name pod \<noteq> []"
        "start_delta_pod r label ?warm1 pod cm (vs\<lparr>vs_Warm := Some ?warm1\<rparr>) w2 =
           (phase_not_completed, vs\<lparr>vs_Warm := Some (?warm1\<lparr>ws_DeltaPodName := pod_Name pod\<rparr>)\<rparr>, w3)"
        "server w3 = server w2" "set (w_trace w2) \<subseteq> set (w_trace w3)" "patched mctx vs label (ws_DeltaImageUUIDs warm) ?regs (w_trace w3) ?i"
      using pod_started [OF assms(2), of ?warm1 vs mctx label ?regs "vs\<lparr>vs_Warm := Some ?warm1\<rparr>" w2] lt ex(2,3) by auto
    let ?warm2 = "?warm1\<lparr>ws_DeltaPodName := pod_Name pod\<rparr>"
    have "\<forall>j < ?i. patched mctx vs label (ws_DeltaImageUUIDs warm) ?regs (w_trace w) j" using inv assms(7) False by (simp add: in_round_def Let_def)
    then have "patched mctx vs label (ws_DeltaImageUUIDs warm) ?regs (w_trace w3) j" if "j < Suc ?i" for j
      using that p(5,6) d(4) patched_mono [of mctx vs label _ ?regs "w_trace w" j "w_trace w3"] by (cases "j = ?i") simp_all
    then have "in_round mctx label s vm vs ?warm2 w3" using inv assms(7,8) lt d(3) p(2,4) by (simp add: in_round_def Let_def)
    moreover have "round_left vm ?warm2 < round_left vm warm" "same_base warm ?warm2" using p(2) assms(7) by (simp_all add: round_left_def same_base_def)
    moreover have "delta_disk r label fin warm ?ds (vs\<lparr>vs_Warm := Some warm\<rparr>) mctx w = returns phase_not_completed (vs\<lparr>vs_Warm := Some ?warm2\<rparr>) w3"
      using lt d(1,2) False assms(1) p(1,3) by (simp add: delta_disk_def Let_def)
    ultimately show ?thesis using assms(8) d(4) p(5) lt by (intro exI [of _ ?warm2] exI [of _ w3]) simp
  qed
qed

text \<open>One call of the handler, whether it checks a pod or goes on with the disks.\<close>

definition round_call :: "(Store \<times> int) nstate MigrationReconciler \<Rightarrow> string \<Rightarrow> (WarmMigrationStatus \<Rightarrow> (Store \<times> int) nstate handler) \<Rightarrow>
  WarmMigrationStatus \<Rightarrow> (Store \<times> int) nstate warm_handler" where
  "round_call r label fin warm vs mctx w =
     (if ws_DeltaPodName warm \<noteq> [] then Some (Returns (checkDeltaPod r warm vs mctx w)) else runDeltaRound r label fin warm vs mctx w)"

lemma round_step:
  assumes "mc_NutanixClient mctx = mock_nx base" "warm_cooperating (r_Client r)" "ok_VM vm" "plain_id (vs_ID vs)" "plain_id (ws_BaseSnapshotUUID warm)"
    and "cbt_ready base s" and inv: "in_round mctx label s vm vs warm w"
  shows "\<exists>warm' w'. in_round mctx label s vm vs warm' w' \<and> same_base warm warm' \<and> set (w_trace w) \<subseteq> set (w_trace w') \<and> ws_DeltaSnapshotUUID warm' \<noteq> [] \<and>
    (round_call r label fin warm vs mctx w = returns phase_not_completed (vs\<lparr>vs_Warm := Some warm'\<rparr>) w' \<and> round_left vm warm' < round_left vm warm \<or>
     round_call r label fin warm vs mctx w = Some (Returns (fin warm' (vs\<lparr>vs_Warm := Some warm'\<rparr>) mctx w')) \<and>
       ws_DeltaDiskIndex warm' = length (filterDataDisks (vm_Disks vm)))"
proof (cases "ws_DeltaPodName warm = []")
  case False
  have vm: "store_GetVM (vs_ID vs) (server w) = Some vm" "ws_DeltaDiskIndex warm < length (filterDataDisks (vm_Disks vm))" "ws_DeltaSnapshotUUID warm \<noteq> []"
    using inv False by (auto simp: in_round_def Let_def split: if_splits)
  let ?warm = "warm\<lparr>ws_DeltaPodName := [], ws_DeltaDiskIndex := Suc (ws_DeltaDiskIndex warm)\<rparr>"
  obtain w' where c: "checkDeltaPod r warm vs mctx w = (phase_not_completed, vs\<lparr>vs_Warm := Some ?warm\<rparr>, w')" "server w' = server w"
      "set (w_trace w) \<subseteq> set (w_trace w')"
    using pod_checked [OF assms(1,2) vm(1) assms(3,4)] by blast
  have "in_round mctx label s vm vs ?warm w'" using inv False vm(2,3) c(2,3) by (auto simp: in_round_def Let_def intro: patched_mono)
  moreover have "round_left vm ?warm < round_left vm warm" "same_base warm ?warm" using False vm(2) by (simp_all add: round_left_def same_base_def)
  ultimately show ?thesis using c False vm(3) by (intro exI [of _ ?warm] exI [of _ w']) (simp add: round_call_def)
next
  case True
  let ?ds = "filterDataDisks (vm_Disks vm)"
  obtain u us w1 where o: "let warm' = warm\<lparr>ws_DeltaSnapshotUUID := u, ws_DeltaImageUUIDs := us\<rparr> in
    runDeltaRound r label fin warm vs mctx w = delta_disk r label fin warm' ?ds (vs\<lparr>vs_Warm := Some warm'\<rparr>) mctx w1 \<and>
    in_round mctx label s vm vs warm' w1 \<and> u \<noteq> [] \<and> set (w_trace w) \<subseteq> set (w_trace w1)"
    using round_opened [OF assms(1,3,4) inv True, of r fin] by blast
  define warm1 where "warm1 = warm\<lparr>ws_DeltaSnapshotUUID := u, ws_DeltaImageUUIDs := us\<rparr>"
  have run: "round_call r label fin warm vs mctx w = delta_disk r label fin warm1 ?ds (vs\<lparr>vs_Warm := Some warm1\<rparr>) mctx w1"
    and inv1: "in_round mctx label s vm vs warm1 w1" and u: "ws_DeltaSnapshotUUID warm1 \<noteq> []" and t: "set (w_trace w) \<subseteq> set (w_trace w1)"
    using o True by (simp_all add: warm1_def round_call_def Let_def)
  have same: "same_base warm warm1" "ws_DeltaPodName warm1 = []" "round_left vm warm1 = round_left vm warm" "plain_id (ws_BaseSnapshotUUID warm1)"
    using True assms(5) by (simp_all add: warm1_def same_base_def round_left_def)
  show ?thesis
  proof (cases "ws_DeltaDiskIndex warm1 < length ?ds")
    case lt: True
    have coop: "cooperating (r_Client r)" using assms(2) by (simp add: warm_cooperating_def)
    show ?thesis using round_disk [OF assms(1) coop assms(4) same(4) assms(6) inv1 same(2) u lt, of fin] run same t
      by (fastforce simp: same_base_def split: if_splits)
  next
    case False
    then have "ws_DeltaDiskIndex warm1 = length ?ds" using inv1 by (simp add: in_round_def Let_def)
    then show ?thesis using run inv1 u t same(1) by (intro exI [of _ warm1] exI [of _ w1]) (simp add: delta_disk_def)
  qed
qed

section \<open>A disk that was added during the migration\<close>

text \<open>
  A data disk that the VM got after the bulk copy has no DataVolume. When its turn comes in the final round and there are changed regions,
  the handler indexes the DataVolume names past their end and panics; the recovered reconcile is tried again, with the same end.
\<close>

theorem hot_added_disk_panics:
  assumes "mc_NutanixClient mctx = mock_nx base" and "cbt_ready base (server w)" and "cbc_ChangedRegions (sto_CBTConfig (server w)) \<noteq> []"
    and "store_GetVM (vs_ID vs) (server w) = Some vm" "ok_VM vm" "plain_id (vs_ID vs)"
    and "vs_Phase vs = VMPhaseFinalSync" "vs_Warm vs = Some warm" "ws_DeltaPodName warm = []"
    and "plain_id (ws_DeltaSnapshotUUID warm)" "ws_DeltaSnapshotUUID warm \<noteq> []" "plain_id (ws_BaseSnapshotUUID warm)"
    and "length (ws_DeltaImageUUIDs warm) = length (filterDataDisks (vm_Disks vm))"
    and "ws_DeltaDiskIndex warm = length (vs_DataVolumeNames vs)" "length (vs_DataVolumeNames vs) < length (filterDataDisks (vm_Disks vm))"
  shows "\<exists>w'. advanceSingleVM r mctx vs w = Some (Panics w')"
proof -
  let ?ds = "filterDataDisks (vm_Disks vm)"
  obtain w1 where g: "GetVM (mock_nx base) (vs_ID vs) w = (Inr vm, w1)" "server w1 = server w" using call_GetVM [OF assms(4-6)] by blast
  from regions_served [of base w1, OF _ assms(6,10,12), of "getDiskSize (?ds ! ws_DeltaDiskIndex warm)" CBTBlockSize] assms(2) g(2)
  obtain info w2 w3 where d: "DiscoverClusterForCBT (mock_nx base) (vs_ID vs) w1 = (Inr info, w2)"
      "cbt_loop (\<lambda>off. GetChangedRegions (mock_nx base) (cbt_PrismElementURL info) (cbt_JWTToken info) (vs_ID vs) (ws_DeltaSnapshotUUID warm)
         (ws_BaseSnapshotUUID warm) off (getDiskSize (?ds ! ws_DeltaDiskIndex warm)) CBTBlockSize) 0 [] w2 =
         Some (Inr (cbc_ChangedRegions (sto_CBTConfig (server w))), w3)"
    by auto
  have "delta_pod v mctx label (warm\<lparr>ws_DeltaBytes := b\<rparr>) regions = None" if "vs_DataVolumeNames v = vs_DataVolumeNames vs" for v label b regions
    using that assms(14) by (simp add: delta_pod_def Let_def)
  then have "executePhase r vs mctx w = Some (Panics w3)"
    using g(1) d assms(1,3,7-9,11,13-15) by (simp add: executePhase_def phaseFinalSync_def runDeltaRound_def delta_disk_def Let_def)
  then show ?thesis using assms(7) by (subst advanceSingleVM.simps) (simp add: isTerminalVMPhase_def)
qed

end
