(* ===== verification/Warm_Run.thy ===== *)
theory Warm_Run
  imports Delta_Round
begin

text \<open>
  A warm migration whose cutover has come, from the first phase to the last, through the controller, the HTTP client,
  the mock server and a cooperating cluster: the bulk copy, the power-off, the final round disk by disk, and the target VM.
\<close>

section \<open>Polling\<close>

text \<open>The VM is advanced again as long as it asks for a requeue.\<close>

fun polls :: "nat \<Rightarrow> 'e MigrationReconciler \<Rightarrow> 'e migrationContext \<Rightarrow> VMMigrationStatus \<Rightarrow> 'e world \<Rightarrow> (VMMigrationStatus \<times> 'e world) option" where
  "polls 0 r mctx vs w = None"
| "polls (Suc k) r mctx vs w =
     (case advanceSingleVM r mctx vs w of
        Some (Returns (requeue, vs1, w1)) \<Rightarrow> if requeue then polls k r mctx vs1 w1 else Some (vs1, w1)
      | _ \<Rightarrow> None)"

lemma polls_mono: "polls j r mctx vs w = Some x \<Longrightarrow> j \<le> k \<Longrightarrow> polls k r mctx vs w = Some x"
proof (induction j arbitrary: k vs w)
  case (Suc j)
  then obtain k' where k: "k = Suc k'" "j \<le> k'" by (cases k) auto
  show ?case using Suc.prems(1) Suc.IH [OF _ k(2)] by (auto simp: k(1) split: option.splits go_result.splits if_splits)
qed simp

lemma polls_cong: "advanceSingleVM r mctx vs w = advanceSingleVM r mctx vs' w' \<Longrightarrow> polls k r mctx vs w = polls k r mctx vs' w'"
  by (cases k) simp_all

section \<open>The run\<close>

definition warm_ready :: "string \<Rightarrow> (Store \<times> int) nstate MigrationReconciler \<Rightarrow> (Store \<times> int) nstate migrationContext \<Rightarrow> bool" where
  "warm_ready base r mctx \<longleftrightarrow> mc_NutanixClient mctx = mock_nx base \<and> plan_Type (mc_Plan mctx) = MigrationTypeWarm \<and> warm_cooperating (r_Client r) \<and>
     tm_Client (mc_TransferMgr mctx) = r_Client r \<and> (\<forall>st. fst (st_env (snd (r_Now r st))) = fst (st_env st)) \<and>
     (\<exists>c. mig_Cutover (mc_Migration mctx) = Some c \<and> (\<forall>st. c < fst (r_Now r st)))"

lemma run_bulk:
  assumes "warm_ready base r mctx" and "vs_Phase vs = VMPhaseBulkCopy"
    and "vs_SnapshotUUID vs = []" "vs_ImageUUIDs vs = []" "vs_DataVolumeNames vs = []" "vs_Warm vs = None"
    and "store_GetVM (vs_ID vs) (server w) = Some vm" "ok_VM vm" "plain_id (vs_ID vs)" "entities_ok (server w)"
  defines "names \<equiv> map (disk_object_name (mc_Migration mctx) vs) [0..<length (filterDataDisks (vm_Disks vm))]"
  shows "\<exists>u us w'. advanceSingleVM r mctx vs w = advanceSingleVM r mctx (vs\<lparr>vs_SnapshotUUID := u, vs_ImageUUIDs := us, vs_DataVolumeNames := names,
      vs_Warm := Some (zero_WarmMigrationStatus\<lparr>ws_BaseSnapshotUUID := u, ws_BaseImageUUIDs := us\<rparr>), vs_Phase := VMPhasePowerOff\<rparr>) w' \<and>
    exported (server w) u us (server w') \<and> sto_VMs (server w') = sto_VMs (server w)"
proof -
  have ready: "mc_NutanixClient mctx = mock_nx base" "plan_Type (mc_Plan mctx) = MigrationTypeWarm" "cooperating (tm_Client (mc_TransferMgr mctx))"
      "\<forall>st. fst (st_env (snd (r_Now r st))) = fst (st_env st)"
    using assms(1) by (simp_all add: warm_ready_def warm_cooperating_def)
  obtain u us w1 where b: "phaseBulkCopy vs mctx w = (phase_completed, vs\<lparr>vs_SnapshotUUID := u, vs_ImageUUIDs := us, vs_DataVolumeNames := names,
      vs_Warm := Some (zero_WarmMigrationStatus\<lparr>ws_BaseSnapshotUUID := u, ws_BaseImageUUIDs := us\<rparr>)\<rparr>, w1)"
      "exported (server w) u us (server w1)" "sto_VMs (server w1) = sto_VMs (server w)"
    using bulk_copy_served [OF ready(1,3) assms(3-10)] unfolding names_def by blast
  let ?v = "\<lambda>p. vs\<lparr>vs_SnapshotUUID := u, vs_ImageUUIDs := us, vs_DataVolumeNames := names,
      vs_Warm := Some (zero_WarmMigrationStatus\<lparr>ws_BaseSnapshotUUID := u, ws_BaseImageUUIDs := us\<rparr>), vs_Phase := p\<rparr>"
  obtain w1' where a1: "advanceSingleVM r mctx vs w = advanceSingleVM r mctx (?v VMPhaseWaitBulkCopy) w1'" "server w1' = server w1"
    using resume [of r vs mctx w "?v VMPhaseBulkCopy" w1 VMPhaseWaitBulkCopy] b(1) ready(2) assms(2) by (auto simp: run_simps)
  obtain w2 where p: "poll_dvs_loop (mc_TransferMgr mctx) (plan_TargetNamespace (mc_Plan mctx)) ''poll DV '' ''DataVolume '' names True w1' = (phase_completed, w2)"
      "server w2 = server w1'" using coop_poll [OF ready(3)] by blast
  have "executePhase r (?v VMPhaseWaitBulkCopy) mctx w1' = Some (Returns (phase_completed, ?v VMPhaseWaitBulkCopy, w2))"
    using p(1) by (simp add: executePhase_def phaseWaitBulkCopy_def pollDataVolumes_def)
  from resume [OF this, of VMPhasePrecopy] obtain w2' where a2: "advanceSingleVM r mctx (?v VMPhaseWaitBulkCopy) w1' = advanceSingleVM r mctx (?v VMPhasePrecopy) w2'"
      "server w2' = server w2"
    using ready(2) by (auto simp: run_simps)
  obtain now w3 where n: "Now (r_Now r) w2' = (now, w3)" "server w3 = server w2'" using now_served [OF ready(4)] by blast
  obtain c where "mig_Cutover (mc_Migration mctx) = Some c" "c < now"
    using assms(1) n(1) unfolding warm_ready_def Now_def perform_def by (metis (mono_tags, lifting) case_prod_unfold fst_conv)
  then have "executePhase r (?v VMPhasePrecopy) mctx w2' = Some (Returns (phase_completed, ?v VMPhasePrecopy, w3))"
    using n(1) by (simp add: executePhase_def phasePrecopy_def isCutoverTime_def zero_WarmMigrationStatus_def)
  from resume [OF this, of VMPhasePowerOff] obtain w3' where "advanceSingleVM r mctx (?v VMPhasePrecopy) w2' = advanceSingleVM r mctx (?v VMPhasePowerOff) w3'"
      "server w3' = server w3"
    using ready(2) by (auto simp: run_simps)
  then show ?thesis using a1 a2 p(2) n(2) b(2,3) by (intro exI [of _ u] exI [of _ us] exI [of _ w3']) simp
qed

text \<open>The end of the final round removes the recovery points and images of the bulk copy and of the round.\<close>

lemma finalize_served:
  assumes "mc_NutanixClient mctx = mock_nx base" "plain_id (ws_BaseSnapshotUUID warm)" "ws_BaseSnapshotUUID warm \<noteq> []"
    and "\<forall>x \<in> set (ws_BaseImageUUIDs warm). plain_id x" "exported s (ws_DeltaSnapshotUUID warm) (ws_DeltaImageUUIDs warm) (server w)"
  shows "\<exists>warm' w'. finalizeFinalSync warm vs mctx w = (phase_completed, vs\<lparr>vs_Warm := Some warm'\<rparr>, w') \<and>
    deleted [ws_BaseSnapshotUUID warm, ws_DeltaSnapshotUUID warm] (ws_BaseImageUUIDs warm @ ws_DeltaImageUUIDs warm) (server w) (server w')"
proof -
  let ?nx = "mock_nx base"
  let ?w1 = "try_DeleteRecoveryPoint ?nx (ws_BaseSnapshotUUID warm) w"
  let ?w2 = "for_each (try_DeleteImage ?nx) (ws_BaseImageUUIDs warm) ?w1"
  let ?w3 = "try_DeleteRecoveryPoint ?nx (ws_DeltaSnapshotUUID warm) (for_each (try_DeleteImage ?nx) (ws_DeltaImageUUIDs warm) ?w2)"
  have "\<forall>x \<in> set (ws_DeltaImageUUIDs warm). plain_id x" "plain_id (ws_DeltaSnapshotUUID warm)" "ws_DeltaSnapshotUUID warm \<noteq> []"
    using assms(5) by (simp_all add: exported_def)
  then have "deleted [ws_BaseSnapshotUUID warm, ws_DeltaSnapshotUUID warm] (ws_BaseImageUUIDs warm @ ws_DeltaImageUUIDs warm) (server w) (server ?w3)"
    using deleted_trans [OF deleted_trans [OF call_DeleteRecoveryPoint [OF assms(2,3), of w base] delete_images_served [OF assms(4), of ?w1 base]]
        deletes_served [of "ws_DeltaSnapshotUUID warm" "ws_DeltaImageUUIDs warm" ?w2 base]] by simp
  then show ?thesis using assms(1) by (auto simp: finalizeFinalSync_def Let_def)
qed

lemma patched_warm [simp]: "patched mctx (vs\<lparr>vs_Warm := x\<rparr>) label images regions tr i = patched mctx vs label images regions tr i"
  by (simp add: patched_def)

lemma in_round_warm [simp]: "in_round mctx label s vm (vs\<lparr>vs_Warm := x\<rparr>) warm w = in_round mctx label s vm vs warm w"
  by (simp add: in_round_def)

text \<open>What a VM in its final round ends with; \<open>s\<close> is the store when the round began.\<close>

definition synced :: "(Store \<times> int) nstate migrationContext \<Rightarrow> Store \<Rightarrow> VM \<Rightarrow> VMMigrationStatus \<Rightarrow> VMMigrationStatus \<Rightarrow> (Store \<times> int) nstate world \<Rightarrow> bool" where
  "synced mctx s vm vs vs' w' \<longleftrightarrow>
     vs_Phase vs' = VMPhaseCompleted \<and> vs_ID vs' = vs_ID vs \<and> vs_DataVolumeNames vs' = vs_DataVolumeNames vs \<and> vm_created mctx vm (vs_DataVolumeNames vs) \<in> set (w_trace w') \<and>
     (\<exists>images. length images = length (filterDataDisks (vm_Disks vm)) \<and>
        (\<forall>i < length (filterDataDisks (vm_Disks vm)). cbc_ChangedRegions (sto_CBTConfig s) \<noteq> [] \<longrightarrow>
           patched mctx vs ''final'' images (cbc_ChangedRegions (sto_CBTConfig s)) (w_trace w') i)) \<and>
     sto_VMs (server w') = sto_VMs s \<and> sto_CBTConfig (server w') = sto_CBTConfig s \<and> entities_ok (server w') \<and>
     (\<forall>x. sto_RecoveryPoints (server w') x = (if x = vs_SnapshotUUID vs then None else sto_RecoveryPoints s x)) \<and>
     (\<forall>x. sto_Images (server w') x = (if x \<in> set (vs_ImageUUIDs vs) then None else sto_Images s x))"

text \<open>The last call: the round is closed, the target VM is created and the source is cleaned up.\<close>

lemma sync_closes:
  assumes ready: "warm_ready base r mctx" and "hookless vs mctx" "ok_VM vm" "plain_id (vs_ID vs)"
    and base: "plain_id (vs_SnapshotUUID vs)" "vs_SnapshotUUID vs \<noteq> []" "\<forall>x \<in> set (vs_ImageUUIDs vs). plain_id x"
    and "ws_BaseSnapshotUUID warm = vs_SnapshotUUID vs" "ws_BaseImageUUIDs warm = vs_ImageUUIDs vs" "vs_Phase vs = VMPhaseFinalSync"
    and inv: "in_round mctx ''final'' s vm vs warm w1" "ws_DeltaSnapshotUUID warm \<noteq> []" "ws_DeltaDiskIndex warm = length (filterDataDisks (vm_Disks vm))"
    and ex: "executePhase r vs mctx w = Some (Returns (finalizeFinalSync warm (vs\<lparr>vs_Warm := Some warm\<rparr>) mctx w1))"
  shows "\<exists>vs' w'. advanceSingleVM r mctx vs w = Some (Returns (False, vs', w')) \<and> synced mctx s vm vs vs' w'"
proof -
  let ?D = "length (filterDataDisks (vm_Disks vm))" and ?u = "vs_SnapshotUUID vs" and ?us = "vs_ImageUUIDs vs"
  let ?du = "ws_DeltaSnapshotUUID warm" and ?dus = "ws_DeltaImageUUIDs warm" and ?regs = "cbc_ChangedRegions (sto_CBTConfig s)"
  have env: "mc_NutanixClient mctx = mock_nx base" "plan_Type (mc_Plan mctx) = MigrationTypeWarm" "cooperating (r_Client r)"
      "\<forall>st. fst (st_env (snd (r_Now r st))) = fst (st_env st)" "spares_server (tm_Client (mc_TransferMgr mctx))"
    using ready by (simp_all add: warm_ready_def warm_cooperating_def cooperating_def)
  have st: "exported s ?du ?dus (server w1)" "length ?dus = ?D" "sto_VMs (server w1) = sto_VMs s" "store_GetVM (vs_ID vs) (server w1) = Some vm"
      "\<forall>i < ?D. ?regs \<noteq> [] \<longrightarrow> patched mctx vs ''final'' ?dus ?regs (w_trace w1) i"
    using inv by (simp_all add: in_round_def Let_def)
  obtain warm2 w2 where f: "finalizeFinalSync warm (vs\<lparr>vs_Warm := Some warm\<rparr>) mctx w1 = (phase_completed, vs\<lparr>vs_Warm := Some warm2\<rparr>, w2)"
      "deleted [?u, ?du] (?us @ ?dus) (server w1) (server w2)"
    using finalize_served [OF env(1) _ _ _ st(1), of "vs\<lparr>vs_Warm := Some warm\<rparr>"] base assms(8,9) by auto
  have t2: "set (w_trace w1) \<subseteq> set (w_trace w2)" using no_snapshot_final [OF f(1)] by (auto simp: no_snapshot_def)
  let ?v2 = "vs\<lparr>vs_Warm := Some warm2, vs_Phase := VMPhaseCreateVM\<rparr>"
  obtain w3 where a3: "advanceSingleVM r mctx vs w = advanceSingleVM r mctx ?v2 w3" "server w3 = server w2" "w_trace w3 = w_trace w2"
    using resume [OF ex [unfolded f(1)], of VMPhaseCreateVM] env(2) assms(10) by (auto simp: run_simps)
  have "hookless ?v2 mctx" "store_GetVM (vs_ID ?v2) (server w3) = Some vm"
    using assms(2) st(4) a3(2) f(2) by (simp_all add: hookless_def deleted_def store_GetVM_def)
  then obtain w4 where a4: "advanceSingleVM r mctx ?v2 w3 = advanceSingleVM r mctx (?v2\<lparr>vs_Phase := VMPhaseCleanup\<rparr>) w4" "server w4 = server w3"
      "vm_created mctx vm (vs_DataVolumeNames vs) \<in> set (w_trace w4)" "set (w_trace w3) \<subseteq> set (w_trace w4)"
    using run_create_vm [OF env(1) _ env(3), of ?v2 w3 vm] assms(3,4) by auto
  let ?v4 = "?v2\<lparr>vs_Phase := VMPhaseCleanup\<rparr>"
  obtain now w5 where a5: "advanceSingleVM r mctx ?v4 w4 = Some (Returns (False, ?v4\<lparr>vs_Phase := VMPhaseCompleted, vs_Completed := Some now\<rparr>, w5))"
      "deleted [?u] ?us (server w4) (server w5)" "set (w_trace w4) \<subseteq> set (w_trace w5)"
    using run_cleanup [OF env(1,5,4), of ?v4 w4] base by auto
  have del: "deleted ([?u, ?du] @ [?u]) ((?us @ ?dus) @ ?us) (server w1) (server w5)"
    using deleted_trans [OF f(2), of "[?u]" ?us "server w5"] a5(2) a4(2) a3(2) by simp
  have "sto_RecoveryPoints (server w5) x = (if x = ?u then None else sto_RecoveryPoints s x)" for x
    using del st(1) by (auto simp: deleted_def exported_def)
  moreover have "sto_Images (server w5) x = (if x \<in> set ?us then None else sto_Images s x)" for x
    using del st(1) by (auto simp: deleted_def exported_def split: if_splits)
  moreover have tr: "set (w_trace w1) \<subseteq> set (w_trace w5)" using t2 a3(3) a4(4) a5(3) by auto
  have "\<forall>i < ?D. ?regs \<noteq> [] \<longrightarrow> patched mctx vs ''final'' ?dus ?regs (w_trace w5) i" using st(5) patched_mono [OF _ tr] by blast
  moreover have "sto_VMs (server w5) = sto_VMs s" "sto_CBTConfig (server w5) = sto_CBTConfig s" "entities_ok (server w5)"
    using del st(1,3) by (simp_all add: deleted_def exported_def)
  ultimately have "synced mctx s vm vs (?v4\<lparr>vs_Phase := VMPhaseCompleted, vs_Completed := Some now\<rparr>) w5"
    using st(2) a4(3) a5(3) by (auto simp: synced_def)
  then show ?thesis using a3(1) a4(1) a5(1) by (intro exI [of _ "?v4\<lparr>vs_Phase := VMPhaseCompleted, vs_Completed := Some now\<rparr>"] exI [of _ w5]) simp
qed

text \<open>Between two calls of a VM in its final round; \<open>s\<close> is the store when the round began.\<close>

definition final_round :: "string \<Rightarrow> (Store \<times> int) nstate migrationContext \<Rightarrow> Store \<Rightarrow> VM \<Rightarrow> VMMigrationStatus \<Rightarrow> WarmMigrationStatus \<Rightarrow>
  (Store \<times> int) nstate world \<Rightarrow> bool" where
  "final_round base mctx s vm vs warm w \<longleftrightarrow>
     vs_Warm vs = Some warm \<and> hookless vs mctx \<and> ok_VM vm \<and> plain_id (vs_ID vs) \<and> cbt_ready base s \<and>
     plain_id (vs_SnapshotUUID vs) \<and> vs_SnapshotUUID vs \<noteq> [] \<and> (\<forall>x \<in> set (vs_ImageUUIDs vs). plain_id x) \<and> vs_Phase vs = VMPhaseFinalSync \<and>
     ws_BaseSnapshotUUID warm = vs_SnapshotUUID vs \<and> ws_BaseImageUUIDs warm = vs_ImageUUIDs vs \<and> in_round mctx ''final'' s vm vs warm w"

lemma final_round_left: "final_round base mctx s vm vs warm w \<Longrightarrow> 0 < round_left vm warm"
  by (auto simp: final_round_def round_left_def in_round_def Let_def split: if_splits)

lemma synced_warm [simp]: "synced mctx s vm (vs\<lparr>vs_Warm := x\<rparr>) vs' w' = synced mctx s vm vs vs' w'"
  by (simp add: synced_def)

text \<open>One call: the round goes on and less of it is left, or the VM is completed.\<close>

lemma final_step:
  assumes ready: "warm_ready base r mctx" and inv: "final_round base mctx s vm vs warm w"
  shows "(\<exists>warm' w'. advanceSingleVM r mctx vs w = Some (Returns (True, vs\<lparr>vs_Warm := Some warm'\<rparr>, w')) \<and>
      final_round base mctx s vm (vs\<lparr>vs_Warm := Some warm'\<rparr>) warm' w' \<and> round_left vm warm' < round_left vm warm) \<or>
    (\<exists>vs' w'. advanceSingleVM r mctx vs w = Some (Returns (False, vs', w')) \<and> synced mctx s vm vs vs' w')"
proof -
  note f = inv [unfolded final_round_def]
  have env: "mc_NutanixClient mctx = mock_nx base" "warm_cooperating (r_Client r)" using ready by (simp_all add: warm_ready_def)
  have call: "executePhase r vs mctx w = round_call r ''final'' finalizeFinalSync warm vs mctx w"
    using f by (simp add: executePhase_def phaseFinalSync_def round_call_def)
  have pre: "ok_VM vm" "plain_id (vs_ID vs)" "plain_id (ws_BaseSnapshotUUID warm)" "cbt_ready base s" "in_round mctx ''final'' s vm vs warm w"
    using f by simp_all
  obtain warm' w' where step: "in_round mctx ''final'' s vm vs warm' w'" "same_base warm warm'" "ws_DeltaSnapshotUUID warm' \<noteq> []"
      "executePhase r vs mctx w = returns phase_not_completed (vs\<lparr>vs_Warm := Some warm'\<rparr>) w' \<and> round_left vm warm' < round_left vm warm \<or>
       executePhase r vs mctx w = Some (Returns (finalizeFinalSync warm' (vs\<lparr>vs_Warm := Some warm'\<rparr>) mctx w')) \<and>
         ws_DeltaDiskIndex warm' = length (filterDataDisks (vm_Disks vm))"
    using round_step [OF env pre, of finalizeFinalSync] unfolding call by auto
  have base': "ws_BaseSnapshotUUID warm' = vs_SnapshotUUID vs" "ws_BaseImageUUIDs warm' = vs_ImageUUIDs vs"
    using step(2) f by (simp_all add: same_base_def)
  from step(4) show ?thesis
  proof (elim disjE conjE)
    assume s: "executePhase r vs mctx w = returns phase_not_completed (vs\<lparr>vs_Warm := Some warm'\<rparr>) w'" "round_left vm warm' < round_left vm warm"
    have "advanceSingleVM r mctx vs w = Some (Returns (True, vs\<lparr>vs_Warm := Some warm'\<rparr>, w'))"
      using s(1) f by (subst advanceSingleVM.simps) (simp add: isTerminalVMPhase_def)
    moreover have "final_round base mctx s vm (vs\<lparr>vs_Warm := Some warm'\<rparr>) warm' w'"
      using f step(1) base' by (simp add: final_round_def hookless_def)
    ultimately show ?thesis using s(2) by blast
  next
    assume s: "executePhase r vs mctx w = Some (Returns (finalizeFinalSync warm' (vs\<lparr>vs_Warm := Some warm'\<rparr>) mctx w'))"
      "ws_DeltaDiskIndex warm' = length (filterDataDisks (vm_Disks vm))"
    have "\<exists>vs' w2. advanceSingleVM r mctx vs w = Some (Returns (False, vs', w2)) \<and> synced mctx s vm vs vs' w2"
      by (rule sync_closes [OF ready, of vs vm warm' s w']) (use f base' step(1,3) s in simp_all)
    then show ?thesis by blast
  qed
qed

lemma sync_runs:
  assumes "warm_ready base r mctx" "final_round base mctx s vm vs warm w"
  shows "\<exists>vs' w'. polls (round_left vm warm) r mctx vs w = Some (vs', w') \<and> synced mctx s vm vs vs' w'"
  using assms(2)
proof (induction "round_left vm warm" arbitrary: vs warm w rule: less_induct)
  case less
  obtain n where n: "round_left vm warm = Suc n" using final_round_left [OF less.prems] by (cases "round_left vm warm") auto
  from final_step [OF assms(1) less.prems] show ?case
  proof (elim disjE exE conjE)
    fix warm' w1
    assume s: "advanceSingleVM r mctx vs w = Some (Returns (True, vs\<lparr>vs_Warm := Some warm'\<rparr>, w1))"
      "final_round base mctx s vm (vs\<lparr>vs_Warm := Some warm'\<rparr>) warm' w1" "round_left vm warm' < round_left vm warm"
    obtain vs' w' where ih: "polls (round_left vm warm') r mctx (vs\<lparr>vs_Warm := Some warm'\<rparr>) w1 = Some (vs', w')" "synced mctx s vm vs vs' w'"
      using less.hyps [OF s(3,2)] by auto
    then show ?thesis using s polls_mono [OF ih(1), of n] n by simp
  next
    fix vs' w'
    assume "advanceSingleVM r mctx vs w = Some (Returns (False, vs', w'))" "synced mctx s vm vs vs' w'"
    then show ?thesis using n by simp
  qed
qed

text \<open>The first call goes through to the final round.\<close>

lemma warm_reaches_final:
  assumes "warm_ready base r mctx" and "cbt_ready base (server w)" and "entities_ok (server w)"
    and "hookless vs mctx" "fresh_vm vs" "vs_Warm vs = None" "vs_Phase vs \<in> {VMPhasePending, VMPhasePreHook}"
    and vm: "store_GetVM (vs_ID vs) (server w) = Some vm" "ok_VM vm" "plain_id (vs_ID vs)"
  defines "D \<equiv> length (filterDataDisks (vm_Disks vm))" and "off \<equiv> vm\<lparr>vm_PowerState := ''OFF''\<rparr>"
  shows "\<exists>u us warm v w'. v = vs\<lparr>vs_OriginalPowerState := vm_PowerState vm, vs_SnapshotUUID := u, vs_ImageUUIDs := us,
      vs_DataVolumeNames := map (disk_object_name (mc_Migration mctx) vs) [0..<D], vs_Warm := Some warm, vs_Phase := VMPhaseFinalSync\<rparr> \<and>
    advanceSingleVM r mctx vs w = advanceSingleVM r mctx v w' \<and> final_round base mctx (server w') off v warm w' \<and> round_left off warm = 2 * D + 1 \<and>
    exported (server w) u us (server w') \<and> store_GetVM (vs_ID vs) (server w') = Some off \<and>
    (\<forall>u'. u' \<noteq> vs_ID vs \<longrightarrow> store_GetVM u' (server w') = store_GetVM u' (server w))"
proof -
  let ?names = "map (disk_object_name (mc_Migration mctx) vs) [0..<D]"
  have env: "mc_NutanixClient mctx = mock_nx base" "plan_Type (mc_Plan mctx) = MigrationTypeWarm" using assms(1) by (simp_all add: warm_ready_def)
  have fresh: "vs_OriginalPowerState vs = []" "vs_SnapshotUUID vs = []" "vs_ImageUUIDs vs = []" "vs_DataVolumeNames vs = []"
    using assms(5) by (simp_all add: fresh_vm_def)
  let ?v1 = "vs\<lparr>vs_OriginalPowerState := vm_PowerState vm, vs_Phase := VMPhaseBulkCopy\<rparr>"
  obtain w1 where a1: "advanceSingleVM r mctx vs w = advanceSingleVM r mctx ?v1 w1" "server w1 = server w"
    using run_start [OF env(1) assms(4) vm assms(7) fresh(1)] env(2) by auto
  have names1: "disk_object_name (mc_Migration mctx) ?v1 = disk_object_name (mc_Migration mctx) vs" by (simp add: disk_object_name_def fun_eq_iff)
  let ?warm = "\<lambda>u us. zero_WarmMigrationStatus\<lparr>ws_BaseSnapshotUUID := u, ws_BaseImageUUIDs := us\<rparr>"
  let ?v = "\<lambda>u us p. vs\<lparr>vs_OriginalPowerState := vm_PowerState vm, vs_SnapshotUUID := u, vs_ImageUUIDs := us, vs_DataVolumeNames := ?names,
      vs_Warm := Some (?warm u us), vs_Phase := p\<rparr>"
  obtain u us w2 where a2: "advanceSingleVM r mctx ?v1 w1 = advanceSingleVM r mctx (?v u us VMPhasePowerOff) w2"
      "exported (server w) u us (server w2)" "sto_VMs (server w2) = sto_VMs (server w)"
    using run_bulk [OF assms(1), of ?v1 w1 vm] fresh assms(3,6) vm a1(2) unfolding names1 D_def by auto
  have "store_GetVM (vs_ID vs) (server w2) = Some vm" using a2(3) vm(1) by (simp add: store_GetVM_def)
  then obtain w3 where a3: "advanceSingleVM r mctx (?v u us VMPhasePowerOff) w2 = advanceSingleVM r mctx (?v u us VMPhaseFinalSync) w3"
      "switched_off (vs_ID vs) vm (server w2) (server w3)"
    using run_power_off [OF env(1), of "?v u us VMPhasePowerOff" w2 vm r] vm env(2) by auto
  have ex3: "exported (server w) u us (server w3)" "store_GetVM (vs_ID vs) (server w3) = Some off" "sto_CBTConfig (server w3) = sto_CBTConfig (server w)"
      "entities_ok (server w3)" "\<forall>u'. u' \<noteq> vs_ID vs \<longrightarrow> store_GetVM u' (server w3) = store_GetVM u' (server w)"
    using a2(2,3) a3(2) by (simp_all add: exported_def switched_off_def off_def store_GetVM_def)
  have "in_round mctx ''final'' (server w3) off (?v u us VMPhaseFinalSync) (?warm u us) w3"
    using ex3(2,4) by (simp add: in_round_def Let_def zero_WarmMigrationStatus_def D_def off_def)
  then have "final_round base mctx (server w3) off (?v u us VMPhaseFinalSync) (?warm u us) w3"
    using assms(2,4) ex3(1,3) vm(2,3) by (simp add: final_round_def cbt_ready_def exported_def ok_VM_def hookless_def off_def)
  moreover have "round_left off (?warm u us) = 2 * D + 1" by (simp add: round_left_def zero_WarmMigrationStatus_def D_def off_def)
  ultimately show ?thesis using a1(1) a2(1) a3(1) ex3
    by (intro exI [of _ u] exI [of _ us] exI [of _ "?warm u us"] exI [of _ "?v u us VMPhaseFinalSync"] exI [of _ w3]) simp
qed

text \<open>
  C10. A warm migration completes once its cutover has come. Against the mock server and a Kubernetes API that accepts the objects, reports
  the imports as done and runs the delta pods, a pending VM with \<open>D\<close> data disks is completed after at most \<open>2 * D + 1\<close>
  calls of \<^verbatim>\<open>advanceSingleVM\<close>. A pod was created for every data disk with all the changed regions the server
  reported and the image of the recovery point taken after the power-off; the KubeVirt VM was created with the volumes; the source is
  off, and the server holds no recovery point and no image that it did not hold before.
\<close>

theorem warm_migration_completes:
  assumes "warm_ready base r mctx" and "cbt_ready base (server w)" and "entities_ok (server w)"
    and "hookless vs mctx" "fresh_vm vs" "vs_Warm vs = None" "vs_Phase vs = VMPhasePending"
    and vm: "store_GetVM (vs_ID vs) (server w) = Some vm" "ok_VM vm" "plain_id (vs_ID vs)"
  defines "D \<equiv> length (filterDataDisks (vm_Disks vm))" and "regions \<equiv> cbc_ChangedRegions (sto_CBTConfig (server w))"
  shows "\<exists>vs' w' images. polls (2 * D + 1) r mctx vs w = Some (vs', w') \<and> vs_Phase vs' = VMPhaseCompleted \<and>
    vs_DataVolumeNames vs' = map (disk_object_name (mc_Migration mctx) vs) [0..<D] \<and>
    vm_created mctx (vm\<lparr>vm_PowerState := ''OFF''\<rparr>) (vs_DataVolumeNames vs') \<in> set (w_trace w') \<and>
    length images = D \<and> (\<forall>i < D. regions \<noteq> [] \<longrightarrow>
      patched mctx (vs\<lparr>vs_DataVolumeNames := vs_DataVolumeNames vs'\<rparr>) ''final'' images regions (w_trace w') i) \<and>
    store_GetVM (vs_ID vs) (server w') = Some (vm\<lparr>vm_PowerState := ''OFF''\<rparr>) \<and>
    sto_RecoveryPoints (server w') = sto_RecoveryPoints (server w) \<and> sto_Images (server w') = sto_Images (server w)"
proof -
  let ?off = "vm\<lparr>vm_PowerState := ''OFF''\<rparr>" and ?names = "map (disk_object_name (mc_Migration mctx) vs) [0..<D]"
  obtain u us warm v w3 where a: "v = vs\<lparr>vs_OriginalPowerState := vm_PowerState vm, vs_SnapshotUUID := u, vs_ImageUUIDs := us,
      vs_DataVolumeNames := ?names, vs_Warm := Some warm, vs_Phase := VMPhaseFinalSync\<rparr>"
      "advanceSingleVM r mctx vs w = advanceSingleVM r mctx v w3" "final_round base mctx (server w3) ?off v warm w3" "round_left ?off warm = 2 * D + 1"
      "exported (server w) u us (server w3)" "store_GetVM (vs_ID vs) (server w3) = Some ?off"
    using warm_reaches_final [OF assms(1-6) _ vm] assms(7) unfolding D_def by auto
  obtain vs' w' where e: "polls (2 * D + 1) r mctx v w3 = Some (vs', w')" "synced mctx (server w3) ?off v vs' w'"
    using sync_runs [OF assms(1) a(3)] a(4) by auto
  have run: "polls (2 * D + 1) r mctx vs w = Some (vs', w')" using e(1) polls_cong [OF a(2)] by simp
  have pt: "patched mctx v ''final'' images regions tr i = patched mctx (vs\<lparr>vs_DataVolumeNames := ?names\<rparr>) ''final'' images regions tr i" for images tr i
    by (simp add: a(1) patched_def delta_pod_def delta_pod_name_def Let_def)
  have cfg: "sto_CBTConfig (server w3) = sto_CBTConfig (server w)" using a(5) by (simp add: exported_def)
  have tables: "sto_RecoveryPoints (server w') = sto_RecoveryPoints (server w)" "sto_Images (server w') = sto_Images (server w)"
    using e(2) a(1,5) by (auto simp: synced_def exported_def fun_eq_iff)
  obtain images where images: "length images = D"
      "\<forall>i < D. regions \<noteq> [] \<longrightarrow> patched mctx (vs\<lparr>vs_DataVolumeNames := ?names\<rparr>) ''final'' images regions (w_trace w') i"
    using e(2) cfg pt unfolding synced_def D_def regions_def by auto
  have "vs_Phase vs' = VMPhaseCompleted" "vs_DataVolumeNames vs' = ?names" "vm_created mctx ?off ?names \<in> set (w_trace w')"
      "store_GetVM (vs_ID vs) (server w') = Some ?off"
    using e(2) a(1,6) by (simp_all add: synced_def store_GetVM_def)
  with run images tables show ?thesis by (intro exI [of _ vs'] exI [of _ w'] exI [of _ images]) simp
qed

section \<open>A sample run\<close>

definition warm_mctx :: "(Store \<times> int) nstate migrationContext" where
  "warm_mctx = served_mctx\<lparr>mc_Plan := sim_plan MigrationTypeWarm TargetPowerStateStopped, mc_Migration := sim_migration\<lparr>mig_Cutover := Some 0\<rparr>,
     mc_TransferMgr := (mc_TransferMgr served_mctx)\<lparr>tm_Client := r_Client served_reconciler\<rparr>\<rparr>"

theorem warm_migration_completes_witness:
  "\<exists>vs' w' images. polls 3 served_reconciler warm_mctx (new_VMMigrationStatus ''vm-uuid-001'' ''test-vm-linux'') cbt_world = Some (vs', w') \<and>
    vs_Phase vs' = VMPhaseCompleted \<and> length (vs_DataVolumeNames vs') = 1 \<and>
    patched warm_mctx ((new_VMMigrationStatus ''vm-uuid-001'' ''test-vm-linux'')\<lparr>vs_DataVolumeNames := vs_DataVolumeNames vs'\<rparr>) ''final'' images
      (cbc_ChangedRegions DefaultCBTConfig) (w_trace w') 0 \<and> sto_Images (server w') = Map.empty"
proof -
  let ?vs = "new_VMMigrationStatus ''vm-uuid-001'' ''test-vm-linux''"
  have s: "sto_VMs (server cbt_world) = defaultVMs" "sto_RecoveryPoints (server cbt_world) = Map.empty" "sto_Images (server cbt_world) = Map.empty"
      "sto_CBTConfig (server cbt_world) = DefaultCBTConfig"
    by (simp_all add: server_def cbt_world_def WithCBTConfig_def WithFixtures_def NewStore_def)
  then have "entities_ok (server cbt_world)" by (simp add: entities_ok_def)
  moreover have "store_GetVM (vs_ID ?vs) (server cbt_world) = Some vm_linux"
    using s(1) by (simp add: store_GetVM_def new_VMMigrationStatus_def defaultVMs_def vm_linux_def)
  moreover have "ok_VM vm_linux" using fixture_vms_ok(1) by (simp add: defaultVMs_def)
  moreover have "warm_ready ''http://mock'' served_reconciler warm_mctx" "hookless ?vs warm_mctx" "fresh_vm ?vs" "vs_Warm ?vs = None"
    by (simp_all add: warm_ready_def warm_cooperating_def hookless_def fresh_vm_def warm_mctx_def served_mctx_def served_reconciler_def cooperating_def
        spares_server_def sim_kube_def sim_plan_def sim_migration_def new_VMMigrationStatus_def Let_def)
  moreover have "cbt_ready ''http://mock'' (server cbt_world)"
    by (simp add: cbt_ready_def s(4) DefaultCBTConfig_def ok_ChangedRegion_def int64_def TrimRight_def)
  moreover have "plain_id (vs_ID ?vs)" "vs_Phase ?vs = VMPhasePending" by (simp_all add: new_VMMigrationStatus_def plain_id_def)
  moreover have D: "length (filterDataDisks (vm_Disks vm_linux)) = 1" "cbc_ChangedRegions DefaultCBTConfig \<noteq> []"
    by (simp_all add: vm_linux_def filterDataDisks_def fixture_disk_def is_cdrom_def upper_char_def is_lower_def DefaultCBTConfig_def)
  ultimately obtain vs' w' images where "polls (2 * 1 + 1) served_reconciler warm_mctx ?vs cbt_world = Some (vs', w')" "vs_Phase vs' = VMPhaseCompleted"
      "vs_DataVolumeNames vs' = map (disk_object_name (mc_Migration warm_mctx) ?vs) [0..<1]"
      "\<forall>i < 1. cbc_ChangedRegions DefaultCBTConfig \<noteq> [] \<longrightarrow> patched warm_mctx (?vs\<lparr>vs_DataVolumeNames := vs_DataVolumeNames vs'\<rparr>) ''final'' images
         (cbc_ChangedRegions DefaultCBTConfig) (w_trace w') i" "sto_Images (server w') = Map.empty"
    using warm_migration_completes [of "''http://mock''" served_reconciler warm_mctx cbt_world ?vs vm_linux] unfolding D(1) s(3,4) by metis
  then show ?thesis using D(2) by (intro exI [of _ vs'] exI [of _ w'] exI [of _ images]) (simp add: numeral_eq_Suc)
qed

end
