(* ===== verification/Cold_Run.thy ===== *)
theory Cold_Run
  imports Phase_Runs
begin

text \<open>
  A cold migration from the first phase to the last, through the controller, the HTTP client, the mock server and
  a Kubernetes API that accepts what it is given and reports the imports as done: one call of \<^verbatim>\<open>advanceSingleVM\<close>
  completes the VM.
\<close>

section \<open>The source and the target side\<close>

lemma run_to_import:
  assumes "mc_NutanixClient mctx = mock_nx base" "plan_Type (mc_Plan mctx) \<noteq> MigrationTypeWarm"
    and "store_GetVM (vs_ID vs) (server w) = Some vm" "ok_VM vm" "plain_id (vs_ID vs)" "entities_ok (server w)"
    and "vs_Phase vs = VMPhasePowerOff" "vs_OriginalPowerState vs = vm_PowerState vm" "vs_SnapshotUUID vs = []" "vs_ImageUUIDs vs = []"
  shows "\<exists>u us w'. advanceSingleVM r mctx vs w = advanceSingleVM r mctx (vs\<lparr>vs_SnapshotUUID := u, vs_ImageUUIDs := us, vs_Phase := VMPhaseImportDisks\<rparr>) w' \<and>
    exported (server w) u us (server w') \<and> length us = length (filterDataDisks (vm_Disks vm)) \<and>
    store_GetVM (vs_ID vs) (server w') = Some (vm\<lparr>vm_PowerState := ''OFF''\<rparr>) \<and>
    (\<forall>u'. u' \<noteq> vs_ID vs \<longrightarrow> store_GetVM u' (server w') = store_GetVM u' (server w))"
proof -
  let ?off = "vm\<lparr>vm_PowerState := ''OFF''\<rparr>" and ?v2 = "vs\<lparr>vs_Phase := VMPhaseCreateSnapshot\<rparr>"
  have ok: "ok_VM ?off" using assms(4) by (simp add: ok_VM_def)
  obtain w1 where a1: "advanceSingleVM r mctx vs w = advanceSingleVM r mctx ?v2 w1" and off: "switched_off (vs_ID vs) vm (server w) (server w1)"
    using run_power_off [OF assms(1,3-5,7,8)] assms(2) by auto
  have "entities_ok (server w1)" using off assms(6) by (simp add: switched_off_def)
  then obtain u w2 where c: "phaseCreateSnapshot ?v2 mctx w1 = (phase_completed, ?v2\<lparr>vs_SnapshotUUID := u\<rparr>, w2)"
      "exported (server w1) u [] (server w2)" "sto_VMs (server w2) = sto_VMs (server w1)"
    using snapshot_served [OF assms(1), of ?v2 w1] assms(9) by auto
  let ?v3 = "vs\<lparr>vs_SnapshotUUID := u, vs_Phase := VMPhaseExportDisks\<rparr>"
  obtain w2' where a2: "advanceSingleVM r mctx ?v2 w1 = advanceSingleVM r mctx ?v3 w2'" "server w2' = server w2"
    using resume [of r ?v2 mctx w1 "?v2\<lparr>vs_SnapshotUUID := u\<rparr>" w2 VMPhaseExportDisks] c(1) assms(2) by (auto simp: run_simps)
  have e0: "exported (server w) u [] (server w2')" using c(2) off a2(2) by (simp add: exported_def switched_off_def)
  have vm3: "store_GetVM (vs_ID ?v3) (server w2') = Some ?off" using off c(3) a2(2) by (simp add: store_GetVM_def switched_off_def)
  obtain us w3 where x: "phaseExportDisks ?v3 mctx w2' = (phase_completed, ?v3\<lparr>vs_ImageUUIDs := us\<rparr>, w3)"
      "exported (server w) u us (server w3)" "length us = length (filterDataDisks (vm_Disks vm))" "sto_VMs (server w3) = sto_VMs (server w2')"
    using export_served [OF assms(1) _ e0 vm3 ok] assms(5,10) by auto
  obtain w3' where a3: "advanceSingleVM r mctx ?v3 w2' = advanceSingleVM r mctx (?v3\<lparr>vs_ImageUUIDs := us, vs_Phase := VMPhaseImportDisks\<rparr>) w3'" "server w3' = server w3"
    using resume [of r ?v3 mctx w2' "?v3\<lparr>vs_ImageUUIDs := us\<rparr>" w3 VMPhaseImportDisks] x(1) assms(2) by (auto simp: run_simps)
  have "sto_VMs (server w3') = sto_VMs (server w1)" using c(3) a2(2) x(4) a3(2) by simp
  then show ?thesis using a1 a2(1) a3 x(2,3) off
    by (intro exI [of _ u] exI [of _ us] exI [of _ w3']) (simp add: switched_off_def store_GetVM_def)
qed

lemma run_to_cleanup:
  assumes "mc_NutanixClient mctx = mock_nx base" "plan_Type (mc_Plan mctx) \<noteq> MigrationTypeWarm" "hookless vs mctx"
    and "cooperating (r_Client r)" "tm_Client (mc_TransferMgr mctx) = r_Client r"
    and "store_GetVM (vs_ID vs) (server w) = Some vm" "ok_VM vm" "plain_id (vs_ID vs)"
    and "vs_Phase vs = VMPhaseImportDisks" "vs_DataVolumeNames vs = []"
  defines "names \<equiv> map (disk_object_name (mc_Migration mctx) vs) [0..<length (vs_ImageUUIDs vs)]"
  shows "\<exists>w'. advanceSingleVM r mctx vs w = advanceSingleVM r mctx (vs\<lparr>vs_DataVolumeNames := names, vs_Phase := VMPhaseCleanup\<rparr>) w' \<and>
    server w' = server w \<and> vm_created mctx vm names \<in> set (w_trace w')"
proof -
  let ?v = "vs\<lparr>vs_DataVolumeNames := names, vs_Phase := VMPhaseCreateVM\<rparr>"
  obtain w1 where i: "phaseImportDisks vs mctx w = (phase_completed, vs\<lparr>vs_DataVolumeNames := names\<rparr>, w1)" "server w1 = server w"
    using import_served [OF assms(1) _ assms(10,6-8)] assms(4,5) unfolding names_def by auto
  obtain w1' where a1: "advanceSingleVM r mctx vs w = advanceSingleVM r mctx ?v w1'" "server w1' = server w"
    using resume [of r vs mctx w "vs\<lparr>vs_DataVolumeNames := names\<rparr>" w1 VMPhaseCreateVM] i assms(2,9) by (auto simp: run_simps)
  have "hookless ?v mctx" using assms(3) by (simp add: hookless_def)
  then show ?thesis using run_create_vm [OF assms(1) _ assms(4), of ?v w1' vm] a1 assms(6-8) by auto
qed

text \<open>What one VM contributes, stated so that it can be used for one VM after the other.\<close>

definition cold_ready :: "string \<Rightarrow> (Store \<times> int) nstate MigrationReconciler \<Rightarrow> (Store \<times> int) nstate migrationContext \<Rightarrow> bool" where
  "cold_ready base r mctx \<longleftrightarrow> mc_NutanixClient mctx = mock_nx base \<and> plan_Type (mc_Plan mctx) \<noteq> MigrationTypeWarm \<and> cooperating (r_Client r) \<and>
     tm_Client (mc_TransferMgr mctx) = r_Client r \<and> (\<forall>st. fst (st_env (snd (r_Now r st))) = fst (st_env st))"

lemma cold_vm_completes:
  assumes "cold_ready base r mctx" "hookless vs mctx" "fresh_vm vs" "vs_Phase vs \<in> {VMPhasePending, VMPhasePreHook}"
    and vm: "store_GetVM (vs_ID vs) (server w) = Some vm" "ok_VM vm" "plain_id (vs_ID vs)" and "entities_ok (server w)"
  shows "\<exists>vs' w'. advanceSingleVM r mctx vs w = Some (Returns (False, vs', w')) \<and> vs_Phase vs' = VMPhaseCompleted \<and> vs_ID vs' = vs_ID vs \<and>
    vs_DataVolumeNames vs' = map (disk_object_name (mc_Migration mctx) vs) [0..<length (filterDataDisks (vm_Disks vm))] \<and>
    vm_created mctx (vm\<lparr>vm_PowerState := ''OFF''\<rparr>) (vs_DataVolumeNames vs') \<in> set (w_trace w') \<and>
    store_GetVM (vs_ID vs) (server w') = Some (vm\<lparr>vm_PowerState := ''OFF''\<rparr>) \<and>
    (\<forall>u'. u' \<noteq> vs_ID vs \<longrightarrow> store_GetVM u' (server w') = store_GetVM u' (server w)) \<and>
    sto_RecoveryPoints (server w') = sto_RecoveryPoints (server w) \<and> sto_Images (server w') = sto_Images (server w) \<and> entities_ok (server w')"
proof -
  let ?off = "vm\<lparr>vm_PowerState := ''OFF''\<rparr>"
  have ready: "mc_NutanixClient mctx = mock_nx base" "plan_Type (mc_Plan mctx) \<noteq> MigrationTypeWarm" "cooperating (r_Client r)"
      "tm_Client (mc_TransferMgr mctx) = r_Client r" "\<forall>st. fst (st_env (snd (r_Now r st))) = fst (st_env st)"
    using assms(1) by (simp_all add: cold_ready_def)
  have fresh: "vs_OriginalPowerState vs = []" "vs_SnapshotUUID vs = []" "vs_ImageUUIDs vs = []" "vs_DataVolumeNames vs = []"
    using assms(3) by (simp_all add: fresh_vm_def)
  let ?v1 = "vs\<lparr>vs_OriginalPowerState := vm_PowerState vm, vs_Phase := VMPhasePowerOff\<rparr>"
  obtain w1 where r1: "advanceSingleVM r mctx vs w = advanceSingleVM r mctx ?v1 w1" "server w1 = server w"
    using run_start [OF ready(1) assms(2) vm assms(4) fresh(1)] ready(2) by auto
  obtain u us w2 where r2: "advanceSingleVM r mctx ?v1 w1 = advanceSingleVM r mctx (?v1\<lparr>vs_SnapshotUUID := u, vs_ImageUUIDs := us, vs_Phase := VMPhaseImportDisks\<rparr>) w2"
      "exported (server w) u us (server w2)" "length us = length (filterDataDisks (vm_Disks vm))" "store_GetVM (vs_ID vs) (server w2) = Some ?off"
      "\<forall>u'. u' \<noteq> vs_ID vs \<longrightarrow> store_GetVM u' (server w2) = store_GetVM u' (server w)"
    using run_to_import [OF ready(1,2), of ?v1 w1 vm r] vm assms(8) fresh(2,3) r1(2) by auto
  let ?v2 = "?v1\<lparr>vs_SnapshotUUID := u, vs_ImageUUIDs := us, vs_Phase := VMPhaseImportDisks\<rparr>"
  let ?names = "map (disk_object_name (mc_Migration mctx) ?v2) [0..<length us]"
  have names: "?names = map (disk_object_name (mc_Migration mctx) vs) [0..<length (filterDataDisks (vm_Disks vm))]"
    using r2(3) by (simp add: disk_object_name_def)
  have "hookless ?v2 mctx" "ok_VM ?off" using assms(2) vm(2) by (simp_all add: hookless_def ok_VM_def)
  then obtain w3 where r3: "advanceSingleVM r mctx ?v2 w2 = advanceSingleVM r mctx (?v2\<lparr>vs_DataVolumeNames := ?names, vs_Phase := VMPhaseCleanup\<rparr>) w3"
      "server w3 = server w2" "vm_created mctx ?off ?names \<in> set (w_trace w3)"
    using run_to_cleanup [OF ready(1,2) _ ready(3,4), of ?v2 w2 ?off] r2(4) vm(3) fresh(4) by auto
  let ?v3 = "?v2\<lparr>vs_DataVolumeNames := ?names, vs_Phase := VMPhaseCleanup\<rparr>"
  have "spares_server (tm_Client (mc_TransferMgr mctx))" using ready(3,4) by (simp add: cooperating_def)
  then obtain now w4 where r4: "advanceSingleVM r mctx ?v3 w3 = Some (Returns (False, ?v3\<lparr>vs_Phase := VMPhaseCompleted, vs_Completed := Some now\<rparr>, w4))"
      "deleted [u] us (server w2) (server w4)" "set (w_trace w3) \<subseteq> set (w_trace w4)"
    using run_cleanup [OF ready(1) _ ready(5), of ?v3 w3] r2(2) r3(2) by (auto simp: exported_def)
  note undone = exported_undone [OF r2(2) r4(2)]
  have "store_GetVM x (server w4) = store_GetVM x (server w2)" for x using r4(2) by (simp add: store_GetVM_def deleted_def)
  then show ?thesis using r1(1) r2(1,4,5) r3(1,3) r4(1,3) undone names
    by (intro exI [of _ "?v3\<lparr>vs_Phase := VMPhaseCompleted, vs_Completed := Some now\<rparr>"] exI [of _ w4]) auto
qed

text \<open>
  C7. A cold migration completes. Against the mock server and a Kubernetes API that accepts the objects and reports
  the imports as done, one call of \<^verbatim>\<open>advanceSingleVM\<close> on a pending VM without hooks returns with the VM completed: the
  source is switched off, a KubeVirt VM built from the source with one volume per data disk was created, and
  the server holds no recovery point and no image that it did not hold before.
\<close>

theorem cold_migration_completes:
  assumes "cold_ready base r mctx" and "hookless vs mctx" "fresh_vm vs" "vs_Phase vs = VMPhasePending"
    and "store_GetVM (vs_ID vs) (server w) = Some vm" "ok_VM vm" "plain_id (vs_ID vs)" and "entities_ok (server w)"
  shows "\<exists>vs' w'. advanceSingleVM r mctx vs w = Some (Returns (False, vs', w')) \<and> vs_Phase vs' = VMPhaseCompleted \<and>
    vs_DataVolumeNames vs' = map (disk_object_name (mc_Migration mctx) vs) [0..<length (filterDataDisks (vm_Disks vm))] \<and>
    vm_created mctx (vm\<lparr>vm_PowerState := ''OFF''\<rparr>) (vs_DataVolumeNames vs') \<in> set (w_trace w') \<and>
    store_GetVM (vs_ID vs) (server w') = Some (vm\<lparr>vm_PowerState := ''OFF''\<rparr>) \<and>
    sto_RecoveryPoints (server w') = sto_RecoveryPoints (server w) \<and> sto_Images (server w') = sto_Images (server w)"
  using cold_vm_completes [OF assms(1-3) _ assms(5-8)] assms(4) by blast

section \<open>A sample run\<close>

theorem cold_migration_completes_witness:
  "\<exists>vs' w'. advanceSingleVM served_reconciler (served_mctx\<lparr>mc_TransferMgr := (mc_TransferMgr served_mctx)\<lparr>tm_Client := r_Client served_reconciler\<rparr>\<rparr>)
      (new_VMMigrationStatus ''vm-uuid-001'' ''test-vm-linux'') cbt_world = Some (Returns (False, vs', w')) \<and>
    vs_Phase vs' = VMPhaseCompleted \<and> length (vs_DataVolumeNames vs') = 1 \<and> sto_Images (server w') = Map.empty"
proof -
  let ?m = "served_mctx\<lparr>mc_TransferMgr := (mc_TransferMgr served_mctx)\<lparr>tm_Client := r_Client served_reconciler\<rparr>\<rparr>"
  let ?vs = "new_VMMigrationStatus ''vm-uuid-001'' ''test-vm-linux''"
  have s: "sto_VMs (server cbt_world) = defaultVMs" "sto_RecoveryPoints (server cbt_world) = Map.empty" "sto_Images (server cbt_world) = Map.empty"
    by (simp_all add: server_def cbt_world_def WithCBTConfig_def WithFixtures_def NewStore_def)
  then have "entities_ok (server cbt_world)" by (simp add: entities_ok_def)
  moreover have "store_GetVM (vs_ID ?vs) (server cbt_world) = Some vm_linux"
    using s(1) by (simp add: store_GetVM_def new_VMMigrationStatus_def defaultVMs_def vm_linux_def)
  moreover have "ok_VM vm_linux" using fixture_vms_ok(1) by (simp add: defaultVMs_def)
  moreover have "cold_ready ''http://mock'' served_reconciler ?m" "hookless ?vs ?m" "fresh_vm ?vs"
    by (simp_all add: cold_ready_def hookless_def fresh_vm_def served_mctx_def served_reconciler_def cooperating_def spares_server_def sim_kube_def sim_plan_def
        new_VMMigrationStatus_def Let_def)
  moreover have "plain_id (vs_ID ?vs)" "vs_Phase ?vs = VMPhasePending" by (simp_all add: new_VMMigrationStatus_def plain_id_def)
  moreover have "length (filterDataDisks (vm_Disks vm_linux)) = 1"
    by (simp add: vm_linux_def filterDataDisks_def fixture_disk_def is_cdrom_def upper_char_def is_lower_def)
  ultimately show ?thesis
    using cold_migration_completes [of "''http://mock''" served_reconciler ?m ?vs cbt_world vm_linux] s(3)
    by (metis length_map length_upt diff_zero)
qed

end
