(* ===== verification/Cold_Schedule.thy ===== *)
theory Cold_Schedule
  imports Cold_Run Scheduling
begin

text \<open>
  All VMs of a cold migration, against the mock server and a cooperating cluster: every reconcile completes as many
  waiting VMs as \<^verbatim>\<open>MaxInFlight\<close> allows and leaves the others as they were, so that the migration ends.
\<close>

section \<open>One pass\<close>

definition runnable :: "(Store \<times> int) nstate migrationContext \<Rightarrow> Store \<Rightarrow> VMMigrationStatus \<Rightarrow> bool" where
  "runnable mctx s vs \<longleftrightarrow> vs_Phase vs = VMPhasePending \<and> hookless vs mctx \<and> fresh_vm vs \<and> plain_id (vs_ID vs) \<and>
     (\<exists>vm. store_GetVM (vs_ID vs) s = Some vm \<and> ok_VM vm)"

definition done_or_runnable :: "(Store \<times> int) nstate migrationContext \<Rightarrow> Store \<Rightarrow> VMMigrationStatus list \<Rightarrow> bool" where
  "done_or_runnable mctx s vms \<longleftrightarrow> (\<forall>v \<in> set vms. vs_Phase v = VMPhaseCompleted \<or> runnable mctx s v)"

text \<open>The VMs that a pass with room for \<open>b\<close> more is to complete: the first \<open>b\<close> that wait.\<close>

fun pass_result :: "nat \<Rightarrow> VMMigrationStatus list \<Rightarrow> VMMigrationStatus list \<Rightarrow> bool" where
  "pass_result b [] vms' \<longleftrightarrow> vms' = []"
| "pass_result b (v # vms) vms' \<longleftrightarrow> (case vms' of [] \<Rightarrow> False | v' # rest \<Rightarrow>
     if vs_Phase v = VMPhasePending \<and> b > 0 then vs_Phase v' = VMPhaseCompleted \<and> vs_ID v' = vs_ID v \<and> pass_result (b - 1) vms rest
     else v' = v \<and> pass_result b vms rest)"

text \<open>What survives when another VM is migrated: recovery points and images as before, no VM lost.\<close>

definition vms_kept :: "Store \<Rightarrow> Store \<Rightarrow> bool" where
  "vms_kept s s' \<longleftrightarrow> sto_RecoveryPoints s' = sto_RecoveryPoints s \<and> sto_Images s' = sto_Images s \<and> entities_ok s' \<and>
     (\<forall>u vm. store_GetVM u s = Some vm \<longrightarrow> ok_VM vm \<longrightarrow> (\<exists>vm'. store_GetVM u s' = Some vm' \<and> ok_VM vm'))"

lemma vms_kept_refl: "entities_ok s \<Longrightarrow> vms_kept s s"
  by (simp add: vms_kept_def)

lemma vms_kept_trans: "vms_kept s s' \<Longrightarrow> vms_kept s' s'' \<Longrightarrow> vms_kept s s''"
  unfolding vms_kept_def by metis

lemma runnable_kept: "vms_kept s s' \<Longrightarrow> runnable mctx s v \<Longrightarrow> runnable mctx s' v"
  unfolding vms_kept_def runnable_def by blast

lemma cold_vm_kept:
  assumes "cold_ready base r mctx" "runnable mctx (server w) vs" "entities_ok (server w)"
  shows "\<exists>vs' w'. advanceSingleVM r mctx (vs\<lparr>vs_Started := t, vs_Phase := VMPhasePreHook\<rparr>) w = Some (Returns (False, vs', w')) \<and>
    vs_Phase vs' = VMPhaseCompleted \<and> vs_ID vs' = vs_ID vs \<and> vms_kept (server w) (server w')"
proof -
  let ?v = "vs\<lparr>vs_Started := t, vs_Phase := VMPhasePreHook\<rparr>"
  obtain vm where vm: "store_GetVM (vs_ID ?v) (server w) = Some vm" "ok_VM vm" using assms(2) by (auto simp: runnable_def)
  have "hookless ?v mctx" "fresh_vm ?v" "vs_Phase ?v \<in> {VMPhasePending, VMPhasePreHook}" "plain_id (vs_ID ?v)"
    using assms(2) by (simp_all add: runnable_def hookless_def fresh_vm_def)
  from cold_vm_completes [OF assms(1) this(1-3) vm this(4) assms(3)] obtain vs' w' where
    r: "advanceSingleVM r mctx ?v w = Some (Returns (False, vs', w'))" "vs_Phase vs' = VMPhaseCompleted" "vs_ID vs' = vs_ID vs"
      "store_GetVM (vs_ID vs) (server w') = Some (vm\<lparr>vm_PowerState := ''OFF''\<rparr>)"
      "\<forall>u'. u' \<noteq> vs_ID vs \<longrightarrow> store_GetVM u' (server w') = store_GetVM u' (server w)"
      "sto_RecoveryPoints (server w') = sto_RecoveryPoints (server w)" "sto_Images (server w') = sto_Images (server w)" "entities_ok (server w')"
    by auto
  have "\<exists>vm'. store_GetVM u (server w') = Some vm' \<and> ok_VM vm'" if "store_GetVM u (server w) = Some vm1" "ok_VM vm1" for u vm1
    using r(4,5) vm(2) that by (cases "u = vs_ID vs") (auto simp: ok_VM_def)
  then have "vms_kept (server w) (server w')" using r(6-8) by (simp add: vms_kept_def)
  with r(1-3) show ?thesis by blast
qed

lemma advance_loop_cold:
  assumes "cold_ready base r mctx" "done_or_runnable mctx (server w) vms" "entities_ok (server w)" "0 \<le> n" "n \<le> m"
  shows "\<exists>vms' w'. advance_loop r m mctx n needs vms w =
      Some (Returns (needs \<or> count_phase VMPhasePending vms > nat (m - n), vms', w')) \<and>
    pass_result (nat (m - n)) vms vms' \<and> vms_kept (server w) (server w')"
  using assms(2-5)
proof (induction vms arbitrary: w n needs)
  case Nil
  then show ?case by (simp add: count_phase_def vms_kept_refl)
next
  case (Cons v vms)
  have rest: "done_or_runnable mctx (server w1) vms" if "vms_kept (server w) (server w1)" for w1
    using Cons.prems(1) runnable_kept [OF that] by (auto simp: done_or_runnable_def)
  consider (finished) "vs_Phase v = VMPhaseCompleted" | (skip) "runnable mctx (server w) v" "n = m" | (run) "runnable mctx (server w) v" "n < m"
    using Cons.prems(1) Cons.prems(4) [unfolded order_le_less] by (auto simp: done_or_runnable_def)
  then show ?case
  proof cases
    case finished
    then show ?thesis
      using Cons.IH [OF rest [OF vms_kept_refl [OF Cons.prems(2)]] Cons.prems(2-4), of needs]
      by (auto simp: isTerminalVMPhase_def count_phase_def Let_def)
  next
    case skip
    then have "vs_Phase v = VMPhasePending" by (simp add: runnable_def)
    then show ?thesis
      using Cons.IH [OF rest [OF vms_kept_refl [OF Cons.prems(2)]] Cons.prems(2-4), of True] skip(2)
      by (auto simp: isTerminalVMPhase_def count_phase_def Let_def)
  next
    case run
    then have ph: "vs_Phase v = VMPhasePending" by (simp add: runnable_def)
    obtain now w1 where now: "Now (r_Now r) w = (now, w1)" "server w1 = server w"
      using now_served [of "r_Now r" w] assms(1) by (auto simp: cold_ready_def)
    obtain v' w2 where s: "advanceSingleVM r mctx (v\<lparr>vs_Started := Some now, vs_Phase := VMPhasePreHook\<rparr>) w1 = Some (Returns (False, v', w2))"
        "vs_Phase v' = VMPhaseCompleted" "vs_ID v' = vs_ID v" "vms_kept (server w) (server w2)"
      using cold_vm_kept [OF assms(1), of w1 v "Some now"] run(1) Cons.prems(2) now(2) by auto
    have ok: "entities_ok (server w2)" using s(4) by (simp add: vms_kept_def)
    obtain vms' w' where IH: "advance_loop r m mctx (n + 1) needs vms w2 = Some (Returns (needs \<or> count_phase VMPhasePending vms > nat (m - (n + 1)), vms', w'))"
        "pass_result (nat (m - (n + 1))) vms vms'" "vms_kept (server w2) (server w')"
      using Cons.IH [OF rest [OF s(4)] ok, of "n + 1" needs] run(2) Cons.prems(3) by auto
    have b: "nat (m - n) = Suc (nat (m - (n + 1)))" using run(2) by simp
    have c: "count_phase VMPhasePending (v # vms) = Suc (count_phase VMPhasePending vms)" using ph by (simp add: count_phase_def)
    have "advance_loop r m mctx n needs (v # vms) w = Some (Returns (needs \<or> count_phase VMPhasePending (v # vms) > nat (m - n), v' # vms', w'))"
      using ph run(2) now(1) s(1) IH(1) unfolding b c by (simp add: isTerminalVMPhase_def Let_def)
    moreover have "pass_result (nat (m - n)) (v # vms) (v' # vms')" using s(2,3) IH(2) ph unfolding b by simp
    ultimately show ?thesis using vms_kept_trans [OF s(4) IH(3)] by blast
  qed
qed

section \<open>One reconcile\<close>

lemma pass_result_step:
  assumes "pass_result b (v # vms) vms'"
  obtains v' rest where "vms' = v' # rest" "vs_ID v' = vs_ID v"
    "(vs_Phase v = VMPhasePending \<and> b > 0 \<and> vs_Phase v' = VMPhaseCompleted \<and> pass_result (b - 1) vms rest) \<or>
     (\<not> (vs_Phase v = VMPhasePending \<and> b > 0) \<and> v' = v \<and> pass_result b vms rest)"
  using assms by (cases vms') (auto split: if_splits)

lemma pass_result_props:
  assumes "pass_result b vms vms'" "\<forall>v \<in> set vms. vs_Phase v = VMPhaseCompleted \<or> vs_Phase v = VMPhasePending"
  shows "map vs_ID vms' = map vs_ID vms \<and> count_phase VMPhasePending vms' = count_phase VMPhasePending vms - b \<and>
    count_phase VMPhaseCompleted vms' = count_phase VMPhaseCompleted vms + min b (count_phase VMPhasePending vms) \<and>
    (\<forall>v \<in> set vms'. vs_Phase v = VMPhaseCompleted \<or> v \<in> set vms)"
  using assms
proof (induction vms arbitrary: b vms')
  case (Cons v vms)
  obtain v' rest where step: "vms' = v' # rest" "vs_ID v' = vs_ID v"
      "(vs_Phase v = VMPhasePending \<and> b > 0 \<and> vs_Phase v' = VMPhaseCompleted \<and> pass_result (b - 1) vms rest) \<or>
       (\<not> (vs_Phase v = VMPhasePending \<and> b > 0) \<and> v' = v \<and> pass_result b vms rest)"
    using pass_result_step [OF Cons.prems(1)] by blast
  show ?case using step Cons.IH [of "b - 1" rest] Cons.IH [of b rest] Cons.prems(2) by (auto simp: count_phase_def)
qed (simp add: count_phase_def)

lemma all_terminal_counts:
  assumes "\<forall>v \<in> set vms. vs_Phase v = VMPhaseCompleted \<or> vs_Phase v = VMPhasePending"
  shows "count_phase VMPhaseCompleted vms + count_phase VMPhasePending vms = length vms" "count_phase VMPhaseFailed vms = 0"
    "count_phase VMPhaseCancelled vms = 0" "count_active vms = 0"
  using assms by (induction vms) (auto simp: count_phase_def count_active_def isActiveVMPhase_def isTerminalVMPhase_def)

lemma server_metrics [simp]: "server (add_ActiveMigrations n w) = server w" "server (inc_MigrationsTotal l w) = server w"
  by (simp_all add: add_ActiveMigrations_def inc_MigrationsTotal_def server_def)

lemma start_served:
  assumes "\<forall>st. fst (st_env (snd (r_Now r st))) = fst (st_env st)" "start_migration r migration plan w = (m1, w1)"
  shows "server w1 = server w" "mig_Cancel m1 = mig_Cancel migration"
  using assms(2) now_served [OF assms(1), of w]
  by (auto simp: start_migration_def initializeVMStatuses_def migration_condition_def Let_def split: if_splits prod.splits)

lemma overall_served:
  assumes "\<forall>st. fst (st_env (snd (r_Now r st))) = fst (st_env st)" "\<forall>v \<in> set (mig_VMs m). vs_Phase v \<notin> {VMPhaseFailed, VMPhaseCancelled}"
    and "mig_VMs m \<noteq> []"
  shows "\<exists>m' w'. updateOverallStatus r m w = (m', w') \<and> server w' = server w \<and> set (w_trace w) \<subseteq> set (w_trace w') \<and>
    mig_VMs m' = mig_VMs m \<and> mig_Cancel m' = mig_Cancel m \<and>
    mig_Phase m' = (if \<forall>v \<in> set (mig_VMs m). vs_Phase v = VMPhaseCompleted then MigrationPhaseCompleted else MigrationPhaseRunning)"
proof -
  obtain now w1 where now: "Now (r_Now r) w = (now, w1)" "server w1 = server w" "w_trace w1 = w_trace w"
    using now_served [OF assms(1), of w] by auto
  have none: "count_phase VMPhaseFailed (mig_VMs m) = 0" "count_phase VMPhaseCancelled (mig_VMs m) = 0"
    using assms(2) by (auto simp: count_phase_def filter_empty_conv)
  note all = count_phase_all [of VMPhaseCompleted "mig_VMs m"]
  show ?thesis
  proof (cases "\<forall>v \<in> set (mig_VMs m). vs_Phase v = VMPhaseCompleted")
    case True
    then have "count_phase VMPhaseCompleted (mig_VMs m) = length (mig_VMs m)" using all by simp
    then have "updateOverallStatus r m w = (migration_condition (m\<lparr>mig_Completed := Some now, mig_Phase := MigrationPhaseCompleted\<rparr>) ConditionTrue ''Completed''
        (''All '' @ show_nat (length (mig_VMs m)) @ '' VMs migrated successfully''),
        add_ActiveMigrations (- 1) (inc_MigrationsTotal ''completed'' (recordEvent r EventTypeNormal ''MigrationCompleted''
          (''All '' @ show_nat (length (mig_VMs m)) @ '' VMs migrated successfully'') w1)))"
      using none assms(3) now(1) by (simp add: updateOverallStatus_def Let_def)
    then show ?thesis using True now(2,3)
      by (simp add: migration_condition_def add_ActiveMigrations_def inc_MigrationsTotal_def recordEvent_def emit_event_def server_def)
  next
    case False
    then have "count_phase VMPhaseCompleted (mig_VMs m) \<noteq> length (mig_VMs m)" using all by simp
    then show ?thesis using False none by (simp add: updateOverallStatus_def Let_def)
  qed
qed

text \<open>
  A reconcile of a migration whose VMs are completed or wait completes exactly as many waiting VMs as \<^verbatim>\<open>MaxInFlight\<close>
  allows, stores this status, reports the migration as completed exactly when none is left, and asks for another
  reconcile otherwise; what it leaves satisfies the conditions for the next one.
\<close>

lemma reconcile_makes_progress:
  assumes "cold_ready base r mctx" and "entities_ok (server w)" and "mig_Cancel migration = []"
    and "\<forall>m st. \<exists>st'. kc_StatusUpdateMigration (r_Client r) m st = (None, st') \<and> fst (st_env st') = fst (st_env st)"
    and "start_migration r migration plan w = (m1, w1)" and "mig_VMs m1 \<noteq> []" and "done_or_runnable mctx (server w) (mig_VMs m1)"
  defines "waiting \<equiv> count_phase VMPhasePending (mig_VMs m1)" and "room \<equiv> nat (max (plan_MaxInFlight plan) 1)"
  shows "\<exists>m4 w'. reconcile_vms r migration plan mctx w =
      Some (Returns ((if waiting > room then \<lparr>cres_Requeue = False, cres_RequeueAfter = migrationRequeueInterval\<rparr> else no_requeue, None), w')) \<and>
    last (w_trace w') = EStatusUpdate m4 None \<and> mig_Cancel m4 = [] \<and> map vs_ID (mig_VMs m4) = map vs_ID (mig_VMs m1) \<and>
    count_phase VMPhaseCompleted (mig_VMs m4) = count_phase VMPhaseCompleted (mig_VMs m1) + min room waiting \<and>
    mig_Phase m4 = (if waiting \<le> room then MigrationPhaseCompleted else MigrationPhaseRunning) \<and>
    done_or_runnable mctx (server w') (mig_VMs m4) \<and> vms_kept (server w) (server w')"
proof -
  let ?vms = "mig_VMs m1" and ?m = "max (plan_MaxInFlight plan) 1"
  have clock: "\<forall>st. fst (st_env (snd (r_Now r st))) = fst (st_env st)" using assms(1) by (simp add: cold_ready_def)
  note start = start_served [OF clock assms(5)]
  have ph: "\<forall>v \<in> set ?vms. vs_Phase v = VMPhaseCompleted \<or> vs_Phase v = VMPhasePending"
    using assms(7) by (auto simp: done_or_runnable_def runnable_def)
  have cancel: "processCancellations r m1 w1 = (m1, w1)" using start(2) assms(3) by (simp add: processCancellations_def)
  have m: "nat (?m - count_active ?vms) = room" "0 \<le> count_active ?vms" "count_active ?vms \<le> ?m"
    using all_terminal_counts(4) [OF ph] by (simp_all add: room_def)
  obtain vms' w2 where pass: "advance_loop r ?m mctx (count_active ?vms) False ?vms w1 = Some (Returns (waiting > room, vms', w2))"
      "pass_result room ?vms vms'" "vms_kept (server w) (server w2)"
    using advance_loop_cold [OF assms(1) _ _ m(2,3), of w1 ?vms False] start(1) assms(2,7) unfolding m(1) waiting_def by auto
  note pr = pass_result_props [OF pass(2) ph]
  have all: "\<forall>v \<in> set vms'. vs_Phase v = VMPhaseCompleted \<or> vs_Phase v = VMPhasePending" using pr ph by blast
  have ne: "vms' \<noteq> []" using pr assms(6) by auto
  obtain m4 w3 where o: "updateOverallStatus r (m1\<lparr>mig_VMs := vms'\<rparr>) w2 = (m4, w3)" "server w3 = server w2" "mig_VMs m4 = vms'" "mig_Cancel m4 = []"
      "mig_Phase m4 = (if \<forall>v \<in> set vms'. vs_Phase v = VMPhaseCompleted then MigrationPhaseCompleted else MigrationPhaseRunning)"
    using overall_served [OF clock, of "m1\<lparr>mig_VMs := vms'\<rparr>" w2] all ne start(2) assms(3) by fastforce
  obtain st' where st: "kc_StatusUpdateMigration (r_Client r) m4 (w_env w3) = (None, st')" "fst (st_env st') = server w3"
    using assms(4) unfolding server_def by blast
  let ?w4 = "w3\<lparr>w_env := st', w_trace := w_trace w3 @ [EStatusUpdate m4 None]\<rparr>"
  have "StatusUpdateMigration (r_Client r) m4 w3 = (None, ?w4)" using st(1) by (simp add: StatusUpdateMigration_def perform_def)
  then have run: "reconcile_vms r migration plan mctx w =
      Some (Returns ((if waiting > room then \<lparr>cres_Requeue = False, cres_RequeueAfter = migrationRequeueInterval\<rparr> else no_requeue, None), ?w4))"
    using assms(5) cancel pass(1) o(1) by (simp add: reconcile_vms_def advanceVMs_def)
  have s4: "server ?w4 = server w2" using st(2) o(2) by (simp add: server_def)
  have kept: "done_or_runnable mctx (server ?w4) vms'"
    using pr assms(7) runnable_kept [OF pass(3)] unfolding done_or_runnable_def s4 by metis
  have "count_phase VMPhasePending vms' = 0 \<longleftrightarrow> waiting \<le> room" using pr by (auto simp: waiting_def)
  moreover have "count_phase VMPhasePending vms' = 0 \<longleftrightarrow> (\<forall>v \<in> set vms'. vs_Phase v = VMPhaseCompleted)"
    using all by (auto simp: count_phase_def filter_empty_conv)
  ultimately have "(\<forall>v \<in> set vms'. vs_Phase v = VMPhaseCompleted) \<longleftrightarrow> waiting \<le> room" by simp
  then show ?thesis using run kept pr o(3-5) pass(3) s4 by (intro exI [of _ m4] exI [of _ ?w4]) (simp add: waiting_def)
qed

section \<open>All reconciles\<close>

text \<open>The reconciles of one migration: each reads the status the one before has stored, and a finished migration is left alone.\<close>

fun reconciles ::
  "nat \<Rightarrow> (Store \<times> int) nstate MigrationReconciler \<Rightarrow> MigrationPlan \<Rightarrow> (Store \<times> int) nstate migrationContext \<Rightarrow> Migration \<Rightarrow>
     (Store \<times> int) nstate world \<Rightarrow> (Migration \<times> (Store \<times> int) nstate world) option" where
  "reconciles 0 r plan mctx migration w = Some (migration, w)"
| "reconciles (Suc k) r plan mctx migration w =
     (if isTerminalMigrationPhase (mig_Phase migration) then Some (migration, w)
      else case reconcile_vms r migration plan mctx w of
          Some (Returns ((res, None), w1)) \<Rightarrow>
            (case last (w_trace w1) of EStatusUpdate m None \<Rightarrow> reconciles k r plan mctx m w1 | _ \<Rightarrow> None)
        | _ \<Rightarrow> None)"

lemma reconciles_done: "mig_Phase m = MigrationPhaseCompleted \<Longrightarrow> reconciles k r plan mctx m w = Some (m, w)"
  by (cases k) (simp_all add: isTerminalMigrationPhase_def)

lemma cold_reconciles:
  assumes ready: "cold_ready base r mctx"
    and upd: "\<forall>m st. \<exists>st'. kc_StatusUpdateMigration (r_Client r) m st = (None, st') \<and> fst (st_env st') = fst (st_env st)"
    and "entities_ok (server w)" and "mig_Cancel migration = []"
    and "mig_Phase migration \<in> {MigrationPhaseNone, MigrationPhasePending, MigrationPhaseRunning}"
    and "start_migration r migration plan w = (m1, w1)" and "mig_VMs m1 \<noteq> []" and "done_or_runnable mctx (server w) (mig_VMs m1)"
    and "0 < k" and "count_phase VMPhasePending (mig_VMs m1) \<le> k * nat (max (plan_MaxInFlight plan) 1)"
  shows "\<exists>m' w'. reconciles k r plan mctx migration w = Some (m', w') \<and> mig_Phase m' = MigrationPhaseCompleted \<and>
    map vs_ID (mig_VMs m') = map vs_ID (mig_VMs m1) \<and> (\<forall>v \<in> set (mig_VMs m'). vs_Phase v = VMPhaseCompleted) \<and> vms_kept (server w) (server w')"
  using assms(3-10)
proof (induction k arbitrary: migration w m1 w1)
  case (Suc k)
  let ?room = "nat (max (plan_MaxInFlight plan) 1)"
  let ?waiting = "count_phase VMPhasePending (mig_VMs m1)"
  obtain m4 w2 res where step: "reconcile_vms r migration plan mctx w = Some (Returns ((res, None), w2))" "last (w_trace w2) = EStatusUpdate m4 None"
      "mig_Cancel m4 = []" "map vs_ID (mig_VMs m4) = map vs_ID (mig_VMs m1)"
      "count_phase VMPhaseCompleted (mig_VMs m4) = count_phase VMPhaseCompleted (mig_VMs m1) + min ?room ?waiting"
      "mig_Phase m4 = (if ?waiting \<le> ?room then MigrationPhaseCompleted else MigrationPhaseRunning)"
      "done_or_runnable mctx (server w2) (mig_VMs m4)" "vms_kept (server w) (server w2)"
    using reconcile_makes_progress [OF ready Suc.prems(1,2) upd Suc.prems(4-6)] by blast
  have run: "reconciles (Suc k) r plan mctx migration w = reconciles k r plan mctx m4 w2"
    using step(1,2) Suc.prems(3) by (auto simp: isTerminalMigrationPhase_def)
  have phases: "\<forall>v \<in> set (mig_VMs m). vs_Phase v = VMPhaseCompleted \<or> vs_Phase v = VMPhasePending" if "done_or_runnable mctx s (mig_VMs m)" for m s
    using that by (auto simp: done_or_runnable_def runnable_def)
  have len: "length (mig_VMs m4) = length (mig_VMs m1)" using step(4) map_eq_imp_length_eq by blast
  note c1 = all_terminal_counts(1) [OF phases [OF Suc.prems(6)]] and c4 = all_terminal_counts(1) [OF phases [OF step(7)]]
  show ?case
  proof (cases "?waiting \<le> ?room")
    case True
    then have "count_phase VMPhasePending (mig_VMs m4) = 0" using c1 c4 len step(5) by simp
    then have "\<forall>v \<in> set (mig_VMs m4). vs_Phase v \<noteq> VMPhasePending" by (simp add: count_phase_def filter_empty_conv)
    then have "\<forall>v \<in> set (mig_VMs m4). vs_Phase v = VMPhaseCompleted" using phases [OF step(7)] by blast
    then show ?thesis using run True step(4,6,8) reconciles_done [of m4] by auto
  next
    case False
    then have ph: "mig_Phase m4 = MigrationPhaseRunning" using step(6) by simp
    have same: "start_migration r m4 plan w2 = (m4, w2)" using ph by (simp add: start_migration_def)
    have "count_phase VMPhasePending (mig_VMs m4) \<le> k * ?room" using False c1 c4 len step(5) Suc.prems(8) by (simp add: min_def)
    moreover have "0 < k" using False Suc.prems(8) by (cases k) simp_all
    ultimately have left: "count_phase VMPhasePending (mig_VMs m4) \<le> k * ?room" "0 < k" .
    have "\<exists>m' w'. reconciles k r plan mctx m4 w2 = Some (m', w') \<and> mig_Phase m' = MigrationPhaseCompleted \<and>
        map vs_ID (mig_VMs m') = map vs_ID (mig_VMs m4) \<and> (\<forall>v \<in> set (mig_VMs m'). vs_Phase v = VMPhaseCompleted) \<and> vms_kept (server w2) (server w')"
      by (rule Suc.IH [OF _ step(3) _ same _ step(7) left(2,1)])
        (use step(8) ph len Suc.prems(5) in \<open>auto simp: vms_kept_def\<close>)
    then show ?thesis using run step(4) vms_kept_trans [OF step(8)] by fastforce
  qed
qed simp

text \<open>
  C8. A cold migration ends. With the mock server and a Kubernetes API that accepts the objects, reports the imports as done
  and stores the status, a migration of \<open>n\<close> VMs is completed after at most \<open>n / MaxInFlight\<close> reconciles, rounded up: every VM
  of it is then completed, and the recovery points and images of the server are those it had before.
\<close>

theorem cold_reconciles_complete:
  assumes "cold_ready base r mctx" and "entities_ok (server w)" and "mig_Cancel migration = []"
    and "\<forall>m st. \<exists>st'. kc_StatusUpdateMigration (r_Client r) m st = (None, st') \<and> fst (st_env st') = fst (st_env st)"
    and "mig_Phase migration \<in> {MigrationPhaseNone, MigrationPhasePending, MigrationPhaseRunning}"
    and "start_migration r migration plan w = (m1, w1)" and "mig_VMs m1 \<noteq> []" and "done_or_runnable mctx (server w) (mig_VMs m1)"
    and "0 < k" and "count_phase VMPhasePending (mig_VMs m1) \<le> k * nat (max (plan_MaxInFlight plan) 1)"
  shows "\<exists>m' w'. reconciles k r plan mctx migration w = Some (m', w') \<and> mig_Phase m' = MigrationPhaseCompleted \<and>
    map vs_ID (mig_VMs m') = map vs_ID (mig_VMs m1) \<and> (\<forall>v \<in> set (mig_VMs m'). vs_Phase v = VMPhaseCompleted) \<and>
    sto_RecoveryPoints (server w') = sto_RecoveryPoints (server w) \<and> sto_Images (server w') = sto_Images (server w)"
  using cold_reconciles [OF assms(1,4,2,3,5-10)] unfolding vms_kept_def by blast

section \<open>A sample run\<close>

definition served_plan :: MigrationPlan where
  "served_plan = (mc_Plan served_mctx)\<lparr>plan_VMs := map (\<lambda>id. \<lparr>pvm_ID = id, pvm_Name = [], pvm_Hooks = []\<rparr>) [''vm-uuid-001'', ''vm-uuid-002'', ''vm-uuid-003'']\<rparr>"

definition served_run :: "(Store \<times> int) nstate migrationContext" where
  "served_run = served_mctx\<lparr>mc_Plan := served_plan, mc_TransferMgr := (mc_TransferMgr served_mctx)\<lparr>tm_Client := r_Client served_reconciler\<rparr>\<rparr>"

theorem cold_reconciles_complete_witness:
  "\<exists>m' w'. reconciles 3 served_reconciler served_plan served_run sim_migration cbt_world = Some (m', w') \<and>
     mig_Phase m' = MigrationPhaseCompleted \<and> map vs_ID (mig_VMs m') = [''vm-uuid-001'', ''vm-uuid-002'', ''vm-uuid-003''] \<and>
     (\<forall>v \<in> set (mig_VMs m'). vs_Phase v = VMPhaseCompleted) \<and> sto_Images (server w') = Map.empty"
proof -
  let ?vms = "map (\<lambda>id. new_VMMigrationStatus id []) [''vm-uuid-001'', ''vm-uuid-002'', ''vm-uuid-003'']"
  obtain m1 w1 where start: "start_migration served_reconciler sim_migration served_plan cbt_world = (m1, w1)" by fastforce
  then have vms: "mig_VMs m1 = ?vms"
    by (auto simp: start_migration_def sim_migration_def initializeVMStatuses_def served_plan_def migration_condition_def Let_def split: prod.splits)
  have s: "sto_VMs (server cbt_world) = defaultVMs" "sto_RecoveryPoints (server cbt_world) = Map.empty" "sto_Images (server cbt_world) = Map.empty"
    by (simp_all add: server_def cbt_world_def WithCBTConfig_def WithFixtures_def NewStore_def)
  have ready: "cold_ready ''http://mock'' served_reconciler served_run"
    by (simp add: cold_ready_def served_run_def served_plan_def served_mctx_def served_reconciler_def cooperating_def spares_server_def sim_kube_def
        sim_plan_def Let_def)
  have ok: "entities_ok (server cbt_world)" using s by (simp add: entities_ok_def)
  have upd: "\<forall>m st. \<exists>st'. kc_StatusUpdateMigration (r_Client served_reconciler) m st = (None, st') \<and> fst (st_env st') = fst (st_env st)"
    by (simp add: served_reconciler_def sim_kube_def)
  have mig: "mig_Cancel sim_migration = []" "mig_Phase sim_migration \<in> {MigrationPhaseNone, MigrationPhasePending, MigrationPhaseRunning}" by (simp_all add: sim_migration_def)
  have run: "done_or_runnable served_run (server cbt_world) (mig_VMs m1)"
    using s(1) fixture_vms_ok(1)
    by (simp add: vms done_or_runnable_def runnable_def hookless_def fresh_vm_def served_run_def served_plan_def new_VMMigrationStatus_def plain_id_def
        store_GetVM_def defaultVMs_def vm_linux_def vm_windows_def vm_gpu_def)
  have few: "count_phase VMPhasePending (mig_VMs m1) \<le> 3 * nat (max (plan_MaxInFlight served_plan) 1)"
    by (simp add: vms count_phase_def new_VMMigrationStatus_def served_plan_def served_mctx_def sim_plan_def Let_def)
  have ne: "mig_VMs m1 \<noteq> []" and ids: "map vs_ID (mig_VMs m1) = [''vm-uuid-001'', ''vm-uuid-002'', ''vm-uuid-003'']"
    by (simp_all add: vms new_VMMigrationStatus_def)
  show ?thesis
    using cold_reconciles_complete [OF ready ok mig(1) upd mig(2) start ne run zero_less_numeral few] unfolding ids s(3) by (elim exE conjE, intro exI conjI) assumption+
qed

end
