(* ===== verification/Warm_Schedule.thy ===== *)
theory Warm_Schedule
  imports Warm_Run Cold_Schedule
begin

text \<open>
  All VMs of a warm migration with the default \<^verbatim>\<open>MaxInFlight\<close> of one, against the mock server and a cooperating cluster, once the
  cutover has come. The scheduler takes the VMs one after the other; a VM stays in its final round over many reconciles, each
  of which stores the status the next one starts from.
\<close>

section \<open>One VM between two reconciles\<close>

definition waits :: "(Store \<times> int) nstate migrationContext \<Rightarrow> Store \<Rightarrow> VMMigrationStatus \<Rightarrow> bool" where
  "waits mctx s vs \<longleftrightarrow> runnable mctx s vs \<and> vs_Warm vs = None"

text \<open>The calls of \<^verbatim>\<open>advanceSingleVM\<close> a VM needs at most.\<close>

definition calls_needed :: "Store \<Rightarrow> VMMigrationStatus \<Rightarrow> nat" where
  "calls_needed s vs = (case store_GetVM (vs_ID vs) s of None \<Rightarrow> 0 | Some vm \<Rightarrow> 2 * length (filterDataDisks (vm_Disks vm)) + 1)"

definition disks_kept :: "Store \<Rightarrow> Store \<Rightarrow> bool" where
  "disks_kept s s' \<longleftrightarrow> sto_CBTConfig s' = sto_CBTConfig s \<and> (\<forall>u vm. store_GetVM u s = Some vm \<longrightarrow> ok_VM vm \<longrightarrow>
     (\<exists>vm'. store_GetVM u s' = Some vm' \<and> ok_VM vm' \<and> vm_Disks vm' = vm_Disks vm))"

definition tables_kept :: "Store \<Rightarrow> Store \<Rightarrow> bool" where
  "tables_kept s s' \<longleftrightarrow> sto_RecoveryPoints s' = sto_RecoveryPoints s \<and> sto_Images s' = sto_Images s"

text \<open>In the final round with \<open>n\<close> calls to go; \<open>s\<^sub>0\<close> is the store before the VM was started.\<close>

definition in_final :: "string \<Rightarrow> (Store \<times> int) nstate migrationContext \<Rightarrow> Store \<Rightarrow> VMMigrationStatus \<Rightarrow> nat \<Rightarrow> (Store \<times> int) nstate world \<Rightarrow> bool" where
  "in_final base mctx s0 vs n w \<longleftrightarrow> (\<exists>vm s warm. final_round base mctx s vm vs warm w \<and> n = round_left vm warm \<and>
     exported s0 (vs_SnapshotUUID vs) (vs_ImageUUIDs vs) s \<and> disks_kept s0 s)"

lemma waits_kept: "disks_kept s s' \<Longrightarrow> waits mctx s vs \<Longrightarrow> waits mctx s' vs \<and> calls_needed s' vs = calls_needed s vs"
  by (fastforce simp: disks_kept_def waits_def runnable_def calls_needed_def)

lemma waits_needs: "waits mctx s vs \<Longrightarrow> 0 < calls_needed s vs"
  by (auto simp: waits_def runnable_def calls_needed_def)

lemma in_round_mono:
  assumes "in_round mctx label s vm vs warm w" "server w' = server w" "set (w_trace w) \<subseteq> set (w_trace w')"
  shows "in_round mctx label s vm vs warm w'"
  using assms(1,2) unfolding in_round_def Let_def by (auto intro: patched_mono [OF _ assms(3)])

lemma in_final_mono: "in_final base mctx s0 vs n w \<Longrightarrow> server w' = server w \<Longrightarrow> set (w_trace w) \<subseteq> set (w_trace w') \<Longrightarrow> in_final base mctx s0 vs n w'"
  unfolding in_final_def final_round_def using in_round_mono by blast

lemma in_final_phase: "in_final base mctx s0 vs n w \<Longrightarrow> vs_Phase vs = VMPhaseFinalSync \<and> 0 < n"
  unfolding in_final_def using final_round_left by (auto simp: final_round_def)

definition finished :: "Store \<Rightarrow> VMMigrationStatus \<Rightarrow> (Store \<times> int) nstate world \<Rightarrow> bool" where
  "finished s0 vs w \<longleftrightarrow> vs_Phase vs = VMPhaseCompleted \<and> entities_ok (server w) \<and> tables_kept s0 (server w) \<and> disks_kept s0 (server w)"

lemma in_final_step:
  assumes "warm_ready base r mctx" "in_final base mctx s0 vs n w"
  shows "\<exists>again vs' w'. advanceSingleVM r mctx vs w = Some (Returns (again, vs', w')) \<and> vs_ID vs' = vs_ID vs \<and>
    (if again then \<exists>n' < n. in_final base mctx s0 vs' n' w' else finished s0 vs' w')"
proof -
  from assms(2) obtain vm s warm where f: "final_round base mctx s vm vs warm w" "n = round_left vm warm"
      "exported s0 (vs_SnapshotUUID vs) (vs_ImageUUIDs vs) s" "disks_kept s0 s"
    by (auto simp: in_final_def)
  from final_step [OF assms(1) f(1)] show ?thesis
  proof (elim disjE exE conjE)
    fix warm' w'
    assume a: "advanceSingleVM r mctx vs w = Some (Returns (True, vs\<lparr>vs_Warm := Some warm'\<rparr>, w'))"
      "final_round base mctx s vm (vs\<lparr>vs_Warm := Some warm'\<rparr>) warm' w'" "round_left vm warm' < round_left vm warm"
    have "in_final base mctx s0 (vs\<lparr>vs_Warm := Some warm'\<rparr>) (round_left vm warm') w'"
      unfolding in_final_def using a(2) f(3,4) by (intro exI [of _ vm] exI [of _ s] exI [of _ warm']) simp
    then show ?thesis using a(1,3) f(2)
      by (intro exI [of _ True] exI [of _ "vs\<lparr>vs_Warm := Some warm'\<rparr>"] exI [of _ w']) auto
  next
    fix vs' w'
    assume a: "advanceSingleVM r mctx vs w = Some (Returns (False, vs', w'))" "synced mctx s vm vs vs' w'"
    have "tables_kept s0 (server w')" using a(2) f(3) by (auto simp: tables_kept_def synced_def exported_def fun_eq_iff)
    moreover have "disks_kept s0 (server w')" using a(2) f(4) by (simp add: disks_kept_def synced_def store_GetVM_def)
    ultimately have "finished s0 vs' w'" using a(2) by (simp add: finished_def synced_def)
    then show ?thesis using a by (intro exI [of _ False] exI [of _ vs'] exI [of _ w']) (simp add: synced_def)
  qed
qed

lemma waits_starts:
  assumes "warm_ready base r mctx" "waits mctx (server w) vs" "cbt_ready base (server w)" "entities_ok (server w)"
  shows "\<exists>v w'. advanceSingleVM r mctx (vs\<lparr>vs_Started := t, vs_Phase := VMPhasePreHook\<rparr>) w = advanceSingleVM r mctx v w' \<and>
    vs_ID v = vs_ID vs \<and> in_final base mctx (server w) v (calls_needed (server w) vs) w'"
proof -
  let ?v = "vs\<lparr>vs_Started := t, vs_Phase := VMPhasePreHook\<rparr>"
  obtain vm where vm: "store_GetVM (vs_ID ?v) (server w) = Some vm" "ok_VM vm" using assms(2) by (auto simp: waits_def runnable_def)
  have "hookless ?v mctx" "fresh_vm ?v" "vs_Warm ?v = None" "vs_Phase ?v \<in> {VMPhasePending, VMPhasePreHook}" "plain_id (vs_ID ?v)"
    using assms(2) by (simp_all add: waits_def runnable_def hookless_def fresh_vm_def)
  from warm_reaches_final [OF assms(1,3,4) this(1-4) vm this(5)] obtain u us warm v w' where
    v: "v = ?v\<lparr>vs_OriginalPowerState := vm_PowerState vm, vs_SnapshotUUID := u, vs_ImageUUIDs := us,
      vs_DataVolumeNames := map (disk_object_name (mc_Migration mctx) ?v) [0..<length (filterDataDisks (vm_Disks vm))],
      vs_Warm := Some warm, vs_Phase := VMPhaseFinalSync\<rparr>"
      "advanceSingleVM r mctx ?v w = advanceSingleVM r mctx v w'" "final_round base mctx (server w') (vm\<lparr>vm_PowerState := ''OFF''\<rparr>) v warm w'"
      "round_left (vm\<lparr>vm_PowerState := ''OFF''\<rparr>) warm = 2 * length (filterDataDisks (vm_Disks vm)) + 1"
      "exported (server w) u us (server w')" "store_GetVM (vs_ID ?v) (server w') = Some (vm\<lparr>vm_PowerState := ''OFF''\<rparr>)"
      "\<forall>u'. u' \<noteq> vs_ID ?v \<longrightarrow> store_GetVM u' (server w') = store_GetVM u' (server w)"
    by blast
  have kept: "\<exists>vm'. store_GetVM x (server w') = Some vm' \<and> ok_VM vm' \<and> vm_Disks vm' = vm_Disks vm1"
    if "store_GetVM x (server w) = Some vm1" "ok_VM vm1" for x vm1
    using that vm v(6,7) by (cases "x = vs_ID vs") (auto simp: ok_VM_def)
  then have "disks_kept (server w) (server w')" using v(5) by (simp add: disks_kept_def exported_def)
  then have "in_final base mctx (server w) v (2 * length (filterDataDisks (vm_Disks vm)) + 1) w'"
    unfolding in_final_def using v(1,3-5)
    by (intro exI [of _ "vm\<lparr>vm_PowerState := ''OFF''\<rparr>"] exI [of _ "server w'"] exI [of _ warm]) simp
  then show ?thesis using v(1,2) vm(1) by (intro exI [of _ v] exI [of _ w']) (simp add: calls_needed_def)
qed

section \<open>All VMs between two reconciles\<close>

text \<open>Completed VMs, then at most one in its final round, then VMs that wait; \<open>n\<close> calls to go. The store \<open>s\<^sub>0\<close> is the one before the
  VM in its final round was started.\<close>

definition scheduled :: "string \<Rightarrow> (Store \<times> int) nstate migrationContext \<Rightarrow> Store \<Rightarrow> VMMigrationStatus list \<Rightarrow> nat \<Rightarrow> (Store \<times> int) nstate world \<Rightarrow> bool" where
  "scheduled base mctx s0 vms n w \<longleftrightarrow> entities_ok s0 \<and> cbt_ready base s0 \<and> (\<exists>dn rest. vms = dn @ rest \<and> (\<forall>v \<in> set dn. vs_Phase v = VMPhaseCompleted) \<and>
     (server w = s0 \<and> (\<forall>v \<in> set rest. waits mctx s0 v) \<and> n = sum_list (map (calls_needed s0) rest) \<or>
      (\<exists>c ps k. rest = c # ps \<and> in_final base mctx s0 c k w \<and> (\<forall>v \<in> set ps. waits mctx s0 v) \<and> n = k + sum_list (map (calls_needed s0) ps))))"

lemma scheduled_mono:
  assumes "scheduled base mctx s0 vms n w" "server w' = server w" "set (w_trace w) \<subseteq> set (w_trace w')"
  shows "scheduled base mctx s0 vms n w'"
  using assms(1,2) in_final_mono [OF _ assms(2,3)] unfolding scheduled_def by metis

lemma waits_phase: "waits mctx s v \<Longrightarrow> vs_Phase v = VMPhasePending"
  by (simp add: waits_def runnable_def)

lemma scheduled_phases:
  assumes "scheduled base mctx s0 vms n w"
  shows "(\<forall>v \<in> set vms. vs_Phase v = VMPhaseCompleted) \<longleftrightarrow> n = 0" "\<forall>v \<in> set vms. vs_Phase v \<notin> {VMPhaseFailed, VMPhaseCancelled}"
proof -
  from assms obtain dn rest where d: "vms = dn @ rest" "\<forall>v \<in> set dn. vs_Phase v = VMPhaseCompleted" and
    r: "(\<forall>v \<in> set rest. waits mctx s0 v) \<and> n = sum_list (map (calls_needed s0) rest) \<or>
      (\<exists>c ps k. rest = c # ps \<and> in_final base mctx s0 c k w \<and> (\<forall>v \<in> set ps. waits mctx s0 v) \<and> n = k + sum_list (map (calls_needed s0) ps))"
    unfolding scheduled_def by blast
  have w: "vs_Phase v = VMPhasePending \<and> 0 < calls_needed s0 v" if "waits mctx s0 v" for v using that waits_phase waits_needs by blast
  show "(\<forall>v \<in> set vms. vs_Phase v = VMPhaseCompleted) \<longleftrightarrow> n = 0"
    using r
  proof (elim disjE exE conjE)
    assume a: "\<forall>v \<in> set rest. waits mctx s0 v" "n = sum_list (map (calls_needed s0) rest)"
    show ?thesis using a w d by (cases rest) auto
  next
    fix c ps k assume "rest = c # ps" "in_final base mctx s0 c k w" "n = k + sum_list (map (calls_needed s0) ps)"
    then show ?thesis using d in_final_phase by fastforce
  qed
  show "\<forall>v \<in> set vms. vs_Phase v \<notin> {VMPhaseFailed, VMPhaseCancelled}"
    using r d w in_final_phase by fastforce
qed

section \<open>One pass\<close>

lemma pass_skips_waiting:
  assumes "\<forall>v \<in> set ps. vs_Phase v = VMPhasePending"
  shows "advance_loop r m mctx m needs ps w = Some (Returns (needs \<or> ps \<noteq> [], ps, w))"
  using assms by (induction ps arbitrary: needs) (simp_all add: isTerminalVMPhase_def Let_def)

lemma pass_skips_done:
  assumes "\<forall>v \<in> set dn. vs_Phase v = VMPhaseCompleted" "advance_loop r m mctx n needs rest w = Some (Returns (again, rest', w'))"
  shows "advance_loop r m mctx n needs (dn @ rest) w = Some (Returns (again, dn @ rest', w'))"
  using assms by (induction dn) (simp_all add: isTerminalVMPhase_def Let_def)

text \<open>The VM whose turn it is has been advanced.\<close>

lemma turn_taken:
  assumes "entities_ok s0" "cbt_ready base s0" and d: "\<forall>v \<in> set dn. vs_Phase v = VMPhaseCompleted"
    and ps: "\<forall>v \<in> set ps. waits mctx s0 v" and c: "if again then \<exists>n' < k. in_final base mctx s0 c n' w else finished s0 c w" and "0 < k"
  shows "\<exists>s1 n'. scheduled base mctx s1 (dn @ c # ps) n' w \<and> n' < k + sum_list (map (calls_needed s0) ps) \<and> tables_kept s0 s1"
proof (cases again)
  case True
  then obtain n' where "n' < k" "in_final base mctx s0 c n' w" using c by auto
  then have "scheduled base mctx s0 (dn @ c # ps) (n' + sum_list (map (calls_needed s0) ps)) w"
    unfolding scheduled_def using assms(1,2) d ps by blast
  then show ?thesis using \<open>n' < k\<close> by (intro exI [of _ s0] exI [of _ "n' + sum_list (map (calls_needed s0) ps)"]) (simp add: tables_kept_def)
next
  case False
  then have f: "vs_Phase c = VMPhaseCompleted" "entities_ok (server w)" "tables_kept s0 (server w)" "disks_kept s0 (server w)"
    using c by (simp_all add: finished_def)
  have "\<forall>v \<in> set ps. waits mctx (server w) v" "map (calls_needed (server w)) ps = map (calls_needed s0) ps"
    using ps waits_kept [OF f(4)] by auto
  moreover have "cbt_ready base (server w)" using f(4) assms(2) by (simp add: disks_kept_def cbt_ready_def)
  moreover have "\<forall>v \<in> set (dn @ [c]). vs_Phase v = VMPhaseCompleted" using d f(1) by simp
  moreover have "dn @ c # ps = (dn @ [c]) @ ps" by simp
  ultimately have "scheduled base mctx (server w) (dn @ c # ps) (sum_list (map (calls_needed s0) ps)) w"
    unfolding scheduled_def using f(2) by metis
  then show ?thesis using f(3) assms(6) by (intro exI [of _ "server w"] exI [of _ "sum_list (map (calls_needed s0) ps)"]) simp
qed

lemma count_active_cases:
  "\<forall>v \<in> set dn. vs_Phase v = VMPhaseCompleted \<Longrightarrow> count_active (dn @ rest) = count_active rest"
  "\<forall>v \<in> set ps. vs_Phase v = VMPhasePending \<Longrightarrow> count_active ps = 0"
  by (induction dn; induction ps) (simp_all add: count_active_def isActiveVMPhase_def isTerminalVMPhase_def)

lemma advance_loop_warm:
  assumes "warm_ready base r mctx" "scheduled base mctx s0 vms n w" "0 < n"
  shows "\<exists>again vms' w' s1 n'. advance_loop r 1 mctx (count_active vms) False vms w = Some (Returns (again, vms', w')) \<and>
    map vs_ID vms' = map vs_ID vms \<and> scheduled base mctx s1 vms' n' w' \<and> n' < n \<and> tables_kept s0 s1"
proof -
  from assms(2) obtain dn rest where ok: "entities_ok s0" "cbt_ready base s0" and d: "vms = dn @ rest" "\<forall>v \<in> set dn. vs_Phase v = VMPhaseCompleted" and
    r: "server w = s0 \<and> (\<forall>v \<in> set rest. waits mctx s0 v) \<and> n = sum_list (map (calls_needed s0) rest) \<or>
      (\<exists>c ps k. rest = c # ps \<and> in_final base mctx s0 c k w \<and> (\<forall>v \<in> set ps. waits mctx s0 v) \<and> n = k + sum_list (map (calls_needed s0) ps))"
    unfolding scheduled_def by blast
  have turn: ?thesis
    if rest: "rest = v # ps" and ps: "\<forall>v \<in> set ps. waits mctx s0 v" and n: "n = k + sum_list (map (calls_needed s0) ps)" "0 < k"
      and adv: "advance_loop r 1 mctx (count_active vms) False (v # ps) w = Some (Returns (again \<or> ps \<noteq> [], c # ps, w1))" "vs_ID c = vs_ID v"
      and c: "if again then \<exists>n' < k. in_final base mctx s0 c n' w1 else finished s0 c w1" for v c ps k again w1
  proof -
    have "advance_loop r 1 mctx (count_active vms) False vms w = Some (Returns (again \<or> ps \<noteq> [], dn @ c # ps, w1))"
      using pass_skips_done [OF d(2) adv(1)] d(1) rest by simp
    moreover obtain s1 n' where "scheduled base mctx s1 (dn @ c # ps) n' w1" "n' < n" "tables_kept s0 s1"
      using turn_taken [OF ok d(2) ps c n(2)] n(1) by blast
    moreover have "map vs_ID (dn @ c # ps) = map vs_ID vms" using d(1) rest adv(2) by simp
    ultimately show ?thesis by blast
  qed
  from r show ?thesis
  proof (elim disjE exE conjE)
    assume a: "server w = s0" "\<forall>v \<in> set rest. waits mctx s0 v" "n = sum_list (map (calls_needed s0) rest)"
    obtain v ps where rest: "rest = v # ps" using a(3) assms(3) by (cases rest) auto
    have ph: "vs_Phase v = VMPhasePending" "\<forall>v \<in> set ps. vs_Phase v = VMPhasePending" using a(2) rest waits_phase by auto
    have act: "count_active vms = 0" using count_active_cases(1) [OF d(2)] count_active_cases(2) [of rest] d(1) ph rest by simp
    obtain now w1 where now: "Now (r_Now r) w = (now, w1)" "server w1 = server w"
      using now_served [of "r_Now r" w] assms(1) by (auto simp: warm_ready_def)
    obtain v1 w2 where s: "advanceSingleVM r mctx (v\<lparr>vs_Started := Some now, vs_Phase := VMPhasePreHook\<rparr>) w1 = advanceSingleVM r mctx v1 w2"
        "vs_ID v1 = vs_ID v" "in_final base mctx s0 v1 (calls_needed s0 v) w2"
      using waits_starts [OF assms(1), of w1 v "Some now"] a(1,2) ok now(2) rest by auto
    obtain again c w3 where t: "advanceSingleVM r mctx v1 w2 = Some (Returns (again, c, w3))" "vs_ID c = vs_ID v1"
        "if again then \<exists>n' < calls_needed s0 v. in_final base mctx s0 c n' w3 else finished s0 c w3"
      using in_final_step [OF assms(1) s(3)] by blast
    have "advance_loop r 1 mctx (count_active vms) False (v # ps) w = Some (Returns (again \<or> ps \<noteq> [], c # ps, w3))"
      unfolding act using ph now(1) s(1) t(1) pass_skips_waiting [OF ph(2), of r 1 mctx again w3] by (simp add: isTerminalVMPhase_def Let_def)
    then show ?thesis
      using turn [OF rest _ _ _ _ _ t(3)] a(2,3) rest s(2) t(2) waits_needs [of mctx s0 v] by simp
  next
    fix v ps k
    assume a: "rest = v # ps" "in_final base mctx s0 v k w" "\<forall>v \<in> set ps. waits mctx s0 v" "n = k + sum_list (map (calls_needed s0) ps)"
    have ph: "vs_Phase v = VMPhaseFinalSync" "0 < k" "\<forall>v \<in> set ps. vs_Phase v = VMPhasePending"
      using a(2,3) in_final_phase waits_phase by auto
    have "count_active (v # ps) = 1 + count_active ps" using ph(1) by (simp add: count_active_def isActiveVMPhase_def isTerminalVMPhase_def)
    then have act: "count_active vms = 1" using count_active_cases(1) [OF d(2)] count_active_cases(2) [OF ph(3)] d(1) a(1) by simp
    obtain again c w3 where t: "advanceSingleVM r mctx v w = Some (Returns (again, c, w3))" "vs_ID c = vs_ID v"
        "if again then \<exists>n' < k. in_final base mctx s0 c n' w3 else finished s0 c w3"
      using in_final_step [OF assms(1) a(2)] by blast
    have "advance_loop r 1 mctx (count_active vms) False (v # ps) w = Some (Returns (again \<or> ps \<noteq> [], c # ps, w3))"
      unfolding act using ph t(1) pass_skips_waiting [OF ph(3), of r 1 mctx again w3] by (simp add: isTerminalVMPhase_def Let_def)
    then show ?thesis using turn [OF a(1,3,4) ph(2) _ t(2,3)] by blast
  qed
qed

section \<open>One reconcile\<close>

lemma warm_reconcile_step:
  assumes "warm_ready base r mctx" and "mig_Cancel migration = []" and "plan_MaxInFlight plan \<le> 1"
    and "\<forall>m st. \<exists>st'. kc_StatusUpdateMigration (r_Client r) m st = (None, st') \<and> fst (st_env st') = fst (st_env st)"
    and "start_migration r migration plan w = (m1, w1)" and "scheduled base mctx s0 (mig_VMs m1) n w1" "0 < n"
  shows "\<exists>res m4 w' s1 n'. reconcile_vms r migration plan mctx w = Some (Returns ((res, None), w')) \<and> last (w_trace w') = EStatusUpdate m4 None \<and>
    mig_Cancel m4 = [] \<and> map vs_ID (mig_VMs m4) = map vs_ID (mig_VMs m1) \<and>
    mig_Phase m4 = (if n' = 0 then MigrationPhaseCompleted else MigrationPhaseRunning) \<and>
    scheduled base mctx s1 (mig_VMs m4) n' w' \<and> n' < n \<and> tables_kept s0 s1"
proof -
  have clock: "\<forall>st. fst (st_env (snd (r_Now r st))) = fst (st_env st)" using assms(1) by (simp add: warm_ready_def)
  note start = start_served [OF clock assms(5)]
  have cancel: "processCancellations r m1 w1 = (m1, w1)" using start(2) assms(2) by (simp add: processCancellations_def)
  obtain again vms' w2 s1 n' where pass: "advance_loop r 1 mctx (count_active (mig_VMs m1)) False (mig_VMs m1) w1 = Some (Returns (again, vms', w2))"
      "map vs_ID vms' = map vs_ID (mig_VMs m1)" "scheduled base mctx s1 vms' n' w2" "n' < n" "tables_kept s0 s1"
    using advance_loop_warm [OF assms(1,6,7)] by blast
  have ne: "vms' \<noteq> []"
    using pass(2) scheduled_phases(1) [OF assms(6)] assms(7) by (cases "mig_VMs m1") auto
  note ph = scheduled_phases [OF pass(3)]
  obtain m4 w3 where u: "updateOverallStatus r (m1\<lparr>mig_VMs := vms'\<rparr>) w2 = (m4, w3)" "server w3 = server w2" "set (w_trace w2) \<subseteq> set (w_trace w3)"
      "mig_VMs m4 = vms'" "mig_Cancel m4 = []" "mig_Phase m4 = (if n' = 0 then MigrationPhaseCompleted else MigrationPhaseRunning)"
    using overall_served [OF clock, of "m1\<lparr>mig_VMs := vms'\<rparr>" w2] ph ne start(2) assms(2) by auto
  obtain st' where st: "kc_StatusUpdateMigration (r_Client r) m4 (w_env w3) = (None, st')" "fst (st_env st') = server w3"
    using assms(4) unfolding server_def by blast
  let ?w4 = "w3\<lparr>w_env := st', w_trace := w_trace w3 @ [EStatusUpdate m4 None]\<rparr>"
  have "StatusUpdateMigration (r_Client r) m4 w3 = (None, ?w4)" using st(1) by (simp add: StatusUpdateMigration_def perform_def)
  then have "\<exists>res. reconcile_vms r migration plan mctx w = Some (Returns ((res, None), ?w4))"
    using assms(3,5) cancel pass(1) u(1) by (simp add: reconcile_vms_def advanceVMs_def max_def)
  moreover have "scheduled base mctx s1 (mig_VMs m4) n' ?w4"
    using scheduled_mono [OF pass(3), of ?w4] u(2-4) st(2) by (auto simp: server_def)
  moreover have "last (w_trace ?w4) = EStatusUpdate m4 None" by simp
  ultimately show ?thesis using pass(2,4,5) u(4-6) by metis
qed

section \<open>All reconciles\<close>

lemma scheduled_start:
  "\<forall>v \<in> set vms. waits mctx (server w) v \<Longrightarrow> entities_ok (server w) \<Longrightarrow> cbt_ready base (server w) \<Longrightarrow>
    scheduled base mctx (server w) vms (sum_list (map (calls_needed (server w)) vms)) w"
  unfolding scheduled_def by fastforce

lemma scheduled_end: "scheduled base mctx s0 vms 0 w \<Longrightarrow> server w = s0"
  unfolding scheduled_def using in_final_phase by fastforce

lemma warm_reconciles:
  assumes ready: "warm_ready base r mctx" and room: "plan_MaxInFlight plan \<le> 1"
    and upd: "\<forall>m st. \<exists>st'. kc_StatusUpdateMigration (r_Client r) m st = (None, st') \<and> fst (st_env st') = fst (st_env st)"
    and "mig_Cancel migration = []" and "mig_Phase migration \<in> {MigrationPhaseNone, MigrationPhasePending, MigrationPhaseRunning}"
    and "start_migration r migration plan w = (m1, w1)" and "scheduled base mctx s0 (mig_VMs m1) n w1" and "0 < n" "n \<le> k"
  shows "\<exists>m' w'. reconciles k r plan mctx migration w = Some (m', w') \<and> mig_Phase m' = MigrationPhaseCompleted \<and>
    map vs_ID (mig_VMs m') = map vs_ID (mig_VMs m1) \<and> (\<forall>v \<in> set (mig_VMs m'). vs_Phase v = VMPhaseCompleted) \<and> tables_kept s0 (server w')"
  using assms(4-9)
proof (induction k arbitrary: migration w m1 w1 s0 n)
  case (Suc k)
  obtain res m4 w2 s1 n' where step: "reconcile_vms r migration plan mctx w = Some (Returns ((res, None), w2))" "last (w_trace w2) = EStatusUpdate m4 None"
      "mig_Cancel m4 = []" "map vs_ID (mig_VMs m4) = map vs_ID (mig_VMs m1)"
      "mig_Phase m4 = (if n' = 0 then MigrationPhaseCompleted else MigrationPhaseRunning)"
      "scheduled base mctx s1 (mig_VMs m4) n' w2" "n' < n" "tables_kept s0 s1"
    using warm_reconcile_step [OF ready Suc.prems(1) room upd Suc.prems(3-5)] by blast
  have run: "reconciles (Suc k) r plan mctx migration w = reconciles k r plan mctx m4 w2"
    using step(1,2) Suc.prems(2) by (auto simp: isTerminalMigrationPhase_def)
  show ?case
  proof (cases "n' = 0")
    case True
    then have "server w2 = s1" "\<forall>v \<in> set (mig_VMs m4). vs_Phase v = VMPhaseCompleted"
      using step(6) scheduled_end scheduled_phases(1) by blast+
    then show ?thesis using run True step(4,5,8) reconciles_done [of m4] by auto
  next
    case False
    then have ph: "mig_Phase m4 = MigrationPhaseRunning" using step(5) by simp
    have same: "start_migration r m4 plan w2 = (m4, w2)" using ph by (simp add: start_migration_def)
    have "\<exists>m' w'. reconciles k r plan mctx m4 w2 = Some (m', w') \<and> mig_Phase m' = MigrationPhaseCompleted \<and>
        map vs_ID (mig_VMs m') = map vs_ID (mig_VMs m4) \<and> (\<forall>v \<in> set (mig_VMs m'). vs_Phase v = VMPhaseCompleted) \<and> tables_kept s1 (server w')"
      by (rule Suc.IH [OF step(3) _ same step(6)]) (use False ph step(7) Suc.prems(6) in auto)
    then show ?thesis using run step(4,8) unfolding tables_kept_def by metis
  qed
qed simp

text \<open>
  C9. A warm migration ends, whatever the number of its VMs. With the mock server, a Kubernetes API that accepts the objects,
  reports imports and patching pods as done and stores the status, a cutover that has come and the default \<^verbatim>\<open>MaxInFlight\<close> of
  one, \<open>k\<close> reconciles complete a migration whose VMs have \<open>d\<^sub>i\<close> data disks each if \<open>k\<close> is at least the sum of all \<open>2 d\<^sub>i + 1\<close>:
  every VM of it is then completed, and the recovery points and images of the server are those it had before.
\<close>

theorem warm_reconciles_complete:
  assumes "warm_ready base r mctx" and "cbt_ready base (server w)" and "entities_ok (server w)" and "mig_Cancel migration = []"
    and "plan_MaxInFlight plan \<le> 1"
    and "\<forall>m st. \<exists>st'. kc_StatusUpdateMigration (r_Client r) m st = (None, st') \<and> fst (st_env st') = fst (st_env st)"
    and "mig_Phase migration \<in> {MigrationPhaseNone, MigrationPhasePending, MigrationPhaseRunning}"
    and "start_migration r migration plan w = (m1, w1)" and "mig_VMs m1 \<noteq> []" and "\<forall>v \<in> set (mig_VMs m1). waits mctx (server w) v"
    and "sum_list (map (calls_needed (server w)) (mig_VMs m1)) \<le> k"
  shows "\<exists>m' w'. reconciles k r plan mctx migration w = Some (m', w') \<and> mig_Phase m' = MigrationPhaseCompleted \<and>
    map vs_ID (mig_VMs m') = map vs_ID (mig_VMs m1) \<and> (\<forall>v \<in> set (mig_VMs m'). vs_Phase v = VMPhaseCompleted) \<and>
    sto_RecoveryPoints (server w') = sto_RecoveryPoints (server w) \<and> sto_Images (server w') = sto_Images (server w)"
proof -
  have "server w1 = server w"
    using start_served(1) [OF _ assms(8)] assms(1) by (simp add: warm_ready_def)
  then have sched: "scheduled base mctx (server w) (mig_VMs m1) (sum_list (map (calls_needed (server w)) (mig_VMs m1))) w1"
    using scheduled_start [of "mig_VMs m1" mctx w1 base] assms(2,3,10) by simp
  have "0 < sum_list (map (calls_needed (server w)) (mig_VMs m1))"
    using assms(9,10) waits_needs by (cases "mig_VMs m1") auto
  from warm_reconciles [OF assms(1,5,6,4,7,8) sched this assms(11)] show ?thesis
    unfolding tables_kept_def .
qed

section \<open>A sample run\<close>

definition warm_plan :: MigrationPlan where
  "warm_plan = (mc_Plan warm_mctx)\<lparr>plan_VMs := map (\<lambda>id. \<lparr>pvm_ID = id, pvm_Name = [], pvm_Hooks = []\<rparr>) [''vm-uuid-001'', ''vm-uuid-002'', ''vm-uuid-003''],
     plan_MaxInFlight := 1\<rparr>"

definition warm_schedule :: "(Store \<times> int) nstate migrationContext" where
  "warm_schedule = warm_mctx\<lparr>mc_Plan := warm_plan\<rparr>"

theorem warm_reconciles_complete_witness:
  "\<exists>m' w'. reconciles 11 served_reconciler warm_plan warm_schedule (mc_Migration warm_mctx) cbt_world = Some (m', w') \<and>
     mig_Phase m' = MigrationPhaseCompleted \<and> map vs_ID (mig_VMs m') = [''vm-uuid-001'', ''vm-uuid-002'', ''vm-uuid-003''] \<and>
     (\<forall>v \<in> set (mig_VMs m'). vs_Phase v = VMPhaseCompleted) \<and> sto_RecoveryPoints (server w') = Map.empty \<and> sto_Images (server w') = Map.empty"
proof -
  let ?vms = "map (\<lambda>id. new_VMMigrationStatus id []) [''vm-uuid-001'', ''vm-uuid-002'', ''vm-uuid-003'']"
  let ?m = "mc_Migration warm_mctx"
  obtain m1 w1 where start: "start_migration served_reconciler ?m warm_plan cbt_world = (m1, w1)" by fastforce
  then have vms: "mig_VMs m1 = ?vms"
    by (auto simp: start_migration_def warm_mctx_def served_mctx_def sim_migration_def initializeVMStatuses_def warm_plan_def migration_condition_def Let_def split: prod.splits)
  have s: "sto_VMs (server cbt_world) = defaultVMs" "sto_RecoveryPoints (server cbt_world) = Map.empty" "sto_Images (server cbt_world) = Map.empty"
      "sto_CBTConfig (server cbt_world) = DefaultCBTConfig"
    by (simp_all add: server_def cbt_world_def WithCBTConfig_def WithFixtures_def NewStore_def)
  have ready: "warm_ready ''http://mock'' served_reconciler warm_schedule"
    by (simp add: warm_ready_def warm_cooperating_def warm_schedule_def warm_plan_def warm_mctx_def served_mctx_def served_reconciler_def cooperating_def
        spares_server_def sim_kube_def sim_plan_def sim_migration_def Let_def)
  have ok: "entities_ok (server cbt_world)" using s by (simp add: entities_ok_def)
  have cbt: "cbt_ready ''http://mock'' (server cbt_world)"
    by (simp add: cbt_ready_def s(4) DefaultCBTConfig_def ok_ChangedRegion_def int64_def TrimRight_def)
  have upd: "\<forall>m st. \<exists>st'. kc_StatusUpdateMigration (r_Client served_reconciler) m st = (None, st') \<and> fst (st_env st') = fst (st_env st)"
    by (simp add: served_reconciler_def sim_kube_def)
  have mig: "mig_Cancel ?m = []" "mig_Phase ?m \<in> {MigrationPhaseNone, MigrationPhasePending, MigrationPhaseRunning}" "plan_MaxInFlight warm_plan \<le> 1"
    by (simp_all add: warm_mctx_def served_mctx_def sim_migration_def warm_plan_def)
  have run: "\<forall>v \<in> set (mig_VMs m1). waits warm_schedule (server cbt_world) v"
    using s(1) fixture_vms_ok(1)
    by (simp add: vms waits_def runnable_def hookless_def fresh_vm_def warm_schedule_def warm_plan_def new_VMMigrationStatus_def plain_id_def
        store_GetVM_def defaultVMs_def vm_linux_def vm_windows_def vm_gpu_def)
  have few: "sum_list (map (calls_needed (server cbt_world)) (mig_VMs m1)) \<le> 11"
    by (simp add: vms calls_needed_def new_VMMigrationStatus_def store_GetVM_def s(1) defaultVMs_def vm_linux_def vm_windows_def vm_gpu_def
        filterDataDisks_def fixture_disk_def is_cdrom_def upper_char_def is_lower_def)
  have ne: "mig_VMs m1 \<noteq> []" and ids: "map vs_ID (mig_VMs m1) = [''vm-uuid-001'', ''vm-uuid-002'', ''vm-uuid-003'']"
    by (simp_all add: vms new_VMMigrationStatus_def)
  show ?thesis
    using warm_reconciles_complete [OF ready cbt ok mig(1,3) upd mig(2) start ne run few] unfolding ids s(2,3) .
qed

end
