(* ===== verification/Precopy_Run.thy ===== *)
theory Precopy_Run
  imports Warm_Run
begin

text \<open>
  A precopy round of a warm migration before its cutover, against the mock server and a cooperating cluster: it ends, it copies every data
  disk, and it exchanges the recovery point and the images that the next round starts from.
\<close>

section \<open>Exchanging the base\<close>

lemma exported_image:
  "exported s u us s' \<Longrightarrow> x \<in> set us \<Longrightarrow> sto_Images s x = None \<and> sto_Images s' x \<noteq> None \<and> plain_id x"
  "exported s u us s' \<Longrightarrow> x \<notin> set us \<Longrightarrow> sto_Images s' x = sto_Images s x"
  by (simp_all add: exported_def)

lemma exported_replaced:
  assumes "exported s u us s1" "exported s1 du dus s2" "deleted [u] us s2 s3"
  shows "exported s du dus s3"
proof -
  have apart: "x \<notin> set us" if "x \<in> set dus" for x using exported_image(1) [OF assms(1)] exported_image(1) [OF assms(2) that] by blast
  have imgs: "sto_Images s3 x = (if x \<in> set us then None else sto_Images s2 x)" for x using assms(3) by (simp add: deleted_def)
  have "sto_Images s x = None \<and> sto_Images s3 x \<noteq> None \<and> plain_id x" if "x \<in> set dus" for x
    using exported_image(1) [OF assms(2) that] exported_image(2) [OF assms(1) apart [OF that]] apart [OF that] imgs by simp
  moreover have "sto_Images s3 x = sto_Images s x" if "x \<notin> set dus" for x
    using exported_image(2) [OF assms(2) that] exported_image(1,2) [OF assms(1), of x] imgs by (cases "x \<in> set us") simp_all
  moreover have "du \<noteq> u" using assms(1,2) by (auto simp: exported_def)
  moreover from this have "sto_RecoveryPoints s du = None" "sto_RecoveryPoints s3 du \<noteq> None" using assms by (simp_all add: exported_def deleted_def)
  moreover have "sto_RecoveryPoints s3 x = sto_RecoveryPoints s x" if "x \<noteq> du" for x
    using assms that by (cases "x = u") (simp_all add: exported_def deleted_def)
  ultimately show ?thesis using assms by (simp add: exported_def [of s du dus s3]) (simp add: exported_def deleted_def)
qed

lemma no_snapshot_keeps: "no_snapshot w w' \<Longrightarrow> set (w_trace w) \<subseteq> set (w_trace w')"
  by (auto simp: no_snapshot_def)

text \<open>The state a round ends with: the next base is in place and the status is ready for another round.\<close>

definition rebased :: "Store \<Rightarrow> VM \<Rightarrow> WarmMigrationStatus \<Rightarrow> (Store \<times> int) nstate world \<Rightarrow> bool" where
  "rebased s vm warm w \<longleftrightarrow> exported s (ws_BaseSnapshotUUID warm) (ws_BaseImageUUIDs warm) (server w) \<and>
     length (ws_BaseImageUUIDs warm) = length (filterDataDisks (vm_Disks vm)) \<and>
     ws_DeltaSnapshotUUID warm = [] \<and> ws_DeltaImageUUIDs warm = [] \<and> ws_DeltaPodName warm = [] \<and> ws_DeltaDiskIndex warm = 0"

lemma precopy_finalized:
  assumes "mc_NutanixClient mctx = mock_nx base" "\<forall>st. fst (st_env (snd (r_Now r st))) = fst (st_env st)"
    and "exported s (ws_BaseSnapshotUUID warm) (ws_BaseImageUUIDs warm) s1" "exported s1 (ws_DeltaSnapshotUUID warm) (ws_DeltaImageUUIDs warm) (server w)"
    and "length (ws_DeltaImageUUIDs warm) = length (filterDataDisks (vm_Disks vm))"
  shows "\<exists>warm' w'. finalizePrecopyRound r warm vs mctx w = (phase_not_completed, vs\<lparr>vs_Warm := Some warm'\<rparr>, w') \<and> rebased s vm warm' w' \<and>
    ws_BaseImageUUIDs warm' = ws_DeltaImageUUIDs warm \<and> ws_PrecopyRounds warm' = ws_PrecopyRounds warm + 1 \<and>
    sto_VMs (server w') = sto_VMs (server w) \<and> set (w_trace w) \<subseteq> set (w_trace w')"
proof -
  let ?w1 = "try_DeleteRecoveryPoint (mock_nx base) (ws_BaseSnapshotUUID warm) w"
  let ?w2 = "for_each (try_DeleteImage (mock_nx base)) (ws_BaseImageUUIDs warm) ?w1"
  have plain: "plain_id (ws_BaseSnapshotUUID warm)" "ws_BaseSnapshotUUID warm \<noteq> []" "\<forall>x \<in> set (ws_BaseImageUUIDs warm). plain_id x"
    using assms(3) by (simp_all add: exported_def)
  have del: "deleted [ws_BaseSnapshotUUID warm] (ws_BaseImageUUIDs warm) (server w) (server ?w2)"
    using deleted_trans [OF call_DeleteRecoveryPoint [OF plain(1,2), of w base] delete_images_served [OF plain(3), of ?w1 base]] by simp
  have t: "set (w_trace w) \<subseteq> set (w_trace ?w2)"
    by (rule no_snapshot_keeps) (rule no_snapshot_trans [OF no_snapshot_deletes(2) no_snapshot_deletes(1)])
  obtain now w3 where n: "Now (r_Now r) ?w2 = (now, w3)" "server w3 = server ?w2" "w_trace w3 = w_trace ?w2" using now_served [OF assms(2)] by blast
  have "exported s (ws_DeltaSnapshotUUID warm) (ws_DeltaImageUUIDs warm) (server w3)" "sto_VMs (server w3) = sto_VMs (server w)"
    using exported_replaced [OF assms(3,4) del] del n(2) by (simp_all add: deleted_def)
  then show ?thesis using n t assms(1,5) by (simp add: finalizePrecopyRound_def rebased_def Let_def) (rule exI, rule conjI [OF refl], simp)
qed

section \<open>The round\<close>

text \<open>Calls that each ask for a requeue.\<close>

fun requeues :: "nat \<Rightarrow> 'e MigrationReconciler \<Rightarrow> 'e migrationContext \<Rightarrow> VMMigrationStatus \<Rightarrow> 'e world \<Rightarrow> (VMMigrationStatus \<times> 'e world) option" where
  "requeues 0 r mctx vs w = Some (vs, w)"
| "requeues (Suc k) r mctx vs w =
     (case advanceSingleVM r mctx vs w of
        Some (Returns (requeue, vs1, w1)) \<Rightarrow> if requeue then requeues k r mctx vs1 w1 else None
      | _ \<Rightarrow> None)"

text \<open>A further round may start: the cutover has not come, there are rounds left, and the interval since the last one is over.\<close>

definition round_due :: "'e MigrationReconciler \<Rightarrow> 'e migrationContext \<Rightarrow> WarmMigrationStatus \<Rightarrow> bool" where
  "round_due r mctx warm \<longleftrightarrow> ws_PrecopyRounds warm < max_precopy_rounds (mc_Plan mctx) \<and>
     (\<forall>c st. mig_Cutover (mc_Migration mctx) = Some c \<longrightarrow> fst (r_Now r st) \<le> c) \<and>
     (\<forall>t st. ws_LastPrecopyTime warm = Some t \<longrightarrow> precopy_interval (mc_Plan mctx) \<le> fst (r_Now r st) - t)"

abbreviation round_label :: "WarmMigrationStatus \<Rightarrow> string" where
  "round_label warm \<equiv> ''pc'' @ show_int (ws_PrecopyRounds warm + 1)"

lemma now_reads: "Now clock w = (now, w') \<Longrightarrow> now = fst (clock (w_env w))"
  by (auto simp: Now_def perform_def split: prod.splits)

lemma precopy_call:
  assumes "\<forall>st. fst (st_env (snd (r_Now r st))) = fst (st_env st)" "round_due r mctx warm" "vs_Warm vs = Some warm"
  shows "\<exists>w'. phasePrecopy r vs mctx w = round_call r (round_label warm) (finalizePrecopyRound r) warm vs mctx w' \<and>
    server w' = server w \<and> w_trace w' = w_trace w"
proof -
  obtain w1 where c: "isCutoverTime (r_Now r) (mc_Migration mctx) w = (False, w1)" "server w1 = server w" "w_trace w1 = w_trace w"
  proof (cases "mig_Cutover (mc_Migration mctx)")
    case (Some c)
    obtain now w1 where n: "Now (r_Now r) w = (now, w1)" "server w1 = server w" "w_trace w1 = w_trace w" using now_served [OF assms(1)] by blast
    have "\<not> c < now" using assms(2) Some now_reads [OF n(1)] by (auto simp: round_due_def not_less)
    then show thesis using that n Some by (simp add: isCutoverTime_def)
  qed (use that in \<open>simp add: isCutoverTime_def\<close>)
  have due: "\<not> max_precopy_rounds (mc_Plan mctx) \<le> ws_PrecopyRounds warm" using assms(2) by (simp add: round_due_def)
  show ?thesis
  proof (cases "ws_LastPrecopyTime warm")
    case None
    then show ?thesis using c due assms(3) by (intro exI [of _ w1]) (simp add: phasePrecopy_def round_call_def Let_def)
  next
    case (Some t)
    obtain now w2 where n: "Now (r_Now r) w1 = (now, w2)" "server w2 = server w1" "w_trace w2 = w_trace w1" using now_served [OF assms(1)] by blast
    have "\<not> now - t < precopy_interval (mc_Plan mctx)" using assms(2) Some now_reads [OF n(1)] by (auto simp: round_due_def not_less)
    then show ?thesis using c due n Some assms(3) 
      by (intro exI [of _ "if ws_DeltaPodName warm \<noteq> [] then w1 else w2"]) (simp add: phasePrecopy_def round_call_def Let_def)
  qed
qed

definition precopied :: "(Store \<times> int) nstate migrationContext \<Rightarrow> Store \<Rightarrow> Store \<Rightarrow> VM \<Rightarrow> string \<Rightarrow> VMMigrationStatus \<Rightarrow> WarmMigrationStatus \<Rightarrow>
  (Store \<times> int) nstate world \<Rightarrow> bool" where
  "precopied mctx s s1 vm label vs warm' w' \<longleftrightarrow> rebased s vm warm' w' \<and> sto_VMs (server w') = sto_VMs s1 \<and>
     (\<forall>i < length (filterDataDisks (vm_Disks vm)). cbc_ChangedRegions (sto_CBTConfig s1) \<noteq> [] \<longrightarrow>
        patched mctx vs label (ws_BaseImageUUIDs warm') (cbc_ChangedRegions (sto_CBTConfig s1)) (w_trace w') i)"

lemma precopy_ends:
  assumes env: "mc_NutanixClient mctx = mock_nx base" "warm_cooperating (r_Client r)" "\<forall>st. fst (st_env (snd (r_Now r st))) = fst (st_env st)"
    and "ok_VM vm" "plain_id (vs_ID vs)" "cbt_ready base s1" "vs_Phase vs = VMPhasePrecopy"
    and "round_due r mctx warm" "exported s (ws_BaseSnapshotUUID warm) (ws_BaseImageUUIDs warm) s1" "in_round mctx (round_label warm) s1 vm vs warm w"
  shows "\<exists>k warm' w'. k \<le> round_left vm warm \<and> requeues k r mctx (vs\<lparr>vs_Warm := Some warm\<rparr>) w = Some (vs\<lparr>vs_Warm := Some warm'\<rparr>, w') \<and>
    ws_PrecopyRounds warm' = ws_PrecopyRounds warm + 1 \<and> precopied mctx s s1 vm (round_label warm) vs warm' w'"
  using assms(8-10)
proof (induction "round_left vm warm" arbitrary: warm w rule: less_induct)
  case less
  let ?v = "vs\<lparr>vs_Warm := Some warm\<rparr>" and ?label = "round_label warm" and ?fin = "finalizePrecopyRound r"
  obtain w1 where call: "phasePrecopy r ?v mctx w = round_call r ?label ?fin warm ?v mctx w1" "server w1 = server w" "w_trace w1 = w_trace w"
    using precopy_call [OF env(3) less.prems(1), of ?v w] by auto
  have inv: "in_round mctx ?label s1 vm ?v warm w1" using less.prems(3) by (simp add: in_round_cong [OF call(2,3)])
  have id: "plain_id (vs_ID ?v)" "plain_id (ws_BaseSnapshotUUID warm)" using assms(5) less.prems(2) by (simp_all add: exported_def)
  obtain n where n: "round_left vm warm = Suc n"
    using less.prems(3) by (cases "round_left vm warm") (auto simp: round_left_def in_round_def Let_def split: if_splits)
  obtain warm' w' where step: "in_round mctx ?label s1 vm vs warm' w'" "same_base warm warm'" "ws_DeltaSnapshotUUID warm' \<noteq> []"
      "phasePrecopy r ?v mctx w = returns phase_not_completed (vs\<lparr>vs_Warm := Some warm'\<rparr>) w' \<and> round_left vm warm' < round_left vm warm \<or>
       phasePrecopy r ?v mctx w = Some (Returns (?fin warm' (vs\<lparr>vs_Warm := Some warm'\<rparr>) mctx w')) \<and>
         ws_DeltaDiskIndex warm' = length (filterDataDisks (vm_Disks vm))"
    using round_step [OF env(1,2) assms(4) id assms(6) inv, of ?fin] unfolding call(1) by auto
  have base': "exported s (ws_BaseSnapshotUUID warm') (ws_BaseImageUUIDs warm') s1" "ws_PrecopyRounds warm' = ws_PrecopyRounds warm"
    using step(2) less.prems(2) by (simp_all add: same_base_def)
  from step(4) show ?case
  proof (elim disjE conjE)
    assume a: "phasePrecopy r ?v mctx w = returns phase_not_completed (vs\<lparr>vs_Warm := Some warm'\<rparr>) w'" "round_left vm warm' < round_left vm warm"
    have "round_due r mctx warm'" "round_label warm' = ?label" using less.prems(1) step(2) by (simp_all add: round_due_def same_base_def)
    with less.hyps [OF a(2) _ base'(1), of w'] step(1) obtain k warm2 w2 where ih: "k \<le> round_left vm warm'"
        "requeues k r mctx (vs\<lparr>vs_Warm := Some warm'\<rparr>) w' = Some (vs\<lparr>vs_Warm := Some warm2\<rparr>, w2)"
        "ws_PrecopyRounds warm2 = ws_PrecopyRounds warm + 1" "precopied mctx s s1 vm ?label vs warm2 w2"
      using base'(2) by auto
    have "advanceSingleVM r mctx ?v w = Some (Returns (True, vs\<lparr>vs_Warm := Some warm'\<rparr>, w'))"
      using a(1) assms(7) by (subst advanceSingleVM.simps) (simp add: isTerminalVMPhase_def executePhase_def)
    then show ?thesis using ih a(2) by (intro exI [of _ "Suc k"] exI [of _ warm2] exI [of _ w2]) simp
  next
    assume a: "phasePrecopy r ?v mctx w = Some (Returns (?fin warm' (vs\<lparr>vs_Warm := Some warm'\<rparr>) mctx w'))"
      "ws_DeltaDiskIndex warm' = length (filterDataDisks (vm_Disks vm))"
    have st: "exported s1 (ws_DeltaSnapshotUUID warm') (ws_DeltaImageUUIDs warm') (server w')" "sto_VMs (server w') = sto_VMs s1"
        "length (ws_DeltaImageUUIDs warm') = length (filterDataDisks (vm_Disks vm))"
        "\<forall>i < length (filterDataDisks (vm_Disks vm)). cbc_ChangedRegions (sto_CBTConfig s1) \<noteq> [] \<longrightarrow>
           patched mctx vs ?label (ws_DeltaImageUUIDs warm') (cbc_ChangedRegions (sto_CBTConfig s1)) (w_trace w') i"
      using step(1,3) a(2) by (simp_all add: in_round_def Let_def)
    obtain warm2 w2 where f: "?fin warm' (vs\<lparr>vs_Warm := Some warm'\<rparr>) mctx w' = (phase_not_completed, vs\<lparr>vs_Warm := Some warm2\<rparr>, w2)"
        "rebased s vm warm2 w2" "ws_BaseImageUUIDs warm2 = ws_DeltaImageUUIDs warm'" "ws_PrecopyRounds warm2 = ws_PrecopyRounds warm + 1"
        "sto_VMs (server w2) = sto_VMs (server w')" "set (w_trace w') \<subseteq> set (w_trace w2)"
      using precopy_finalized [OF env(1,3) base'(1) st(1,3), of "vs\<lparr>vs_Warm := Some warm'\<rparr>"] base'(2) by auto
    have "precopied mctx s s1 vm ?label vs warm2 w2" using f(2,3,5) st(2,4) by (auto simp: precopied_def intro: patched_mono [OF _ f(6)])
    moreover have "advanceSingleVM r mctx ?v w = Some (Returns (True, vs\<lparr>vs_Warm := Some warm2\<rparr>, w2))"
      using a(1) f(1) assms(7) by (subst advanceSingleVM.simps) (simp add: isTerminalVMPhase_def executePhase_def)
    ultimately show ?thesis using f(4) n by (intro exI [of _ "Suc 0"] exI [of _ warm2] exI [of _ w2]) simp
  qed
qed

text \<open>
  C11. A precopy round ends and leaves nothing behind. With \<open>D\<close> data disks, the round that is due takes at most \<open>2 * D + 1\<close> calls
  of \<^verbatim>\<open>advanceSingleVM\<close>, each of which asks for another one. A pod was then created for every data disk with all the changed
  regions, the number of rounds went up by one, the status is ready for the next round, and where the server held the recovery point and the images of the
  previous base beside what it had before the migration it now holds those of the new base, one image per disk, and nothing else.
\<close>

theorem precopy_round_completes:
  assumes env: "mc_NutanixClient mctx = mock_nx base" "warm_cooperating (r_Client r)" "\<forall>st. fst (st_env (snd (r_Now r st))) = fst (st_env st)"
    and "vs_Phase vs = VMPhasePrecopy" "vs_Warm vs = Some warm" "round_due r mctx warm" "rebased s vm warm w" and "cbt_ready base (server w)"
    and vm: "store_GetVM (vs_ID vs) (server w) = Some vm" "ok_VM vm" "plain_id (vs_ID vs)"
    and "length (vs_DataVolumeNames vs) = length (filterDataDisks (vm_Disks vm))"
  shows "\<exists>k warm' w'. k \<le> 2 * length (filterDataDisks (vm_Disks vm)) + 1 \<and> requeues k r mctx vs w = Some (vs\<lparr>vs_Warm := Some warm'\<rparr>, w') \<and>
    ws_PrecopyRounds warm' = ws_PrecopyRounds warm + 1 \<and> rebased s vm warm' w' \<and> sto_VMs (server w') = sto_VMs (server w) \<and>
    (\<forall>i < length (filterDataDisks (vm_Disks vm)). cbc_ChangedRegions (sto_CBTConfig (server w)) \<noteq> [] \<longrightarrow>
       patched mctx vs (round_label warm) (ws_BaseImageUUIDs warm') (cbc_ChangedRegions (sto_CBTConfig (server w))) (w_trace w') i)"
proof -
  have start: "exported s (ws_BaseSnapshotUUID warm) (ws_BaseImageUUIDs warm) (server w)" "in_round mctx (round_label warm) (server w) vm vs warm w"
    using assms(7,9,12) by (simp_all add: rebased_def exported_def in_round_def Let_def)
  have "vs\<lparr>vs_Warm := Some warm\<rparr> = vs" "round_left vm warm = 2 * length (filterDataDisks (vm_Disks vm)) + 1"
    using assms(5,7) by (simp_all add: round_left_def rebased_def)
  then show ?thesis using precopy_ends [OF env vm(2,3) assms(8,4,6) start] by (simp add: precopied_def)
qed

section \<open>A sample round\<close>

text \<open>The server after a bulk copy of a VM with one data disk.\<close>

definition base_snapshot :: "string \<times> Store" where
  "base_snapshot = store_AddRecoveryPoint (new_rp ''vm-uuid-001'' ''base'') (server cbt_world)"

definition base_image :: "string \<times> Store" where
  "base_image = store_AddImage (new_image ''base'') (snd base_snapshot)"

definition based_world :: "(Store \<times> int) nstate world" where
  "based_world = cbt_world\<lparr>w_env := (w_env cbt_world)\<lparr>st_env := (snd base_image, 0)\<rparr>\<rparr>"

definition based_warm :: WarmMigrationStatus where
  "based_warm = zero_WarmMigrationStatus\<lparr>ws_BaseSnapshotUUID := fst base_snapshot, ws_BaseImageUUIDs := [fst base_image]\<rparr>"

definition based_status :: VMMigrationStatus where
  "based_status = (new_VMMigrationStatus ''vm-uuid-001'' ''test-vm-linux'')\<lparr>vs_Phase := VMPhasePrecopy, vs_DataVolumeNames := [''disk-0''], vs_Warm := Some based_warm\<rparr>"

definition precopy_mctx :: "(Store \<times> int) nstate migrationContext" where
  "precopy_mctx = warm_mctx\<lparr>mc_Migration := sim_migration\<rparr>"

lemma based_world_ready:
  "rebased (server cbt_world) vm_linux based_warm based_world" "store_GetVM ''vm-uuid-001'' (server based_world) = Some vm_linux"
  "sto_CBTConfig (server based_world) = DefaultCBTConfig" "length (filterDataDisks (vm_Disks vm_linux)) = 1"
proof -
  have s: "sto_VMs (server cbt_world) = defaultVMs" "sto_RecoveryPoints (server cbt_world) = Map.empty" "sto_Images (server cbt_world) = Map.empty"
      "sto_CBTConfig (server cbt_world) = DefaultCBTConfig" and b: "server based_world = snd base_image"
    by (simp_all add: based_world_def server_def cbt_world_def WithCBTConfig_def WithFixtures_def NewStore_def)
  show D: "length (filterDataDisks (vm_Disks vm_linux)) = 1"
    by (simp add: vm_linux_def filterDataDisks_def fixture_disk_def is_cdrom_def upper_char_def is_lower_def)
  have ok: "entities_ok (server cbt_world)" using s by (simp add: entities_ok_def)
  have refl: "same_but_tasks x x" for x by (simp add: same_but_tasks_def)
  note rp = recovery_point_added [OF ok refl, of "new_rp ''vm-uuid-001'' ''base''", folded base_snapshot_def]
  have "entities_ok (snd base_snapshot)" using rp(1) by (simp add: exported_def)
  note img = images_added_one [OF this refl, of "new_image ''base''", folded base_image_def]
  show "rebased (server cbt_world) vm_linux based_warm based_world"
    using exported_images [OF rp(1) img] D b by (simp add: rebased_def based_warm_def zero_WarmMigrationStatus_def)
  show "store_GetVM ''vm-uuid-001'' (server based_world) = Some vm_linux" "sto_CBTConfig (server based_world) = DefaultCBTConfig"
    using img rp s(1,4) b by (simp_all add: images_added_def exported_def store_GetVM_def defaultVMs_def vm_linux_def)
qed

theorem precopy_round_completes_witness:
  "\<exists>k warm' w'. k \<le> 3 \<and> requeues k served_reconciler precopy_mctx based_status based_world = Some (based_status\<lparr>vs_Warm := Some warm'\<rparr>, w') \<and>
     ws_PrecopyRounds warm' = 1 \<and> rebased (server cbt_world) vm_linux warm' w' \<and> sto_VMs (server w') = sto_VMs (server based_world) \<and>
     patched precopy_mctx based_status (round_label based_warm) (ws_BaseImageUUIDs warm') (cbc_ChangedRegions DefaultCBTConfig) (w_trace w') 0"
proof -
  note b = based_world_ready
  have env: "mc_NutanixClient precopy_mctx = mock_nx ''http://mock''" "warm_cooperating (r_Client served_reconciler)"
      "\<forall>st. fst (st_env (snd (r_Now served_reconciler st))) = fst (st_env st)" "round_due served_reconciler precopy_mctx based_warm"
    by (simp_all add: precopy_mctx_def warm_mctx_def served_mctx_def served_reconciler_def warm_cooperating_def cooperating_def spares_server_def sim_kube_def
        sim_migration_def sim_plan_def round_due_def based_warm_def zero_WarmMigrationStatus_def max_precopy_rounds_def Let_def)
  have st: "vs_Phase based_status = VMPhasePrecopy" "vs_Warm based_status = Some based_warm" "vs_ID based_status = ''vm-uuid-001''"
      "length (vs_DataVolumeNames based_status) = length (filterDataDisks (vm_Disks vm_linux))" "ws_PrecopyRounds based_warm = 0"
    using b(4) by (simp_all add: based_status_def new_VMMigrationStatus_def based_warm_def zero_WarmMigrationStatus_def)
  have "cbt_ready ''http://mock'' (server based_world)"
    by (simp add: cbt_ready_def b(3) DefaultCBTConfig_def ok_ChangedRegion_def int64_def TrimRight_def)
  moreover have "ok_VM vm_linux" using fixture_vms_ok(1) by (simp add: defaultVMs_def)
  moreover have "plain_id ''vm-uuid-001''" "cbc_ChangedRegions DefaultCBTConfig \<noteq> []" by (simp_all add: plain_id_def DefaultCBTConfig_def)
  ultimately show ?thesis
    using precopy_round_completes [OF env(1-3) st(1,2) env(4) b(1), unfolded st(3), OF _ b(2) _ _ st(4)] b(3,4) st(5) by (simp add: numeral_3_eq_3)
qed

end
