(* ===== verification/Warm_Rollback.thy ===== *)
theory Warm_Rollback
  imports Precopy_Run
begin

text \<open>
  A delta round that fails, against the mock server: the failure cleanup removes what the migration made on the server, whichever round it
  is in, and switches the source VM on again.
\<close>

section \<open>The failure cleanup\<close>

lemma delete_objects_served:
  assumes "spares_server k"
  shows "server (try_Delete k kind ns n w) = server w" "server (for_each (try_Delete k kind ns) names w) = server w"
proof -
  show one: "server (try_Delete k kind ns n w) = server w" for n w using spares_Delete [OF assms] by (simp add: try_Delete_def)
  show "server (for_each (try_Delete k kind ns) names w) = server w" by (induction names arbitrary: w) (simp_all add: one)
qed

lemma cleanup_warm_served:
  assumes "mc_NutanixClient mctx = mock_nx base" "spares_server (r_Client r)"
    and "plain_id (ws_DeltaSnapshotUUID warm)" "ws_DeltaSnapshotUUID warm \<noteq> []" "\<forall>x \<in> set (ws_DeltaImageUUIDs warm). plain_id x"
    and "plain_id (ws_BaseSnapshotUUID warm)" "ws_BaseSnapshotUUID warm \<noteq> []" "\<forall>x \<in> set (ws_BaseImageUUIDs warm). plain_id x"
  shows "deleted [ws_DeltaSnapshotUUID warm, ws_BaseSnapshotUUID warm] (ws_DeltaImageUUIDs warm @ ws_BaseImageUUIDs warm) (server w)
    (server (cleanup_warm r mctx warm w))"
proof -
  let ?ns = "plan_TargetNamespace (mc_Plan mctx)"
  let ?w1 = "if ws_DeltaPodName warm \<noteq> [] then try_Delete (r_Client r) KindConfigMap ?ns (ws_DeltaPodName warm @ ''-regions'')
    (try_Delete (r_Client r) KindPod ?ns (ws_DeltaPodName warm) w) else w"
  have "server ?w1 = server w" by (simp add: delete_objects_served [OF assms(2)])
  then show ?thesis
    using deleted_trans [OF deletes_served [OF assms(3-5), of ?w1 base] deletes_served [OF assms(6-8), of _ base]] assms(1)
    by (simp add: cleanup_warm_def Let_def)
qed

text \<open>What a migration has added to the store \<open>s\<close>: entities that \<open>s\<close> does not have, under the identifiers of the status.\<close>

definition owned :: "Store \<Rightarrow> string \<Rightarrow> string list \<Rightarrow> bool" where
  "owned s u us \<longleftrightarrow> u \<noteq> [] \<and> plain_id u \<and> sto_RecoveryPoints s u = None \<and> (\<forall>x \<in> set us. plain_id x \<and> sto_Images s x = None)"

lemma exported_owned: "exported s u us s' \<Longrightarrow> owned s u us"
  by (simp add: exported_def owned_def)

lemma failed_round_undone:
  assumes "mc_NutanixClient mctx = mock_nx base" "spares_server (r_Client r)" "vs_Warm vs = Some warm"
    and "store_GetVM (vs_ID vs) (server w) = Some vm" "plain_id (vs_ID vs)" "vs_OriginalPowerState vs = ''ON''"
    and own: "owned s (vs_SnapshotUUID vs) (vs_ImageUUIDs vs)"
    and ex: "exported s (ws_BaseSnapshotUUID warm) (ws_BaseImageUUIDs warm) s1" "exported s1 (ws_DeltaSnapshotUUID warm) (ws_DeltaImageUUIDs warm) (server w)"
  defines "w' \<equiv> cleanupFailedVM r vs mctx w"
  shows "sto_RecoveryPoints (server w') = sto_RecoveryPoints s \<and> sto_Images (server w') = sto_Images s \<and>
    store_GetVM (vs_ID vs) (server w') = Some (vm\<lparr>vm_PowerState := ''ON''\<rparr>) \<and>
    (\<forall>u'. u' \<noteq> vs_ID vs \<longrightarrow> store_GetVM u' (server w') = store_GetVM u' (server w))"
proof -
  let ?nx = "mock_nx base"
  let ?w1 = "for_each (try_Delete (r_Client r) KindDataVolume (plan_TargetNamespace (mc_Plan mctx))) (vs_DataVolumeNames vs) w"
  let ?w3 = "try_DeleteRecoveryPoint ?nx (vs_SnapshotUUID vs) (for_each (try_DeleteImage ?nx) (vs_ImageUUIDs vs) ?w1)"
  have d1: "deleted [vs_SnapshotUUID vs] (vs_ImageUUIDs vs) (server w) (server ?w3)"
    using deletes_served [of "vs_SnapshotUUID vs" "vs_ImageUUIDs vs" ?w1 base] own by (simp add: delete_objects_served [OF assms(2)] owned_def)
  then have "store_GetVM (vs_ID vs) (server ?w3) = Some vm" using assms(4) by (simp add: deleted_def store_GetVM_def)
  from call_power(2) [OF this assms(5)] obtain w4 where p: "PowerOnVM ?nx (vs_ID vs) ?w3 = (None, w4)" "power_set (vs_ID vs) ''ON'' (server ?w3) (server w4)"
    by blast
  have w': "w' = cleanup_warm r mctx warm w4" using p(1) assms(1,3,6) by (simp add: w'_def cleanupFailedVM_def Let_def)
  have d2: "deleted [ws_DeltaSnapshotUUID warm, ws_BaseSnapshotUUID warm] (ws_DeltaImageUUIDs warm @ ws_BaseImageUUIDs warm) (server w4) (server w')"
    unfolding w' using ex by (intro cleanup_warm_served [OF assms(1,2)]) (simp_all add: exported_def)
  have rp: "sto_RecoveryPoints (server w') x = (if x \<in> {ws_DeltaSnapshotUUID warm, ws_BaseSnapshotUUID warm, vs_SnapshotUUID vs} then None
      else sto_RecoveryPoints (server w) x)" for x
    using d1 d2 p(2) by (simp add: deleted_def power_set_def)
  have img: "sto_Images (server w') x = (if x \<in> set (ws_DeltaImageUUIDs warm) \<union> set (ws_BaseImageUUIDs warm) \<union> set (vs_ImageUUIDs vs) then None
      else sto_Images (server w) x)" for x
    using d1 d2 p(2) by (simp add: deleted_def power_set_def)
  have "sto_RecoveryPoints (server w') = sto_RecoveryPoints s"
  proof
    fix x
    have "sto_RecoveryPoints s1 x = sto_RecoveryPoints s x" "x = ws_DeltaSnapshotUUID warm \<Longrightarrow> sto_RecoveryPoints s1 x = None"
        "x \<noteq> ws_DeltaSnapshotUUID warm \<Longrightarrow> sto_RecoveryPoints (server w) x = sto_RecoveryPoints s1 x" if "x \<noteq> ws_BaseSnapshotUUID warm"
      using ex that by (simp_all add: exported_def)
    moreover have "sto_RecoveryPoints s (ws_BaseSnapshotUUID warm) = None" using ex(1) by (simp add: exported_def)
    ultimately show "sto_RecoveryPoints (server w') x = sto_RecoveryPoints s x" using rp [of x] own
      by (cases "x = ws_BaseSnapshotUUID warm") (auto simp: owned_def)
  qed
  moreover have "sto_Images (server w') = sto_Images s"
  proof
    fix x
    show "sto_Images (server w') x = sto_Images s x"
    proof (cases "x \<in> set (ws_BaseImageUUIDs warm)")
      case True
      then show ?thesis using img [of x] exported_image(1) [OF ex(1) True] by simp
    next
      case False
      note s1 = exported_image(2) [OF ex(1) False]
      show ?thesis using img [of x] own s1 exported_image(1,2) [OF ex(2), of x] False by (auto simp: owned_def)
    qed
  qed
  moreover have "store_GetVM u (server w') = store_GetVM u (server w4)" "store_GetVM u (server ?w3) = store_GetVM u (server w)" for u
    using d1 d2 by (simp_all add: deleted_def store_GetVM_def)
  ultimately show ?thesis using power_set_GetVM [OF p(2)] power_set_others [OF p(2)] assms(4) by auto
qed

section \<open>A failed pod\<close>

text \<open>
  C13. A failed delta pod undoes the migration. In a precopy round or in the final round of a warm migration whose VM was running, the next call of
  \<^verbatim>\<open>advanceSingleVM\<close> after the pod has failed ends with the VM failed; the server then holds exactly the recovery points and images it
  held before the migration, the VM is on, and the other VMs are as they were.
\<close>

theorem failed_pod_restores_source:
  assumes "mc_NutanixClient mctx = mock_nx base" "spares_server (r_Client r)" and clock: "\<forall>st. fst (st_env (snd (r_Now r st))) = fst (st_env st)"
    and pod: "\<forall>ns n st. \<exists>st'. kc_GetPod (r_Client r) ns n st = (Inr PodFailed, st') \<and> fst (st_env st') = fst (st_env st)"
    and "vs_Warm vs = Some warm" "ws_DeltaPodName warm \<noteq> []"
    and phase: "vs_Phase vs = VMPhaseFinalSync \<or> vs_Phase vs = VMPhasePrecopy \<and> round_due r mctx warm"
    and "plain_id (vs_ID vs)" "vs_OriginalPowerState vs = ''ON''"
    and "owned s (vs_SnapshotUUID vs) (vs_ImageUUIDs vs)" "exported s (ws_BaseSnapshotUUID warm) (ws_BaseImageUUIDs warm) s1" "in_round mctx label s1 vm vs warm w"
  shows "\<exists>vs' w'. advanceSingleVM r mctx vs w = Some (Returns (False, vs', w')) \<and> vs_Phase vs' = VMPhaseFailed \<and>
    sto_RecoveryPoints (server w') = sto_RecoveryPoints s \<and> sto_Images (server w') = sto_Images s \<and>
    store_GetVM (vs_ID vs) (server w') = Some (vm\<lparr>vm_PowerState := ''ON''\<rparr>) \<and>
    (\<forall>u'. u' \<noteq> vs_ID vs \<longrightarrow> store_GetVM u' (server w') = store_GetVM u' (server w))"
proof -
  obtain w0 where c: "executePhase r vs mctx w = Some (Returns (checkDeltaPod r warm vs mctx w0))" "server w0 = server w"
    using phase precopy_call [OF clock _ assms(5), of mctx w] assms(5,6) by (auto simp: executePhase_def phaseFinalSync_def round_call_def)
  let ?ns = "plan_TargetNamespace (mc_Plan mctx)" and ?n = "ws_DeltaPodName warm"
  obtain st' where "kc_GetPod (r_Client r) ?ns ?n (w_env w0) = (Inr PodFailed, st')" "fst (st_env st') = server w0"
    using pod unfolding server_def by blast
  then obtain w1 where g: "getPodPhase r ?n ?ns w0 = (PodFailed, w1)" "server w1 = server w0"
    by (auto simp: getPodPhase_def perform_def server_def Let_def)
  obtain err where ex: "executePhase r vs mctx w = Some (Returns (phase_failed err, vs, w1))"
    using c(1) g(1) by (simp add: checkDeltaPod_def Let_def)
  let ?w2 = "recordEvent r EventTypeWarning ''MigrationFailed''
      (''VM '' @ vs_Name vs @ '' failed in phase '' @ VMPhase_string (vs_Phase vs) @ '': '' @ err_msg err) w1"
  have s2: "server ?w2 = server w" using g(2) c(2) by simp
  have "store_GetVM (vs_ID vs) (server ?w2) = Some vm" "exported s1 (ws_DeltaSnapshotUUID warm) (ws_DeltaImageUUIDs warm) (server ?w2)"
    using assms(6,12) s2 by (auto simp: in_round_def Let_def split: if_splits)
  note undone = failed_round_undone [OF assms(1,2,5) this(1) assms(8-11) this(2)]
  obtain now w3 where n: "Now (r_Now r) (cleanupFailedVM r vs mctx ?w2) = (now, w3)" "server w3 = server (cleanupFailedVM r vs mctx ?w2)"
    using now_served [OF clock] by blast
  have "advanceSingleVM r mctx vs w = Some (Returns (False, vs\<lparr>vs_Phase := VMPhaseFailed, vs_Error := err_msg err, vs_Completed := Some now\<rparr>, w3))"
    using ex n(1) phase by (subst advanceSingleVM.simps) (auto simp: isTerminalVMPhase_def fail_vm_def Let_def)
  then show ?thesis using undone n(2) s2 by simp
qed

section \<open>A sample failure\<close>

text \<open>The first precopy round of the sample, with its pod running, and a cluster that reports the pod as failed.\<close>

definition delta_snapshot :: "string \<times> Store" where
  "delta_snapshot = store_AddRecoveryPoint (new_rp ''vm-uuid-001'' ''pc1'') (server based_world)"

definition delta_image :: "string \<times> Store" where
  "delta_image = store_AddImage (new_image ''pc1'') (snd delta_snapshot)"

definition delta_warm :: WarmMigrationStatus where
  "delta_warm = based_warm\<lparr>ws_DeltaSnapshotUUID := fst delta_snapshot, ws_DeltaImageUUIDs := [fst delta_image], ws_DeltaPodName := ''vma-pc1-d0''\<rparr>"

definition delta_status :: VMMigrationStatus where
  "delta_status = based_status\<lparr>vs_SnapshotUUID := fst base_snapshot, vs_ImageUUIDs := [fst base_image], vs_OriginalPowerState := ''ON'',
     vs_Warm := Some delta_warm\<rparr>"

definition delta_world :: "(Store \<times> int) nstate world" where
  "delta_world = based_world\<lparr>w_env := (w_env based_world)\<lparr>st_env := (snd delta_image, 0)\<rparr>,
     w_trace := (case delta_pod delta_status precopy_mctx ''pc1'' delta_warm (cbc_ChangedRegions DefaultCBTConfig) of None \<Rightarrow> []
       | Some (pod, cm) \<Rightarrow> [ECreate (ObjConfigMap cm) None, ECreate (ObjPod pod) None])\<rparr>"

definition failing_reconciler :: "(Store \<times> int) nstate MigrationReconciler" where
  "failing_reconciler = served_reconciler\<lparr>r_Client := (r_Client served_reconciler)\<lparr>kc_GetPod := \<lambda>ns n e. (Inr PodFailed, e)\<rparr>\<rparr>"

lemma delta_world_ready:
  "exported (server cbt_world) (fst base_snapshot) [fst base_image] (server based_world)"
  "in_round precopy_mctx ''pc1'' (server based_world) vm_linux delta_status delta_warm delta_world"
proof -
  note b = based_world_ready
  show base: "exported (server cbt_world) (fst base_snapshot) [fst base_image] (server based_world)"
    using b(1) by (simp add: rebased_def based_warm_def)
  then have ok: "entities_ok (server based_world)" by (simp add: exported_def)
  have refl: "same_but_tasks x x" for x by (simp add: same_but_tasks_def)
  note rp = recovery_point_added [OF ok refl, of "new_rp ''vm-uuid-001'' ''pc1''", folded delta_snapshot_def]
  have "entities_ok (snd delta_snapshot)" using rp(1) by (simp add: exported_def)
  note img = images_added_one [OF this refl, of "new_image ''pc1''", folded delta_image_def]
  have s: "server delta_world = snd delta_image" by (simp add: delta_world_def server_def)
  have ex: "exported (server based_world) (fst delta_snapshot) [fst delta_image] (server delta_world)" using exported_images [OF rp(1) img] s by simp
  have vms: "sto_VMs (server delta_world) = sto_VMs (server based_world)" using img rp(2) s by (simp add: images_added_def)
  have idx: "ws_DeltaDiskIndex delta_warm = 0" "ws_DeltaPodName delta_warm \<noteq> []" "ws_DeltaImageUUIDs delta_warm = [fst delta_image]"
      "vs_DataVolumeNames delta_status = [''disk-0'']" "ws_DeltaSnapshotUUID delta_warm = fst delta_snapshot" "vs_ID delta_status = ''vm-uuid-001''"
    by (simp_all add: delta_warm_def based_warm_def zero_WarmMigrationStatus_def delta_status_def based_status_def new_VMMigrationStatus_def)
  obtain pod cm where p: "delta_pod delta_status precopy_mctx ''pc1'' delta_warm (cbc_ChangedRegions DefaultCBTConfig) = Some (pod, cm)"
    using idx by (simp add: delta_pod_def BuildDeltaPod_def Let_def)
  have "delta_pod delta_status precopy_mctx ''pc1'' (zero_WarmMigrationStatus\<lparr>ws_DeltaImageUUIDs := [fst delta_image], ws_DeltaDiskIndex := 0\<rparr>)
      (cbc_ChangedRegions DefaultCBTConfig) = Some (pod, cm)"
    using p idx(1,3,4) by (simp add: delta_pod_def Let_def)
  then have "patched precopy_mctx delta_status ''pc1'' [fst delta_image] (cbc_ChangedRegions DefaultCBTConfig) (w_trace delta_world) 0"
    unfolding patched_def using p by (auto simp: delta_world_def)
  moreover have "fst delta_snapshot \<noteq> []" using ex by (simp add: exported_def)
  ultimately show "in_round precopy_mctx ''pc1'' (server based_world) vm_linux delta_status delta_warm delta_world"
    using ex vms idx b by (simp add: in_round_def Let_def store_GetVM_def)
qed

theorem failed_pod_restores_source_witness:
  "\<exists>vs' w'. advanceSingleVM failing_reconciler precopy_mctx delta_status delta_world = Some (Returns (False, vs', w')) \<and> vs_Phase vs' = VMPhaseFailed \<and>
     sto_RecoveryPoints (server w') = Map.empty \<and> sto_Images (server w') = Map.empty"
proof -
  note d = delta_world_ready
  have env: "mc_NutanixClient precopy_mctx = mock_nx ''http://mock''" "spares_server (r_Client failing_reconciler)"
      "\<forall>st. fst (st_env (snd (r_Now failing_reconciler st))) = fst (st_env st)" "round_due failing_reconciler precopy_mctx delta_warm"
      "\<forall>ns n st. \<exists>st'. kc_GetPod (r_Client failing_reconciler) ns n st = (Inr PodFailed, st') \<and> fst (st_env st') = fst (st_env st)"
    by (simp_all add: precopy_mctx_def warm_mctx_def served_mctx_def failing_reconciler_def served_reconciler_def spares_server_def sim_kube_def
        sim_migration_def sim_plan_def round_due_def delta_warm_def based_warm_def zero_WarmMigrationStatus_def max_precopy_rounds_def Let_def)
  have st: "vs_Phase delta_status = VMPhasePrecopy" "vs_Warm delta_status = Some delta_warm" "vs_ID delta_status = ''vm-uuid-001''"
      "vs_OriginalPowerState delta_status = ''ON''" "vs_SnapshotUUID delta_status = fst base_snapshot" "vs_ImageUUIDs delta_status = [fst base_image]"
      "ws_BaseSnapshotUUID delta_warm = fst base_snapshot" "ws_BaseImageUUIDs delta_warm = [fst base_image]" "ws_DeltaPodName delta_warm \<noteq> []"
    by (simp_all add: delta_status_def based_status_def new_VMMigrationStatus_def delta_warm_def based_warm_def)
  have "plain_id (vs_ID delta_status)" "owned (server cbt_world) (vs_SnapshotUUID delta_status) (vs_ImageUUIDs delta_status)"
    using exported_owned [OF d(1)] st by (simp_all add: plain_id_def)
  moreover have "exported (server cbt_world) (ws_BaseSnapshotUUID delta_warm) (ws_BaseImageUUIDs delta_warm) (server based_world)" using d(1) st by simp
  moreover have "sto_RecoveryPoints (server cbt_world) = Map.empty" "sto_Images (server cbt_world) = Map.empty"
    by (simp_all add: server_def cbt_world_def WithCBTConfig_def WithFixtures_def NewStore_def)
  ultimately show ?thesis
    using failed_pod_restores_source [OF env(1-3,5) st(2,9) _ _ st(4), of "server cbt_world" "server based_world" "''pc1''" vm_linux delta_world] env(4) st(1) d(2)
    by auto
qed

end
