(* ===== verification/Validation.thy ===== *)
theory Validation
  imports Vm_Builder Disk_Transfer Sample_Cluster
begin

text \<open>
  The validation engine (\<^verbatim>\<open>internal/validation/validator.go\<close>): seven rules on the source VM and five
  on the target cluster, each returning concerns, and \<^verbatim>\<open>HasErrors\<close>. The rules that remember what they
  have seen in a Go map carry the list of its keys. Go iterates over a map in an unspecified order: the
  iteration in \<^verbatim>\<open>checkStorageClasses\<close> goes through the argument \<open>range_order\<close>, of which the
  properties only assume that it yields the same elements.
\<close>

abbreviation nicTypeNetFunc :: string where "nicTypeNetFunc \<equiv> ''NETWORK_FUNCTION_NIC''"
abbreviation nicTypeDirect :: string where "nicTypeDirect \<equiv> ''DIRECT_NIC''"
abbreviation cdiCRDName :: string where "cdiCRDName \<equiv> ''datavolumes.cdi.kubevirt.io''"
abbreviation kubevirtCRDName :: string where "kubevirtCRDName \<equiv> ''virtualmachines.kubevirt.io''"

record 'e ValidationOptions =
  vo_NetworkMap :: "NetworkMap option"
  vo_StorageMap :: "StorageMap option"
  vo_ExistingVMs :: "(string \<times> bool) list"
  vo_ExistingMACs :: "(string \<times> string) list"
  vo_TargetNamespace :: string
  vo_Client :: "'e KubeClient option"

abbreviation concern :: "ConcernCategory \<Rightarrow> string \<Rightarrow> Concern" where
  "concern cat msg \<equiv> \<lparr>con_Category = cat, con_Message = msg\<rparr>"

definition HasErrors :: "Concern list \<Rightarrow> bool" where
  "HasErrors concerns = (\<exists>c \<in> set concerns. con_Category c = ConcernCategoryError)"

section \<open>Source-side rules\<close>

text \<open>\<^verbatim>\<open>isStorageMapped\<close>, \<^verbatim>\<open>isNetworkMapped\<close> and \<^verbatim>\<open>findNetworkDestination\<close> are only called with references that are not
  nil; their guard against a nil reference is therefore part of the type.\<close>

definition disk_container :: "Disk \<Rightarrow> Reference option" where
  "disk_container d = (case disk_BackingInfo d of None \<Rightarrow> None | Some bi \<Rightarrow> bi_StorageContainerRef bi)"

definition ref_key :: "Reference \<Rightarrow> string" where
  "ref_key ref = ref_ExtID ref @ ''/'' @ ref_Name ref"

fun isStorageMapped_loop :: "Reference \<Rightarrow> StoragePair list \<Rightarrow> bool" where
  "isStorageMapped_loop ref [] = False"
| "isStorageMapped_loop ref (pair # pairs) =
     (if ss_ID (sp_Source pair) \<noteq> [] \<and> ss_ID (sp_Source pair) = ref_ExtID ref then True
      else if ss_Name (sp_Source pair) \<noteq> [] \<and> ss_Name (sp_Source pair) = ref_Name ref then True
      else isStorageMapped_loop ref pairs)"

definition isStorageMapped :: "Reference \<Rightarrow> StorageMap option \<Rightarrow> bool" where
  "isStorageMapped ref storageMap =
     (case storageMap of None \<Rightarrow> False | Some sm \<Rightarrow> isStorageMapped_loop ref (sm_Map sm))"

interpretation storage_valid: ref_mapped "\<lambda>p. ss_ID (sp_Source p)" "\<lambda>p. ss_Name (sp_Source p)"
  sp_Destination FindStorageMapping_loop isStorageMapped_loop
  by unfold_locales (auto simp: source_matches_def)

fun unmapped_storage :: "StorageMap option \<Rightarrow> string list \<Rightarrow> Disk list \<Rightarrow> Concern list" where
  "unmapped_storage storageMap seen [] = []"
| "unmapped_storage storageMap seen (disk # disks) =
     (if is_cdrom disk then unmapped_storage storageMap seen disks
      else case disk_container disk of
          None \<Rightarrow> unmapped_storage storageMap seen disks
        | Some ref \<Rightarrow>
            if ref_key ref \<in> set seen then unmapped_storage storageMap seen disks
            else (if \<not> isStorageMapped ref storageMap
                  then [concern ConcernCategoryError (''storage container '' @ go_quote (ref_Name ref) @
                          '' (ID: '' @ ref_ExtID ref @ '') is not mapped in StorageMap'')]
                  else []) @ unmapped_storage storageMap (ref_key ref # seen) disks)"

definition checkUnmappedStorage :: "VM \<Rightarrow> StorageMap option \<Rightarrow> Concern list" where
  "checkUnmappedStorage vm storageMap = unmapped_storage storageMap [] (vm_Disks vm)"

fun isNetworkMapped_loop :: "Reference \<Rightarrow> NetworkPair list \<Rightarrow> bool" where
  "isNetworkMapped_loop ref [] = False"
| "isNetworkMapped_loop ref (pair # pairs) =
     (if ns_ID (np_Source pair) \<noteq> [] \<and> ns_ID (np_Source pair) = ref_ExtID ref then True
      else if ns_Name (np_Source pair) \<noteq> [] \<and> ns_Name (np_Source pair) = ref_Name ref then True
      else isNetworkMapped_loop ref pairs)"

definition isNetworkMapped :: "Reference \<Rightarrow> NetworkMap option \<Rightarrow> bool" where
  "isNetworkMapped ref networkMap =
     (case networkMap of None \<Rightarrow> False | Some nm \<Rightarrow> isNetworkMapped_loop ref (nm_Map nm))"

fun findNetworkDestination_loop :: "Reference \<Rightarrow> NetworkPair list \<Rightarrow> NetworkDestination option" where
  "findNetworkDestination_loop ref [] = None"
| "findNetworkDestination_loop ref (pair # pairs) =
     (if ns_ID (np_Source pair) \<noteq> [] \<and> ns_ID (np_Source pair) = ref_ExtID ref then Some (np_Destination pair)
      else if ns_Name (np_Source pair) \<noteq> [] \<and> ns_Name (np_Source pair) = ref_Name ref then Some (np_Destination pair)
      else findNetworkDestination_loop ref pairs)"

definition findNetworkDestination :: "Reference \<Rightarrow> NetworkMap option \<Rightarrow> NetworkDestination option" where
  "findNetworkDestination ref networkMap =
     (case networkMap of None \<Rightarrow> None | Some nm \<Rightarrow> findNetworkDestination_loop ref (nm_Map nm))"

interpretation network_valid: ref_mapped "\<lambda>p. ns_ID (np_Source p)" "\<lambda>p. ns_Name (np_Source p)"
  np_Destination findNetworkDestination_loop isNetworkMapped_loop
  by unfold_locales (auto simp: source_matches_def)

fun unmapped_network :: "NetworkMap option \<Rightarrow> string list \<Rightarrow> NIC list \<Rightarrow> Concern list" where
  "unmapped_network networkMap seen [] = []"
| "unmapped_network networkMap seen (nic # nics) =
     (case nic_NetworkRef nic of
        None \<Rightarrow> unmapped_network networkMap seen nics
      | Some ref \<Rightarrow>
          if ref_key ref \<in> set seen then unmapped_network networkMap seen nics
          else (if \<not> isNetworkMapped ref networkMap
                then [concern ConcernCategoryError (''subnet '' @ go_quote (ref_Name ref) @
                        '' (ID: '' @ ref_ExtID ref @ '') is not mapped in NetworkMap'')]
                else []) @ unmapped_network networkMap (ref_key ref # seen) nics)"

definition checkUnmappedNetwork :: "VM \<Rightarrow> NetworkMap option \<Rightarrow> Concern list" where
  "checkUnmappedNetwork vm networkMap = unmapped_network networkMap [] (vm_Nics vm)"

definition checkGPU :: "VM \<Rightarrow> Concern list" where
  "checkGPU vm =
     (if length (vm_Gpus vm) > 0
      then [concern ConcernCategoryWarning (''VM has '' @ show_nat (length (vm_Gpus vm)) @
              '' GPU(s) attached; GPU passthrough requires manual configuration on target'')]
      else [])"

definition checkVolumeGroupDisks :: "VM \<Rightarrow> Concern list" where
  "checkVolumeGroupDisks vm =
     concat (map (\<lambda>disk.
        if is_cdrom disk then []
        else if disk_container disk = None
        then [concern ConcernCategoryError (''disk '' @ disk_ExtID disk @
                '' has no storage container reference (possible Volume Group); Volume Groups cannot be migrated'')]
        else []) (vm_Disks vm))"

definition checkNICTypes :: "VM \<Rightarrow> Concern list" where
  "checkNICTypes vm =
     concat (map (\<lambda>nic.
        if ToUpper (nic_NicType nic) = nicTypeNetFunc
        then [concern ConcernCategoryError (''NIC '' @ nic_ExtID nic @ '' is a '' @ nicTypeNetFunc @ '' which cannot be migrated'')]
        else if ToUpper (nic_NicType nic) = nicTypeDirect
        then [concern ConcernCategoryWarning (''NIC '' @ nic_ExtID nic @ '' is a '' @ nicTypeDirect @
                '' (passthrough); requires SR-IOV on target cluster'')]
        else []) (vm_Nics vm))"

definition checkMACConflicts :: "VM \<Rightarrow> (string \<times> string) list \<Rightarrow> Concern list" where
  "checkMACConflicts vm existingMACs =
     (if existingMACs = [] then []
      else concat (map (\<lambda>nic.
        if nic_MacAddress nic = [] then []
        else case map_of existingMACs (ToLower (nic_MacAddress nic)) of
            Some owner \<Rightarrow>
              [concern ConcernCategoryWarning (''MAC address '' @ nic_MacAddress nic @ '' on NIC '' @ nic_ExtID nic @
                 '' conflicts with VM '' @ go_quote owner)]
          | None \<Rightarrow> []) (vm_Nics vm)))"

definition checkIDEDisks :: "VM \<Rightarrow> Concern list" where
  "checkIDEDisks vm =
     concat (map (\<lambda>disk.
        if is_cdrom disk then []
        else case disk_DiskAddress disk of
            Some addr \<Rightarrow>
              if ToUpper (da_BusType addr) = ''IDE''
              then [concern ConcernCategoryInfo (''disk '' @ disk_ExtID disk @ '' uses IDE bus; will be mapped to SATA on KubeVirt'')]
              else []
          | None \<Rightarrow> []) (vm_Disks vm))"

section \<open>Target-side rules\<close>

definition checkNamespace :: "'e KubeClient \<Rightarrow> string \<Rightarrow> 'e world \<Rightarrow> Concern list \<times> 'e world" where
  "checkNamespace c namespace w =
     (case Get (kc_GetNamespace c namespace) w of
        (Inl err, w1) \<Rightarrow>
          (if IsNotFound err
           then [concern ConcernCategoryError (''target namespace '' @ go_quote namespace @ '' does not exist'')] else [], w1)
      | (Inr _, w1) \<Rightarrow> ([], w1))"

text \<open>The StorageClasses a disk may end up with: those of every pair that matches, not only the first.\<close>

definition matching_classes :: "StorageMap \<Rightarrow> Disk \<Rightarrow> string list" where
  "matching_classes sm disk =
     (if is_cdrom disk then []
      else case disk_container disk of
          None \<Rightarrow> []
        | Some ref \<Rightarrow> map (\<lambda>p. sd_StorageClass (sp_Destination p))
            (filter (\<lambda>p. source_matches (ss_ID (sp_Source p)) (ss_Name (sp_Source p)) ref) (sm_Map sm)))"

definition needed_classes :: "StorageMap \<Rightarrow> VM \<Rightarrow> string list" where
  "needed_classes sm vm = remdups (concat (map (matching_classes sm) (vm_Disks vm)))"

fun missing_classes :: "'e KubeClient \<Rightarrow> string list \<Rightarrow> 'e world \<Rightarrow> Concern list \<times> 'e world" where
  "missing_classes c [] w = ([], w)"
| "missing_classes c (sc # scs) w =
     (case Get (kc_GetStorageClass c sc) w of
        (r, w1) \<Rightarrow>
          (case missing_classes c scs w1 of
             (concerns, w2) \<Rightarrow>
               ((case r of
                   Inl err \<Rightarrow>
                     if IsNotFound err
                     then [concern ConcernCategoryError (''StorageClass '' @ go_quote sc @ '' not found in cluster'')] else []
                 | Inr _ \<Rightarrow> []) @ concerns, w2)))"

definition checkStorageClasses ::
  "(string list \<Rightarrow> string list) \<Rightarrow> 'e KubeClient \<Rightarrow> VM \<Rightarrow> StorageMap option \<Rightarrow> 'e world \<Rightarrow> Concern list \<times> 'e world" where
  "checkStorageClasses range_order c vm storageMap w =
     (case storageMap of
        None \<Rightarrow> ([], w)
      | Some sm \<Rightarrow> missing_classes c (range_order (needed_classes sm vm)) w)"

definition nad_namespace :: "NetworkDestination \<Rightarrow> string \<Rightarrow> string" where
  "nad_namespace dest targetNS = (if nd_Namespace dest = [] then targetNS else nd_Namespace dest)"

fun missing_nads ::
  "'e KubeClient \<Rightarrow> NetworkMap option \<Rightarrow> string \<Rightarrow> string list \<Rightarrow> NIC list \<Rightarrow> 'e world \<Rightarrow> Concern list \<times> 'e world" where
  "missing_nads c networkMap targetNS checked [] w = ([], w)"
| "missing_nads c networkMap targetNS checked (nic # nics) w =
     (case nic_NetworkRef nic of
        None \<Rightarrow> missing_nads c networkMap targetNS checked nics w
      | Some ref \<Rightarrow>
          (case findNetworkDestination ref networkMap of
             None \<Rightarrow> missing_nads c networkMap targetNS checked nics w
           | Some dest \<Rightarrow>
               if nd_Type dest \<noteq> NetworkDestinationMultus then missing_nads c networkMap targetNS checked nics w
               else let ns = nad_namespace dest targetNS; key = ns @ ''/'' @ nd_Name dest in
                 if key \<in> set checked then missing_nads c networkMap targetNS checked nics w
                 else case Get (kc_GetNetworkAttachment c ns (nd_Name dest)) w of
                     (r, w1) \<Rightarrow>
                       (case missing_nads c networkMap targetNS (key # checked) nics w1 of
                          (concerns, w2) \<Rightarrow>
                            ((case r of
                                Inl err \<Rightarrow> [concern ConcernCategoryError (''Multus NetworkAttachmentDefinition '' @
                                             go_quote (nd_Name dest) @ '' not found in namespace '' @ go_quote ns)]
                              | Inr _ \<Rightarrow> []) @ concerns, w2))))"

definition checkMultusNADs ::
  "'e KubeClient \<Rightarrow> VM \<Rightarrow> NetworkMap option \<Rightarrow> string \<Rightarrow> 'e world \<Rightarrow> Concern list \<times> 'e world" where
  "checkMultusNADs c vm networkMap targetNS w =
     (case networkMap of
        None \<Rightarrow> ([], w)
      | Some nm \<Rightarrow> missing_nads c networkMap targetNS [] (vm_Nics vm) w)"

definition checkCDIInstalled :: "'e KubeClient \<Rightarrow> 'e world \<Rightarrow> Concern list \<times> 'e world" where
  "checkCDIInstalled c w =
     (case Get (kc_GetCRD c cdiCRDName) w of
        (Inl err, w1) \<Rightarrow>
          ([concern ConcernCategoryError ''CDI (Containerized Data Importer) is not installed in the target cluster''], w1)
      | (Inr _, w1) \<Rightarrow> ([], w1))"

definition checkKubeVirtInstalled :: "'e KubeClient \<Rightarrow> 'e world \<Rightarrow> Concern list \<times> 'e world" where
  "checkKubeVirtInstalled c w =
     (case Get (kc_GetCRD c kubevirtCRDName) w of
        (Inl err, w1) \<Rightarrow> ([concern ConcernCategoryError ''KubeVirt is not installed in the target cluster''], w1)
      | (Inr _, w1) \<Rightarrow> ([], w1))"

definition source_concerns :: "VM \<Rightarrow> 'e ValidationOptions \<Rightarrow> Concern list" where
  "source_concerns vm opts =
     checkUnmappedStorage vm (vo_StorageMap opts) @ checkUnmappedNetwork vm (vo_NetworkMap opts) @ checkGPU vm @
     checkVolumeGroupDisks vm @ checkNICTypes vm @ checkMACConflicts vm (vo_ExistingMACs opts) @ checkIDEDisks vm"

definition Validate ::
  "(string list \<Rightarrow> string list) \<Rightarrow> VM \<Rightarrow> 'e ValidationOptions \<Rightarrow> 'e world \<Rightarrow> Concern list \<times> 'e world" where
  "Validate range_order vm opts w =
     (case vo_Client opts of
        None \<Rightarrow> (source_concerns vm opts, w)
      | Some c \<Rightarrow>
          (case checkNamespace c (vo_TargetNamespace opts) w of
             (c1, w1) \<Rightarrow>
          (case checkStorageClasses range_order c vm (vo_StorageMap opts) w1 of
             (c2, w2) \<Rightarrow>
          (case checkMultusNADs c vm (vo_NetworkMap opts) (vo_TargetNamespace opts) w2 of
             (c3, w3) \<Rightarrow>
          (case checkCDIInstalled c w3 of
             (c4, w4) \<Rightarrow>
          (case checkKubeVirtInstalled c w4 of
             (c5, w5) \<Rightarrow> (source_concerns vm opts @ c1 @ c2 @ c3 @ c4 @ c5, w5)))))))"

section \<open>The lookups agree\<close>

text \<open>
  The validator looks up what the migration will use: its copy of the network lookup is the one of
  the VM builder, and its two tests succeed exactly when the builder, or the transfer manager, finds a
  destination.
\<close>

theorem validator_lookups_agree:
  "findNetworkDestination ref networkMap = findNetworkMapping (Some ref) networkMap \<and>
   isNetworkMapped ref networkMap = (findNetworkMapping (Some ref) networkMap \<noteq> None) \<and>
   (disk_container disk = Some sref \<longrightarrow> isStorageMapped sref (Some sm) = (FindStorageMapping disk sm \<noteq> None))"
proof (intro conjI impI)
  have dest: "findNetworkDestination_loop ref ps = findNetworkMapping_loop ref ps" for ps
    by (simp add: network_valid.finder_find net_map.finder_find)
  show net: "findNetworkDestination ref networkMap = findNetworkMapping (Some ref) networkMap"
    by (simp add: findNetworkDestination_def findNetworkMapping_def dest split: option.split)
  show "isNetworkMapped ref networkMap = (findNetworkMapping (Some ref) networkMap \<noteq> None)"
    unfolding net [symmetric]
    by (simp add: isNetworkMapped_def findNetworkDestination_def network_valid.mapped_iff_found split: option.split)
  assume "disk_container disk = Some sref"
  then show "isStorageMapped sref (Some sm) = (FindStorageMapping disk sm \<noteq> None)"
    by (auto simp: isStorageMapped_def FindStorageMapping_def disk_container_def storage_valid.mapped_iff_found split: option.splits)
qed

theorem validator_lookups_agree_witness:
  "disk_container (hd (vm_Disks vm_linux)) = Some \<lparr>ref_ExtID = ''sc-uuid-001'', ref_Name = ''default-container''\<rparr> \<and>
   isStorageMapped \<lparr>ref_ExtID = ''sc-uuid-001'', ref_Name = ''default-container''\<rparr> (Some sample_storage_map) =
     (FindStorageMapping (hd (vm_Disks vm_linux)) sample_storage_map \<noteq> None)"
  using validator_lookups_agree [of "\<lparr>ref_ExtID = ''sc-uuid-001'', ref_Name = ''default-container''\<rparr>" None
      "hd (vm_Disks vm_linux)" "\<lparr>ref_ExtID = ''sc-uuid-001'', ref_Name = ''default-container''\<rparr>" sample_storage_map]
  by (simp add: vm_linux_def fixture_disk_def disk_container_def)

section \<open>Each rule accepts exactly what it should\<close>

lemma HasErrors_simps [simp]:
  "HasErrors [] = False"
  "HasErrors (c # cs) = (con_Category c = ConcernCategoryError \<or> HasErrors cs)"
  "HasErrors (cs @ ds) = (HasErrors cs \<or> HasErrors ds)"
  by (auto simp: HasErrors_def)

lemma HasErrors_concat_map: "HasErrors (concat (map f xs)) = (\<exists>x \<in> set xs. HasErrors (f x))"
  by (induction xs) auto

text \<open>The keys \<^verbatim>\<open>a/b\<close> of the seen-maps are ambiguous when \<^verbatim>\<open>a\<close> may contain a slash.\<close>

definition slash_free :: "string \<Rightarrow> bool" where
  "slash_free s = (CHR ''/'' \<notin> set s)"

lemma slash_key:
  assumes "slash_free a" "slash_free b"
  shows "a @ ''/'' @ c = b @ ''/'' @ d \<longleftrightarrow> a = b \<and> c = d"
proof -
  have "takeWhile (\<lambda>x. x \<noteq> CHR ''/'') (s @ ''/'' @ t) = s" if "slash_free s" for s t
    using that by (induction s) (auto simp: slash_free_def)
  then show ?thesis using assms by (metis same_append_eq)
qed

lemma ref_key_inj: "slash_free (ref_ExtID a) \<Longrightarrow> slash_free (ref_ExtID b) \<Longrightarrow> ref_key a = ref_key b \<longleftrightarrow> a = b"
  unfolding ref_key_def by (cases a; cases b) (simp add: slash_key [simplified])

lemma ref_key_seen:
  "slash_free (ref_ExtID r) \<Longrightarrow> \<forall>s \<in> set rs. slash_free (ref_ExtID s) \<Longrightarrow> ref_key r \<in> set (map ref_key rs) \<longleftrightarrow> r \<in> set rs"
  using ref_key_inj by (auto simp: image_iff)

lemma unmapped_storage_errors:
  assumes "\<forall>d \<in> set disks. \<forall>r. disk_container d = Some r \<longrightarrow> slash_free (ref_ExtID r)"
    and "\<forall>r \<in> set rs. slash_free (ref_ExtID r)"
  shows "HasErrors (unmapped_storage sm (map ref_key rs) disks) \<longleftrightarrow>
    (\<exists>d \<in> set disks. \<not> is_cdrom d \<and> (\<exists>r. disk_container d = Some r \<and> r \<notin> set rs \<and> \<not> isStorageMapped r sm))"
  using assms
proof (induction disks arbitrary: rs)
  case (Cons d ds)
  show ?case
  proof (cases "is_cdrom d \<or> disk_container d = None")
    case True
    then show ?thesis using Cons.IH [of rs] Cons.prems by auto
  next
    case False
    then obtain r where r: "disk_container d = Some r" "\<not> is_cdrom d" by auto
    have plain: "slash_free (ref_ExtID r)" using Cons.prems r by auto
    show ?thesis
    proof (cases "r \<in> set rs")
      case True
      then show ?thesis using Cons.IH [of rs] Cons.prems r ref_key_seen [OF plain Cons.prems(2)] by auto
    next
      case False
      then show ?thesis using Cons.IH [of "r # rs"] Cons.prems r plain ref_key_seen [OF plain Cons.prems(2)] by auto
    qed
  qed
qed simp

lemma unmapped_network_errors:
  assumes "\<forall>n \<in> set nics. \<forall>r. nic_NetworkRef n = Some r \<longrightarrow> slash_free (ref_ExtID r)"
    and "\<forall>r \<in> set rs. slash_free (ref_ExtID r)"
  shows "HasErrors (unmapped_network nm (map ref_key rs) nics) \<longleftrightarrow>
    (\<exists>n \<in> set nics. \<exists>r. nic_NetworkRef n = Some r \<and> r \<notin> set rs \<and> \<not> isNetworkMapped r nm)"
  using assms
proof (induction nics arbitrary: rs)
  case (Cons n ns)
  show ?case
  proof (cases "nic_NetworkRef n")
    case None
    then show ?thesis using Cons.IH [of rs] Cons.prems by auto
  next
    case (Some r)
    have plain: "slash_free (ref_ExtID r)" using Cons.prems Some by auto
    show ?thesis
    proof (cases "r \<in> set rs")
      case True
      then show ?thesis using Cons.IH [of rs] Cons.prems Some ref_key_seen [OF plain Cons.prems(2)] by auto
    next
      case False
      then show ?thesis using Cons.IH [of "r # rs"] Cons.prems Some plain ref_key_seen [OF plain Cons.prems(2)] by auto
    qed
  qed
qed simp

lemma warning_rules [simp]:
  "\<not> HasErrors (checkGPU vm)" "\<not> HasErrors (checkMACConflicts vm macs)" "\<not> HasErrors (checkIDEDisks vm)"
  by (auto simp: checkGPU_def checkMACConflicts_def checkIDEDisks_def HasErrors_concat_map split: option.splits if_splits)

text \<open>A reader that answers without changing anything, as a cached client does.\<close>

definition reads_only :: "'e KubeClient \<Rightarrow> 'e \<Rightarrow> bool" where
  "reads_only k e \<longleftrightarrow>
     (\<forall>n. snd (kc_GetNamespace k n e) = e) \<and> (\<forall>n. snd (kc_GetStorageClass k n e) = e) \<and>
     (\<forall>ns n. snd (kc_GetNetworkAttachment k ns n e) = e) \<and> (\<forall>n. snd (kc_GetCRD k n e) = e)"

lemma Get_reads_only: "snd (f (w_env w)) = w_env w \<Longrightarrow> Get f w = (fst (f (w_env w)), w)"
  by (cases "f (w_env w)") (simp add: op_defs perform_def)

definition found :: "go_error + 'a \<Rightarrow> bool" where
  "found r = (case r of Inl err \<Rightarrow> \<not> IsNotFound err | Inr _ \<Rightarrow> True)"

lemma missing_classes_errors:
  assumes "reads_only k (w_env w)"
  shows "snd (missing_classes k scs w) = w"
    and "HasErrors (fst (missing_classes k scs w)) \<longleftrightarrow> (\<exists>sc \<in> set scs. \<not> found (fst (kc_GetStorageClass k sc (w_env w))))"
  using assms by (induction scs)
    (auto simp: Get_reads_only reads_only_def found_def split: prod.splits sum.splits)

definition needs_nad :: "NetworkMap option \<Rightarrow> string \<Rightarrow> NIC \<Rightarrow> string \<times> string \<Rightarrow> bool" where
  "needs_nad nm tns nic q =
     (\<exists>r dest. nic_NetworkRef nic = Some r \<and> findNetworkDestination r nm = Some dest \<and>
        nd_Type dest = NetworkDestinationMultus \<and> q = (nad_namespace dest tns, nd_Name dest))"

definition nad_absent :: "'e KubeClient \<Rightarrow> 'e \<Rightarrow> string \<times> string \<Rightarrow> bool" where
  "nad_absent k e q = (\<exists>err. fst (kc_GetNetworkAttachment k (fst q) (snd q) e) = Inl err)"

abbreviation nad_key :: "string \<times> string \<Rightarrow> string" where
  "nad_key q \<equiv> fst q @ ''/'' @ snd q"

lemma needs_nad_unique: "needs_nad nm tns nic q \<Longrightarrow> needs_nad nm tns nic q' \<Longrightarrow> q' = q"
  by (auto simp: needs_nad_def)

lemma missing_nads_step:
  assumes "reads_only k (w_env w)"
  shows "(\<nexists>q. needs_nad nm tns nic q) \<Longrightarrow> missing_nads k nm tns keys (nic # nics) w = missing_nads k nm tns keys nics w"
    and "needs_nad nm tns nic q \<Longrightarrow> nad_key q \<in> set keys \<Longrightarrow>
      missing_nads k nm tns keys (nic # nics) w = missing_nads k nm tns keys nics w"
    and "needs_nad nm tns nic q \<Longrightarrow> nad_key q \<notin> set keys \<Longrightarrow> missing_nads k nm tns (nad_key q # keys) nics w = (cs, w) \<Longrightarrow>
      \<exists>cs'. missing_nads k nm tns keys (nic # nics) w = (cs', w) \<and>
        (HasErrors cs' \<longleftrightarrow> nad_absent k (w_env w) q \<or> HasErrors cs)"
proof -
  assume "\<nexists>q. needs_nad nm tns nic q"
  then show "missing_nads k nm tns keys (nic # nics) w = missing_nads k nm tns keys nics w"
    by (auto simp: needs_nad_def split: option.splits)
next
  assume "needs_nad nm tns nic q" "nad_key q \<in> set keys"
  then show "missing_nads k nm tns keys (nic # nics) w = missing_nads k nm tns keys nics w"
    by (auto simp: needs_nad_def Let_def)
next
  have get: "Get (kc_GetNetworkAttachment k ns n) w = (fst (kc_GetNetworkAttachment k ns n (w_env w)), w)" for ns n
    using assms by (intro Get_reads_only) (simp add: reads_only_def)
  assume "needs_nad nm tns nic q" "nad_key q \<notin> set keys" "missing_nads k nm tns (nad_key q # keys) nics w = (cs, w)"
  then show "\<exists>cs'. missing_nads k nm tns keys (nic # nics) w = (cs', w) \<and> (HasErrors cs' \<longleftrightarrow> nad_absent k (w_env w) q \<or> HasErrors cs)"
    by (auto simp: needs_nad_def nad_absent_def Let_def get split: sum.splits)
qed

lemma missing_nads_errors:
  assumes "reads_only k (w_env w)"
    and "\<forall>n \<in> set nics. \<forall>q. needs_nad nm tns n q \<longrightarrow> slash_free (fst q)"
    and "\<forall>q \<in> set qs. slash_free (fst q)"
  shows "\<exists>cs. missing_nads k nm tns (map nad_key qs) nics w = (cs, w) \<and>
    (HasErrors cs \<longleftrightarrow> (\<exists>n \<in> set nics. \<exists>q. needs_nad nm tns n q \<and> q \<notin> set qs \<and> nad_absent k (w_env w) q))"
  using assms(2,3)
proof (induction nics arbitrary: qs)
  case (Cons n ns)
  show ?case
  proof (cases "\<exists>q. needs_nad nm tns n q")
    case False
    then show ?thesis using Cons.IH [of qs] Cons.prems missing_nads_step(1) [OF assms(1)] by auto
  next
    case True
    then obtain q where q: "needs_nad nm tns n q" by blast
    have plain: "slash_free (fst q)" using Cons.prems(1) q by (meson list.set_intros(1))
    have seen: "nad_key q \<in> set (map nad_key qs) \<longleftrightarrow> q \<in> set qs"
      using slash_key [OF plain] Cons.prems(2) by (auto simp: image_iff prod_eq_iff)
    have only: "needs_nad nm tns n q' \<longleftrightarrow> q' = q" for q' using q needs_nad_unique by blast
    show ?thesis
    proof (cases "q \<in> set qs")
      case True
      then have here: "(\<exists>q'. needs_nad nm tns n q' \<and> q' \<notin> set qs \<and> nad_absent k (w_env w) q') = False" by (simp add: only)
      have skip: "missing_nads k nm tns (map nad_key qs) (n # ns) w = missing_nads k nm tns (map nad_key qs) ns w"
        using missing_nads_step(2) [OF assms(1) q] seen True by blast
      show ?thesis unfolding skip list.set bex_simps here using Cons.IH [of qs] Cons.prems by simp
    next
      case False
      obtain cs where cs: "missing_nads k nm tns (nad_key q # map nad_key qs) ns w = (cs, w)"
        "HasErrors cs \<longleftrightarrow> (\<exists>n \<in> set ns. \<exists>q'. needs_nad nm tns n q' \<and> q' \<notin> set (q # qs) \<and> nad_absent k (w_env w) q')"
        using Cons.IH [of "q # qs"] Cons.prems plain by auto
      obtain cs' where cs': "missing_nads k nm tns (map nad_key qs) (n # ns) w = (cs', w)"
        "HasErrors cs' \<longleftrightarrow> nad_absent k (w_env w) q \<or> HasErrors cs"
        using missing_nads_step(3) [OF assms(1) q _ cs(1)] seen False by blast
      have here: "(\<exists>q'. needs_nad nm tns n q' \<and> q' \<notin> set qs \<and> nad_absent k (w_env w) q') = nad_absent k (w_env w) q"
        using False by (simp add: only)
      have "q' \<notin> set (q # qs) \<and> nad_absent k (w_env w) q' \<longleftrightarrow> q' \<notin> set qs \<and> nad_absent k (w_env w) q'"
        if "\<not> nad_absent k (w_env w) q" for q' using that by auto
      then have "HasErrors cs' \<longleftrightarrow> nad_absent k (w_env w) q \<or>
          (\<exists>n \<in> set ns. \<exists>q'. needs_nad nm tns n q' \<and> q' \<notin> set qs \<and> nad_absent k (w_env w) q')"
        unfolding cs'(2) cs(2) by (cases "nad_absent k (w_env w) q") simp_all
      then show ?thesis unfolding cs'(1) list.set(2) bex_simps here by blast
    qed
  qed
qed simp

section \<open>Acceptance\<close>

text \<open>
  The specification. A VM is accepted on the source side when the transfer manager finds a
  destination for each of its data disks, the builder one for each of its connected NICs, and no NIC
  is a network function; on the target side when nothing the migration needs is missing: the namespace,
  each StorageClass of a matching pair, each network attachment, CDI and KubeVirt.
\<close>

definition source_ok :: "VM \<Rightarrow> NetworkMap \<Rightarrow> StorageMap \<Rightarrow> bool" where
  "source_ok vm nm sm \<longleftrightarrow>
     (\<forall>d \<in> set (vm_Disks vm). \<not> is_cdrom d \<longrightarrow> FindStorageMapping d sm \<noteq> None) \<and>
     (\<forall>nic \<in> set (vm_Nics vm). nic_NetworkRef nic \<noteq> None \<longrightarrow> findNetworkMapping (nic_NetworkRef nic) (Some nm) \<noteq> None) \<and>
     (\<forall>nic \<in> set (vm_Nics vm). ToUpper (nic_NicType nic) \<noteq> nicTypeNetFunc)"

definition target_ok :: "'e KubeClient \<Rightarrow> 'e \<Rightarrow> string \<Rightarrow> VM \<Rightarrow> NetworkMap \<Rightarrow> StorageMap \<Rightarrow> bool" where
  "target_ok k e tns vm nm sm \<longleftrightarrow>
     found (fst (kc_GetNamespace k tns e)) \<and>
     (\<forall>d \<in> set (vm_Disks vm). \<forall>sc \<in> set (matching_classes sm d). found (fst (kc_GetStorageClass k sc e))) \<and>
     (\<forall>nic \<in> set (vm_Nics vm). \<forall>dest. findNetworkMapping (nic_NetworkRef nic) (Some nm) = Some dest \<and>
        nd_Type dest = NetworkDestinationMultus \<longrightarrow>
        fst (kc_GetNetworkAttachment k (nad_namespace dest tns) (nd_Name dest) e) = Inr ()) \<and>
     fst (kc_GetCRD k cdiCRDName e) = Inr () \<and> fst (kc_GetCRD k kubevirtCRDName e) = Inr ()"

definition plain_ids :: "VM \<Rightarrow> NetworkMap \<Rightarrow> string \<Rightarrow> bool" where
  "plain_ids vm nm tns \<longleftrightarrow>
     (\<forall>d \<in> set (vm_Disks vm). \<forall>r. disk_container d = Some r \<longrightarrow> slash_free (ref_ExtID r)) \<and>
     (\<forall>nic \<in> set (vm_Nics vm). \<forall>r. nic_NetworkRef nic = Some r \<longrightarrow> slash_free (ref_ExtID r)) \<and>
     (\<forall>p \<in> set (nm_Map nm). slash_free (nd_Namespace (np_Destination p))) \<and> slash_free tns"

lemma disk_mapped_iff:
  "FindStorageMapping d sm \<noteq> None \<longleftrightarrow> (\<exists>r. disk_container d = Some r \<and> isStorageMapped r (Some sm))"
  by (auto simp: isStorageMapped_def FindStorageMapping_def disk_container_def storage_valid.mapped_iff_found split: option.splits)

lemma disk_unmapped_iff:
  "FindStorageMapping d sm = None \<longleftrightarrow>
     disk_container d = None \<or> (\<exists>r. disk_container d = Some r \<and> \<not> isStorageMapped r (Some sm))"
  using disk_mapped_iff [of d sm] by (cases "disk_container d") auto

lemma network_mapped_iff: "isNetworkMapped r (Some nm) \<longleftrightarrow> findNetworkMapping (Some r) (Some nm) \<noteq> None"
  by (simp add: isNetworkMapped_def findNetworkMapping_def network_valid.mapped_iff_found
      network_valid.finder_find net_map.finder_find)

lemma findNetworkDestination_eq: "findNetworkDestination r (Some nm) = findNetworkMapping (Some r) (Some nm)"
  by (simp add: findNetworkDestination_def findNetworkMapping_def network_valid.finder_find net_map.finder_find)

lemma findNetworkMapping_None [simp]: "findNetworkMapping None nm = None"
  by (simp add: findNetworkMapping_def)

lemma source_concerns_errors:
  assumes "vo_NetworkMap opts = Some nm" "vo_StorageMap opts = Some sm" "plain_ids vm nm tns"
  shows "HasErrors (source_concerns vm opts) \<longleftrightarrow> \<not> source_ok vm nm sm"
proof -
  have st: "HasErrors (checkUnmappedStorage vm (Some sm)) \<longleftrightarrow>
      (\<exists>d \<in> set (vm_Disks vm). \<not> is_cdrom d \<and> (\<exists>r. disk_container d = Some r \<and> \<not> isStorageMapped r (Some sm)))"
    using unmapped_storage_errors [of "vm_Disks vm" "[]" "Some sm"] assms(3)
    by (simp add: checkUnmappedStorage_def plain_ids_def)
  have nw: "HasErrors (checkUnmappedNetwork vm (Some nm)) \<longleftrightarrow>
      (\<exists>n \<in> set (vm_Nics vm). \<exists>r. nic_NetworkRef n = Some r \<and> \<not> isNetworkMapped r (Some nm))"
    using unmapped_network_errors [of "vm_Nics vm" "[]" "Some nm"] assms(3)
    by (simp add: checkUnmappedNetwork_def plain_ids_def)
  have vg: "HasErrors (checkVolumeGroupDisks vm) \<longleftrightarrow> (\<exists>d \<in> set (vm_Disks vm). \<not> is_cdrom d \<and> disk_container d = None)"
    by (auto simp: checkVolumeGroupDisks_def HasErrors_concat_map)
  have ni: "HasErrors (checkNICTypes vm) \<longleftrightarrow> (\<exists>n \<in> set (vm_Nics vm). ToUpper (nic_NicType n) = nicTypeNetFunc)"
    unfolding checkNICTypes_def HasErrors_concat_map by (rule bex_cong [OF refl]) simp
  have "(\<exists>d \<in> set (vm_Disks vm). \<not> is_cdrom d \<and> FindStorageMapping d sm = None) \<longleftrightarrow>
      HasErrors (checkUnmappedStorage vm (Some sm)) \<or> HasErrors (checkVolumeGroupDisks vm)"
    unfolding st vg disk_unmapped_iff by blast
  moreover have "(\<exists>n \<in> set (vm_Nics vm). nic_NetworkRef n \<noteq> None \<and> findNetworkMapping (nic_NetworkRef n) (Some nm) = None) \<longleftrightarrow>
      HasErrors (checkUnmappedNetwork vm (Some nm))"
    unfolding nw network_mapped_iff by fastforce
  ultimately show ?thesis using ni assms(1,2) by (simp add: source_concerns_def source_ok_def) blast
qed

text \<open>
  What validation accepts. With a reader that answers without changing the cluster, with
  container, subnet and namespace identifiers without slashes, and whatever order Go iterates a map in,
  the concerns of a VM contain no error exactly when the transfer manager has a destination for every
  data disk, the builder one for every connected NIC, no NIC is a network function, and the namespace,
  the StorageClasses, the network attachments, CDI and KubeVirt that the migration needs are there.
\<close>

theorem Validate_accepts_iff:
  assumes "vo_Client opts = Some k" "vo_NetworkMap opts = Some nm" "vo_StorageMap opts = Some sm"
    and "reads_only k (w_env w)" and "plain_ids vm nm (vo_TargetNamespace opts)"
    and "\<And>xs. set (range_order xs) = set xs"
  shows "\<exists>concerns. Validate range_order vm opts w = (concerns, w) \<and>
    (\<not> HasErrors concerns \<longleftrightarrow> source_ok vm nm sm \<and> target_ok k (w_env w) (vo_TargetNamespace opts) vm nm sm)"
proof -
  let ?tns = "vo_TargetNamespace opts" and ?e = "w_env w"
  have get: "Get (kc_GetNamespace k n) w = (fst (kc_GetNamespace k n ?e), w)"
    "Get (kc_GetCRD k n) w = (fst (kc_GetCRD k n ?e), w)" for n
    using assms(4) by (auto intro!: Get_reads_only simp: reads_only_def)
  obtain c1 where c1: "checkNamespace k ?tns w = (c1, w)" "HasErrors c1 \<longleftrightarrow> \<not> found (fst (kc_GetNamespace k ?tns ?e))"
    by (cases "fst (kc_GetNamespace k ?tns ?e)") (auto simp: checkNamespace_def get found_def)
  obtain c2 where c2: "checkStorageClasses range_order k vm (Some sm) w = (c2, w)"
    "HasErrors c2 \<longleftrightarrow> (\<exists>d \<in> set (vm_Disks vm). \<exists>sc \<in> set (matching_classes sm d). \<not> found (fst (kc_GetStorageClass k sc ?e)))"
    using missing_classes_errors [OF assms(4), of "range_order (needed_classes sm vm)"] assms(6)
    by (cases "missing_classes k (range_order (needed_classes sm vm)) w") (simp add: checkStorageClasses_def needed_classes_def)
  have needs: "needs_nad (Some nm) ?tns n q \<longleftrightarrow> (\<exists>dest. findNetworkMapping (nic_NetworkRef n) (Some nm) = Some dest \<and>
      nd_Type dest = NetworkDestinationMultus \<and> q = (nad_namespace dest ?tns, nd_Name dest))" for n q
    by (cases "nic_NetworkRef n") (auto simp: needs_nad_def findNetworkDestination_eq)
  have "slash_free (fst q)" if nad: "needs_nad (Some nm) ?tns n q" for n q
  proof -
    obtain dest where dest: "findNetworkMapping (nic_NetworkRef n) (Some nm) = Some dest" "fst q = nad_namespace dest ?tns"
      using needs [THEN iffD1, OF nad] by auto
    then have "dest \<in> np_Destination ` set (nm_Map nm)"
      using net_map.finder_dest by (auto simp: findNetworkMapping_def split: option.splits)
    then show ?thesis using dest(2) assms(5) by (auto simp: plain_ids_def nad_namespace_def)
  qed
  then obtain c3 where c3: "checkMultusNADs k vm (Some nm) ?tns w = (c3, w)"
    "HasErrors c3 \<longleftrightarrow> (\<exists>n \<in> set (vm_Nics vm). \<exists>q. needs_nad (Some nm) ?tns n q \<and> nad_absent k ?e q)"
    using missing_nads_errors [OF assms(4), of "vm_Nics vm" "Some nm" ?tns "[]"] by (auto simp: checkMultusNADs_def)
  obtain c4 where c4: "checkCDIInstalled k w = (c4, w)" "HasErrors c4 \<longleftrightarrow> fst (kc_GetCRD k cdiCRDName ?e) \<noteq> Inr ()"
    by (cases "fst (kc_GetCRD k cdiCRDName ?e)") (auto simp: checkCDIInstalled_def get)
  obtain c5 where c5: "checkKubeVirtInstalled k w = (c5, w)" "HasErrors c5 \<longleftrightarrow> fst (kc_GetCRD k kubevirtCRDName ?e) \<noteq> Inr ()"
    by (cases "fst (kc_GetCRD k kubevirtCRDName ?e)") (auto simp: checkKubeVirtInstalled_def get)
  have absent: "nad_absent k ?e q \<longleftrightarrow> fst (kc_GetNetworkAttachment k (fst q) (snd q) ?e) \<noteq> Inr ()" for q
    by (cases "fst (kc_GetNetworkAttachment k (fst q) (snd q) ?e)") (auto simp: nad_absent_def)
  have target: "target_ok k ?e ?tns vm nm sm \<longleftrightarrow> \<not> (HasErrors c1 \<or> HasErrors c2 \<or> HasErrors c3 \<or> HasErrors c4 \<or> HasErrors c5)"
    unfolding target_ok_def c1(2) c2(2) c3(2) c4(2) c5(2) needs absent by auto
  have run: "Validate range_order vm opts w = (source_concerns vm opts @ c1 @ c2 @ c3 @ c4 @ c5, w)"
    by (simp add: Validate_def assms(1-3) c1(1) c2(1) c3(1) c4(1) c5(1))
  show ?thesis unfolding run target using source_concerns_errors [OF assms(2,3,5)] by simp
qed

definition sim_validation :: "MigrationPlan \<Rightarrow> sim ValidationOptions" where
  "sim_validation plan =
     \<lparr>vo_NetworkMap = Some sample_network_map, vo_StorageMap = Some sample_storage_map, vo_ExistingVMs = [],
      vo_ExistingMACs = [], vo_TargetNamespace = ''apps'', vo_Client = Some (sim_kube plan)\<rparr>"

lemma sim_reads_only: "reads_only (sim_kube plan) (e :: sim)"
  by (simp add: reads_only_def sim_kube_def)

lemma sim_plain_ids: "plain_ids vm_linux sample_network_map ''apps''"
  by (simp add: plain_ids_def vm_linux_def fixture_disk_def fixture_nic_def sample_network_map_def disk_container_def slash_free_def)

lemma sim_source_ok: "source_ok vm_linux sample_network_map sample_storage_map"
  by (simp add: source_ok_def vm_linux_def fixture_disk_def fixture_nic_def sample_network_map_def sample_storage_map_def
      FindStorageMapping_def findNetworkMapping_def is_cdrom_def upper_char_def is_lower_def)

lemma sim_target_ok: "target_ok (sim_kube plan) (e :: sim) ''apps'' vm_linux sample_network_map sample_storage_map"
  by (simp add: target_ok_def sim_kube_def found_def)

theorem Validate_accepts_iff_witness:
  "\<exists>concerns. Validate rev vm_linux (sim_validation (sim_plan MigrationTypeCold TargetPowerStateStopped)) (sim_world True) =
     (concerns, sim_world True) \<and> \<not> HasErrors concerns"
  using Validate_accepts_iff [of "sim_validation (sim_plan MigrationTypeCold TargetPowerStateStopped)"
      "sim_kube (sim_plan MigrationTypeCold TargetPowerStateStopped)" sample_network_map sample_storage_map "sim_world True" vm_linux rev]
    sim_reads_only sim_plain_ids sim_source_ok sim_target_ok
  by (simp add: sim_validation_def)

end
