(* ===== verification/Plan_Controller.thy ===== *)
theory Plan_Controller
  imports Validation Migration_Controller
begin

text \<open>
  The plan controller (\<^verbatim>\<open>internal/controller/plan_controller.go\<close>): it resolves the references of a
  MigrationPlan, validates each of its VMs and stores the verdict. A plan that carries a \<^verbatim>\<open>Validated\<close>
  condition of its current generation is skipped.
\<close>

abbreviation conditionTypeValidated :: string where "conditionTypeValidated \<equiv> ''Validated''"

record 'e PlanReconciler =
  plr_Client :: "'e KubeClient"
  plr_ClientFactory :: "ClientConfig \<Rightarrow> go_error + 'e NutanixClient"

definition plan_condition :: "MigrationPlan \<Rightarrow> ConditionStatus \<Rightarrow> string \<Rightarrow> string \<Rightarrow> MigrationPlan" where
  "plan_condition plan status reason msg =
     plan\<lparr>plan_Conditions := SetStatusCondition (plan_Conditions plan)
       \<lparr>cond_Type = conditionTypeValidated, cond_Status = status, cond_Reason = reason, cond_Message = msg,
        cond_ObservedGeneration = plan_Generation plan\<rparr>\<rparr>"

definition setPlanError ::
  "'e PlanReconciler \<Rightarrow> MigrationPlan \<Rightarrow> string \<Rightarrow> string \<Rightarrow> 'e world \<Rightarrow> (ctrl_Result \<times> go_error option) \<times> 'e world" where
  "setPlanError r plan reason message w =
     (case StatusUpdatePlan (plr_Client r)
             (plan_condition (plan\<lparr>plan_Phase := PlanPhaseError\<rparr>) ConditionFalse reason message) w of
        (Some err, w1) \<Rightarrow> ((no_requeue, Some err), w1)
      | (None, w1) \<Rightarrow> ((\<lparr>cres_Requeue = False, cres_RequeueAfter = 60000000000\<rparr>, None), w1))"

definition already_validated :: "MigrationPlan \<Rightarrow> bool" where
  "already_validated plan =
     (\<exists>c \<in> set (plan_Conditions plan). cond_Type c = conditionTypeValidated \<and> cond_ObservedGeneration c = plan_Generation plan)"

text \<open>The references of the plan; an error is the reason and the message of the condition.\<close>

definition resolve_plan_refs ::
  "'e PlanReconciler \<Rightarrow> MigrationPlan \<Rightarrow> 'e world \<Rightarrow>
     ((string \<times> string) + ('e NutanixClient \<times> NetworkMap \<times> StorageMap)) \<times> 'e world" where
  "resolve_plan_refs r plan w =
     (let k = plr_Client r; ns = plan_Namespace plan;
          missing = (\<lambda>what name err. what @ '' '' @ go_quote name @ '' not found: '' @ err_msg err)
      in case Get (kc_GetProvider k ns (plan_ProviderRef plan)) w of
          (Inl err, w1) \<Rightarrow> (Inl (''ProviderNotFound'', missing ''Provider'' (plan_ProviderRef plan) err), w1)
        | (Inr provider, w1) \<Rightarrow>
      (case Get (kc_GetSecret k (prov_Namespace provider) (prov_SecretRef provider)) w1 of
          (Inl err, w2) \<Rightarrow> (Inl (''SecretNotFound'', missing ''Provider secret'' (prov_SecretRef provider) err), w2)
        | (Inr secret, w2) \<Rightarrow>
      (let username = map_get (sec_Data secret) ''username''; password = map_get (sec_Data secret) ''password'' in
       if username = [] \<or> password = [] then
         (Inl (''InvalidCredentials'', ''Provider secret must contain non-empty '' @ [CHR 0x27] @ ''username'' @ [CHR 0x27] @
            '' and '' @ [CHR 0x27] @ ''password'' @ [CHR 0x27] @ '' keys''), w2)
       else
      (case plr_ClientFactory r \<lparr>cfg_Host = prov_URL provider, cfg_Username = username, cfg_Password = password,
                                 cfg_InsecureSkipVerify = prov_InsecureSkipVerify provider\<rparr> of
          Inl err \<Rightarrow> (Inl (''ClientError'', ''Failed to create Nutanix client: '' @ err_msg err), w2)
        | Inr nxClient \<Rightarrow>
      (case Get (kc_GetNetworkMap k ns (plan_NetworkMapRef plan)) w2 of
          (Inl err, w3) \<Rightarrow> (Inl (''NetworkMapNotFound'', missing ''NetworkMap'' (plan_NetworkMapRef plan) err), w3)
        | (Inr networkMap, w3) \<Rightarrow>
      (case Get (kc_GetStorageMap k ns (plan_StorageMapRef plan)) w3 of
          (Inl err, w4) \<Rightarrow> (Inl (''StorageMapNotFound'', missing ''StorageMap'' (plan_StorageMapRef plan) err), w4)
        | (Inr storageMap, w4) \<Rightarrow> (Inr (nxClient, networkMap, storageMap), w4)))))))"

definition plan_validation_options :: "'e PlanReconciler \<Rightarrow> MigrationPlan \<Rightarrow> NetworkMap \<Rightarrow> StorageMap \<Rightarrow> 'e ValidationOptions" where
  "plan_validation_options r plan networkMap storageMap =
     \<lparr>vo_NetworkMap = Some networkMap, vo_StorageMap = Some storageMap, vo_ExistingVMs = [], vo_ExistingMACs = [],
      vo_TargetNamespace = plan_TargetNamespace plan, vo_Client = Some (plr_Client r)\<rparr>"

fun validate_vms ::
  "(string list \<Rightarrow> string list) \<Rightarrow> 'e NutanixClient \<Rightarrow> 'e ValidationOptions \<Rightarrow> PlanVM list \<Rightarrow> 'e world \<Rightarrow>
     VMValidationStatus list \<times> bool \<times> 'e world" where
  "validate_vms range_order nx opts [] w = ([], False, w)"
| "validate_vms range_order nx opts (planVM # planVMs) w =
     (case GetVM nx (pvm_ID planVM) w of
        (Inl vmErr, w1) \<Rightarrow>
          (case validate_vms range_order nx opts planVMs w1 of
             (statuses, hasErrors, w2) \<Rightarrow>
               (\<lparr>vvs_ID = pvm_ID planVM, vvs_Name = pvm_Name planVM,
                 vvs_Concerns = [concern ConcernCategoryError (''Failed to fetch VM from Nutanix: '' @ err_msg vmErr)]\<rparr> # statuses,
                True, w2))
      | (Inr vm, w1) \<Rightarrow>
          (case Validate range_order vm opts w1 of
             (concerns, w2) \<Rightarrow>
               (case validate_vms range_order nx opts planVMs w2 of
                  (statuses, hasErrors, w3) \<Rightarrow>
                    (\<lparr>vvs_ID = pvm_ID planVM, vvs_Name = (if pvm_Name planVM = [] then vm_Name vm else pvm_Name planVM),
                      vvs_Concerns = concerns\<rparr> # statuses,
                     HasErrors concerns \<or> hasErrors, w3))))"

definition plan_verdict :: "MigrationPlan \<Rightarrow> VMValidationStatus list \<Rightarrow> bool \<Rightarrow> MigrationPlan" where
  "plan_verdict plan statuses hasErrors =
     (let p1 = plan\<lparr>plan_StatusVMs := statuses\<rparr> in
      if hasErrors
      then plan_condition (p1\<lparr>plan_Phase := PlanPhaseError\<rparr>) ConditionFalse ''ValidationFailed'' ''One or more VMs have validation errors''
      else plan_condition (p1\<lparr>plan_Phase := PlanPhaseReady\<rparr>) ConditionTrue ''ValidationPassed''
             (''All '' @ show_nat (length (plan_VMs plan)) @ '' VMs validated successfully''))"

definition PlanReconcile ::
  "(string list \<Rightarrow> string list) \<Rightarrow> 'e PlanReconciler \<Rightarrow> string \<Rightarrow> string \<Rightarrow> 'e world \<Rightarrow> (ctrl_Result \<times> go_error option) \<times> 'e world" where
  "PlanReconcile range_order r namespace name w =
     (case Get (kc_GetPlan (plr_Client r) namespace name) w of
        (Inl err, w1) \<Rightarrow> ((no_requeue, if IsNotFound err then None else Some err), w1)
      | (Inr plan, w1) \<Rightarrow>
          if already_validated plan then ((no_requeue, None), w1)
          else let p1 = plan\<lparr>plan_Phase := PlanPhaseValidating\<rparr> in
            (case StatusUpdatePlan (plr_Client r) p1 w1 of
               (Some err, w2) \<Rightarrow> ((no_requeue, Some err), w2)
             | (None, w2) \<Rightarrow>
                 (case resolve_plan_refs r p1 w2 of
                    (Inl (reason, message), w3) \<Rightarrow> setPlanError r p1 reason message w3
                  | (Inr (nxClient, networkMap, storageMap), w3) \<Rightarrow>
                      (case validate_vms range_order nxClient (plan_validation_options r p1 networkMap storageMap) (plan_VMs p1) w3 of
                         (statuses, hasErrors, w4) \<Rightarrow>
                           (case StatusUpdatePlan (plr_Client r) (plan_verdict p1 statuses hasErrors) w4 of
                              (err, w5) \<Rightarrow> ((no_requeue, err), w5))))))"

section \<open>Validation reads only\<close>

lemma validation_frame [simp]:
  "w_trace (snd (Get f w)) = w_trace w"
  by (simp add: op_defs perform_def split: prod.splits)

lemma checks_frame:
  "checkNamespace c n w = (cs, w') \<Longrightarrow> w_trace w' = w_trace w"
  "checkCDIInstalled c w = (cs, w') \<Longrightarrow> w_trace w' = w_trace w"
  "checkKubeVirtInstalled c w = (cs, w') \<Longrightarrow> w_trace w' = w_trace w"
  by (auto simp: checkNamespace_def checkCDIInstalled_def checkKubeVirtInstalled_def dest!: call_trace split: prod.splits sum.splits)

lemma missing_classes_frame: "missing_classes c scs w = (cs, w') \<Longrightarrow> w_trace w' = w_trace w"
proof (induction scs arbitrary: cs w w')
  case (Cons sc scs)
  obtain r w1 where g: "Get (kc_GetStorageClass c sc) w = (r, w1)" by fastforce
  obtain cs1 w2 where m: "missing_classes c scs w1 = (cs1, w2)" by fastforce
  then show ?case using Cons.prems Cons.IH [OF m] g call_trace(17) [OF g] by simp
qed simp

lemma missing_nads_frame: "missing_nads c nm tns keys nics w = (cs, w') \<Longrightarrow> w_trace w' = w_trace w"
proof (induction nics arbitrary: keys cs w w')
  case (Cons nic nics)
  show ?case
  proof (cases "\<exists>r dest. nic_NetworkRef nic = Some r \<and> findNetworkDestination r nm = Some dest \<and>
      nd_Type dest = NetworkDestinationMultus \<and> nad_namespace dest tns @ ''/'' @ nd_Name dest \<notin> set keys")
    case False
    then have "missing_nads c nm tns keys (nic # nics) w = missing_nads c nm tns keys nics w"
      by (auto simp: Let_def split: option.splits)
    then show ?thesis using Cons by simp
  next
    case True
    then obtain r dest where d: "nic_NetworkRef nic = Some r" "findNetworkDestination r nm = Some dest"
      "nd_Type dest = NetworkDestinationMultus" "nad_namespace dest tns @ ''/'' @ nd_Name dest \<notin> set keys" by blast
    obtain g w1 where g: "Get (kc_GetNetworkAttachment c (nad_namespace dest tns) (nd_Name dest)) w = (g, w1)" by fastforce
    obtain cs1 w2 where m: "missing_nads c nm tns ((nad_namespace dest tns @ ''/'' @ nd_Name dest) # keys) nics w1 = (cs1, w2)" by fastforce
    then show ?thesis using Cons.prems Cons.IH [OF m] d g call_trace(17) [OF g] by (simp add: Let_def)
  qed
qed simp

lemma Validate_frame:
  assumes "Validate ro vm opts w = (cs, w')"
  shows "w_trace w' = w_trace w"
proof -
  have nads: "checkMultusNADs c vm nm tns w = (cs, w') \<Longrightarrow> w_trace w' = w_trace w" for c nm tns w cs w'
    using missing_nads_frame by (auto simp: checkMultusNADs_def split: option.splits)
  have classes: "checkStorageClasses ro c vm sm w = (cs, w') \<Longrightarrow> w_trace w' = w_trace w" for c sm w cs w'
    using missing_classes_frame by (auto simp: checkStorageClasses_def split: option.splits)
  show ?thesis using assms by (auto simp: Validate_def dest!: checks_frame nads classes split: option.splits prod.splits)
qed

lemma validate_vms_frame: "validate_vms ro nx opts vms w = (st, e, w') \<Longrightarrow> w_trace w' = w_trace w"
proof (induction vms arbitrary: st e w w')
  case (Cons v vs)
  then show ?case by (fastforce dest: call_trace(1) Validate_frame split: sum.splits prod.splits)
qed simp

lemma resolve_plan_refs_frame: "resolve_plan_refs r plan w = (x, w') \<Longrightarrow> w_trace w' = w_trace w"
  by (auto simp: resolve_plan_refs_def Let_def dest!: call_trace(17) split: prod.splits sum.splits if_splits)

section \<open>The verdict\<close>

lemma plan_condition_fields [simp]:
  "plan_Phase (plan_condition p s rs msg) = plan_Phase p"
  "plan_StatusVMs (plan_condition p s rs msg) = plan_StatusVMs p"
  "plan_Generation (plan_condition p s rs msg) = plan_Generation p"
  "plan_VMs (plan_condition p s rs msg) = plan_VMs p"
  "already_validated (plan_condition p s rs msg)"
  by (auto simp: plan_condition_def already_validated_def intro!: bexI [OF _ SetStatusCondition_in])

lemma plan_verdict_fields [simp]:
  "plan_Phase (plan_verdict p st e) = (if e then PlanPhaseError else PlanPhaseReady)"
  "plan_StatusVMs (plan_verdict p st e) = st"
  "already_validated (plan_verdict p st e)"
  by (simp_all add: plan_verdict_def Let_def)

lemma validate_vms_spec:
  "validate_vms ro nx opts vms w = (st, e, w') \<Longrightarrow>
     map vvs_ID st = map pvm_ID vms \<and> (e \<longleftrightarrow> (\<exists>s \<in> set st. HasErrors (vvs_Concerns s)))"
proof (induction vms arbitrary: st e w w')
  case (Cons v vs)
  obtain g w1 where g: "GetVM nx (pvm_ID v) w = (g, w1)" by fastforce
  show ?case
  proof (cases g)
    case (Inl err)
    obtain st1 e1 w2 where m: "validate_vms ro nx opts vs w1 = (st1, e1, w2)" by (metis prod_cases3)
    then show ?thesis using Cons.prems Cons.IH [OF m] g Inl by auto
  next
    case (Inr vm)
    obtain cs w2 where v: "Validate ro vm opts w1 = (cs, w2)" by fastforce
    obtain st1 e1 w3 where m: "validate_vms ro nx opts vs w2 = (st1, e1, w3)" by (metis prod_cases3)
    then show ?thesis using Cons.prems Cons.IH [OF m] g v Inr by auto
  qed
qed simp

text \<open>
  The verdict of the plan controller. A plan whose current generation was not validated gets, when
  no write fails, exactly two status updates: \<^verbatim>\<open>Validating\<close>, then a verdict that carries a \<^verbatim>\<open>Validated\<close>
  condition of the current generation. The verdict is \<^verbatim>\<open>Ready\<close> only with one entry per VM of the plan, in
  order, none of which has an error; it is \<^verbatim>\<open>Error\<close> only if some entry has one or a reference could not be
  resolved, in which case a retry is requested after a minute.
\<close>

theorem PlanReconcile_verdict:
  assumes "Get (kc_GetPlan (plr_Client r) ns name) w = (Inr plan, w1)" and "\<not> already_validated plan"
    and "PlanReconcile range_order r ns name w = ((res, None), w')"
  shows "\<exists>final. new_effects w w' = [EPlanStatus (plan\<lparr>plan_Phase := PlanPhaseValidating\<rparr>) None, EPlanStatus final None] \<and>
    already_validated final \<and> plan_Phase final \<in> {PlanPhaseReady, PlanPhaseError} \<and>
    (plan_Phase final = PlanPhaseReady \<longrightarrow>
       map vvs_ID (plan_StatusVMs final) = map pvm_ID (plan_VMs plan) \<and>
       (\<forall>s \<in> set (plan_StatusVMs final). \<not> HasErrors (vvs_Concerns s))) \<and>
    (plan_Phase final = PlanPhaseError \<longrightarrow>
       cres_RequeueAfter res = 60000000000 \<or> (\<exists>s \<in> set (plan_StatusVMs final). HasErrors (vvs_Concerns s)))"
proof -
  let ?p1 = "plan\<lparr>plan_Phase := PlanPhaseValidating\<rparr>"
  obtain e2 w2 where u: "StatusUpdatePlan (plr_Client r) ?p1 w1 = (e2, w2)" by fastforce
  have e2: "e2 = None" using assms u by (cases e2) (auto simp: PlanReconcile_def)
  have t2: "w_trace w2 = w_trace w @ [EPlanStatus ?p1 None]"
    using call_trace(19) [OF u] call_trace(17) [OF assms(1)] e2 by simp
  obtain x w3 where x: "resolve_plan_refs r ?p1 w2 = (x, w3)" by fastforce
  have t3: "w_trace w3 = w_trace w2" by (rule resolve_plan_refs_frame [OF x])
  show ?thesis
  proof (cases x)
    case (Inl bad)
    obtain reason msg where bad: "bad = (reason, msg)" by fastforce
    let ?final = "plan_condition (?p1\<lparr>plan_Phase := PlanPhaseError\<rparr>) ConditionFalse reason msg"
    obtain e4 w4 where u4: "StatusUpdatePlan (plr_Client r) ?final w3 = (e4, w4)" by fastforce
    have run: "e4 = None" "w' = w4" "cres_RequeueAfter res = 60000000000"
      using assms u u4 e2 x Inl bad by (auto simp: PlanReconcile_def setPlanError_def split: option.splits)
    have "w_trace w' = w_trace w @ [EPlanStatus ?p1 None, EPlanStatus ?final None]"
      using call_trace(19) [OF u4] t2 t3 run by simp
    then show ?thesis using run(3) by (intro exI [of _ ?final]) (simp add: new_effects_append)
  next
    case (Inr good)
    obtain nx nm sm where good: "good = (nx, nm, sm)" by (metis prod_cases3)
    obtain st e w4 where v: "validate_vms range_order nx (plan_validation_options r ?p1 nm sm) (plan_VMs plan) w3 = (st, e, w4)"
      by (metis prod_cases3)
    let ?final = "plan_verdict ?p1 st e"
    obtain e5 w5 where u5: "StatusUpdatePlan (plr_Client r) ?final w4 = (e5, w5)" by fastforce
    have run: "e5 = None" "w' = w5" using assms u u5 e2 x Inr good v by (auto simp: PlanReconcile_def)
    have "w_trace w' = w_trace w @ [EPlanStatus ?p1 None, EPlanStatus ?final None]"
      using call_trace(19) [OF u5] validate_vms_frame [OF v] t2 t3 run by simp
    then show ?thesis using validate_vms_spec [OF v] by (intro exI [of _ ?final]) (auto simp: new_effects_append)
  qed
qed

text \<open>
  C34. A failed plan is not retried. When a reference cannot be resolved, also because of a transient
  error, the controller asks to be run again after a minute, but the error it stores carries a
  \<^verbatim>\<open>Validated\<close> condition of the current generation: every later reconcile that reads the stored plan
  returns at once, without an effect and without a further retry.
\<close>

theorem plan_resolution_error_never_retried:
  assumes "Get (kc_GetPlan (plr_Client r) ns name) w = (Inr plan, w1)" and "\<not> already_validated plan"
    and "StatusUpdatePlan (plr_Client r) (plan\<lparr>plan_Phase := PlanPhaseValidating\<rparr>) w1 = (None, w2)"
    and "resolve_plan_refs r (plan\<lparr>plan_Phase := PlanPhaseValidating\<rparr>) w2 = (Inl (reason, msg), w3)"
    and "PlanReconcile range_order r ns name w = ((res, None), w')"
  shows "cres_RequeueAfter res = 60000000000 \<and>
    (\<exists>stored. last (new_effects w w') = EPlanStatus stored None \<and> plan_Phase stored = PlanPhaseError \<and>
       (\<forall>r' w4 w5. Get (kc_GetPlan (plr_Client r') ns name) w4 = (Inr stored, w5) \<longrightarrow>
          PlanReconcile range_order r' ns name w4 = ((no_requeue, None), w5) \<and> w_trace w5 = w_trace w4))"
proof -
  let ?p1 = "plan\<lparr>plan_Phase := PlanPhaseValidating\<rparr>"
  let ?final = "plan_condition (?p1\<lparr>plan_Phase := PlanPhaseError\<rparr>) ConditionFalse reason msg"
  obtain e4 w4 where u4: "StatusUpdatePlan (plr_Client r) ?final w3 = (e4, w4)" by fastforce
  have run: "e4 = None" "w' = w4" "cres_RequeueAfter res = 60000000000"
    using assms u4 by (auto simp: PlanReconcile_def setPlanError_def split: option.splits)
  have "w_trace w' = w_trace w @ [EPlanStatus ?p1 None, EPlanStatus ?final None]"
    using call_trace(19) [OF u4] call_trace(19) [OF assms(3)] call_trace(17) [OF assms(1)] resolve_plan_refs_frame [OF assms(4)] run
    by simp
  then have "last (new_effects w w') = EPlanStatus ?final None" by (simp add: new_effects_append)
  moreover have "PlanReconcile range_order r' ns name w4 = ((no_requeue, None), w5) \<and> w_trace w5 = w_trace w4"
    if "Get (kc_GetPlan (plr_Client r') ns name) w4 = (Inr ?final, w5)" for r' w4 w5
    using that call_trace(17) [OF that] by (simp add: PlanReconcile_def)
  ultimately show ?thesis using run(3) by (intro conjI exI [of _ ?final]) auto
qed

definition sim_plan_reconciler :: "MigrationPlan \<Rightarrow> sim PlanReconciler" where
  "sim_plan_reconciler plan = \<lparr>plr_Client = sim_kube plan, plr_ClientFactory = (\<lambda>cfg. Inr sim_nx)\<rparr>"

lemma sim_kube_plan:
  "Get (kc_GetPlan (sim_kube plan) ns n) w = (Inr plan, w)"
  "StatusUpdatePlan (sim_kube plan) p w = (None, w\<lparr>w_trace := w_trace w @ [EPlanStatus p None]\<rparr>)"
  by (simp_all add: sim_kube_def op_defs perform_def)

lemma sim_resolve:
  "resolve_plan_refs (sim_plan_reconciler plan) p w = (Inr (sim_nx, sample_network_map, sample_storage_map), w)"
  by (simp add: resolve_plan_refs_def sim_plan_reconciler_def sim_kube_def sim_secret_def op_defs perform_def map_get_def)

abbreviation sim_new_plan :: MigrationPlan where
  "sim_new_plan \<equiv> sim_plan MigrationTypeCold TargetPowerStateStopped"

lemma sim_new_plan_unvalidated: "\<not> already_validated sim_new_plan"
  by (simp add: already_validated_def sim_plan_def)

lemma sim_plan_reconcile_ok: "\<exists>res w'. PlanReconcile rev (sim_plan_reconciler sim_new_plan) ''vma'' ''plan'' (sim_world True) = ((res, None), w')"
proof -
  let ?r = "sim_plan_reconciler sim_new_plan"
  have k: "plr_Client ?r = sim_kube sim_new_plan" by (simp add: sim_plan_reconciler_def)
  show ?thesis by (simp add: PlanReconcile_def k sim_kube_plan sim_new_plan_unvalidated sim_resolve Let_def split: prod.split)
qed

theorem PlanReconcile_verdict_witness:
  "\<exists>res w' p final. PlanReconcile rev (sim_plan_reconciler sim_new_plan) ''vma'' ''plan'' (sim_world True) = ((res, None), w') \<and>
     new_effects (sim_world True) w' = [EPlanStatus p None, EPlanStatus final None] \<and> already_validated final"
proof -
  let ?r = "sim_plan_reconciler sim_new_plan"
  obtain res w' where run: "PlanReconcile rev ?r ''vma'' ''plan'' (sim_world True) = ((res, None), w')"
    using sim_plan_reconcile_ok by blast
  have g: "Get (kc_GetPlan (plr_Client ?r) ''vma'' ''plan'') (sim_world True) = (Inr sim_new_plan, sim_world True)"
    by (simp add: sim_plan_reconciler_def sim_kube_plan)
  show ?thesis using PlanReconcile_verdict [OF g sim_new_plan_unvalidated run] run by blast
qed

definition sim_plan_no_provider :: "sim PlanReconciler" where
  "sim_plan_no_provider = (sim_plan_reconciler sim_new_plan)\<lparr>plr_Client := (sim_kube sim_new_plan)
     \<lparr>kc_GetProvider := \<lambda>ns n e. (Inl (errors_New ''etcdserver: request timed out''), e)\<rparr>\<rparr>"

theorem plan_resolution_error_never_retried_witness:
  "\<exists>res w' stored. PlanReconcile rev sim_plan_no_provider ''vma'' ''plan'' (sim_world True) = ((res, None), w') \<and>
     cres_RequeueAfter res = 60000000000 \<and> last (new_effects (sim_world True) w') = EPlanStatus stored None \<and>
     PlanReconcile rev (sim_plan_reconciler stored) ''vma'' ''plan'' (sim_world True) = ((no_requeue, None), sim_world True)"
proof -
  let ?w = "sim_world True" and ?p1 = "sim_new_plan\<lparr>plan_Phase := PlanPhaseValidating\<rparr>"
  have g: "Get (kc_GetPlan (plr_Client sim_plan_no_provider) ''vma'' ''plan'') ?w = (Inr sim_new_plan, ?w)"
    by (simp add: sim_plan_no_provider_def sim_plan_reconciler_def sim_kube_def op_defs perform_def)
  have u: "StatusUpdatePlan (plr_Client sim_plan_no_provider) p w = (None, w\<lparr>w_trace := w_trace w @ [EPlanStatus p None]\<rparr>)" for p w
    by (simp add: sim_plan_no_provider_def sim_plan_reconciler_def sim_kube_def op_defs perform_def)
  obtain reason msg where x: "resolve_plan_refs sim_plan_no_provider p w = (Inl (reason p w, msg p w), w)" for p w
    by (simp add: resolve_plan_refs_def sim_plan_no_provider_def sim_plan_reconciler_def op_defs perform_def)
  obtain res w' where run: "PlanReconcile rev sim_plan_no_provider ''vma'' ''plan'' ?w = ((res, None), w')"
    by (simp add: PlanReconcile_def g u x sim_new_plan_unvalidated setPlanError_def Let_def)
  have again: "Get (kc_GetPlan (plr_Client (sim_plan_reconciler p)) ''vma'' ''plan'') ?w = (Inr p, ?w)" for p
    by (simp add: sim_plan_reconciler_def sim_kube_plan)
  show ?thesis
    using plan_resolution_error_never_retried [OF g sim_new_plan_unvalidated u x run] run again by blast
qed

section \<open>Ready means accepted\<close>






end
