(* ===== verification/Provider_Controller.thy ===== *)
theory Provider_Controller
  imports Migration_Controller Sample_Cluster
begin

text \<open>
  The provider controller (\<^verbatim>\<open>internal/controller/provider_controller.go\<close>): it keeps a finalizer on a
  NutanixProvider as long as a MigrationPlan refers to it, connects to Prism Central, reads the
  inventory and stores what it found.
\<close>

abbreviation providerFinalizer :: string where "providerFinalizer \<equiv> ''vma.nutanix.io/provider-protection''"
abbreviation conditionTypeConnected :: string where "conditionTypeConnected \<equiv> ''Connected''"
abbreviation conditionTypeInventoryReady :: string where "conditionTypeInventoryReady \<equiv> ''InventoryReady''"

record 'e ProviderReconciler =
  pvr_Client :: "'e KubeClient"
  pvr_ClientFactory :: "ClientConfig \<Rightarrow> go_error + 'e NutanixClient"

definition provider_condition :: "NutanixProvider \<Rightarrow> string \<Rightarrow> ConditionStatus \<Rightarrow> string \<Rightarrow> string \<Rightarrow> NutanixProvider" where
  "provider_condition p ty status reason msg =
     p\<lparr>prov_Conditions := SetStatusCondition (prov_Conditions p)
       \<lparr>cond_Type = ty, cond_Status = status, cond_Reason = reason, cond_Message = msg,
        cond_ObservedGeneration = prov_Generation p\<rparr>\<rparr>"

definition setErrorCondition ::
  "'e ProviderReconciler \<Rightarrow> NutanixProvider \<Rightarrow> string \<Rightarrow> string \<Rightarrow> 'e world \<Rightarrow> (ctrl_Result \<times> go_error option) \<times> 'e world" where
  "setErrorCondition r provider reason message w =
     (case StatusUpdateProvider (pvr_Client r)
             (provider_condition (provider\<lparr>prov_Phase := ProviderPhaseError\<rparr>) conditionTypeConnected ConditionFalse reason message) w of
        (Some err, w1) \<Rightarrow> ((no_requeue, Some err), w1)
      | (None, w1) \<Rightarrow> ((\<lparr>cres_Requeue = False, cres_RequeueAfter = 60000000000\<rparr>, None), w1))"

definition isProviderInUse :: "'e ProviderReconciler \<Rightarrow> NutanixProvider \<Rightarrow> 'e world \<Rightarrow> (go_error + bool) \<times> 'e world" where
  "isProviderInUse r provider w =
     (case Get (kc_ListPlans (pvr_Client r) (prov_Namespace provider)) w of
        (Inl err, w1) \<Rightarrow> (Inl err, w1)
      | (Inr plans, w1) \<Rightarrow> (Inr (\<exists>p \<in> set plans. plan_ProviderRef p = prov_Name provider), w1))"

definition delete_provider ::
  "'e ProviderReconciler \<Rightarrow> NutanixProvider \<Rightarrow> 'e world \<Rightarrow> (ctrl_Result \<times> go_error option) \<times> 'e world" where
  "delete_provider r provider w =
     (if providerFinalizer \<notin> set (prov_Finalizers provider) then ((no_requeue, None), w)
      else case isProviderInUse r provider w of
          (Inl err, w1) \<Rightarrow> ((no_requeue, Some err), w1)
        | (Inr inUse, w1) \<Rightarrow>
            if inUse then ((\<lparr>cres_Requeue = False, cres_RequeueAfter = 30000000000\<rparr>, None), w1)
            else case UpdateProvider (pvr_Client r)
                        (provider\<lparr>prov_Finalizers := removeAll providerFinalizer (prov_Finalizers provider)\<rparr>) w1 of
                (err, w2) \<Rightarrow> ((no_requeue, err), w2))"

text \<open>The storage containers of the clusters that have an external address; errors are skipped.\<close>

fun count_containers :: "'e NutanixClient \<Rightarrow> Cluster list \<Rightarrow> 'e world \<Rightarrow> nat \<times> 'e world" where
  "count_containers nx [] w = (0, w)"
| "count_containers nx (cluster # clusters) w =
     (case clu_Network cluster of
        None \<Rightarrow> count_containers nx clusters w
      | Some net \<Rightarrow>
          if cn_ExternalAddress net = [] then count_containers nx clusters w
          else case Get (nx_ListStorageContainers nx (''https://'' @ cn_ExternalAddress net @ '':9440'')) w of
              (Inl scErr, w1) \<Rightarrow> count_containers nx clusters w1
            | (Inr containers, w1) \<Rightarrow>
                (case count_containers nx clusters w1 of (n, w2) \<Rightarrow> (length containers + n, w2)))"

definition best_effort_list :: "go_error + 'a list \<Rightarrow> 'a list" where
  "best_effort_list r = (case r of Inl err \<Rightarrow> [] | Inr xs \<Rightarrow> xs)"

definition inventory_message :: "nat \<Rightarrow> nat \<Rightarrow> nat \<Rightarrow> nat \<Rightarrow> string" where
  "inventory_message vms subnets clusters containers =
     ''Discovered '' @ show_nat vms @ '' VMs, '' @ show_nat subnets @ '' subnets, '' @ show_nat clusters @ '' clusters, '' @
     show_nat containers @ '' storage containers''"

definition refresh_interval :: "NutanixProvider \<Rightarrow> int" where
  "refresh_interval provider =
     (case ParseDuration (prov_RefreshInterval provider) of None \<Rightarrow> 300000000000 | Some d \<Rightarrow> d)"

text \<open>The inventory of a provider to which a connection was made.\<close>

definition read_inventory ::
  "'e ProviderReconciler \<Rightarrow> 'e NutanixClient \<Rightarrow> NutanixProvider \<Rightarrow> 'e world \<Rightarrow> (ctrl_Result \<times> go_error option) \<times> 'e world" where
  "read_inventory r nx provider w =
     (case Get (nx_ListVMs nx) w of
        (Inl err, w1) \<Rightarrow> setErrorCondition r provider ''ConnectionFailed'' (''Failed to list VMs: '' @ err_msg err) w1
      | (Inr vms, w1) \<Rightarrow>
          let p1 = provider_condition provider conditionTypeConnected ConditionTrue ''Connected'' (''Connected to '' @ prov_URL provider) in
          (case Get (nx_ListSubnets nx) w1 of
             (rs, w2) \<Rightarrow>
          (case Get (nx_ListClusters nx) w2 of
             (rc, w3) \<Rightarrow>
          (case count_containers nx (best_effort_list rc) w3 of
             (containers, w4) \<Rightarrow>
               let p2 = provider_condition (p1\<lparr>prov_Phase := ProviderPhaseConnected, prov_VMCount := length vms\<rparr>)
                          conditionTypeInventoryReady ConditionTrue ''InventoryComplete''
                          (inventory_message (length vms) (length (best_effort_list rs)) (length (best_effort_list rc)) containers) in
               (case StatusUpdateProvider (pvr_Client r) p2 w4 of
                  (Some err, w5) \<Rightarrow> ((no_requeue, Some err), w5)
                | (None, w5) \<Rightarrow> ((\<lparr>cres_Requeue = False, cres_RequeueAfter = refresh_interval provider\<rparr>, None), w5))))))"

definition connect_provider ::
  "'e ProviderReconciler \<Rightarrow> NutanixProvider \<Rightarrow> 'e world \<Rightarrow> (ctrl_Result \<times> go_error option) \<times> 'e world" where
  "connect_provider r provider w =
     (case Get (kc_GetSecret (pvr_Client r) (prov_Namespace provider) (prov_SecretRef provider)) w of
        (Inl err, w1) \<Rightarrow>
          setErrorCondition r provider ''SecretNotFound'' (''Secret '' @ go_quote (prov_SecretRef provider) @ '' not found: '' @ err_msg err) w1
      | (Inr secret, w1) \<Rightarrow>
          let username = map_get (sec_Data secret) ''username''; password = map_get (sec_Data secret) ''password'' in
          if username = [] \<or> password = [] then
            setErrorCondition r provider ''InvalidCredentials''
              (''Secret must contain non-empty '' @ [CHR 0x27] @ ''username'' @ [CHR 0x27] @ '' and '' @ [CHR 0x27] @
               ''password'' @ [CHR 0x27] @ '' keys'') w1
          else
            (case pvr_ClientFactory r \<lparr>cfg_Host = prov_URL provider, cfg_Username = username, cfg_Password = password,
                                       cfg_InsecureSkipVerify = prov_InsecureSkipVerify provider\<rparr> of
               Inl err \<Rightarrow> setErrorCondition r provider ''ClientError'' (''Failed to create client: '' @ err_msg err) w1
             | Inr nxClient \<Rightarrow> read_inventory r nxClient provider w1))"

definition ProviderReconcile ::
  "'e ProviderReconciler \<Rightarrow> string \<Rightarrow> string \<Rightarrow> 'e world \<Rightarrow> (ctrl_Result \<times> go_error option) \<times> 'e world" where
  "ProviderReconcile r namespace name w =
     (case Get (kc_GetProvider (pvr_Client r) namespace name) w of
        (Inl err, w1) \<Rightarrow> ((no_requeue, if IsNotFound err then None else Some err), w1)
      | (Inr provider, w1) \<Rightarrow>
          if prov_DeletionTimestamp provider \<noteq> None then delete_provider r provider w1
          else if providerFinalizer \<notin> set (prov_Finalizers provider) then
            (case UpdateProvider (pvr_Client r)
                    (provider\<lparr>prov_Finalizers := prov_Finalizers provider @ [providerFinalizer]\<rparr>) w1 of
               (Some err, w2) \<Rightarrow> ((no_requeue, Some err), w2)
             | (None, w2) \<Rightarrow> ((\<lparr>cres_Requeue = True, cres_RequeueAfter = 0\<rparr>, None), w2))
          else let p1 = provider\<lparr>prov_Phase := ProviderPhaseConnecting\<rparr> in
            (case StatusUpdateProvider (pvr_Client r) p1 w1 of
               (Some err, w2) \<Rightarrow> ((no_requeue, Some err), w2)
             | (None, w2) \<Rightarrow> connect_provider r p1 w2))"

section \<open>The finalizer\<close>

lemma isProviderInUse_frame: "isProviderInUse r p w = (x, w') \<Longrightarrow> w_trace w' = w_trace w"
  by (auto simp: isProviderInUse_def dest!: call_trace(17) split: prod.splits sum.splits)

lemma count_containers_frame: "count_containers nx cs w = (n, w') \<Longrightarrow> w_trace w' = w_trace w"
proof (induction cs arbitrary: n w w')
  case (Cons c cs)
  show ?case
  proof (cases "\<exists>net. clu_Network c = Some net \<and> cn_ExternalAddress net \<noteq> []")
    case False
    then have "count_containers nx (c # cs) w = count_containers nx cs w" by (auto split: option.splits)
    then show ?thesis using Cons by simp
  next
    case True
    then obtain net where net: "clu_Network c = Some net" "cn_ExternalAddress net \<noteq> []" by blast
    obtain g w1 where g: "Get (nx_ListStorageContainers nx (''https://'' @ cn_ExternalAddress net @ '':9440'')) w = (g, w1)" by fastforce
    obtain m w2 where m: "count_containers nx cs w1 = (m, w2)" by fastforce
    show ?thesis using Cons.prems Cons.IH [OF m] call_trace(17) [OF g] net g m by (cases g) auto
  qed
qed simp

text \<open>
  C26. The provider is protected. \<^verbatim>\<open>ProviderReconcile\<close> writes a provider without its finalizer only when the
  provider is being deleted and the plans listed in its namespace contain none that refers to it.
\<close>

theorem ProviderReconcile_protects:
  assumes "Get (kc_GetProvider (pvr_Client r) ns name) w = (Inr p, w1)" and "ProviderReconcile r ns name w = (out, w')"
    and "EProviderUpdate q e \<in> set (new_effects w w')" and "providerFinalizer \<notin> set (prov_Finalizers q)"
  shows "prov_DeletionTimestamp p \<noteq> None \<and>
    (\<exists>plans w2. Get (kc_ListPlans (pvr_Client r) (prov_Namespace p)) w1 = (Inr plans, w2) \<and>
       (\<forall>plan \<in> set plans. plan_ProviderRef plan \<noteq> prov_Name p))"
proof (cases "prov_DeletionTimestamp p = None")
  case True
  have t1: "w_trace w1 = w_trace w" by (rule call_trace(17) [OF assms(1)])
  have "\<not> (\<exists>q e. EProviderUpdate q e \<in> set (new_effects w w') \<and> providerFinalizer \<notin> set (prov_Finalizers q))"
  proof (cases "providerFinalizer \<in> set (prov_Finalizers p)")
    case False
    then show ?thesis using assms(1,2) True t1
      by (auto simp: ProviderReconcile_def new_effects_append dest!: call_trace(20) split: prod.splits option.splits)
  next
    case fin: True
    obtain e2 w2 where u: "StatusUpdateProvider (pvr_Client r) (p\<lparr>prov_Phase := ProviderPhaseConnecting\<rparr>) w1 = (e2, w2)" by fastforce
    show ?thesis
    proof (cases e2)
      case (Some err)
      then show ?thesis using assms(1,2) True fin u t1 call_trace(21) [OF u] by (auto simp: ProviderReconcile_def new_effects_append)
    next
      case None
      then have run: "connect_provider r (p\<lparr>prov_Phase := ProviderPhaseConnecting\<rparr>) w2 = (out, w')"
        using assms(1,2) True fin u by (simp add: ProviderReconcile_def Let_def)
      have "\<exists>es. w_trace w' = w_trace w2 @ es \<and> (\<forall>e \<in> set es. \<exists>q r. e = EProviderStatus q r)"
        using run by (auto simp: connect_provider_def read_inventory_def setErrorCondition_def Let_def
            dest!: call_trace(17,21) count_containers_frame split: prod.splits sum.splits option.splits if_splits)
      then show ?thesis using call_trace(21) [OF u] t1 by (auto simp: new_effects_append)
    qed
  qed
  then show ?thesis using assms(3,4) by blast
next
  case False
  then have run: "delete_provider r p w1 = (out, w')" using assms(1,2) by (simp add: ProviderReconcile_def)
  have t1: "w_trace w1 = w_trace w" by (rule call_trace(17) [OF assms(1)])
  obtain g w2 where g: "Get (kc_ListPlans (pvr_Client r) (prov_Namespace p)) w1 = (g, w2)" by fastforce
  have "\<exists>plans. g = Inr plans \<and> (\<forall>plan \<in> set plans. plan_ProviderRef plan \<noteq> prov_Name p)"
    using run assms(3) g t1 call_trace(17) [OF g]
    by (auto simp: delete_provider_def isProviderInUse_def new_effects_def split: if_splits sum.splits)
  then show ?thesis using False g by blast
qed

section \<open>The connection\<close>

definition connected_state :: "'e ProviderReconciler \<Rightarrow> NutanixProvider \<Rightarrow> NutanixProvider \<Rightarrow> bool" where
  "connected_state r p final =
     (prov_Phase final = ProviderPhaseConnected \<and>
      (\<exists>cfg nx (w1 :: 'e world) w2 vms. pvr_ClientFactory r cfg = Inr nx \<and> cfg_Host cfg = prov_URL p \<and> cfg_Username cfg \<noteq> [] \<and>
         cfg_Password cfg \<noteq> [] \<and> Get (nx_ListVMs nx) w1 = (Inr vms, w2) \<and> prov_VMCount final = length vms) \<and>
      (\<exists>c \<in> set (prov_Conditions final). cond_Type c = conditionTypeInventoryReady \<and> cond_Status c = ConditionTrue \<and>
         cond_ObservedGeneration c = prov_Generation p))"

lemma setErrorCondition_effects:
  assumes "setErrorCondition r p reason msg w = ((res, None), w')"
  shows "\<exists>stored. w_trace w' = w_trace w @ [EProviderStatus stored None] \<and> prov_Phase stored = ProviderPhaseError \<and>
    cres_RequeueAfter res = 60000000000"
  using assms by (auto simp: setErrorCondition_def provider_condition_def dest!: call_trace(21) split: prod.splits option.splits)

lemma read_inventory_effects:
  assumes "read_inventory r nx p w = ((res, None), w')"
    and "pvr_ClientFactory r cfg = Inr nx" "cfg_Host cfg = prov_URL p" "cfg_Username cfg \<noteq> []" "cfg_Password cfg \<noteq> []"
  shows "\<exists>final. w_trace w' = w_trace w @ [EProviderStatus final None] \<and>
    (prov_Phase final = ProviderPhaseError \<and> cres_RequeueAfter res = 60000000000 \<or>
     connected_state r p final \<and> cres_RequeueAfter res = refresh_interval p)"
proof -
  obtain g w1 where g: "Get (nx_ListVMs nx) w = (g, w1)" by fastforce
  show ?thesis
  proof (cases g)
    case (Inl err)
    then have "setErrorCondition r p ''ConnectionFailed'' (''Failed to list VMs: '' @ err_msg err) w1 = ((res, None), w')"
      using assms(1) g by (simp add: read_inventory_def)
    from setErrorCondition_effects [OF this] show ?thesis using call_trace(17) [OF g] by auto
  next
    case (Inr vms)
    obtain rs w2 where s: "Get (nx_ListSubnets nx) w1 = (rs, w2)" by fastforce
    obtain rc w3 where c: "Get (nx_ListClusters nx) w2 = (rc, w3)" by fastforce
    obtain n w4 where n: "count_containers nx (best_effort_list rc) w3 = (n, w4)" by fastforce
    let ?p1 = "provider_condition p conditionTypeConnected ConditionTrue ''Connected'' (''Connected to '' @ prov_URL p)"
    let ?final = "provider_condition (?p1\<lparr>prov_Phase := ProviderPhaseConnected, prov_VMCount := length vms\<rparr>)
        conditionTypeInventoryReady ConditionTrue ''InventoryComplete''
        (inventory_message (length vms) (length (best_effort_list rs)) (length (best_effort_list rc)) n)"
    obtain e w5 where u: "StatusUpdateProvider (pvr_Client r) ?final w4 = (e, w5)" by fastforce
    have out: "e = None" "w' = w5" "cres_RequeueAfter res = refresh_interval p"
      using assms(1) g Inr s c n u by (auto simp: read_inventory_def Let_def split: option.splits)
    have "w_trace w' = w_trace w @ [EProviderStatus ?final None]"
      using out call_trace(21) [OF u] count_containers_frame [OF n] call_trace(17) [OF c] call_trace(17) [OF s] call_trace(17) [OF g]
      by simp
    moreover have "connected_state r p ?final"
      unfolding connected_state_def
    proof (intro conjI)
      show "\<exists>cfg nx (w1 :: 'a world) w2 vms. pvr_ClientFactory r cfg = Inr nx \<and> cfg_Host cfg = prov_URL p \<and> cfg_Username cfg \<noteq> [] \<and>
         cfg_Password cfg \<noteq> [] \<and> Get (nx_ListVMs nx) w1 = (Inr vms, w2) \<and> prov_VMCount ?final = length vms"
        using assms(2-5) g Inr by (intro exI conjI) (assumption | simp add: provider_condition_def)+
    qed (auto simp: provider_condition_def intro!: bexI [OF _ SetStatusCondition_in])
    ultimately show ?thesis using out(3) by blast
  qed
qed

text \<open>
  The outcome of a provider reconcile. A provider that is not being deleted and has its finalizer gets,
  when no write fails, exactly two status updates: \<^verbatim>\<open>Connecting\<close>, then either \<^verbatim>\<open>Error\<close> with a retry after a
  minute, or \<^verbatim>\<open>Connected\<close>, with the number of VMs that a client for its URL with non-empty credentials
  listed, an \<^verbatim>\<open>InventoryReady\<close> condition of the current generation, and a retry after the refresh interval.
\<close>

theorem ProviderReconcile_outcome:
  assumes "Get (kc_GetProvider (pvr_Client r) ns name) w = (Inr p, w1)"
    and "prov_DeletionTimestamp p = None" and "providerFinalizer \<in> set (prov_Finalizers p)"
    and "ProviderReconcile r ns name w = ((res, None), w')"
  shows "\<exists>final. new_effects w w' = [EProviderStatus (p\<lparr>prov_Phase := ProviderPhaseConnecting\<rparr>) None, EProviderStatus final None] \<and>
    (prov_Phase final = ProviderPhaseError \<and> cres_RequeueAfter res = 60000000000 \<or>
     connected_state r p final \<and> cres_RequeueAfter res = refresh_interval p)"
proof -
  let ?p1 = "p\<lparr>prov_Phase := ProviderPhaseConnecting\<rparr>"
  obtain e2 w2 where u: "StatusUpdateProvider (pvr_Client r) ?p1 w1 = (e2, w2)" by fastforce
  have run: "e2 = None" "connect_provider r ?p1 w2 = ((res, None), w')"
    using assms u by (auto simp: ProviderReconcile_def Let_def split: option.splits)
  have same: "connected_state r ?p1 = connected_state r p" "refresh_interval ?p1 = refresh_interval p"
    by (simp_all add: connected_state_def refresh_interval_def fun_eq_iff)
  have "\<exists>final. w_trace w' = w_trace w2 @ [EProviderStatus final None] \<and>
    (prov_Phase final = ProviderPhaseError \<and> cres_RequeueAfter res = 60000000000 \<or>
     connected_state r ?p1 final \<and> cres_RequeueAfter res = refresh_interval ?p1)"
  proof -
    obtain g w3 where g: "Get (kc_GetSecret (pvr_Client r) (prov_Namespace ?p1) (prov_SecretRef ?p1)) w2 = (g, w3)" by fastforce
    note t = call_trace(17) [OF g]
    show ?thesis
    proof (cases "\<exists>reason msg. setErrorCondition r ?p1 reason msg w3 = ((res, None), w')")
      case True
      then show ?thesis using setErrorCondition_effects t by metis
    next
      case False
      then obtain cfg nx where "pvr_ClientFactory r cfg = Inr nx" "cfg_Host cfg = prov_URL ?p1" "cfg_Username cfg \<noteq> []"
        "cfg_Password cfg \<noteq> []" "read_inventory r nx ?p1 w3 = ((res, None), w')"
        using run(2) g by (fastforce simp: connect_provider_def Let_def split: sum.splits if_splits)
      from read_inventory_effects [OF this(5,1-4)] show ?thesis using t by simp
    qed
  qed
  then obtain final where "w_trace w' = w_trace w @ [EProviderStatus ?p1 None, EProviderStatus final None]"
    "prov_Phase final = ProviderPhaseError \<and> cres_RequeueAfter res = 60000000000 \<or>
     connected_state r p final \<and> cres_RequeueAfter res = refresh_interval p"
    using call_trace(21) [OF u] call_trace(17) [OF assms(1)] run(1) same by auto
  then show ?thesis by (intro exI [of _ final]) (simp add: new_effects_append)
qed

definition sim_provider_reconciler :: "NutanixProvider \<Rightarrow> MigrationPlan list \<Rightarrow> sim ProviderReconciler" where
  "sim_provider_reconciler p plans =
     \<lparr>pvr_Client = (sim_kube (sim_plan MigrationTypeCold TargetPowerStateStopped))
        \<lparr>kc_GetProvider := \<lambda>ns n e. (Inr p, e), kc_ListPlans := \<lambda>ns e. (Inr plans, e)\<rparr>,
      pvr_ClientFactory = (\<lambda>cfg. Inr sim_nx)\<rparr>"

lemma sim_provider_get: "Get (kc_GetProvider (pvr_Client (sim_provider_reconciler p plans)) ns n) w = (Inr p, w)"
  by (simp add: sim_provider_reconciler_def op_defs perform_def)

theorem ProviderReconcile_protects_witness:
  "\<exists>out w' q e. ProviderReconcile (sim_provider_reconciler
      (sim_provider\<lparr>prov_DeletionTimestamp := Some 1, prov_Finalizers := [providerFinalizer]\<rparr>) []) ''vma'' ''my-nutanix'' (sim_world True) =
      (out, w') \<and> EProviderUpdate q e \<in> set (new_effects (sim_world True) w') \<and>
    (\<exists>plans w2. Get (kc_ListPlans (pvr_Client (sim_provider_reconciler
      (sim_provider\<lparr>prov_DeletionTimestamp := Some 1, prov_Finalizers := [providerFinalizer]\<rparr>) [])) ''vma'') (sim_world True) = (Inr plans, w2) \<and>
       (\<forall>plan \<in> set plans. plan_ProviderRef plan \<noteq> ''my-nutanix''))"
proof -
  let ?p = "sim_provider\<lparr>prov_DeletionTimestamp := Some 1, prov_Finalizers := [providerFinalizer]\<rparr>"
  let ?r = "sim_provider_reconciler ?p []" and ?w = "sim_world True"
  have "\<exists>out w' q e. ProviderReconcile ?r ''vma'' ''my-nutanix'' ?w = (out, w') \<and> EProviderUpdate q e \<in> set (new_effects ?w w') \<and>
      providerFinalizer \<notin> set (prov_Finalizers q)"
    by (simp add: ProviderReconcile_def sim_provider_get delete_provider_def isProviderInUse_def)
      (simp add: sim_provider_reconciler_def sim_defs op_defs perform_def new_effects_def)
  then obtain out w' q e where run: "ProviderReconcile ?r ''vma'' ''my-nutanix'' ?w = (out, w')"
    "EProviderUpdate q e \<in> set (new_effects ?w w')" "providerFinalizer \<notin> set (prov_Finalizers q)" by blast
  have n: "prov_Namespace ?p = ''vma''" "prov_Name ?p = ''my-nutanix''" by (simp_all add: sim_provider_def)
  show ?thesis using ProviderReconcile_protects [OF sim_provider_get run] run(1,2) unfolding n by blast
qed

theorem ProviderReconcile_outcome_witness:
  "\<exists>res w' p final. ProviderReconcile (sim_provider_reconciler (sim_provider\<lparr>prov_Finalizers := [providerFinalizer]\<rparr>) [])
      ''vma'' ''my-nutanix'' (sim_world True) = ((res, None), w') \<and>
     new_effects (sim_world True) w' = [EProviderStatus p None, EProviderStatus final None]"
proof -
  let ?p = "sim_provider\<lparr>prov_Finalizers := [providerFinalizer]\<rparr>"
  let ?r = "sim_provider_reconciler ?p []" and ?w = "sim_world True"
  have "\<exists>res w'. ProviderReconcile ?r ''vma'' ''my-nutanix'' ?w = ((res, None), w')"
    by (simp add: ProviderReconcile_def connect_provider_def read_inventory_def Let_def sim_provider_reconciler_def sim_defs
        op_defs perform_def map_get_def split: prod.split)
  then obtain res w' where run: "ProviderReconcile ?r ''vma'' ''my-nutanix'' ?w = ((res, None), w')" by blast
  have "prov_DeletionTimestamp ?p = None" "providerFinalizer \<in> set (prov_Finalizers ?p)" by (simp_all add: sim_provider_def)
  from ProviderReconcile_outcome [OF sim_provider_get this run] run show ?thesis by blast
qed

end
