(* ===== verification/Rbac.thy ===== *)
theory Rbac
  imports Plan_Controller Provider_Controller
begin

text \<open>
  The permissions of the operator. The rules are the \<^verbatim>\<open>+kubebuilder:rbac\<close> markers in front of the three
  \<^verbatim>\<open>Reconcile\<close> methods, from which the ClusterRole of the manager is generated. \<open>authorized\<close> is a Kubernetes client whose
  calls to the API server are checked against a role; a call that is not permitted is answered with an error and
  has no effect. The client of the manager sends to the API server all writes, and the reads of unstructured objects
  (network attachment definitions and custom resource definitions, in the validator). The typed reads and lists are answered by the cache of
  the manager, which is filled by list and watch requests of its own; that cache is code of controller-runtime and part of the parameter, so
  nothing is said here about the permissions it needs.
\<close>

section \<open>The role\<close>

datatype verb = VGet | VList | VWatch | VCreate | VUpdate | VPatch | VDelete

record rbac_rule =
  rr_group :: string
  rr_resource :: string
  rr_verbs :: "verb list"

definition provider_rules :: "rbac_rule list" where
  "provider_rules =
     [\<lparr>rr_group = ''vma.nutanix.io'', rr_resource = ''nutanixproviders'', rr_verbs = [VGet, VList, VWatch, VUpdate, VPatch]\<rparr>,
      \<lparr>rr_group = ''vma.nutanix.io'', rr_resource = ''nutanixproviders/status'', rr_verbs = [VGet, VUpdate, VPatch]\<rparr>,
      \<lparr>rr_group = ''vma.nutanix.io'', rr_resource = ''nutanixproviders/finalizers'', rr_verbs = [VUpdate]\<rparr>,
      \<lparr>rr_group = [], rr_resource = ''secrets'', rr_verbs = [VGet, VList, VWatch]\<rparr>]"

definition plan_rules :: "rbac_rule list" where
  "plan_rules =
     [\<lparr>rr_group = ''vma.nutanix.io'', rr_resource = ''migrationplans'', rr_verbs = [VGet, VList, VWatch, VUpdate, VPatch]\<rparr>,
      \<lparr>rr_group = ''vma.nutanix.io'', rr_resource = ''migrationplans/status'', rr_verbs = [VGet, VUpdate, VPatch]\<rparr>,
      \<lparr>rr_group = ''vma.nutanix.io'', rr_resource = ''nutanixproviders'', rr_verbs = [VGet]\<rparr>,
      \<lparr>rr_group = ''vma.nutanix.io'', rr_resource = ''networkmaps'', rr_verbs = [VGet, VList, VWatch]\<rparr>,
      \<lparr>rr_group = ''vma.nutanix.io'', rr_resource = ''storagemaps'', rr_verbs = [VGet, VList, VWatch]\<rparr>,
      \<lparr>rr_group = ''storage.k8s.io'', rr_resource = ''storageclasses'', rr_verbs = [VGet, VList]\<rparr>,
      \<lparr>rr_group = ''apiextensions.k8s.io'', rr_resource = ''customresourcedefinitions'', rr_verbs = [VGet]\<rparr>,
      \<lparr>rr_group = [], rr_resource = ''namespaces'', rr_verbs = [VGet]\<rparr>]"

definition migration_rules :: "rbac_rule list" where
  "migration_rules =
     [\<lparr>rr_group = ''vma.nutanix.io'', rr_resource = ''migrations'', rr_verbs = [VGet, VList, VWatch, VUpdate, VPatch]\<rparr>,
      \<lparr>rr_group = ''vma.nutanix.io'', rr_resource = ''migrations/status'', rr_verbs = [VGet, VUpdate, VPatch]\<rparr>,
      \<lparr>rr_group = ''vma.nutanix.io'', rr_resource = ''migrations/finalizers'', rr_verbs = [VUpdate]\<rparr>,
      \<lparr>rr_group = ''vma.nutanix.io'', rr_resource = ''migrationplans'', rr_verbs = [VGet]\<rparr>,
      \<lparr>rr_group = ''vma.nutanix.io'', rr_resource = ''nutanixproviders'', rr_verbs = [VGet]\<rparr>,
      \<lparr>rr_group = ''vma.nutanix.io'', rr_resource = ''networkmaps'', rr_verbs = [VGet, VList, VWatch]\<rparr>,
      \<lparr>rr_group = ''vma.nutanix.io'', rr_resource = ''storagemaps'', rr_verbs = [VGet, VList, VWatch]\<rparr>,
      \<lparr>rr_group = [], rr_resource = ''secrets'', rr_verbs = [VGet, VCreate, VDelete]\<rparr>,
      \<lparr>rr_group = [], rr_resource = ''configmaps'', rr_verbs = [VGet, VCreate, VDelete]\<rparr>,
      \<lparr>rr_group = ''cdi.kubevirt.io'', rr_resource = ''datavolumes'', rr_verbs = [VGet, VList, VCreate, VDelete]\<rparr>,
      \<lparr>rr_group = ''kubevirt.io'', rr_resource = ''virtualmachines'', rr_verbs = [VGet, VCreate, VUpdate]\<rparr>,
      \<lparr>rr_group = [], rr_resource = ''pods'', rr_verbs = [VGet, VCreate, VDelete]\<rparr>,
      \<lparr>rr_group = ''batch'', rr_resource = ''jobs'', rr_verbs = [VGet, VCreate, VDelete]\<rparr>,
      \<lparr>rr_group = ''vma.nutanix.io'', rr_resource = ''hooks'', rr_verbs = [VGet, VList, VWatch]\<rparr>,
      \<lparr>rr_group = [], rr_resource = ''events'', rr_verbs = [VCreate, VPatch]\<rparr>]"

text \<open>The generated role unites the rules of the three files.\<close>

definition manager_role :: "rbac_rule list" where
  "manager_role = migration_rules @ plan_rules @ provider_rules"

type_synonym k8s_request = "string \<times> string \<times> verb"

definition permits :: "rbac_rule list \<Rightarrow> k8s_request \<Rightarrow> bool" where
  "permits role req = (case req of (grp, resource, verb) \<Rightarrow>
     list_ex (\<lambda>rule. rr_group rule = grp \<and> rr_resource rule = resource \<and> List.member (rr_verbs rule) verb) role)"

section \<open>The requests\<close>

fun object_resource :: "k8s_object \<Rightarrow> string \<times> string" where
  "object_resource (ObjSecret x) = ([], ''secrets'')"
| "object_resource (ObjConfigMap x) = ([], ''configmaps'')"
| "object_resource (ObjDataVolume x) = (''cdi.kubevirt.io'', ''datavolumes'')"
| "object_resource (ObjVirtualMachine x) = (''kubevirt.io'', ''virtualmachines'')"
| "object_resource (ObjPod x) = ([], ''pods'')"
| "object_resource (ObjJob x) = (''batch'', ''jobs'')"

fun kind_resource :: "k8s_kind \<Rightarrow> string \<times> string" where
  "kind_resource KindSecret = ([], ''secrets'')"
| "kind_resource KindConfigMap = ([], ''configmaps'')"
| "kind_resource KindDataVolume = (''cdi.kubevirt.io'', ''datavolumes'')"
| "kind_resource KindPod = ([], ''pods'')"
| "kind_resource KindJob = (''batch'', ''jobs'')"

definition forbidden :: go_error where
  "forbidden = GoError ReasonOther ''forbidden''"

definition guard_read :: "rbac_rule list \<Rightarrow> string \<times> string \<Rightarrow> verb \<Rightarrow> ('e \<Rightarrow> (go_error + 'a) \<times> 'e) \<Rightarrow> 'e \<Rightarrow> (go_error + 'a) \<times> 'e" where
  "guard_read role r verb f = (if permits role (fst r, snd r, verb) then f else (\<lambda>e. (Inl forbidden, e)))"

definition guard_write :: "rbac_rule list \<Rightarrow> string \<times> string \<Rightarrow> verb \<Rightarrow> ('e \<Rightarrow> go_error option \<times> 'e) \<Rightarrow> 'e \<Rightarrow> go_error option \<times> 'e" where
  "guard_write role r verb f = (if permits role (fst r, snd r, verb) then f else (\<lambda>e. (Some forbidden, e)))"

definition authorized :: "rbac_rule list \<Rightarrow> 'e KubeClient \<Rightarrow> 'e KubeClient" where
  "authorized role k =
     k\<lparr>kc_Create := \<lambda>obj. guard_write role (object_resource obj) VCreate (kc_Create k obj),
       kc_Delete := \<lambda>kind ns n. guard_write role (kind_resource kind) VDelete (kc_Delete k kind ns n),
       kc_UpdateVM := \<lambda>v. guard_write role (''kubevirt.io'', ''virtualmachines'') VUpdate (kc_UpdateVM k v),
       kc_UpdateMigration := \<lambda>m. guard_write role (''vma.nutanix.io'', ''migrations'') VUpdate (kc_UpdateMigration k m),
       kc_StatusUpdateMigration := \<lambda>m. guard_write role (''vma.nutanix.io'', ''migrations/status'') VUpdate (kc_StatusUpdateMigration k m),
       kc_StatusUpdatePlan := \<lambda>p. guard_write role (''vma.nutanix.io'', ''migrationplans/status'') VUpdate (kc_StatusUpdatePlan k p),
       kc_UpdateProvider := \<lambda>p. guard_write role (''vma.nutanix.io'', ''nutanixproviders'') VUpdate (kc_UpdateProvider k p),
       kc_StatusUpdateProvider := \<lambda>p. guard_write role (''vma.nutanix.io'', ''nutanixproviders/status'') VUpdate (kc_StatusUpdateProvider k p),
       kc_GetNetworkAttachment := \<lambda>ns n. guard_read role (''k8s.cni.cncf.io'', ''network-attachment-definitions'') VGet (kc_GetNetworkAttachment k ns n),
       kc_GetCRD := \<lambda>n. guard_read role (''apiextensions.k8s.io'', ''customresourcedefinitions'') VGet (kc_GetCRD k n)\<rparr>"

section \<open>What the role allows\<close>

text \<open>The role permits every call that goes to the API server, except reading a network attachment definition.\<close>

lemma role_permits:
  "permits manager_role (fst (object_resource obj), snd (object_resource obj), VCreate)"
  "permits manager_role (fst (kind_resource kind), snd (kind_resource kind), VDelete)"
  by (cases obj; simp add: permits_def manager_role_def migration_rules_def)
    (cases kind; simp add: permits_def manager_role_def migration_rules_def)

lemma authorized_manager: "authorized manager_role k = k\<lparr>kc_GetNetworkAttachment := \<lambda>ns n e. (Inl forbidden, e)\<rparr>"
  by (simp add: authorized_def guard_read_def guard_write_def role_permits)
    (simp add: permits_def manager_role_def migration_rules_def plan_rules_def provider_rules_def)

section \<open>Plans with Multus networks\<close>

definition uses_multus :: "VM \<Rightarrow> NetworkMap \<Rightarrow> bool" where
  "uses_multus vm nm \<longleftrightarrow> (\<exists>nic \<in> set (vm_Nics vm). \<exists>dest. findNetworkMapping (nic_NetworkRef nic) (Some nm) = Some dest \<and>
     nic_NetworkRef nic \<noteq> None \<and> nd_Type dest = NetworkDestinationMultus)"

lemma nads_refused:
  assumes "\<And>ns n e. fst (kc_GetNetworkAttachment c ns n e) = Inl forbidden"
    and "nic \<in> set nics" "nic_NetworkRef nic = Some ref" "findNetworkDestination ref nm = Some dest" "nd_Type dest = NetworkDestinationMultus"
    and "nad_namespace dest tns @ ''/'' @ nd_Name dest \<notin> set checked"
  shows "HasErrors (fst (missing_nads c nm tns checked nics w))"
  using assms(2,6)
proof (induction nics arbitrary: checked w)
  case (Cons x nics)
  have refused: "fst (Get (kc_GetNetworkAttachment c ns n) w) = Inl forbidden" for ns n w
    using assms(1) [of ns n "w_env w"] by (auto simp: Get_def perform_def split: prod.splits)
  show ?case
  proof (cases "\<exists>r d. nic_NetworkRef x = Some r \<and> findNetworkDestination r nm = Some d \<and>
      nd_Type d = NetworkDestinationMultus \<and> nad_namespace d tns @ ''/'' @ nd_Name d \<notin> set checked")
    case True
    then obtain r d where "nic_NetworkRef x = Some r" "findNetworkDestination r nm = Some d"
      "nd_Type d = NetworkDestinationMultus" "nad_namespace d tns @ ''/'' @ nd_Name d \<notin> set checked" by blast
    then show ?thesis using refused [of "nad_namespace d tns" "nd_Name d" w] by (auto simp: Let_def split: prod.splits)
  next
    case False
    then have skip: "missing_nads c nm tns checked (x # nics) w = missing_nads c nm tns checked nics w"
      by (auto simp: Let_def split: option.splits)
    have "nic \<in> set nics" using False Cons.prems assms(3-5) by auto
    then show ?thesis unfolding skip using Cons by blast
  qed
qed simp

lemma Validate_refuses_multus:
  assumes "vo_Client opts = Some (authorized manager_role k)" "vo_NetworkMap opts = Some nm" "uses_multus vm nm"
  shows "HasErrors (fst (Validate range_order vm opts w))"
proof -
  let ?c = "authorized manager_role k"
  obtain nic ref dest where "nic \<in> set (vm_Nics vm)" "nic_NetworkRef nic = Some ref" "findNetworkDestination ref (Some nm) = Some dest"
      "nd_Type dest = NetworkDestinationMultus"
    using assms(3) validator_lookups_agree unfolding uses_multus_def by fastforce
  moreover have "fst (kc_GetNetworkAttachment ?c ns n e) = Inl forbidden" for ns n e
    by (simp add: authorized_def guard_read_def permits_def manager_role_def migration_rules_def plan_rules_def provider_rules_def)
  ultimately have "HasErrors (fst (checkMultusNADs ?c vm (Some nm) tns w))" for tns w
    using nads_refused [of ?c nic "vm_Nics vm" ref "Some nm" dest tns "[]" w] by (simp add: checkMultusNADs_def)
  then show ?thesis using assms(1,2) by (auto simp: Validate_def split: prod.splits) (metis fst_conv)
qed

lemma validate_vms_errors:
  assumes "v \<in> set vms" "\<And>w. \<exists>w1. GetVM nx (pvm_ID v) w = (Inr vm, w1)" "\<And>w. HasErrors (fst (Validate ro vm opts w))"
  shows "fst (snd (validate_vms ro nx opts vms w))"
  using assms(1)
proof (induction vms arbitrary: w)
  case (Cons x vms)
  show ?case
  proof (cases "v = x")
    case True
    obtain w1 where g: "GetVM nx (pvm_ID x) w = (Inr vm, w1)" using assms(2) True by blast
    then show ?thesis using assms(3) [of w1] by (auto split: prod.splits)
  next
    case False
    then have IH: "fst (snd (validate_vms ro nx opts vms w))" for w using Cons by simp
    show ?thesis
    proof (cases "GetVM nx (pvm_ID x) w")
      case (Pair g w1)
      then show ?thesis using IH by (cases g) (auto split: prod.splits, metis fst_conv snd_conv)
    qed
  qed
qed simp

text \<open>
  C23. With the generated role no plan that connects a VM to a Multus network ever becomes \<^verbatim>\<open>Ready\<close>: the validation needs
  to read the network attachment definition, is refused, reports it as missing, and the reconcile stores
  the phase \<^verbatim>\<open>Error\<close>, whether the definition exists or not.
\<close>

theorem multus_plan_never_ready:
  assumes "plr_Client r = authorized manager_role k"
    and "Get (kc_GetPlan (plr_Client r) ns name) w = (Inr plan, w1)" and "\<not> already_validated plan"
    and "StatusUpdatePlan (plr_Client r) (plan\<lparr>plan_Phase := PlanPhaseValidating\<rparr>) w1 = (None, w2)"
    and "resolve_plan_refs r (plan\<lparr>plan_Phase := PlanPhaseValidating\<rparr>) w2 = (Inr (nx, nm, sm), w3)"
    and "v \<in> set (plan_VMs plan)" and "\<And>w. \<exists>w1. GetVM nx (pvm_ID v) w = (Inr vm, w1)" and "uses_multus vm nm"
    and "PlanReconcile range_order r ns name w = (res, w')"
  shows "\<exists>final err. new_effects w w' = [EPlanStatus (plan\<lparr>plan_Phase := PlanPhaseValidating\<rparr>) None, EPlanStatus final err] \<and>
    plan_Phase final = PlanPhaseError"
proof -
  let ?p1 = "plan\<lparr>plan_Phase := PlanPhaseValidating\<rparr>"
  let ?opts = "plan_validation_options r ?p1 nm sm"
  have "HasErrors (fst (Validate range_order vm ?opts w))" for w
    by (rule Validate_refuses_multus [OF _ _ assms(8)]) (simp_all add: plan_validation_options_def assms(1))
  then have flag: "fst (snd (validate_vms range_order nx ?opts (plan_VMs plan) w3))"
    by (rule validate_vms_errors [where v = v, OF assms(6,7)])
  obtain st w4 where v: "validate_vms range_order nx ?opts (plan_VMs plan) w3 = (st, True, w4)"
    using flag by (cases "validate_vms range_order nx ?opts (plan_VMs plan) w3") auto
  let ?final = "plan_verdict ?p1 st True"
  obtain e5 w5 where u5: "StatusUpdatePlan (plr_Client r) ?final w4 = (e5, w5)" by fastforce
  have "w' = w5" using assms(2-5,9) u5 v by (simp add: PlanReconcile_def Let_def)
  then have "w_trace w' = w_trace w @ [EPlanStatus ?p1 None, EPlanStatus ?final e5]"
    using call_trace(19) [OF u5] call_trace(19) [OF assms(4)] call_trace(17) [OF assms(2)] resolve_plan_refs_frame [OF assms(5)] validate_vms_frame [OF v]
    by simp
  then have "new_effects w w' = [EPlanStatus ?p1 None, EPlanStatus ?final e5]" by (rule new_effects_append)
  moreover have "plan_Phase ?final = PlanPhaseError" by (simp add: plan_verdict_def Let_def)
  ultimately show ?thesis by blast
qed

theorem multus_plan_never_ready_witness:
  "\<exists>res w' p final err. PlanReconcile rev ((sim_plan_reconciler sim_new_plan)\<lparr>plr_Client := authorized manager_role (sim_kube sim_new_plan)\<rparr>)
      ''vma'' ''plan'' (sim_world True) = (res, w') \<and>
    new_effects (sim_world True) w' = [EPlanStatus p None, EPlanStatus final err] \<and> plan_Phase final = PlanPhaseError"
proof -
  let ?k = "sim_kube sim_new_plan :: sim KubeClient"
  let ?r = "(sim_plan_reconciler sim_new_plan)\<lparr>plr_Client := authorized manager_role ?k\<rparr>"
  let ?w = "sim_world True"
  let ?p1 = "sim_new_plan\<lparr>plan_Phase := PlanPhaseValidating\<rparr>"
  let ?w2 = "?w\<lparr>w_trace := w_trace ?w @ [EPlanStatus ?p1 None]\<rparr>"
  have c: "plr_Client ?r = authorized manager_role ?k" by simp
  have g: "Get (kc_GetPlan (plr_Client ?r) ''vma'' ''plan'') ?w = (Inr sim_new_plan, ?w)" "StatusUpdatePlan (plr_Client ?r) ?p1 ?w = (None, ?w2)"
    by (simp_all add: authorized_manager sim_kube_def op_defs perform_def)
  have f: "resolve_plan_refs ?r ?p1 ?w2 = (Inr (sim_nx, sample_network_map, sample_storage_map), ?w2)"
    by (simp add: authorized_manager resolve_plan_refs_def sim_plan_reconciler_def sim_kube_def sim_secret_def op_defs perform_def map_get_def)
  have v: "\<lparr>pvm_ID = ''vm-uuid-001'', pvm_Name = ''test-vm-linux'', pvm_Hooks = []\<rparr> \<in> set (plan_VMs sim_new_plan)"
    by (simp add: sim_plan_def)
  have vm: "\<exists>w1. GetVM sim_nx u w = (Inr vm_linux, w1)" for u w by (simp add: sim_nx_def op_defs perform_def)
  have m: "uses_multus vm_linux sample_network_map"
    by (simp add: uses_multus_def vm_linux_def fixture_nic_def sample_network_map_def findNetworkMapping_def)
  obtain res w' where run: "PlanReconcile rev ?r ''vma'' ''plan'' ?w = (res, w')" by fastforce
  show ?thesis using multus_plan_never_ready [OF c g(1) sim_new_plan_unvalidated g(2) f v vm m run] run by blast
qed

end
