(* ===== verification/Kubectl_Vma.thy ===== *)
theory Kubectl_Vma
  imports Scheduling Plan_Controller
begin

text \<open>
  The command line plugin (\<^verbatim>\<open>cmd/kubectl-vma/main.go\<close>): the five commands behind their argument parsing. A
  command runs on the world of the controllers and on its own state, the Migration objects it asked the API
  server to create and what it printed. A table that goes through \<^verbatim>\<open>text/tabwriter\<close> is kept as its rows of
  cells; the alignment is not modelled. The format of a timestamp is a parameter, since it depends on the
  time zone. The lemmas connect the commands with the controllers: which plans a migration is created from,
  and what a cancel request leads to at the next reconcile.
\<close>

datatype out_item = Line string | Table "string list list"

record 'e cli =
  cli_Client :: "'e KubeClient"
  cli_CreateMigration :: "Migration \<Rightarrow> 'e \<Rightarrow> go_error option \<times> 'e"
  cli_NewClient :: "ClientConfig \<Rightarrow> go_error + 'e NutanixClient"
  cli_NowUnix :: "'e \<Rightarrow> int \<times> 'e"
  cli_Format :: "int \<Rightarrow> string"

record 'e cli_state =
  cs_world :: "'e world"
  cs_created :: "(Migration \<times> go_error option) list"
  cs_out :: "out_item list"

definition print_out :: "out_item list \<Rightarrow> 'e cli_state \<Rightarrow> 'e cli_state" where
  "print_out xs st = st\<lparr>cs_out := cs_out st @ xs\<rparr>"

text \<open>The strings of the phases and categories, and a dash for what is missing.\<close>

fun PlanPhase_string :: "PlanPhase \<Rightarrow> string" where
  "PlanPhase_string PlanPhaseNone = ''''"
| "PlanPhase_string PlanPhasePending = ''Pending''"
| "PlanPhase_string PlanPhaseValidating = ''Validating''"
| "PlanPhase_string PlanPhaseReady = ''Ready''"
| "PlanPhase_string PlanPhaseError = ''Error''"

fun MigrationPhase_string :: "MigrationPhase \<Rightarrow> string" where
  "MigrationPhase_string MigrationPhaseNone = ''''"
| "MigrationPhase_string MigrationPhasePending = ''Pending''"
| "MigrationPhase_string MigrationPhaseRunning = ''Running''"
| "MigrationPhase_string MigrationPhaseCompleted = ''Completed''"
| "MigrationPhase_string MigrationPhaseFailed = ''Failed''"
| "MigrationPhase_string MigrationPhaseCancelled = ''Cancelled''"

fun ConcernCategory_string :: "ConcernCategory \<Rightarrow> string" where
  "ConcernCategory_string ConcernCategoryError = ''Error''"
| "ConcernCategory_string ConcernCategoryWarning = ''Warning''"
| "ConcernCategory_string ConcernCategoryInfo = ''Info''"

definition or_dash :: "string \<Rightarrow> string" where
  "or_dash s = (if s = [] then ''-'' else s)"

definition time_or_dash :: "'e cli \<Rightarrow> int option \<Rightarrow> string" where
  "time_or_dash cli t = (case t of None \<Rightarrow> ''-'' | Some n \<Rightarrow> cli_Format cli n)"

section \<open>inventory\<close>

text \<open>\<^verbatim>\<open>strings.EqualFold\<close> for a second argument without a letter that has a non-ASCII case variant.\<close>

definition EqualFold :: "string \<Rightarrow> string \<Rightarrow> bool" where
  "EqualFold s t \<longleftrightarrow> map upper_char s = map upper_char t"

definition countDataDisks :: "Disk list \<Rightarrow> int" where
  "countDataDisks disks = foldl (\<lambda>count d. if \<not> EqualFold (disk_DeviceType d) ''CDROM'' then count + 1 else count) 0 disks"

definition inventory_row :: "VM \<Rightarrow> string list" where
  "inventory_row vm =
     [vm_ExtID vm, vm_Name vm, show_int (wrap64 (vm_NumSockets vm * vm_NumCoresPerSocket vm)),
      show_int (vm_MemorySizeBytes vm sdiv (1024 * 1024)), show_int (countDataDisks (vm_Disks vm)), vm_PowerState vm]"

definition printVMInventory :: "VM list \<Rightarrow> out_item list" where
  "printVMInventory vms =
     [Table ([''UUID'', ''NAME'', ''CPU'', ''MEMORY (MiB)'', ''DISKS'', ''POWER STATE''] # map inventory_row vms)]"

definition runInventory :: "'e cli \<Rightarrow> string \<Rightarrow> string \<Rightarrow> 'e cli_state \<Rightarrow> go_error option \<times> 'e cli_state" where
  "runInventory cli ns providerName st =
     (case Get (kc_GetProvider (cli_Client cli) ns providerName) (cs_world st) of
        (Inl err, w1) \<Rightarrow> (Some (errorf_w (''getting provider '' @ go_quote providerName @ '': '') err), st\<lparr>cs_world := w1\<rparr>)
      | (Inr provider, w1) \<Rightarrow>
          (case Get (kc_GetSecret (cli_Client cli) ns (prov_SecretRef provider)) w1 of
             (Inl err, w2) \<Rightarrow> (Some (errorf_w (''getting secret '' @ go_quote (prov_SecretRef provider) @ '': '') err), st\<lparr>cs_world := w2\<rparr>)
           | (Inr secret, w2) \<Rightarrow>
               (case cli_NewClient cli
                       \<lparr>cfg_Host = prov_URL provider, cfg_Username = map_get (sec_Data secret) ''username'',
                        cfg_Password = map_get (sec_Data secret) ''password'', cfg_InsecureSkipVerify = prov_InsecureSkipVerify provider\<rparr> of
                  Inl err \<Rightarrow> (Some (errorf_w ''creating Nutanix client: '' err), st\<lparr>cs_world := w2\<rparr>)
                | Inr nx \<Rightarrow>
                    (case Get (nx_ListVMs nx) w2 of
                       (Inl err, w3) \<Rightarrow> (Some (errorf_w ''listing VMs: '' err), st\<lparr>cs_world := w3\<rparr>)
                     | (Inr vms, w3) \<Rightarrow> (None, print_out (printVMInventory vms) (st\<lparr>cs_world := w3\<rparr>))))))"

section \<open>plan\<close>

definition formatConcerns :: "Concern list \<Rightarrow> string" where
  "formatConcerns concerns =
     (if concerns = [] then ''None''
      else strings_Join (map (\<lambda>c. ''['' @ ConcernCategory_string (con_Category c) @ ''] '' @ con_Message c) concerns) ''; '')"

definition printPlanStatus :: "MigrationPlan \<Rightarrow> out_item list" where
  "printPlanStatus plan =
     [Line (''Plan:       '' @ plan_Name plan), Line (''Namespace:  '' @ plan_Namespace plan),
      Line (''Type:       '' @ MigrationType_string (plan_Type plan)), Line (''Phase:      '' @ PlanPhase_string (plan_Phase plan)),
      Line (''Provider:   '' @ plan_ProviderRef plan), Line (''Target NS:  '' @ plan_TargetNamespace plan),
      Line (''VMs:        '' @ show_nat (length (plan_VMs plan))), Line []] @
     (if plan_StatusVMs plan = [] then []
      else [Table ([''VM UUID'', ''NAME'', ''CONCERNS''] #
              map (\<lambda>vm. [vvs_ID vm, or_dash (vvs_Name vm), formatConcerns (vvs_Concerns vm)]) (plan_StatusVMs plan))])"

definition runPlan :: "'e cli \<Rightarrow> string \<Rightarrow> string \<Rightarrow> 'e cli_state \<Rightarrow> go_error option \<times> 'e cli_state" where
  "runPlan cli ns planName st =
     (case Get (kc_GetPlan (cli_Client cli) ns planName) (cs_world st) of
        (Inl err, w1) \<Rightarrow> (Some (errorf_w (''getting plan '' @ go_quote planName @ '': '') err), st\<lparr>cs_world := w1\<rparr>)
      | (Inr plan, w1) \<Rightarrow> (None, print_out (printPlanStatus plan) (st\<lparr>cs_world := w1\<rparr>)))"

section \<open>migrate\<close>

definition new_migration :: "string \<Rightarrow> string \<Rightarrow> string \<Rightarrow> Migration" where
  "new_migration ns name planName =
     \<lparr>mig_Name = name, mig_Namespace = ns, mig_UID = [], mig_Generation = 0, mig_Finalizers = [], mig_DeletionTimestamp = None,
      mig_PlanRef = planName, mig_Cutover = None, mig_Cancel = [], mig_Phase = MigrationPhaseNone, mig_Started = None,
      mig_Completed = None, mig_VMs = [], mig_Conditions = []\<rparr>"

definition runMigrate :: "'e cli \<Rightarrow> string \<Rightarrow> string \<Rightarrow> 'e cli_state \<Rightarrow> go_error option \<times> 'e cli_state" where
  "runMigrate cli ns planName st =
     (case Get (kc_GetPlan (cli_Client cli) ns planName) (cs_world st) of
        (Inl err, w1) \<Rightarrow> (Some (errorf_w (''getting plan '' @ go_quote planName @ '': '') err), st\<lparr>cs_world := w1\<rparr>)
      | (Inr plan, w1) \<Rightarrow>
          if plan_Phase plan \<noteq> PlanPhaseReady
          then (Some (errors_New (''plan '' @ go_quote planName @ '' is not Ready (current phase: '' @ PlanPhase_string (plan_Phase plan) @ '')'')),
                st\<lparr>cs_world := w1\<rparr>)
          else case Now (cli_NowUnix cli) w1 of
              (now, w2) \<Rightarrow>
                (let migrationName = planName @ ''-'' @ show_int now; migration = new_migration ns migrationName planName
                 in case perform (cli_CreateMigration cli migration) (\<lambda>_. []) w2 of
                     (Some err, w3) \<Rightarrow>
                       (Some (errorf_w ''creating migration: '' err), st\<lparr>cs_world := w3, cs_created := cs_created st @ [(migration, Some err)]\<rparr>)
                   | (None, w3) \<Rightarrow>
                       (None, print_out [Line (''Migration '' @ go_quote migrationName @ '' created from plan '' @ go_quote planName)]
                                (st\<lparr>cs_world := w3, cs_created := cs_created st @ [(migration, None)]\<rparr>))))"

section \<open>status\<close>

definition status_row :: "'e cli \<Rightarrow> VMMigrationStatus \<Rightarrow> string list" where
  "status_row cli vm =
     [vs_ID vm, or_dash (vs_Name vm), VMPhase_string (vs_Phase vm), time_or_dash cli (vs_Started vm), time_or_dash cli (vs_Completed vm),
      or_dash (vs_Error vm)]"

definition printMigrationStatus :: "'e cli \<Rightarrow> Migration \<Rightarrow> out_item list" where
  "printMigrationStatus cli m =
     [Line (''Migration:  '' @ mig_Name m), Line (''Namespace:  '' @ mig_Namespace m), Line (''Plan:       '' @ mig_PlanRef m),
      Line (''Phase:      '' @ MigrationPhase_string (mig_Phase m))] @
     (case mig_Started m of None \<Rightarrow> [] | Some t \<Rightarrow> [Line (''Started:    '' @ cli_Format cli t)]) @
     (case mig_Completed m of None \<Rightarrow> [] | Some t \<Rightarrow> [Line (''Completed:  '' @ cli_Format cli t)]) @ [Line []] @
     (if mig_VMs m = [] then []
      else [Table ([''VM UUID'', ''NAME'', ''PHASE'', ''STARTED'', ''COMPLETED'', ''ERROR''] # map (status_row cli) (mig_VMs m))])"

definition runStatus :: "'e cli \<Rightarrow> string \<Rightarrow> string \<Rightarrow> 'e cli_state \<Rightarrow> go_error option \<times> 'e cli_state" where
  "runStatus cli ns migrationName st =
     (case Get (kc_GetMigration (cli_Client cli) ns migrationName) (cs_world st) of
        (Inl err, w1) \<Rightarrow> (Some (errorf_w (''getting migration '' @ go_quote migrationName @ '': '') err), st\<lparr>cs_world := w1\<rparr>)
      | (Inr migration, w1) \<Rightarrow> (None, print_out (printMigrationStatus cli migration) (st\<lparr>cs_world := w1\<rparr>)))"

section \<open>cancel\<close>

text \<open>The loop over the given VMs: the cancel list with those appended that were not in it, and their number.\<close>

fun add_cancels :: "string list \<Rightarrow> string list \<Rightarrow> nat \<Rightarrow> string list \<times> nat" where
  "add_cancels existing [] added = (existing, added)"
| "add_cancels existing (vid # vmIDs) added =
     (if vid \<in> set existing then add_cancels existing vmIDs added else add_cancels (existing @ [vid]) vmIDs (Suc added))"

definition runCancel :: "'e cli \<Rightarrow> string \<Rightarrow> string \<Rightarrow> string list \<Rightarrow> 'e cli_state \<Rightarrow> go_error option \<times> 'e cli_state" where
  "runCancel cli ns migrationName vmIDs st =
     (case Get (kc_GetMigration (cli_Client cli) ns migrationName) (cs_world st) of
        (Inl err, w1) \<Rightarrow> (Some (errorf_w (''getting migration '' @ go_quote migrationName @ '': '') err), st\<lparr>cs_world := w1\<rparr>)
      | (Inr migration, w1) \<Rightarrow>
          (case add_cancels (mig_Cancel migration) vmIDs 0 of
             (cancel, added) \<Rightarrow>
               if added = 0
               then (None, print_out [Line ''All specified VMs are already in the cancel list''] (st\<lparr>cs_world := w1\<rparr>))
               else (case UpdateMigration (cli_Client cli) (migration\<lparr>mig_Cancel := cancel\<rparr>) w1 of
                       (Some err, w2) \<Rightarrow> (Some (errorf_w ''updating migration: '' err), st\<lparr>cs_world := w2\<rparr>)
                     | (None, w2) \<Rightarrow>
                         (None, print_out [Line (''Cancellation requested for '' @ show_nat added @ '' VM(s) in migration '' @ go_quote migrationName)]
                                  (st\<lparr>cs_world := w2\<rparr>)))))"

section \<open>Properties\<close>

lemma add_cancels_spec:
  "add_cancels existing vmIDs added = (cancel, n) \<Longrightarrow>
     \<exists>new. cancel = existing @ new \<and> n = added + length new \<and> set cancel = set existing \<union> set vmIDs \<and>
       set new \<inter> set existing = {} \<and> distinct new"
proof (induction existing vmIDs added rule: add_cancels.induct)
  case (2 existing vid vmIDs added)
  show ?case
  proof (cases "vid \<in> set existing")
    case True
    then show ?thesis using 2 by auto
  next
    case False
    with 2 obtain new where "cancel = (existing @ [vid]) @ new" "n = Suc added + length new"
        "set cancel = set (existing @ [vid]) \<union> set vmIDs" "set new \<inter> set (existing @ [vid]) = {}" "distinct new"
      by fastforce
    then show ?thesis using False by (intro exI [of _ "vid # new"]) auto
  qed
qed simp

text \<open>
  C32. A cancel request reaches the VMs it names. When \<^verbatim>\<open>kubectl vma cancel\<close> succeeds, either every VM was in
  the cancel list already or exactly one update was sent, which extends the list by the missing ones, each
  once, and changes nothing else; and the controller, processing the stored object, moves every VM that was
  named and is not terminal to \<^verbatim>\<open>Cancelled\<close>.
\<close>

theorem runCancel_reaches_vms:
  assumes "runCancel cli ns name vmIDs st = (None, st')"
    and "Get (kc_GetMigration (cli_Client cli) ns name) (cs_world st) = (Inr m, w1)"
  shows "\<exists>new. distinct new \<and> set new = set vmIDs - set (mig_Cancel m) \<and>
    new_effects (cs_world st) (cs_world st') =
      (if new = [] then [] else [EUpdateMigration (m\<lparr>mig_Cancel := mig_Cancel m @ new\<rparr>) None]) \<and>
    (\<forall>r w m' w'. processCancellations r (m\<lparr>mig_Cancel := mig_Cancel m @ new\<rparr>) w = (m', w') \<longrightarrow>
       (\<forall>i < length (mig_VMs m). vs_ID (mig_VMs m ! i) \<in> set vmIDs \<and> \<not> isTerminalVMPhase (vs_Phase (mig_VMs m ! i)) \<longrightarrow>
          vs_Phase (mig_VMs m' ! i) = VMPhaseCancelled))"
proof -
  obtain cancel n where ac: "add_cancels (mig_Cancel m) vmIDs 0 = (cancel, n)" by fastforce
  obtain new where new: "cancel = mig_Cancel m @ new" "n = length new" "set cancel = set (mig_Cancel m) \<union> set vmIDs"
      "set new \<inter> set (mig_Cancel m) = {}" "distinct new"
    using add_cancels_spec [OF ac] by auto
  have t1: "w_trace w1 = w_trace (cs_world st)" using assms(2) by (rule call_trace)
  have "new_effects (cs_world st) (cs_world st') = (if new = [] then [] else [EUpdateMigration (m\<lparr>mig_Cancel := cancel\<rparr>) None])"
    using assms ac new(1,2) t1
    by (auto simp: runCancel_def print_out_def new_effects_def call_trace split: option.splits prod.splits if_splits)
  moreover have "vs_Phase (mig_VMs m' ! i) = VMPhaseCancelled"
    if run: "processCancellations r (m\<lparr>mig_Cancel := cancel\<rparr>) w = (m', w')" and "i < length (mig_VMs m)"
      "vs_ID (mig_VMs m ! i) \<in> set vmIDs" "\<not> isTerminalVMPhase (vs_Phase (mig_VMs m ! i))" for r :: "'b MigrationReconciler" and w m' w' i
  proof -
    have ne: "cancel \<noteq> []" using that(3) new(3) by auto
    obtain vms w2 where loop: "cancel_loop r cancel (mig_VMs m) w = (vms, w2)" by fastforce
    have "m' = m\<lparr>mig_Cancel := cancel, mig_VMs := vms\<rparr>" using run ne loop by (auto simp: processCancellations_def)
    then show ?thesis
      using conjunct2 [OF conjunct2 [OF cancel_loop_spec [OF loop]], rule_format, OF that(2)] that(3,4) new(3) by auto
  qed
  moreover have "set new = set vmIDs - set (mig_Cancel m)" using new(1,3,4) by auto
  ultimately show ?thesis using new(1,5) by blast
qed

text \<open>
  A migration is created from a plan that was \<^verbatim>\<open>Ready\<close> when it was read, and from no other: then exactly one
  object is sent, in the namespace of the plan, referring to it, with nothing cancelled, and the command reports
  success exactly when the API server accepted it.
\<close>

theorem runMigrate_only_ready:
  assumes "runMigrate cli ns planName st = (err, st')"
    and "Get (kc_GetPlan (cli_Client cli) ns planName) (cs_world st) = (Inr plan, w1)"
  shows "(plan_Phase plan \<noteq> PlanPhaseReady \<longrightarrow> err \<noteq> None \<and> cs_created st' = cs_created st) \<and>
    (plan_Phase plan = PlanPhaseReady \<longrightarrow>
       (\<exists>m r. cs_created st' = cs_created st @ [(m, r)] \<and> (err = None \<longleftrightarrow> r = None) \<and>
          mig_PlanRef m = planName \<and> mig_Namespace m = ns \<and> mig_Cancel m = [] \<and> take (length planName) (mig_Name m) = planName)) \<and>
    new_effects (cs_world st) (cs_world st') = []"
proof -
  have t1: "w_trace w1 = w_trace (cs_world st)" using assms(2) by (rule call_trace)
  obtain now w2 where n: "Now (cli_NowUnix cli) w1 = (now, w2)" by fastforce
  have t2: "w_trace w2 = w_trace w1" using n by (rule call_trace)
  let ?m = "new_migration ns (planName @ ''-'' @ show_int now) planName"
  obtain r w3 where c: "perform (cli_CreateMigration cli ?m) (\<lambda>_. []) w2 = (r, w3)" by fastforce
  have t3: "w_trace w3 = w_trace w2" using perform_result(1) [OF c] by simp
  show ?thesis using assms n c t1 t2 t3
    by (cases r) (auto simp: runMigrate_def print_out_def new_migration_def Let_def new_effects_def split: if_splits)
qed

text \<open>
  The disk count of the inventory is the number of disks the migration will copy: the case-insensitive
  comparison of the plugin and the upper-casing of the controller agree on what a CD-ROM is.
\<close>

lemma ToUpper_ascii:
  assumes "CHR ''I'' \<notin> set t" "CHR ''S'' \<notin> set t" "\<forall>c \<in> set t. c \<noteq> CHR 0xC4 \<and> c \<noteq> CHR 0xC5"
  shows "ToUpper s = t \<longleftrightarrow> map upper_char s = t"
  using assms
proof (induction s arbitrary: t rule: ToUpper.induct)
  case (2 c s)
  have up: "upper_char (CHR 0xC4) = CHR 0xC4" "upper_char (CHR 0xC5) = CHR 0xC5" by (simp_all add: upper_char_def is_lower_def)
  show ?case
  proof (cases "c = CHR 0xC4 \<and> take 1 s = [CHR 0xB1] \<or> c = CHR 0xC5 \<and> take 1 s = [CHR 0xBF]")
    case True
    then show ?thesis using 2(4-6) up by (cases t) auto
  next
    case False
    then show ?thesis using 2(3) 2(4-6) by (cases t) auto
  qed
qed simp

theorem countDataDisks_agrees: "countDataDisks disks = int (length (filterDataDisks disks))"
proof -
  have "EqualFold (disk_DeviceType d) ''CDROM'' = is_cdrom d" for d
    using ToUpper_ascii [of "''CDROM''" "disk_DeviceType d"] by (simp add: EqualFold_def is_cdrom_def upper_char_def is_lower_def)
  then have "countDataDisks disks = foldl (\<lambda>count d. if \<not> is_cdrom d then count + 1 else count) 0 disks" by (simp add: countDataDisks_def)
  moreover have "foldl (\<lambda>count d. if \<not> is_cdrom d then count + 1 else count) n disks = n + int (length (filterDataDisks disks))" for n
    by (induction disks arbitrary: n) (auto simp: filterDataDisks_def)
  ultimately show ?thesis by simp
qed

section \<open>Sample runs\<close>

definition sim_cli :: "MigrationPlan \<Rightarrow> Migration \<Rightarrow> sim cli" where
  "sim_cli plan m =
     \<lparr>cli_Client = (sim_kube plan)\<lparr>kc_GetPlan := \<lambda>ns n e. (Inr plan, e), kc_GetMigration := \<lambda>ns n e. (Inr m, e),
        kc_UpdateMigration := \<lambda>m e. (None, e)\<rparr>,
      cli_CreateMigration = \<lambda>m e. (None, e), cli_NewClient = \<lambda>cfg. Inr sim_nx, cli_NowUnix = \<lambda>e. (1700000000, e),
      cli_Format = show_int\<rparr>"

definition sim_cli_state :: "sim cli_state" where
  "sim_cli_state = \<lparr>cs_world = sim_world True, cs_created = [], cs_out = []\<rparr>"

abbreviation cold_plan :: MigrationPlan where
  "cold_plan \<equiv> (sim_plan MigrationTypeCold TargetPowerStateStopped)\<lparr>plan_Phase := PlanPhaseReady\<rparr>"

abbreviation running_migration :: Migration where
  "running_migration \<equiv> sim_migration\<lparr>mig_Cancel := [''vm-uuid-002''], mig_VMs := [sim_status VMPhaseImportDisks]\<rparr>"

theorem runCancel_reaches_vms_witness:
  "\<exists>st'. runCancel (sim_cli cold_plan running_migration) ''vma'' ''mig'' [''vm-uuid-001'', ''vm-uuid-002'', ''vm-uuid-001''] sim_cli_state = (None, st') \<and>
     new_effects (cs_world sim_cli_state) (cs_world st') =
       [EUpdateMigration (running_migration\<lparr>mig_Cancel := [''vm-uuid-002'', ''vm-uuid-001'']\<rparr>) None]"
proof -
  let ?cli = "sim_cli cold_plan running_migration" and ?ids = "[''vm-uuid-001'', ''vm-uuid-002'', ''vm-uuid-001'']"
  have g: "Get (kc_GetMigration (cli_Client ?cli) ''vma'' ''mig'') (cs_world sim_cli_state) = (Inr running_migration, sim_world True)"
    by (simp add: sim_cli_def sim_cli_state_def Get_def perform_def)
  obtain st' where run: "runCancel ?cli ''vma'' ''mig'' ?ids sim_cli_state = (None, st')"
    using g by (simp add: runCancel_def UpdateMigration_def perform_def sim_cli_def sim_world_def)
  from runCancel_reaches_vms [OF run g] obtain new where c: "distinct new" "set new = set ?ids - set (mig_Cancel running_migration)"
      "new_effects (cs_world sim_cli_state) (cs_world st') =
         (if new = [] then [] else [EUpdateMigration (running_migration\<lparr>mig_Cancel := mig_Cancel running_migration @ new\<rparr>) None])"
    by blast
  have "set new = {''vm-uuid-001''}" unfolding c(2) by auto
  then have "new = [''vm-uuid-001'']" using c(1) distinct_card [OF c(1)] by (cases new; cases "tl new") auto
  then show ?thesis using run c(3) by (intro exI [of _ st']) simp
qed

theorem runMigrate_only_ready_witness:
  "\<exists>err st' m r. runMigrate (sim_cli cold_plan sim_migration) ''vma'' ''plan'' sim_cli_state = (err, st') \<and> cs_created st' = [(m, r)] \<and>
     mig_PlanRef m = ''plan'' \<and> (err = None \<longleftrightarrow> r = None)"
proof -
  let ?cli = "sim_cli cold_plan sim_migration"
  have g: "Get (kc_GetPlan (cli_Client ?cli) ''vma'' ''plan'') (cs_world sim_cli_state) = (Inr cold_plan, sim_world True)"
    by (simp add: sim_cli_def sim_cli_state_def Get_def perform_def)
  obtain err st' where run: "runMigrate ?cli ''vma'' ''plan'' sim_cli_state = (err, st')" by fastforce
  from runMigrate_only_ready [OF run g] run show ?thesis by (auto simp: sim_cli_state_def)
qed

end
