(* ===== verification/Admission.thy ===== *)
theory Admission
  imports Kubectl_Vma Provider_Controller
begin

text \<open>
  The schema markers of \<^verbatim>\<open>api/v1alpha1\<close> as the API server enforces them on an object sent by a Go client: an optional field
  with its zero value is not sent, the default of its marker takes its place, and the result is validated. \<^term>\<open>None\<close> is a
  rejected object. Markers that only require a field to be present hold for every Go object and do not appear.
\<close>

definition default_to :: "'a \<Rightarrow> 'a \<Rightarrow> 'a \<Rightarrow> 'a" where
  "default_to zero dflt x = (if x = zero then dflt else x)"

definition admit_Hook :: "Hook \<Rightarrow> Hook option" where
  "admit_Hook h = Some (h\<lparr>hook_Deadline := default_to [] ''10m'' (hook_Deadline h),
     hook_ServiceAccount := default_to [] ''default'' (hook_ServiceAccount h)\<rparr>)"

definition default_StorageDestination :: "StorageDestination \<Rightarrow> StorageDestination" where
  "default_StorageDestination d = d\<lparr>sd_VolumeMode := default_to PVModeUnset PersistentVolumeFilesystem (sd_VolumeMode d),
     sd_AccessMode := default_to PVAccessUnset ReadWriteOnce (sd_AccessMode d)\<rparr>"

definition admit_StorageMap :: "StorageMap \<Rightarrow> StorageMap option" where
  "admit_StorageMap m =
     (if sm_Map m = [] then None
      else Some (m\<lparr>sm_Map := map (\<lambda>p. p\<lparr>sp_Destination := default_StorageDestination (sp_Destination p)\<rparr>) (sm_Map m)\<rparr>))"

definition admit_NetworkMap :: "NetworkMap \<Rightarrow> NetworkMap option" where
  "admit_NetworkMap m = (if nm_Map m = [] then None else Some m)"

definition default_WarmConfig :: "WarmConfig \<Rightarrow> WarmConfig" where
  "default_WarmConfig c = c\<lparr>wc_PrecopyInterval := default_to [] ''30m'' (wc_PrecopyInterval c),
     wc_MaxPrecopyRounds := default_to 0 10 (wc_MaxPrecopyRounds c)\<rparr>"

definition valid_PlanHookRef :: "PlanHookRef \<Rightarrow> bool" where
  "valid_PlanHookRef h = (phr_Step h \<in> {''PreHook'', ''PostHook''})"

definition default_MigrationPlan :: "MigrationPlan \<Rightarrow> MigrationPlan" where
  "default_MigrationPlan plan = plan\<lparr>plan_Type := default_to MigrationTypeUnset MigrationTypeCold (plan_Type plan),
     plan_MaxInFlight := default_to 0 1 (plan_MaxInFlight plan),
     plan_TargetPowerState := default_to TargetPowerStateUnset TargetPowerStateRunning (plan_TargetPowerState plan),
     plan_WarmConfig := map_option default_WarmConfig (plan_WarmConfig plan)\<rparr>"

definition valid_MigrationPlan :: "MigrationPlan \<Rightarrow> bool" where
  "valid_MigrationPlan plan \<longleftrightarrow> plan_VMs plan \<noteq> [] \<and> 1 \<le> plan_MaxInFlight plan \<and>
     list_all (\<lambda>vm. list_all valid_PlanHookRef (pvm_Hooks vm)) (plan_VMs plan)"

definition admit_MigrationPlan :: "MigrationPlan \<Rightarrow> MigrationPlan option" where
  "admit_MigrationPlan plan = (let p = default_MigrationPlan plan in if valid_MigrationPlan p then Some p else None)"

definition http_url :: "string \<Rightarrow> bool" where
  "http_url s = (take 7 s = ''http://'' \<or> take 8 s = ''https://'')"

definition admit_NutanixProvider :: "NutanixProvider \<Rightarrow> NutanixProvider option" where
  "admit_NutanixProvider p =
     (if http_url (prov_URL p) then Some (p\<lparr>prov_RefreshInterval := default_to [] ''5m'' (prov_RefreshInterval p)\<rparr>) else None)"

section \<open>The status\<close>

definition MigrationPhase_enum :: "string list" where
  "MigrationPhase_enum = [''Pending'', ''Running'', ''Completed'', ''Failed'', ''Cancelled'']"

definition VMMigrationPhase_enum :: "string list" where
  "VMMigrationPhase_enum = [''Pending'', ''PreHook'', ''StorePowerState'', ''PowerOff'', ''WaitForPowerOff'', ''CreateSnapshot'', ''ExportDisks'',
     ''ImportDisks'', ''CreateVM'', ''StartVM'', ''PostHook'', ''Cleanup'', ''BulkCopy'', ''WaitBulkCopy'', ''Precopy'', ''FinalSync'', ''Completed'',
     ''Failed'', ''Cancelled'']"

definition PlanPhase_enum :: "string list" where
  "PlanPhase_enum = [''Pending'', ''Validating'', ''Ready'', ''Error'']"

definition ConcernCategory_enum :: "string list" where
  "ConcernCategory_enum = [''Error'', ''Warning'', ''Info'']"

definition ProviderPhase_enum :: "string list" where
  "ProviderPhase_enum = [''Pending'', ''Connecting'', ''Connected'', ''Error'']"

fun ProviderPhase_string :: "ProviderPhase \<Rightarrow> string" where
  "ProviderPhase_string ProviderPhaseNone = []"
| "ProviderPhase_string ProviderPhasePending = ''Pending''"
| "ProviderPhase_string ProviderPhaseConnecting = ''Connecting''"
| "ProviderPhase_string ProviderPhaseConnected = ''Connected''"
| "ProviderPhase_string ProviderPhaseError = ''Error''"

text \<open>An optional string field: the empty string is not sent, any other has to be in the enumeration.\<close>

definition enum_ok :: "string list \<Rightarrow> string \<Rightarrow> bool" where
  "enum_ok enum s = (s = [] \<or> s \<in> set enum)"

definition valid_Migration_status :: "Migration \<Rightarrow> bool" where
  "valid_Migration_status m \<longleftrightarrow> enum_ok MigrationPhase_enum (MigrationPhase_string (mig_Phase m)) \<and>
     list_all (\<lambda>vs. enum_ok VMMigrationPhase_enum (VMPhase_string (vs_Phase vs))) (mig_VMs m)"

definition valid_MigrationPlan_status :: "MigrationPlan \<Rightarrow> bool" where
  "valid_MigrationPlan_status plan \<longleftrightarrow> enum_ok PlanPhase_enum (PlanPhase_string (plan_Phase plan)) \<and>
     list_all (\<lambda>v. list_all (\<lambda>c. ConcernCategory_string (con_Category c) \<in> set ConcernCategory_enum) (vvs_Concerns v)) (plan_StatusVMs plan)"

definition valid_NutanixProvider_status :: "NutanixProvider \<Rightarrow> bool" where
  "valid_NutanixProvider_status p = enum_ok ProviderPhase_enum (ProviderPhase_string (prov_Phase p))"

text \<open>
  No status is refused for its phase. Whatever phases the controllers write into the status of a migration, a plan or a provider, and
  whatever concerns the validation reports, the enumerations of the schema contain them.
\<close>

theorem statuses_admitted:
  "valid_Migration_status m \<and> valid_MigrationPlan_status plan \<and> valid_NutanixProvider_status p"
proof -
  have "enum_ok MigrationPhase_enum (MigrationPhase_string x)" for x by (cases x) (simp_all add: enum_ok_def MigrationPhase_enum_def)
  moreover have "enum_ok VMMigrationPhase_enum (VMPhase_string x)" for x by (cases x) (simp_all add: enum_ok_def VMMigrationPhase_enum_def)
  moreover have "enum_ok PlanPhase_enum (PlanPhase_string x)" for x by (cases x) (simp_all add: enum_ok_def PlanPhase_enum_def)
  moreover have "ConcernCategory_string x \<in> set ConcernCategory_enum" for x by (cases x) (simp_all add: ConcernCategory_enum_def)
  moreover have "enum_ok ProviderPhase_enum (ProviderPhase_string x)" for x by (cases x) (simp_all add: enum_ok_def ProviderPhase_enum_def)
  ultimately show ?thesis by (simp add: valid_Migration_status_def valid_MigrationPlan_status_def valid_NutanixProvider_status_def list_all_iff)
qed

section \<open>Defaults and fallbacks\<close>

lemma ParseDuration_defaults: "ParseDuration ''30m'' = Some 1800000000000" "ParseDuration ''10m'' = Some 600000000000"
  by (simp_all add: ParseDuration_def duration_groups.simps duration_group_def Let_def unit_ns_def is_digit_def read_nat_def digit_val_def)

lemma ParseDuration_nil: "ParseDuration [] = None"
  by (simp add: ParseDuration_def)

lemma precopy_interval_default: "precopy_interval (default_MigrationPlan plan) = precopy_interval plan"
  by (cases "plan_WarmConfig plan")
    (simp_all add: precopy_interval_def default_MigrationPlan_def default_WarmConfig_def default_to_def ParseDuration_defaults Let_def)

text \<open>A set number of precopy rounds: the one field for which the code has no fallback of its own.\<close>

definition rounds_set :: "MigrationPlan \<Rightarrow> bool" where
  "rounds_set plan = (case plan_WarmConfig plan of None \<Rightarrow> True | Some c \<Rightarrow> wc_MaxPrecopyRounds c \<noteq> 0)"

lemma max_precopy_rounds_default: "rounds_set plan \<Longrightarrow> max_precopy_rounds (default_MigrationPlan plan) = max_precopy_rounds plan"
  by (cases "plan_WarmConfig plan")
    (simp_all add: rounds_set_def max_precopy_rounds_def default_MigrationPlan_def default_WarmConfig_def default_to_def)

lemma rounds_unset: "\<not> rounds_set plan \<Longrightarrow> max_precopy_rounds (default_MigrationPlan plan) = 10 \<and> max_precopy_rounds plan = 0"
  by (cases "plan_WarmConfig plan")
    (simp_all add: rounds_set_def max_precopy_rounds_def default_MigrationPlan_def default_WarmConfig_def default_to_def)

lemma default_fields [simp]:
  "plan_TargetNamespace (default_MigrationPlan plan) = plan_TargetNamespace plan" "plan_VMs (default_MigrationPlan plan) = plan_VMs plan"
  "(plan_TargetPowerState (default_MigrationPlan plan) = TargetPowerStateStopped) = (plan_TargetPowerState plan = TargetPowerStateStopped)"
  "pipeline_order (default_MigrationPlan plan) = pipeline_order plan"
  "max (plan_MaxInFlight (default_MigrationPlan plan)) 1 = max (plan_MaxInFlight plan) 1"
  by (auto simp: default_MigrationPlan_def default_to_def pipeline_order_def)

text \<open>The context of a migration with its plan as the API server stores it.\<close>

definition admitted_ctx :: "'e migrationContext \<Rightarrow> 'e migrationContext" where
  "admitted_ctx mctx = mctx\<lparr>mc_Plan := default_MigrationPlan (mc_Plan mctx)\<rparr>"

lemma admitted_reads:
  "mc_NutanixClient (admitted_ctx mctx) = mc_NutanixClient mctx" "mc_Plan (admitted_ctx mctx) = default_MigrationPlan (mc_Plan mctx)"
  "mc_NetworkMap (admitted_ctx mctx) = mc_NetworkMap mctx" "mc_StorageMap (admitted_ctx mctx) = mc_StorageMap mctx"
  "mc_Migration (admitted_ctx mctx) = mc_Migration mctx" "mc_TransferMgr (admitted_ctx mctx) = mc_TransferMgr mctx"
  by (simp_all add: admitted_ctx_def)

lemmas admitted = admitted_reads default_fields

lemma admitted_helpers:
  "dv_options (admitted_ctx mctx) vs = dv_options mctx vs" "create_ca (admitted_ctx mctx) = create_ca mctx"
  "delta_pod vs (admitted_ctx mctx) = delta_pod vs mctx" "finalizeFinalSync warm vs (admitted_ctx mctx) = finalizeFinalSync warm vs mctx"
  "finalizePrecopyRound r warm vs (admitted_ctx mctx) = finalizePrecopyRound r warm vs mctx"
  "checkDeltaPod r warm vs (admitted_ctx mctx) = checkDeltaPod r warm vs mctx"
  unfolding fun_eq_iff dv_options_def create_ca_def delta_pod_def finalizeFinalSync_def finalizePrecopyRound_def checkDeltaPod_def admitted by simp_all

lemma admitted_volumes:
  "create_volumes p dp size_of ds vs (admitted_ctx mctx) w = create_volumes p dp size_of ds vs mctx w"
  "createDataVolumes vs (admitted_ctx mctx) ds w = createDataVolumes vs mctx ds w"
  unfolding createDataVolumes_def create_volumes_def admitted_helpers admitted by simp_all

lemma admitted_round:
  assumes "\<And>warm vs w. fin warm vs (admitted_ctx mctx) w = fin warm vs mctx w"
  shows "runDeltaRound r label fin warm vs (admitted_ctx mctx) w = runDeltaRound r label fin warm vs mctx w"
  unfolding runDeltaRound_def delta_disk_def admitted_helpers admitted assms ..

lemma admitted_cold:
  "phaseStorePowerState vs (admitted_ctx mctx) w = phaseStorePowerState vs mctx w" "phasePowerOff vs (admitted_ctx mctx) w = phasePowerOff vs mctx w"
  "phaseWaitForPowerOff vs (admitted_ctx mctx) w = phaseWaitForPowerOff vs mctx w" "phaseCreateSnapshot vs (admitted_ctx mctx) w = phaseCreateSnapshot vs mctx w"
  "phaseExportDisks vs (admitted_ctx mctx) w = phaseExportDisks vs mctx w" "phaseImportDisks vs (admitted_ctx mctx) w = phaseImportDisks vs mctx w"
  "phaseCreateVM r vs (admitted_ctx mctx) w = phaseCreateVM r vs mctx w" "phaseStartVM r vs (admitted_ctx mctx) w = phaseStartVM r vs mctx w"
  "phaseCleanup vs (admitted_ctx mctx) w = phaseCleanup vs mctx w" "phaseBulkCopy vs (admitted_ctx mctx) w = phaseBulkCopy vs mctx w"
  "phaseWaitBulkCopy vs (admitted_ctx mctx) w = phaseWaitBulkCopy vs mctx w" "cleanupFailedVM r vs (admitted_ctx mctx) w = cleanupFailedVM r vs mctx w"
  unfolding phaseStorePowerState_def phasePowerOff_def phaseWaitForPowerOff_def phaseCreateSnapshot_def phaseExportDisks_def phaseImportDisks_def
    phaseCreateVM_def phaseStartVM_def phaseCleanup_def phaseBulkCopy_def phaseWaitBulkCopy_def pollDataVolumes_def cleanupFailedVM_def cleanup_warm_def
    admitted_volumes admitted
  by simp_all

lemma admitted_warm:
  "phaseFinalSync r vs (admitted_ctx mctx) w = phaseFinalSync r vs mctx w"
  "rounds_set (mc_Plan mctx) \<Longrightarrow> phasePrecopy r vs (admitted_ctx mctx) w = phasePrecopy r vs mctx w"
proof -
  show "phaseFinalSync r vs (admitted_ctx mctx) w = phaseFinalSync r vs mctx w"
    unfolding phaseFinalSync_def admitted_round [of finalizeFinalSync mctx, OF fun_cong [OF admitted_helpers(4)]] admitted_helpers ..
  assume "rounds_set (mc_Plan mctx)"
  note rounds = max_precopy_rounds_default [OF this]
  show "phasePrecopy r vs (admitted_ctx mctx) w = phasePrecopy r vs mctx w"
    unfolding phasePrecopy_def admitted_round [of "finalizePrecopyRound r" mctx, OF fun_cong [OF admitted_helpers(5)]] admitted_helpers admitted
      rounds precopy_interval_default ..
qed

text \<open>
  C24. The fallbacks of the code are the defaults of the schema, with one exception. For a plan, a hook and a provider as they were
  written and as the API server stores them, the handler of every phase but the hooks and \<^verbatim>\<open>Precopy\<close>, the failure cleanup, the
  order of the phases, the limit of concurrent VMs, the Job of the hook and the refresh interval of the provider are the same.
  \<^verbatim>\<open>Precopy\<close> is the same exactly as far as the number of rounds is: the code falls back to ten rounds only when the
  plan has no warm configuration, so a configuration that does not set the number means no round to the code and ten to the schema.
\<close>

theorem defaults_agree:
  assumes "admit_MigrationPlan (mc_Plan mctx) = Some plan" and "admit_Hook hook = Some hook'" and "admit_NutanixProvider p = Some p'"
    and "vs_Phase vs \<notin> {VMPhasePreHook, VMPhasePostHook}"
  shows "(vs_Phase vs \<noteq> VMPhasePrecopy \<longrightarrow> executePhase r vs (mctx\<lparr>mc_Plan := plan\<rparr>) w = executePhase r vs mctx w) \<and>
    (if rounds_set (mc_Plan mctx)
     then max_precopy_rounds plan = max_precopy_rounds (mc_Plan mctx) \<and> executePhase r vs (mctx\<lparr>mc_Plan := plan\<rparr>) w = executePhase r vs mctx w
     else max_precopy_rounds plan = 10 \<and> max_precopy_rounds (mc_Plan mctx) = 0) \<and>
    cleanupFailedVM r vs (mctx\<lparr>mc_Plan := plan\<rparr>) w = cleanupFailedVM r vs mctx w \<and>
    pipeline_order plan = pipeline_order (mc_Plan mctx) \<and> max (plan_MaxInFlight plan) 1 = max (plan_MaxInFlight (mc_Plan mctx)) 1 \<and>
    hook_job name ns hook' cm mig n = hook_job name ns hook cm mig n \<and> refresh_interval p' = refresh_interval p"
proof -
  have plan: "plan = default_MigrationPlan (mc_Plan mctx)" using assms(1) by (simp add: admit_MigrationPlan_def Let_def split: if_splits)
  then have ctx: "mctx\<lparr>mc_Plan := plan\<rparr> = admitted_ctx mctx" by (simp add: admitted_ctx_def)
  have "executePhase r vs (admitted_ctx mctx) w = executePhase r vs mctx w" if "vs_Phase vs \<noteq> VMPhasePrecopy \<or> rounds_set (mc_Plan mctx)"
    using assms(4) that admitted_warm(2) by (cases "vs_Phase vs") (auto simp: executePhase_def admitted_cold admitted_warm(1))
  moreover have "hook_job name ns hook' cm mig n = hook_job name ns hook cm mig n"
    using assms(2) ParseDuration_defaults(2)
    by (auto simp: admit_Hook_def hook_job_def parseDeadline_def default_to_def Let_def)
  moreover have "refresh_interval p' = refresh_interval p"
    using assms(3) by (auto simp: admit_NutanixProvider_def refresh_interval_def default_to_def ParseDuration_5m ParseDuration_nil split: if_splits)
  ultimately show ?thesis unfolding ctx using max_precopy_rounds_default rounds_unset by (simp add: admitted_cold plan)
qed

definition unset_plan :: MigrationPlan where
  "unset_plan = (sim_plan MigrationTypeUnset TargetPowerStateUnset)\<lparr>plan_MaxInFlight := 0\<rparr>"

theorem defaults_agree_witness:
  "\<exists>plan. admit_MigrationPlan unset_plan = Some plan \<and> plan \<noteq> unset_plan \<and> pipeline_order plan = pipeline_order unset_plan \<and>
     max (plan_MaxInFlight plan) 1 = max (plan_MaxInFlight unset_plan) 1 \<and>
     phaseStartVM (sim_reconciler unset_plan) (sim_status VMPhaseStartVM) ((sim_mctx unset_plan)\<lparr>mc_Plan := plan\<rparr>) (sim_world True) =
       phaseStartVM (sim_reconciler unset_plan) (sim_status VMPhaseStartVM) (sim_mctx unset_plan) (sim_world True)"
proof -
  let ?plan = "default_MigrationPlan unset_plan"
  have mctx: "mc_Plan (sim_mctx unset_plan) = unset_plan" by (simp add: sim_mctx_def Let_def)
  have a: "admit_MigrationPlan unset_plan = Some ?plan" "?plan \<noteq> unset_plan"
    by (auto simp: admit_MigrationPlan_def valid_MigrationPlan_def default_MigrationPlan_def unset_plan_def sim_plan_def default_to_def Let_def
        dest: arg_cong [where f = plan_MaxInFlight])
  have h: "admit_Hook sim_hook = Some (the (admit_Hook sim_hook))" "admit_NutanixProvider sim_provider = Some (the (admit_NutanixProvider sim_provider))"
    by (simp_all add: admit_Hook_def admit_NutanixProvider_def http_url_def sim_provider_def)
  have ph: "vs_Phase (sim_status VMPhaseStartVM) = VMPhaseStartVM" by (simp add: sim_status_def)
  show ?thesis
    using defaults_agree [of "sim_mctx unset_plan", unfolded mctx, OF a(1) h, of "sim_status VMPhaseStartVM" "sim_reconciler unset_plan" "sim_world True"] a(1,2)
    by (intro exI [of _ ?plan]) (simp add: ph executePhase_def)
qed

section \<open>Volumes\<close>

lemma FindStorageMapping_loop_in: "FindStorageMapping_loop ref pairs = Some d \<Longrightarrow> \<exists>p \<in> set pairs. d = sp_Destination p"
  by (induction pairs) (auto split: if_splits)

text \<open>
  The volumes of an admitted storage map are complete. The code copies the volume mode and the access mode of the map as they are; with a map
  the API server has stored they are always set, for every disk, mapped or not.
\<close>

theorem admitted_volume_modes:
  assumes "admit_StorageMap m = Some (mc_StorageMap mctx)"
  shows "dv_VolumeMode (BuildDataVolume (dv_options mctx vs size_of ds cert i u)) \<noteq> PVModeUnset \<and>
    dv_AccessModes (BuildDataVolume (dv_options mctx vs size_of ds cert i u)) \<noteq> [PVAccessUnset]"
proof -
  have "sd_VolumeMode d \<noteq> PVModeUnset \<and> sd_AccessMode d \<noteq> PVAccessUnset" if found: "FindStorageMapping disk (mc_StorageMap mctx) = Some d" for disk d
  proof -
    obtain p where "p \<in> set (sm_Map (mc_StorageMap mctx))" "d = sp_Destination p"
      using found by (auto simp: FindStorageMapping_def dest!: FindStorageMapping_loop_in split: option.splits)
    moreover have "mc_StorageMap mctx = m\<lparr>sm_Map := map (\<lambda>p. p\<lparr>sp_Destination := default_StorageDestination (sp_Destination p)\<rparr>) (sm_Map m)\<rparr>"
      using assms by (simp add: admit_StorageMap_def split: if_splits)
    ultimately show ?thesis by (auto simp: default_StorageDestination_def default_to_def split: if_splits)
  qed
  then show ?thesis by (auto simp: BuildDataVolume_def dv_options_def Let_def split: option.splits)
qed

theorem admitted_volume_modes_witness:
  "\<exists>sm. admit_StorageMap \<lparr>sm_Name = ''s'', sm_ProviderRef = ''p'', sm_Map = [\<lparr>sp_Source = \<lparr>ss_ID = ''sc-1'', ss_Name = []\<rparr>,
      sp_Destination = \<lparr>sd_StorageClass = ''fast'', sd_VolumeMode = PVModeUnset, sd_AccessMode = PVAccessUnset\<rparr>\<rparr>]\<rparr> = Some sm \<and>
     dv_AccessModes (BuildDataVolume (dv_options ((sim_mctx unset_plan)\<lparr>mc_StorageMap := sm\<rparr>) (sim_status VMPhaseImportDisks) getDiskSize
       (vm_Disks vm_linux) [] 0 ''img'')) \<noteq> [PVAccessUnset]"
proof -
  let ?m = "\<lparr>sm_Name = ''s'', sm_ProviderRef = ''p'', sm_Map = [\<lparr>sp_Source = \<lparr>ss_ID = ''sc-1'', ss_Name = []\<rparr>,
      sp_Destination = \<lparr>sd_StorageClass = ''fast'', sd_VolumeMode = PVModeUnset, sd_AccessMode = PVAccessUnset\<rparr>\<rparr>]\<rparr>"
  obtain sm where sm: "admit_StorageMap ?m = Some sm" by (simp add: admit_StorageMap_def)
  have ctx: "mc_StorageMap ((sim_mctx unset_plan)\<lparr>mc_StorageMap := sm\<rparr>) = sm" by simp
  show ?thesis using sm admitted_volume_modes [of ?m "(sim_mctx unset_plan)\<lparr>mc_StorageMap := sm\<rparr>", unfolded ctx, OF sm] by blast
qed

end
