(* ===== verification/Known_Defects.thy ===== *)
theory Known_Defects
  imports Delta_Round Provider_Controller Validation
begin

text \<open>
  Behaviour of the code that differs from what its names and comments promise, each stated as a theorem on the model:
  hooks, object names, inventory, validation keys and the paging of the mock server.
\<close>

section \<open>Hooks\<close>

text \<open>A hook that cannot be read, for whatever reason, counts as no hook: the phase completes and the hook never runs.\<close>

theorem hook_read_error_skips_hook:
  assumes "find (\<lambda>p. pvm_ID p = vs_ID vs) (plan_VMs (mc_Plan mctx)) = Some planVM" "find_hook_ref step (pvm_Hooks planVM) = Some ref"
    and "Get (kc_GetHook (r_Client r) (mig_Namespace (mc_Migration mctx)) (phr_HookRef ref)) w = (Inl err, w1)"
  shows "runHook r step vs mctx w = (phase_completed, vs, w1)"
  using assms by (simp add: runHook_def findHook_def)

text \<open>
  The playbook of a hook does not reach its container: a volume is added for it, but no container mounts that volume, and neither the
  containers nor the ConfigMap depend on the playbook.
\<close>

theorem hook_playbook_not_delivered:
  assumes "hook_Playbook hook \<noteq> []"
  shows "(\<exists>v \<in> set (job_Volumes (hook_job name ns hook cm mig n)). vol_Name v = ''hook-playbook'') \<and>
    (\<forall>c \<in> set (job_Containers (hook_job name ns hook cm mig n)). \<forall>m \<in> set (ctr_VolumeMounts c). mnt_Name m \<noteq> ''hook-playbook'') \<and>
    job_Containers (hook_job name ns (hook\<lparr>hook_Playbook := []\<rparr>) cm mig n) = job_Containers (hook_job name ns hook cm mig n)"
  using assms by (simp add: hook_job_def Let_def)

section \<open>Object names\<close>

text \<open>
  Two VMs of a migration whose identifiers agree in the first eight characters are given the same DataVolumes: after both
  imports have completed, the statuses, and so the two target VMs, name the same disks.
\<close>

theorem same_prefix_shares_disks:
  assumes "phaseImportDisks a mctx w = (phase_completed, a', w1)" "phaseImportDisks b mctx w2 = (phase_completed, b', w3)"
    and "vs_DataVolumeNames a = []" "vs_DataVolumeNames b = []" "length (vs_ImageUUIDs a) = length (vs_ImageUUIDs b)"
    and "take 8 (vs_ID a) = take 8 (vs_ID b)" "8 \<le> length (vs_ID a)" "8 \<le> length (vs_ID b)"
  shows "vs_DataVolumeNames a' = vs_DataVolumeNames b'"
proof -
  have names: "vs_DataVolumeNames v' = map (disk_object_name (mc_Migration mctx) v) [0..<length (vs_ImageUUIDs v)]"
    if "phaseImportDisks v mctx w = (phase_completed, v', w')" "vs_DataVolumeNames v = []" for v v' w w'
    using that by (auto simp: phaseImportDisks_def Let_def dest!: create_volumes_spec split: prod.splits sum.splits option.splits if_splits)
  have "shortID (vs_ID a) = shortID (vs_ID b)" using assms(6-8) by (auto simp: shortID_def)
  then show ?thesis using names [OF assms(1,3)] names [OF assms(2,4)] assms(5) by (simp add: disk_object_name_def)
qed

text \<open>Every DataVolume is owned by the Migration object: it goes when the finished Migration is deleted, in whatever namespace it is.\<close>

theorem volumes_owned_by_migration:
  "dv_OwnerReferences (BuildDataVolume (dv_options mctx vs size_of ds cert i u)) = [migration_owner (mc_Migration mctx)] \<and>
   dv_Namespace (BuildDataVolume (dv_options mctx vs size_of ds cert i u)) = plan_TargetNamespace (mc_Plan mctx)"
  by (simp add: BuildDataVolume_def dv_options_def Let_def split: option.splits)

section \<open>Inventory\<close>

text \<open>The inventory of a provider is reported as complete when subnets and clusters could not be listed at all.\<close>

theorem inventory_complete_despite_errors:
  assumes "Get (nx_ListVMs nx) w = (Inr vms, w1)" "Get (nx_ListSubnets nx) w1 = (Inl e1, w2)" "Get (nx_ListClusters nx) w2 = (Inl e2, w3)"
    and "read_inventory r nx p w = (res, w')"
  shows "\<exists>final err c. w_trace w' = w_trace w @ [EProviderStatus final err] \<and> prov_Phase final = ProviderPhaseConnected \<and>
    c \<in> set (prov_Conditions final) \<and> cond_Type c = conditionTypeInventoryReady \<and> cond_Status c = ConditionTrue \<and> cond_Reason c = ''InventoryComplete''"
proof -
  let ?p1 = "provider_condition p conditionTypeConnected ConditionTrue ''Connected'' (''Connected to '' @ prov_URL p)"
  let ?final = "provider_condition (?p1\<lparr>prov_Phase := ProviderPhaseConnected, prov_VMCount := length vms\<rparr>) conditionTypeInventoryReady ConditionTrue
    ''InventoryComplete'' (inventory_message (length vms) 0 0 0)"
  obtain err w4 where u: "StatusUpdateProvider (pvr_Client r) ?final w3 = (err, w4)" by fastforce
  have "w' = w4" using assms u by (auto simp: read_inventory_def best_effort_list_def Let_def split: option.splits)
  moreover have "w_trace w3 = w_trace w" using call_trace(17) [OF assms(1)] call_trace(17) [OF assms(2)] call_trace(17) [OF assms(3)] by simp
  ultimately have "w_trace w' = w_trace w @ [EProviderStatus ?final err]" using call_trace(21) [OF u] by simp
  moreover have "prov_Phase ?final = ProviderPhaseConnected" by (simp add: provider_condition_def)
  moreover have "\<exists>c \<in> set (prov_Conditions ?final). cond_Type c = conditionTypeInventoryReady \<and> cond_Status c = ConditionTrue \<and> cond_Reason c = ''InventoryComplete''"
    by (simp add: provider_condition_def) (metis SetStatusCondition_in Condition.select_convs(1-3))
  ultimately show ?thesis by blast
qed

section \<open>Validation keys\<close>

text \<open>
  A container that the storage map does not have is not reported when an earlier disk refers to a mapped container
  whose identifier and name give the same key.
\<close>

definition slash_disk :: "string \<Rightarrow> string \<Rightarrow> Disk" where
  "slash_disk i n = (hd (vm_Disks vm_linux))\<lparr>disk_BackingInfo := Some ((the (disk_BackingInfo (hd (vm_Disks vm_linux))))
     \<lparr>bi_StorageContainerRef := Some \<lparr>ref_ExtID = i, ref_Name = n\<rparr>\<rparr>)\<rparr>"

definition slash_map :: StorageMap where
  "slash_map = \<lparr>sm_Name = ''s'', sm_ProviderRef = ''p'', sm_Map = [\<lparr>sp_Source = \<lparr>ss_ID = ''a/b'', ss_Name = []\<rparr>,
     sp_Destination = \<lparr>sd_StorageClass = ''fast'', sd_VolumeMode = PersistentVolumeFilesystem, sd_AccessMode = ReadWriteOnce\<rparr>\<rparr>]\<rparr>"

theorem slash_hides_container:
  "unmapped_storage (Some slash_map) [] [slash_disk ''a/b'' ''c'', slash_disk ''a'' ''b/c''] = [] \<and>
   unmapped_storage (Some slash_map) [] [slash_disk ''a'' ''b/c''] \<noteq> []"
  by (simp add: slash_disk_def slash_map_def ref_key_def isStorageMapped_def disk_container_def vm_linux_def fixture_disk_def is_cdrom_def
      upper_char_def is_lower_def)

section \<open>Paging of the mock server\<close>

text \<open>The end of a page is a wrapping sum: a large page size with a start after the first entry makes the list handlers panic.\<close>

theorem mock_page_overflow_panics:
  assumes "parsePagination query = (n, skip)" and "0 \<le> skip" "skip < int (length xs)" and "n < 2 ^ 63" "2 ^ 63 \<le> skip + n" "int (length xs) < 2 ^ 63"
  shows "list_page enc xs query = None"
proof -
  have "wrap64 (skip + n) = skip + n - 2 ^ 64"
  proof -
    have "(skip + n + 2 ^ 63) mod 2 ^ 64 = skip + n + 2 ^ 63 - 2 ^ 64"
      using assms(3-6) by (intro int_mod_pos_eq [where q = 1]) simp_all
    then show ?thesis by (simp add: wrap64_def)
  qed
  then show ?thesis using assms by (simp add: list_page_def Let_def min_def)
qed

end
