(* ===== verification/Entry_Points.thy ===== *)
theory Entry_Points
  imports Kubectl_Vma Client_Server Provider_Controller
begin

text \<open>
  The programs: \<^verbatim>\<open>cmd/main.go\<close>, which parses its flags, configures the manager and registers the three controllers;
  the command tree of the kubectl plugin; the stand-alone mock server; and the TLS transport of the HTTP
  client (\<^verbatim>\<open>internal/nutanix/auth.go\<close>). Command lines are parsed as Go's \<^verbatim>\<open>flag\<close> package does; controller-runtime, cobra, the
  flags of zap and the parsing of certificates are parameters.
\<close>

section \<open>Flags\<close>

text \<open>
  \<^verbatim>\<open>flag.FlagSet.parseOne\<close>: one or two dashes, a name and optionally a value after an equals sign; a flag that is not
  boolean takes the next argument otherwise. Parsing ends at the first argument that is not a flag, or after
  two dashes. A foreign flag is one registered by a library: whether it is boolean and which values it takes.
\<close>

datatype 'c flag_value =
    BoolFlag "bool \<Rightarrow> 'c \<Rightarrow> 'c"
  | StringFlag "string \<Rightarrow> 'c \<Rightarrow> 'c"
  | ForeignFlag bool "string \<Rightarrow> bool"

datatype flag_error = ErrHelp | FlagError string

datatype flag_arg = Positional | Terminator | BadSyntax | FlagArg string "string option"

fun split_flag :: "string \<Rightarrow> string \<times> string option" where
  "split_flag [] = ([], None)"
| "split_flag (c # cs) = (if c = CHR ''='' then ([], Some cs) else case split_flag cs of (name, value) \<Rightarrow> (c # name, value))"

definition flag_arg_of :: "string \<Rightarrow> flag_arg" where
  "flag_arg_of s =
     (if length s < 2 \<or> hd s \<noteq> CHR ''-'' then Positional
      else if s = ''--'' then Terminator
      else let name = (if s ! 1 = CHR ''-'' then drop 2 s else drop 1 s) in
        if name = [] \<or> hd name = CHR ''-'' \<or> hd name = CHR ''='' then BadSyntax
        else case split_flag name of (n, v) \<Rightarrow> FlagArg n v)"

definition ParseBool :: "string \<Rightarrow> bool option" where
  "ParseBool s =
     (if s \<in> {''1'', ''t'', ''T'', ''true'', ''TRUE'', ''True''} then Some True
      else if s \<in> {''0'', ''f'', ''F'', ''false'', ''FALSE'', ''False''} then Some False else None)"

fun parse_flags :: "(string \<Rightarrow> 'c flag_value option) \<Rightarrow> 'c \<Rightarrow> string list \<Rightarrow> flag_error + 'c \<times> string list" where
  "parse_flags formal cfg [] = Inr (cfg, [])"
| "parse_flags formal cfg (s # args) =
     (case flag_arg_of s of
        Positional \<Rightarrow> Inr (cfg, s # args)
      | Terminator \<Rightarrow> Inr (cfg, args)
      | BadSyntax \<Rightarrow> Inl (FlagError (''bad flag syntax: '' @ s))
      | FlagArg name value \<Rightarrow>
          (case formal name of
             None \<Rightarrow> if name = ''help'' \<or> name = ''h'' then Inl ErrHelp
                     else Inl (FlagError (''flag provided but not defined: -'' @ name))
           | Some (BoolFlag upd) \<Rightarrow>
               (case ParseBool (case value of None \<Rightarrow> ''true'' | Some v \<Rightarrow> v) of
                  None \<Rightarrow> Inl (FlagError (''invalid boolean value for -'' @ name))
                | Some b \<Rightarrow> parse_flags formal (upd b cfg) args)
           | Some (StringFlag upd) \<Rightarrow>
               (case value of
                  Some v \<Rightarrow> parse_flags formal (upd v cfg) args
                | None \<Rightarrow> (case args of
                    [] \<Rightarrow> Inl (FlagError (''flag needs an argument: -'' @ name))
                  | v # rest \<Rightarrow> parse_flags formal (upd v cfg) rest))
           | Some (ForeignFlag isBool accepts) \<Rightarrow>
               (case (if isBool \<and> value = None then Some ''true'' else value) of
                  Some v \<Rightarrow> if accepts v then parse_flags formal cfg args else Inl (FlagError (''invalid value for flag -'' @ name))
                | None \<Rightarrow> (case args of
                    [] \<Rightarrow> Inl (FlagError (''flag needs an argument: -'' @ name))
                  | v # rest \<Rightarrow> if accepts v then parse_flags formal cfg rest else Inl (FlagError (''invalid value for flag -'' @ name))))))"

text \<open>The exit status of \<^verbatim>\<open>flag.Parse\<close> on an error.\<close>

fun flag_exit :: "flag_error \<Rightarrow> nat" where
  "flag_exit ErrHelp = 0"
| "flag_exit (FlagError msg) = 2"

text \<open>What holds of the configuration and is kept by every flag but one is kept by a command line without that flag.\<close>

definition keeps :: "('c \<Rightarrow> bool) \<Rightarrow> 'c flag_value \<Rightarrow> bool" where
  "keeps P f = (case f of BoolFlag upd \<Rightarrow> \<forall>b c. P c \<longrightarrow> P (upd b c) | StringFlag upd \<Rightarrow> \<forall>v c. P c \<longrightarrow> P (upd v c) | ForeignFlag _ _ \<Rightarrow> True)"

definition mentions :: "string \<Rightarrow> string list \<Rightarrow> bool" where
  "mentions name args = (\<exists>s \<in> set args. \<exists>v. flag_arg_of s = FlagArg name v)"

lemma parse_flags_keeps:
  assumes "parse_flags formal cfg args = Inr (cfg', rest)" "P cfg" "\<not> mentions n args"
    and "\<And>name f. formal name = Some f \<Longrightarrow> name \<noteq> n \<Longrightarrow> keeps P f"
  shows "P cfg'"
  using assms(1-3)
proof (induction args arbitrary: cfg rule: length_induct)
  case (1 args)
  have IH: "length xs < length args \<Longrightarrow> parse_flags formal c xs = Inr (cfg', rest) \<Longrightarrow> P c \<Longrightarrow> \<not> mentions n xs \<Longrightarrow> P cfg'" for xs c
    using 1(1) by blast
  show ?case
  proof (cases args)
    case (Cons s xs)
    have sub: "\<not> mentions n xs" using 1(4) Cons by (auto simp: mentions_def)
    have sub': "\<not> mentions n (tl xs)" using sub by (cases xs) (auto simp: mentions_def)
    show ?thesis
    proof (cases "flag_arg_of s")
      case (FlagArg name val)
      then have "name \<noteq> n" using 1(4) Cons by (auto simp: mentions_def)
      then have k: "formal name = Some f \<Longrightarrow> keeps P f" for f using assms(4) by blast
      note run = 1(2) [unfolded Cons, simplified, unfolded FlagArg, simplified]
      have go: "parse_flags formal c xs = Inr (cfg', rest) \<Longrightarrow> P c \<Longrightarrow> P cfg'" for c by (rule IH [of xs]) (use Cons sub in auto)
      have go': "xs = v # ys \<Longrightarrow> parse_flags formal c ys = Inr (cfg', rest) \<Longrightarrow> P c \<Longrightarrow> P cfg'" for c v ys
        by (rule IH [of ys]) (use Cons sub' in auto)
      show ?thesis
      proof (cases "formal name")
        case (Some f)
        show ?thesis
        proof (cases f)
          case (BoolFlag upd)
          then show ?thesis using run Some k [OF Some] go 1(3) by (auto simp: keeps_def split: option.splits)
        next
          case (StringFlag upd)
          then show ?thesis using run Some k [OF Some] go go' 1(3) by (auto simp: keeps_def split: option.splits list.splits)
        next
          case (ForeignFlag b accepts)
          then show ?thesis using run Some go go' 1(3) by (auto split: option.splits list.splits if_splits)
        qed
      qed (use run in \<open>simp split: if_splits\<close>)
    qed (use 1(2,3) Cons in auto)
  qed (use 1 in simp)
qed

section \<open>The manager\<close>

record manager_flags =
  fl_metricsAddr :: string
  fl_probeAddr :: string
  fl_enableLeaderElection :: bool
  fl_secureMetrics :: bool
  fl_webhookCertPath :: string
  fl_webhookCertName :: string
  fl_webhookCertKey :: string
  fl_metricsCertPath :: string
  fl_metricsCertName :: string
  fl_metricsCertKey :: string
  fl_enableHTTP2 :: bool

definition default_flags :: manager_flags where
  "default_flags =
     \<lparr>fl_metricsAddr = ''0'', fl_probeAddr = '':8081'', fl_enableLeaderElection = False, fl_secureMetrics = True,
      fl_webhookCertPath = [], fl_webhookCertName = ''tls.crt'', fl_webhookCertKey = ''tls.key'',
      fl_metricsCertPath = [], fl_metricsCertName = ''tls.crt'', fl_metricsCertKey = ''tls.key'', fl_enableHTTP2 = False\<rparr>"

text \<open>The flags registered by \<^verbatim>\<open>main\<close>, and by \<^verbatim>\<open>zap.Options.BindFlags\<close>.\<close>

definition manager_formal :: "(string \<Rightarrow> (bool \<times> (string \<Rightarrow> bool)) option) \<Rightarrow> string \<Rightarrow> manager_flags flag_value option" where
  "manager_formal zap name =
     (if name = ''metrics-bind-address'' then Some (StringFlag (\<lambda>v f. f\<lparr>fl_metricsAddr := v\<rparr>))
      else if name = ''health-probe-bind-address'' then Some (StringFlag (\<lambda>v f. f\<lparr>fl_probeAddr := v\<rparr>))
      else if name = ''leader-elect'' then Some (BoolFlag (\<lambda>b f. f\<lparr>fl_enableLeaderElection := b\<rparr>))
      else if name = ''metrics-secure'' then Some (BoolFlag (\<lambda>b f. f\<lparr>fl_secureMetrics := b\<rparr>))
      else if name = ''webhook-cert-path'' then Some (StringFlag (\<lambda>v f. f\<lparr>fl_webhookCertPath := v\<rparr>))
      else if name = ''webhook-cert-name'' then Some (StringFlag (\<lambda>v f. f\<lparr>fl_webhookCertName := v\<rparr>))
      else if name = ''webhook-cert-key'' then Some (StringFlag (\<lambda>v f. f\<lparr>fl_webhookCertKey := v\<rparr>))
      else if name = ''metrics-cert-path'' then Some (StringFlag (\<lambda>v f. f\<lparr>fl_metricsCertPath := v\<rparr>))
      else if name = ''metrics-cert-name'' then Some (StringFlag (\<lambda>v f. f\<lparr>fl_metricsCertName := v\<rparr>))
      else if name = ''metrics-cert-key'' then Some (StringFlag (\<lambda>v f. f\<lparr>fl_metricsCertKey := v\<rparr>))
      else if name = ''enable-http2'' then Some (BoolFlag (\<lambda>b f. f\<lparr>fl_enableHTTP2 := b\<rparr>))
      else map_option (\<lambda>(isBool, accepts). ForeignFlag isBool accepts) (zap name))"

text \<open>The TLS settings are functions on the configuration, applied in order by the server that is started.\<close>

record tls_config =
  tls_NextProtos :: "string list"

record webhook_Options =
  wh_TLSOpts :: "(tls_config \<Rightarrow> tls_config) list"
  wh_CertDir :: string
  wh_CertName :: string
  wh_KeyName :: string

record metricsserver_Options =
  ms_BindAddress :: string
  ms_SecureServing :: bool
  ms_TLSOpts :: "(tls_config \<Rightarrow> tls_config) list"
  ms_FilterProvider :: "string option"
  ms_CertDir :: string
  ms_CertName :: string
  ms_KeyName :: string

record ctrl_Options =
  co_Metrics :: metricsserver_Options
  co_WebhookServer :: webhook_Options
  co_HealthProbeBindAddress :: string
  co_LeaderElection :: bool
  co_LeaderElectionID :: string

definition disableHTTP2 :: "tls_config \<Rightarrow> tls_config" where
  "disableHTTP2 c = c\<lparr>tls_NextProtos := [''http/1.1'']\<rparr>"

definition tls_options :: "manager_flags \<Rightarrow> (tls_config \<Rightarrow> tls_config) list" where
  "tls_options f = (if \<not> fl_enableHTTP2 f then [disableHTTP2] else [])"

definition webhook_options :: "manager_flags \<Rightarrow> webhook_Options" where
  "webhook_options f =
     (let opts = \<lparr>wh_TLSOpts = tls_options f, wh_CertDir = [], wh_CertName = [], wh_KeyName = []\<rparr> in
      if fl_webhookCertPath f \<noteq> []
      then opts\<lparr>wh_CertDir := fl_webhookCertPath f, wh_CertName := fl_webhookCertName f, wh_KeyName := fl_webhookCertKey f\<rparr> else opts)"

definition metrics_options :: "manager_flags \<Rightarrow> metricsserver_Options" where
  "metrics_options f =
     (let opts = \<lparr>ms_BindAddress = fl_metricsAddr f, ms_SecureServing = fl_secureMetrics f, ms_TLSOpts = tls_options f,
               ms_FilterProvider = None, ms_CertDir = [], ms_CertName = [], ms_KeyName = []\<rparr>;
          opts1 = (if fl_secureMetrics f then opts\<lparr>ms_FilterProvider := Some ''WithAuthenticationAndAuthorization''\<rparr> else opts)
      in if fl_metricsCertPath f \<noteq> []
         then opts1\<lparr>ms_CertDir := fl_metricsCertPath f, ms_CertName := fl_metricsCertName f, ms_KeyName := fl_metricsCertKey f\<rparr> else opts1)"

definition manager_options :: "manager_flags \<Rightarrow> ctrl_Options" where
  "manager_options f =
     \<lparr>co_Metrics = metrics_options f, co_WebhookServer = webhook_options f, co_HealthProbeBindAddress = fl_probeAddr f,
      co_LeaderElection = fl_enableLeaderElection f, co_LeaderElectionID = ''07985020.nutanix.io''\<rparr>"

text \<open>
  controller-runtime: building a manager from a configuration, registering a controller under a name for a kind,
  the checks and running the manager. A controller is registered with its name, the kind it watches and the
  name of its event recorder.
\<close>

record controller_registration =
  reg_Name :: string
  reg_For :: string
  reg_Recorder :: "string option"

record ('m, 'e) controller_runtime =
  cr_GetConfig :: "'e \<Rightarrow> bool \<times> 'e"
  cr_NewManager :: "ctrl_Options \<Rightarrow> 'e \<Rightarrow> (go_error + 'm) \<times> 'e"
  cr_Complete :: "'m \<Rightarrow> controller_registration \<Rightarrow> 'e \<Rightarrow> go_error option \<times> 'e"
  cr_AddHealthzCheck :: "'m \<Rightarrow> string \<Rightarrow> 'e \<Rightarrow> go_error option \<times> 'e"
  cr_AddReadyzCheck :: "'m \<Rightarrow> string \<Rightarrow> 'e \<Rightarrow> go_error option \<times> 'e"
  cr_Start :: "'m \<Rightarrow> 'e \<Rightarrow> go_error option \<times> 'e"

definition Provider_SetupWithManager :: "('m, 'e) controller_runtime \<Rightarrow> string option \<Rightarrow> 'm \<Rightarrow> 'e \<Rightarrow> go_error option \<times> 'e" where
  "Provider_SetupWithManager rt recorder mgr =
     cr_Complete rt mgr \<lparr>reg_Name = ''provider'', reg_For = ''NutanixProvider'', reg_Recorder = recorder\<rparr>"

definition SetupProviderController :: "('m, 'e) controller_runtime \<Rightarrow> 'm \<Rightarrow> 'e \<Rightarrow> go_error option \<times> 'e" where
  "SetupProviderController rt mgr = Provider_SetupWithManager rt None mgr"

definition Plan_SetupWithManager :: "('m, 'e) controller_runtime \<Rightarrow> string option \<Rightarrow> 'm \<Rightarrow> 'e \<Rightarrow> go_error option \<times> 'e" where
  "Plan_SetupWithManager rt recorder mgr =
     cr_Complete rt mgr \<lparr>reg_Name = ''plan'', reg_For = ''MigrationPlan'', reg_Recorder = recorder\<rparr>"

definition SetupPlanController :: "('m, 'e) controller_runtime \<Rightarrow> 'm \<Rightarrow> 'e \<Rightarrow> go_error option \<times> 'e" where
  "SetupPlanController rt mgr = Plan_SetupWithManager rt None mgr"

definition Migration_SetupWithManager :: "('m, 'e) controller_runtime \<Rightarrow> string option \<Rightarrow> 'm \<Rightarrow> 'e \<Rightarrow> go_error option \<times> 'e" where
  "Migration_SetupWithManager rt recorder mgr =
     cr_Complete rt mgr \<lparr>reg_Name = ''migration'', reg_For = ''Migration'', reg_Recorder = recorder\<rparr>"

definition SetupMigrationController :: "('m, 'e) controller_runtime \<Rightarrow> 'm \<Rightarrow> 'e \<Rightarrow> go_error option \<times> 'e" where
  "SetupMigrationController rt mgr = Migration_SetupWithManager rt (Some ''migration-controller'') mgr"

text \<open>The steps of \<^verbatim>\<open>main\<close>: the first error ends the program with status 1.\<close>

fun run_steps :: "('e \<Rightarrow> go_error option \<times> 'e) list \<Rightarrow> 'e \<Rightarrow> nat \<times> 'e" where
  "run_steps [] e = (0, e)"
| "run_steps (step # steps) e = (case step e of (Some err, e1) \<Rightarrow> (1, e1) | (None, e1) \<Rightarrow> run_steps steps e1)"

definition manager_steps :: "('m, 'e) controller_runtime \<Rightarrow> 'm \<Rightarrow> ('e \<Rightarrow> go_error option \<times> 'e) list" where
  "manager_steps rt mgr =
     [SetupProviderController rt mgr, SetupPlanController rt mgr, SetupMigrationController rt mgr,
      cr_AddHealthzCheck rt mgr ''healthz'', cr_AddReadyzCheck rt mgr ''readyz'', cr_Start rt mgr]"

definition main :: "('m, 'e) controller_runtime \<Rightarrow> (string \<Rightarrow> (bool \<times> (string \<Rightarrow> bool)) option) \<Rightarrow> string list \<Rightarrow> 'e \<Rightarrow> nat \<times> 'e" where
  "main rt zap args e =
     (case parse_flags (manager_formal zap) default_flags args of
        Inl err \<Rightarrow> (flag_exit err, e)
      | Inr (f, _) \<Rightarrow>
          (case cr_GetConfig rt e of
             (False, e1) \<Rightarrow> (1, e1)
           | (True, e1) \<Rightarrow>
               (case cr_NewManager rt (manager_options f) e1 of
                  (Inl err, e2) \<Rightarrow> (1, e2)
                | (Inr mgr, e2) \<Rightarrow> run_steps (manager_steps rt mgr) e2)))"

text \<open>Starting is the last step: it is reached only when all three controllers and both checks are registered.\<close>

lemma run_steps_append: "run_steps (xs @ ys) e = (case run_steps xs e of (n, e1) \<Rightarrow> if n = 0 then run_steps ys e1 else (n, e1))"
  by (induction xs arbitrary: e) (auto split: prod.splits option.splits)

lemma formal_keeps:
  "manager_formal zap name = Some f \<Longrightarrow> name \<noteq> ''metrics-secure'' \<Longrightarrow> keeps fl_secureMetrics f"
  "manager_formal zap name = Some f \<Longrightarrow> name \<noteq> ''enable-http2'' \<Longrightarrow> keeps (\<lambda>c. \<not> fl_enableHTTP2 c) f"
  "manager_formal zap name = Some f \<Longrightarrow> name \<noteq> ''metrics-bind-address'' \<Longrightarrow> keeps (\<lambda>c. fl_metricsAddr c = ''0'') f"
  by (auto simp: manager_formal_def keeps_def split: if_splits)

text \<open>
  C25. The manager is secure by default. On a command line that does not mention \<^verbatim>\<open>metrics-secure\<close> the metrics are
  served over TLS behind the authentication filter; without \<^verbatim>\<open>enable-http2\<close> every TLS configuration of the webhook and the
  metrics server ends up offering HTTP/1.1 only; without \<^verbatim>\<open>metrics-bind-address\<close> the metrics server is off.
\<close>

theorem manager_secure_by_default:
  assumes "parse_flags (manager_formal zap) default_flags args = Inr (f, rest)"
  defines "opts \<equiv> manager_options f"
  shows "(\<not> mentions ''metrics-secure'' args \<longrightarrow> ms_SecureServing (co_Metrics opts) \<and> ms_FilterProvider (co_Metrics opts) \<noteq> None) \<and>
    (\<not> mentions ''enable-http2'' args \<longrightarrow>
       (\<forall>c. tls_NextProtos (fold (\<lambda>g. g) (wh_TLSOpts (co_WebhookServer opts)) c) = [''http/1.1''] \<and>
            tls_NextProtos (fold (\<lambda>g. g) (ms_TLSOpts (co_Metrics opts)) c) = [''http/1.1''])) \<and>
    (\<not> mentions ''metrics-bind-address'' args \<longrightarrow> ms_BindAddress (co_Metrics opts) = ''0'')"
proof (intro conjI impI)
  note defs = opts_def manager_options_def metrics_options_def webhook_options_def tls_options_def Let_def
  { assume "\<not> mentions ''metrics-secure'' args"
    then have "fl_secureMetrics f"
      by (rule parse_flags_keeps [OF assms(1), where P = fl_secureMetrics, rotated]) (auto intro: formal_keeps(1), simp add: default_flags_def)
    then show "ms_SecureServing (co_Metrics opts)" "ms_FilterProvider (co_Metrics opts) \<noteq> None" by (simp_all add: defs) }
  { assume "\<not> mentions ''enable-http2'' args"
    then have "\<not> fl_enableHTTP2 f"
      by (rule parse_flags_keeps [OF assms(1), where P = "\<lambda>c. \<not> fl_enableHTTP2 c", rotated]) (auto intro: formal_keeps(2), simp add: default_flags_def)
    then show "\<forall>c. tls_NextProtos (fold (\<lambda>g. g) (wh_TLSOpts (co_WebhookServer opts)) c) = [''http/1.1''] \<and>
        tls_NextProtos (fold (\<lambda>g. g) (ms_TLSOpts (co_Metrics opts)) c) = [''http/1.1'']" by (simp add: defs disableHTTP2_def) }
  { assume "\<not> mentions ''metrics-bind-address'' args"
    then have "fl_metricsAddr f = ''0''"
      by (rule parse_flags_keeps [OF assms(1), where P = "\<lambda>c. fl_metricsAddr c = ''0''", rotated]) (auto intro: formal_keeps(3), simp add: default_flags_def)
    then show "ms_BindAddress (co_Metrics opts) = ''0''" by (simp add: defs) }
qed

theorem manager_secure_by_default_witness:
  "\<exists>f rest. parse_flags (manager_formal (\<lambda>_. None)) default_flags [''--leader-elect'', ''-health-probe-bind-address'', '':9000''] = Inr (f, rest) \<and>
     fl_enableLeaderElection f \<and> fl_probeAddr f = '':9000'' \<and> ms_FilterProvider (co_Metrics (manager_options f)) \<noteq> None"
proof -
  let ?args = "[''--leader-elect'', ''-health-probe-bind-address'', '':9000'']"
  have p: "parse_flags (manager_formal (\<lambda>_. None)) default_flags ?args =
      Inr (default_flags\<lparr>fl_enableLeaderElection := True, fl_probeAddr := '':9000''\<rparr>, [])"
    by (simp add: manager_formal_def flag_arg_of_def ParseBool_def)
  have "\<not> mentions ''metrics-secure'' ?args" by (simp add: mentions_def flag_arg_of_def)
  then show ?thesis using manager_secure_by_default [OF p] p by auto
qed

section \<open>The kubectl plugin\<close>

text \<open>
  cobra resolves a command line to the namespace, the command and its positional arguments, runs the argument check
  of the command and then its \<^verbatim>\<open>RunE\<close>. \<open>None\<close> is a panic of the indexing of the arguments.
\<close>

record 'e cobra_Command =
  cmd_Use :: string
  cmd_Args :: "string list \<Rightarrow> bool"
  cmd_RunE :: "string \<Rightarrow> string list \<Rightarrow> 'e cli_state \<Rightarrow> (go_error option \<times> 'e cli_state) option"

definition ExactArgs :: "nat \<Rightarrow> string list \<Rightarrow> bool" where
  "ExactArgs n args = (length args = n)"

definition MinimumNArgs :: "nat \<Rightarrow> string list \<Rightarrow> bool" where
  "MinimumNArgs n args = (length args \<ge> n)"

text \<open>
  The four steps of \<^verbatim>\<open>buildClients\<close>; what they build together is the \<open>cli\<close> of the commands.
\<close>

definition buildClients ::
  "go_error + 'rest \<Rightarrow> go_error option \<Rightarrow> ('rest \<Rightarrow> go_error + 'c) \<Rightarrow> ('rest \<Rightarrow> go_error + 's) \<Rightarrow> go_error + 'c \<times> 's" where
  "buildClients clientConfig addToScheme newClient newForConfig =
     (case clientConfig of
        Inl err \<Rightarrow> Inl (errorf_w ''loading kubeconfig: '' err)
      | Inr restConfig \<Rightarrow>
          (case addToScheme of
             Some err \<Rightarrow> Inl (errorf_w ''adding VMA scheme: '' err)
           | None \<Rightarrow>
               (case newClient restConfig of
                  Inl err \<Rightarrow> Inl (errorf_w ''creating client: '' err)
                | Inr c \<Rightarrow>
                    (case newForConfig restConfig of
                       Inl err \<Rightarrow> Inl (errorf_w ''creating clientset: '' err)
                     | Inr clientset \<Rightarrow> Inr (c, clientset)))))"

definition with_clients ::
  "go_error + 'e cli \<Rightarrow> string list \<Rightarrow> ('e cli \<Rightarrow> string \<Rightarrow> 'e cli_state \<Rightarrow> go_error option \<times> 'e cli_state) \<Rightarrow> 'e cli_state \<Rightarrow>
     (go_error option \<times> 'e cli_state) option" where
  "with_clients clients args run st =
     (case clients of
        Inl err \<Rightarrow> Some (Some err, st)
      | Inr cli \<Rightarrow> (case args of [] \<Rightarrow> None | a # _ \<Rightarrow> Some (run cli a st)))"

definition newInventoryCmd :: "go_error + 'e cli \<Rightarrow> 'e cobra_Command" where
  "newInventoryCmd clients = \<lparr>cmd_Use = ''inventory'', cmd_Args = ExactArgs 1,
     cmd_RunE = \<lambda>ns args. with_clients clients args (\<lambda>cli a. runInventory cli ns a)\<rparr>"

definition newPlanCmd :: "go_error + 'e cli \<Rightarrow> 'e cobra_Command" where
  "newPlanCmd clients = \<lparr>cmd_Use = ''plan'', cmd_Args = ExactArgs 1,
     cmd_RunE = \<lambda>ns args. with_clients clients args (\<lambda>cli a. runPlan cli ns a)\<rparr>"

definition newMigrateCmd :: "go_error + 'e cli \<Rightarrow> 'e cobra_Command" where
  "newMigrateCmd clients = \<lparr>cmd_Use = ''migrate'', cmd_Args = ExactArgs 1,
     cmd_RunE = \<lambda>ns args. with_clients clients args (\<lambda>cli a. runMigrate cli ns a)\<rparr>"

definition newStatusCmd :: "go_error + 'e cli \<Rightarrow> 'e cobra_Command" where
  "newStatusCmd clients = \<lparr>cmd_Use = ''status'', cmd_Args = ExactArgs 1,
     cmd_RunE = \<lambda>ns args. with_clients clients args (\<lambda>cli a. runStatus cli ns a)\<rparr>"

definition newCancelCmd :: "go_error + 'e cli \<Rightarrow> 'e cobra_Command" where
  "newCancelCmd clients = \<lparr>cmd_Use = ''cancel'', cmd_Args = MinimumNArgs 2,
     cmd_RunE = \<lambda>ns args. with_clients clients args (\<lambda>cli a. runCancel cli ns a (tl args))\<rparr>"

definition newRootCmd :: "go_error + 'e cli \<Rightarrow> 'e cobra_Command list" where
  "newRootCmd clients =
     [newInventoryCmd clients, newPlanCmd clients, newMigrateCmd clients, newStatusCmd clients, newCancelCmd clients]"

definition plugin_main ::
  "(string list \<Rightarrow> go_error + string option \<times> string \<times> string list) \<Rightarrow> go_error + 'e cli \<Rightarrow> string list \<Rightarrow> 'e cli_state \<Rightarrow>
     (nat \<times> 'e cli_state) option" where
  "plugin_main resolve clients argv st =
     (case resolve argv of
        Inl err \<Rightarrow> Some (1, st)
      | Inr (ns, name, args) \<Rightarrow>
          (case find (\<lambda>c. cmd_Use c = name) (newRootCmd clients) of
             None \<Rightarrow> Some (1, st)
           | Some c \<Rightarrow>
               if \<not> cmd_Args c args then Some (1, st)
               else (case cmd_RunE c (case ns of None \<Rightarrow> ''default'' | Some n \<Rightarrow> n) args st of
                   None \<Rightarrow> None
                 | Some (Some err, st1) \<Rightarrow> Some (1, st1)
                 | Some (None, st1) \<Rightarrow> Some (0, st1))))"

text \<open>
  The argument checks are strong enough: no command line makes the plugin index past its arguments.
\<close>

lemma checked_RunE:
  assumes "c \<in> set (newRootCmd clients)" "cmd_Args c args"
  shows "cmd_RunE c ns args st \<noteq> None"
  using assms
  by (auto simp: newRootCmd_def newInventoryCmd_def newPlanCmd_def newMigrateCmd_def newStatusCmd_def newCancelCmd_def
      ExactArgs_def MinimumNArgs_def with_clients_def split: sum.splits list.splits)

lemma plugin_never_panics: "plugin_main resolve clients argv st \<noteq> None"
proof -
  have "cmd_RunE c ns args st \<noteq> None" if "find (\<lambda>c. cmd_Use c = name) (newRootCmd clients) = Some c" "cmd_Args c args" for c name ns args
    using checked_RunE [of c clients args ns st] that by (metis (mono_tags, lifting) find_Some_iff nth_mem)
  then show ?thesis unfolding plugin_main_def
    by (cases "resolve argv"; simp split: prod.splits option.splits) (metis option.distinct(1))
qed

section \<open>The stand-alone mock server\<close>

text \<open>\<^verbatim>\<open>NewServer\<close> applies its options to an empty store; the handler is \<^const>\<open>ServeHTTP\<close>.\<close>

definition NewServer :: "(Store \<Rightarrow> Store) list \<Rightarrow> Store" where
  "NewServer opts = fold (\<lambda>opt s. opt s) opts NewStore"

definition mock_main :: "int \<Rightarrow> string \<times> Store" where
  "mock_main port = ('':'' @ show_int port, NewServer [WithFixtures, WithCBTConfig DefaultCBTConfig])"

lemma mock_main_ok: "store_ok (snd (mock_main port))" "length (sto_VMs (snd (mock_main port))) = 3"
  by (simp_all add: mock_main_def NewServer_def WithFixtures_def WithCBTConfig_def store_ok_New defaultVMs_def)

section \<open>The transport\<close>

text \<open>
  \<^verbatim>\<open>buildTransport\<close>; \<open>parses_pem\<close> says whether the pool accepts a certificate. A pool that is not set means the roots of the
  system.
\<close>

record http_Transport =
  tr_MinVersion :: nat
  tr_InsecureSkipVerify :: bool
  tr_RootCAs :: "string option"
  tr_DisableKeepAlives :: bool

definition VersionTLS12 :: nat where "VersionTLS12 = 0x0303"

definition buildTransport :: "(string \<Rightarrow> bool) \<Rightarrow> bool \<Rightarrow> string \<Rightarrow> bool \<Rightarrow> go_error + http_Transport" where
  "buildTransport parses_pem insecureSkipVerify caCert disableKeepAlives =
     (let t = \<lparr>tr_MinVersion = VersionTLS12, tr_InsecureSkipVerify = insecureSkipVerify, tr_RootCAs = None,
               tr_DisableKeepAlives = disableKeepAlives\<rparr> in
      if caCert \<noteq> [] then
        if \<not> parses_pem caCert then Inl (errors_New ''failed to parse CA certificate'')
        else Inr (t\<lparr>tr_RootCAs := Some caCert\<rparr>)
      else Inr t)"

text \<open>Certificates are checked unless the provider says otherwise, and never against a certificate that did not parse.\<close>

lemma buildTransport_verifies:
  assumes "buildTransport parses_pem insecure caCert keep = Inr t"
  shows "tr_InsecureSkipVerify t = insecure" "tr_MinVersion t = VersionTLS12"
    "tr_RootCAs t = (if caCert = [] then None else Some caCert)" "caCert \<noteq> [] \<Longrightarrow> parses_pem caCert"
  using assms by (auto simp: buildTransport_def Let_def split: if_splits)

end
