(* ===== verification/Go_Heap.thy ===== *)
theory Go_Heap
  imports Vma_Prelude "HOL-Library.Sublist" "HOL-Library.Monad_Syntax"
begin

text \<open>
  The memory a Go program shares between values, for the code whose meaning depends on aliasing:
  the generated deep copies of \<^verbatim>\<open>api/v1alpha1/zz_generated.deepcopy.go\<close>.

  A heap is a list of blocks; a block is the array behind a \<^verbatim>\<open>new(T)\<close> (one element) or a
  \<^verbatim>\<open>make([]T, n)\<close>, tagged with its element type. A pointer is \<^const>\<open>None\<close> (nil) or a block and an
  index into it, a slice is \<^const>\<open>None\<close> (nil) or a block, an offset and a length. Structs are
  records whose pointer and slice fields hold such references, so that assigning a struct
  shares what it refers to, as in Go. Every operation returns \<^const>\<open>None\<close> where Go panics (nil
  dereference, index out of range) or where the reference does not have the type; that this does
  not happen is part of what is proved.

  The locale \<^verbatim>\<open>deep_copier\<close> is the contract of a deep copy: it returns, leaves all existing blocks
  as they are, and yields a value that reads the same and refers to new blocks only. The lemmas
  after it show that the contract passes from elements to pointers, slices and structs.
\<close>

section \<open>Blocks, pointers and slices\<close>

type_synonym ptr = "(nat \<times> nat) option"
type_synonym slice = "(nat \<times> nat \<times> nat) option"

text \<open>A Go type as the heap sees it: how an array of it is stored in a block of the heap, and its
  zero value.\<close>

record ('a, 'b) gotype =
  tag :: "'a list \<Rightarrow> 'b"
  untag :: "'b \<Rightarrow> 'a list option"
  zero :: 'a

definition gotype_ok :: "('a, 'b) gotype \<Rightarrow> bool" where
  "gotype_ok T = (\<forall>xs. untag T (tag T xs) = Some xs)"

definition block_at :: "'b list \<Rightarrow> nat \<Rightarrow> 'b option" where
  "block_at h a = (if a < length h then Some (h ! a) else None)"

definition array_at :: "('a, 'b) gotype \<Rightarrow> 'b list \<Rightarrow> nat \<Rightarrow> 'a list option" where
  "array_at T h a = do { b \<leftarrow> block_at h a; untag T b }"

text \<open>\<^verbatim>\<open>*p\<close> as a value and as the target of an assignment.\<close>

definition load :: "('a, 'b) gotype \<Rightarrow> 'b list \<Rightarrow> ptr \<Rightarrow> 'a option" where
  "load T h p = do {
     (a, i) \<leftarrow> p;
     xs \<leftarrow> array_at T h a;
     if i < length xs then Some (xs ! i) else None }"

definition store :: "('a, 'b) gotype \<Rightarrow> 'b list \<Rightarrow> ptr \<Rightarrow> 'a \<Rightarrow> 'b list option" where
  "store T h p v = do {
     (a, i) \<leftarrow> p;
     xs \<leftarrow> array_at T h a;
     if i < length xs then Some (h[a := tag T (xs[i := v])]) else None }"

text \<open>\<^verbatim>\<open>new(T)\<close>, \<^verbatim>\<open>make([]T, n)\<close>, \<^verbatim>\<open>len(s)\<close>, \<^verbatim>\<open>&s[i]\<close> and the elements of a slice.\<close>

definition go_new :: "('a, 'b) gotype \<Rightarrow> 'b list \<Rightarrow> ptr \<times> 'b list" where
  "go_new T h = (Some (length h, 0), h @ [tag T [zero T]])"

definition go_make :: "('a, 'b) gotype \<Rightarrow> nat \<Rightarrow> 'b list \<Rightarrow> slice \<times> 'b list" where
  "go_make T n h = (Some (length h, 0, n), h @ [tag T (replicate n (zero T))])"

definition go_len :: "slice \<Rightarrow> nat" where
  "go_len s = (case s of None \<Rightarrow> 0 | Some (a, off, n) \<Rightarrow> n)"

definition index :: "slice \<Rightarrow> nat \<Rightarrow> ptr" where
  "index s i = do { (a, off, n) \<leftarrow> s; if i < n then Some (a, off + i) else None }"

definition elems :: "('a, 'b) gotype \<Rightarrow> 'b list \<Rightarrow> slice \<Rightarrow> 'a list option" where
  "elems T h s = (case s of None \<Rightarrow> Some []
     | Some (a, off, n) \<Rightarrow> do {
         xs \<leftarrow> array_at T h a;
         if off + n \<le> length xs then Some (take n (drop off xs)) else None })"

text \<open>\<^verbatim>\<open>copy(dst, src)\<close>: the elements of the source are read first, as the built-in allows the two
  to overlap, and the shorter of the two lengths counts.\<close>

fun store_all :: "('a, 'b) gotype \<Rightarrow> slice \<Rightarrow> nat \<Rightarrow> 'a list \<Rightarrow> 'b list \<Rightarrow> 'b list option" where
  "store_all T s i [] h = Some h"
| "store_all T s i (y # ys) h = do { h \<leftarrow> store T h (index s i) y; store_all T s (Suc i) ys h }"

definition go_copy :: "('a, 'b) gotype \<Rightarrow> slice \<Rightarrow> slice \<Rightarrow> 'b list \<Rightarrow> 'b list option" where
  "go_copy T dst src h = do { ys \<leftarrow> elems T h src; store_all T dst 0 (take (go_len dst) ys) h }"

section \<open>The statements of generated deep copies\<close>

text \<open>
  A \<^verbatim>\<open>DeepCopyInto\<close> is a function from the struct read through \<^verbatim>\<open>in\<close> to the struct left in \<^verbatim>\<open>*out\<close>
  and the new heap. The two are different variables at every call: \<^verbatim>\<open>out\<close> points into a block that
  was allocated just before. \<^verbatim>\<open>assign\<close> is \<^verbatim>\<open>*out = *in\<close> alone.
\<close>

type_synonym ('m, 'b) copy_into = "'m \<Rightarrow> 'b list \<Rightarrow> ('m \<times> 'b list) option"

definition assign :: "('m, 'b) copy_into" where
  "assign v h = Some (v, h)"

text \<open>\<^verbatim>\<open>for i := range *in { (*in)[i].DeepCopyInto(&(*out)[i]) }\<close>, from index \<^term>\<open>i\<close> for
  \<^term>\<open>k\<close> iterations.\<close>

fun range_copy :: "('a, 'b) gotype \<Rightarrow> ('a, 'b) copy_into \<Rightarrow> slice \<Rightarrow> slice \<Rightarrow> nat \<Rightarrow> nat
    \<Rightarrow> 'b list \<Rightarrow> 'b list option" where
  "range_copy T into src dst i 0 h = Some h"
| "range_copy T into src dst i (Suc k) h = do {
     v \<leftarrow> load T h (index src i);
     (v', h) \<leftarrow> into v h;
     h \<leftarrow> store T h (index dst i) v';
     range_copy T into src dst (Suc i) k h }"

text \<open>\<^verbatim>\<open>if in.F != nil { *out = make([]T, len(*in)); ... }\<close> with the loop and with \<^verbatim>\<open>copy\<close>: a nil
  slice stays the nil that \<^verbatim>\<open>*out = *in\<close> left.\<close>

definition copy_each :: "('a, 'b) gotype \<Rightarrow> ('a, 'b) copy_into \<Rightarrow> (slice, 'b) copy_into" where
  "copy_each T into s h = (if s = None then Some (None, h) else (
     let (out, h) = go_make T (go_len s) h in do {
       h \<leftarrow> range_copy T into s out 0 (go_len s) h;
       Some (out, h) }))"

definition copy_flat :: "('a, 'b) gotype \<Rightarrow> (slice, 'b) copy_into" where
  "copy_flat T s h = (if s = None then Some (None, h) else (
     let (out, h) = go_make T (go_len s) h in do {
       h \<leftarrow> go_copy T out s h;
       Some (out, h) }))"

text \<open>\<^verbatim>\<open>if in.F != nil { *out = new(T); (*in).DeepCopyInto(*out) }\<close>, which is also the body of the
  \<^verbatim>\<open>DeepCopy\<close> methods: \<^verbatim>\<open>if in == nil { return nil }; out := new(T); in.DeepCopyInto(out); return out\<close>.\<close>

definition new_copy :: "('a, 'b) gotype \<Rightarrow> ('a, 'b) copy_into \<Rightarrow> (ptr, 'b) copy_into" where
  "new_copy T into p h = (if p = None then Some (None, h) else (
     let (out, h) = go_new T h in do {
       v \<leftarrow> load T h p;
       (v', h) \<leftarrow> into v h;
       h \<leftarrow> store T h out v';
       Some (out, h) }))"

section \<open>Reading a value back\<close>

text \<open>The value a reference stands for, with all references followed, and the blocks visited.
  A nil slice and an empty one are kept apart.\<close>

type_synonym ('m, 't, 'b) reader = "'b list \<Rightarrow> 'm \<Rightarrow> ('t \<times> nat list) option"

definition read_flat :: "('m, 'm, 'b) reader" where
  "read_flat h v = Some (v, [])"

fun read_list :: "('m, 't, 'b) reader \<Rightarrow> 'b list \<Rightarrow> 'm list \<Rightarrow> ('t list \<times> nat list) option" where
  "read_list r h [] = Some ([], [])"
| "read_list r h (v # vs) = do {
     (t, F) \<leftarrow> r h v;
     (ts, G) \<leftarrow> read_list r h vs;
     Some (t # ts, F @ G) }"

definition read_ptr :: "('m, 'b) gotype \<Rightarrow> ('m, 't, 'b) reader \<Rightarrow> (ptr, 't option, 'b) reader" where
  "read_ptr T r h p = (case p of None \<Rightarrow> Some (None, [])
     | Some (a, i) \<Rightarrow> do {
         v \<leftarrow> load T h p;
         (t, F) \<leftarrow> r h v;
         Some (Some t, a # F) })"

definition read_slice :: "('m, 'b) gotype \<Rightarrow> ('m, 't, 'b) reader \<Rightarrow> (slice, 't list option, 'b) reader" where
  "read_slice T r h s = (case s of None \<Rightarrow> Some (None, [])
     | Some (a, off, n) \<Rightarrow> do {
         vs \<leftarrow> elems T h s;
         (ts, F) \<leftarrow> read_list r h vs;
         Some (Some ts, a # F) })"

section \<open>Facts about the heap\<close>

text \<open>Any number of writes to blocks, in order.\<close>

definition write_all :: "(nat \<times> 'b) list \<Rightarrow> 'b list \<Rightarrow> 'b list" where
  "write_all ws h = fold (\<lambda>(a, b) h. h[a := b]) ws h"

lemma prefix_blocks: "prefix h h' \<longleftrightarrow> (\<forall>a < length h. block_at h' a = block_at h a)"
proof
  assume "prefix h h'"
  then show "\<forall>a < length h. block_at h' a = block_at h a"
    by (auto simp: prefix_def block_at_def nth_append)
next
  assume *: "\<forall>a < length h. block_at h' a = block_at h a"
  have le: "length h \<le> length h'"
  proof (rule ccontr)
    assume "\<not> length h \<le> length h'"
    then have "block_at h' (length h') = block_at h (length h')" using * by simp
    then show False using \<open>\<not> length h \<le> length h'\<close> by (simp add: block_at_def)
  qed
  have "take (length h) h' = h"
  proof (rule nth_equalityI)
    show "length (take (length h) h') = length h" using le by simp
  next
    fix i assume "i < length (take (length h) h')"
    then have "i < length h" using le by simp
    then show "take (length h) h' ! i = h ! i" using * le by (auto simp: block_at_def)
  qed
  then show "prefix h h'" by (metis take_is_prefix)
qed

lemma block_at_prefix: "prefix h h' \<Longrightarrow> a < length h \<Longrightarrow> block_at h' a = block_at h a"
  by (simp add: prefix_blocks)

lemma block_at_update [simp]:
  "block_at (h[a := b]) c = (if c = a \<and> a < length h then Some b else block_at h c)"
  by (auto simp: block_at_def)

lemma block_at_write_all: "a \<notin> fst ` set ws \<Longrightarrow> block_at (write_all ws h) a = block_at h a"
  unfolding write_all_def by (induction ws arbitrary: h) auto

lemma prefix_update: "prefix h h' \<Longrightarrow> length h \<le> d \<Longrightarrow> prefix h (h'[d := b])"
  by (auto simp: prefix_blocks)

lemma array_at_bound: "array_at T h a = Some xs \<Longrightarrow> a < length h"
  by (auto simp: array_at_def block_at_def split: if_splits)

lemma array_at_cong: "block_at h' a = block_at h a \<Longrightarrow> array_at T h' a = array_at T h a"
  by (simp add: array_at_def)

lemma array_at_prefix: "array_at T h a = Some xs \<Longrightarrow> prefix h h' \<Longrightarrow> array_at T h' a = Some xs"
  using array_at_cong[OF block_at_prefix] array_at_bound by metis

lemma array_at_alloc [simp]: "gotype_ok T \<Longrightarrow> array_at T (h @ [tag T xs]) (length h) = Some xs"
  by (simp add: array_at_def block_at_def gotype_ok_def)

lemma array_at_update: "gotype_ok T \<Longrightarrow> a < length h \<Longrightarrow> array_at T (h[a := tag T xs]) a = Some xs"
  by (simp add: array_at_def gotype_ok_def)

lemma load_Some_iff: "load T h (Some (a, i)) = Some v
    \<longleftrightarrow> (\<exists>xs. array_at T h a = Some xs \<and> i < length xs \<and> v = xs ! i)"
  by (auto simp: load_def split: bind_splits if_splits)

lemma load_cong: "block_at h' a = block_at h a \<Longrightarrow> load T h' (Some (a, i)) = load T h (Some (a, i))"
  using array_at_cong[of h' a h T] by (simp add: load_def)

lemma store_array: "array_at T h a = Some xs \<Longrightarrow> i < length xs
    \<Longrightarrow> store T h (Some (a, i)) v = Some (h[a := tag T (xs[i := v])])"
  by (simp add: store_def)

lemma elems_Some_iff: "elems T h (Some (a, off, n)) = Some vs
    \<longleftrightarrow> (\<exists>xs. array_at T h a = Some xs \<and> off + n \<le> length xs \<and> vs = take n (drop off xs))"
  by (auto simp: elems_def split: bind_splits if_splits)

lemma elems_cong: "block_at h' a = block_at h a
    \<Longrightarrow> elems T h' (Some (a, off, n)) = elems T h (Some (a, off, n))"
  using array_at_cong[of h' a h T] by (simp add: elems_def)

lemma read_flat_list [simp]: "read_list read_flat h vs = Some (vs, [])"
  by (induction vs) (simp_all add: read_flat_def)

lemma read_list_append: "read_list r h (us @ vs) = do {
     (ts, F) \<leftarrow> read_list r h us; (ts', G) \<leftarrow> read_list r h vs; Some (ts @ ts', F @ G) }"
proof (induction us)
  case Nil
  show ?case by (cases "read_list r h vs") auto
next
  case (Cons u us)
  then show ?case
    by (cases "r h u"; cases "read_list r h us"; cases "read_list r h vs") auto
qed

section \<open>The contract of a deep copy\<close>

text \<open>A reader depends on the blocks it reports and on nothing else, and reports blocks of the heap.\<close>

locale heap_reader =
  fixes rd :: "('m, 't, 'b) reader"
  assumes frame: "rd h v = Some (t, F) \<Longrightarrow> (\<And>a. a \<in> set F \<Longrightarrow> block_at h' a = block_at h a)
      \<Longrightarrow> rd h' v = Some (t, F)"
    and bounded: "rd h v = Some (t, F) \<Longrightarrow> set F \<subseteq> {..<length h}"
begin

lemma read_prefix: "rd h v = Some (t, F) \<Longrightarrow> prefix h h' \<Longrightarrow> rd h' v = Some (t, F)"
  using bounded[of h v t F] by (intro frame[of h v t F h']) (auto intro: block_at_prefix)

lemma read_other_block: "rd h v = Some (t, F) \<Longrightarrow> a \<notin> set F \<Longrightarrow> rd (h[a := b]) v = Some (t, F)"
  by (rule frame) auto

lemma list_reader: "heap_reader (read_list rd)"
proof
  fix h h' vs ts F
  assume "read_list rd h vs = Some (ts, F)" "\<And>a. a \<in> set F \<Longrightarrow> block_at h' a = block_at h a"
  then show "read_list rd h' vs = Some (ts, F)"
  proof (induction vs arbitrary: ts F)
    case (Cons v vs)
    from Cons.prems(1) obtain t F1 ts' F2 where *: "rd h v = Some (t, F1)"
      "read_list rd h vs = Some (ts', F2)" "ts = t # ts'" "F = F1 @ F2"
      by (auto split: bind_splits)
    have "rd h' v = Some (t, F1)" using *(1) by (rule frame) (simp add: Cons.prems(2) *(4))
    moreover have "read_list rd h' vs = Some (ts', F2)"
      using *(2) by (rule Cons.IH) (simp add: Cons.prems(2) *(4))
    ultimately show ?case using * by simp
  qed simp
next
  fix h vs ts F
  assume "read_list rd h vs = Some (ts, F)"
  then show "set F \<subseteq> {..<length h}"
  proof (induction vs arbitrary: ts F)
    case (Cons v vs)
    then show ?case by (fastforce split: bind_splits dest: bounded)
  qed simp
qed

lemma ptr_reader: "heap_reader (read_ptr T rd)"
proof
  fix h h' p t F
  assume r: "read_ptr T rd h p = Some (t, F)" and eq: "\<And>a. a \<in> set F \<Longrightarrow> block_at h' a = block_at h a"
  show "read_ptr T rd h' p = Some (t, F)"
  proof (cases p)
    case None
    then show ?thesis using r by (simp add: read_ptr_def)
  next
    case (Some q)
    obtain a i where q: "q = (a, i)" by fastforce
    from r Some q obtain v u G where *: "load T h p = Some v" "rd h v = Some (u, G)" "t = Some u" "F = a # G"
      by (auto simp: read_ptr_def split: bind_splits)
    have "load T h' p = Some v" using load_cong[of h' a h T i] eq[of a] * Some q by simp
    moreover have "rd h' v = Some (u, G)" using *(2) by (rule frame) (simp add: eq *(4))
    ultimately show ?thesis using * Some q by (simp add: read_ptr_def)
  qed
next
  fix h p t F
  assume "read_ptr T rd h p = Some (t, F)"
  then show "set F \<subseteq> {..<length h}"
    using array_at_bound
    by (fastforce simp: read_ptr_def load_Some_iff split: option.splits bind_splits dest: bounded)
qed

lemma slice_reader: "heap_reader (read_slice T rd)"
proof
  fix h h' s t F
  assume r: "read_slice T rd h s = Some (t, F)" and eq: "\<And>a. a \<in> set F \<Longrightarrow> block_at h' a = block_at h a"
  show "read_slice T rd h' s = Some (t, F)"
  proof (cases s)
    case None
    then show ?thesis using r by (simp add: read_slice_def)
  next
    case (Some q)
    obtain a off n where q: "q = (a, off, n)" by (cases q)
    from r Some q obtain vs ts G where *: "elems T h s = Some vs" "read_list rd h vs = Some (ts, G)"
      "t = Some ts" "F = a # G"
      by (auto simp: read_slice_def split: bind_splits)
    have "elems T h' s = Some vs" using elems_cong[of h' a h T off n] eq[of a] * Some q by simp
    moreover have "read_list rd h' vs = Some (ts, G)"
      using *(2) by (rule heap_reader.frame[OF list_reader]) (simp add: eq *(4))
    ultimately show ?thesis using * Some q by (simp add: read_slice_def)
  qed
next
  fix h s t F
  assume "read_slice T rd h s = Some (t, F)"
  then show "set F \<subseteq> {..<length h}"
    using array_at_bound
    by (fastforce simp: read_slice_def elems_Some_iff split: option.splits bind_splits
        dest: heap_reader.bounded[OF list_reader])
qed

end

text \<open>A deep copy returns, changes no existing block, and its result reads as the original did,
  through new blocks only.\<close>

locale deep_copier = heap_reader rd for rd :: "('m, 't, 'b) reader" +
  fixes into :: "('m, 'b) copy_into"
  assumes copies: "rd h v = Some (t, F) \<Longrightarrow> \<exists>v' h' G. into v h = Some (v', h') \<and> prefix h h'
      \<and> rd h' v' = Some (t, G) \<and> set G \<subseteq> {length h..<length h'}"
begin

text \<open>Hence whatever is written to blocks that existed before is not seen through the copy, and
  whatever is written to blocks allocated by the copy or later is not seen through any value that
  was there before.\<close>

lemma isolated:
  assumes "rd h v = Some (t, F)"
  shows "\<exists>v' h' G. into v h = Some (v', h') \<and> prefix h h' \<and> rd h' v' = Some (t, G)
    \<and> set G \<subseteq> {length h..<length h'}
    \<and> (\<forall>ws. (\<forall>(a, b) \<in> set ws. a < length h) \<longrightarrow> rd (write_all ws h') v' = Some (t, G))
    \<and> (\<forall>ws w u H. (\<forall>(a, b) \<in> set ws. length h \<le> a) \<and> rd h w = Some (u, H)
        \<longrightarrow> rd (write_all ws h') w = Some (u, H))"
proof -
  from copies[OF assms] obtain v' h' G where *: "into v h = Some (v', h')" "prefix h h'"
    "rd h' v' = Some (t, G)" "set G \<subseteq> {length h..<length h'}"
    by blast
  have "rd (write_all ws h') v' = Some (t, G)" if "\<forall>(a, b) \<in> set ws. a < length h" for ws
    using *(3) by (rule frame) (use *(4) that in \<open>fastforce intro!: block_at_write_all\<close>)
  moreover have "rd (write_all ws h') w = Some (u, H)"
    if "\<forall>(a, b) \<in> set ws. length h \<le> a" "rd h w = Some (u, H)" for ws w u H
    using read_prefix[OF that(2) *(2)]
    by (rule frame) (use bounded[OF that(2)] that(1) in \<open>fastforce intro!: block_at_write_all\<close>)
  ultimately show ?thesis using * by blast
qed

text \<open>A copy behind a new pointer.\<close>

lemma new_copy_copies:
  assumes T: "gotype_ok T" and r: "read_ptr T rd h p = Some (t, F)"
  shows "\<exists>p' h' G. new_copy T into p h = Some (p', h') \<and> prefix h h'
    \<and> read_ptr T rd h' p' = Some (t, G) \<and> set G \<subseteq> {length h..<length h'}"
proof (cases p)
  case None
  then show ?thesis using r by (auto simp: new_copy_def read_ptr_def)
next
  case (Some q)
  let ?d = "length h" and ?h1 = "h @ [tag T [zero T]]"
  obtain a i where q: "q = (a, i)" by fastforce
  from r Some q obtain v u F1 where *: "load T h p = Some v" "rd h v = Some (u, F1)" "t = Some u"
    by (auto simp: read_ptr_def split: bind_splits)
  have p1: "prefix h ?h1" by simp
  have l1: "load T ?h1 p = Some v"
    using *(1) Some q array_at_prefix[OF _ p1] by (auto simp: load_Some_iff)
  from copies[OF read_prefix[OF *(2) p1]] obtain v' h2 G where
    c: "into v ?h1 = Some (v', h2)" "prefix ?h1 h2" "rd h2 v' = Some (u, G)"
       "set G \<subseteq> {Suc ?d..<length h2}"
    by auto
  let ?h3 = "h2[?d := tag T [v']]"
  have d2: "array_at T h2 ?d = Some [zero T]" 
    by (rule array_at_prefix[OF array_at_alloc[OF T] c(2)])
  then have st: "store T h2 (Some (?d, 0)) v' = Some ?h3" by (simp add: store_array)
  have "prefix h ?h3" using prefix_order.trans[OF p1 c(2)] by (rule prefix_update) simp
  moreover have "rd ?h3 v' = Some (u, G)" using c(3,4) by (intro read_other_block) auto
  then have "read_ptr T rd ?h3 (Some (?d, 0)) = Some (t, ?d # G)"
    using array_at_update[OF T array_at_bound[OF d2]] *(3) by (simp add: read_ptr_def load_def)
  moreover have "set (?d # G) \<subseteq> {?d..<length ?h3}" using c(4) array_at_bound[OF d2] by auto
  moreover have "new_copy T into p h = Some (Some (?d, 0), ?h3)"
    using l1 c(1) st Some by (simp add: new_copy_def go_new_def)
  ultimately show ?thesis by blast
qed

text \<open>The loop over the elements of a slice: after \<^term>\<open>i\<close> iterations the first \<^term>\<open>i\<close> elements
  of the new array \<^term>\<open>d\<close> read as the first \<^term>\<open>i\<close> elements of the source.\<close>

lemma range_copy_copies:
  assumes T: "gotype_ok T" and src: "array_at T h0 a = Some xs" "off + n \<le> length xs" and d: "d = length h0"
  shows "prefix h0 h \<Longrightarrow> array_at T h d = Some ys \<Longrightarrow> length ys = n \<Longrightarrow> i + k = n
    \<Longrightarrow> read_list rd h0 (take k (drop (off + i) xs)) = Some (ts, F)
    \<Longrightarrow> read_list rd h (take i ys) = Some (us, G) \<Longrightarrow> set G \<subseteq> {Suc d..<length h}
    \<Longrightarrow> \<exists>h' ys' G'. range_copy T into (Some (a, off, n)) (Some (d, 0, n)) i k h = Some h'
      \<and> prefix h0 h' \<and> array_at T h' d = Some ys' \<and> length ys' = n
      \<and> read_list rd h' ys' = Some (us @ ts, G') \<and> set G' \<subseteq> {Suc d..<length h'}"
proof (induction k arbitrary: i h ys us G ts F)
  case 0
  then show ?case by auto
next
  case (Suc k)
  let ?v = "xs ! (off + i)"
  have i: "i < n" "off + i < length xs" using Suc.prems(4) src(2) by auto
  have dr: "take (Suc k) (drop (off + i) xs) = ?v # take k (drop (off + Suc i) xs)"
    using i(2) by (simp add: Cons_nth_drop_Suc [symmetric])
  obtain t F1 ts' F2 where r: "rd h0 ?v = Some (t, F1)"
    "read_list rd h0 (take k (drop (off + Suc i) xs)) = Some (ts', F2)" "ts = t # ts'"
    using Suc.prems(5) unfolding dr by (auto split: bind_splits)
  have l: "load T h (index (Some (a, off, n)) i) = Some ?v"
    using array_at_prefix[OF src(1) Suc.prems(1)] i by (simp add: index_def load_def)
  from copies[OF read_prefix[OF r(1) Suc.prems(1)]] obtain v' h1 G1 where
    c: "into ?v h = Some (v', h1)" "prefix h h1" "rd h1 v' = Some (t, G1)"
       "set G1 \<subseteq> {length h..<length h1}"
    by auto
  let ?h2 = "h1[d := tag T (ys[i := v'])]"
  have dh: "d < length h" using Suc.prems(2) by (rule array_at_bound)
  have le: "length h \<le> length h1" using c(2) by (rule prefix_length_le)
  have d1: "array_at T h1 d = Some ys" using Suc.prems(2) c(2) by (rule array_at_prefix)
  have st: "store T h1 (index (Some (d, 0, n)) i) v' = Some ?h2"
    using d1 i(1) Suc.prems(3) by (simp add: index_def store_array)
  have rG: "read_list rd ?h2 (take i ys) = Some (us, G)"
    using heap_reader.read_prefix[OF list_reader Suc.prems(6) c(2)] Suc.prems(7)
    by (intro heap_reader.read_other_block[OF list_reader]) auto
  have rv: "rd ?h2 v' = Some (t, G1)" using c(3,4) dh by (intro read_other_block) auto
  have "take (Suc i) (ys[i := v']) = take i ys @ [v']"
    using i(1) Suc.prems(3) by (simp add: take_Suc_conv_app_nth)
  then have ri: "read_list rd ?h2 (take (Suc i) (ys[i := v'])) = Some (us @ [t], G @ G1)"
    using rG rv by (simp add: read_list_append)
  have p2: "prefix h0 ?h2" using prefix_order.trans[OF Suc.prems(1) c(2)] by (rule prefix_update) (simp add: d)
  have a2: "array_at T ?h2 d = Some (ys[i := v'])" using T dh le by (intro array_at_update) auto
  have s2: "set (G @ G1) \<subseteq> {Suc d..<length ?h2}" using Suc.prems(7) c(4) dh le by fastforce
  have "\<exists>h' ys' G'. range_copy T into (Some (a, off, n)) (Some (d, 0, n)) (Suc i) k ?h2 = Some h'
      \<and> prefix h0 h' \<and> array_at T h' d = Some ys' \<and> length ys' = n
      \<and> read_list rd h' ys' = Some ((us @ [t]) @ ts', G') \<and> set G' \<subseteq> {Suc d..<length h'}"
    by (rule Suc.IH[OF p2 a2 _ _ r(2) ri s2]) (use Suc.prems(3,4) in simp_all)
  then show ?case using l c(1) st r(3) by simp
qed

lemma copy_each_copies:
  assumes T: "gotype_ok T" and r: "read_slice T rd h s = Some (t, F)"
  shows "\<exists>s' h' G. copy_each T into s h = Some (s', h') \<and> prefix h h'
    \<and> read_slice T rd h' s' = Some (t, G) \<and> set G \<subseteq> {length h..<length h'}"
proof (cases s)
  case None
  then show ?thesis using r by (auto simp: copy_each_def read_slice_def)
next
  case (Some q)
  obtain a off n where q: "q = (a, off, n)" by (cases q)
  let ?d = "length h" and ?h1 = "h @ [tag T (replicate n (zero T))]"
  from r Some q obtain xs ts F1 where *: "array_at T h a = Some xs" "off + n \<le> length xs"
    "read_list rd h (take n (drop off xs)) = Some (ts, F1)" "t = Some ts"
    by (auto simp: read_slice_def elems_Some_iff split: bind_splits)
  have "\<exists>h' ys' G'. range_copy T into (Some (a, off, n)) (Some (?d, 0, n)) 0 n ?h1 = Some h'
      \<and> prefix h h' \<and> array_at T h' ?d = Some ys' \<and> length ys' = n
      \<and> read_list rd h' ys' = Some ([] @ ts, G') \<and> set G' \<subseteq> {Suc ?d..<length h'}"
    by (rule range_copy_copies[OF T *(1,2) refl, where ys = "replicate n (zero T)" and G = "[]"])
       (use T *(3) in simp_all)
  then obtain h' ys' G' where c: "range_copy T into s (Some (?d, 0, n)) 0 n ?h1 = Some h'"
    "prefix h h'" "array_at T h' ?d = Some ys'" "length ys' = n"
    "read_list rd h' ys' = Some (ts, G')" "set G' \<subseteq> {Suc ?d..<length h'}"
    using Some q by auto
  have "read_slice T rd h' (Some (?d, 0, n)) = Some (t, ?d # G')"
    using c(3-5) *(4) by (simp add: read_slice_def elems_def)
  moreover have "set (?d # G') \<subseteq> {?d..<length h'}" using c(6) array_at_bound[OF c(3)] by auto
  moreover have "copy_each T into s h = Some (Some (?d, 0, n), h')"
    using c(1) Some q by (simp add: copy_each_def go_make_def go_len_def)
  ultimately show ?thesis using c(2) by blast
qed

lemma ptr_copier: "gotype_ok T \<Longrightarrow> deep_copier (read_ptr T rd) (new_copy T into)"
  using ptr_reader new_copy_copies by (simp add: deep_copier_def deep_copier_axioms_def)

lemma slice_copier: "gotype_ok T \<Longrightarrow> deep_copier (read_slice T rd) (copy_each T into)"
  using slice_reader copy_each_copies by (simp add: deep_copier_def deep_copier_axioms_def)

end

section \<open>Deep copies from deep copies\<close>

text \<open>A value without references is copied by assignment.\<close>

interpretation flat: deep_copier read_flat assign
  by unfold_locales (auto simp: read_flat_def assign_def)

text \<open>\<^verbatim>\<open>copy\<close> into a new array of such values.\<close>

lemma store_all_stores:
  assumes T: "gotype_ok T"
  shows "array_at T h d = Some ys \<Longrightarrow> i + length zs = length ys \<Longrightarrow> n = length ys
    \<Longrightarrow> \<exists>h'. store_all T (Some (d, 0, n)) i zs h = Some h' \<and> length h' = length h
      \<and> array_at T h' d = Some (take i ys @ zs) \<and> (\<forall>a. a \<noteq> d \<longrightarrow> block_at h' a = block_at h a)"
proof (induction zs arbitrary: i h ys)
  case Nil
  then show ?case by simp
next
  case (Cons z zs)
  let ?h1 = "h[d := tag T (ys[i := z])]"
  have i: "i < length ys" using Cons.prems(2) by simp
  have st: "store T h (index (Some (d, 0, n)) i) z = Some ?h1"
    using Cons.prems(1,3) i by (simp add: index_def store_array)
  have a1: "array_at T ?h1 d = Some (ys[i := z])"
    using array_at_update[OF T array_at_bound[OF Cons.prems(1)]] .
  have "\<exists>h'. store_all T (Some (d, 0, n)) (Suc i) zs ?h1 = Some h' \<and> length h' = length ?h1
      \<and> array_at T h' d = Some (take (Suc i) (ys[i := z]) @ zs)
      \<and> (\<forall>a. a \<noteq> d \<longrightarrow> block_at h' a = block_at ?h1 a)"
    by (rule Cons.IH[OF a1]) (use Cons.prems(2,3) in simp_all)
  moreover have "take (Suc i) (ys[i := z]) @ zs = take i ys @ z # zs"
    using i by (simp add: take_Suc_conv_app_nth)
  ultimately show ?case using st by auto
qed

lemma copy_flat_copies:
  assumes T: "gotype_ok T" and r: "read_slice T read_flat h s = Some (t, F)"
  shows "\<exists>s' h' G. copy_flat T s h = Some (s', h') \<and> prefix h h'
    \<and> read_slice T read_flat h' s' = Some (t, G) \<and> set G \<subseteq> {length h..<length h'}"
proof (cases s)
  case None
  then show ?thesis using r by (auto simp: copy_flat_def read_slice_def)
next
  case (Some q)
  obtain a off n where q: "q = (a, off, n)" by (cases q)
  let ?d = "length h" and ?h1 = "h @ [tag T (replicate n (zero T))]"
  from r Some q obtain vs where *: "elems T h s = Some vs" "t = Some vs"
    by (auto simp: read_slice_def split: bind_splits)
  then have vs: "length vs = n" and e: "elems T ?h1 s = Some vs"
    using Some q array_at_prefix[of T h a _ ?h1] by (auto simp: elems_Some_iff)
  have "\<exists>h'. store_all T (Some (?d, 0, n)) 0 vs ?h1 = Some h' \<and> length h' = length ?h1
      \<and> array_at T h' ?d = Some (take 0 (replicate n (zero T)) @ vs)
      \<and> (\<forall>a. a \<noteq> ?d \<longrightarrow> block_at h' a = block_at ?h1 a)"
    by (rule store_all_stores[OF T array_at_alloc[OF T]]) (simp_all add: vs)
  then obtain h' where c: "store_all T (Some (?d, 0, n)) 0 vs ?h1 = Some h'" "length h' = Suc ?d"
    "array_at T h' ?d = Some vs" "\<forall>a. a \<noteq> ?d \<longrightarrow> block_at h' a = block_at ?h1 a"
    by auto
  have "prefix h h'" using c(4) by (simp add: prefix_blocks block_at_def nth_append)
  moreover have "read_slice T read_flat h' (Some (?d, 0, n)) = Some (t, [?d])"
    using c(3) vs *(2) by (simp add: read_slice_def elems_def)
  moreover have "set [?d] \<subseteq> {?d..<length h'}" using c(2) by simp
  moreover have "copy_flat T s h = Some (Some (?d, 0, n), h')"
    using Some q e vs c(1) by (simp add: copy_flat_def go_make_def go_len_def go_copy_def)
  ultimately show ?thesis by blast
qed

lemma copy_flat_copier: "gotype_ok T \<Longrightarrow> deep_copier (read_slice T read_flat) (copy_flat T)"
  by (intro deep_copier.intro deep_copier_axioms.intro flat.slice_reader copy_flat_copies)

text \<open>Two references of a struct, copied one after the other.\<close>

definition both_into :: "('m, 'b) copy_into \<Rightarrow> ('n, 'b) copy_into \<Rightarrow> ('m \<times> 'n, 'b) copy_into" where
  "both_into f g = (\<lambda>(v, w) h. do { (v', h) \<leftarrow> f v h; (w', h) \<leftarrow> g w h; Some ((v', w'), h) })"

definition read_both :: "('m, 't, 'b) reader \<Rightarrow> ('n, 'u, 'b) reader \<Rightarrow> ('m \<times> 'n, 't \<times> 'u, 'b) reader" where
  "read_both r s h = (\<lambda>(v, w). do { (t, F) \<leftarrow> r h v; (u, G) \<leftarrow> s h w; Some ((t, u), F @ G) })"

lemma read_both_Some_iff: "read_both r s h (v, w) = Some (x, H) \<longleftrightarrow>
    (\<exists>t F u G. r h v = Some (t, F) \<and> s h w = Some (u, G) \<and> x = (t, u) \<and> H = F @ G)"
  by (auto simp: read_both_def split: bind_splits)

lemma both_reader:
  assumes "heap_reader r" "heap_reader s"
  shows "heap_reader (read_both r s)"
proof
  fix h h' v x F
  assume rd: "read_both r s h v = Some (x, F)" and eq: "\<And>a. a \<in> set F \<Longrightarrow> block_at h' a = block_at h a"
  obtain v1 v2 where v: "v = (v1, v2)" by (cases v)
  from rd obtain t F1 u F2 where *: "r h v1 = Some (t, F1)" "s h v2 = Some (u, F2)" "x = (t, u)" "F = F1 @ F2"
    by (auto simp: v read_both_Some_iff)
  have "r h' v1 = Some (t, F1)" using assms(1) *(1) by (rule heap_reader.frame) (simp add: eq *(4))
  moreover have "s h' v2 = Some (u, F2)" using assms(2) *(2) by (rule heap_reader.frame) (simp add: eq *(4))
  ultimately show "read_both r s h' v = Some (x, F)" using * by (simp add: v read_both_Some_iff)
next
  fix h v x F
  assume "read_both r s h v = Some (x, F)"
  then show "set F \<subseteq> {..<length h}"
    by (cases v) (fastforce simp: read_both_Some_iff
        dest: heap_reader.bounded[OF assms(1)] heap_reader.bounded[OF assms(2)])
qed

lemma both_copies:
  assumes f: "deep_copier r f" and g: "deep_copier s g" and rd: "read_both r s h v = Some (x, F)"
  shows "\<exists>v' h' G. both_into f g v h = Some (v', h') \<and> prefix h h'
    \<and> read_both r s h' v' = Some (x, G) \<and> set G \<subseteq> {length h..<length h'}"
proof -
  obtain v1 v2 where v: "v = (v1, v2)" by (cases v)
  from rd obtain t F1 u F2 where *: "r h v1 = Some (t, F1)" "s h v2 = Some (u, F2)" "x = (t, u)"
    by (auto simp: v read_both_Some_iff)
  from deep_copier.copies[OF f *(1)] obtain v1' h1 G1 where
    c1: "f v1 h = Some (v1', h1)" "prefix h h1" "r h1 v1' = Some (t, G1)" "set G1 \<subseteq> {length h..<length h1}"
    by blast
  have "s h1 v2 = Some (u, F2)" using deep_copier.axioms(1)[OF g] *(2) c1(2) by (rule heap_reader.read_prefix)
  from deep_copier.copies[OF g this] obtain v2' h2 G2 where
    c2: "g v2 h1 = Some (v2', h2)" "prefix h1 h2" "s h2 v2' = Some (u, G2)" "set G2 \<subseteq> {length h1..<length h2}"
    by blast
  have "r h2 v1' = Some (t, G1)" using deep_copier.axioms(1)[OF f] c1(3) c2(2) by (rule heap_reader.read_prefix)
  then have "read_both r s h2 (v1', v2') = Some (x, G1 @ G2)"
    using c2(3) *(3) by (simp add: read_both_Some_iff)
  moreover have "set (G1 @ G2) \<subseteq> {length h..<length h2}"
    using c1(4) c2(4) prefix_length_le[OF c1(2)] prefix_length_le[OF c2(2)] by fastforce
  moreover have "both_into f g v h = Some ((v1', v2'), h2)" using c1(1) c2(1) by (simp add: both_into_def v)
  ultimately show ?thesis using prefix_order.trans[OF c1(2) c2(2)] by blast
qed

lemma both_copier: "deep_copier r f \<Longrightarrow> deep_copier s g \<Longrightarrow> deep_copier (read_both r s) (both_into f g)"
  by (rule deep_copier.intro, rule both_reader)
    (auto intro: deep_copier.axioms(1) deep_copier_axioms.intro both_copies)

text \<open>A struct whose references are \<^term>\<open>get v\<close>: the code copies these and puts the copies in
  their fields (\<^term>\<open>put\<close>), the reader rebuilds the struct around what they stand for (\<^term>\<open>build\<close>).\<close>

lemma struct_copier:
  assumes c: "deep_copier r f"
    and into: "\<And>v h. into v h = do { (x, h) \<leftarrow> f (get v) h; Some (put v x, h) }"
    and rd: "\<And>h v. rd h v = do { (t, F) \<leftarrow> r h (get v); Some (build v t, F) }"
    and put: "\<And>v x. get (put v x) = x" "\<And>v x. build (put v x) = build v"
  shows "deep_copier rd into"
proof
  note hr = deep_copier.axioms(1)[OF c]
  fix h h' v t F
  assume "rd h v = Some (t, F)" and eq: "\<And>a. a \<in> set F \<Longrightarrow> block_at h' a = block_at h a"
  then obtain u where *: "r h (get v) = Some (u, F)" "t = build v u" by (auto simp: rd split: bind_splits)
  have "r h' (get v) = Some (u, F)" using hr *(1) eq by (rule heap_reader.frame)
  then show "rd h' v = Some (t, F)" by (simp add: rd *(2))
next
  fix h v t F
  assume "rd h v = Some (t, F)"
  then show "set F \<subseteq> {..<length h}"
    by (auto simp: rd split: bind_splits dest: heap_reader.bounded[OF deep_copier.axioms(1)[OF c]])
next
  fix h v t F
  assume "rd h v = Some (t, F)"
  then obtain u where *: "r h (get v) = Some (u, F)" "t = build v u" by (auto simp: rd split: bind_splits)
  from deep_copier.copies[OF c *(1)] obtain x h' G where
    "f (get v) h = Some (x, h')" "prefix h h'" "r h' x = Some (u, G)" "set G \<subseteq> {length h..<length h'}"
    by blast
  then have "into v h = Some (put v x, h')" "rd h' (put v x) = Some (t, G)"
    using *(2) by (simp_all add: into rd put)
  then show "\<exists>v' h' G. into v h = Some (v', h') \<and> prefix h h' \<and> rd h' v' = Some (t, G)
      \<and> set G \<subseteq> {length h..<length h'}"
    using \<open>prefix h h'\<close> \<open>set G \<subseteq> _\<close> by blast
qed

end
