(* ===== verification/Api_Structs.thy ===== *)
theory Api_Structs
  imports Go_Heap
begin

text \<open>
  The structs of \<^verbatim>\<open>api/v1alpha1\<close> as they lie in memory, field by field: strings, integers and
  nested structs in place, pointers and slices as references into a heap of blocks. Each struct is
  one record \<^verbatim>\<open>Go_T\<close> whose type parameters are its references: at \<^verbatim>\<open>T_mem\<close> they are pointers and
  slices, at \<^verbatim>\<open>T_val\<close> what these stand for, which is what the reader \<^verbatim>\<open>read_T\<close> yields. The named
  string types of the API are strings, \<^verbatim>\<open>corev1.LocalObjectReference\<close> is the name that is its only
  field. The structs of \<^verbatim>\<open>k8s.io/apimachinery/pkg/apis/meta/v1\<close> other than \<^verbatim>\<open>TypeMeta\<close> are opaque,
  of type \<^typ>\<open>'x\<close> in memory and \<^typ>\<open>'y\<close> as values: their zero values, copy functions and readers
  are fields of a record that every definition takes as its argument.
\<close>

section \<open>Structs\<close>

record Go_TypeMeta =
  TypeMeta_Kind :: string
  TypeMeta_APIVersion :: string

record Go_Concern =
  Concern_Category :: string
  Concern_Message :: string

record Go_HookSpec =
  HookSpec_Image :: string
  HookSpec_Playbook :: string
  HookSpec_Deadline :: string
  HookSpec_ServiceAccount :: string

record 'conditions Go_HookStatus =
  HookStatus_Conditions :: 'conditions

type_synonym HookStatus_mem = "slice Go_HookStatus"
type_synonym 'y HookStatus_val = "'y list option Go_HookStatus"

record ('meta, 'status) Go_Hook =
  Hook_TypeMeta :: Go_TypeMeta
  Hook_ObjectMeta :: 'meta
  Hook_Spec :: Go_HookSpec
  Hook_Status :: 'status

type_synonym 'x Hook_mem = "('x, HookStatus_mem) Go_Hook"
type_synonym 'y Hook_val = "('y, 'y HookStatus_val) Go_Hook"

record ('meta, 'items) Go_HookList =
  HookList_TypeMeta :: Go_TypeMeta
  HookList_ListMeta :: 'meta
  HookList_Items :: 'items

type_synonym 'x HookList_mem = "('x, slice) Go_HookList"
type_synonym 'y HookList_val = "('y, 'y Hook_val list option) Go_HookList"

record ('strs, 'time) Go_WarmMigrationStatus =
  WarmMigrationStatus_PrecopyRounds :: int
  WarmMigrationStatus_CumulativeBytes :: int
  WarmMigrationStatus_LastDeltaBytes :: int
  WarmMigrationStatus_BaseSnapshotUUID :: string
  WarmMigrationStatus_BaseImageUUIDs :: 'strs
  WarmMigrationStatus_LastPrecopyTime :: 'time
  WarmMigrationStatus_DeltaSnapshotUUID :: string
  WarmMigrationStatus_DeltaImageUUIDs :: 'strs
  WarmMigrationStatus_DeltaPodName :: string
  WarmMigrationStatus_DeltaDiskIndex :: int
  WarmMigrationStatus_DeltaBytes :: int

type_synonym WarmMigrationStatus_mem = "(slice, ptr) Go_WarmMigrationStatus"
type_synonym 'y WarmMigrationStatus_val = "(string list option, 'y option) Go_WarmMigrationStatus"

record ('time, 'strs, 'warm) Go_VMMigrationStatus =
  VMMigrationStatus_ID :: string
  VMMigrationStatus_Name :: string
  VMMigrationStatus_Phase :: string
  VMMigrationStatus_Started :: 'time
  VMMigrationStatus_Completed :: 'time
  VMMigrationStatus_Error :: string
  VMMigrationStatus_SnapshotUUID :: string
  VMMigrationStatus_ImageUUIDs :: 'strs
  VMMigrationStatus_TaskUUID :: string
  VMMigrationStatus_DataVolumeNames :: 'strs
  VMMigrationStatus_OriginalPowerState :: string
  VMMigrationStatus_Warm :: 'warm

type_synonym VMMigrationStatus_mem = "(ptr, slice, ptr) Go_VMMigrationStatus"
type_synonym 'y VMMigrationStatus_val = "('y option, string list option, 'y WarmMigrationStatus_val option) Go_VMMigrationStatus"

record ('time, 'strs) Go_MigrationSpec =
  MigrationSpec_PlanRef :: string
  MigrationSpec_Cutover :: 'time
  MigrationSpec_Cancel :: 'strs

type_synonym MigrationSpec_mem = "(ptr, slice) Go_MigrationSpec"
type_synonym 'y MigrationSpec_val = "('y option, string list option) Go_MigrationSpec"

record ('time, 'vms, 'conditions) Go_MigrationStatus =
  MigrationStatus_Phase :: string
  MigrationStatus_Started :: 'time
  MigrationStatus_Completed :: 'time
  MigrationStatus_VMs :: 'vms
  MigrationStatus_Conditions :: 'conditions

type_synonym MigrationStatus_mem = "(ptr, slice, slice) Go_MigrationStatus"
type_synonym 'y MigrationStatus_val = "('y option, 'y VMMigrationStatus_val list option, 'y list option) Go_MigrationStatus"

record ('meta, 'spec, 'status) Go_Migration =
  Migration_TypeMeta :: Go_TypeMeta
  Migration_ObjectMeta :: 'meta
  Migration_Spec :: 'spec
  Migration_Status :: 'status

type_synonym 'x Migration_mem = "('x, MigrationSpec_mem, MigrationStatus_mem) Go_Migration"
type_synonym 'y Migration_val = "('y, 'y MigrationSpec_val, 'y MigrationStatus_val) Go_Migration"

record ('meta, 'items) Go_MigrationList =
  MigrationList_TypeMeta :: Go_TypeMeta
  MigrationList_ListMeta :: 'meta
  MigrationList_Items :: 'items

type_synonym 'x MigrationList_mem = "('x, slice) Go_MigrationList"
type_synonym 'y MigrationList_val = "('y, 'y Migration_val list option) Go_MigrationList"

record Go_PlanHookRef =
  PlanHookRef_HookRef :: string
  PlanHookRef_Step :: string

record 'hooks Go_PlanVM =
  PlanVM_ID :: string
  PlanVM_Name :: string
  PlanVM_Hooks :: 'hooks

type_synonym PlanVM_mem = "slice Go_PlanVM"
type_synonym PlanVM_val = "Go_PlanHookRef list option Go_PlanVM"

record Go_WarmConfig =
  WarmConfig_PrecopyInterval :: string
  WarmConfig_MaxPrecopyRounds :: int

record 'concerns Go_VMValidationStatus =
  VMValidationStatus_ID :: string
  VMValidationStatus_Name :: string
  VMValidationStatus_Concerns :: 'concerns

type_synonym VMValidationStatus_mem = "slice Go_VMValidationStatus"
type_synonym VMValidationStatus_val = "Go_Concern list option Go_VMValidationStatus"

record ('vms, 'warmConfig) Go_MigrationPlanSpec =
  MigrationPlanSpec_ProviderRef :: string
  MigrationPlanSpec_TargetNamespace :: string
  MigrationPlanSpec_Type :: string
  MigrationPlanSpec_NetworkMapRef :: string
  MigrationPlanSpec_StorageMapRef :: string
  MigrationPlanSpec_VMs :: 'vms
  MigrationPlanSpec_MaxInFlight :: int
  MigrationPlanSpec_TargetPowerState :: string
  MigrationPlanSpec_WarmConfig :: 'warmConfig

type_synonym MigrationPlanSpec_mem = "(slice, ptr) Go_MigrationPlanSpec"
type_synonym MigrationPlanSpec_val = "(PlanVM_val list option, Go_WarmConfig option) Go_MigrationPlanSpec"

record ('vms, 'conditions) Go_MigrationPlanStatus =
  MigrationPlanStatus_Phase :: string
  MigrationPlanStatus_VMs :: 'vms
  MigrationPlanStatus_Conditions :: 'conditions

type_synonym MigrationPlanStatus_mem = "(slice, slice) Go_MigrationPlanStatus"
type_synonym 'y MigrationPlanStatus_val = "(VMValidationStatus_val list option, 'y list option) Go_MigrationPlanStatus"

record ('meta, 'spec, 'status) Go_MigrationPlan =
  MigrationPlan_TypeMeta :: Go_TypeMeta
  MigrationPlan_ObjectMeta :: 'meta
  MigrationPlan_Spec :: 'spec
  MigrationPlan_Status :: 'status

type_synonym 'x MigrationPlan_mem = "('x, MigrationPlanSpec_mem, MigrationPlanStatus_mem) Go_MigrationPlan"
type_synonym 'y MigrationPlan_val = "('y, MigrationPlanSpec_val, 'y MigrationPlanStatus_val) Go_MigrationPlan"

record ('meta, 'items) Go_MigrationPlanList =
  MigrationPlanList_TypeMeta :: Go_TypeMeta
  MigrationPlanList_ListMeta :: 'meta
  MigrationPlanList_Items :: 'items

type_synonym 'x MigrationPlanList_mem = "('x, slice) Go_MigrationPlanList"
type_synonym 'y MigrationPlanList_val = "('y, 'y MigrationPlan_val list option) Go_MigrationPlanList"

record Go_NetworkSource =
  NetworkSource_ID :: string
  NetworkSource_Name :: string

record Go_NetworkDestination =
  NetworkDestination_Type :: string
  NetworkDestination_Name :: string
  NetworkDestination_Namespace :: string

record Go_NetworkPair =
  NetworkPair_Source :: Go_NetworkSource
  NetworkPair_Destination :: Go_NetworkDestination

record 'map Go_NetworkMapSpec =
  NetworkMapSpec_ProviderRef :: string
  NetworkMapSpec_Map :: 'map

type_synonym NetworkMapSpec_mem = "slice Go_NetworkMapSpec"
type_synonym NetworkMapSpec_val = "Go_NetworkPair list option Go_NetworkMapSpec"

record ('meta, 'spec) Go_NetworkMap =
  NetworkMap_TypeMeta :: Go_TypeMeta
  NetworkMap_ObjectMeta :: 'meta
  NetworkMap_Spec :: 'spec

type_synonym 'x NetworkMap_mem = "('x, NetworkMapSpec_mem) Go_NetworkMap"
type_synonym 'y NetworkMap_val = "('y, NetworkMapSpec_val) Go_NetworkMap"

record ('meta, 'items) Go_NetworkMapList =
  NetworkMapList_TypeMeta :: Go_TypeMeta
  NetworkMapList_ListMeta :: 'meta
  NetworkMapList_Items :: 'items

type_synonym 'x NetworkMapList_mem = "('x, slice) Go_NetworkMapList"
type_synonym 'y NetworkMapList_val = "('y, 'y NetworkMap_val list option) Go_NetworkMapList"

record Go_NutanixProviderSpec =
  NutanixProviderSpec_URL :: string
  NutanixProviderSpec_SecretRef :: string
  NutanixProviderSpec_RefreshInterval :: string
  NutanixProviderSpec_InsecureSkipVerify :: bool

record 'conditions Go_NutanixProviderStatus =
  NutanixProviderStatus_Phase :: string
  NutanixProviderStatus_VMCount :: int
  NutanixProviderStatus_Conditions :: 'conditions

type_synonym NutanixProviderStatus_mem = "slice Go_NutanixProviderStatus"
type_synonym 'y NutanixProviderStatus_val = "'y list option Go_NutanixProviderStatus"

record ('meta, 'status) Go_NutanixProvider =
  NutanixProvider_TypeMeta :: Go_TypeMeta
  NutanixProvider_ObjectMeta :: 'meta
  NutanixProvider_Spec :: Go_NutanixProviderSpec
  NutanixProvider_Status :: 'status

type_synonym 'x NutanixProvider_mem = "('x, NutanixProviderStatus_mem) Go_NutanixProvider"
type_synonym 'y NutanixProvider_val = "('y, 'y NutanixProviderStatus_val) Go_NutanixProvider"

record ('meta, 'items) Go_NutanixProviderList =
  NutanixProviderList_TypeMeta :: Go_TypeMeta
  NutanixProviderList_ListMeta :: 'meta
  NutanixProviderList_Items :: 'items

type_synonym 'x NutanixProviderList_mem = "('x, slice) Go_NutanixProviderList"
type_synonym 'y NutanixProviderList_val = "('y, 'y NutanixProvider_val list option) Go_NutanixProviderList"

record Go_StorageSource =
  StorageSource_ID :: string
  StorageSource_Name :: string

record Go_StorageDestination =
  StorageDestination_StorageClass :: string
  StorageDestination_VolumeMode :: string
  StorageDestination_AccessMode :: string

record Go_StoragePair =
  StoragePair_Source :: Go_StorageSource
  StoragePair_Destination :: Go_StorageDestination

record 'map Go_StorageMapSpec =
  StorageMapSpec_ProviderRef :: string
  StorageMapSpec_Map :: 'map

type_synonym StorageMapSpec_mem = "slice Go_StorageMapSpec"
type_synonym StorageMapSpec_val = "Go_StoragePair list option Go_StorageMapSpec"

record ('meta, 'spec) Go_StorageMap =
  StorageMap_TypeMeta :: Go_TypeMeta
  StorageMap_ObjectMeta :: 'meta
  StorageMap_Spec :: 'spec

type_synonym 'x StorageMap_mem = "('x, StorageMapSpec_mem) Go_StorageMap"
type_synonym 'y StorageMap_val = "('y, StorageMapSpec_val) Go_StorageMap"

record ('meta, 'items) Go_StorageMapList =
  StorageMapList_TypeMeta :: Go_TypeMeta
  StorageMapList_ListMeta :: 'meta
  StorageMapList_Items :: 'items

type_synonym 'x StorageMapList_mem = "('x, slice) Go_StorageMapList"
type_synonym 'y StorageMapList_val = "('y, 'y StorageMap_val list option) Go_StorageMapList"

section \<open>The heap\<close>

text \<open>One kind of block per element type. \<^verbatim>\<open>Meta_block\<close> is for what the functions of the library
  allocate for themselves.\<close>

datatype 'x block =
  String_block "string list"
| Time_block "'x list"
| Condition_block "'x list"
| Meta_block "'x list"
| Concern_block "Go_Concern list"
| HookSpec_block "Go_HookSpec list"
| HookStatus_block "HookStatus_mem list"
| Hook_block "'x Hook_mem list"
| HookList_block "'x HookList_mem list"
| WarmMigrationStatus_block "WarmMigrationStatus_mem list"
| VMMigrationStatus_block "VMMigrationStatus_mem list"
| MigrationSpec_block "MigrationSpec_mem list"
| MigrationStatus_block "MigrationStatus_mem list"
| Migration_block "'x Migration_mem list"
| MigrationList_block "'x MigrationList_mem list"
| PlanHookRef_block "Go_PlanHookRef list"
| PlanVM_block "PlanVM_mem list"
| WarmConfig_block "Go_WarmConfig list"
| VMValidationStatus_block "VMValidationStatus_mem list"
| MigrationPlanSpec_block "MigrationPlanSpec_mem list"
| MigrationPlanStatus_block "MigrationPlanStatus_mem list"
| MigrationPlan_block "'x MigrationPlan_mem list"
| MigrationPlanList_block "'x MigrationPlanList_mem list"
| NetworkSource_block "Go_NetworkSource list"
| NetworkDestination_block "Go_NetworkDestination list"
| NetworkPair_block "Go_NetworkPair list"
| NetworkMapSpec_block "NetworkMapSpec_mem list"
| NetworkMap_block "'x NetworkMap_mem list"
| NetworkMapList_block "'x NetworkMapList_mem list"
| NutanixProviderSpec_block "Go_NutanixProviderSpec list"
| NutanixProviderStatus_block "NutanixProviderStatus_mem list"
| NutanixProvider_block "'x NutanixProvider_mem list"
| NutanixProviderList_block "'x NutanixProviderList_mem list"
| StorageSource_block "Go_StorageSource list"
| StorageDestination_block "Go_StorageDestination list"
| StoragePair_block "Go_StoragePair list"
| StorageMapSpec_block "StorageMapSpec_mem list"
| StorageMap_block "'x StorageMap_mem list"
| StorageMapList_block "'x StorageMapList_mem list"

text \<open>What the generated code uses of the library: zero values of the opaque structs and the copy
  functions of the library; and, for the statements only, their readers.\<close>

record 'x metav1_api =
  ObjectMeta_zero :: 'x
  ListMeta_zero :: 'x
  Condition_zero :: 'x
  Time_zero :: 'x
  ObjectMeta_DeepCopyInto :: "('x, 'x block) copy_into"
  ListMeta_DeepCopyInto :: "('x, 'x block) copy_into"
  Condition_DeepCopyInto :: "('x, 'x block) copy_into"
  Time_DeepCopy :: "(ptr, 'x block) copy_into"

record ('x, 'y) metav1_lib = "'x metav1_api" +
  read_ObjectMeta :: "('x, 'y, 'x block) reader"
  read_ListMeta :: "('x, 'y, 'x block) reader"
  read_Condition :: "('x, 'y, 'x block) reader"
  read_Time :: "('x, 'y, 'x block) reader"

section \<open>Zero values\<close>

definition TypeMeta_zero :: Go_TypeMeta where
  "TypeMeta_zero = \<lparr>TypeMeta_Kind = [], TypeMeta_APIVersion = []\<rparr>"

definition Concern_zero :: "Go_Concern" where
  "Concern_zero =
    \<lparr>Concern_Category = [], Concern_Message = []\<rparr>"

definition HookSpec_zero :: "Go_HookSpec" where
  "HookSpec_zero =
    \<lparr>HookSpec_Image = [], HookSpec_Playbook = [], HookSpec_Deadline = [],
     HookSpec_ServiceAccount = []\<rparr>"

definition HookStatus_zero :: "HookStatus_mem" where
  "HookStatus_zero =
    \<lparr>HookStatus_Conditions = None\<rparr>"

definition Hook_zero :: "('x, 'z) metav1_api_scheme \<Rightarrow> 'x Hook_mem" where
  "Hook_zero X =
    \<lparr>Hook_TypeMeta = TypeMeta_zero, Hook_ObjectMeta = ObjectMeta_zero X,
     Hook_Spec = HookSpec_zero, Hook_Status = HookStatus_zero\<rparr>"

definition HookList_zero :: "('x, 'z) metav1_api_scheme \<Rightarrow> 'x HookList_mem" where
  "HookList_zero X =
    \<lparr>HookList_TypeMeta = TypeMeta_zero, HookList_ListMeta = ListMeta_zero X,
     HookList_Items = None\<rparr>"

definition WarmMigrationStatus_zero :: "WarmMigrationStatus_mem" where
  "WarmMigrationStatus_zero =
    \<lparr>WarmMigrationStatus_PrecopyRounds = 0, WarmMigrationStatus_CumulativeBytes = 0,
     WarmMigrationStatus_LastDeltaBytes = 0, WarmMigrationStatus_BaseSnapshotUUID = [],
     WarmMigrationStatus_BaseImageUUIDs = None, WarmMigrationStatus_LastPrecopyTime = None,
     WarmMigrationStatus_DeltaSnapshotUUID = [], WarmMigrationStatus_DeltaImageUUIDs = None,
     WarmMigrationStatus_DeltaPodName = [], WarmMigrationStatus_DeltaDiskIndex = 0,
     WarmMigrationStatus_DeltaBytes = 0\<rparr>"

definition VMMigrationStatus_zero :: "VMMigrationStatus_mem" where
  "VMMigrationStatus_zero =
    \<lparr>VMMigrationStatus_ID = [], VMMigrationStatus_Name = [], VMMigrationStatus_Phase = [],
     VMMigrationStatus_Started = None, VMMigrationStatus_Completed = None,
     VMMigrationStatus_Error = [], VMMigrationStatus_SnapshotUUID = [],
     VMMigrationStatus_ImageUUIDs = None, VMMigrationStatus_TaskUUID = [],
     VMMigrationStatus_DataVolumeNames = None, VMMigrationStatus_OriginalPowerState = [],
     VMMigrationStatus_Warm = None\<rparr>"

definition MigrationSpec_zero :: "MigrationSpec_mem" where
  "MigrationSpec_zero =
    \<lparr>MigrationSpec_PlanRef = [], MigrationSpec_Cutover = None, MigrationSpec_Cancel = None\<rparr>"

definition MigrationStatus_zero :: "MigrationStatus_mem" where
  "MigrationStatus_zero =
    \<lparr>MigrationStatus_Phase = [], MigrationStatus_Started = None,
     MigrationStatus_Completed = None, MigrationStatus_VMs = None,
     MigrationStatus_Conditions = None\<rparr>"

definition Migration_zero :: "('x, 'z) metav1_api_scheme \<Rightarrow> 'x Migration_mem" where
  "Migration_zero X =
    \<lparr>Migration_TypeMeta = TypeMeta_zero, Migration_ObjectMeta = ObjectMeta_zero X,
     Migration_Spec = MigrationSpec_zero, Migration_Status = MigrationStatus_zero\<rparr>"

definition MigrationList_zero :: "('x, 'z) metav1_api_scheme \<Rightarrow> 'x MigrationList_mem" where
  "MigrationList_zero X =
    \<lparr>MigrationList_TypeMeta = TypeMeta_zero, MigrationList_ListMeta = ListMeta_zero X,
     MigrationList_Items = None\<rparr>"

definition PlanHookRef_zero :: "Go_PlanHookRef" where
  "PlanHookRef_zero =
    \<lparr>PlanHookRef_HookRef = [], PlanHookRef_Step = []\<rparr>"

definition PlanVM_zero :: "PlanVM_mem" where
  "PlanVM_zero =
    \<lparr>PlanVM_ID = [], PlanVM_Name = [], PlanVM_Hooks = None\<rparr>"

definition WarmConfig_zero :: "Go_WarmConfig" where
  "WarmConfig_zero =
    \<lparr>WarmConfig_PrecopyInterval = [], WarmConfig_MaxPrecopyRounds = 0\<rparr>"

definition VMValidationStatus_zero :: "VMValidationStatus_mem" where
  "VMValidationStatus_zero =
    \<lparr>VMValidationStatus_ID = [], VMValidationStatus_Name = [], VMValidationStatus_Concerns = None\<rparr>"

definition MigrationPlanSpec_zero :: "MigrationPlanSpec_mem" where
  "MigrationPlanSpec_zero =
    \<lparr>MigrationPlanSpec_ProviderRef = [], MigrationPlanSpec_TargetNamespace = [],
     MigrationPlanSpec_Type = [], MigrationPlanSpec_NetworkMapRef = [],
     MigrationPlanSpec_StorageMapRef = [], MigrationPlanSpec_VMs = None,
     MigrationPlanSpec_MaxInFlight = 0, MigrationPlanSpec_TargetPowerState = [],
     MigrationPlanSpec_WarmConfig = None\<rparr>"

definition MigrationPlanStatus_zero :: "MigrationPlanStatus_mem" where
  "MigrationPlanStatus_zero =
    \<lparr>MigrationPlanStatus_Phase = [], MigrationPlanStatus_VMs = None,
     MigrationPlanStatus_Conditions = None\<rparr>"

definition MigrationPlan_zero :: "('x, 'z) metav1_api_scheme \<Rightarrow> 'x MigrationPlan_mem" where
  "MigrationPlan_zero X =
    \<lparr>MigrationPlan_TypeMeta = TypeMeta_zero, MigrationPlan_ObjectMeta = ObjectMeta_zero X,
     MigrationPlan_Spec = MigrationPlanSpec_zero, MigrationPlan_Status = MigrationPlanStatus_zero\<rparr>"

definition MigrationPlanList_zero :: "('x, 'z) metav1_api_scheme \<Rightarrow> 'x MigrationPlanList_mem" where
  "MigrationPlanList_zero X =
    \<lparr>MigrationPlanList_TypeMeta = TypeMeta_zero, MigrationPlanList_ListMeta = ListMeta_zero X,
     MigrationPlanList_Items = None\<rparr>"

definition NetworkSource_zero :: "Go_NetworkSource" where
  "NetworkSource_zero =
    \<lparr>NetworkSource_ID = [], NetworkSource_Name = []\<rparr>"

definition NetworkDestination_zero :: "Go_NetworkDestination" where
  "NetworkDestination_zero =
    \<lparr>NetworkDestination_Type = [], NetworkDestination_Name = [],
     NetworkDestination_Namespace = []\<rparr>"

definition NetworkPair_zero :: "Go_NetworkPair" where
  "NetworkPair_zero =
    \<lparr>NetworkPair_Source = NetworkSource_zero, NetworkPair_Destination = NetworkDestination_zero\<rparr>"

definition NetworkMapSpec_zero :: "NetworkMapSpec_mem" where
  "NetworkMapSpec_zero =
    \<lparr>NetworkMapSpec_ProviderRef = [], NetworkMapSpec_Map = None\<rparr>"

definition NetworkMap_zero :: "('x, 'z) metav1_api_scheme \<Rightarrow> 'x NetworkMap_mem" where
  "NetworkMap_zero X =
    \<lparr>NetworkMap_TypeMeta = TypeMeta_zero, NetworkMap_ObjectMeta = ObjectMeta_zero X,
     NetworkMap_Spec = NetworkMapSpec_zero\<rparr>"

definition NetworkMapList_zero :: "('x, 'z) metav1_api_scheme \<Rightarrow> 'x NetworkMapList_mem" where
  "NetworkMapList_zero X =
    \<lparr>NetworkMapList_TypeMeta = TypeMeta_zero, NetworkMapList_ListMeta = ListMeta_zero X,
     NetworkMapList_Items = None\<rparr>"

definition NutanixProviderSpec_zero :: "Go_NutanixProviderSpec" where
  "NutanixProviderSpec_zero =
    \<lparr>NutanixProviderSpec_URL = [], NutanixProviderSpec_SecretRef = [],
     NutanixProviderSpec_RefreshInterval = [], NutanixProviderSpec_InsecureSkipVerify = False\<rparr>"

definition NutanixProviderStatus_zero :: "NutanixProviderStatus_mem" where
  "NutanixProviderStatus_zero =
    \<lparr>NutanixProviderStatus_Phase = [], NutanixProviderStatus_VMCount = 0,
     NutanixProviderStatus_Conditions = None\<rparr>"

definition NutanixProvider_zero :: "('x, 'z) metav1_api_scheme \<Rightarrow> 'x NutanixProvider_mem" where
  "NutanixProvider_zero X =
    \<lparr>NutanixProvider_TypeMeta = TypeMeta_zero, NutanixProvider_ObjectMeta = ObjectMeta_zero X,
     NutanixProvider_Spec = NutanixProviderSpec_zero,
     NutanixProvider_Status = NutanixProviderStatus_zero\<rparr>"

definition NutanixProviderList_zero ::
    "('x, 'z) metav1_api_scheme \<Rightarrow> 'x NutanixProviderList_mem" where
  "NutanixProviderList_zero X =
    \<lparr>NutanixProviderList_TypeMeta = TypeMeta_zero,
     NutanixProviderList_ListMeta = ListMeta_zero X, NutanixProviderList_Items = None\<rparr>"

definition StorageSource_zero :: "Go_StorageSource" where
  "StorageSource_zero =
    \<lparr>StorageSource_ID = [], StorageSource_Name = []\<rparr>"

definition StorageDestination_zero :: "Go_StorageDestination" where
  "StorageDestination_zero =
    \<lparr>StorageDestination_StorageClass = [], StorageDestination_VolumeMode = [],
     StorageDestination_AccessMode = []\<rparr>"

definition StoragePair_zero :: "Go_StoragePair" where
  "StoragePair_zero =
    \<lparr>StoragePair_Source = StorageSource_zero, StoragePair_Destination = StorageDestination_zero\<rparr>"

definition StorageMapSpec_zero :: "StorageMapSpec_mem" where
  "StorageMapSpec_zero =
    \<lparr>StorageMapSpec_ProviderRef = [], StorageMapSpec_Map = None\<rparr>"

definition StorageMap_zero :: "('x, 'z) metav1_api_scheme \<Rightarrow> 'x StorageMap_mem" where
  "StorageMap_zero X =
    \<lparr>StorageMap_TypeMeta = TypeMeta_zero, StorageMap_ObjectMeta = ObjectMeta_zero X,
     StorageMap_Spec = StorageMapSpec_zero\<rparr>"

definition StorageMapList_zero :: "('x, 'z) metav1_api_scheme \<Rightarrow> 'x StorageMapList_mem" where
  "StorageMapList_zero X =
    \<lparr>StorageMapList_TypeMeta = TypeMeta_zero, StorageMapList_ListMeta = ListMeta_zero X,
     StorageMapList_Items = None\<rparr>"

section \<open>Element types of blocks\<close>

definition String_type :: "(string, 'x block) gotype" where
  "String_type = \<lparr>tag = String_block,
     untag = (\<lambda>b. case b of String_block xs \<Rightarrow> Some xs | _ \<Rightarrow> None), zero = []\<rparr>"

definition Time_type :: "('x, 'z) metav1_api_scheme \<Rightarrow> ('x, 'x block) gotype" where
  "Time_type X = \<lparr>tag = Time_block,
     untag = (\<lambda>b. case b of Time_block xs \<Rightarrow> Some xs | _ \<Rightarrow> None),
     zero = Time_zero X\<rparr>"

definition Condition_type :: "('x, 'z) metav1_api_scheme \<Rightarrow> ('x, 'x block) gotype" where
  "Condition_type X = \<lparr>tag = Condition_block,
     untag = (\<lambda>b. case b of Condition_block xs \<Rightarrow> Some xs | _ \<Rightarrow> None),
     zero = Condition_zero X\<rparr>"

definition Concern_type :: "(Go_Concern, 'x block) gotype" where
  "Concern_type = \<lparr>tag = Concern_block,
     untag = (\<lambda>b. case b of Concern_block xs \<Rightarrow> Some xs | _ \<Rightarrow> None),
     zero = Concern_zero\<rparr>"

definition HookSpec_type :: "(Go_HookSpec, 'x block) gotype" where
  "HookSpec_type = \<lparr>tag = HookSpec_block,
     untag = (\<lambda>b. case b of HookSpec_block xs \<Rightarrow> Some xs | _ \<Rightarrow> None),
     zero = HookSpec_zero\<rparr>"

definition HookStatus_type :: "(HookStatus_mem, 'x block) gotype" where
  "HookStatus_type = \<lparr>tag = HookStatus_block,
     untag = (\<lambda>b. case b of HookStatus_block xs \<Rightarrow> Some xs | _ \<Rightarrow> None),
     zero = HookStatus_zero\<rparr>"

definition Hook_type :: "('x, 'z) metav1_api_scheme \<Rightarrow> ('x Hook_mem, 'x block) gotype" where
  "Hook_type X = \<lparr>tag = Hook_block,
     untag = (\<lambda>b. case b of Hook_block xs \<Rightarrow> Some xs | _ \<Rightarrow> None),
     zero = Hook_zero X\<rparr>"

definition HookList_type :: "('x, 'z) metav1_api_scheme \<Rightarrow> ('x HookList_mem, 'x block) gotype" where
  "HookList_type X = \<lparr>tag = HookList_block,
     untag = (\<lambda>b. case b of HookList_block xs \<Rightarrow> Some xs | _ \<Rightarrow> None),
     zero = HookList_zero X\<rparr>"

definition WarmMigrationStatus_type :: "(WarmMigrationStatus_mem, 'x block) gotype" where
  "WarmMigrationStatus_type = \<lparr>tag = WarmMigrationStatus_block,
     untag = (\<lambda>b. case b of WarmMigrationStatus_block xs \<Rightarrow> Some xs | _ \<Rightarrow> None),
     zero = WarmMigrationStatus_zero\<rparr>"

definition VMMigrationStatus_type :: "(VMMigrationStatus_mem, 'x block) gotype" where
  "VMMigrationStatus_type = \<lparr>tag = VMMigrationStatus_block,
     untag = (\<lambda>b. case b of VMMigrationStatus_block xs \<Rightarrow> Some xs | _ \<Rightarrow> None),
     zero = VMMigrationStatus_zero\<rparr>"

definition MigrationSpec_type :: "(MigrationSpec_mem, 'x block) gotype" where
  "MigrationSpec_type = \<lparr>tag = MigrationSpec_block,
     untag = (\<lambda>b. case b of MigrationSpec_block xs \<Rightarrow> Some xs | _ \<Rightarrow> None),
     zero = MigrationSpec_zero\<rparr>"

definition MigrationStatus_type :: "(MigrationStatus_mem, 'x block) gotype" where
  "MigrationStatus_type = \<lparr>tag = MigrationStatus_block,
     untag = (\<lambda>b. case b of MigrationStatus_block xs \<Rightarrow> Some xs | _ \<Rightarrow> None),
     zero = MigrationStatus_zero\<rparr>"

definition Migration_type ::
    "('x, 'z) metav1_api_scheme \<Rightarrow> ('x Migration_mem, 'x block) gotype" where
  "Migration_type X = \<lparr>tag = Migration_block,
     untag = (\<lambda>b. case b of Migration_block xs \<Rightarrow> Some xs | _ \<Rightarrow> None),
     zero = Migration_zero X\<rparr>"

definition MigrationList_type ::
    "('x, 'z) metav1_api_scheme \<Rightarrow> ('x MigrationList_mem, 'x block) gotype" where
  "MigrationList_type X = \<lparr>tag = MigrationList_block,
     untag = (\<lambda>b. case b of MigrationList_block xs \<Rightarrow> Some xs | _ \<Rightarrow> None),
     zero = MigrationList_zero X\<rparr>"

definition PlanHookRef_type :: "(Go_PlanHookRef, 'x block) gotype" where
  "PlanHookRef_type = \<lparr>tag = PlanHookRef_block,
     untag = (\<lambda>b. case b of PlanHookRef_block xs \<Rightarrow> Some xs | _ \<Rightarrow> None),
     zero = PlanHookRef_zero\<rparr>"

definition PlanVM_type :: "(PlanVM_mem, 'x block) gotype" where
  "PlanVM_type = \<lparr>tag = PlanVM_block,
     untag = (\<lambda>b. case b of PlanVM_block xs \<Rightarrow> Some xs | _ \<Rightarrow> None),
     zero = PlanVM_zero\<rparr>"

definition WarmConfig_type :: "(Go_WarmConfig, 'x block) gotype" where
  "WarmConfig_type = \<lparr>tag = WarmConfig_block,
     untag = (\<lambda>b. case b of WarmConfig_block xs \<Rightarrow> Some xs | _ \<Rightarrow> None),
     zero = WarmConfig_zero\<rparr>"

definition VMValidationStatus_type :: "(VMValidationStatus_mem, 'x block) gotype" where
  "VMValidationStatus_type = \<lparr>tag = VMValidationStatus_block,
     untag = (\<lambda>b. case b of VMValidationStatus_block xs \<Rightarrow> Some xs | _ \<Rightarrow> None),
     zero = VMValidationStatus_zero\<rparr>"

definition MigrationPlanSpec_type :: "(MigrationPlanSpec_mem, 'x block) gotype" where
  "MigrationPlanSpec_type = \<lparr>tag = MigrationPlanSpec_block,
     untag = (\<lambda>b. case b of MigrationPlanSpec_block xs \<Rightarrow> Some xs | _ \<Rightarrow> None),
     zero = MigrationPlanSpec_zero\<rparr>"

definition MigrationPlanStatus_type :: "(MigrationPlanStatus_mem, 'x block) gotype" where
  "MigrationPlanStatus_type = \<lparr>tag = MigrationPlanStatus_block,
     untag = (\<lambda>b. case b of MigrationPlanStatus_block xs \<Rightarrow> Some xs | _ \<Rightarrow> None),
     zero = MigrationPlanStatus_zero\<rparr>"

definition MigrationPlan_type ::
    "('x, 'z) metav1_api_scheme \<Rightarrow> ('x MigrationPlan_mem, 'x block) gotype" where
  "MigrationPlan_type X = \<lparr>tag = MigrationPlan_block,
     untag = (\<lambda>b. case b of MigrationPlan_block xs \<Rightarrow> Some xs | _ \<Rightarrow> None),
     zero = MigrationPlan_zero X\<rparr>"

definition MigrationPlanList_type ::
    "('x, 'z) metav1_api_scheme \<Rightarrow> ('x MigrationPlanList_mem, 'x block) gotype" where
  "MigrationPlanList_type X = \<lparr>tag = MigrationPlanList_block,
     untag = (\<lambda>b. case b of MigrationPlanList_block xs \<Rightarrow> Some xs | _ \<Rightarrow> None),
     zero = MigrationPlanList_zero X\<rparr>"

definition NetworkSource_type :: "(Go_NetworkSource, 'x block) gotype" where
  "NetworkSource_type = \<lparr>tag = NetworkSource_block,
     untag = (\<lambda>b. case b of NetworkSource_block xs \<Rightarrow> Some xs | _ \<Rightarrow> None),
     zero = NetworkSource_zero\<rparr>"

definition NetworkDestination_type :: "(Go_NetworkDestination, 'x block) gotype" where
  "NetworkDestination_type = \<lparr>tag = NetworkDestination_block,
     untag = (\<lambda>b. case b of NetworkDestination_block xs \<Rightarrow> Some xs | _ \<Rightarrow> None),
     zero = NetworkDestination_zero\<rparr>"

definition NetworkPair_type :: "(Go_NetworkPair, 'x block) gotype" where
  "NetworkPair_type = \<lparr>tag = NetworkPair_block,
     untag = (\<lambda>b. case b of NetworkPair_block xs \<Rightarrow> Some xs | _ \<Rightarrow> None),
     zero = NetworkPair_zero\<rparr>"

definition NetworkMapSpec_type :: "(NetworkMapSpec_mem, 'x block) gotype" where
  "NetworkMapSpec_type = \<lparr>tag = NetworkMapSpec_block,
     untag = (\<lambda>b. case b of NetworkMapSpec_block xs \<Rightarrow> Some xs | _ \<Rightarrow> None),
     zero = NetworkMapSpec_zero\<rparr>"

definition NetworkMap_type ::
    "('x, 'z) metav1_api_scheme \<Rightarrow> ('x NetworkMap_mem, 'x block) gotype" where
  "NetworkMap_type X = \<lparr>tag = NetworkMap_block,
     untag = (\<lambda>b. case b of NetworkMap_block xs \<Rightarrow> Some xs | _ \<Rightarrow> None),
     zero = NetworkMap_zero X\<rparr>"

definition NetworkMapList_type ::
    "('x, 'z) metav1_api_scheme \<Rightarrow> ('x NetworkMapList_mem, 'x block) gotype" where
  "NetworkMapList_type X = \<lparr>tag = NetworkMapList_block,
     untag = (\<lambda>b. case b of NetworkMapList_block xs \<Rightarrow> Some xs | _ \<Rightarrow> None),
     zero = NetworkMapList_zero X\<rparr>"

definition NutanixProviderSpec_type :: "(Go_NutanixProviderSpec, 'x block) gotype" where
  "NutanixProviderSpec_type = \<lparr>tag = NutanixProviderSpec_block,
     untag = (\<lambda>b. case b of NutanixProviderSpec_block xs \<Rightarrow> Some xs | _ \<Rightarrow> None),
     zero = NutanixProviderSpec_zero\<rparr>"

definition NutanixProviderStatus_type :: "(NutanixProviderStatus_mem, 'x block) gotype" where
  "NutanixProviderStatus_type = \<lparr>tag = NutanixProviderStatus_block,
     untag = (\<lambda>b. case b of NutanixProviderStatus_block xs \<Rightarrow> Some xs | _ \<Rightarrow> None),
     zero = NutanixProviderStatus_zero\<rparr>"

definition NutanixProvider_type ::
    "('x, 'z) metav1_api_scheme \<Rightarrow> ('x NutanixProvider_mem, 'x block) gotype" where
  "NutanixProvider_type X = \<lparr>tag = NutanixProvider_block,
     untag = (\<lambda>b. case b of NutanixProvider_block xs \<Rightarrow> Some xs | _ \<Rightarrow> None),
     zero = NutanixProvider_zero X\<rparr>"

definition NutanixProviderList_type ::
    "('x, 'z) metav1_api_scheme \<Rightarrow> ('x NutanixProviderList_mem, 'x block) gotype" where
  "NutanixProviderList_type X = \<lparr>tag = NutanixProviderList_block,
     untag = (\<lambda>b. case b of NutanixProviderList_block xs \<Rightarrow> Some xs | _ \<Rightarrow> None),
     zero = NutanixProviderList_zero X\<rparr>"

definition StorageSource_type :: "(Go_StorageSource, 'x block) gotype" where
  "StorageSource_type = \<lparr>tag = StorageSource_block,
     untag = (\<lambda>b. case b of StorageSource_block xs \<Rightarrow> Some xs | _ \<Rightarrow> None),
     zero = StorageSource_zero\<rparr>"

definition StorageDestination_type :: "(Go_StorageDestination, 'x block) gotype" where
  "StorageDestination_type = \<lparr>tag = StorageDestination_block,
     untag = (\<lambda>b. case b of StorageDestination_block xs \<Rightarrow> Some xs | _ \<Rightarrow> None),
     zero = StorageDestination_zero\<rparr>"

definition StoragePair_type :: "(Go_StoragePair, 'x block) gotype" where
  "StoragePair_type = \<lparr>tag = StoragePair_block,
     untag = (\<lambda>b. case b of StoragePair_block xs \<Rightarrow> Some xs | _ \<Rightarrow> None),
     zero = StoragePair_zero\<rparr>"

definition StorageMapSpec_type :: "(StorageMapSpec_mem, 'x block) gotype" where
  "StorageMapSpec_type = \<lparr>tag = StorageMapSpec_block,
     untag = (\<lambda>b. case b of StorageMapSpec_block xs \<Rightarrow> Some xs | _ \<Rightarrow> None),
     zero = StorageMapSpec_zero\<rparr>"

definition StorageMap_type ::
    "('x, 'z) metav1_api_scheme \<Rightarrow> ('x StorageMap_mem, 'x block) gotype" where
  "StorageMap_type X = \<lparr>tag = StorageMap_block,
     untag = (\<lambda>b. case b of StorageMap_block xs \<Rightarrow> Some xs | _ \<Rightarrow> None),
     zero = StorageMap_zero X\<rparr>"

definition StorageMapList_type ::
    "('x, 'z) metav1_api_scheme \<Rightarrow> ('x StorageMapList_mem, 'x block) gotype" where
  "StorageMapList_type X = \<lparr>tag = StorageMapList_block,
     untag = (\<lambda>b. case b of StorageMapList_block xs \<Rightarrow> Some xs | _ \<Rightarrow> None),
     zero = StorageMapList_zero X\<rparr>"

lemma heap_types:
  shows String_type_ok: "gotype_ok String_type"
    and Time_type_ok: "gotype_ok (Time_type X)"
    and Condition_type_ok: "gotype_ok (Condition_type X)"
    and Concern_type_ok: "gotype_ok Concern_type"
    and HookSpec_type_ok: "gotype_ok HookSpec_type"
    and HookStatus_type_ok: "gotype_ok HookStatus_type"
    and Hook_type_ok: "gotype_ok (Hook_type X)"
    and HookList_type_ok: "gotype_ok (HookList_type X)"
    and WarmMigrationStatus_type_ok: "gotype_ok WarmMigrationStatus_type"
    and VMMigrationStatus_type_ok: "gotype_ok VMMigrationStatus_type"
    and MigrationSpec_type_ok: "gotype_ok MigrationSpec_type"
    and MigrationStatus_type_ok: "gotype_ok MigrationStatus_type"
    and Migration_type_ok: "gotype_ok (Migration_type X)"
    and MigrationList_type_ok: "gotype_ok (MigrationList_type X)"
    and PlanHookRef_type_ok: "gotype_ok PlanHookRef_type"
    and PlanVM_type_ok: "gotype_ok PlanVM_type"
    and WarmConfig_type_ok: "gotype_ok WarmConfig_type"
    and VMValidationStatus_type_ok: "gotype_ok VMValidationStatus_type"
    and MigrationPlanSpec_type_ok: "gotype_ok MigrationPlanSpec_type"
    and MigrationPlanStatus_type_ok: "gotype_ok MigrationPlanStatus_type"
    and MigrationPlan_type_ok: "gotype_ok (MigrationPlan_type X)"
    and MigrationPlanList_type_ok: "gotype_ok (MigrationPlanList_type X)"
    and NetworkSource_type_ok: "gotype_ok NetworkSource_type"
    and NetworkDestination_type_ok: "gotype_ok NetworkDestination_type"
    and NetworkPair_type_ok: "gotype_ok NetworkPair_type"
    and NetworkMapSpec_type_ok: "gotype_ok NetworkMapSpec_type"
    and NetworkMap_type_ok: "gotype_ok (NetworkMap_type X)"
    and NetworkMapList_type_ok: "gotype_ok (NetworkMapList_type X)"
    and NutanixProviderSpec_type_ok: "gotype_ok NutanixProviderSpec_type"
    and NutanixProviderStatus_type_ok: "gotype_ok NutanixProviderStatus_type"
    and NutanixProvider_type_ok: "gotype_ok (NutanixProvider_type X)"
    and NutanixProviderList_type_ok: "gotype_ok (NutanixProviderList_type X)"
    and StorageSource_type_ok: "gotype_ok StorageSource_type"
    and StorageDestination_type_ok: "gotype_ok StorageDestination_type"
    and StoragePair_type_ok: "gotype_ok StoragePair_type"
    and StorageMapSpec_type_ok: "gotype_ok StorageMapSpec_type"
    and StorageMap_type_ok: "gotype_ok (StorageMap_type X)"
    and StorageMapList_type_ok: "gotype_ok (StorageMapList_type X)"
  by (simp_all add: gotype_ok_def String_type_def Time_type_def Condition_type_def Concern_type_def
    HookSpec_type_def HookStatus_type_def Hook_type_def HookList_type_def
    WarmMigrationStatus_type_def VMMigrationStatus_type_def MigrationSpec_type_def
    MigrationStatus_type_def Migration_type_def MigrationList_type_def
    PlanHookRef_type_def PlanVM_type_def WarmConfig_type_def
    VMValidationStatus_type_def MigrationPlanSpec_type_def MigrationPlanStatus_type_def
    MigrationPlan_type_def MigrationPlanList_type_def NetworkSource_type_def
    NetworkDestination_type_def NetworkPair_type_def NetworkMapSpec_type_def
    NetworkMap_type_def NetworkMapList_type_def NutanixProviderSpec_type_def
    NutanixProviderStatus_type_def NutanixProvider_type_def NutanixProviderList_type_def
    StorageSource_type_def StorageDestination_type_def StoragePair_type_def
    StorageMapSpec_type_def StorageMap_type_def StorageMapList_type_def)

section \<open>References of a struct\<close>

text \<open>\<^verbatim>\<open>T_refs\<close> lists the references of a struct in the order of its fields, \<^verbatim>\<open>T_with\<close> puts others in
  their place: new references, or the values they stand for.\<close>

definition HookStatus_refs where
  "HookStatus_refs v = HookStatus_Conditions v"

definition HookStatus_with where
  "HookStatus_with v conditions =
    \<lparr>HookStatus_Conditions = conditions\<rparr>"

lemma HookStatus_struct [simp]:
  "HookStatus_refs (HookStatus_with v x) = x"
  "HookStatus_with (HookStatus_with v x) = HookStatus_with v"
  by (simp_all add: HookStatus_refs_def HookStatus_with_def fun_eq_iff split_beta)

lemma HookStatus_with_update: "HookStatus_with v conditions =
    v\<lparr>HookStatus_Conditions := conditions\<rparr>"
  by (cases v) (simp add: HookStatus_with_def)

definition Hook_refs where
  "Hook_refs v = (Hook_ObjectMeta v, Hook_Status v)"

definition Hook_with where
  "Hook_with v = (\<lambda>(meta, status).
    \<lparr>Hook_TypeMeta = Hook_TypeMeta v, Hook_ObjectMeta = meta, Hook_Spec = Hook_Spec v,
     Hook_Status = status\<rparr>)"

lemma Hook_struct [simp]:
  "Hook_refs (Hook_with v x) = x"
  "Hook_with (Hook_with v x) = Hook_with v"
  by (simp_all add: Hook_refs_def Hook_with_def fun_eq_iff split_beta)

lemma Hook_with_update: "Hook_with v (meta, status) =
    v\<lparr>Hook_ObjectMeta := meta, Hook_Status := status\<rparr>"
  by (cases v) (simp add: Hook_with_def)

definition HookList_refs where
  "HookList_refs v = (HookList_ListMeta v, HookList_Items v)"

definition HookList_with where
  "HookList_with v = (\<lambda>(meta, items).
    \<lparr>HookList_TypeMeta = HookList_TypeMeta v, HookList_ListMeta = meta, HookList_Items = items\<rparr>)"

lemma HookList_struct [simp]:
  "HookList_refs (HookList_with v x) = x"
  "HookList_with (HookList_with v x) = HookList_with v"
  by (simp_all add: HookList_refs_def HookList_with_def fun_eq_iff split_beta)

lemma HookList_with_update: "HookList_with v (meta, items) =
    v\<lparr>HookList_ListMeta := meta, HookList_Items := items\<rparr>"
  by (cases v) (simp add: HookList_with_def)

definition WarmMigrationStatus_refs where
  "WarmMigrationStatus_refs v = (WarmMigrationStatus_BaseImageUUIDs v, WarmMigrationStatus_LastPrecopyTime v,
    WarmMigrationStatus_DeltaImageUUIDs v)"

definition WarmMigrationStatus_with where
  "WarmMigrationStatus_with v = (\<lambda>(images, time, deltas).
    \<lparr>WarmMigrationStatus_PrecopyRounds = WarmMigrationStatus_PrecopyRounds v,
     WarmMigrationStatus_CumulativeBytes = WarmMigrationStatus_CumulativeBytes v,
     WarmMigrationStatus_LastDeltaBytes = WarmMigrationStatus_LastDeltaBytes v,
     WarmMigrationStatus_BaseSnapshotUUID = WarmMigrationStatus_BaseSnapshotUUID v,
     WarmMigrationStatus_BaseImageUUIDs = images, WarmMigrationStatus_LastPrecopyTime = time,
     WarmMigrationStatus_DeltaSnapshotUUID = WarmMigrationStatus_DeltaSnapshotUUID v,
     WarmMigrationStatus_DeltaImageUUIDs = deltas,
     WarmMigrationStatus_DeltaPodName = WarmMigrationStatus_DeltaPodName v,
     WarmMigrationStatus_DeltaDiskIndex = WarmMigrationStatus_DeltaDiskIndex v,
     WarmMigrationStatus_DeltaBytes = WarmMigrationStatus_DeltaBytes v\<rparr>)"

lemma WarmMigrationStatus_struct [simp]:
  "WarmMigrationStatus_refs (WarmMigrationStatus_with v x) = x"
  "WarmMigrationStatus_with (WarmMigrationStatus_with v x) = WarmMigrationStatus_with v"
  by (simp_all add: WarmMigrationStatus_refs_def WarmMigrationStatus_with_def fun_eq_iff split_beta)

lemma WarmMigrationStatus_with_update: "WarmMigrationStatus_with v (images, time, deltas) =
    v\<lparr>WarmMigrationStatus_BaseImageUUIDs := images, WarmMigrationStatus_LastPrecopyTime := time,
     WarmMigrationStatus_DeltaImageUUIDs := deltas\<rparr>"
  by (cases v) (simp add: WarmMigrationStatus_with_def)

definition VMMigrationStatus_refs where
  "VMMigrationStatus_refs v = (VMMigrationStatus_Started v, VMMigrationStatus_Completed v, VMMigrationStatus_ImageUUIDs v,
    VMMigrationStatus_DataVolumeNames v, VMMigrationStatus_Warm v)"

definition VMMigrationStatus_with where
  "VMMigrationStatus_with v = (\<lambda>(started, completed, images, names, warm).
    \<lparr>VMMigrationStatus_ID = VMMigrationStatus_ID v,
     VMMigrationStatus_Name = VMMigrationStatus_Name v,
     VMMigrationStatus_Phase = VMMigrationStatus_Phase v, VMMigrationStatus_Started = started,
     VMMigrationStatus_Completed = completed,
     VMMigrationStatus_Error = VMMigrationStatus_Error v,
     VMMigrationStatus_SnapshotUUID = VMMigrationStatus_SnapshotUUID v,
     VMMigrationStatus_ImageUUIDs = images,
     VMMigrationStatus_TaskUUID = VMMigrationStatus_TaskUUID v,
     VMMigrationStatus_DataVolumeNames = names,
     VMMigrationStatus_OriginalPowerState = VMMigrationStatus_OriginalPowerState v,
     VMMigrationStatus_Warm = warm\<rparr>)"

lemma VMMigrationStatus_struct [simp]:
  "VMMigrationStatus_refs (VMMigrationStatus_with v x) = x"
  "VMMigrationStatus_with (VMMigrationStatus_with v x) = VMMigrationStatus_with v"
  by (simp_all add: VMMigrationStatus_refs_def VMMigrationStatus_with_def fun_eq_iff split_beta)

lemma VMMigrationStatus_with_update:
    "VMMigrationStatus_with v (started, completed, images, names, warm) =
    v\<lparr>VMMigrationStatus_Started := started, VMMigrationStatus_Completed := completed,
     VMMigrationStatus_ImageUUIDs := images, VMMigrationStatus_DataVolumeNames := names,
     VMMigrationStatus_Warm := warm\<rparr>"
  by (cases v) (simp add: VMMigrationStatus_with_def)

definition MigrationSpec_refs where
  "MigrationSpec_refs v = (MigrationSpec_Cutover v, MigrationSpec_Cancel v)"

definition MigrationSpec_with where
  "MigrationSpec_with v = (\<lambda>(cutover, cancel).
    \<lparr>MigrationSpec_PlanRef = MigrationSpec_PlanRef v, MigrationSpec_Cutover = cutover,
     MigrationSpec_Cancel = cancel\<rparr>)"

lemma MigrationSpec_struct [simp]:
  "MigrationSpec_refs (MigrationSpec_with v x) = x"
  "MigrationSpec_with (MigrationSpec_with v x) = MigrationSpec_with v"
  by (simp_all add: MigrationSpec_refs_def MigrationSpec_with_def fun_eq_iff split_beta)

lemma MigrationSpec_with_update: "MigrationSpec_with v (cutover, cancel) =
    v\<lparr>MigrationSpec_Cutover := cutover, MigrationSpec_Cancel := cancel\<rparr>"
  by (cases v) (simp add: MigrationSpec_with_def)

definition MigrationStatus_refs where
  "MigrationStatus_refs v = (MigrationStatus_Started v, MigrationStatus_Completed v, MigrationStatus_VMs v,
    MigrationStatus_Conditions v)"

definition MigrationStatus_with where
  "MigrationStatus_with v = (\<lambda>(started, completed, vms, conditions).
    \<lparr>MigrationStatus_Phase = MigrationStatus_Phase v, MigrationStatus_Started = started,
     MigrationStatus_Completed = completed, MigrationStatus_VMs = vms,
     MigrationStatus_Conditions = conditions\<rparr>)"

lemma MigrationStatus_struct [simp]:
  "MigrationStatus_refs (MigrationStatus_with v x) = x"
  "MigrationStatus_with (MigrationStatus_with v x) = MigrationStatus_with v"
  by (simp_all add: MigrationStatus_refs_def MigrationStatus_with_def fun_eq_iff split_beta)

lemma MigrationStatus_with_update: "MigrationStatus_with v (started, completed, vms, conditions) =
    v\<lparr>MigrationStatus_Started := started, MigrationStatus_Completed := completed,
     MigrationStatus_VMs := vms, MigrationStatus_Conditions := conditions\<rparr>"
  by (cases v) (simp add: MigrationStatus_with_def)

definition Migration_refs where
  "Migration_refs v = (Migration_ObjectMeta v, Migration_Spec v, Migration_Status v)"

definition Migration_with where
  "Migration_with v = (\<lambda>(meta, spec, status).
    \<lparr>Migration_TypeMeta = Migration_TypeMeta v, Migration_ObjectMeta = meta,
     Migration_Spec = spec, Migration_Status = status\<rparr>)"

lemma Migration_struct [simp]:
  "Migration_refs (Migration_with v x) = x"
  "Migration_with (Migration_with v x) = Migration_with v"
  by (simp_all add: Migration_refs_def Migration_with_def fun_eq_iff split_beta)

lemma Migration_with_update: "Migration_with v (meta, spec, status) =
    v\<lparr>Migration_ObjectMeta := meta, Migration_Spec := spec, Migration_Status := status\<rparr>"
  by (cases v) (simp add: Migration_with_def)

definition MigrationList_refs where
  "MigrationList_refs v = (MigrationList_ListMeta v, MigrationList_Items v)"

definition MigrationList_with where
  "MigrationList_with v = (\<lambda>(meta, items).
    \<lparr>MigrationList_TypeMeta = MigrationList_TypeMeta v, MigrationList_ListMeta = meta,
     MigrationList_Items = items\<rparr>)"

lemma MigrationList_struct [simp]:
  "MigrationList_refs (MigrationList_with v x) = x"
  "MigrationList_with (MigrationList_with v x) = MigrationList_with v"
  by (simp_all add: MigrationList_refs_def MigrationList_with_def fun_eq_iff split_beta)

lemma MigrationList_with_update: "MigrationList_with v (meta, items) =
    v\<lparr>MigrationList_ListMeta := meta, MigrationList_Items := items\<rparr>"
  by (cases v) (simp add: MigrationList_with_def)

definition PlanVM_refs where
  "PlanVM_refs v = PlanVM_Hooks v"

definition PlanVM_with where
  "PlanVM_with v hooks =
    \<lparr>PlanVM_ID = PlanVM_ID v, PlanVM_Name = PlanVM_Name v, PlanVM_Hooks = hooks\<rparr>"

lemma PlanVM_struct [simp]:
  "PlanVM_refs (PlanVM_with v x) = x"
  "PlanVM_with (PlanVM_with v x) = PlanVM_with v"
  by (simp_all add: PlanVM_refs_def PlanVM_with_def fun_eq_iff split_beta)

lemma PlanVM_with_update: "PlanVM_with v hooks =
    v\<lparr>PlanVM_Hooks := hooks\<rparr>"
  by (cases v) (simp add: PlanVM_with_def)

definition VMValidationStatus_refs where
  "VMValidationStatus_refs v = VMValidationStatus_Concerns v"

definition VMValidationStatus_with where
  "VMValidationStatus_with v concerns =
    \<lparr>VMValidationStatus_ID = VMValidationStatus_ID v,
     VMValidationStatus_Name = VMValidationStatus_Name v, VMValidationStatus_Concerns = concerns\<rparr>"

lemma VMValidationStatus_struct [simp]:
  "VMValidationStatus_refs (VMValidationStatus_with v x) = x"
  "VMValidationStatus_with (VMValidationStatus_with v x) = VMValidationStatus_with v"
  by (simp_all add: VMValidationStatus_refs_def VMValidationStatus_with_def fun_eq_iff split_beta)

lemma VMValidationStatus_with_update: "VMValidationStatus_with v concerns =
    v\<lparr>VMValidationStatus_Concerns := concerns\<rparr>"
  by (cases v) (simp add: VMValidationStatus_with_def)

definition MigrationPlanSpec_refs where
  "MigrationPlanSpec_refs v = (MigrationPlanSpec_VMs v, MigrationPlanSpec_WarmConfig v)"

definition MigrationPlanSpec_with where
  "MigrationPlanSpec_with v = (\<lambda>(vms, config).
    \<lparr>MigrationPlanSpec_ProviderRef = MigrationPlanSpec_ProviderRef v,
     MigrationPlanSpec_TargetNamespace = MigrationPlanSpec_TargetNamespace v,
     MigrationPlanSpec_Type = MigrationPlanSpec_Type v,
     MigrationPlanSpec_NetworkMapRef = MigrationPlanSpec_NetworkMapRef v,
     MigrationPlanSpec_StorageMapRef = MigrationPlanSpec_StorageMapRef v,
     MigrationPlanSpec_VMs = vms,
     MigrationPlanSpec_MaxInFlight = MigrationPlanSpec_MaxInFlight v,
     MigrationPlanSpec_TargetPowerState = MigrationPlanSpec_TargetPowerState v,
     MigrationPlanSpec_WarmConfig = config\<rparr>)"

lemma MigrationPlanSpec_struct [simp]:
  "MigrationPlanSpec_refs (MigrationPlanSpec_with v x) = x"
  "MigrationPlanSpec_with (MigrationPlanSpec_with v x) = MigrationPlanSpec_with v"
  by (simp_all add: MigrationPlanSpec_refs_def MigrationPlanSpec_with_def fun_eq_iff split_beta)

lemma MigrationPlanSpec_with_update: "MigrationPlanSpec_with v (vms, config) =
    v\<lparr>MigrationPlanSpec_VMs := vms, MigrationPlanSpec_WarmConfig := config\<rparr>"
  by (cases v) (simp add: MigrationPlanSpec_with_def)

definition MigrationPlanStatus_refs where
  "MigrationPlanStatus_refs v = (MigrationPlanStatus_VMs v, MigrationPlanStatus_Conditions v)"

definition MigrationPlanStatus_with where
  "MigrationPlanStatus_with v = (\<lambda>(vms, conditions).
    \<lparr>MigrationPlanStatus_Phase = MigrationPlanStatus_Phase v, MigrationPlanStatus_VMs = vms,
     MigrationPlanStatus_Conditions = conditions\<rparr>)"

lemma MigrationPlanStatus_struct [simp]:
  "MigrationPlanStatus_refs (MigrationPlanStatus_with v x) = x"
  "MigrationPlanStatus_with (MigrationPlanStatus_with v x) = MigrationPlanStatus_with v"
  by (simp_all add: MigrationPlanStatus_refs_def MigrationPlanStatus_with_def fun_eq_iff split_beta)

lemma MigrationPlanStatus_with_update: "MigrationPlanStatus_with v (vms, conditions) =
    v\<lparr>MigrationPlanStatus_VMs := vms, MigrationPlanStatus_Conditions := conditions\<rparr>"
  by (cases v) (simp add: MigrationPlanStatus_with_def)

definition MigrationPlan_refs where
  "MigrationPlan_refs v = (MigrationPlan_ObjectMeta v, MigrationPlan_Spec v, MigrationPlan_Status v)"

definition MigrationPlan_with where
  "MigrationPlan_with v = (\<lambda>(meta, spec, status).
    \<lparr>MigrationPlan_TypeMeta = MigrationPlan_TypeMeta v, MigrationPlan_ObjectMeta = meta,
     MigrationPlan_Spec = spec, MigrationPlan_Status = status\<rparr>)"

lemma MigrationPlan_struct [simp]:
  "MigrationPlan_refs (MigrationPlan_with v x) = x"
  "MigrationPlan_with (MigrationPlan_with v x) = MigrationPlan_with v"
  by (simp_all add: MigrationPlan_refs_def MigrationPlan_with_def fun_eq_iff split_beta)

lemma MigrationPlan_with_update: "MigrationPlan_with v (meta, spec, status) =
    v\<lparr>MigrationPlan_ObjectMeta := meta, MigrationPlan_Spec := spec, MigrationPlan_Status := status\<rparr>"
  by (cases v) (simp add: MigrationPlan_with_def)

definition MigrationPlanList_refs where
  "MigrationPlanList_refs v = (MigrationPlanList_ListMeta v, MigrationPlanList_Items v)"

definition MigrationPlanList_with where
  "MigrationPlanList_with v = (\<lambda>(meta, items).
    \<lparr>MigrationPlanList_TypeMeta = MigrationPlanList_TypeMeta v,
     MigrationPlanList_ListMeta = meta, MigrationPlanList_Items = items\<rparr>)"

lemma MigrationPlanList_struct [simp]:
  "MigrationPlanList_refs (MigrationPlanList_with v x) = x"
  "MigrationPlanList_with (MigrationPlanList_with v x) = MigrationPlanList_with v"
  by (simp_all add: MigrationPlanList_refs_def MigrationPlanList_with_def fun_eq_iff split_beta)

lemma MigrationPlanList_with_update: "MigrationPlanList_with v (meta, items) =
    v\<lparr>MigrationPlanList_ListMeta := meta, MigrationPlanList_Items := items\<rparr>"
  by (cases v) (simp add: MigrationPlanList_with_def)

definition NetworkMapSpec_refs where
  "NetworkMapSpec_refs v = NetworkMapSpec_Map v"

definition NetworkMapSpec_with where
  "NetworkMapSpec_with v pairs =
    \<lparr>NetworkMapSpec_ProviderRef = NetworkMapSpec_ProviderRef v, NetworkMapSpec_Map = pairs\<rparr>"

lemma NetworkMapSpec_struct [simp]:
  "NetworkMapSpec_refs (NetworkMapSpec_with v x) = x"
  "NetworkMapSpec_with (NetworkMapSpec_with v x) = NetworkMapSpec_with v"
  by (simp_all add: NetworkMapSpec_refs_def NetworkMapSpec_with_def fun_eq_iff split_beta)

lemma NetworkMapSpec_with_update: "NetworkMapSpec_with v pairs =
    v\<lparr>NetworkMapSpec_Map := pairs\<rparr>"
  by (cases v) (simp add: NetworkMapSpec_with_def)

definition NetworkMap_refs where
  "NetworkMap_refs v = (NetworkMap_ObjectMeta v, NetworkMap_Spec v)"

definition NetworkMap_with where
  "NetworkMap_with v = (\<lambda>(meta, spec).
    \<lparr>NetworkMap_TypeMeta = NetworkMap_TypeMeta v, NetworkMap_ObjectMeta = meta,
     NetworkMap_Spec = spec\<rparr>)"

lemma NetworkMap_struct [simp]:
  "NetworkMap_refs (NetworkMap_with v x) = x"
  "NetworkMap_with (NetworkMap_with v x) = NetworkMap_with v"
  by (simp_all add: NetworkMap_refs_def NetworkMap_with_def fun_eq_iff split_beta)

lemma NetworkMap_with_update: "NetworkMap_with v (meta, spec) =
    v\<lparr>NetworkMap_ObjectMeta := meta, NetworkMap_Spec := spec\<rparr>"
  by (cases v) (simp add: NetworkMap_with_def)

definition NetworkMapList_refs where
  "NetworkMapList_refs v = (NetworkMapList_ListMeta v, NetworkMapList_Items v)"

definition NetworkMapList_with where
  "NetworkMapList_with v = (\<lambda>(meta, items).
    \<lparr>NetworkMapList_TypeMeta = NetworkMapList_TypeMeta v, NetworkMapList_ListMeta = meta,
     NetworkMapList_Items = items\<rparr>)"

lemma NetworkMapList_struct [simp]:
  "NetworkMapList_refs (NetworkMapList_with v x) = x"
  "NetworkMapList_with (NetworkMapList_with v x) = NetworkMapList_with v"
  by (simp_all add: NetworkMapList_refs_def NetworkMapList_with_def fun_eq_iff split_beta)

lemma NetworkMapList_with_update: "NetworkMapList_with v (meta, items) =
    v\<lparr>NetworkMapList_ListMeta := meta, NetworkMapList_Items := items\<rparr>"
  by (cases v) (simp add: NetworkMapList_with_def)

definition NutanixProviderStatus_refs where
  "NutanixProviderStatus_refs v = NutanixProviderStatus_Conditions v"

definition NutanixProviderStatus_with where
  "NutanixProviderStatus_with v conditions =
    \<lparr>NutanixProviderStatus_Phase = NutanixProviderStatus_Phase v,
     NutanixProviderStatus_VMCount = NutanixProviderStatus_VMCount v,
     NutanixProviderStatus_Conditions = conditions\<rparr>"

lemma NutanixProviderStatus_struct [simp]:
  "NutanixProviderStatus_refs (NutanixProviderStatus_with v x) = x"
  "NutanixProviderStatus_with (NutanixProviderStatus_with v x) = NutanixProviderStatus_with v"
  by (simp_all add: NutanixProviderStatus_refs_def NutanixProviderStatus_with_def fun_eq_iff split_beta)

lemma NutanixProviderStatus_with_update: "NutanixProviderStatus_with v conditions =
    v\<lparr>NutanixProviderStatus_Conditions := conditions\<rparr>"
  by (cases v) (simp add: NutanixProviderStatus_with_def)

definition NutanixProvider_refs where
  "NutanixProvider_refs v = (NutanixProvider_ObjectMeta v, NutanixProvider_Status v)"

definition NutanixProvider_with where
  "NutanixProvider_with v = (\<lambda>(meta, status).
    \<lparr>NutanixProvider_TypeMeta = NutanixProvider_TypeMeta v, NutanixProvider_ObjectMeta = meta,
     NutanixProvider_Spec = NutanixProvider_Spec v, NutanixProvider_Status = status\<rparr>)"

lemma NutanixProvider_struct [simp]:
  "NutanixProvider_refs (NutanixProvider_with v x) = x"
  "NutanixProvider_with (NutanixProvider_with v x) = NutanixProvider_with v"
  by (simp_all add: NutanixProvider_refs_def NutanixProvider_with_def fun_eq_iff split_beta)

lemma NutanixProvider_with_update: "NutanixProvider_with v (meta, status) =
    v\<lparr>NutanixProvider_ObjectMeta := meta, NutanixProvider_Status := status\<rparr>"
  by (cases v) (simp add: NutanixProvider_with_def)

definition NutanixProviderList_refs where
  "NutanixProviderList_refs v = (NutanixProviderList_ListMeta v, NutanixProviderList_Items v)"

definition NutanixProviderList_with where
  "NutanixProviderList_with v = (\<lambda>(meta, items).
    \<lparr>NutanixProviderList_TypeMeta = NutanixProviderList_TypeMeta v,
     NutanixProviderList_ListMeta = meta, NutanixProviderList_Items = items\<rparr>)"

lemma NutanixProviderList_struct [simp]:
  "NutanixProviderList_refs (NutanixProviderList_with v x) = x"
  "NutanixProviderList_with (NutanixProviderList_with v x) = NutanixProviderList_with v"
  by (simp_all add: NutanixProviderList_refs_def NutanixProviderList_with_def fun_eq_iff split_beta)

lemma NutanixProviderList_with_update: "NutanixProviderList_with v (meta, items) =
    v\<lparr>NutanixProviderList_ListMeta := meta, NutanixProviderList_Items := items\<rparr>"
  by (cases v) (simp add: NutanixProviderList_with_def)

definition StorageMapSpec_refs where
  "StorageMapSpec_refs v = StorageMapSpec_Map v"

definition StorageMapSpec_with where
  "StorageMapSpec_with v pairs =
    \<lparr>StorageMapSpec_ProviderRef = StorageMapSpec_ProviderRef v, StorageMapSpec_Map = pairs\<rparr>"

lemma StorageMapSpec_struct [simp]:
  "StorageMapSpec_refs (StorageMapSpec_with v x) = x"
  "StorageMapSpec_with (StorageMapSpec_with v x) = StorageMapSpec_with v"
  by (simp_all add: StorageMapSpec_refs_def StorageMapSpec_with_def fun_eq_iff split_beta)

lemma StorageMapSpec_with_update: "StorageMapSpec_with v pairs =
    v\<lparr>StorageMapSpec_Map := pairs\<rparr>"
  by (cases v) (simp add: StorageMapSpec_with_def)

definition StorageMap_refs where
  "StorageMap_refs v = (StorageMap_ObjectMeta v, StorageMap_Spec v)"

definition StorageMap_with where
  "StorageMap_with v = (\<lambda>(meta, spec).
    \<lparr>StorageMap_TypeMeta = StorageMap_TypeMeta v, StorageMap_ObjectMeta = meta,
     StorageMap_Spec = spec\<rparr>)"

lemma StorageMap_struct [simp]:
  "StorageMap_refs (StorageMap_with v x) = x"
  "StorageMap_with (StorageMap_with v x) = StorageMap_with v"
  by (simp_all add: StorageMap_refs_def StorageMap_with_def fun_eq_iff split_beta)

lemma StorageMap_with_update: "StorageMap_with v (meta, spec) =
    v\<lparr>StorageMap_ObjectMeta := meta, StorageMap_Spec := spec\<rparr>"
  by (cases v) (simp add: StorageMap_with_def)

definition StorageMapList_refs where
  "StorageMapList_refs v = (StorageMapList_ListMeta v, StorageMapList_Items v)"

definition StorageMapList_with where
  "StorageMapList_with v = (\<lambda>(meta, items).
    \<lparr>StorageMapList_TypeMeta = StorageMapList_TypeMeta v, StorageMapList_ListMeta = meta,
     StorageMapList_Items = items\<rparr>)"

lemma StorageMapList_struct [simp]:
  "StorageMapList_refs (StorageMapList_with v x) = x"
  "StorageMapList_with (StorageMapList_with v x) = StorageMapList_with v"
  by (simp_all add: StorageMapList_refs_def StorageMapList_with_def fun_eq_iff split_beta)

lemma StorageMapList_with_update: "StorageMapList_with v (meta, items) =
    v\<lparr>StorageMapList_ListMeta := meta, StorageMapList_Items := items\<rparr>"
  by (cases v) (simp add: StorageMapList_with_def)

section \<open>Readers\<close>

definition read_HookStatus ::
    "('x, 'y) metav1_lib \<Rightarrow> (HookStatus_mem, 'y HookStatus_val, 'x block) reader" where
  "read_HookStatus X h v = do {
     (t, F) \<leftarrow> read_slice (Condition_type X) (read_Condition X) h (HookStatus_refs v);
     Some (HookStatus_with v t, F) }"

definition read_Hook :: "('x, 'y) metav1_lib \<Rightarrow> ('x Hook_mem, 'y Hook_val, 'x block) reader" where
  "read_Hook X h v = do {
     (t, F) \<leftarrow> (read_both (read_ObjectMeta X)
        (read_HookStatus X)) h (Hook_refs v);
     Some (Hook_with v t, F) }"

definition read_HookList ::
    "('x, 'y) metav1_lib \<Rightarrow> ('x HookList_mem, 'y HookList_val, 'x block) reader" where
  "read_HookList X h v = do {
     (t, F) \<leftarrow> (read_both (read_ListMeta X)
        (read_slice (Hook_type X) (read_Hook X))) h (HookList_refs v);
     Some (HookList_with v t, F) }"

definition read_WarmMigrationStatus ::
    "('x, 'y) metav1_lib \<Rightarrow> (WarmMigrationStatus_mem, 'y WarmMigrationStatus_val, 'x block) reader" where
  "read_WarmMigrationStatus X h v = do {
     (t, F) \<leftarrow> (read_both (read_slice String_type read_flat)
        (read_both (read_ptr (Time_type X) (read_Time X))
        (read_slice String_type read_flat))) h (WarmMigrationStatus_refs v);
     Some (WarmMigrationStatus_with v t, F) }"

definition read_VMMigrationStatus ::
    "('x, 'y) metav1_lib \<Rightarrow> (VMMigrationStatus_mem, 'y VMMigrationStatus_val, 'x block) reader" where
  "read_VMMigrationStatus X h v = do {
     (t, F) \<leftarrow> (read_both (read_ptr (Time_type X) (read_Time X))
        (read_both (read_ptr (Time_type X) (read_Time X))
        (read_both (read_slice String_type read_flat)
        (read_both (read_slice String_type read_flat)
        (read_ptr WarmMigrationStatus_type (read_WarmMigrationStatus X)))))) h (VMMigrationStatus_refs v);
     Some (VMMigrationStatus_with v t, F) }"

definition read_MigrationSpec ::
    "('x, 'y) metav1_lib \<Rightarrow> (MigrationSpec_mem, 'y MigrationSpec_val, 'x block) reader" where
  "read_MigrationSpec X h v = do {
     (t, F) \<leftarrow> (read_both (read_ptr (Time_type X) (read_Time X))
        (read_slice String_type read_flat)) h (MigrationSpec_refs v);
     Some (MigrationSpec_with v t, F) }"

definition read_MigrationStatus ::
    "('x, 'y) metav1_lib \<Rightarrow> (MigrationStatus_mem, 'y MigrationStatus_val, 'x block) reader" where
  "read_MigrationStatus X h v = do {
     (t, F) \<leftarrow> (read_both (read_ptr (Time_type X) (read_Time X))
        (read_both (read_ptr (Time_type X) (read_Time X))
        (read_both (read_slice VMMigrationStatus_type (read_VMMigrationStatus X))
        (read_slice (Condition_type X) (read_Condition X))))) h (MigrationStatus_refs v);
     Some (MigrationStatus_with v t, F) }"

definition read_Migration ::
    "('x, 'y) metav1_lib \<Rightarrow> ('x Migration_mem, 'y Migration_val, 'x block) reader" where
  "read_Migration X h v = do {
     (t, F) \<leftarrow> (read_both (read_ObjectMeta X)
        (read_both (read_MigrationSpec X)
        (read_MigrationStatus X))) h (Migration_refs v);
     Some (Migration_with v t, F) }"

definition read_MigrationList ::
    "('x, 'y) metav1_lib \<Rightarrow> ('x MigrationList_mem, 'y MigrationList_val, 'x block) reader" where
  "read_MigrationList X h v = do {
     (t, F) \<leftarrow> (read_both (read_ListMeta X)
        (read_slice (Migration_type X) (read_Migration X))) h (MigrationList_refs v);
     Some (MigrationList_with v t, F) }"

definition read_PlanVM :: "(PlanVM_mem, PlanVM_val, 'x block) reader" where
  "read_PlanVM h v = do {
     (t, F) \<leftarrow> read_slice PlanHookRef_type read_flat h (PlanVM_refs v);
     Some (PlanVM_with v t, F) }"

definition read_VMValidationStatus ::
    "(VMValidationStatus_mem, VMValidationStatus_val, 'x block) reader" where
  "read_VMValidationStatus h v = do {
     (t, F) \<leftarrow> read_slice Concern_type read_flat h (VMValidationStatus_refs v);
     Some (VMValidationStatus_with v t, F) }"

definition read_MigrationPlanSpec ::
    "(MigrationPlanSpec_mem, MigrationPlanSpec_val, 'x block) reader" where
  "read_MigrationPlanSpec h v = do {
     (t, F) \<leftarrow> (read_both (read_slice PlanVM_type read_PlanVM)
        (read_ptr WarmConfig_type read_flat)) h (MigrationPlanSpec_refs v);
     Some (MigrationPlanSpec_with v t, F) }"

definition read_MigrationPlanStatus ::
    "('x, 'y) metav1_lib \<Rightarrow> (MigrationPlanStatus_mem, 'y MigrationPlanStatus_val, 'x block) reader" where
  "read_MigrationPlanStatus X h v = do {
     (t, F) \<leftarrow> (read_both (read_slice VMValidationStatus_type read_VMValidationStatus)
        (read_slice (Condition_type X) (read_Condition X))) h (MigrationPlanStatus_refs v);
     Some (MigrationPlanStatus_with v t, F) }"

definition read_MigrationPlan ::
    "('x, 'y) metav1_lib \<Rightarrow> ('x MigrationPlan_mem, 'y MigrationPlan_val, 'x block) reader" where
  "read_MigrationPlan X h v = do {
     (t, F) \<leftarrow> (read_both (read_ObjectMeta X)
        (read_both (read_MigrationPlanSpec)
        (read_MigrationPlanStatus X))) h (MigrationPlan_refs v);
     Some (MigrationPlan_with v t, F) }"

definition read_MigrationPlanList ::
    "('x, 'y) metav1_lib \<Rightarrow> ('x MigrationPlanList_mem, 'y MigrationPlanList_val, 'x block) reader" where
  "read_MigrationPlanList X h v = do {
     (t, F) \<leftarrow> (read_both (read_ListMeta X)
        (read_slice (MigrationPlan_type X) (read_MigrationPlan X))) h (MigrationPlanList_refs v);
     Some (MigrationPlanList_with v t, F) }"

definition read_NetworkMapSpec :: "(NetworkMapSpec_mem, NetworkMapSpec_val, 'x block) reader" where
  "read_NetworkMapSpec h v = do {
     (t, F) \<leftarrow> read_slice NetworkPair_type read_flat h (NetworkMapSpec_refs v);
     Some (NetworkMapSpec_with v t, F) }"

definition read_NetworkMap ::
    "('x, 'y) metav1_lib \<Rightarrow> ('x NetworkMap_mem, 'y NetworkMap_val, 'x block) reader" where
  "read_NetworkMap X h v = do {
     (t, F) \<leftarrow> (read_both (read_ObjectMeta X)
        (read_NetworkMapSpec)) h (NetworkMap_refs v);
     Some (NetworkMap_with v t, F) }"

definition read_NetworkMapList ::
    "('x, 'y) metav1_lib \<Rightarrow> ('x NetworkMapList_mem, 'y NetworkMapList_val, 'x block) reader" where
  "read_NetworkMapList X h v = do {
     (t, F) \<leftarrow> (read_both (read_ListMeta X)
        (read_slice (NetworkMap_type X) (read_NetworkMap X))) h (NetworkMapList_refs v);
     Some (NetworkMapList_with v t, F) }"

definition read_NutanixProviderStatus ::
    "('x, 'y) metav1_lib \<Rightarrow> (NutanixProviderStatus_mem, 'y NutanixProviderStatus_val, 'x block) reader" where
  "read_NutanixProviderStatus X h v = do {
     (t, F) \<leftarrow> read_slice (Condition_type X) (read_Condition X) h (NutanixProviderStatus_refs v);
     Some (NutanixProviderStatus_with v t, F) }"

definition read_NutanixProvider ::
    "('x, 'y) metav1_lib \<Rightarrow> ('x NutanixProvider_mem, 'y NutanixProvider_val, 'x block) reader" where
  "read_NutanixProvider X h v = do {
     (t, F) \<leftarrow> (read_both (read_ObjectMeta X)
        (read_NutanixProviderStatus X)) h (NutanixProvider_refs v);
     Some (NutanixProvider_with v t, F) }"

definition read_NutanixProviderList ::
    "('x, 'y) metav1_lib \<Rightarrow> ('x NutanixProviderList_mem, 'y NutanixProviderList_val, 'x block) reader" where
  "read_NutanixProviderList X h v = do {
     (t, F) \<leftarrow> (read_both (read_ListMeta X)
        (read_slice (NutanixProvider_type X) (read_NutanixProvider X))) h (NutanixProviderList_refs v);
     Some (NutanixProviderList_with v t, F) }"

definition read_StorageMapSpec :: "(StorageMapSpec_mem, StorageMapSpec_val, 'x block) reader" where
  "read_StorageMapSpec h v = do {
     (t, F) \<leftarrow> read_slice StoragePair_type read_flat h (StorageMapSpec_refs v);
     Some (StorageMapSpec_with v t, F) }"

definition read_StorageMap ::
    "('x, 'y) metav1_lib \<Rightarrow> ('x StorageMap_mem, 'y StorageMap_val, 'x block) reader" where
  "read_StorageMap X h v = do {
     (t, F) \<leftarrow> (read_both (read_ObjectMeta X)
        (read_StorageMapSpec)) h (StorageMap_refs v);
     Some (StorageMap_with v t, F) }"

definition read_StorageMapList ::
    "('x, 'y) metav1_lib \<Rightarrow> ('x StorageMapList_mem, 'y StorageMapList_val, 'x block) reader" where
  "read_StorageMapList X h v = do {
     (t, F) \<leftarrow> (read_both (read_ListMeta X)
        (read_slice (StorageMap_type X) (read_StorageMap X))) h (StorageMapList_refs v);
     Some (StorageMapList_with v t, F) }"

end
