(* ===== verification/Deep_Copy.thy ===== *)
theory Deep_Copy
  imports Api_Structs
begin

text \<open>
  The generated deep copies of \<^verbatim>\<open>api/v1alpha1/zz_generated.deepcopy.go\<close>: for each API type the
  method \<^verbatim>\<open>DeepCopyInto\<close> statement by statement on the memory of \<^verbatim>\<open>Go_Heap\<close>, its method
  \<^verbatim>\<open>DeepCopy\<close>, and for the twelve registered kinds \<^verbatim>\<open>DeepCopyObject\<close>. The client of
  controller-runtime hands out objects from a shared cache through these methods, so the reconcilers
  may change what they read only because the copies share no memory with the original.

  \<^verbatim>\<open>metav1\<close> is the contract of the library's own copy functions, under which every copy of this file is
  shown to be a deep copy (\<^verbatim>\<open>deep_copier\<close>), from the innermost struct outwards.
\<close>

section \<open>Copy methods\<close>

text \<open>\<^verbatim>\<open>if in.F != nil { *out = (*in).DeepCopy() }\<close> for a field of type \<^verbatim>\<open>*metav1.Time\<close>.\<close>

definition time_field :: "('x, 'z) metav1_api_scheme \<Rightarrow> (ptr, 'x block) copy_into" where
  "time_field X p h = (if p = None then Some (None, h) else Time_DeepCopy X p h)"

text \<open>A \<^verbatim>\<open>runtime.Object\<close>: the nil interface, or a pointer together with its dynamic type. An interface
  that holds a nil pointer is a third thing, and not nil.\<close>

datatype runtime_Object = NilObject | Object string ptr

definition Concern_DeepCopyInto :: "(Go_Concern, 'x block) copy_into" where
  "Concern_DeepCopyInto v h = assign v h"

definition Concern_DeepCopy :: "(ptr, 'x block) copy_into" where
  "Concern_DeepCopy = new_copy Concern_type Concern_DeepCopyInto"

definition HookSpec_DeepCopyInto :: "(Go_HookSpec, 'x block) copy_into" where
  "HookSpec_DeepCopyInto v h = assign v h"

definition HookSpec_DeepCopy :: "(ptr, 'x block) copy_into" where
  "HookSpec_DeepCopy = new_copy HookSpec_type HookSpec_DeepCopyInto"

definition HookStatus_DeepCopyInto ::
    "('x, 'z) metav1_api_scheme \<Rightarrow> (HookStatus_mem, 'x block) copy_into" where
  "HookStatus_DeepCopyInto X v h = do {
     let out = v;
     (conditions, h) \<leftarrow> copy_each (Condition_type X) (Condition_DeepCopyInto X)
       (HookStatus_Conditions v) h;
     let out = out\<lparr>HookStatus_Conditions := conditions\<rparr>;
     Some (out, h) }"

definition HookStatus_DeepCopy :: "('x, 'z) metav1_api_scheme \<Rightarrow> (ptr, 'x block) copy_into" where
  "HookStatus_DeepCopy X = new_copy HookStatus_type (HookStatus_DeepCopyInto X)"

definition Hook_DeepCopyInto ::
    "('x, 'z) metav1_api_scheme \<Rightarrow> ('x Hook_mem, 'x block) copy_into" where
  "Hook_DeepCopyInto X v h = do {
     let out = v;
     let out = out\<lparr>Hook_TypeMeta := Hook_TypeMeta v\<rparr>;
     (meta, h) \<leftarrow> ObjectMeta_DeepCopyInto X (Hook_ObjectMeta v) h;
     let out = out\<lparr>Hook_ObjectMeta := meta\<rparr>;
     let out = out\<lparr>Hook_Spec := Hook_Spec v\<rparr>;
     (status, h) \<leftarrow> HookStatus_DeepCopyInto X (Hook_Status v) h;
     let out = out\<lparr>Hook_Status := status\<rparr>;
     Some (out, h) }"

definition Hook_DeepCopy :: "('x, 'z) metav1_api_scheme \<Rightarrow> (ptr, 'x block) copy_into" where
  "Hook_DeepCopy X = new_copy (Hook_type X) (Hook_DeepCopyInto X)"

definition Hook_DeepCopyObject ::
    "('x, 'z) metav1_api_scheme \<Rightarrow> ptr \<Rightarrow> 'x block list \<Rightarrow> (runtime_Object \<times> 'x block list) option" where
  "Hook_DeepCopyObject X p h = do {
     (c, h) \<leftarrow> Hook_DeepCopy X p h;
     if c \<noteq> None then Some (Object ''Hook'' c, h) else Some (NilObject, h) }"

definition HookList_DeepCopyInto ::
    "('x, 'z) metav1_api_scheme \<Rightarrow> ('x HookList_mem, 'x block) copy_into" where
  "HookList_DeepCopyInto X v h = do {
     let out = v;
     let out = out\<lparr>HookList_TypeMeta := HookList_TypeMeta v\<rparr>;
     (meta, h) \<leftarrow> ListMeta_DeepCopyInto X (HookList_ListMeta v) h;
     let out = out\<lparr>HookList_ListMeta := meta\<rparr>;
     (items, h) \<leftarrow> copy_each (Hook_type X) (Hook_DeepCopyInto X) (HookList_Items v) h;
     let out = out\<lparr>HookList_Items := items\<rparr>;
     Some (out, h) }"

definition HookList_DeepCopy :: "('x, 'z) metav1_api_scheme \<Rightarrow> (ptr, 'x block) copy_into" where
  "HookList_DeepCopy X = new_copy (HookList_type X) (HookList_DeepCopyInto X)"

definition HookList_DeepCopyObject ::
    "('x, 'z) metav1_api_scheme \<Rightarrow> ptr \<Rightarrow> 'x block list \<Rightarrow> (runtime_Object \<times> 'x block list) option" where
  "HookList_DeepCopyObject X p h = do {
     (c, h) \<leftarrow> HookList_DeepCopy X p h;
     if c \<noteq> None then Some (Object ''HookList'' c, h) else Some (NilObject, h) }"

definition WarmMigrationStatus_DeepCopyInto ::
    "('x, 'z) metav1_api_scheme \<Rightarrow> (WarmMigrationStatus_mem, 'x block) copy_into" where
  "WarmMigrationStatus_DeepCopyInto X v h = do {
     let out = v;
     (images, h) \<leftarrow> copy_flat String_type (WarmMigrationStatus_BaseImageUUIDs v) h;
     let out = out\<lparr>WarmMigrationStatus_BaseImageUUIDs := images\<rparr>;
     (time, h) \<leftarrow> time_field X (WarmMigrationStatus_LastPrecopyTime v) h;
     let out = out\<lparr>WarmMigrationStatus_LastPrecopyTime := time\<rparr>;
     (deltas, h) \<leftarrow> copy_flat String_type (WarmMigrationStatus_DeltaImageUUIDs v) h;
     let out = out\<lparr>WarmMigrationStatus_DeltaImageUUIDs := deltas\<rparr>;
     Some (out, h) }"

definition WarmMigrationStatus_DeepCopy ::
    "('x, 'z) metav1_api_scheme \<Rightarrow> (ptr, 'x block) copy_into" where
  "WarmMigrationStatus_DeepCopy X = new_copy WarmMigrationStatus_type (WarmMigrationStatus_DeepCopyInto X)"

definition VMMigrationStatus_DeepCopyInto ::
    "('x, 'z) metav1_api_scheme \<Rightarrow> (VMMigrationStatus_mem, 'x block) copy_into" where
  "VMMigrationStatus_DeepCopyInto X v h = do {
     let out = v;
     (started, h) \<leftarrow> time_field X (VMMigrationStatus_Started v) h;
     let out = out\<lparr>VMMigrationStatus_Started := started\<rparr>;
     (completed, h) \<leftarrow> time_field X (VMMigrationStatus_Completed v) h;
     let out = out\<lparr>VMMigrationStatus_Completed := completed\<rparr>;
     (images, h) \<leftarrow> copy_flat String_type (VMMigrationStatus_ImageUUIDs v) h;
     let out = out\<lparr>VMMigrationStatus_ImageUUIDs := images\<rparr>;
     (names, h) \<leftarrow> copy_flat String_type (VMMigrationStatus_DataVolumeNames v) h;
     let out = out\<lparr>VMMigrationStatus_DataVolumeNames := names\<rparr>;
     (warm, h) \<leftarrow> new_copy WarmMigrationStatus_type (WarmMigrationStatus_DeepCopyInto X)
       (VMMigrationStatus_Warm v) h;
     let out = out\<lparr>VMMigrationStatus_Warm := warm\<rparr>;
     Some (out, h) }"

definition VMMigrationStatus_DeepCopy ::
    "('x, 'z) metav1_api_scheme \<Rightarrow> (ptr, 'x block) copy_into" where
  "VMMigrationStatus_DeepCopy X = new_copy VMMigrationStatus_type (VMMigrationStatus_DeepCopyInto X)"

definition MigrationSpec_DeepCopyInto ::
    "('x, 'z) metav1_api_scheme \<Rightarrow> (MigrationSpec_mem, 'x block) copy_into" where
  "MigrationSpec_DeepCopyInto X v h = do {
     let out = v;
     let out = out\<lparr>MigrationSpec_PlanRef := MigrationSpec_PlanRef v\<rparr>;
     (cutover, h) \<leftarrow> time_field X (MigrationSpec_Cutover v) h;
     let out = out\<lparr>MigrationSpec_Cutover := cutover\<rparr>;
     (cancel, h) \<leftarrow> copy_flat String_type (MigrationSpec_Cancel v) h;
     let out = out\<lparr>MigrationSpec_Cancel := cancel\<rparr>;
     Some (out, h) }"

definition MigrationSpec_DeepCopy :: "('x, 'z) metav1_api_scheme \<Rightarrow> (ptr, 'x block) copy_into" where
  "MigrationSpec_DeepCopy X = new_copy MigrationSpec_type (MigrationSpec_DeepCopyInto X)"

definition MigrationStatus_DeepCopyInto ::
    "('x, 'z) metav1_api_scheme \<Rightarrow> (MigrationStatus_mem, 'x block) copy_into" where
  "MigrationStatus_DeepCopyInto X v h = do {
     let out = v;
     (started, h) \<leftarrow> time_field X (MigrationStatus_Started v) h;
     let out = out\<lparr>MigrationStatus_Started := started\<rparr>;
     (completed, h) \<leftarrow> time_field X (MigrationStatus_Completed v) h;
     let out = out\<lparr>MigrationStatus_Completed := completed\<rparr>;
     (vms, h) \<leftarrow> copy_each VMMigrationStatus_type (VMMigrationStatus_DeepCopyInto X)
       (MigrationStatus_VMs v) h;
     let out = out\<lparr>MigrationStatus_VMs := vms\<rparr>;
     (conditions, h) \<leftarrow> copy_each (Condition_type X) (Condition_DeepCopyInto X)
       (MigrationStatus_Conditions v) h;
     let out = out\<lparr>MigrationStatus_Conditions := conditions\<rparr>;
     Some (out, h) }"

definition MigrationStatus_DeepCopy ::
    "('x, 'z) metav1_api_scheme \<Rightarrow> (ptr, 'x block) copy_into" where
  "MigrationStatus_DeepCopy X = new_copy MigrationStatus_type (MigrationStatus_DeepCopyInto X)"

definition Migration_DeepCopyInto ::
    "('x, 'z) metav1_api_scheme \<Rightarrow> ('x Migration_mem, 'x block) copy_into" where
  "Migration_DeepCopyInto X v h = do {
     let out = v;
     let out = out\<lparr>Migration_TypeMeta := Migration_TypeMeta v\<rparr>;
     (meta, h) \<leftarrow> ObjectMeta_DeepCopyInto X (Migration_ObjectMeta v) h;
     let out = out\<lparr>Migration_ObjectMeta := meta\<rparr>;
     (spec, h) \<leftarrow> MigrationSpec_DeepCopyInto X (Migration_Spec v) h;
     let out = out\<lparr>Migration_Spec := spec\<rparr>;
     (status, h) \<leftarrow> MigrationStatus_DeepCopyInto X (Migration_Status v) h;
     let out = out\<lparr>Migration_Status := status\<rparr>;
     Some (out, h) }"

definition Migration_DeepCopy :: "('x, 'z) metav1_api_scheme \<Rightarrow> (ptr, 'x block) copy_into" where
  "Migration_DeepCopy X = new_copy (Migration_type X) (Migration_DeepCopyInto X)"

definition Migration_DeepCopyObject ::
    "('x, 'z) metav1_api_scheme \<Rightarrow> ptr \<Rightarrow> 'x block list \<Rightarrow> (runtime_Object \<times> 'x block list) option" where
  "Migration_DeepCopyObject X p h = do {
     (c, h) \<leftarrow> Migration_DeepCopy X p h;
     if c \<noteq> None then Some (Object ''Migration'' c, h) else Some (NilObject, h) }"

definition MigrationList_DeepCopyInto ::
    "('x, 'z) metav1_api_scheme \<Rightarrow> ('x MigrationList_mem, 'x block) copy_into" where
  "MigrationList_DeepCopyInto X v h = do {
     let out = v;
     let out = out\<lparr>MigrationList_TypeMeta := MigrationList_TypeMeta v\<rparr>;
     (meta, h) \<leftarrow> ListMeta_DeepCopyInto X (MigrationList_ListMeta v) h;
     let out = out\<lparr>MigrationList_ListMeta := meta\<rparr>;
     (items, h) \<leftarrow> copy_each (Migration_type X) (Migration_DeepCopyInto X)
       (MigrationList_Items v) h;
     let out = out\<lparr>MigrationList_Items := items\<rparr>;
     Some (out, h) }"

definition MigrationList_DeepCopy :: "('x, 'z) metav1_api_scheme \<Rightarrow> (ptr, 'x block) copy_into" where
  "MigrationList_DeepCopy X = new_copy (MigrationList_type X) (MigrationList_DeepCopyInto X)"

definition MigrationList_DeepCopyObject ::
    "('x, 'z) metav1_api_scheme \<Rightarrow> ptr \<Rightarrow> 'x block list \<Rightarrow> (runtime_Object \<times> 'x block list) option" where
  "MigrationList_DeepCopyObject X p h = do {
     (c, h) \<leftarrow> MigrationList_DeepCopy X p h;
     if c \<noteq> None then Some (Object ''MigrationList'' c, h) else Some (NilObject, h) }"

definition PlanHookRef_DeepCopyInto :: "(Go_PlanHookRef, 'x block) copy_into" where
  "PlanHookRef_DeepCopyInto v h = (
     let out = v;
         out = out\<lparr>PlanHookRef_HookRef := PlanHookRef_HookRef v\<rparr>
     in Some (out, h))"

definition PlanHookRef_DeepCopy :: "(ptr, 'x block) copy_into" where
  "PlanHookRef_DeepCopy = new_copy PlanHookRef_type PlanHookRef_DeepCopyInto"

definition PlanVM_DeepCopyInto :: "(PlanVM_mem, 'x block) copy_into" where
  "PlanVM_DeepCopyInto v h = do {
     let out = v;
     (hooks, h) \<leftarrow> copy_flat PlanHookRef_type (PlanVM_Hooks v) h;
     let out = out\<lparr>PlanVM_Hooks := hooks\<rparr>;
     Some (out, h) }"

definition PlanVM_DeepCopy :: "(ptr, 'x block) copy_into" where
  "PlanVM_DeepCopy = new_copy PlanVM_type PlanVM_DeepCopyInto"

definition WarmConfig_DeepCopyInto :: "(Go_WarmConfig, 'x block) copy_into" where
  "WarmConfig_DeepCopyInto v h = assign v h"

definition WarmConfig_DeepCopy :: "(ptr, 'x block) copy_into" where
  "WarmConfig_DeepCopy = new_copy WarmConfig_type WarmConfig_DeepCopyInto"

definition VMValidationStatus_DeepCopyInto :: "(VMValidationStatus_mem, 'x block) copy_into" where
  "VMValidationStatus_DeepCopyInto v h = do {
     let out = v;
     (concerns, h) \<leftarrow> copy_flat Concern_type (VMValidationStatus_Concerns v) h;
     let out = out\<lparr>VMValidationStatus_Concerns := concerns\<rparr>;
     Some (out, h) }"

definition VMValidationStatus_DeepCopy :: "(ptr, 'x block) copy_into" where
  "VMValidationStatus_DeepCopy = new_copy VMValidationStatus_type VMValidationStatus_DeepCopyInto"

definition MigrationPlanSpec_DeepCopyInto :: "(MigrationPlanSpec_mem, 'x block) copy_into" where
  "MigrationPlanSpec_DeepCopyInto v h = do {
     let out = v;
     let out = out\<lparr>MigrationPlanSpec_ProviderRef := MigrationPlanSpec_ProviderRef v\<rparr>;
     let out = out\<lparr>MigrationPlanSpec_NetworkMapRef := MigrationPlanSpec_NetworkMapRef v\<rparr>;
     let out = out\<lparr>MigrationPlanSpec_StorageMapRef := MigrationPlanSpec_StorageMapRef v\<rparr>;
     (vms, h) \<leftarrow> copy_each PlanVM_type PlanVM_DeepCopyInto (MigrationPlanSpec_VMs v) h;
     let out = out\<lparr>MigrationPlanSpec_VMs := vms\<rparr>;
     (config, h) \<leftarrow> new_copy WarmConfig_type assign (MigrationPlanSpec_WarmConfig v) h;
     let out = out\<lparr>MigrationPlanSpec_WarmConfig := config\<rparr>;
     Some (out, h) }"

definition MigrationPlanSpec_DeepCopy :: "(ptr, 'x block) copy_into" where
  "MigrationPlanSpec_DeepCopy = new_copy MigrationPlanSpec_type MigrationPlanSpec_DeepCopyInto"

definition MigrationPlanStatus_DeepCopyInto ::
    "('x, 'z) metav1_api_scheme \<Rightarrow> (MigrationPlanStatus_mem, 'x block) copy_into" where
  "MigrationPlanStatus_DeepCopyInto X v h = do {
     let out = v;
     (vms, h) \<leftarrow> copy_each VMValidationStatus_type VMValidationStatus_DeepCopyInto
       (MigrationPlanStatus_VMs v) h;
     let out = out\<lparr>MigrationPlanStatus_VMs := vms\<rparr>;
     (conditions, h) \<leftarrow> copy_each (Condition_type X) (Condition_DeepCopyInto X)
       (MigrationPlanStatus_Conditions v) h;
     let out = out\<lparr>MigrationPlanStatus_Conditions := conditions\<rparr>;
     Some (out, h) }"

definition MigrationPlanStatus_DeepCopy ::
    "('x, 'z) metav1_api_scheme \<Rightarrow> (ptr, 'x block) copy_into" where
  "MigrationPlanStatus_DeepCopy X = new_copy MigrationPlanStatus_type (MigrationPlanStatus_DeepCopyInto X)"

definition MigrationPlan_DeepCopyInto ::
    "('x, 'z) metav1_api_scheme \<Rightarrow> ('x MigrationPlan_mem, 'x block) copy_into" where
  "MigrationPlan_DeepCopyInto X v h = do {
     let out = v;
     let out = out\<lparr>MigrationPlan_TypeMeta := MigrationPlan_TypeMeta v\<rparr>;
     (meta, h) \<leftarrow> ObjectMeta_DeepCopyInto X (MigrationPlan_ObjectMeta v) h;
     let out = out\<lparr>MigrationPlan_ObjectMeta := meta\<rparr>;
     (spec, h) \<leftarrow> MigrationPlanSpec_DeepCopyInto (MigrationPlan_Spec v) h;
     let out = out\<lparr>MigrationPlan_Spec := spec\<rparr>;
     (status, h) \<leftarrow> MigrationPlanStatus_DeepCopyInto X (MigrationPlan_Status v) h;
     let out = out\<lparr>MigrationPlan_Status := status\<rparr>;
     Some (out, h) }"

definition MigrationPlan_DeepCopy :: "('x, 'z) metav1_api_scheme \<Rightarrow> (ptr, 'x block) copy_into" where
  "MigrationPlan_DeepCopy X = new_copy (MigrationPlan_type X) (MigrationPlan_DeepCopyInto X)"

definition MigrationPlan_DeepCopyObject ::
    "('x, 'z) metav1_api_scheme \<Rightarrow> ptr \<Rightarrow> 'x block list \<Rightarrow> (runtime_Object \<times> 'x block list) option" where
  "MigrationPlan_DeepCopyObject X p h = do {
     (c, h) \<leftarrow> MigrationPlan_DeepCopy X p h;
     if c \<noteq> None then Some (Object ''MigrationPlan'' c, h) else Some (NilObject, h) }"

definition MigrationPlanList_DeepCopyInto ::
    "('x, 'z) metav1_api_scheme \<Rightarrow> ('x MigrationPlanList_mem, 'x block) copy_into" where
  "MigrationPlanList_DeepCopyInto X v h = do {
     let out = v;
     let out = out\<lparr>MigrationPlanList_TypeMeta := MigrationPlanList_TypeMeta v\<rparr>;
     (meta, h) \<leftarrow> ListMeta_DeepCopyInto X (MigrationPlanList_ListMeta v) h;
     let out = out\<lparr>MigrationPlanList_ListMeta := meta\<rparr>;
     (items, h) \<leftarrow> copy_each (MigrationPlan_type X) (MigrationPlan_DeepCopyInto X)
       (MigrationPlanList_Items v) h;
     let out = out\<lparr>MigrationPlanList_Items := items\<rparr>;
     Some (out, h) }"

definition MigrationPlanList_DeepCopy ::
    "('x, 'z) metav1_api_scheme \<Rightarrow> (ptr, 'x block) copy_into" where
  "MigrationPlanList_DeepCopy X = new_copy (MigrationPlanList_type X) (MigrationPlanList_DeepCopyInto X)"

definition MigrationPlanList_DeepCopyObject ::
    "('x, 'z) metav1_api_scheme \<Rightarrow> ptr \<Rightarrow> 'x block list \<Rightarrow> (runtime_Object \<times> 'x block list) option" where
  "MigrationPlanList_DeepCopyObject X p h = do {
     (c, h) \<leftarrow> MigrationPlanList_DeepCopy X p h;
     if c \<noteq> None then Some (Object ''MigrationPlanList'' c, h) else Some (NilObject, h) }"

definition NetworkSource_DeepCopyInto :: "(Go_NetworkSource, 'x block) copy_into" where
  "NetworkSource_DeepCopyInto v h = assign v h"

definition NetworkSource_DeepCopy :: "(ptr, 'x block) copy_into" where
  "NetworkSource_DeepCopy = new_copy NetworkSource_type NetworkSource_DeepCopyInto"

definition NetworkDestination_DeepCopyInto :: "(Go_NetworkDestination, 'x block) copy_into" where
  "NetworkDestination_DeepCopyInto v h = assign v h"

definition NetworkDestination_DeepCopy :: "(ptr, 'x block) copy_into" where
  "NetworkDestination_DeepCopy = new_copy NetworkDestination_type NetworkDestination_DeepCopyInto"

definition NetworkPair_DeepCopyInto :: "(Go_NetworkPair, 'x block) copy_into" where
  "NetworkPair_DeepCopyInto v h = (
     let out = v;
         out = out\<lparr>NetworkPair_Source := NetworkPair_Source v,
          NetworkPair_Destination := NetworkPair_Destination v\<rparr>
     in Some (out, h))"

definition NetworkPair_DeepCopy :: "(ptr, 'x block) copy_into" where
  "NetworkPair_DeepCopy = new_copy NetworkPair_type NetworkPair_DeepCopyInto"

definition NetworkMapSpec_DeepCopyInto :: "(NetworkMapSpec_mem, 'x block) copy_into" where
  "NetworkMapSpec_DeepCopyInto v h = do {
     let out = v;
     let out = out\<lparr>NetworkMapSpec_ProviderRef := NetworkMapSpec_ProviderRef v\<rparr>;
     (pairs, h) \<leftarrow> copy_flat NetworkPair_type (NetworkMapSpec_Map v) h;
     let out = out\<lparr>NetworkMapSpec_Map := pairs\<rparr>;
     Some (out, h) }"

definition NetworkMapSpec_DeepCopy :: "(ptr, 'x block) copy_into" where
  "NetworkMapSpec_DeepCopy = new_copy NetworkMapSpec_type NetworkMapSpec_DeepCopyInto"

definition NetworkMap_DeepCopyInto ::
    "('x, 'z) metav1_api_scheme \<Rightarrow> ('x NetworkMap_mem, 'x block) copy_into" where
  "NetworkMap_DeepCopyInto X v h = do {
     let out = v;
     let out = out\<lparr>NetworkMap_TypeMeta := NetworkMap_TypeMeta v\<rparr>;
     (meta, h) \<leftarrow> ObjectMeta_DeepCopyInto X (NetworkMap_ObjectMeta v) h;
     let out = out\<lparr>NetworkMap_ObjectMeta := meta\<rparr>;
     (spec, h) \<leftarrow> NetworkMapSpec_DeepCopyInto (NetworkMap_Spec v) h;
     let out = out\<lparr>NetworkMap_Spec := spec\<rparr>;
     Some (out, h) }"

definition NetworkMap_DeepCopy :: "('x, 'z) metav1_api_scheme \<Rightarrow> (ptr, 'x block) copy_into" where
  "NetworkMap_DeepCopy X = new_copy (NetworkMap_type X) (NetworkMap_DeepCopyInto X)"

definition NetworkMap_DeepCopyObject ::
    "('x, 'z) metav1_api_scheme \<Rightarrow> ptr \<Rightarrow> 'x block list \<Rightarrow> (runtime_Object \<times> 'x block list) option" where
  "NetworkMap_DeepCopyObject X p h = do {
     (c, h) \<leftarrow> NetworkMap_DeepCopy X p h;
     if c \<noteq> None then Some (Object ''NetworkMap'' c, h) else Some (NilObject, h) }"

definition NetworkMapList_DeepCopyInto ::
    "('x, 'z) metav1_api_scheme \<Rightarrow> ('x NetworkMapList_mem, 'x block) copy_into" where
  "NetworkMapList_DeepCopyInto X v h = do {
     let out = v;
     let out = out\<lparr>NetworkMapList_TypeMeta := NetworkMapList_TypeMeta v\<rparr>;
     (meta, h) \<leftarrow> ListMeta_DeepCopyInto X (NetworkMapList_ListMeta v) h;
     let out = out\<lparr>NetworkMapList_ListMeta := meta\<rparr>;
     (items, h) \<leftarrow> copy_each (NetworkMap_type X) (NetworkMap_DeepCopyInto X)
       (NetworkMapList_Items v) h;
     let out = out\<lparr>NetworkMapList_Items := items\<rparr>;
     Some (out, h) }"

definition NetworkMapList_DeepCopy ::
    "('x, 'z) metav1_api_scheme \<Rightarrow> (ptr, 'x block) copy_into" where
  "NetworkMapList_DeepCopy X = new_copy (NetworkMapList_type X) (NetworkMapList_DeepCopyInto X)"

definition NetworkMapList_DeepCopyObject ::
    "('x, 'z) metav1_api_scheme \<Rightarrow> ptr \<Rightarrow> 'x block list \<Rightarrow> (runtime_Object \<times> 'x block list) option" where
  "NetworkMapList_DeepCopyObject X p h = do {
     (c, h) \<leftarrow> NetworkMapList_DeepCopy X p h;
     if c \<noteq> None then Some (Object ''NetworkMapList'' c, h) else Some (NilObject, h) }"

definition NutanixProviderSpec_DeepCopyInto :: "(Go_NutanixProviderSpec, 'x block) copy_into" where
  "NutanixProviderSpec_DeepCopyInto v h = (
     let out = v;
         out = out\<lparr>NutanixProviderSpec_SecretRef := NutanixProviderSpec_SecretRef v\<rparr>
     in Some (out, h))"

definition NutanixProviderSpec_DeepCopy :: "(ptr, 'x block) copy_into" where
  "NutanixProviderSpec_DeepCopy = new_copy NutanixProviderSpec_type NutanixProviderSpec_DeepCopyInto"

definition NutanixProviderStatus_DeepCopyInto ::
    "('x, 'z) metav1_api_scheme \<Rightarrow> (NutanixProviderStatus_mem, 'x block) copy_into" where
  "NutanixProviderStatus_DeepCopyInto X v h = do {
     let out = v;
     (conditions, h) \<leftarrow> copy_each (Condition_type X) (Condition_DeepCopyInto X)
       (NutanixProviderStatus_Conditions v) h;
     let out = out\<lparr>NutanixProviderStatus_Conditions := conditions\<rparr>;
     Some (out, h) }"

definition NutanixProviderStatus_DeepCopy ::
    "('x, 'z) metav1_api_scheme \<Rightarrow> (ptr, 'x block) copy_into" where
  "NutanixProviderStatus_DeepCopy X = new_copy NutanixProviderStatus_type (NutanixProviderStatus_DeepCopyInto X)"

definition NutanixProvider_DeepCopyInto ::
    "('x, 'z) metav1_api_scheme \<Rightarrow> ('x NutanixProvider_mem, 'x block) copy_into" where
  "NutanixProvider_DeepCopyInto X v h = do {
     let out = v;
     let out = out\<lparr>NutanixProvider_TypeMeta := NutanixProvider_TypeMeta v\<rparr>;
     (meta, h) \<leftarrow> ObjectMeta_DeepCopyInto X (NutanixProvider_ObjectMeta v) h;
     let out = out\<lparr>NutanixProvider_ObjectMeta := meta\<rparr>;
     let out = out\<lparr>NutanixProvider_Spec := NutanixProvider_Spec v\<rparr>;
     (status, h) \<leftarrow> NutanixProviderStatus_DeepCopyInto X (NutanixProvider_Status v) h;
     let out = out\<lparr>NutanixProvider_Status := status\<rparr>;
     Some (out, h) }"

definition NutanixProvider_DeepCopy ::
    "('x, 'z) metav1_api_scheme \<Rightarrow> (ptr, 'x block) copy_into" where
  "NutanixProvider_DeepCopy X = new_copy (NutanixProvider_type X) (NutanixProvider_DeepCopyInto X)"

definition NutanixProvider_DeepCopyObject ::
    "('x, 'z) metav1_api_scheme \<Rightarrow> ptr \<Rightarrow> 'x block list \<Rightarrow> (runtime_Object \<times> 'x block list) option" where
  "NutanixProvider_DeepCopyObject X p h = do {
     (c, h) \<leftarrow> NutanixProvider_DeepCopy X p h;
     if c \<noteq> None then Some (Object ''NutanixProvider'' c, h) else Some (NilObject, h) }"

definition NutanixProviderList_DeepCopyInto ::
    "('x, 'z) metav1_api_scheme \<Rightarrow> ('x NutanixProviderList_mem, 'x block) copy_into" where
  "NutanixProviderList_DeepCopyInto X v h = do {
     let out = v;
     let out = out\<lparr>NutanixProviderList_TypeMeta := NutanixProviderList_TypeMeta v\<rparr>;
     (meta, h) \<leftarrow> ListMeta_DeepCopyInto X (NutanixProviderList_ListMeta v) h;
     let out = out\<lparr>NutanixProviderList_ListMeta := meta\<rparr>;
     (items, h) \<leftarrow> copy_each (NutanixProvider_type X) (NutanixProvider_DeepCopyInto X)
       (NutanixProviderList_Items v) h;
     let out = out\<lparr>NutanixProviderList_Items := items\<rparr>;
     Some (out, h) }"

definition NutanixProviderList_DeepCopy ::
    "('x, 'z) metav1_api_scheme \<Rightarrow> (ptr, 'x block) copy_into" where
  "NutanixProviderList_DeepCopy X = new_copy (NutanixProviderList_type X) (NutanixProviderList_DeepCopyInto X)"

definition NutanixProviderList_DeepCopyObject ::
    "('x, 'z) metav1_api_scheme \<Rightarrow> ptr \<Rightarrow> 'x block list \<Rightarrow> (runtime_Object \<times> 'x block list) option" where
  "NutanixProviderList_DeepCopyObject X p h = do {
     (c, h) \<leftarrow> NutanixProviderList_DeepCopy X p h;
     if c \<noteq> None then Some (Object ''NutanixProviderList'' c, h) else Some (NilObject, h) }"

definition StorageSource_DeepCopyInto :: "(Go_StorageSource, 'x block) copy_into" where
  "StorageSource_DeepCopyInto v h = assign v h"

definition StorageSource_DeepCopy :: "(ptr, 'x block) copy_into" where
  "StorageSource_DeepCopy = new_copy StorageSource_type StorageSource_DeepCopyInto"

definition StorageDestination_DeepCopyInto :: "(Go_StorageDestination, 'x block) copy_into" where
  "StorageDestination_DeepCopyInto v h = assign v h"

definition StorageDestination_DeepCopy :: "(ptr, 'x block) copy_into" where
  "StorageDestination_DeepCopy = new_copy StorageDestination_type StorageDestination_DeepCopyInto"

definition StoragePair_DeepCopyInto :: "(Go_StoragePair, 'x block) copy_into" where
  "StoragePair_DeepCopyInto v h = (
     let out = v;
         out = out\<lparr>StoragePair_Source := StoragePair_Source v,
          StoragePair_Destination := StoragePair_Destination v\<rparr>
     in Some (out, h))"

definition StoragePair_DeepCopy :: "(ptr, 'x block) copy_into" where
  "StoragePair_DeepCopy = new_copy StoragePair_type StoragePair_DeepCopyInto"

definition StorageMapSpec_DeepCopyInto :: "(StorageMapSpec_mem, 'x block) copy_into" where
  "StorageMapSpec_DeepCopyInto v h = do {
     let out = v;
     let out = out\<lparr>StorageMapSpec_ProviderRef := StorageMapSpec_ProviderRef v\<rparr>;
     (pairs, h) \<leftarrow> copy_flat StoragePair_type (StorageMapSpec_Map v) h;
     let out = out\<lparr>StorageMapSpec_Map := pairs\<rparr>;
     Some (out, h) }"

definition StorageMapSpec_DeepCopy :: "(ptr, 'x block) copy_into" where
  "StorageMapSpec_DeepCopy = new_copy StorageMapSpec_type StorageMapSpec_DeepCopyInto"

definition StorageMap_DeepCopyInto ::
    "('x, 'z) metav1_api_scheme \<Rightarrow> ('x StorageMap_mem, 'x block) copy_into" where
  "StorageMap_DeepCopyInto X v h = do {
     let out = v;
     let out = out\<lparr>StorageMap_TypeMeta := StorageMap_TypeMeta v\<rparr>;
     (meta, h) \<leftarrow> ObjectMeta_DeepCopyInto X (StorageMap_ObjectMeta v) h;
     let out = out\<lparr>StorageMap_ObjectMeta := meta\<rparr>;
     (spec, h) \<leftarrow> StorageMapSpec_DeepCopyInto (StorageMap_Spec v) h;
     let out = out\<lparr>StorageMap_Spec := spec\<rparr>;
     Some (out, h) }"

definition StorageMap_DeepCopy :: "('x, 'z) metav1_api_scheme \<Rightarrow> (ptr, 'x block) copy_into" where
  "StorageMap_DeepCopy X = new_copy (StorageMap_type X) (StorageMap_DeepCopyInto X)"

definition StorageMap_DeepCopyObject ::
    "('x, 'z) metav1_api_scheme \<Rightarrow> ptr \<Rightarrow> 'x block list \<Rightarrow> (runtime_Object \<times> 'x block list) option" where
  "StorageMap_DeepCopyObject X p h = do {
     (c, h) \<leftarrow> StorageMap_DeepCopy X p h;
     if c \<noteq> None then Some (Object ''StorageMap'' c, h) else Some (NilObject, h) }"

definition StorageMapList_DeepCopyInto ::
    "('x, 'z) metav1_api_scheme \<Rightarrow> ('x StorageMapList_mem, 'x block) copy_into" where
  "StorageMapList_DeepCopyInto X v h = do {
     let out = v;
     let out = out\<lparr>StorageMapList_TypeMeta := StorageMapList_TypeMeta v\<rparr>;
     (meta, h) \<leftarrow> ListMeta_DeepCopyInto X (StorageMapList_ListMeta v) h;
     let out = out\<lparr>StorageMapList_ListMeta := meta\<rparr>;
     (items, h) \<leftarrow> copy_each (StorageMap_type X) (StorageMap_DeepCopyInto X)
       (StorageMapList_Items v) h;
     let out = out\<lparr>StorageMapList_Items := items\<rparr>;
     Some (out, h) }"

definition StorageMapList_DeepCopy ::
    "('x, 'z) metav1_api_scheme \<Rightarrow> (ptr, 'x block) copy_into" where
  "StorageMapList_DeepCopy X = new_copy (StorageMapList_type X) (StorageMapList_DeepCopyInto X)"

definition StorageMapList_DeepCopyObject ::
    "('x, 'z) metav1_api_scheme \<Rightarrow> ptr \<Rightarrow> 'x block list \<Rightarrow> (runtime_Object \<times> 'x block list) option" where
  "StorageMapList_DeepCopyObject X p h = do {
     (c, h) \<leftarrow> StorageMapList_DeepCopy X p h;
     if c \<noteq> None then Some (Object ''StorageMapList'' c, h) else Some (NilObject, h) }"

section \<open>The copies are deep\<close>

lemmas struct_simps = both_into_def case_prod_unfold Let_def

text \<open>The copy functions of the library, as documented: each copies its receiver.\<close>

locale metav1 =
  fixes X :: "('x, 'y) metav1_lib"
  assumes ObjectMeta_copier: "deep_copier (read_ObjectMeta X) (ObjectMeta_DeepCopyInto X)"
    and ListMeta_copier: "deep_copier (read_ListMeta X) (ListMeta_DeepCopyInto X)"
    and Condition_copier: "deep_copier (read_Condition X) (Condition_DeepCopyInto X)"
    and Time_copier: "deep_copier (read_ptr (Time_type X) (read_Time X)) (Time_DeepCopy X)"
begin

lemma time_field_copier: "deep_copier (read_ptr (Time_type X) (read_Time X)) (time_field X)"
proof (rule deep_copier.intro)
  show "heap_reader (read_ptr (Time_type X) (read_Time X))" using Time_copier by (rule deep_copier.axioms)
  show "deep_copier_axioms (read_ptr (Time_type X) (read_Time X)) (time_field X)"
  proof
    fix h p t F
    assume "read_ptr (Time_type X) (read_Time X) h p = Some (t, F)"
    then show "\<exists>p' h' G. time_field X p h = Some (p', h') \<and> prefix h h'
        \<and> read_ptr (Time_type X) (read_Time X) h' p' = Some (t, G) \<and> set G \<subseteq> {length h..<length h'}"
      using deep_copier.copies[OF Time_copier] by (auto simp: time_field_def read_ptr_def)
  qed
qed

lemma HookStatus_copier: "deep_copier (read_HookStatus X) (HookStatus_DeepCopyInto X)"
  by (rule struct_copier[OF deep_copier.slice_copier[OF Condition_copier Condition_type_ok]
        _ read_HookStatus_def HookStatus_struct])
     (simp add: HookStatus_DeepCopyInto_def HookStatus_refs_def HookStatus_with_update struct_simps)

lemma Hook_copier: "deep_copier (read_Hook X) (Hook_DeepCopyInto X)"
  by (rule struct_copier[OF both_copier[OF ObjectMeta_copier
        HookStatus_copier]
        _ read_Hook_def Hook_struct])
     (simp add: Hook_DeepCopyInto_def Hook_refs_def Hook_with_update struct_simps)

lemma HookList_copier: "deep_copier (read_HookList X) (HookList_DeepCopyInto X)"
  by (rule struct_copier[OF both_copier[OF ListMeta_copier
        deep_copier.slice_copier[OF Hook_copier Hook_type_ok]]
        _ read_HookList_def HookList_struct])
     (simp add: HookList_DeepCopyInto_def HookList_refs_def HookList_with_update struct_simps)

lemma WarmMigrationStatus_copier:
    "deep_copier (read_WarmMigrationStatus X) (WarmMigrationStatus_DeepCopyInto X)"
  by (rule struct_copier[OF both_copier[OF copy_flat_copier[OF String_type_ok]
        both_copier[OF time_field_copier
        copy_flat_copier[OF String_type_ok]]]
        _ read_WarmMigrationStatus_def WarmMigrationStatus_struct])
     (simp add: WarmMigrationStatus_DeepCopyInto_def WarmMigrationStatus_refs_def WarmMigrationStatus_with_update struct_simps)

lemma VMMigrationStatus_copier:
    "deep_copier (read_VMMigrationStatus X) (VMMigrationStatus_DeepCopyInto X)"
  by (rule struct_copier[OF both_copier[OF time_field_copier
        both_copier[OF time_field_copier
        both_copier[OF copy_flat_copier[OF String_type_ok]
        both_copier[OF copy_flat_copier[OF String_type_ok]
        deep_copier.ptr_copier[OF WarmMigrationStatus_copier WarmMigrationStatus_type_ok]]]]]
        _ read_VMMigrationStatus_def VMMigrationStatus_struct])
     (simp add: VMMigrationStatus_DeepCopyInto_def VMMigrationStatus_refs_def VMMigrationStatus_with_update struct_simps)

lemma MigrationSpec_copier: "deep_copier (read_MigrationSpec X) (MigrationSpec_DeepCopyInto X)"
  by (rule struct_copier[OF both_copier[OF time_field_copier
        copy_flat_copier[OF String_type_ok]]
        _ read_MigrationSpec_def MigrationSpec_struct])
     (simp add: MigrationSpec_DeepCopyInto_def MigrationSpec_refs_def MigrationSpec_with_update struct_simps)

lemma MigrationStatus_copier:
    "deep_copier (read_MigrationStatus X) (MigrationStatus_DeepCopyInto X)"
  by (rule struct_copier[OF both_copier[OF time_field_copier
        both_copier[OF time_field_copier
        both_copier[OF deep_copier.slice_copier[OF VMMigrationStatus_copier VMMigrationStatus_type_ok]
        deep_copier.slice_copier[OF Condition_copier Condition_type_ok]]]]
        _ read_MigrationStatus_def MigrationStatus_struct])
     (simp add: MigrationStatus_DeepCopyInto_def MigrationStatus_refs_def MigrationStatus_with_update struct_simps)

lemma Migration_copier: "deep_copier (read_Migration X) (Migration_DeepCopyInto X)"
  by (rule struct_copier[OF both_copier[OF ObjectMeta_copier
        both_copier[OF MigrationSpec_copier
        MigrationStatus_copier]]
        _ read_Migration_def Migration_struct])
     (simp add: Migration_DeepCopyInto_def Migration_refs_def Migration_with_update struct_simps)

lemma MigrationList_copier: "deep_copier (read_MigrationList X) (MigrationList_DeepCopyInto X)"
  by (rule struct_copier[OF both_copier[OF ListMeta_copier
        deep_copier.slice_copier[OF Migration_copier Migration_type_ok]]
        _ read_MigrationList_def MigrationList_struct])
     (simp add: MigrationList_DeepCopyInto_def MigrationList_refs_def MigrationList_with_update struct_simps)

lemma PlanVM_copier: "deep_copier read_PlanVM PlanVM_DeepCopyInto"
  by (rule struct_copier[OF copy_flat_copier[OF PlanHookRef_type_ok]
        _ read_PlanVM_def PlanVM_struct])
     (simp add: PlanVM_DeepCopyInto_def PlanVM_refs_def PlanVM_with_update struct_simps)

lemma VMValidationStatus_copier:
    "deep_copier read_VMValidationStatus VMValidationStatus_DeepCopyInto"
  by (rule struct_copier[OF copy_flat_copier[OF Concern_type_ok]
        _ read_VMValidationStatus_def VMValidationStatus_struct])
     (simp add: VMValidationStatus_DeepCopyInto_def VMValidationStatus_refs_def VMValidationStatus_with_update struct_simps)

lemma MigrationPlanSpec_copier: "deep_copier read_MigrationPlanSpec MigrationPlanSpec_DeepCopyInto"
  by (rule struct_copier[OF both_copier[OF deep_copier.slice_copier[OF PlanVM_copier PlanVM_type_ok]
        deep_copier.ptr_copier[OF flat.deep_copier_axioms WarmConfig_type_ok]]
        _ read_MigrationPlanSpec_def MigrationPlanSpec_struct])
     (simp add: MigrationPlanSpec_DeepCopyInto_def MigrationPlanSpec_refs_def MigrationPlanSpec_with_update struct_simps)

lemma MigrationPlanStatus_copier:
    "deep_copier (read_MigrationPlanStatus X) (MigrationPlanStatus_DeepCopyInto X)"
  by (rule struct_copier[OF both_copier[OF deep_copier.slice_copier[OF VMValidationStatus_copier VMValidationStatus_type_ok]
        deep_copier.slice_copier[OF Condition_copier Condition_type_ok]]
        _ read_MigrationPlanStatus_def MigrationPlanStatus_struct])
     (simp add: MigrationPlanStatus_DeepCopyInto_def MigrationPlanStatus_refs_def MigrationPlanStatus_with_update struct_simps)

lemma MigrationPlan_copier: "deep_copier (read_MigrationPlan X) (MigrationPlan_DeepCopyInto X)"
  by (rule struct_copier[OF both_copier[OF ObjectMeta_copier
        both_copier[OF MigrationPlanSpec_copier
        MigrationPlanStatus_copier]]
        _ read_MigrationPlan_def MigrationPlan_struct])
     (simp add: MigrationPlan_DeepCopyInto_def MigrationPlan_refs_def MigrationPlan_with_update struct_simps)

lemma MigrationPlanList_copier:
    "deep_copier (read_MigrationPlanList X) (MigrationPlanList_DeepCopyInto X)"
  by (rule struct_copier[OF both_copier[OF ListMeta_copier
        deep_copier.slice_copier[OF MigrationPlan_copier MigrationPlan_type_ok]]
        _ read_MigrationPlanList_def MigrationPlanList_struct])
     (simp add: MigrationPlanList_DeepCopyInto_def MigrationPlanList_refs_def MigrationPlanList_with_update struct_simps)

lemma NetworkMapSpec_copier: "deep_copier read_NetworkMapSpec NetworkMapSpec_DeepCopyInto"
  by (rule struct_copier[OF copy_flat_copier[OF NetworkPair_type_ok]
        _ read_NetworkMapSpec_def NetworkMapSpec_struct])
     (simp add: NetworkMapSpec_DeepCopyInto_def NetworkMapSpec_refs_def NetworkMapSpec_with_update struct_simps)

lemma NetworkMap_copier: "deep_copier (read_NetworkMap X) (NetworkMap_DeepCopyInto X)"
  by (rule struct_copier[OF both_copier[OF ObjectMeta_copier
        NetworkMapSpec_copier]
        _ read_NetworkMap_def NetworkMap_struct])
     (simp add: NetworkMap_DeepCopyInto_def NetworkMap_refs_def NetworkMap_with_update struct_simps)

lemma NetworkMapList_copier: "deep_copier (read_NetworkMapList X) (NetworkMapList_DeepCopyInto X)"
  by (rule struct_copier[OF both_copier[OF ListMeta_copier
        deep_copier.slice_copier[OF NetworkMap_copier NetworkMap_type_ok]]
        _ read_NetworkMapList_def NetworkMapList_struct])
     (simp add: NetworkMapList_DeepCopyInto_def NetworkMapList_refs_def NetworkMapList_with_update struct_simps)

lemma NutanixProviderStatus_copier:
    "deep_copier (read_NutanixProviderStatus X) (NutanixProviderStatus_DeepCopyInto X)"
  by (rule struct_copier[OF deep_copier.slice_copier[OF Condition_copier Condition_type_ok]
        _ read_NutanixProviderStatus_def NutanixProviderStatus_struct])
     (simp add: NutanixProviderStatus_DeepCopyInto_def NutanixProviderStatus_refs_def NutanixProviderStatus_with_update struct_simps)

lemma NutanixProvider_copier:
    "deep_copier (read_NutanixProvider X) (NutanixProvider_DeepCopyInto X)"
  by (rule struct_copier[OF both_copier[OF ObjectMeta_copier
        NutanixProviderStatus_copier]
        _ read_NutanixProvider_def NutanixProvider_struct])
     (simp add: NutanixProvider_DeepCopyInto_def NutanixProvider_refs_def NutanixProvider_with_update struct_simps)

lemma NutanixProviderList_copier:
    "deep_copier (read_NutanixProviderList X) (NutanixProviderList_DeepCopyInto X)"
  by (rule struct_copier[OF both_copier[OF ListMeta_copier
        deep_copier.slice_copier[OF NutanixProvider_copier NutanixProvider_type_ok]]
        _ read_NutanixProviderList_def NutanixProviderList_struct])
     (simp add: NutanixProviderList_DeepCopyInto_def NutanixProviderList_refs_def NutanixProviderList_with_update struct_simps)

lemma StorageMapSpec_copier: "deep_copier read_StorageMapSpec StorageMapSpec_DeepCopyInto"
  by (rule struct_copier[OF copy_flat_copier[OF StoragePair_type_ok]
        _ read_StorageMapSpec_def StorageMapSpec_struct])
     (simp add: StorageMapSpec_DeepCopyInto_def StorageMapSpec_refs_def StorageMapSpec_with_update struct_simps)

lemma StorageMap_copier: "deep_copier (read_StorageMap X) (StorageMap_DeepCopyInto X)"
  by (rule struct_copier[OF both_copier[OF ObjectMeta_copier
        StorageMapSpec_copier]
        _ read_StorageMap_def StorageMap_struct])
     (simp add: StorageMap_DeepCopyInto_def StorageMap_refs_def StorageMap_with_update struct_simps)

lemma StorageMapList_copier: "deep_copier (read_StorageMapList X) (StorageMapList_DeepCopyInto X)"
  by (rule struct_copier[OF both_copier[OF ListMeta_copier
        deep_copier.slice_copier[OF StorageMap_copier StorageMap_type_ok]]
        _ read_StorageMapList_def StorageMapList_struct])
     (simp add: StorageMapList_DeepCopyInto_def StorageMapList_refs_def StorageMapList_with_update struct_simps)

text \<open>Behind a new pointer, the methods \<^verbatim>\<open>DeepCopy\<close>.\<close>

lemma HookStatus_DeepCopy_copier:
    "deep_copier (read_ptr HookStatus_type (read_HookStatus X)) (HookStatus_DeepCopy X)"
  unfolding HookStatus_DeepCopy_def by (rule deep_copier.ptr_copier[OF HookStatus_copier HookStatus_type_ok])

lemma Hook_DeepCopy_copier: "deep_copier (read_ptr (Hook_type X) (read_Hook X)) (Hook_DeepCopy X)"
  unfolding Hook_DeepCopy_def by (rule deep_copier.ptr_copier[OF Hook_copier Hook_type_ok])

lemma HookList_DeepCopy_copier:
    "deep_copier (read_ptr (HookList_type X) (read_HookList X)) (HookList_DeepCopy X)"
  unfolding HookList_DeepCopy_def by (rule deep_copier.ptr_copier[OF HookList_copier HookList_type_ok])

lemma WarmMigrationStatus_DeepCopy_copier:
    "deep_copier (read_ptr WarmMigrationStatus_type (read_WarmMigrationStatus X)) (WarmMigrationStatus_DeepCopy X)"
  unfolding WarmMigrationStatus_DeepCopy_def by (rule deep_copier.ptr_copier[OF WarmMigrationStatus_copier WarmMigrationStatus_type_ok])

lemma VMMigrationStatus_DeepCopy_copier:
    "deep_copier (read_ptr VMMigrationStatus_type (read_VMMigrationStatus X)) (VMMigrationStatus_DeepCopy X)"
  unfolding VMMigrationStatus_DeepCopy_def by (rule deep_copier.ptr_copier[OF VMMigrationStatus_copier VMMigrationStatus_type_ok])

lemma MigrationSpec_DeepCopy_copier:
    "deep_copier (read_ptr MigrationSpec_type (read_MigrationSpec X)) (MigrationSpec_DeepCopy X)"
  unfolding MigrationSpec_DeepCopy_def by (rule deep_copier.ptr_copier[OF MigrationSpec_copier MigrationSpec_type_ok])

lemma MigrationStatus_DeepCopy_copier:
    "deep_copier (read_ptr MigrationStatus_type (read_MigrationStatus X)) (MigrationStatus_DeepCopy X)"
  unfolding MigrationStatus_DeepCopy_def by (rule deep_copier.ptr_copier[OF MigrationStatus_copier MigrationStatus_type_ok])

lemma Migration_DeepCopy_copier:
    "deep_copier (read_ptr (Migration_type X) (read_Migration X)) (Migration_DeepCopy X)"
  unfolding Migration_DeepCopy_def by (rule deep_copier.ptr_copier[OF Migration_copier Migration_type_ok])

lemma MigrationList_DeepCopy_copier:
    "deep_copier (read_ptr (MigrationList_type X) (read_MigrationList X)) (MigrationList_DeepCopy X)"
  unfolding MigrationList_DeepCopy_def by (rule deep_copier.ptr_copier[OF MigrationList_copier MigrationList_type_ok])

lemma PlanVM_DeepCopy_copier: "deep_copier (read_ptr PlanVM_type read_PlanVM) PlanVM_DeepCopy"
  unfolding PlanVM_DeepCopy_def by (rule deep_copier.ptr_copier[OF PlanVM_copier PlanVM_type_ok])

lemma VMValidationStatus_DeepCopy_copier:
    "deep_copier (read_ptr VMValidationStatus_type read_VMValidationStatus) VMValidationStatus_DeepCopy"
  unfolding VMValidationStatus_DeepCopy_def by (rule deep_copier.ptr_copier[OF VMValidationStatus_copier VMValidationStatus_type_ok])

lemma MigrationPlanSpec_DeepCopy_copier:
    "deep_copier (read_ptr MigrationPlanSpec_type read_MigrationPlanSpec) MigrationPlanSpec_DeepCopy"
  unfolding MigrationPlanSpec_DeepCopy_def by (rule deep_copier.ptr_copier[OF MigrationPlanSpec_copier MigrationPlanSpec_type_ok])

lemma MigrationPlanStatus_DeepCopy_copier:
    "deep_copier (read_ptr MigrationPlanStatus_type (read_MigrationPlanStatus X)) (MigrationPlanStatus_DeepCopy X)"
  unfolding MigrationPlanStatus_DeepCopy_def by (rule deep_copier.ptr_copier[OF MigrationPlanStatus_copier MigrationPlanStatus_type_ok])

lemma MigrationPlan_DeepCopy_copier:
    "deep_copier (read_ptr (MigrationPlan_type X) (read_MigrationPlan X)) (MigrationPlan_DeepCopy X)"
  unfolding MigrationPlan_DeepCopy_def by (rule deep_copier.ptr_copier[OF MigrationPlan_copier MigrationPlan_type_ok])

lemma MigrationPlanList_DeepCopy_copier:
    "deep_copier (read_ptr (MigrationPlanList_type X) (read_MigrationPlanList X)) (MigrationPlanList_DeepCopy X)"
  unfolding MigrationPlanList_DeepCopy_def by (rule deep_copier.ptr_copier[OF MigrationPlanList_copier MigrationPlanList_type_ok])

lemma NetworkMapSpec_DeepCopy_copier:
    "deep_copier (read_ptr NetworkMapSpec_type read_NetworkMapSpec) NetworkMapSpec_DeepCopy"
  unfolding NetworkMapSpec_DeepCopy_def by (rule deep_copier.ptr_copier[OF NetworkMapSpec_copier NetworkMapSpec_type_ok])

lemma NetworkMap_DeepCopy_copier:
    "deep_copier (read_ptr (NetworkMap_type X) (read_NetworkMap X)) (NetworkMap_DeepCopy X)"
  unfolding NetworkMap_DeepCopy_def by (rule deep_copier.ptr_copier[OF NetworkMap_copier NetworkMap_type_ok])

lemma NetworkMapList_DeepCopy_copier:
    "deep_copier (read_ptr (NetworkMapList_type X) (read_NetworkMapList X)) (NetworkMapList_DeepCopy X)"
  unfolding NetworkMapList_DeepCopy_def by (rule deep_copier.ptr_copier[OF NetworkMapList_copier NetworkMapList_type_ok])

lemma NutanixProviderStatus_DeepCopy_copier:
    "deep_copier (read_ptr NutanixProviderStatus_type (read_NutanixProviderStatus X)) (NutanixProviderStatus_DeepCopy X)"
  unfolding NutanixProviderStatus_DeepCopy_def by (rule deep_copier.ptr_copier[OF NutanixProviderStatus_copier NutanixProviderStatus_type_ok])

lemma NutanixProvider_DeepCopy_copier:
    "deep_copier (read_ptr (NutanixProvider_type X) (read_NutanixProvider X)) (NutanixProvider_DeepCopy X)"
  unfolding NutanixProvider_DeepCopy_def by (rule deep_copier.ptr_copier[OF NutanixProvider_copier NutanixProvider_type_ok])

lemma NutanixProviderList_DeepCopy_copier:
    "deep_copier (read_ptr (NutanixProviderList_type X) (read_NutanixProviderList X)) (NutanixProviderList_DeepCopy X)"
  unfolding NutanixProviderList_DeepCopy_def by (rule deep_copier.ptr_copier[OF NutanixProviderList_copier NutanixProviderList_type_ok])

lemma StorageMapSpec_DeepCopy_copier:
    "deep_copier (read_ptr StorageMapSpec_type read_StorageMapSpec) StorageMapSpec_DeepCopy"
  unfolding StorageMapSpec_DeepCopy_def by (rule deep_copier.ptr_copier[OF StorageMapSpec_copier StorageMapSpec_type_ok])

lemma StorageMap_DeepCopy_copier:
    "deep_copier (read_ptr (StorageMap_type X) (read_StorageMap X)) (StorageMap_DeepCopy X)"
  unfolding StorageMap_DeepCopy_def by (rule deep_copier.ptr_copier[OF StorageMap_copier StorageMap_type_ok])

lemma StorageMapList_DeepCopy_copier:
    "deep_copier (read_ptr (StorageMapList_type X) (read_StorageMapList X)) (StorageMapList_DeepCopy X)"
  unfolding StorageMapList_DeepCopy_def by (rule deep_copier.ptr_copier[OF StorageMapList_copier StorageMapList_type_ok])

end

text \<open>Structs without references are assigned.\<close>

lemma flat_DeepCopyInto:
  shows "Concern_DeepCopyInto = assign"
    and "HookSpec_DeepCopyInto = assign"
    and "PlanHookRef_DeepCopyInto = assign"
    and "WarmConfig_DeepCopyInto = assign"
    and "NetworkSource_DeepCopyInto = assign"
    and "NetworkDestination_DeepCopyInto = assign"
    and "NetworkPair_DeepCopyInto = assign"
    and "NutanixProviderSpec_DeepCopyInto = assign"
    and "StorageSource_DeepCopyInto = assign"
    and "StorageDestination_DeepCopyInto = assign"
    and "StoragePair_DeepCopyInto = assign"
  by (simp_all add: fun_eq_iff assign_def Concern_DeepCopyInto_def HookSpec_DeepCopyInto_def PlanHookRef_DeepCopyInto_def
    WarmConfig_DeepCopyInto_def NetworkSource_DeepCopyInto_def
    NetworkDestination_DeepCopyInto_def NetworkPair_DeepCopyInto_def
    NutanixProviderSpec_DeepCopyInto_def StorageSource_DeepCopyInto_def
    StorageDestination_DeepCopyInto_def StoragePair_DeepCopyInto_def)

lemma Concern_DeepCopy_copier: "deep_copier (read_ptr Concern_type read_flat) Concern_DeepCopy"
  unfolding Concern_DeepCopy_def flat_DeepCopyInto by (rule flat.ptr_copier[OF Concern_type_ok])

lemma HookSpec_DeepCopy_copier: "deep_copier (read_ptr HookSpec_type read_flat) HookSpec_DeepCopy"
  unfolding HookSpec_DeepCopy_def flat_DeepCopyInto by (rule flat.ptr_copier[OF HookSpec_type_ok])

lemma PlanHookRef_DeepCopy_copier:
    "deep_copier (read_ptr PlanHookRef_type read_flat) PlanHookRef_DeepCopy"
  unfolding PlanHookRef_DeepCopy_def flat_DeepCopyInto by (rule flat.ptr_copier[OF PlanHookRef_type_ok])

lemma WarmConfig_DeepCopy_copier:
    "deep_copier (read_ptr WarmConfig_type read_flat) WarmConfig_DeepCopy"
  unfolding WarmConfig_DeepCopy_def flat_DeepCopyInto by (rule flat.ptr_copier[OF WarmConfig_type_ok])

lemma NetworkSource_DeepCopy_copier:
    "deep_copier (read_ptr NetworkSource_type read_flat) NetworkSource_DeepCopy"
  unfolding NetworkSource_DeepCopy_def flat_DeepCopyInto by (rule flat.ptr_copier[OF NetworkSource_type_ok])

lemma NetworkDestination_DeepCopy_copier:
    "deep_copier (read_ptr NetworkDestination_type read_flat) NetworkDestination_DeepCopy"
  unfolding NetworkDestination_DeepCopy_def flat_DeepCopyInto by (rule flat.ptr_copier[OF NetworkDestination_type_ok])

lemma NetworkPair_DeepCopy_copier:
    "deep_copier (read_ptr NetworkPair_type read_flat) NetworkPair_DeepCopy"
  unfolding NetworkPair_DeepCopy_def flat_DeepCopyInto by (rule flat.ptr_copier[OF NetworkPair_type_ok])

lemma NutanixProviderSpec_DeepCopy_copier:
    "deep_copier (read_ptr NutanixProviderSpec_type read_flat) NutanixProviderSpec_DeepCopy"
  unfolding NutanixProviderSpec_DeepCopy_def flat_DeepCopyInto by (rule flat.ptr_copier[OF NutanixProviderSpec_type_ok])

lemma StorageSource_DeepCopy_copier:
    "deep_copier (read_ptr StorageSource_type read_flat) StorageSource_DeepCopy"
  unfolding StorageSource_DeepCopy_def flat_DeepCopyInto by (rule flat.ptr_copier[OF StorageSource_type_ok])

lemma StorageDestination_DeepCopy_copier:
    "deep_copier (read_ptr StorageDestination_type read_flat) StorageDestination_DeepCopy"
  unfolding StorageDestination_DeepCopy_def flat_DeepCopyInto by (rule flat.ptr_copier[OF StorageDestination_type_ok])

lemma StoragePair_DeepCopy_copier:
    "deep_copier (read_ptr StoragePair_type read_flat) StoragePair_DeepCopy"
  unfolding StoragePair_DeepCopy_def flat_DeepCopyInto by (rule flat.ptr_copier[OF StoragePair_type_ok])

text \<open>\<^verbatim>\<open>DeepCopyObject\<close> never wraps a nil pointer.\<close>

lemma new_copy_nil_iff:
    "new_copy T into p h = Some (c, h') \<Longrightarrow> c = None \<longleftrightarrow> p = None"
  by (auto simp: new_copy_def go_new_def split: if_splits bind_splits)

end
