(* ===== verification/Object_Copies.thy ===== *)
theory Object_Copies
  imports Deep_Copy
begin

text \<open>
  What the deep copies give to a program that shares objects: a library instance on which the
  contract of \<^verbatim>\<open>Deep_Copy\<close> is discharged, a sample heap, and the properties of the copies handed
  out to the reconcilers.
\<close>

section \<open>An instance of the library\<close>

text \<open>
  Metadata with the kinds of fields the library's structs have: strings, a slice of strings
  (finalizers), times. The copy functions are the library's: assign, then copy what is behind
  references.
\<close>

datatype meta_mem =
  ObjectMetaM string string slice
| ListMetaM string
| ConditionM string string int
| TimeM int

datatype meta_val =
  ObjectMetaV string string "string list option"
| ListMetaV string
| ConditionV string string int
| TimeV int

fun meta_DeepCopyInto :: "(meta_mem, meta_mem block) copy_into" where
  "meta_DeepCopyInto (ObjectMetaM name ns fin) h = do {
     (fin, h) \<leftarrow> copy_flat String_type fin h;
     Some (ObjectMetaM name ns fin, h) }"
| "meta_DeepCopyInto (ListMetaM version) h = Some (ListMetaM version, h)"
| "meta_DeepCopyInto (ConditionM type status time) h = Some (ConditionM type status time, h)"
| "meta_DeepCopyInto (TimeM time) h = Some (TimeM time, h)"

fun read_meta :: "(meta_mem, meta_val, meta_mem block) reader" where
  "read_meta h (ObjectMetaM name ns fin) = do {
     (fin, F) \<leftarrow> read_slice String_type read_flat h fin;
     Some (ObjectMetaV name ns fin, F) }"
| "read_meta h (ListMetaM version) = Some (ListMetaV version, [])"
| "read_meta h (ConditionM type status time) = Some (ConditionV type status time, [])"
| "read_meta h (TimeM time) = Some (TimeV time, [])"

definition sample_Time_type :: "(meta_mem, meta_mem block) gotype" where
  "sample_Time_type = \<lparr>tag = Time_block,
     untag = (\<lambda>b. case b of Time_block xs \<Rightarrow> Some xs | _ \<Rightarrow> None), zero = TimeM 0\<rparr>"

definition sample_lib :: "(meta_mem, meta_val) metav1_lib" where
  "sample_lib = \<lparr>ObjectMeta_zero = ObjectMetaM [] [] None, ListMeta_zero = ListMetaM [],
     Condition_zero = ConditionM [] [] 0, Time_zero = TimeM 0,
     ObjectMeta_DeepCopyInto = meta_DeepCopyInto, ListMeta_DeepCopyInto = meta_DeepCopyInto,
     Condition_DeepCopyInto = meta_DeepCopyInto,
     Time_DeepCopy = new_copy sample_Time_type meta_DeepCopyInto,
     read_ObjectMeta = read_meta, read_ListMeta = read_meta, read_Condition = read_meta,
     read_Time = read_meta\<rparr>"

lemma sample_Time_type: "Time_type sample_lib = sample_Time_type"
  by (simp add: Time_type_def sample_Time_type_def sample_lib_def)

interpretation strings: deep_copier "read_slice String_type read_flat" "copy_flat String_type"
  by (rule copy_flat_copier[OF String_type_ok])

interpretation meta: deep_copier read_meta meta_DeepCopyInto
proof
  fix h h' v t F
  assume r: "read_meta h v = Some (t, F)" and eq: "\<And>a. a \<in> set F \<Longrightarrow> block_at h' a = block_at h a"
  show "read_meta h' v = Some (t, F)"
  proof (cases v)
    case (ObjectMetaM name ns fin)
    with r obtain u where "read_slice String_type read_flat h fin = Some (u, F)" "t = ObjectMetaV name ns u"
      by (auto split: bind_splits)
    then show ?thesis using ObjectMetaM strings.frame eq by fastforce
  qed (use r in simp_all)
next
  fix h v t F
  assume "read_meta h v = Some (t, F)"
  then show "set F \<subseteq> {..<length h}"
    by (cases v) (fastforce split: bind_splits dest: strings.bounded)+
next
  fix h v t F
  assume r: "read_meta h v = Some (t, F)"
  show "\<exists>v' h' G. meta_DeepCopyInto v h = Some (v', h') \<and> prefix h h'
      \<and> read_meta h' v' = Some (t, G) \<and> set G \<subseteq> {length h..<length h'}"
  proof (cases v)
    case (ObjectMetaM name ns fin)
    with r obtain u where u: "read_slice String_type read_flat h fin = Some (u, F)" "t = ObjectMetaV name ns u"
      by (auto split: bind_splits)
    from strings.copies[OF u(1)] show ?thesis unfolding ObjectMetaM u(2) by force
  qed (use r in auto)
qed

interpretation sample: metav1 sample_lib
proof (rule metav1.intro)
  show "deep_copier (read_ObjectMeta sample_lib) (ObjectMeta_DeepCopyInto sample_lib)"
    and "deep_copier (read_ListMeta sample_lib) (ListMeta_DeepCopyInto sample_lib)"
    and "deep_copier (read_Condition sample_lib) (Condition_DeepCopyInto sample_lib)"
    by (simp_all add: sample_lib_def meta.deep_copier_axioms)
  have "gotype_ok sample_Time_type" by (simp add: gotype_ok_def sample_Time_type_def)
  then show "deep_copier (read_ptr (Time_type sample_lib) (read_Time sample_lib)) (Time_DeepCopy sample_lib)"
    unfolding sample_Time_type by (simp add: sample_lib_def meta.ptr_copier)
qed

section \<open>Copies handed out\<close>

text \<open>A migration with one VM whose base image is an entry of its image list: two slices of one
  array, as Go programs may share them.\<close>

definition sample_heap :: "meta_mem block list" where
  "sample_heap = [
     Time_block [TimeM 5],
     String_block [''img-1'', ''img-2''],
     WarmMigrationStatus_block [WarmMigrationStatus_zero\<lparr>WarmMigrationStatus_BaseImageUUIDs := Some (1, 1, 1)\<rparr>],
     VMMigrationStatus_block [VMMigrationStatus_zero\<lparr>VMMigrationStatus_ID := ''vm-1'',
       VMMigrationStatus_Started := Some (0, 0), VMMigrationStatus_ImageUUIDs := Some (1, 0, 2),
       VMMigrationStatus_Warm := Some (2, 0)\<rparr>],
     String_block [''vma.nutanix.io/finalizer''],
     Migration_block [(Migration_zero sample_lib)\<lparr>
       Migration_ObjectMeta := ObjectMetaM ''m'' ''default'' (Some (4, 0, 1)),
       Migration_Status := MigrationStatus_zero\<lparr>MigrationStatus_VMs := Some (3, 0, 1)\<rparr>\<rparr>]]"

lemmas sample_simps = sample_heap_def sample_lib_def load_def array_at_def block_at_def elems_def
  read_ptr_def read_slice_def read_both_def read_flat_def
  read_Migration_def read_MigrationSpec_def read_MigrationStatus_def read_VMMigrationStatus_def
  read_WarmMigrationStatus_def Migration_refs_def MigrationSpec_refs_def MigrationStatus_refs_def
  VMMigrationStatus_refs_def WarmMigrationStatus_refs_def Migration_zero_def MigrationSpec_zero_def
  MigrationStatus_zero_def VMMigrationStatus_zero_def WarmMigrationStatus_zero_def
  Migration_type_def VMMigrationStatus_type_def WarmMigrationStatus_type_def String_type_def
  Time_type_def Condition_type_def

text \<open>The sample is a value of the type, and everything it refers to is read.\<close>

lemma sample_reads:
    "\<exists>t. read_ptr (Migration_type sample_lib) (read_Migration sample_lib) sample_heap (Some (5, 0))
    = Some (Some t, [5, 4, 3, 0, 1, 2, 1])"
  by (simp add: sample_simps)

text \<open>C38. \<^verbatim>\<open>DeepCopyObject\<close> of a migration, which is how the cache hands one out, returns: the copy
  is a non-nil object that reads exactly as the migration (metadata, spec, VM statuses, image lists,
  warm status, conditions), existing memory is unchanged, and no sequence of writes to older memory
  changes what the copy reads, nor any sequence of writes to the copy's memory what any migration
  that existed before reads. A nil pointer gives the nil object.\<close>

theorem Migration_DeepCopyObject_isolated:
  assumes "metav1 X"
    and "read_ptr (Migration_type X) (read_Migration X) h p = Some (Some t, F)"
  shows "(\<exists>c h' G. Migration_DeepCopyObject X p h = Some (Object ''Migration'' c, h') \<and> prefix h h'
      \<and> read_ptr (Migration_type X) (read_Migration X) h' c = Some (Some t, G)
      \<and> set G \<subseteq> {length h..<length h'}
      \<and> (\<forall>ws. (\<forall>(a, b) \<in> set ws. a < length h)
          \<longrightarrow> read_ptr (Migration_type X) (read_Migration X) (write_all ws h') c = Some (Some t, G))
      \<and> (\<forall>ws q u H. (\<forall>(a, b) \<in> set ws. length h \<le> a)
            \<and> read_ptr (Migration_type X) (read_Migration X) h q = Some (u, H)
          \<longrightarrow> read_ptr (Migration_type X) (read_Migration X) (write_all ws h') q = Some (u, H)))
    \<and> Migration_DeepCopyObject X None h = Some (NilObject, h)" (is "?copy \<and> ?nil")
proof
  have "p \<noteq> None" using assms(2) by (cases p) (simp_all add: read_ptr_def)
  then have obj: "Migration_DeepCopyObject X p h = Some (Object ''Migration'' c, h')"
    if "Migration_DeepCopy X p h = Some (c, h')" for c h'
    using that new_copy_nil_iff by (fastforce simp: Migration_DeepCopyObject_def Migration_DeepCopy_def)
  show ?copy
    using deep_copier.isolated[OF metav1.Migration_DeepCopy_copier[OF assms(1)] assms(2)]
    by (elim exE conjE) (intro exI conjI, erule obj)
  show ?nil by (simp add: Migration_DeepCopyObject_def Migration_DeepCopy_def new_copy_def)
qed

theorem Migration_DeepCopyObject_isolated_witness:
  "\<exists>t c h' G. Migration_DeepCopyObject sample_lib (Some (5, 0)) sample_heap = Some (Object ''Migration'' c, h')
     \<and> read_ptr (Migration_type sample_lib) (read_Migration sample_lib) h' c = Some (Some t, G)
     \<and> set G \<subseteq> {6..<length h'}"
proof -
  obtain t where "read_ptr (Migration_type sample_lib) (read_Migration sample_lib) sample_heap (Some (5, 0))
      = Some (Some t, [5, 4, 3, 0, 1, 2, 1])"
    using sample_reads by blast
  moreover have "length sample_heap = 6" by (simp add: sample_heap_def)
  ultimately show ?thesis using Migration_DeepCopyObject_isolated[OF sample.metav1_axioms, of sample_heap] by metis
qed

text \<open>C39. Every \<^verbatim>\<open>DeepCopy\<close> method of the API package is a deep copy: it returns nil for nil, and
  otherwise a pointer to a new struct that reads as the original through new memory only, leaving
  all existing memory as it was (the laws of \<^verbatim>\<open>deep_copier\<close>).\<close>

theorem DeepCopy_is_deep:
  assumes "metav1 X"
  shows "deep_copier (read_ptr Concern_type read_flat) Concern_DeepCopy
    \<and> deep_copier (read_ptr HookSpec_type read_flat) HookSpec_DeepCopy
    \<and> deep_copier (read_ptr HookStatus_type (read_HookStatus X)) (HookStatus_DeepCopy X)
    \<and> deep_copier (read_ptr (Hook_type X) (read_Hook X)) (Hook_DeepCopy X)
    \<and> deep_copier (read_ptr (HookList_type X) (read_HookList X)) (HookList_DeepCopy X)
    \<and> deep_copier (read_ptr WarmMigrationStatus_type (read_WarmMigrationStatus X)) (WarmMigrationStatus_DeepCopy X)
    \<and> deep_copier (read_ptr VMMigrationStatus_type (read_VMMigrationStatus X)) (VMMigrationStatus_DeepCopy X)
    \<and> deep_copier (read_ptr MigrationSpec_type (read_MigrationSpec X)) (MigrationSpec_DeepCopy X)
    \<and> deep_copier (read_ptr MigrationStatus_type (read_MigrationStatus X)) (MigrationStatus_DeepCopy X)
    \<and> deep_copier (read_ptr (Migration_type X) (read_Migration X)) (Migration_DeepCopy X)
    \<and> deep_copier (read_ptr (MigrationList_type X) (read_MigrationList X)) (MigrationList_DeepCopy X)
    \<and> deep_copier (read_ptr PlanHookRef_type read_flat) PlanHookRef_DeepCopy
    \<and> deep_copier (read_ptr PlanVM_type read_PlanVM) PlanVM_DeepCopy
    \<and> deep_copier (read_ptr WarmConfig_type read_flat) WarmConfig_DeepCopy
    \<and> deep_copier (read_ptr VMValidationStatus_type read_VMValidationStatus) VMValidationStatus_DeepCopy
    \<and> deep_copier (read_ptr MigrationPlanSpec_type read_MigrationPlanSpec) MigrationPlanSpec_DeepCopy
    \<and> deep_copier (read_ptr MigrationPlanStatus_type (read_MigrationPlanStatus X)) (MigrationPlanStatus_DeepCopy X)
    \<and> deep_copier (read_ptr (MigrationPlan_type X) (read_MigrationPlan X)) (MigrationPlan_DeepCopy X)
    \<and> deep_copier (read_ptr (MigrationPlanList_type X) (read_MigrationPlanList X)) (MigrationPlanList_DeepCopy X)
    \<and> deep_copier (read_ptr NetworkSource_type read_flat) NetworkSource_DeepCopy
    \<and> deep_copier (read_ptr NetworkDestination_type read_flat) NetworkDestination_DeepCopy
    \<and> deep_copier (read_ptr NetworkPair_type read_flat) NetworkPair_DeepCopy
    \<and> deep_copier (read_ptr NetworkMapSpec_type read_NetworkMapSpec) NetworkMapSpec_DeepCopy
    \<and> deep_copier (read_ptr (NetworkMap_type X) (read_NetworkMap X)) (NetworkMap_DeepCopy X)
    \<and> deep_copier (read_ptr (NetworkMapList_type X) (read_NetworkMapList X)) (NetworkMapList_DeepCopy X)
    \<and> deep_copier (read_ptr NutanixProviderSpec_type read_flat) NutanixProviderSpec_DeepCopy
    \<and> deep_copier (read_ptr NutanixProviderStatus_type (read_NutanixProviderStatus X)) (NutanixProviderStatus_DeepCopy X)
    \<and> deep_copier (read_ptr (NutanixProvider_type X) (read_NutanixProvider X)) (NutanixProvider_DeepCopy X)
    \<and> deep_copier (read_ptr (NutanixProviderList_type X) (read_NutanixProviderList X)) (NutanixProviderList_DeepCopy X)
    \<and> deep_copier (read_ptr StorageSource_type read_flat) StorageSource_DeepCopy
    \<and> deep_copier (read_ptr StorageDestination_type read_flat) StorageDestination_DeepCopy
    \<and> deep_copier (read_ptr StoragePair_type read_flat) StoragePair_DeepCopy
    \<and> deep_copier (read_ptr StorageMapSpec_type read_StorageMapSpec) StorageMapSpec_DeepCopy
    \<and> deep_copier (read_ptr (StorageMap_type X) (read_StorageMap X)) (StorageMap_DeepCopy X)
    \<and> deep_copier (read_ptr (StorageMapList_type X) (read_StorageMapList X)) (StorageMapList_DeepCopy X)"
  using assms
  by (intro conjI Concern_DeepCopy_copier HookSpec_DeepCopy_copier
      metav1.HookStatus_DeepCopy_copier metav1.Hook_DeepCopy_copier
      metav1.HookList_DeepCopy_copier metav1.WarmMigrationStatus_DeepCopy_copier
      metav1.VMMigrationStatus_DeepCopy_copier metav1.MigrationSpec_DeepCopy_copier
      metav1.MigrationStatus_DeepCopy_copier metav1.Migration_DeepCopy_copier
      metav1.MigrationList_DeepCopy_copier PlanHookRef_DeepCopy_copier
      metav1.PlanVM_DeepCopy_copier WarmConfig_DeepCopy_copier
      metav1.VMValidationStatus_DeepCopy_copier
      metav1.MigrationPlanSpec_DeepCopy_copier
      metav1.MigrationPlanStatus_DeepCopy_copier metav1.MigrationPlan_DeepCopy_copier
      metav1.MigrationPlanList_DeepCopy_copier NetworkSource_DeepCopy_copier
      NetworkDestination_DeepCopy_copier NetworkPair_DeepCopy_copier
      metav1.NetworkMapSpec_DeepCopy_copier metav1.NetworkMap_DeepCopy_copier
      metav1.NetworkMapList_DeepCopy_copier NutanixProviderSpec_DeepCopy_copier
      metav1.NutanixProviderStatus_DeepCopy_copier
      metav1.NutanixProvider_DeepCopy_copier metav1.NutanixProviderList_DeepCopy_copier
      StorageSource_DeepCopy_copier StorageDestination_DeepCopy_copier
      StoragePair_DeepCopy_copier metav1.StorageMapSpec_DeepCopy_copier
      metav1.StorageMap_DeepCopy_copier metav1.StorageMapList_DeepCopy_copier)

theorem DeepCopy_is_deep_witness:
  "deep_copier (read_ptr (MigrationPlanList_type sample_lib) (read_MigrationPlanList sample_lib))
     (MigrationPlanList_DeepCopy sample_lib)"
  using DeepCopy_is_deep[OF sample.metav1_axioms] by blast

end
