(* ===== verification/Registration.thy ===== *)
theory Registration
  imports Deep_Copy
begin

text \<open>
  Registration of the API types (\<^verbatim>\<open>api/v1alpha1/groupversion_info.go\<close>, the \<^verbatim>\<open>init\<close> functions of the type files and of
  \<^verbatim>\<open>cmd/main.go\<close>). The scheme builder of controller-runtime and the \<^verbatim>\<open>AddToScheme\<close> functions are parameters: a builder
  of any type \<^typ>\<open>'b\<close> with \<^verbatim>\<open>Register\<close>, which is given the dynamic types of its arguments, and a scheme of any
  type \<^typ>\<open>'s\<close>. Last, the collectors of \<^verbatim>\<open>observability/metrics.go\<close> and their registration.
\<close>

section \<open>API types\<close>

record GroupVersion =
  gv_Group :: string
  gv_Version :: string

definition v1alpha1_GroupVersion :: GroupVersion where
  "v1alpha1_GroupVersion = \<lparr>gv_Group = ''vma.nutanix.io'', gv_Version = ''v1alpha1''\<rparr>"

definition v1alpha1_SchemeBuilder :: "(GroupVersion \<Rightarrow> 'b) \<Rightarrow> 'b" where
  "v1alpha1_SchemeBuilder newBuilder = newBuilder v1alpha1_GroupVersion"

definition hook_init :: "(string list \<Rightarrow> 'b \<Rightarrow> 'b) \<Rightarrow> 'b \<Rightarrow> 'b" where
  "hook_init Register = Register [''Hook'', ''HookList'']"

definition migration_init :: "(string list \<Rightarrow> 'b \<Rightarrow> 'b) \<Rightarrow> 'b \<Rightarrow> 'b" where
  "migration_init Register = Register [''Migration'', ''MigrationList'']"

definition migrationplan_init :: "(string list \<Rightarrow> 'b \<Rightarrow> 'b) \<Rightarrow> 'b \<Rightarrow> 'b" where
  "migrationplan_init Register = Register [''MigrationPlan'', ''MigrationPlanList'']"

definition networkmap_init :: "(string list \<Rightarrow> 'b \<Rightarrow> 'b) \<Rightarrow> 'b \<Rightarrow> 'b" where
  "networkmap_init Register = Register [''NetworkMap'', ''NetworkMapList'']"

definition nutanixprovider_init :: "(string list \<Rightarrow> 'b \<Rightarrow> 'b) \<Rightarrow> 'b \<Rightarrow> 'b" where
  "nutanixprovider_init Register = Register [''NutanixProvider'', ''NutanixProviderList'']"

definition storagemap_init :: "(string list \<Rightarrow> 'b \<Rightarrow> 'b) \<Rightarrow> 'b \<Rightarrow> 'b" where
  "storagemap_init Register = Register [''StorageMap'', ''StorageMapList'']"

text \<open>Initialization of the package: its variables, then the \<^verbatim>\<open>init\<close> functions in the order of the files.\<close>

definition v1alpha1_package :: "(GroupVersion \<Rightarrow> 'b) \<Rightarrow> (string list \<Rightarrow> 'b \<Rightarrow> 'b) \<Rightarrow> 'b" where
  "v1alpha1_package newBuilder Register =
     (storagemap_init Register \<circ> nutanixprovider_init Register \<circ> networkmap_init Register
      \<circ> migrationplan_init Register \<circ> migration_init Register \<circ> hook_init Register)
     (v1alpha1_SchemeBuilder newBuilder)"

text \<open>\<^verbatim>\<open>init\<close> of the manager: \<^verbatim>\<open>utilruntime.Must\<close> panics with the first error, which is the value \<^const>\<open>Inl\<close>.\<close>

fun must_all :: "('s \<Rightarrow> go_error + 's) list \<Rightarrow> 's \<Rightarrow> go_error + 's" where
  "must_all [] scheme = Inr scheme"
| "must_all (add # adds) scheme = (case add scheme of Inl err \<Rightarrow> Inl err | Inr scheme' \<Rightarrow> must_all adds scheme')"

definition manager_init :: "('s \<Rightarrow> go_error + 's) \<Rightarrow> ('s \<Rightarrow> go_error + 's) \<Rightarrow> ('s \<Rightarrow> go_error + 's)
    \<Rightarrow> ('s \<Rightarrow> go_error + 's) \<Rightarrow> 's \<Rightarrow> go_error + 's" where
  "manager_init clientgo vma kubevirt cdi newScheme = must_all [clientgo, vma, kubevirt, cdi] newScheme"

text \<open>With a builder that collects what is registered, the package registers each of its kinds and their lists
  exactly once, and with that everything that \<^verbatim>\<open>DeepCopyObject\<close> of this package returns has a registered type.\<close>

lemma v1alpha1_kinds:
  assumes "\<And>ks b. kinds (Register ks b) = kinds b @ ks" and "\<And>gv. kinds (newBuilder gv) = []"
  shows "kinds (v1alpha1_package newBuilder Register) =
      [''Hook'', ''HookList'', ''Migration'', ''MigrationList'', ''MigrationPlan'', ''MigrationPlanList'', ''NetworkMap'',
       ''NetworkMapList'', ''NutanixProvider'', ''NutanixProviderList'', ''StorageMap'', ''StorageMapList'']"
  using assms by (simp add: v1alpha1_package_def v1alpha1_SchemeBuilder_def hook_init_def migration_init_def
      migrationplan_init_def networkmap_init_def nutanixprovider_init_def storagemap_init_def)

lemma DeepCopyObject_registered:
  assumes "\<And>ks b. kinds (Register ks b) = kinds b @ ks" and "\<And>gv. kinds (newBuilder gv) = []"
    and "Some (Object kind c, h') \<in> {f X p h | f. f \<in> {Hook_DeepCopyObject, HookList_DeepCopyObject,
      Migration_DeepCopyObject, MigrationList_DeepCopyObject, MigrationPlan_DeepCopyObject, MigrationPlanList_DeepCopyObject,
      NetworkMap_DeepCopyObject, NetworkMapList_DeepCopyObject, NutanixProvider_DeepCopyObject,
      NutanixProviderList_DeepCopyObject, StorageMap_DeepCopyObject, StorageMapList_DeepCopyObject}}"
  shows "kind \<in> set (kinds (v1alpha1_package newBuilder Register))"
proof -
  have "kind \<in> {''Hook'', ''HookList'', ''Migration'', ''MigrationList'', ''MigrationPlan'', ''MigrationPlanList'', ''NetworkMap'',
       ''NetworkMapList'', ''NutanixProvider'', ''NutanixProviderList'', ''StorageMap'', ''StorageMapList''}"
    using assms(3)
    by (elim CollectE exE conjE insertE emptyE)
       (simp_all add: Hook_DeepCopyObject_def HookList_DeepCopyObject_def Migration_DeepCopyObject_def
        MigrationList_DeepCopyObject_def MigrationPlan_DeepCopyObject_def MigrationPlanList_DeepCopyObject_def
        NetworkMap_DeepCopyObject_def NetworkMapList_DeepCopyObject_def NutanixProvider_DeepCopyObject_def
        NutanixProviderList_DeepCopyObject_def StorageMap_DeepCopyObject_def StorageMapList_DeepCopyObject_def
        split: bind_splits prod.splits if_splits)
  then show ?thesis unfolding v1alpha1_kinds[where kinds = kinds, OF assms(1,2)] by simp
qed

lemma manager_init_error: "manager_init clientgo vma kubevirt cdi s = Inl err \<longleftrightarrow>
    clientgo s = Inl err
    \<or> (\<exists>s1. clientgo s = Inr s1 \<and> (vma s1 = Inl err
    \<or> (\<exists>s2. vma s1 = Inr s2 \<and> (kubevirt s2 = Inl err
    \<or> (\<exists>s3. kubevirt s2 = Inr s3 \<and> cdi s3 = Inl err)))))"
  by (auto simp: manager_init_def split: sum.splits)

section \<open>Metrics\<close>

datatype collector =
  CounterVec (collector_name: string) (collector_labels: "string list")
| HistogramVec (collector_name: string) (buckets: "int list") (collector_labels: "string list")
| Gauge (collector_name: string)

definition observability_collectors :: "(int \<Rightarrow> int \<Rightarrow> nat \<Rightarrow> int list) \<Rightarrow> collector list" where
  "observability_collectors ExponentialBuckets =
     [CounterVec ''vma_migrations_total'' [''status''],
      HistogramVec ''vma_migration_duration_seconds'' (ExponentialBuckets 60 2 10) [''vm''],
      CounterVec ''vma_disk_transfer_bytes'' [''vm''],
      Gauge ''vma_active_migrations'']"

definition observability_init :: "(int \<Rightarrow> int \<Rightarrow> nat \<Rightarrow> int list) \<Rightarrow> (collector list \<Rightarrow> 'r \<Rightarrow> 'r) \<Rightarrow> 'r \<Rightarrow> 'r" where
  "observability_init ExponentialBuckets MustRegister = MustRegister (observability_collectors ExponentialBuckets)"

text \<open>\<^verbatim>\<open>MustRegister\<close> panics on two collectors of the same name; there are none.\<close>

lemma collector_names_distinct: "distinct (map collector_name (observability_collectors eb))"
  by (simp add: observability_collectors_def)

end
