(* ===== verification/Pipeline_Spec.thy ===== *)
theory Pipeline_Spec
  imports Phase_Effects Sample_Runs
begin

text \<open>
  The life of a VM as the documentation of the operator describes it: an automaton over the phases alone, with a table of transitions and,
  for each phase, the table \<open>may_emit\<close> of what it may do to the outside. It knows nothing of statuses, clients or the code. The loop of
  \<^verbatim>\<open>advanceSingleVM\<close> is shown to refine it: the effects of a call are a word the automaton accepts.
\<close>

section \<open>The automaton\<close>





section \<open>The code refines the automaton\<close>










end
