(* ===== verification/Mock_Concurrency.thy ===== *)
theory Mock_Concurrency
  imports Mock_Server
begin

text \<open>
  The mock server under concurrent requests. Each request runs on its own goroutine; what is atomic is one
  increment of a counter (\<^verbatim>\<open>atomic.Int64\<close>) and one section under the lock of the store
  (\<^verbatim>\<open>sync.RWMutex\<close>); the CBT configuration is read without it, but is never written once the server runs. The methods that add an entity take their number before they take the lock, so another
  request can run in between. A goroutine is therefore a \<^verbatim>\<open>thread\<close>: the next atomic operation on the store
  together with what follows it, as a function of its result.

  A request that runs alone does exactly what \<^verbatim>\<open>ServeHTTP\<close> does, so the threads are the handlers of
  \<^verbatim>\<open>Mock_Server\<close>, cut at the points where the lock is free. The result on interleavings is a safety property
  of all reachable states; an example shows that the interleavings give more
  than the sequential orders of the requests. The lock itself, and with it blocking and progress, is modelled in \<^verbatim>\<open>Mock_Locks\<close>.
\<close>

section \<open>Goroutines\<close>

datatype thread =
  Done "http_response option"
| Read "Store \<Rightarrow> thread"
| NextImage "nat \<Rightarrow> thread"
| NextTask "nat \<Rightarrow> thread"
| PutRecoveryPoint nat RecoveryPoint thread
| PutImage nat Image thread
| AppendClone nat string thread
| PutTask nat "TaskEntity list" nat thread
| DropRecoveryPoint string "bool \<Rightarrow> thread"
| DropImage string "bool \<Rightarrow> thread"
| AdvanceTask string "Task option \<Rightarrow> thread"
| SetPower string string thread
| RemoveVM string thread

text \<open>One atomic operation.\<close>

fun atomic_step :: "thread \<Rightarrow> Store \<Rightarrow> thread \<times> Store" where
  "atomic_step (Done r) s = (Done r, s)"
| "atomic_step (Read k) s = (k s, s)"
| "atomic_step (NextImage k) s = (k (sto_imageCounter s + 1), s\<lparr>sto_imageCounter := sto_imageCounter s + 1\<rparr>)"
| "atomic_step (NextTask k) s = (k (sto_taskCounter s + 1), s\<lparr>sto_taskCounter := sto_taskCounter s + 1\<rparr>)"
| "atomic_step (PutRecoveryPoint n rp t) s =
     (t, s\<lparr>sto_RecoveryPoints := (sto_RecoveryPoints s)(''rp-'' @ pad8 n \<mapsto>
            rp\<lparr>rp_ExtID := ''rp-'' @ pad8 n, rp_Status := recoveryPointStatusComplete\<rparr>)\<rparr>)"
| "atomic_step (PutImage n img t) s =
     (t, s\<lparr>sto_Images := (sto_Images s)(''img-'' @ pad8 n \<mapsto> img\<lparr>img_ExtID := ''img-'' @ pad8 n\<rparr>)\<rparr>)"
| "atomic_step (AppendClone n name t) s = (t, s\<lparr>sto_VMs := sto_VMs s @ [cloned_vm (''clone-'' @ pad8 n) name]\<rparr>)"
| "atomic_step (PutTask n entities targetPolls t) s =
     (t, s\<lparr>sto_Tasks := (sto_Tasks s)(taskUUIDFromCounter n \<mapsto>
            \<lparr>ts_Task = \<lparr>task_ExtID = taskUUIDFromCounter n, task_Status = TaskStatusQueued, task_OperationType = [],
               task_PercentComplete = 0, task_ErrorMessages = [], task_EntitiesAffected = entities\<rparr>,
             ts_PollCount = 0, ts_TargetPolls = targetPolls\<rparr>)\<rparr>)"
| "atomic_step (DropRecoveryPoint u k) s = (case store_DeleteRecoveryPoint u s of (found, s') \<Rightarrow> (k found, s'))"
| "atomic_step (DropImage u k) s = (case store_DeleteImage u s of (found, s') \<Rightarrow> (k found, s'))"
| "atomic_step (AdvanceTask u k) s = (case store_GetTask u s of (task, s') \<Rightarrow> (k task, s'))"
| "atomic_step (SetPower u state t) s = (t, snd (store_SetVMPowerState u state s))"
| "atomic_step (RemoveVM u t) s = (t, s\<lparr>sto_VMs := remove_vm u (sto_VMs s)\<rparr>)"

section \<open>The store methods and the handlers as goroutines\<close>

definition AddRecoveryPoint_thread :: "RecoveryPoint \<Rightarrow> (string \<Rightarrow> thread) \<Rightarrow> thread" where
  "AddRecoveryPoint_thread rp k = NextImage (\<lambda>n. PutRecoveryPoint n rp (k (''rp-'' @ pad8 n)))"

definition AddImage_thread :: "Image \<Rightarrow> (string \<Rightarrow> thread) \<Rightarrow> thread" where
  "AddImage_thread img k = NextImage (\<lambda>n. PutImage n img (k (''img-'' @ pad8 n)))"

definition CreateTask_thread :: "TaskEntity list \<Rightarrow> nat \<Rightarrow> (string \<Rightarrow> thread) \<Rightarrow> thread" where
  "CreateTask_thread entities targetPolls k =
     NextTask (\<lambda>n. PutTask n entities targetPolls (k (taskUUIDFromCounter n)))"

definition accepted :: "string \<Rightarrow> thread" where
  "accepted taskUUID = Done (Some (writeJSON 202 (taskRefBody taskUUID)))"

definition refused :: "int \<Rightarrow> string \<Rightarrow> thread" where
  "refused status msg = Done (Some (writeError status msg))"

definition handleVMPowerOff_thread :: "string \<Rightarrow> thread" where
  "handleVMPowerOff_thread uuid = Read (\<lambda>s. case store_GetVM uuid s of
        None \<Rightarrow> refused 404 ''VM not found''
      | Some vm \<Rightarrow> CreateTask_thread [\<lparr>ten_ExtID = uuid, ten_Rel = ''vmm:ahv:config:vm''\<rparr>] 2
          (\<lambda>taskUUID. SetPower uuid ''OFF'' (accepted taskUUID)))"

definition handleVMPowerOn_thread :: "string \<Rightarrow> thread" where
  "handleVMPowerOn_thread uuid = Read (\<lambda>s. case store_GetVM uuid s of
        None \<Rightarrow> refused 404 ''VM not found''
      | Some vm \<Rightarrow> CreateTask_thread [\<lparr>ten_ExtID = uuid, ten_Rel = ''vmm:ahv:config:vm''\<rparr>] 2
          (\<lambda>taskUUID. SetPower uuid ''ON'' (accepted taskUUID)))"

definition handleVMDelete_thread :: "string \<Rightarrow> thread" where
  "handleVMDelete_thread uuid = Read (\<lambda>s. case store_GetVM uuid s of
        None \<Rightarrow> refused 404 ''VM not found''
      | Some vm \<Rightarrow> CreateTask_thread [\<lparr>ten_ExtID = uuid, ten_Rel = ''vmm:ahv:config:vm''\<rparr>] 2
          (\<lambda>taskUUID. RemoveVM uuid (accepted taskUUID)))"

definition handleRecoveryPointCreate_thread :: "http_request \<Rightarrow> thread" where
  "handleRecoveryPointCreate_thread q =
     (if rq_Method q \<noteq> ''POST'' then Done (Some method_not_allowed)
      else case Option.bind (rq_Body q) dec_rp_body of
          None \<Rightarrow> refused 400 ''invalid request body''
        | Some (name, vms) \<Rightarrow>
            AddRecoveryPoint_thread
              \<lparr>rp_ExtID = [], rp_Name = name, rp_Status = [], rp_VMExtID = (case vms of [] \<Rightarrow> [] | v # _ \<Rightarrow> v),
               rp_ExpirationTime = [], rp_RecoveryPointType = ''APPLICATION_CONSISTENT''\<rparr>
              (\<lambda>rpUUID. CreateTask_thread [\<lparr>ten_ExtID = rpUUID, ten_Rel = ''dataprotection:config:recovery-point''\<rparr>] 2 accepted))"

definition handleRecoveryPointDelete_thread :: "string \<Rightarrow> thread" where
  "handleRecoveryPointDelete_thread uuid = DropRecoveryPoint uuid (\<lambda>found.
     if \<not> found then refused 404 ''recovery point not found''
     else CreateTask_thread [\<lparr>ten_ExtID = uuid, ten_Rel = ''dataprotection:config:recovery-point''\<rparr>] 2 accepted)"

definition handleCloneVMFromRP_thread :: "http_request \<Rightarrow> string \<Rightarrow> thread" where
  "handleCloneVMFromRP_thread q rpUUID = Read (\<lambda>s. case store_GetRecoveryPoint rpUUID s of
        None \<Rightarrow> refused 404 ''recovery point not found''
      | Some rp \<Rightarrow>
          (case Option.bind (rq_Body q) (\<lambda>j. if \<not> is_struct j then None else dec_entries ''vmName'' j) of
             None \<Rightarrow> refused 400 ''invalid request body''
           | Some names \<Rightarrow>
               (let vmName = (case names of v # _ \<Rightarrow> if v \<noteq> [] then v else ''cloned-vm'' | [] \<Rightarrow> ''cloned-vm'')
                in NextImage (\<lambda>n. AppendClone n vmName
                     (CreateTask_thread [\<lparr>ten_ExtID = ''clone-'' @ pad8 n, ten_Rel = ''vmm:ahv:config:vm''\<rparr>] 2 accepted)))))"

definition handleImageCreate_thread :: "http_request \<Rightarrow> thread" where
  "handleImageCreate_thread q =
     (if rq_Method q \<noteq> ''POST'' then Done (Some method_not_allowed)
      else case Option.bind (rq_Body q) dec_image_body of
          None \<Rightarrow> refused 400 ''invalid request body''
        | Some (name, ty) \<Rightarrow>
            AddImage_thread
              \<lparr>img_ExtID = [], img_Name = name, img_Type = ty, img_SizeBytes = defaultImageSize, img_SourceURI = []\<rparr>
              (\<lambda>imgUUID. CreateTask_thread [\<lparr>ten_ExtID = imgUUID, ten_Rel = ''vmm:images:image''\<rparr>] 2 accepted))"

definition handleImageDelete_thread :: "string \<Rightarrow> thread" where
  "handleImageDelete_thread uuid = DropImage uuid (\<lambda>found.
     if \<not> found then refused 404 ''image not found''
     else CreateTask_thread [\<lparr>ten_ExtID = uuid, ten_Rel = ''vmm:images:image''\<rparr>] 2 accepted)"

definition handleTask_thread :: "http_request \<Rightarrow> string \<Rightarrow> thread" where
  "handleTask_thread q path =
     (if rq_Method q \<noteq> ''GET'' then Done (Some method_not_allowed)
      else let uuid = TrimPrefix path taskBasePath
        in if uuid = [] then refused 400 ''task UUID required''
           else AdvanceTask uuid (\<lambda>task. case task of
               None \<Rightarrow> refused 404 ''task not found''
             | Some task \<Rightarrow> Done (Some (writeJSON 200 (enc_Task task)))))"

text \<open>A handler that reads the store once, in one section under the read lock, and only then computes.\<close>

definition reading :: "(Store \<Rightarrow> served) \<Rightarrow> thread" where
  "reading h = Read (\<lambda>s. Done (fst (h s)))"

definition handleVMByID_thread :: "http_request \<Rightarrow> string \<Rightarrow> thread" where
  "handleVMByID_thread q path =
     (case split_first CHR ''/'' (TrimPrefix path (vmBasePath @ ''/'')) of
        (uuid, Some action) \<Rightarrow>
          if action = ''$actions/power-off'' \<and> rq_Method q = ''POST'' then handleVMPowerOff_thread uuid
          else if action = ''$actions/power-on'' \<and> rq_Method q = ''POST'' then handleVMPowerOn_thread uuid
          else refused 404 ''unknown action''
      | (uuid, None) \<Rightarrow>
          if rq_Method q = ''GET'' then reading (handleVMGet uuid)
          else if rq_Method q = ''DELETE'' then handleVMDelete_thread uuid
          else Done (Some method_not_allowed))"

definition handleRecoveryPointByID_thread :: "http_request \<Rightarrow> string \<Rightarrow> thread" where
  "handleRecoveryPointByID_thread q path =
     (case split_first CHR ''/'' (TrimPrefix path (recoveryPointBasePath @ ''/'')) of
        (uuid, Some action) \<Rightarrow>
          if action = ''$actions/vm-recovery'' \<and> rq_Method q = ''POST'' then handleCloneVMFromRP_thread q uuid
          else refused 404 ''unknown action''
      | (uuid, None) \<Rightarrow>
          if rq_Method q = ''GET'' then reading (handleRecoveryPointGet uuid)
          else if rq_Method q = ''DELETE'' then handleRecoveryPointDelete_thread uuid
          else Done (Some method_not_allowed))"

definition handleImageByID_thread :: "http_request \<Rightarrow> string \<Rightarrow> thread" where
  "handleImageByID_thread q path =
     (case split_first CHR ''/'' (TrimPrefix path (imageBasePath @ ''/'')) of
        (uuid, rest) \<Rightarrow>
          if rest = Some ''file''
          then if rq_Method q \<noteq> ''GET'' then Done (Some method_not_allowed) else reading (handleImageDownload q uuid)
          else if rq_Method q = ''GET'' then reading (handleImageGet uuid)
          else if rq_Method q = ''DELETE'' then handleImageDelete_thread uuid
          else Done (Some method_not_allowed))"

definition serve_thread :: "string \<Rightarrow> http_request \<Rightarrow> thread" where
  "serve_thread base q =
     (let path = url_path base q; query = url_query base q
      in if path = vmBasePath then reading (handleVMList q query)
         else if prefix (vmBasePath @ ''/'') path then handleVMByID_thread q path
         else if prefix taskBasePath path then handleTask_thread q path
         else if path = subnetBasePath then reading (handleSubnetList q query)
         else if path = storageContainerV2Path then reading (handleStorageContainerList q)
         else if path = clusterBasePath then reading (handleClusterList q query)
         else if path = recoveryPointBasePath then handleRecoveryPointCreate_thread q
         else if prefix (recoveryPointBasePath @ ''/'') path then handleRecoveryPointByID_thread q path
         else if path = imageBasePath then handleImageCreate_thread q
         else if prefix (imageBasePath @ ''/'') path then handleImageByID_thread q path
         else if path = cbtDiscoverPath then reading (handleCBTDiscoverCluster base q)
         else if path = cbtChangedRegionsPath then reading (handleCBTChangedRegions q query)
         else Done (Some \<lparr>rs_Status = 404, rs_Text = ''404 page not found'' @ [CHR 0x0A], rs_Json = None\<rparr>))"

section \<open>A request that runs alone\<close>

primrec run_alone :: "thread \<Rightarrow> Store \<Rightarrow> served" where
  "run_alone (Done r) = (\<lambda>s. (r, s))"
| "run_alone (Read k) = (\<lambda>s. run_alone (k s) s)"
| "run_alone (NextImage k) = (\<lambda>s. run_alone (k (sto_imageCounter s + 1)) (s\<lparr>sto_imageCounter := sto_imageCounter s + 1\<rparr>))"
| "run_alone (NextTask k) = (\<lambda>s. run_alone (k (sto_taskCounter s + 1)) (s\<lparr>sto_taskCounter := sto_taskCounter s + 1\<rparr>))"
| "run_alone (PutRecoveryPoint n rp t) = (\<lambda>s. run_alone t (snd (atomic_step (PutRecoveryPoint n rp t) s)))"
| "run_alone (PutImage n img t) = (\<lambda>s. run_alone t (snd (atomic_step (PutImage n img t) s)))"
| "run_alone (AppendClone n name t) = (\<lambda>s. run_alone t (snd (atomic_step (AppendClone n name t) s)))"
| "run_alone (PutTask n es m t) = (\<lambda>s. run_alone t (snd (atomic_step (PutTask n es m t) s)))"
| "run_alone (DropRecoveryPoint u k) =
     (\<lambda>s. run_alone (k (fst (store_DeleteRecoveryPoint u s))) (snd (store_DeleteRecoveryPoint u s)))"
| "run_alone (DropImage u k) = (\<lambda>s. run_alone (k (fst (store_DeleteImage u s))) (snd (store_DeleteImage u s)))"
| "run_alone (AdvanceTask u k) = (\<lambda>s. run_alone (k (fst (store_GetTask u s))) (snd (store_GetTask u s)))"
| "run_alone (SetPower u state t) = (\<lambda>s. run_alone t (snd (atomic_step (SetPower u state t) s)))"
| "run_alone (RemoveVM u t) = (\<lambda>s. run_alone t (snd (atomic_step (RemoveVM u t) s)))"

text \<open>\<^verbatim>\<open>run_alone\<close> is the iteration of atomic steps without interference.\<close>

lemma run_alone_step: "run_alone t s = (case atomic_step t s of (t', s') \<Rightarrow> run_alone t' s')"
  by (cases t) (simp_all split: prod.split)

lemma run_AddRecoveryPoint: "run_alone (AddRecoveryPoint_thread rp k) s =
    (case store_AddRecoveryPoint rp s of (u, s') \<Rightarrow> run_alone (k u) s')"
  by (simp add: AddRecoveryPoint_thread_def store_AddRecoveryPoint_def Let_def)

lemma run_AddImage: "run_alone (AddImage_thread img k) s =
    (case store_AddImage img s of (u, s') \<Rightarrow> run_alone (k u) s')"
  by (simp add: AddImage_thread_def store_AddImage_def Let_def)

lemma run_CreateTask: "run_alone (CreateTask_thread es m k) s =
    (case store_CreateTask es m s of (u, s') \<Rightarrow> run_alone (k u) s')"
  by (simp add: CreateTask_thread_def store_CreateTask_def Let_def)

lemmas run_rules = run_AddRecoveryPoint run_AddImage run_CreateTask accepted_def refused_def

lemma run_reading: "snd (h s) = s \<Longrightarrow> run_alone (reading h) s = h s"
  by (simp add: reading_def prod_eq_iff)

lemma run_vm_handlers:
  "run_alone (handleVMPowerOff_thread u) s = handleVMPowerOff u s"
  "run_alone (handleVMPowerOn_thread u) s = handleVMPowerOn u s"
  "run_alone (handleVMDelete_thread u) s = handleVMDelete u s"
  by (simp_all add: handleVMPowerOff_thread_def handleVMPowerOff_def handleVMPowerOn_thread_def handleVMPowerOn_def
      handleVMDelete_thread_def handleVMDelete_def accept_task_def run_rules split: option.split prod.split)

lemma run_rp_handlers:
  "run_alone (handleRecoveryPointCreate_thread q) s = handleRecoveryPointCreate q s"
  "run_alone (handleRecoveryPointDelete_thread u) s = handleRecoveryPointDelete u s"
  "run_alone (handleCloneVMFromRP_thread q u) s = handleCloneVMFromRP q u s"
  by (simp_all add: handleRecoveryPointCreate_thread_def handleRecoveryPointCreate_def
      handleRecoveryPointDelete_thread_def handleRecoveryPointDelete_def handleCloneVMFromRP_thread_def
      handleCloneVMFromRP_def accept_task_def run_rules Let_def split: option.split prod.split bool.split)

lemma run_image_handlers:
  "run_alone (handleImageCreate_thread q) s = handleImageCreate q s"
  "run_alone (handleImageDelete_thread u) s = handleImageDelete u s"
  by (simp_all add: handleImageCreate_thread_def handleImageCreate_def handleImageDelete_thread_def
      handleImageDelete_def accept_task_def run_rules split: option.split prod.split bool.split)

lemma run_task_handler: "run_alone (handleTask_thread q path) s = handleTask q path s"
  by (simp add: handleTask_thread_def handleTask_def refused_def Let_def split: option.split prod.split)

lemma run_by_id:
  "run_alone (handleVMByID_thread q path) s = handleVMByID q path s"
  "run_alone (handleRecoveryPointByID_thread q path) s = handleRecoveryPointByID q path s"
  "run_alone (handleImageByID_thread q path) s = handleImageByID q path s"
  by (simp_all add: handleVMByID_thread_def handleVMByID_def handleRecoveryPointByID_thread_def
      handleRecoveryPointByID_def handleImageByID_thread_def handleImageByID_def refused_def run_reading
      run_vm_handlers run_rp_handlers run_image_handlers split: prod.split option.split)

text \<open>The goroutines are the handlers: a request whose goroutine runs without interference gives the
  response and leaves the store that \<^verbatim>\<open>ServeHTTP\<close> gives, for every request and every store.\<close>

lemma serve_thread_alone: "run_alone (serve_thread base q) s = ServeHTTP base q s"
  by (simp add: serve_thread_def ServeHTTP_def Let_def run_reading run_by_id run_rp_handlers run_image_handlers
      run_task_handler)

section \<open>Interleavings\<close>

text \<open>The requests in flight and the store; one of the goroutines that is not done takes an atomic step.\<close>

inductive conc_step :: "thread list \<times> Store \<Rightarrow> thread list \<times> Store \<Rightarrow> bool" where
  step: "i < length ts \<Longrightarrow> (\<And>r. ts ! i \<noteq> Done r) \<Longrightarrow> atomic_step (ts ! i) s = (t', s')
    \<Longrightarrow> conc_step (ts, s) (ts[i := t'], s')"

inductive_cases conc_stepE: "conc_step (ts, s) c"

text \<open>A number that was taken from a counter and not yet used.\<close>

fun held_image :: "thread \<Rightarrow> nat option" where
  "held_image (PutRecoveryPoint n rp t) = Some n"
| "held_image (PutImage n img t) = Some n"
| "held_image (AppendClone n name t) = Some n"
| "held_image t = None"

fun held_task :: "thread \<Rightarrow> nat option" where
  "held_task (PutTask n es m t) = Some n"
| "held_task t = None"

definition holds_none :: "thread \<Rightarrow> bool" where
  "holds_none t = (held_image t = None \<and> held_task t = None)"

text \<open>Goroutines use a number right after they took it, and once.\<close>

primrec disciplined :: "thread \<Rightarrow> bool" where
  "disciplined (Done r) = True"
| "disciplined (Read k) = (\<forall>s. disciplined (k s) \<and> holds_none (k s))"
| "disciplined (NextImage k) = (\<forall>n. disciplined (k n) \<and> held_image (k n) = Some n \<and> held_task (k n) = None)"
| "disciplined (NextTask k) = (\<forall>n. disciplined (k n) \<and> held_task (k n) = Some n \<and> held_image (k n) = None)"
| "disciplined (PutRecoveryPoint n rp t) = (disciplined t \<and> holds_none t)"
| "disciplined (PutImage n img t) = (disciplined t \<and> holds_none t)"
| "disciplined (AppendClone n name t) = (disciplined t \<and> holds_none t)"
| "disciplined (PutTask n es m t) = (disciplined t \<and> holds_none t)"
| "disciplined (DropRecoveryPoint u k) = (\<forall>b. disciplined (k b) \<and> holds_none (k b))"
| "disciplined (DropImage u k) = (\<forall>b. disciplined (k b) \<and> holds_none (k b))"
| "disciplined (AdvanceTask u k) = (\<forall>r. disciplined (k r) \<and> holds_none (k r))"
| "disciplined (SetPower u state t) = (disciplined t \<and> holds_none t)"
| "disciplined (RemoveVM u t) = (disciplined t \<and> holds_none t)"

lemmas thread_defs = reading_def accepted_def refused_def AddRecoveryPoint_thread_def AddImage_thread_def
  CreateTask_thread_def handleVMPowerOff_thread_def handleVMPowerOn_thread_def handleVMDelete_thread_def
  handleRecoveryPointCreate_thread_def handleRecoveryPointDelete_thread_def handleCloneVMFromRP_thread_def
  handleImageCreate_thread_def handleImageDelete_thread_def handleTask_thread_def handleVMByID_thread_def
  handleRecoveryPointByID_thread_def handleImageByID_thread_def

lemma disciplined_handlers:
  "disciplined (handleVMByID_thread q path) \<and> holds_none (handleVMByID_thread q path)"
  "disciplined (handleRecoveryPointByID_thread q path) \<and> holds_none (handleRecoveryPointByID_thread q path)"
  "disciplined (handleImageByID_thread q path) \<and> holds_none (handleImageByID_thread q path)"
  "disciplined (handleRecoveryPointCreate_thread q) \<and> holds_none (handleRecoveryPointCreate_thread q)"
  "disciplined (handleImageCreate_thread q) \<and> holds_none (handleImageCreate_thread q)"
  "disciplined (handleTask_thread q path) \<and> holds_none (handleTask_thread q path)"
  "disciplined (reading h) \<and> holds_none (reading h)"
  by (simp_all add: thread_defs holds_none_def Let_def split: prod.split option.split)

lemma serve_disciplined: "disciplined (serve_thread base q)" "holds_none (serve_thread base q)"
  by (simp_all add: serve_thread_def Let_def disciplined_handlers) (simp add: holds_none_def)

text \<open>Numbers that are taken but not used are not in the store; the identifiers of VMs are unique.\<close>

definition vm_ids :: "Store \<Rightarrow> string set" where
  "vm_ids s = vm_ExtID ` set (sto_VMs s)"

definition distinct_vms :: "Store \<Rightarrow> bool" where
  "distinct_vms s = distinct (map vm_ExtID (sto_VMs s))"

definition image_number_free :: "nat \<Rightarrow> Store \<Rightarrow> bool" where
  "image_number_free n s = (sto_RecoveryPoints s (''rp-'' @ pad8 n) = None \<and> sto_Images s (''img-'' @ pad8 n) = None
     \<and> ''clone-'' @ pad8 n \<notin> vm_ids s)"

definition vms_ok :: "Store \<Rightarrow> bool" where
  "vms_ok s = (distinct_vms s
     \<and> (\<forall>n > sto_imageCounter s. ''clone-'' @ pad8 n \<notin> vm_ids s))"

definition numbers_ok :: "Store \<Rightarrow> thread \<Rightarrow> bool" where
  "numbers_ok s t =
     ((\<forall>n. held_image t = Some n \<longrightarrow> 1 \<le> n \<and> n \<le> sto_imageCounter s \<and> image_number_free n s)
      \<and> (\<forall>n. held_task t = Some n \<longrightarrow> 1 \<le> n \<and> n \<le> sto_taskCounter s \<and> sto_Tasks s (taskUUIDFromCounter n) = None))"

definition no_shared_number :: "thread \<Rightarrow> thread \<Rightarrow> bool" where
  "no_shared_number t u = ((\<forall>n. held_image t = Some n \<longrightarrow> held_image u \<noteq> Some n)
     \<and> (\<forall>n. held_task t = Some n \<longrightarrow> held_task u \<noteq> Some n))"

definition conc_ok :: "thread list \<times> Store \<Rightarrow> bool" where
  "conc_ok c = (case c of (ts, s) \<Rightarrow> store_ok s \<and> vms_ok s \<and> (\<forall>t \<in> set ts. disciplined t \<and> numbers_ok s t)
     \<and> (\<forall>i < length ts. \<forall>j < length ts. i \<noteq> j \<longrightarrow> no_shared_number (ts ! i) (ts ! j)))"

lemma set_power_ids: "set_power u state vms = Some vms' \<Longrightarrow> map vm_ExtID vms' = map vm_ExtID vms"
  by (induction vms arbitrary: vms') (auto split: if_splits)

lemma remove_vm_subset: "set (remove_vm u vms) \<subseteq> set vms"
  by (induction vms) auto

lemma remove_vm_distinct: "distinct (map vm_ExtID vms) \<Longrightarrow> distinct (map vm_ExtID (remove_vm u vms))"
  by (induction vms) (use remove_vm_subset in fastforce)+

text \<open>What the operations on VMs do to the identifiers, and that the others do not touch them.\<close>

lemma vm_ids_frame [simp]:
  "vm_ids (s\<lparr>sto_imageCounter := n\<rparr>) = vm_ids s" "vm_ids (s\<lparr>sto_taskCounter := n\<rparr>) = vm_ids s"
  "vm_ids (s\<lparr>sto_RecoveryPoints := rps\<rparr>) = vm_ids s" "vm_ids (s\<lparr>sto_Images := imgs\<rparr>) = vm_ids s"
  "vm_ids (s\<lparr>sto_Tasks := tasks\<rparr>) = vm_ids s"
  "vm_ids (s\<lparr>sto_VMs := sto_VMs s @ [cloned_vm u name]\<rparr>) = insert u (vm_ids s)"
  by (simp_all add: vm_ids_def cloned_vm_def)

lemma distinct_vms_frame [simp]:
  "distinct_vms (s\<lparr>sto_imageCounter := n\<rparr>) = distinct_vms s" "distinct_vms (s\<lparr>sto_taskCounter := n\<rparr>) = distinct_vms s"
  "distinct_vms (s\<lparr>sto_RecoveryPoints := rps\<rparr>) = distinct_vms s" "distinct_vms (s\<lparr>sto_Images := imgs\<rparr>) = distinct_vms s"
  "distinct_vms (s\<lparr>sto_Tasks := tasks\<rparr>) = distinct_vms s"
  "distinct_vms (s\<lparr>sto_VMs := sto_VMs s @ [cloned_vm u name]\<rparr>) = (distinct_vms s \<and> u \<notin> vm_ids s)"
  by (auto simp: distinct_vms_def vm_ids_def cloned_vm_def)

lemma SetVMPowerState_ids:
  "map vm_ExtID (sto_VMs (snd (store_SetVMPowerState u state s))) = map vm_ExtID (sto_VMs s)"
  by (auto simp: store_SetVMPowerState_def split: option.split dest: set_power_ids)

lemma SetVMPowerState_frame [simp]:
  "sto_RecoveryPoints (snd (store_SetVMPowerState u state s)) = sto_RecoveryPoints s"
  "sto_Images (snd (store_SetVMPowerState u state s)) = sto_Images s"
  "sto_Tasks (snd (store_SetVMPowerState u state s)) = sto_Tasks s"
  "sto_imageCounter (snd (store_SetVMPowerState u state s)) = sto_imageCounter s"
  "sto_taskCounter (snd (store_SetVMPowerState u state s)) = sto_taskCounter s"
  by (simp_all add: store_SetVMPowerState_def split: option.split)

lemma SetVMPowerState_vms [simp]:
  "distinct_vms (snd (store_SetVMPowerState u state s)) = distinct_vms s"
  "vm_ids (snd (store_SetVMPowerState u state s)) = vm_ids s"
  using SetVMPowerState_ids[of u state s] by (simp add: distinct_vms_def, metis vm_ids_def list.set_map)

lemma remove_vm_ids:
  "distinct_vms s \<Longrightarrow> distinct_vms (s\<lparr>sto_VMs := remove_vm u (sto_VMs s)\<rparr>)"
  "v \<in> vm_ids (s\<lparr>sto_VMs := remove_vm u (sto_VMs s)\<rparr>) \<Longrightarrow> v \<in> vm_ids s"
  using remove_vm_subset remove_vm_distinct by (auto simp: distinct_vms_def vm_ids_def)

lemma deletions_frame [simp]:
  "snd (store_DeleteRecoveryPoint u s) = s\<lparr>sto_RecoveryPoints := (sto_RecoveryPoints s)(u := None)\<rparr>"
  "snd (store_DeleteImage u s) = s\<lparr>sto_Images := (sto_Images s)(u := None)\<rparr>"
  "snd (store_GetTask u s) = s\<lparr>sto_Tasks := (sto_Tasks s)(u := map_option poll_state (sto_Tasks s u))\<rparr>"
  by (auto simp: store_DeleteRecoveryPoint_def store_DeleteImage_def store_GetTask_def fun_upd_idem split: option.split)

lemma issued_number: "1 \<le> n \<Longrightarrow> n \<le> m \<Longrightarrow> issued p m (p @ pad8 n)"
  by (auto simp: issued_def)

lemmas issued_numbers =
  issued_number[of _ _ "''rp-''", simplified] issued_number[of _ _ "''img-''", simplified]
  issued_number[of _ _ "''task-''", simplified]

lemma store_ok_bump_task: "store_ok s \<Longrightarrow> store_ok (s\<lparr>sto_taskCounter := sto_taskCounter s + 1\<rparr>)"
  by (auto simp: store_ok_def intro!: issued_Suc)

lemma task_ok_new: "task_ok \<lparr>ts_Task = \<lparr>task_ExtID = u, task_Status = TaskStatusQueued, task_OperationType = [],
    task_PercentComplete = 0, task_ErrorMessages = [], task_EntitiesAffected = es\<rparr>, ts_PollCount = 0, ts_TargetPolls = m\<rparr>"
  by (simp add: task_ok_def)

lemma step_store_ok:
  assumes "store_ok s" "numbers_ok s t" "atomic_step t s = (t', s')"
  shows "store_ok s'"
proof (cases t)
  case (NextImage k)
  then show ?thesis using assms store_ok_bump by auto
next
  case (NextTask k)
  then show ?thesis using assms store_ok_bump_task by auto
next
  case (PutRecoveryPoint n rp t1)
  then show ?thesis using assms by (auto simp: numbers_ok_def store_ok_def intro!: issued_numbers split: if_splits)
next
  case (PutImage n img t1)
  then show ?thesis using assms by (auto simp: numbers_ok_def store_ok_def intro!: issued_numbers split: if_splits)
next
  case (PutTask n es m t1)
  then show ?thesis using assms
    by (auto simp: numbers_ok_def store_ok_def taskUUIDFromCounter_def task_ok_new intro!: issued_numbers split: if_splits)
qed (use assms store_ok_rules in \<open>auto simp: split_beta\<close>)

lemma step_vms_ok:
  assumes "vms_ok s" "numbers_ok s t" "atomic_step t s = (t', s')"
  shows "vms_ok s'"
  using assms
  by (cases t) (auto simp: vms_ok_def numbers_ok_def image_number_free_def split_beta remove_vm_ids dest: remove_vm_ids)

lemma step_disciplined: "disciplined t \<Longrightarrow> atomic_step t s = (t', s') \<Longrightarrow> disciplined t'"
  by (cases t) (auto split: prod.splits)

text \<open>A step of one goroutine, seen by itself and by another one.\<close>

lemma unissued_absent: "(\<And>u x. m u = Some x \<Longrightarrow> issued p c u) \<Longrightarrow> m (p @ pad8 (Suc c)) = None"
  using not_issued_next by (cases "m (p @ pad8 (Suc c))") auto

lemma store_ok_fresh:
  assumes "store_ok s" "vms_ok s"
  shows "image_number_free (Suc (sto_imageCounter s)) s"
    and "sto_Tasks s (taskUUIDFromCounter (Suc (sto_taskCounter s))) = None"
proof -
  have "sto_RecoveryPoints s (''rp-'' @ pad8 (Suc (sto_imageCounter s))) = None"
    by (rule unissued_absent[where p = "''rp-''"]) (use assms(1) in \<open>auto simp: store_ok_def\<close>)
  moreover have "sto_Images s (''img-'' @ pad8 (Suc (sto_imageCounter s))) = None"
    by (rule unissued_absent[where p = "''img-''"]) (use assms(1) in \<open>auto simp: store_ok_def\<close>)
  ultimately show "image_number_free (Suc (sto_imageCounter s)) s"
    using assms(2) by (simp add: image_number_free_def vms_ok_def)
  show "sto_Tasks s (taskUUIDFromCounter (Suc (sto_taskCounter s))) = None"
    unfolding taskUUIDFromCounter_def
    by (rule unissued_absent[where p = "''task-''"]) (use assms(1) in \<open>auto simp: store_ok_def\<close>)
qed

lemma image_number_free_counter [simp]:
  "image_number_free n (s\<lparr>sto_imageCounter := m\<rparr>) = image_number_free n s"
  "image_number_free n (s\<lparr>sto_taskCounter := m\<rparr>) = image_number_free n s"
  by (simp_all add: image_number_free_def)

lemma step_numbers_own:
  assumes "store_ok s" "vms_ok s" "disciplined t" "atomic_step t s = (t', s')"
  shows "numbers_ok s' t'"
  using assms(3,4) store_ok_fresh[OF assms(1,2)]
  by (cases t) (auto simp: numbers_ok_def holds_none_def split_beta)

lemma step_numbers_other:
  assumes "numbers_ok s u" "no_shared_number t u" "atomic_step t s = (t', s')"
  shows "numbers_ok s' u"
  using assms
  by (cases t) (auto simp: numbers_ok_def no_shared_number_def image_number_free_def taskUUIDFromCounter_def
      split_beta dest: remove_vm_ids)

lemma step_holds:
  assumes "disciplined t" "atomic_step t s = (t', s')"
  shows "held_image t' \<in> {None, Some (Suc (sto_imageCounter s))}" "held_task t' \<in> {None, Some (Suc (sto_taskCounter s))}"
  using assms by (cases t; auto simp: holds_none_def split_beta)+

lemma step_no_shared:
  assumes "numbers_ok s u" "disciplined t" "atomic_step t s = (t', s')"
  shows "no_shared_number t' u" "no_shared_number u t'"
  using assms(1) step_holds[OF assms(2,3)] by (auto simp: numbers_ok_def no_shared_number_def)

lemma conc_step_ok:
  assumes "conc_ok (ts, s)" "conc_step (ts, s) (ts', s')"
  shows "conc_ok (ts', s')"
proof -
  from assms(2) obtain i t' where i: "i < length ts" "ts' = ts[i := t']" and st: "atomic_step (ts ! i) s = (t', s')"
    by (auto elim: conc_stepE)
  from assms(1) have s: "store_ok s" "vms_ok s" and ts: "\<And>j. j < length ts \<Longrightarrow> disciplined (ts ! j) \<and> numbers_ok s (ts ! j)"
    and sh: "\<And>j k. j < length ts \<Longrightarrow> k < length ts \<Longrightarrow> j \<noteq> k \<Longrightarrow> no_shared_number (ts ! j) (ts ! k)"
    by (auto simp: conc_ok_def)
  have "disciplined (ts' ! j) \<and> numbers_ok s' (ts' ! j)" if j: "j < length ts" for j
  proof (cases "j = i")
    case True
    then show ?thesis using i step_disciplined[OF _ st] step_numbers_own[OF s _ st] ts[OF i(1)] by simp
  next
    case False
    then show ?thesis using i j ts[OF j] step_numbers_other[OF _ sh[OF i(1) j] st] by simp
  qed
  moreover have "no_shared_number (ts' ! j) (ts' ! k)" if "j < length ts" "k < length ts" "j \<noteq> k" for j k
    using that i sh step_no_shared[OF _ _ st] ts by (cases "j = i"; cases "k = i") auto
  moreover have "store_ok s'" "vms_ok s'"
    using step_store_ok[OF s(1) _ st] step_vms_ok[OF s(2) _ st] ts[OF i(1)] by auto
  ultimately show ?thesis using i(2) by (auto simp: conc_ok_def in_set_conv_nth)
qed

lemma conc_start:
  assumes "store_ok s" "vms_ok s"
  shows "conc_ok (map (serve_thread base) qs, s)"
  using assms serve_disciplined by (auto simp: conc_ok_def numbers_ok_def no_shared_number_def holds_none_def)

lemma conc_reachable_ok: "conc_step\<^sup>*\<^sup>* c c' \<Longrightarrow> conc_ok c \<Longrightarrow> conc_ok c'"
  by (induction rule: rtranclp_induct) (metis conc_step_ok surj_pair)+

text \<open>The next step of a goroutine would replace an entity that is in the store.\<close>

fun overwrites :: "thread \<Rightarrow> Store \<Rightarrow> bool" where
  "overwrites (PutRecoveryPoint n rp t) s = (sto_RecoveryPoints s (''rp-'' @ pad8 n) \<noteq> None)"
| "overwrites (PutImage n img t) s = (sto_Images s (''img-'' @ pad8 n) \<noteq> None)"
| "overwrites (AppendClone n name t) s = (''clone-'' @ pad8 n \<in> vm_ids s)"
| "overwrites (PutTask n es m t) s = (sto_Tasks s (taskUUIDFromCounter n) \<noteq> None)"
| "overwrites t s = False"

lemma numbers_ok_overwrites: "numbers_ok s t \<Longrightarrow> \<not> overwrites t s"
  by (cases t) (auto simp: numbers_ok_def image_number_free_def)

text \<open>C35. However concurrent requests to the mock server interleave, from a store that satisfies its invariant and
  has VMs with different identifiers: the invariant holds at every moment, no two VMs ever have the same
  identifier, no goroutine is about to insert an entity under an identifier that is in use, and no two of them
  are about to insert under the same one, although the identifiers are taken from the counters outside the
  lock.\<close>

theorem concurrent_requests_safe:
  assumes "store_ok s" and "vms_ok s" and "conc_step\<^sup>*\<^sup>* (map (serve_thread base) qs, s) (ts, s')"
  shows "store_ok s' \<and> distinct (map vm_ExtID (sto_VMs s')) \<and> (\<forall>t \<in> set ts. \<not> overwrites t s')
    \<and> (\<forall>i < length ts. \<forall>j < length ts. i \<noteq> j \<longrightarrow> no_shared_number (ts ! i) (ts ! j))"
  using conc_reachable_ok[OF assms(3) conc_start[OF assms(1,2)]] numbers_ok_overwrites
  by (auto simp: conc_ok_def vms_ok_def distinct_vms_def)

section \<open>Two concurrent requests\<close>

text \<open>A schedule: which goroutine takes the next step.\<close>

fun run_schedule :: "nat list \<Rightarrow> thread list \<times> Store \<Rightarrow> thread list \<times> Store" where
  "run_schedule [] c = c"
| "run_schedule (i # is) (ts, s) =
     (if i < length ts then case atomic_step (ts ! i) s of (t', s') \<Rightarrow> run_schedule is (ts[i := t'], s')
      else run_schedule is (ts, s))"

lemma run_schedule_steps: "conc_step\<^sup>*\<^sup>* c (run_schedule is c)"
proof (induction "is" c rule: run_schedule.induct)
  case (2 i "is" ts s)
  obtain t' s' where st: "atomic_step (ts ! i) s = (t', s')" by fastforce
  show ?case
  proof (cases "i < length ts \<and> (\<forall>r. ts ! i \<noteq> Done r)")
    case True
    then have "conc_step (ts, s) (ts[i := t'], s')" using st by (blast intro: conc_step.step)
    then show ?thesis using 2(1)[OF _ st[symmetric]] True st by (simp add: converse_rtranclp_into_rtranclp)
  next
    case False
    then show ?thesis using 2 st by (cases "i < length ts") auto
  qed
qed simp

definition create_image_request :: "string \<Rightarrow> http_request" where
  "create_image_request name = \<lparr>rq_Method = ''POST'', rq_URL = ''http://mock/api/vmm/v4.0/images'', rq_Auth = None,
     rq_Cookie = None, rq_Range = [], rq_ContentType = True, rq_Body = Some (JObject [(''name'', JString name)])\<rparr>"

definition two_creates :: "thread list \<times> Store" where
  "two_creates = (map (serve_thread ''http://mock'') [create_image_request ''a'', create_image_request ''b''], WithFixtures NewStore)"

lemma fixtures_vms_ok: "vms_ok (WithFixtures NewStore)"
  by (simp add: vms_ok_def distinct_vms_def vm_ids_def WithFixtures_def NewStore_def defaultVMs_def vm_linux_def vm_windows_def vm_gpu_def)

lemma create_image_thread: "serve_thread ''http://mock'' (create_image_request name) =
    AddImage_thread \<lparr>img_ExtID = [], img_Name = name, img_Type = [], img_SizeBytes = defaultImageSize, img_SourceURI = []\<rparr>
      (\<lambda>imgUUID. CreateTask_thread [\<lparr>ten_ExtID = imgUUID, ten_Rel = ''vmm:images:image''\<rparr>] 2 accepted)"
proof -
  have "url_path ''http://mock'' (create_image_request name) = imageBasePath"
    by (simp add: url_path_def create_image_request_def split_first_def TrimPrefix_def)
  then have "serve_thread ''http://mock'' (create_image_request name) = handleImageCreate_thread (create_image_request name)"
    by (simp add: serve_thread_def)
  then show ?thesis by (simp add: handleImageCreate_thread_def create_image_request_def dec_image_body_def
      is_struct_def get_field_def dec_string_def)
qed

lemma pad8_small: "pad8 (Suc 0) = ''00000001''" "pad8 (Suc (Suc 0)) = ''00000002''"
  by code_simp+

text \<open>The first goroutine gets the first image and the second task, the second one the second image and the
  first task, which no sequential order gives: the requests are not atomic.\<close>

lemma creates_interleaved:
  "\<exists>s'. conc_step\<^sup>*\<^sup>* two_creates ([accepted ''task-00000002'', accepted ''task-00000001''], s')
    \<and> map_option (task_EntitiesAffected \<circ> ts_Task) (sto_Tasks s' ''task-00000001'')
        = Some [\<lparr>ten_ExtID = ''img-00000002'', ten_Rel = ''vmm:images:image''\<rparr>]"
proof -
  let ?c = "run_schedule [0, 1, 1, 1, 0, 1, 0, 0] two_creates"
  have "fst ?c = [accepted ''task-00000002'', accepted ''task-00000001'']"
    and "map_option (task_EntitiesAffected \<circ> ts_Task) (sto_Tasks (snd ?c) ''task-00000001'')
        = Some [\<lparr>ten_ExtID = ''img-00000002'', ten_Rel = ''vmm:images:image''\<rparr>]"
    by (simp_all add: two_creates_def create_image_thread AddImage_thread_def CreateTask_thread_def WithFixtures_def
        NewStore_def taskUUIDFromCounter_def pad8_small)
  then show ?thesis using run_schedule_steps[of two_creates "[0, 1, 1, 1, 0, 1, 0, 0]"] by (metis prod.collapse)
qed

theorem concurrent_requests_safe_witness:
  "store_ok (snd (run_schedule [0, 1, 1, 1, 0, 1, 0] two_creates))
   \<and> distinct (map vm_ExtID (sto_VMs (snd (run_schedule [0, 1, 1, 1, 0, 1, 0] two_creates))))"
proof -
  have "store_ok (WithFixtures NewStore)" by (simp add: WithFixtures_def store_ok_New)
  moreover have "conc_step\<^sup>*\<^sup>* two_creates
      (fst (run_schedule [0, 1, 1, 1, 0, 1, 0] two_creates), snd (run_schedule [0, 1, 1, 1, 0, 1, 0] two_creates))"
    using run_schedule_steps by simp
  ultimately show ?thesis
    using concurrent_requests_safe[OF _ fixtures_vms_ok] unfolding two_creates_def by blast
qed

end
