(* ===== verification/Mock_Locks.thy ===== *)
theory Mock_Locks
  imports Mock_Server
begin

text \<open>
  The locking of the mock server. \<^verbatim>\<open>Mock_Concurrency\<close> takes a section under the lock of the store for one step; here the lock itself is
  modelled: Go's \<^verbatim>\<open>sync.RWMutex\<close>, which blocks, and every \<^verbatim>\<open>Lock\<close>, \<^verbatim>\<open>Unlock\<close>, \<^verbatim>\<open>RLock\<close>, \<^verbatim>\<open>RUnlock\<close> of the store methods and of the
  two handlers that take the lock themselves, as separate steps between which other goroutines run. A deferred unlock is where the
  method returns. The results: no interleaving of requests deadlocks, unlocks a lock that is not held, or
  accesses the store while another request writes it, and all requests are answered.
\<close>

section \<open>Goroutines\<close>

datatype goroutine =
  Return "http_response option"
| Lock goroutine
| AwaitReaders goroutine
| Unlock goroutine
| RLock goroutine
| RUnlock goroutine
| Load "Store \<Rightarrow> goroutine"
| Assign "Store \<Rightarrow> Store" goroutine
| AddImageCounter "nat \<Rightarrow> goroutine"
| AddTaskCounter "nat \<Rightarrow> goroutine"
| LoadConfig "CBTConfig \<Rightarrow> goroutine"

text \<open>
  \<^verbatim>\<open>sync.RWMutex\<close>: a writer first excludes other writers and announces itself, which keeps new readers out, then waits
  until the readers that are inside have left.
\<close>

record RWMutex =
  rw_writer :: bool
  rw_readers :: nat

definition unlocked :: RWMutex where
  "unlocked = \<lparr>rw_writer = False, rw_readers = 0\<rparr>"

text \<open>One step; \<^term>\<open>None\<close> when the goroutine has returned, is blocked, or unlocks a lock that is not held.\<close>

fun go_step :: "goroutine \<Rightarrow> RWMutex \<Rightarrow> Store \<Rightarrow> (goroutine \<times> RWMutex \<times> Store) option" where
  "go_step (Return r) m s = None"
| "go_step (Lock g) m s = (if rw_writer m then None else Some (AwaitReaders g, m\<lparr>rw_writer := True\<rparr>, s))"
| "go_step (AwaitReaders g) m s = (if rw_readers m > 0 then None else Some (g, m, s))"
| "go_step (Unlock g) m s = (if rw_writer m then Some (g, m\<lparr>rw_writer := False\<rparr>, s) else None)"
| "go_step (RLock g) m s = (if rw_writer m then None else Some (g, m\<lparr>rw_readers := rw_readers m + 1\<rparr>, s))"
| "go_step (RUnlock g) m s = (if rw_readers m > 0 then Some (g, m\<lparr>rw_readers := rw_readers m - 1\<rparr>, s) else None)"
| "go_step (Load f) m s = Some (f s, m, s)"
| "go_step (Assign f g) m s = Some (g, m, f s)"
| "go_step (AddImageCounter f) m s = Some (f (sto_imageCounter s + 1), m, s\<lparr>sto_imageCounter := sto_imageCounter s + 1\<rparr>)"
| "go_step (AddTaskCounter f) m s = Some (f (sto_taskCounter s + 1), m, s\<lparr>sto_taskCounter := sto_taskCounter s + 1\<rparr>)"
| "go_step (LoadConfig f) m s = Some (f (sto_CBTConfig s), m, s)"

text \<open>The run-time error \<^verbatim>\<open>sync: Unlock of unlocked RWMutex\<close>, which ends the process.\<close>

fun fatal :: "goroutine \<Rightarrow> RWMutex \<Rightarrow> bool" where
  "fatal (Unlock g) m = (\<not> rw_writer m)"
| "fatal (RUnlock g) m = (rw_readers m = 0)"
| "fatal g m = False"

section \<open>The store methods\<close>

definition GetVMs_go :: "(VM list \<Rightarrow> goroutine) \<Rightarrow> goroutine" where
  "GetVMs_go k = RLock (Load (\<lambda>s. RUnlock (k (sto_VMs s))))"

definition GetVM_go :: "string \<Rightarrow> (VM option \<Rightarrow> goroutine) \<Rightarrow> goroutine" where
  "GetVM_go extID k = RLock (Load (\<lambda>s. RUnlock (k (store_GetVM extID s))))"

definition SetVMPowerState_go :: "string \<Rightarrow> string \<Rightarrow> (bool \<Rightarrow> goroutine) \<Rightarrow> goroutine" where
  "SetVMPowerState_go extID state k = Lock (Load (\<lambda>s.
     case set_power extID state (sto_VMs s) of
       None \<Rightarrow> Unlock (k False)
     | Some vms \<Rightarrow> Assign (\<lambda>s. s\<lparr>sto_VMs := vms\<rparr>) (Unlock (k True))))"

definition GetSubnets_go :: "(Subnet list \<Rightarrow> goroutine) \<Rightarrow> goroutine" where
  "GetSubnets_go k = RLock (Load (\<lambda>s. RUnlock (k (sto_Subnets s))))"

definition GetStorageContainers_go :: "(StorageContainer list \<Rightarrow> goroutine) \<Rightarrow> goroutine" where
  "GetStorageContainers_go k = RLock (Load (\<lambda>s. RUnlock (k (sto_StorageContainers s))))"

definition GetClusters_go :: "(Cluster list \<Rightarrow> goroutine) \<Rightarrow> goroutine" where
  "GetClusters_go k = RLock (Load (\<lambda>s. RUnlock (k (sto_Clusters s))))"

definition AddRecoveryPoint_go :: "RecoveryPoint \<Rightarrow> (string \<Rightarrow> goroutine) \<Rightarrow> goroutine" where
  "AddRecoveryPoint_go rp k = AddImageCounter (\<lambda>n.
     let rp' = rp\<lparr>rp_ExtID := ''rp-'' @ pad8 n, rp_Status := recoveryPointStatusComplete\<rparr>
     in Lock (Assign (\<lambda>s. s\<lparr>sto_RecoveryPoints := (sto_RecoveryPoints s)(rp_ExtID rp' \<mapsto> rp')\<rparr>) (Unlock (k (rp_ExtID rp')))))"

definition GetRecoveryPoint_go :: "string \<Rightarrow> (RecoveryPoint option \<Rightarrow> goroutine) \<Rightarrow> goroutine" where
  "GetRecoveryPoint_go uuid k = RLock (Load (\<lambda>s. RUnlock (k (sto_RecoveryPoints s uuid))))"

definition DeleteRecoveryPoint_go :: "string \<Rightarrow> (bool \<Rightarrow> goroutine) \<Rightarrow> goroutine" where
  "DeleteRecoveryPoint_go uuid k = Lock (Load (\<lambda>s.
     if sto_RecoveryPoints s uuid = None then Unlock (k False)
     else Assign (\<lambda>s. s\<lparr>sto_RecoveryPoints := (sto_RecoveryPoints s)(uuid := None)\<rparr>) (Unlock (k True))))"

definition AddImage_go :: "Image \<Rightarrow> (string \<Rightarrow> goroutine) \<Rightarrow> goroutine" where
  "AddImage_go img k = AddImageCounter (\<lambda>n.
     let img' = img\<lparr>img_ExtID := ''img-'' @ pad8 n\<rparr>
     in Lock (Assign (\<lambda>s. s\<lparr>sto_Images := (sto_Images s)(img_ExtID img' \<mapsto> img')\<rparr>) (Unlock (k (img_ExtID img')))))"

definition GetImage_go :: "string \<Rightarrow> (Image option \<Rightarrow> goroutine) \<Rightarrow> goroutine" where
  "GetImage_go uuid k = RLock (Load (\<lambda>s. RUnlock (k (sto_Images s uuid))))"

definition DeleteImage_go :: "string \<Rightarrow> (bool \<Rightarrow> goroutine) \<Rightarrow> goroutine" where
  "DeleteImage_go uuid k = Lock (Load (\<lambda>s.
     if sto_Images s uuid = None then Unlock (k False)
     else Assign (\<lambda>s. s\<lparr>sto_Images := (sto_Images s)(uuid := None)\<rparr>) (Unlock (k True))))"

definition CreateTask_go :: "TaskEntity list \<Rightarrow> nat \<Rightarrow> (string \<Rightarrow> goroutine) \<Rightarrow> goroutine" where
  "CreateTask_go entities targetPolls k = AddTaskCounter (\<lambda>n.
     let taskUUID = taskUUIDFromCounter n;
         task = \<lparr>task_ExtID = taskUUID, task_Status = TaskStatusQueued, task_OperationType = [], task_PercentComplete = 0,
           task_ErrorMessages = [], task_EntitiesAffected = entities\<rparr>
     in Lock (Assign (\<lambda>s. s\<lparr>sto_Tasks := (sto_Tasks s)(taskUUID \<mapsto> \<lparr>ts_Task = task, ts_PollCount = 0, ts_TargetPolls = targetPolls\<rparr>)\<rparr>)
          (Unlock (k taskUUID))))"

definition GetTask_go :: "string \<Rightarrow> (Task option \<Rightarrow> goroutine) \<Rightarrow> goroutine" where
  "GetTask_go uuid k = Lock (Load (\<lambda>s.
     case sto_Tasks s uuid of
       None \<Rightarrow> Unlock (k None)
     | Some ts \<Rightarrow> Assign (\<lambda>s. s\<lparr>sto_Tasks := (sto_Tasks s)(uuid \<mapsto> poll_state ts)\<rparr>) (Unlock (k (Some (ts_Task (poll_state ts)))))))"

lemmas store_go_defs = GetVMs_go_def GetVM_go_def SetVMPowerState_go_def GetSubnets_go_def GetStorageContainers_go_def GetClusters_go_def
  AddRecoveryPoint_go_def GetRecoveryPoint_go_def DeleteRecoveryPoint_go_def AddImage_go_def GetImage_go_def DeleteImage_go_def
  CreateTask_go_def GetTask_go_def

section \<open>The handlers\<close>

definition accepted_go :: "string \<Rightarrow> goroutine" where
  "accepted_go taskUUID = Return (Some (writeJSON 202 (taskRefBody taskUUID)))"

definition error_go :: "int \<Rightarrow> string \<Rightarrow> goroutine" where
  "error_go status msg = Return (Some (writeError status msg))"

definition handleVMList_go :: "http_request \<Rightarrow> string \<Rightarrow> goroutine" where
  "handleVMList_go q query =
     (if rq_Method q \<noteq> ''GET'' then Return (Some method_not_allowed) else GetVMs_go (\<lambda>vms. Return (list_page enc_VM vms query)))"

definition handleVMGet_go :: "string \<Rightarrow> goroutine" where
  "handleVMGet_go uuid = GetVM_go uuid (\<lambda>vm. case vm of
       None \<Rightarrow> error_go 404 ''VM not found''
     | Some vm \<Rightarrow> Return (Some (writeJSON 200 (singleResponse (enc_VM vm)))))"

definition handleVMPowerOff_go :: "string \<Rightarrow> goroutine" where
  "handleVMPowerOff_go uuid = GetVM_go uuid (\<lambda>vm. case vm of
       None \<Rightarrow> error_go 404 ''VM not found''
     | Some vm \<Rightarrow> CreateTask_go [\<lparr>ten_ExtID = uuid, ten_Rel = ''vmm:ahv:config:vm''\<rparr>] 2
         (\<lambda>taskUUID. SetVMPowerState_go uuid ''OFF'' (\<lambda>_. accepted_go taskUUID)))"

definition handleVMPowerOn_go :: "string \<Rightarrow> goroutine" where
  "handleVMPowerOn_go uuid = GetVM_go uuid (\<lambda>vm. case vm of
       None \<Rightarrow> error_go 404 ''VM not found''
     | Some vm \<Rightarrow> CreateTask_go [\<lparr>ten_ExtID = uuid, ten_Rel = ''vmm:ahv:config:vm''\<rparr>] 2
         (\<lambda>taskUUID. SetVMPowerState_go uuid ''ON'' (\<lambda>_. accepted_go taskUUID)))"

text \<open>The two handlers with a lock of their own: here, and in \<^verbatim>\<open>handleCloneVMFromRP\<close>.\<close>

definition handleVMDelete_go :: "string \<Rightarrow> goroutine" where
  "handleVMDelete_go uuid = GetVM_go uuid (\<lambda>vm. case vm of
       None \<Rightarrow> error_go 404 ''VM not found''
     | Some vm \<Rightarrow> CreateTask_go [\<lparr>ten_ExtID = uuid, ten_Rel = ''vmm:ahv:config:vm''\<rparr>] 2
         (\<lambda>taskUUID. Lock (Assign (\<lambda>s. s\<lparr>sto_VMs := remove_vm uuid (sto_VMs s)\<rparr>) (Unlock (accepted_go taskUUID)))))"

definition handleVMByID_go :: "http_request \<Rightarrow> string \<Rightarrow> goroutine" where
  "handleVMByID_go q path =
     (case split_first CHR ''/'' (TrimPrefix path (vmBasePath @ ''/'')) of
        (uuid, Some action) \<Rightarrow>
          if action = ''$actions/power-off'' \<and> rq_Method q = ''POST'' then handleVMPowerOff_go uuid
          else if action = ''$actions/power-on'' \<and> rq_Method q = ''POST'' then handleVMPowerOn_go uuid
          else error_go 404 ''unknown action''
      | (uuid, None) \<Rightarrow>
          if rq_Method q = ''GET'' then handleVMGet_go uuid
          else if rq_Method q = ''DELETE'' then handleVMDelete_go uuid
          else Return (Some method_not_allowed))"

definition handleRecoveryPointCreate_go :: "http_request \<Rightarrow> goroutine" where
  "handleRecoveryPointCreate_go q =
     (if rq_Method q \<noteq> ''POST'' then Return (Some method_not_allowed)
      else case Option.bind (rq_Body q) dec_rp_body of
          None \<Rightarrow> error_go 400 ''invalid request body''
        | Some (name, vms) \<Rightarrow>
            AddRecoveryPoint_go
              \<lparr>rp_ExtID = [], rp_Name = name, rp_Status = [], rp_VMExtID = (case vms of [] \<Rightarrow> [] | v # _ \<Rightarrow> v),
               rp_ExpirationTime = [], rp_RecoveryPointType = ''APPLICATION_CONSISTENT''\<rparr>
              (\<lambda>rpUUID. CreateTask_go [\<lparr>ten_ExtID = rpUUID, ten_Rel = ''dataprotection:config:recovery-point''\<rparr>] 2 accepted_go))"

definition handleRecoveryPointGet_go :: "string \<Rightarrow> goroutine" where
  "handleRecoveryPointGet_go uuid = GetRecoveryPoint_go uuid (\<lambda>rp. case rp of
       None \<Rightarrow> error_go 404 ''recovery point not found''
     | Some rp \<Rightarrow> Return (Some (writeJSON 200 (singleResponse (enc_RecoveryPoint rp)))))"

definition handleRecoveryPointDelete_go :: "string \<Rightarrow> goroutine" where
  "handleRecoveryPointDelete_go uuid = DeleteRecoveryPoint_go uuid (\<lambda>found.
     if \<not> found then error_go 404 ''recovery point not found''
     else CreateTask_go [\<lparr>ten_ExtID = uuid, ten_Rel = ''dataprotection:config:recovery-point''\<rparr>] 2 accepted_go)"

definition handleCloneVMFromRP_go :: "http_request \<Rightarrow> string \<Rightarrow> goroutine" where
  "handleCloneVMFromRP_go q rpUUID = GetRecoveryPoint_go rpUUID (\<lambda>rp. case rp of
       None \<Rightarrow> error_go 404 ''recovery point not found''
     | Some rp \<Rightarrow>
         (case Option.bind (rq_Body q) (\<lambda>j. if \<not> is_struct j then None else dec_entries ''vmName'' j) of
            None \<Rightarrow> error_go 400 ''invalid request body''
          | Some names \<Rightarrow>
              (let vmName = (case names of v # _ \<Rightarrow> if v \<noteq> [] then v else ''cloned-vm'' | [] \<Rightarrow> ''cloned-vm'')
               in AddImageCounter (\<lambda>n.
                    Lock (Assign (\<lambda>s. s\<lparr>sto_VMs := sto_VMs s @ [cloned_vm (''clone-'' @ pad8 n) vmName]\<rparr>) (Unlock
                      (CreateTask_go [\<lparr>ten_ExtID = ''clone-'' @ pad8 n, ten_Rel = ''vmm:ahv:config:vm''\<rparr>] 2 accepted_go)))))))"

definition handleRecoveryPointByID_go :: "http_request \<Rightarrow> string \<Rightarrow> goroutine" where
  "handleRecoveryPointByID_go q path =
     (case split_first CHR ''/'' (TrimPrefix path (recoveryPointBasePath @ ''/'')) of
        (uuid, Some action) \<Rightarrow>
          if action = ''$actions/vm-recovery'' \<and> rq_Method q = ''POST'' then handleCloneVMFromRP_go q uuid
          else error_go 404 ''unknown action''
      | (uuid, None) \<Rightarrow>
          if rq_Method q = ''GET'' then handleRecoveryPointGet_go uuid
          else if rq_Method q = ''DELETE'' then handleRecoveryPointDelete_go uuid
          else Return (Some method_not_allowed))"

definition handleImageCreate_go :: "http_request \<Rightarrow> goroutine" where
  "handleImageCreate_go q =
     (if rq_Method q \<noteq> ''POST'' then Return (Some method_not_allowed)
      else case Option.bind (rq_Body q) dec_image_body of
          None \<Rightarrow> error_go 400 ''invalid request body''
        | Some (name, ty) \<Rightarrow>
            AddImage_go \<lparr>img_ExtID = [], img_Name = name, img_Type = ty, img_SizeBytes = defaultImageSize, img_SourceURI = []\<rparr>
              (\<lambda>imgUUID. CreateTask_go [\<lparr>ten_ExtID = imgUUID, ten_Rel = ''vmm:images:image''\<rparr>] 2 accepted_go))"

definition handleImageGet_go :: "string \<Rightarrow> goroutine" where
  "handleImageGet_go uuid = GetImage_go uuid (\<lambda>img. case img of
       None \<Rightarrow> error_go 404 ''image not found''
     | Some img \<Rightarrow> Return (Some (writeJSON 200 (singleResponse (enc_Image img)))))"

definition handleImageDelete_go :: "string \<Rightarrow> goroutine" where
  "handleImageDelete_go uuid = DeleteImage_go uuid (\<lambda>found.
     if \<not> found then error_go 404 ''image not found''
     else CreateTask_go [\<lparr>ten_ExtID = uuid, ten_Rel = ''vmm:images:image''\<rparr>] 2 accepted_go)"

definition handleImageDownload_go :: "http_request \<Rightarrow> string \<Rightarrow> goroutine" where
  "handleImageDownload_go q uuid = GetImage_go uuid (\<lambda>img. case img of
       None \<Rightarrow> error_go 404 ''image not found''
     | Some img \<Rightarrow>
         (let totalSize = (if img_SizeBytes img \<le> 0 then defaultImageSize else img_SizeBytes img); data = image_data totalSize
          in if rq_Range q = [] then Return (Some (binary_response 200 data))
             else case parseRangeHeader (rq_Range q) totalSize of
                 None \<Rightarrow> error_go 416 ''invalid range''
               | Some (start, stop) \<Rightarrow> Return (Some (binary_response 206 (take (nat (stop + 1 - start)) (drop (nat start) data))))))"

definition handleImageByID_go :: "http_request \<Rightarrow> string \<Rightarrow> goroutine" where
  "handleImageByID_go q path =
     (case split_first CHR ''/'' (TrimPrefix path (imageBasePath @ ''/'')) of
        (uuid, rest) \<Rightarrow>
          if rest = Some ''file''
          then if rq_Method q \<noteq> ''GET'' then Return (Some method_not_allowed) else handleImageDownload_go q uuid
          else if rq_Method q = ''GET'' then handleImageGet_go uuid
          else if rq_Method q = ''DELETE'' then handleImageDelete_go uuid
          else Return (Some method_not_allowed))"

definition handleTask_go :: "http_request \<Rightarrow> string \<Rightarrow> goroutine" where
  "handleTask_go q path =
     (if rq_Method q \<noteq> ''GET'' then Return (Some method_not_allowed)
      else let uuid = TrimPrefix path taskBasePath
        in if uuid = [] then error_go 400 ''task UUID required''
           else GetTask_go uuid (\<lambda>task. case task of
               None \<Rightarrow> error_go 404 ''task not found''
             | Some task \<Rightarrow> Return (Some (writeJSON 200 (enc_Task task)))))"

definition handleSubnetList_go :: "http_request \<Rightarrow> string \<Rightarrow> goroutine" where
  "handleSubnetList_go q query =
     (if rq_Method q \<noteq> ''GET'' then Return (Some method_not_allowed) else GetSubnets_go (\<lambda>xs. Return (list_page enc_Subnet xs query)))"

definition handleClusterList_go :: "http_request \<Rightarrow> string \<Rightarrow> goroutine" where
  "handleClusterList_go q query =
     (if rq_Method q \<noteq> ''GET'' then Return (Some method_not_allowed) else GetClusters_go (\<lambda>xs. Return (list_page enc_Cluster xs query)))"

definition handleStorageContainerList_go :: "http_request \<Rightarrow> goroutine" where
  "handleStorageContainerList_go q =
     (if rq_Method q \<noteq> ''GET'' then Return (Some method_not_allowed)
      else GetStorageContainers_go (\<lambda>xs. let available = JNum (int (length xs))
        in Return (Some (writeJSON 200 (JObject [(''entities'', JArray (map enc_StorageContainer xs)),
              (''metadata'', JObject [(''grandTotalEntities'', available), (''totalEntities'', available)])])))))"

definition config_token :: "CBTConfig \<Rightarrow> string" where
  "config_token cfg = (if cbc_JWTToken cfg = [] then ''mock-jwt-token'' else cbc_JWTToken cfg)"

definition handleCBTDiscoverCluster_go :: "string \<Rightarrow> http_request \<Rightarrow> goroutine" where
  "handleCBTDiscoverCluster_go base q =
     (if rq_Method q \<noteq> ''POST'' then Return (Some method_not_allowed)
      else LoadConfig (\<lambda>cfg. Return (Some (writeJSON 200 (JObject [(''data'',
              enc_CBTClusterInfo \<lparr>cbt_PrismElementURL = base, cbt_JWTToken = config_token cfg\<rparr>)])))))"

definition handleCBTChangedRegions_go :: "http_request \<Rightarrow> string \<Rightarrow> goroutine" where
  "handleCBTChangedRegions_go q query =
     (if rq_Method q \<noteq> ''GET'' then Return (Some method_not_allowed)
      else case rq_Cookie q of
          None \<Rightarrow> error_go 401 ''missing JWT token in cookie''
        | Some (name, value) \<Rightarrow>
            if name \<noteq> CBTJWTCookieName \<or> value = [] then error_go 401 ''missing JWT token in cookie''
            else LoadConfig (\<lambda>cfg.
              if value \<noteq> config_token cfg then error_go 401 ''invalid JWT token''
              else let start = (case Atoi (query_get ''offset'' query) of Some v \<Rightarrow> if v \<ge> 0 then v else 0 | None \<Rightarrow> 0)
                in Return (Some (writeJSON 200 (JObject [(''data'', enc_ChangedRegions (region_page (cbc_ChangedRegions cfg) start))])))))"

definition ServeHTTP_go :: "string \<Rightarrow> http_request \<Rightarrow> goroutine" where
  "ServeHTTP_go base q =
     (let path = url_path base q; query = url_query base q
      in if path = vmBasePath then handleVMList_go q query
         else if prefix (vmBasePath @ ''/'') path then handleVMByID_go q path
         else if prefix taskBasePath path then handleTask_go q path
         else if path = subnetBasePath then handleSubnetList_go q query
         else if path = storageContainerV2Path then handleStorageContainerList_go q
         else if path = clusterBasePath then handleClusterList_go q query
         else if path = recoveryPointBasePath then handleRecoveryPointCreate_go q
         else if prefix (recoveryPointBasePath @ ''/'') path then handleRecoveryPointByID_go q path
         else if path = imageBasePath then handleImageCreate_go q
         else if prefix (imageBasePath @ ''/'') path then handleImageByID_go q path
         else if path = cbtDiscoverPath then handleCBTDiscoverCluster_go base q
         else if path = cbtChangedRegionsPath then handleCBTChangedRegions_go q query
         else Return (Some \<lparr>rs_Status = 404, rs_Text = ''404 page not found'' @ [CHR 0x0A], rs_Json = None\<rparr>))"

section \<open>A request that runs alone\<close>

text \<open>Without interference the goroutine of a request gives the response and leaves the store that \<^verbatim>\<open>ServeHTTP\<close> of
  \<^verbatim>\<open>Mock_Server\<close> gives.\<close>

primrec go_alone :: "goroutine \<Rightarrow> Store \<Rightarrow> served" where
  "go_alone (Return r) = (\<lambda>s. (r, s))"
| "go_alone (Lock g) = go_alone g"
| "go_alone (AwaitReaders g) = go_alone g"
| "go_alone (Unlock g) = go_alone g"
| "go_alone (RLock g) = go_alone g"
| "go_alone (RUnlock g) = go_alone g"
| "go_alone (Load f) = (\<lambda>s. go_alone (f s) s)"
| "go_alone (Assign f g) = (\<lambda>s. go_alone g (f s))"
| "go_alone (AddImageCounter f) = (\<lambda>s. go_alone (f (sto_imageCounter s + 1)) (s\<lparr>sto_imageCounter := sto_imageCounter s + 1\<rparr>))"
| "go_alone (AddTaskCounter f) = (\<lambda>s. go_alone (f (sto_taskCounter s + 1)) (s\<lparr>sto_taskCounter := sto_taskCounter s + 1\<rparr>))"
| "go_alone (LoadConfig f) = (\<lambda>s. go_alone (f (sto_CBTConfig s)) s)"

lemma alone_AddRecoveryPoint: "go_alone (AddRecoveryPoint_go rp k) s = (case store_AddRecoveryPoint rp s of (u, s') \<Rightarrow> go_alone (k u) s')"
  by (simp add: AddRecoveryPoint_go_def store_AddRecoveryPoint_def Let_def)

lemma alone_AddImage: "go_alone (AddImage_go img k) s = (case store_AddImage img s of (u, s') \<Rightarrow> go_alone (k u) s')"
  by (simp add: AddImage_go_def store_AddImage_def Let_def)

lemma alone_CreateTask: "go_alone (CreateTask_go es n k) s = (case store_CreateTask es n s of (u, s') \<Rightarrow> go_alone (k u) s')"
  by (simp add: CreateTask_go_def store_CreateTask_def Let_def)

lemma alone_SetVMPowerState: "go_alone (SetVMPowerState_go u st k) s = (case store_SetVMPowerState u st s of (b, s') \<Rightarrow> go_alone (k b) s')"
  by (simp add: SetVMPowerState_go_def store_SetVMPowerState_def split: option.split)

lemma alone_Delete:
  "go_alone (DeleteRecoveryPoint_go u k) s = (case store_DeleteRecoveryPoint u s of (b, s') \<Rightarrow> go_alone (k b) s')"
  "go_alone (DeleteImage_go u k) s = (case store_DeleteImage u s of (b, s') \<Rightarrow> go_alone (k b) s')"
  by (simp_all add: DeleteRecoveryPoint_go_def DeleteImage_go_def store_DeleteRecoveryPoint_def store_DeleteImage_def split: option.split)

lemma alone_GetTask: "go_alone (GetTask_go u k) s = (case store_GetTask u s of (t, s') \<Rightarrow> go_alone (k t) s')"
  by (simp add: GetTask_go_def store_GetTask_def Let_def split: option.split)

lemmas alone_store = alone_AddRecoveryPoint alone_AddImage alone_CreateTask alone_SetVMPowerState alone_Delete alone_GetTask
  GetVMs_go_def GetVM_go_def GetSubnets_go_def GetStorageContainers_go_def GetClusters_go_def GetRecoveryPoint_go_def GetImage_go_def
  accepted_go_def error_go_def

lemma alone_vm_handlers:
  "go_alone (handleVMGet_go u) s = handleVMGet u s" "go_alone (handleVMPowerOff_go u) s = handleVMPowerOff u s"
  "go_alone (handleVMPowerOn_go u) s = handleVMPowerOn u s" "go_alone (handleVMDelete_go u) s = handleVMDelete u s"
  by (simp_all add: handleVMGet_go_def handleVMGet_def handleVMPowerOff_go_def handleVMPowerOff_def handleVMPowerOn_go_def handleVMPowerOn_def
      handleVMDelete_go_def handleVMDelete_def accept_task_def alone_store split: option.split prod.split)

lemma alone_rp_handlers:
  "go_alone (handleRecoveryPointCreate_go q) s = handleRecoveryPointCreate q s" "go_alone (handleRecoveryPointGet_go u) s = handleRecoveryPointGet u s"
  "go_alone (handleRecoveryPointDelete_go u) s = handleRecoveryPointDelete u s" "go_alone (handleCloneVMFromRP_go q u) s = handleCloneVMFromRP q u s"
  by (simp_all add: handleRecoveryPointCreate_go_def handleRecoveryPointCreate_def handleRecoveryPointGet_go_def handleRecoveryPointGet_def
      handleRecoveryPointDelete_go_def handleRecoveryPointDelete_def handleCloneVMFromRP_go_def handleCloneVMFromRP_def accept_task_def alone_store
      store_GetRecoveryPoint_def Let_def split: option.split prod.split bool.split)

lemma alone_image_handlers:
  "go_alone (handleImageCreate_go q) s = handleImageCreate q s" "go_alone (handleImageGet_go u) s = handleImageGet u s"
  "go_alone (handleImageDelete_go u) s = handleImageDelete u s" "go_alone (handleImageDownload_go q u) s = handleImageDownload q u s"
  by (simp_all add: handleImageCreate_go_def handleImageCreate_def handleImageGet_go_def handleImageGet_def handleImageDelete_go_def handleImageDelete_def
      handleImageDownload_go_def handleImageDownload_def accept_task_def alone_store store_GetImage_def Let_def split: option.split prod.split bool.split)

lemma alone_by_id:
  "go_alone (handleVMByID_go q path) s = handleVMByID q path s" "go_alone (handleRecoveryPointByID_go q path) s = handleRecoveryPointByID q path s"
  "go_alone (handleImageByID_go q path) s = handleImageByID q path s" "go_alone (handleTask_go q path) s = handleTask q path s"
  by (simp_all add: handleVMByID_go_def handleVMByID_def handleRecoveryPointByID_go_def handleRecoveryPointByID_def handleImageByID_go_def
      handleImageByID_def handleTask_go_def handleTask_def alone_vm_handlers alone_rp_handlers alone_image_handlers alone_store Let_def
      split: option.split prod.split)

lemma alone_lists:
  "go_alone (handleVMList_go q query) s = handleVMList q query s" "go_alone (handleSubnetList_go q query) s = handleSubnetList q query s"
  "go_alone (handleClusterList_go q query) s = handleClusterList q query s" "go_alone (handleStorageContainerList_go q) s = handleStorageContainerList q s"
  by (simp_all add: handleVMList_go_def handleVMList_def handleSubnetList_go_def handleSubnetList_def handleClusterList_go_def handleClusterList_def
      handleStorageContainerList_go_def handleStorageContainerList_def alone_store store_GetVMs_def store_GetSubnets_def store_GetClusters_def
      store_GetStorageContainers_def Let_def)

lemma alone_cbt:
  "go_alone (handleCBTDiscoverCluster_go base q) s = handleCBTDiscoverCluster base q s"
  "go_alone (handleCBTChangedRegions_go q query) s = handleCBTChangedRegions q query s"
  by (simp_all add: handleCBTDiscoverCluster_go_def handleCBTDiscoverCluster_def handleCBTChangedRegions_go_def handleCBTChangedRegions_def
      config_token_def expected_token_def error_go_def Let_def split: option.split prod.split)

lemma serve_go_alone: "go_alone (ServeHTTP_go base q) s = ServeHTTP base q s"
  by (simp add: ServeHTTP_go_def ServeHTTP_def Let_def alone_lists alone_by_id alone_rp_handlers alone_image_handlers alone_cbt)

section \<open>Interleavings\<close>

inductive go_conc :: "goroutine list \<times> RWMutex \<times> Store \<Rightarrow> goroutine list \<times> RWMutex \<times> Store \<Rightarrow> bool" where
  step: "i < length gs \<Longrightarrow> go_step (gs ! i) m s = Some (g', m', s') \<Longrightarrow> go_conc (gs, m, s) (gs[i := g'], m', s')"

inductive_cases go_concE: "go_conc (gs, m, s) c"

section \<open>The discipline of the code\<close>

text \<open>What a goroutine holds: nothing, the read lock, the announcement of a writer, or the write lock.\<close>

datatype mode = Idle | Reading | Announced | Writing

text \<open>
  A goroutine follows the discipline when it takes the lock only while it holds nothing, reads the store only under the
  lock, writes it only under the write lock, never writes the CBT configuration, and returns holding nothing.
\<close>

primrec balanced :: "goroutine \<Rightarrow> mode \<Rightarrow> bool" where
  "balanced (Return r) h \<longleftrightarrow> h = Idle"
| "balanced (Lock g) h \<longleftrightarrow> h = Idle \<and> balanced g Writing"
| "balanced (AwaitReaders g) h \<longleftrightarrow> h = Announced \<and> balanced g Writing"
| "balanced (Unlock g) h \<longleftrightarrow> h = Writing \<and> balanced g Idle"
| "balanced (RLock g) h \<longleftrightarrow> h = Idle \<and> balanced g Reading"
| "balanced (RUnlock g) h \<longleftrightarrow> h = Reading \<and> balanced g Idle"
| "balanced (Load f) h \<longleftrightarrow> h \<in> {Reading, Writing} \<and> (\<forall>s. balanced (f s) h)"
| "balanced (Assign f g) h \<longleftrightarrow> h = Writing \<and> (\<forall>s. sto_CBTConfig (f s) = sto_CBTConfig s) \<and> balanced g h"
| "balanced (AddImageCounter f) h \<longleftrightarrow> h \<noteq> Announced \<and> (\<forall>n. balanced (f n) h)"
| "balanced (AddTaskCounter f) h \<longleftrightarrow> h \<noteq> Announced \<and> (\<forall>n. balanced (f n) h)"
| "balanced (LoadConfig f) h \<longleftrightarrow> h \<noteq> Announced \<and> (\<forall>c. balanced (f c) h)"

lemmas handler_go_defs = accepted_go_def error_go_def handleVMList_go_def handleVMGet_go_def handleVMPowerOff_go_def handleVMPowerOn_go_def handleVMDelete_go_def
  handleVMByID_go_def handleRecoveryPointCreate_go_def handleRecoveryPointGet_go_def handleRecoveryPointDelete_go_def handleCloneVMFromRP_go_def
  handleRecoveryPointByID_go_def handleImageCreate_go_def handleImageGet_go_def handleImageDelete_go_def handleImageDownload_go_def handleImageByID_go_def
  handleTask_go_def handleSubnetList_go_def handleClusterList_go_def handleStorageContainerList_go_def handleCBTDiscoverCluster_go_def
  handleCBTChangedRegions_go_def

lemma vm_handlers_balanced: "balanced (handleVMList_go q query) Idle" "balanced (handleVMByID_go q path) Idle"
  by (simp_all add: handler_go_defs store_go_defs Let_def split: option.split prod.split)

lemma rp_handlers_balanced: "balanced (handleRecoveryPointCreate_go q) Idle" "balanced (handleRecoveryPointByID_go q path) Idle"
  by (simp_all add: handler_go_defs store_go_defs Let_def split: option.split prod.split)

lemma image_handlers_balanced: "balanced (handleImageCreate_go q) Idle" "balanced (handleImageByID_go q path) Idle"
  by (simp_all add: handler_go_defs store_go_defs Let_def split: option.split prod.split)

lemma other_handlers_balanced:
  "balanced (handleTask_go q path) Idle" "balanced (handleSubnetList_go q query) Idle" "balanced (handleClusterList_go q query) Idle"
  "balanced (handleStorageContainerList_go q) Idle" "balanced (handleCBTDiscoverCluster_go base q) Idle" "balanced (handleCBTChangedRegions_go q query) Idle"
  by (simp_all add: handler_go_defs store_go_defs Let_def split: option.split prod.split)

lemma serve_balanced: "balanced (ServeHTTP_go base q) Idle"
  by (simp add: ServeHTTP_go_def Let_def vm_handlers_balanced rp_handlers_balanced image_handlers_balanced other_handlers_balanced)

section \<open>The invariant of the lock\<close>

definition reads :: "mode \<Rightarrow> nat" where
  "reads h = (if h = Reading then 1 else 0)"

definition claims :: "mode \<Rightarrow> nat" where
  "claims h = (if h = Announced \<or> h = Writing then 1 else 0)"

text \<open>The lock counts what the goroutines hold, at most one is a writer, and a writer that is inside is alone.\<close>

definition lock_ok :: "goroutine list \<Rightarrow> mode list \<Rightarrow> RWMutex \<Rightarrow> bool" where
  "lock_ok gs hs m \<longleftrightarrow> length hs = length gs \<and> (\<forall>i < length gs. balanced (gs ! i) (hs ! i)) \<and>
     sum_list (map reads hs) = rw_readers m \<and> sum_list (map claims hs) = (if rw_writer m then 1 else 0) \<and>
     (Writing \<in> set hs \<longrightarrow> rw_readers m = 0)"

fun next_mode :: "goroutine \<Rightarrow> mode \<Rightarrow> mode" where
  "next_mode (Lock g) h = Announced"
| "next_mode (AwaitReaders g) h = Writing"
| "next_mode (Unlock g) h = Idle"
| "next_mode (RLock g) h = Reading"
| "next_mode (RUnlock g) h = Idle"
| "next_mode g h = h"

lemma step_mode:
  assumes "balanced g h" and "go_step g m s = Some (g', m', s')"
  shows "balanced g' (next_mode g h) \<and> sto_CBTConfig s' = sto_CBTConfig s" (is ?a)
    and "reads h \<le> rw_readers m \<Longrightarrow> rw_readers m' + reads h = rw_readers m + reads (next_mode g h)" (is "_ \<Longrightarrow> ?b")
    and "(0 < claims h \<longrightarrow> rw_writer m) \<Longrightarrow> (if rw_writer m' then 1 else 0) + claims h = (if rw_writer m then 1 else 0) + claims (next_mode g h)"
      (is "_ \<Longrightarrow> ?c")
    and "h \<noteq> Writing \<Longrightarrow> next_mode g h = Writing \<Longrightarrow> rw_readers m' = 0"
    and "rw_writer m \<Longrightarrow> rw_readers m' \<le> rw_readers m"
proof -
  show ?a using assms by (cases g) (auto split: if_splits)
  show ?b if "reads h \<le> rw_readers m" using assms that by (cases g) (auto simp: reads_def split: if_splits)
  show ?c if "0 < claims h \<longrightarrow> rw_writer m" using assms that by (cases g) (auto simp: claims_def split: if_splits)
  show "rw_readers m' = 0" if "h \<noteq> Writing" "next_mode g h = Writing" using assms that by (cases g) (auto split: if_splits)
  show "rw_readers m' \<le> rw_readers m" if "rw_writer m" using assms that by (cases g) (auto split: if_splits)
qed

lemma sum_member: "i < length hs \<Longrightarrow> f (hs ! i) \<le> sum_list (map f hs)" for f :: "'a \<Rightarrow> nat"
  using elem_le_sum_list [of i "map f hs"] by simp

lemma sum_update: "i < length hs \<Longrightarrow> sum_list (map f (hs[i := h])) + f (hs ! i) = sum_list (map f hs) + f h" for f :: "'a \<Rightarrow> nat"
  using sum_member [of i hs f] by (simp add: map_update sum_list_update)

lemma lock_ok_holds:
  assumes "lock_ok gs hs m" "i < length gs"
  shows "balanced (gs ! i) (hs ! i)" "reads (hs ! i) \<le> rw_readers m" "0 < claims (hs ! i) \<longrightarrow> rw_writer m"
    "hs ! i = Writing \<Longrightarrow> rw_readers m = 0"
  using assms sum_member [of i hs reads] sum_member [of i hs claims] nth_mem [of i hs] by (auto simp: lock_ok_def split: if_splits)

text \<open>At most one goroutine claims the lock.\<close>

lemma lock_ok_one_writer:
  assumes "lock_ok gs hs m" "i < length gs" "j < length gs" "i \<noteq> j" "0 < claims (hs ! i)"
  shows "claims (hs ! j) = 0"
proof -
  have l: "i < length hs" "j < length hs" and s: "sum_list (map claims hs) \<le> 1" using assms by (auto simp: lock_ok_def)
  have "claims (hs ! j) + claims (hs ! i) \<le> sum_list (map claims hs)"
    using sum_update [OF l(1), of claims Idle] sum_member [of j "hs[i := Idle]" claims] l assms(4) by (simp add: claims_def)
  then show ?thesis using s assms(5) by simp
qed

lemma lock_ok_step:
  assumes ok: "lock_ok gs hs m" and i: "i < length gs" and st: "go_step (gs ! i) m s = Some (g', m', s')"
  shows "lock_ok (gs[i := g']) (hs[i := next_mode (gs ! i) (hs ! i)]) m'"
proof -
  let ?h = "hs ! i" and ?h' = "next_mode (gs ! i) (hs ! i)"
  note hold = lock_ok_holds [OF ok i] and md = step_mode [OF lock_ok_holds(1) [OF ok i] st]
  have l: "length hs = length gs" using ok by (simp add: lock_ok_def)
  have r: "sum_list (map reads (hs[i := ?h'])) = rw_readers m'"
    using md(2) [OF hold(2)] sum_update [of i hs reads ?h'] ok i l by (simp add: lock_ok_def)
  have c: "sum_list (map claims (hs[i := ?h'])) = (if rw_writer m' then 1 else 0)"
    using md(3) [OF hold(3)] sum_update [of i hs claims ?h'] ok i l by (simp add: lock_ok_def)
  have alone: "rw_readers m' = 0" if "Writing \<in> set (hs[i := ?h'])"
  proof (cases "?h' = Writing \<and> ?h \<noteq> Writing")
    case True
    then show ?thesis using md(4) by blast
  next
    case False
    then have "Writing \<in> set hs" using that i l by (metis in_set_conv_nth length_list_update nth_list_update_eq nth_list_update_neq)
    then have "rw_readers m = 0" "rw_writer m" using ok lock_ok_holds(3) [OF ok] l by (auto simp: lock_ok_def in_set_conv_nth claims_def)
    then show ?thesis using md(5) by simp
  qed
  have "balanced (gs[i := g'] ! j) (hs[i := ?h'] ! j)" if "j < length gs" for j
    using that i l md(1) lock_ok_holds(1) [OF ok] by (cases "j = i") simp_all
  then show ?thesis using l r c alone by (simp add: lock_ok_def)
qed

lemma lock_ok_start: "lock_ok (map (ServeHTTP_go base) qs) (replicate (length qs) Idle) unlocked"
  by (simp add: lock_ok_def serve_balanced unlocked_def reads_def claims_def sum_list_replicate)

lemma reachable_lock_ok:
  assumes "go_conc\<^sup>*\<^sup>* (map (ServeHTTP_go base) qs, unlocked, s) (gs, m, s')"
  shows "\<exists>hs. lock_ok gs hs m" "sto_CBTConfig s' = sto_CBTConfig s" "length gs = length qs"
proof -
  have "(\<exists>hs. lock_ok gs hs m) \<and> sto_CBTConfig s' = sto_CBTConfig s \<and> length gs = length qs"
    using assms
  proof (induction "(gs, m, s')" arbitrary: gs m s' rule: rtranclp_induct)
    case base
    then show ?case using lock_ok_start by auto
  next
    case (step c)
    obtain gs0 m0 s0 where c: "c = (gs0, m0, s0)" by (metis surj_pair)
    from step.hyps(2) obtain i g' where i: "i < length gs0" "gs = gs0[i := g']" "go_step (gs0 ! i) m0 s0 = Some (g', m, s')"
      unfolding c by (auto elim: go_concE)
    obtain hs where "lock_ok gs0 hs m0" using step.hyps(3) [OF c] by blast
    then show ?case using lock_ok_step [OF _ i(1,3)] step_mode(1) [OF lock_ok_holds(1) [OF _ i(1)] i(3)] step.hyps(3) [OF c] i(2) by auto
  qed
  then show "\<exists>hs. lock_ok gs hs m" "sto_CBTConfig s' = sto_CBTConfig s" "length gs = length qs" by blast+
qed

section \<open>Progress\<close>

lemma can_step:
  assumes "balanced g h" "\<And>r. g \<noteq> Return r"
  shows "h = Writing \<Longrightarrow> rw_writer m \<Longrightarrow> go_step g m s \<noteq> None" "h = Reading \<Longrightarrow> 0 < rw_readers m \<Longrightarrow> go_step g m s \<noteq> None"
    "h = Announced \<Longrightarrow> rw_readers m = 0 \<Longrightarrow> go_step g m s \<noteq> None" "h = Idle \<Longrightarrow> \<not> rw_writer m \<Longrightarrow> go_step g m s \<noteq> None"
  using assms by (cases g; simp)+

lemma lock_ok_progress:
  assumes ok: "lock_ok gs hs m" and i: "i < length gs" "\<And>r. gs ! i \<noteq> Return r"
  shows "\<exists>j < length gs. go_step (gs ! j) m s \<noteq> None"
proof -
  have l: "length hs = length gs" using ok by (simp add: lock_ok_def)
  have busy: "gs ! j \<noteq> Return r" if "j < length gs" "hs ! j \<noteq> Idle" for j r using lock_ok_holds(1) [OF ok that(1)] that(2) by auto
  have writer: ?thesis if j: "j < length gs" "hs ! j = Writing" for j
    using can_step(1) [OF lock_ok_holds(1) [OF ok j(1)] busy] lock_ok_holds(3) [OF ok j(1)] j by (auto simp: claims_def)
  have reader: ?thesis if "rw_readers m > 0"
  proof -
    have "sum_list (map reads hs) \<noteq> 0" using ok that by (simp add: lock_ok_def)
    then obtain j where j: "j < length gs" "hs ! j = Reading"
      by (auto simp: l in_set_conv_nth reads_def split: if_splits)
    then show ?thesis using can_step(2) [OF lock_ok_holds(1) [OF ok j(1)] busy] that by auto
  qed
  have announced: ?thesis if j: "j < length gs" "hs ! j = Announced" for j
    using reader can_step(3) [OF lock_ok_holds(1) [OF ok j(1)] busy, of m] j by (cases "rw_readers m > 0") auto
  show ?thesis
  proof (cases "rw_writer m")
    case True
    then have "sum_list (map claims hs) \<noteq> 0" using ok by (simp add: lock_ok_def)
    then obtain j where "j < length gs" "hs ! j = Announced \<or> hs ! j = Writing"
      by (auto simp: l in_set_conv_nth claims_def split: if_splits)
    then show ?thesis using writer announced by blast
  next
    case False
    then have "hs ! i \<noteq> Announced \<and> hs ! i \<noteq> Writing" using lock_ok_holds(3) [OF ok i(1)] by (auto simp: claims_def)
    then consider "hs ! i = Idle" | "hs ! i = Reading" by (cases "hs ! i") auto
    then show ?thesis
    proof cases
      case 1
      then show ?thesis using can_step(4) [OF lock_ok_holds(1) [OF ok i(1)] i(2)] False i(1) by blast
    next
      case 2
      then show ?thesis using reader lock_ok_holds(2) [OF ok i(1)] by (simp add: reads_def)
    qed
  qed
qed

text \<open>The number of steps a goroutine takes until it returns, blocking not counted.\<close>

primrec go_within :: "goroutine \<Rightarrow> nat \<Rightarrow> bool" where
  "go_within (Return r) k \<longleftrightarrow> True"
| "go_within (Lock g) k \<longleftrightarrow> 1 < k \<and> go_within g (k - 2)"
| "go_within (AwaitReaders g) k \<longleftrightarrow> 0 < k \<and> go_within g (k - 1)"
| "go_within (Unlock g) k \<longleftrightarrow> 0 < k \<and> go_within g (k - 1)"
| "go_within (RLock g) k \<longleftrightarrow> 0 < k \<and> go_within g (k - 1)"
| "go_within (RUnlock g) k \<longleftrightarrow> 0 < k \<and> go_within g (k - 1)"
| "go_within (Load f) k \<longleftrightarrow> 0 < k \<and> (\<forall>s. go_within (f s) (k - 1))"
| "go_within (Assign f g) k \<longleftrightarrow> 0 < k \<and> go_within g (k - 1)"
| "go_within (AddImageCounter f) k \<longleftrightarrow> 0 < k \<and> (\<forall>n. go_within (f n) (k - 1))"
| "go_within (AddTaskCounter f) k \<longleftrightarrow> 0 < k \<and> (\<forall>n. go_within (f n) (k - 1))"
| "go_within (LoadConfig f) k \<longleftrightarrow> 0 < k \<and> (\<forall>c. go_within (f c) (k - 1))"

lemma go_within_step: "go_within g k \<Longrightarrow> go_step g m s = Some (g', m', s') \<Longrightarrow> 0 < k \<and> go_within g' (k - 1)"
  by (cases g) (auto simp: numeral_2_eq_2 split: if_splits)

lemma vm_handlers_within: "go_within (handleVMList_go q query) 13" "go_within (handleVMByID_go q path) 13"
  by (simp_all add: handler_go_defs store_go_defs Let_def split: option.split prod.split)

lemma rp_handlers_within: "go_within (handleRecoveryPointCreate_go q) 13" "go_within (handleRecoveryPointByID_go q path) 13"
  by (simp_all add: handler_go_defs store_go_defs Let_def split: option.split prod.split)

lemma image_handlers_within: "go_within (handleImageCreate_go q) 13" "go_within (handleImageByID_go q path) 13"
  by (simp_all add: handler_go_defs store_go_defs Let_def split: option.split prod.split)

lemma other_handlers_within:
  "go_within (handleTask_go q path) 13" "go_within (handleSubnetList_go q query) 13" "go_within (handleClusterList_go q query) 13"
  "go_within (handleStorageContainerList_go q) 13" "go_within (handleCBTDiscoverCluster_go base q) 13" "go_within (handleCBTChangedRegions_go q query) 13"
  by (simp_all add: handler_go_defs store_go_defs Let_def split: option.split prod.split)

lemma serve_within: "go_within (ServeHTTP_go base q) 13"
  by (simp add: ServeHTTP_go_def Let_def vm_handlers_within rp_handlers_within image_handlers_within other_handlers_within)

text \<open>What is left of the steps of every goroutine, after any number of steps of all of them.\<close>

lemma go_steps_left:
  assumes "(go_conc ^^ n) (map (ServeHTTP_go base) qs, unlocked, s) (gs, m, s')"
  shows "\<exists>ks. length ks = length gs \<and> (\<forall>i < length gs. go_within (gs ! i) (ks ! i)) \<and> sum_list ks + n \<le> 13 * length qs"
  using assms
proof (induction n arbitrary: gs m s')
  case 0
  then show ?case by (intro exI [of _ "replicate (length qs) 13"]) (auto simp: serve_within sum_list_replicate)
next
  case (Suc n)
  obtain gs0 m0 s0 where run: "(go_conc ^^ n) (map (ServeHTTP_go base) qs, unlocked, s) (gs0, m0, s0)" and "go_conc (gs0, m0, s0) (gs, m, s')"
    using Suc.prems by (auto elim: relpowp_Suc_E)
  then obtain i g' where i: "i < length gs0" "gs = gs0[i := g']" "go_step (gs0 ! i) m0 s0 = Some (g', m, s')" by (auto elim: go_concE)
  obtain ks where ks: "length ks = length gs0" "\<forall>i < length gs0. go_within (gs0 ! i) (ks ! i)" "sum_list ks + n \<le> 13 * length qs"
    using Suc.IH [OF run] by blast
  have k: "0 < ks ! i" "go_within g' (ks ! i - 1)" using go_within_step [OF _ i(3)] ks(2) i(1) by auto
  have "sum_list (ks[i := ks ! i - 1]) + 1 = sum_list ks"
    using k(1) i(1) ks(1) elem_le_sum_list [of i ks] by (simp add: sum_list_update)
  then show ?case
    using i ks k by (intro exI [of _ "ks[i := ks ! i - 1]"]) (auto simp: nth_list_update)
qed

text \<open>Accesses to the fields the lock guards.\<close>

fun assigns :: "goroutine \<Rightarrow> bool" where
  "assigns (Assign f g) = True"
| "assigns g = False"

fun loads :: "goroutine \<Rightarrow> bool" where
  "loads (Load f) = True"
| "loads g = False"

lemma balanced_modes:
  "balanced g h \<Longrightarrow> assigns g \<Longrightarrow> h = Writing" "balanced g h \<Longrightarrow> loads g \<Longrightarrow> h = Reading \<or> h = Writing"
  by (cases g; simp)+

lemma lock_ok_alone:
  assumes ok: "lock_ok gs hs m" and i: "i < length gs" "j < length gs" "i \<noteq> j" "assigns (gs ! i)"
  shows "\<not> assigns (gs ! j) \<and> \<not> loads (gs ! j)"
proof -
  have w: "hs ! i = Writing" using balanced_modes(1) [OF lock_ok_holds(1) [OF ok i(1)] i(4)] .
  then have "hs ! j \<noteq> Writing" "hs ! j \<noteq> Reading"
    using lock_ok_one_writer [OF ok i(1-3)] lock_ok_holds(4) [OF ok i(1)] lock_ok_holds(2) [OF ok i(2)] by (auto simp: claims_def reads_def)
  then show ?thesis using balanced_modes [OF lock_ok_holds(1) [OF ok i(2)]] by blast
qed

lemma lock_ok_not_fatal:
  assumes ok: "lock_ok gs hs m" and g: "g \<in> set gs"
  shows "\<not> fatal g m"
proof -
  obtain i where i: "i < length gs" "g = gs ! i" using g by (auto simp: in_set_conv_nth)
  then have "balanced g (hs ! i)" using lock_ok_holds(1) [OF ok i(1)] by simp
  then show ?thesis using lock_ok_holds(2,3) [OF ok i(1)] by (cases g) (auto simp: claims_def reads_def)
qed

lemma lock_ok_all_returned:
  assumes ok: "lock_ok gs hs m" and ret: "\<forall>g \<in> set gs. \<exists>r. g = Return r"
  shows "m = unlocked"
proof -
  have l: "length hs = length gs" using ok by (simp add: lock_ok_def)
  have "h = Idle" if "h \<in> set hs" for h
  proof -
    obtain i where i: "i < length gs" "h = hs ! i" using \<open>h \<in> set hs\<close> l by (auto simp: in_set_conv_nth)
    then show ?thesis using lock_ok_holds(1) [OF ok i(1)] ret nth_mem [OF i(1)] by fastforce
  qed
  then have "sum_list (map reads hs) = 0" "sum_list (map claims hs) = 0" by (auto simp: reads_def claims_def)
  then have "rw_readers m = 0 \<and> \<not> rw_writer m" using ok unfolding lock_ok_def by (metis zero_neq_one)
  then show ?thesis by (cases m) (simp add: unlocked_def)
qed

section \<open>The results\<close>

text \<open>
  C36. Concurrent requests to the mock server always finish, whatever the order in which their goroutines run and however they block on
  the lock of the store: n requests take at most 13 n steps together, as long as one of them is not answered some goroutine can
  take a step (no deadlock), and once all are answered the lock is free.
\<close>

theorem mock_requests_finish:
  assumes "(go_conc ^^ n) (map (ServeHTTP_go base) qs, unlocked, s) (gs, m, s')"
  shows "n \<le> 13 * length qs \<and> length gs = length qs
    \<and> (if \<forall>g \<in> set gs. \<exists>r. g = Return r then m = unlocked else \<exists>c. go_conc (gs, m, s') c)"
proof -
  have reach: "go_conc\<^sup>*\<^sup>* (map (ServeHTTP_go base) qs, unlocked, s) (gs, m, s')" using assms by (rule relpowp_imp_rtranclp)
  obtain hs where ok: "lock_ok gs hs m" using reachable_lock_ok(1) [OF reach] by blast
  have "m = unlocked" if "\<forall>g \<in> set gs. \<exists>r. g = Return r" using lock_ok_all_returned [OF ok that] .
  moreover have "\<exists>c. go_conc (gs, m, s') c" if busy: "i < length gs" "\<And>r. gs ! i \<noteq> Return r" for i
  proof -
    obtain j where j: "j < length gs" "go_step (gs ! j) m s' \<noteq> None" using lock_ok_progress [OF ok busy, of s'] by blast
    then obtain g' m' t where "go_step (gs ! j) m s' = Some (g', m', t)" by (cases "go_step (gs ! j) m s'") auto
    with j show ?thesis by (blast intro: go_conc.step)
  qed
  ultimately have "if \<forall>g \<in> set gs. \<exists>r. g = Return r then m = unlocked else \<exists>c. go_conc (gs, m, s') c" by (auto simp: in_set_conv_nth)
  moreover have "n \<le> 13 * length qs" using go_steps_left [OF assms] by auto
  ultimately show ?thesis using reachable_lock_ok(3) [OF reach] by blast
qed

text \<open>
  C37. The mock server has no data race and no lock error: in every interleaving of concurrent requests, a goroutine that is about to
  write the store is the only one that is about to access it outside the atomic counters, no goroutine unlocks a lock that is not held (which would end the process),
  and the CBT configuration, which is read without the lock, is never changed.
\<close>

theorem mock_store_race_free:
  assumes "go_conc\<^sup>*\<^sup>* (map (ServeHTTP_go base) qs, unlocked, s) (gs, m, s')"
  shows "(\<forall>g \<in> set gs. \<not> fatal g m)
    \<and> (\<forall>i < length gs. \<forall>j < length gs. i \<noteq> j \<and> assigns (gs ! i) \<longrightarrow> \<not> assigns (gs ! j) \<and> \<not> loads (gs ! j))
    \<and> sto_CBTConfig s' = sto_CBTConfig s"
proof -
  obtain hs where ok: "lock_ok gs hs m" using reachable_lock_ok(1) [OF assms] by blast
  have "\<not> assigns (gs ! j) \<and> \<not> loads (gs ! j)" if "i < length gs" "j < length gs" "i \<noteq> j" "assigns (gs ! i)" for i j
    using lock_ok_alone [OF ok that] by blast
  moreover have "\<not> fatal g m" if "g \<in> set gs" for g using lock_ok_not_fatal [OF ok that] .
  ultimately show ?thesis using reachable_lock_ok(2) [OF assms] by blast
qed

section \<open>A concrete run\<close>

text \<open>The goroutines that take the next steps, in order; \<^term>\<open>None\<close> when one of them is blocked.\<close>

fun go_run :: "nat list \<Rightarrow> goroutine list \<times> RWMutex \<times> Store \<Rightarrow> (goroutine list \<times> RWMutex \<times> Store) option" where
  "go_run [] c = Some c"
| "go_run (i # is) (gs, m, s) =
     (if i < length gs then case go_step (gs ! i) m s of None \<Rightarrow> None | Some (g', m', s') \<Rightarrow> go_run is (gs[i := g'], m', s') else None)"

lemma go_run_conc: "go_run is c = Some d \<Longrightarrow> (go_conc ^^ length is) c d"
proof (induction "is" c rule: go_run.induct)
  case (2 i "is" gs m s)
  then obtain g' m' s' where i: "i < length gs" "go_step (gs ! i) m s = Some (g', m', s')" and "go_run is (gs[i := g'], m', s') = Some d"
    by (auto split: if_splits option.splits)
  then have "go_conc (gs, m, s) (gs[i := g'], m', s')" "(go_conc ^^ length is) (gs[i := g'], m', s') d"
    using 2 by (auto intro: go_conc.step)
  then show ?case by (simp add: relpowp_Suc_I2 del: relpowp.simps)
qed simp

text \<open>A list request, a request that creates an image, and a second list request.\<close>

definition list_vms_request :: http_request where
  "list_vms_request = \<lparr>rq_Method = ''GET'', rq_URL = ''http://mock/api/vmm/v4.0/ahv/config/vms'', rq_Auth = None,
     rq_Cookie = None, rq_Range = [], rq_ContentType = False, rq_Body = None\<rparr>"

definition new_image_request :: http_request where
  "new_image_request = \<lparr>rq_Method = ''POST'', rq_URL = ''http://mock/api/vmm/v4.0/images'', rq_Auth = None,
     rq_Cookie = None, rq_Range = [], rq_ContentType = True, rq_Body = Some (JObject [(''name'', JString ''a'')])\<rparr>"

definition three_requests :: "goroutine list \<times> RWMutex \<times> Store" where
  "three_requests = (map (ServeHTTP_go ''http://mock'') [list_vms_request, new_image_request, list_vms_request], unlocked, WithFixtures NewStore)"

lemma list_vms_go: "ServeHTTP_go ''http://mock'' list_vms_request = GetVMs_go (\<lambda>vms. Return (list_page enc_VM vms []))"
proof -
  have "url_path ''http://mock'' list_vms_request = vmBasePath" "url_query ''http://mock'' list_vms_request = []"
    by (simp_all add: url_path_def url_query_def list_vms_request_def split_first_def TrimPrefix_def)
  then show ?thesis by (simp add: ServeHTTP_go_def handleVMList_go_def list_vms_request_def)
qed

lemma new_image_go: "ServeHTTP_go ''http://mock'' new_image_request =
    AddImage_go \<lparr>img_ExtID = [], img_Name = ''a'', img_Type = [], img_SizeBytes = defaultImageSize, img_SourceURI = []\<rparr>
      (\<lambda>imgUUID. CreateTask_go [\<lparr>ten_ExtID = imgUUID, ten_Rel = ''vmm:images:image''\<rparr>] 2 accepted_go)"
proof -
  have "url_path ''http://mock'' new_image_request = imageBasePath"
    by (simp add: url_path_def new_image_request_def split_first_def TrimPrefix_def)
  then have "ServeHTTP_go ''http://mock'' new_image_request = handleImageCreate_go new_image_request" by (simp add: ServeHTTP_go_def)
  then show ?thesis by (simp add: handleImageCreate_go_def new_image_request_def dec_image_body_def is_struct_def get_field_def dec_string_def)
qed

lemmas three_requests_run = three_requests_def list_vms_go new_image_go GetVMs_go_def AddImage_go_def unlocked_def

text \<open>The first request is inside the read lock; the second has announced itself as a writer and waits for it; the third waits
  for the second. The first can go on.\<close>

theorem mock_requests_finish_witness:
  "\<exists>gs m s. go_run [0, 1, 1] three_requests = Some (gs, m, s) \<and> go_step (gs ! 1) m s = None \<and> go_step (gs ! 2) m s = None \<and> (\<exists>c. go_conc (gs, m, s) c)"
proof -
  obtain gs m s where run: "go_run [0, 1, 1] three_requests = Some (gs, m, s)" and blocked: "go_step (gs ! 1) m s = None" "go_step (gs ! 2) m s = None"
    and busy: "length gs = 3" "\<And>r. gs ! 2 \<noteq> Return r"
    by (simp add: three_requests_run Let_def)
  have "gs ! 2 \<in> set gs" using busy(1) by simp
  then show ?thesis
    using mock_requests_finish [OF go_run_conc [OF run, unfolded three_requests_def]] run blocked busy(2) by (metis (no_types, lifting))
qed

text \<open>Later the second request is inside the write lock, about to write; the third is about to take the read lock, not to read.\<close>

theorem mock_store_race_free_witness:
  "\<exists>gs m s. go_run [0, 1, 1, 0, 0, 1] three_requests = Some (gs, m, s) \<and> assigns (gs ! 1) \<and> \<not> loads (gs ! 2) \<and> \<not> fatal (gs ! 2) m"
proof -
  obtain gs m s where run: "go_run [0, 1, 1, 0, 0, 1] three_requests = Some (gs, m, s)" and at: "length gs = 3" "assigns (gs ! 1)"
    by (simp add: three_requests_run Let_def)
  note safe = mock_store_race_free [OF relpowp_imp_rtranclp [OF go_run_conc [OF run, unfolded three_requests_def]]]
  have "\<not> loads (gs ! 2)" using safe [THEN conjunct2, THEN conjunct1, rule_format, of 1 2] at by simp
  moreover have "\<not> fatal (gs ! 2) m" using safe at(1) by simp
  ultimately show ?thesis using run at(2) by blast
qed

end
