(* ===== verification/Spec2Isabelle.thy ===== *)
theory Spec2Isabelle
  imports Lifecycle_Properties Warm_Schedule Warm_Rollback Rbac Admission Known_Defects Entry_Points Object_Copies Registration
    Pipeline_Spec Mock_Concurrency Mock_Locks
begin

text \<open>
  \<^bold>\<open>A verification library for the Nutanix VM migration operator\<close>

  The program is a Kubernetes operator that moves virtual machines from Nutanix AHV to KubeVirt, together with
  the HTTP client for Prism Central it uses, a mock Prism server for tests and development, and a kubectl
  plugin. A \<^verbatim>\<open>NutanixProvider\<close> names a Prism Central; a \<^verbatim>\<open>MigrationPlan\<close> names VMs of it, a network and a storage
  map and the target; the plan controller validates it; a \<^verbatim>\<open>Migration\<close> executes it. The migration controller
  advances every VM through a sequence of phases, one reconcile at a time: cold (power off, snapshot, export
  each disk as an image, import the images through CDI, create the target VM, clean up) or warm (bulk copy of
  a snapshot while the VM runs, delta rounds from changed block tracking, a final round after the cutover).

  \<^bold>\<open>How the code is represented.\<close> Structs are records, enumerations and constant groups datatypes or strings,
  functions are HOL functions of the same name. A \<^verbatim>\<open>go_error\<close> has its Kubernetes reason and its message. \<^verbatim>\<open>int64\<close>
  arithmetic that can leave its range goes through \<open>wrap64\<close>. Strings are byte strings. A value mutated through
  a pointer is returned, so that what was written before an early return is kept. Everything outside the
  process is a parameter: the Nutanix client, the Kubernetes client, the clock and the network are records of
  functions over an arbitrary environment type, so a call may fail or change anything and the theorems hold
  for every behaviour of the services unless a hypothesis says otherwise. The world threads the environment and
  the trace of all calls that change something outside, with their results, and the safety properties are
  statements on that trace. A loop that may not end is a \<^theory_text>\<open>partial_function (option)\<close>: \<^term>\<open>None\<close> is a call that
  never returns, and termination is always proved as \<open>\<exists>r. f x = Some r\<close>. A Go panic is the value \<open>Panics\<close>. No
  fuel is used anywhere. Handlers and reconciles run one at a time, as the work queue of controller-runtime
  guarantees for one object; the mock server, which serves requests on concurrent goroutines, has a model of its
  interleavings. Values are not aliased, except where aliasing is the point: the generated deep copies are modelled on an explicit heap.

  \<^bold>\<open>Theories.\<close>

  \<^item> \<open>Vma_Prelude\<close>: errors, \<^verbatim>\<open>int64\<close> wrap-around, decimal and JSON text, string functions of Go, list lemmas,
    the theorem collections \<open>op_defs\<close> and \<open>trace_rules\<close>. \<open>Go_Time\<close>: \<^verbatim>\<open>time.ParseDuration\<close>.
  \<^item> \<open>Vma_Types\<close>: the custom resources of \<^verbatim>\<open>api/v1alpha1\<close>, the API types of \<^verbatim>\<open>internal/nutanix/types.go\<close> and the
    Kubernetes objects the operator builds.
  \<^item> \<open>Ref_Lookup\<close>: the interfaces \<open>ref_finder\<close> and \<open>ref_mapped\<close> of the searches in network and storage maps, interpreted
    on the lookups of the builder, of the transfer manager and of the validator.
  \<^item> \<open>Sanitize\<close> (\<^verbatim>\<open>builder/sanitize.go\<close>): every name becomes a DNS label, the collision loop ends with a free name.
    \<open>Vm_Builder\<close> (\<^verbatim>\<open>builder/vm.go\<close>): disks, volumes, interfaces, CPU and memory of the KubeVirt VM against the source VM.
  \<^item> \<open>World\<close>: the two client interfaces, the trace, events and metrics (\<^verbatim>\<open>observability/metrics.go\<close>), and the interface
    \<open>best_effort\<close> of the deletions that go on after an error.
  \<^item> \<open>Disk_Transfer\<close> (\<^verbatim>\<open>internal/transfer\<close>): DataVolumes and their size, the region list and the loop of the delta
    script that reads it back, the transfer manager.
  \<^item> \<open>Migration_Phases\<close>, \<open>Warm_Phases\<close>, \<open>Hook_Runner\<close>: one definition per phase handler of
    \<^verbatim>\<open>controller/migration_controller.go\<close> and per function of \<^verbatim>\<open>controller/hook_runner.go\<close>, errors included.
  \<^item> \<open>Resource_Tracking\<close>: live and tracked resources of a trace and the locale \<open>phase_contract\<close>; \<open>Cold_Contract\<close> and
    \<open>Warm_Contract\<close> prove it for every handler and show what each handler achieves when it completes.
  \<^item> \<open>Migration_Controller\<close>: the pipeline loop \<^verbatim>\<open>advanceSingleVM\<close>, the scheduler, cancellation, overall status, deletion,
    \<^verbatim>\<open>Reconcile\<close>. \<open>Pipeline\<close>: the interface \<open>phase_pipeline\<close> of the two phase orders, termination, and the loop body as a step
    relation \<open>vm_step\<close>, for rule induction. \<open>Vm_Lifecycle\<close> and \<open>Vm_Safety\<close>: its reachable states:
    of the images, recovery points, DataVolumes and delta pods nothing is forgotten, the deletion of what a failed VM had is attempted and the VM is switched on again, disks are copied only after
    the power-off, the target VM comes after the import. \<open>Phase_Effects\<close>: the table of the effects each phase may have, and that every
    handler keeps to it; \<open>Pipeline_Spec\<close>: an automaton over the phases alone, after the documentation, which the loop refines. \<open>Lifecycle_Properties\<close> and \<open>Scheduling\<close> state the results on the
    code's own functions, among them the \<^verbatim>\<open>MaxInFlight\<close> bound and the behaviour of \<^verbatim>\<open>Reconcile\<close> at its edges.
  \<^item> \<open>Validation\<close> (\<^verbatim>\<open>validation/validator.go\<close>), \<open>Plan_Controller\<close>, \<open>Provider_Controller\<close>: the rules and the two other controllers.
    A plan becomes \<^verbatim>\<open>Ready\<close> exactly when each VM is acceptable in a sense stated with the lookups the migration uses
    later; a provider keeps its finalizer while a plan refers to it.
  \<^item> \<open>Api_Json\<close>: the JSON form of the API types on JSON trees, with the interface \<open>json_codec\<close> (decoding inverts encoding)
    interpreted for every type. \<open>Prism_Client\<close> (\<^verbatim>\<open>internal/nutanix\<close>): requests with retry and backoff, task polling,
    pagination and all operations of the interface, over a record of the network.
  \<^item> \<open>Mock_Fixtures\<close>, \<open>Mock_Store\<close>, \<open>Mock_Server\<close> (\<^verbatim>\<open>pkg/mock\<close>): the store with its invariant and the interface
    \<open>entity_table\<close>, every handler, the routing. \<open>Client_Server\<close>: the locale \<open>mock_backed\<close> of a client connected to the
    server, interpreted on the server in the same process: listings are complete, power operations and the
    life of recovery points and images end as their names say, and a refreshed CBT token is lost again.
    \<open>Mock_Concurrency\<close>: the handlers cut into their atomic operations on the store, which alone are \<^verbatim>\<open>ServeHTTP\<close>; in every
    interleaving of requests the invariant of the store holds and no insertion overwrites another. \<open>Mock_Locks\<close>: the same handlers with the blocking
    \<^verbatim>\<open>sync.RWMutex\<close> of the store, every lock and unlock a step: no deadlock, no data race, all requests are answered.
  \<^item> \<open>Go_Heap\<close>, \<open>Api_Structs\<close>, \<open>Deep_Copy\<close>, \<open>Object_Copies\<close> (\<^verbatim>\<open>api/v1alpha1/zz_generated.deepcopy.go\<close>): Go memory as blocks with
    pointers and slices, the API structs laid out in it, every \<^verbatim>\<open>DeepCopyInto\<close>, \<^verbatim>\<open>DeepCopy\<close> and \<^verbatim>\<open>DeepCopyObject\<close>. The locale
    \<open>deep_copier\<close> is the contract of a deep copy, shown to pass from fields to structs, pointers and slices; the locale \<open>metav1\<close> is what is
    assumed of the library's own copy functions. A copy reads as the original and shares no memory with anything older.
    \<open>Registration\<close>: scheme registration of the API types and of the manager, and the metric collectors.
  \<^item> \<open>Cbt_Transfer\<close>, \<open>End_To_End\<close>: the layers together, controller, HTTP client and mock server. The pages of
    changed regions are collected without loss; a migration leaves the VMs, recovery points and images of the
    server as it found them. \<open>Cbt_Transfer\<close> also shows what a cutover during a precopy round leads to.
  \<^item> \<open>Phase_Runs\<close>, \<open>Cold_Run\<close>, \<open>Cold_Schedule\<close>: with a cluster that cooperates, a cold migration of a VM goes from
    pending to completed in one call of \<^verbatim>\<open>advanceSingleVM\<close>, and a migration of many VMs ends after a bounded number of reconciles.
  \<^item> \<open>Delta_Round\<close>, \<open>Warm_Run\<close>, \<open>Warm_Schedule\<close>, \<open>Precopy_Run\<close>, \<open>Warm_Rollback\<close>: the same for warm migrations. A delta round is followed over its calls by an
    invariant and a measure; the round of a precopy exchanges the base, the final round ends in the completed VM and so, VM by VM, in the completed migration, a failed pod in the state before the migration.
  \<^item> \<open>Kubectl_Vma\<close> (\<^verbatim>\<open>cmd/kubectl-vma\<close>): the five commands, connected with what the controllers do with the result.
  \<^item> \<open>Rbac\<close>: the permission markers of the three controllers and a client whose calls to the API server
    (writes, and reads of unstructured objects) are checked against them; one resource is missing, and what follows from that. What the cache of the manager needs is outside. \<open>Admission\<close>: the default and validation markers of the
    resources; the fallbacks of the code are the same defaults, except for the number of precopy rounds, and no status is refused for its phase. \<open>Entry_Points\<close>: Go's \<^verbatim>\<open>flag\<close> package, \<^verbatim>\<open>cmd/main.go\<close> from
    the command line to the started manager, the registration of the controllers, the command tree of the plugin,
    \<^verbatim>\<open>cmd/mock-nutanix\<close> and the TLS transport of \<^verbatim>\<open>internal/nutanix/auth.go\<close>.
  \<^item> \<open>Known_Defects\<close>: further places where the code does other than its names and comments promise, as theorems.
  \<^item> \<open>Sample_Cluster\<close>, \<open>Sample_Runs\<close>: environments and runs on which the witnesses evaluate the model.

  \<^bold>\<open>What is not modelled.\<close> Logging, the end-to-end test helpers of \<^verbatim>\<open>test/utils\<close>, what
  controller-runtime and cobra do with the options and commands they are given (parameters of \<open>Entry_Points\<close>),
  the informer cache of the manager (a read is a call, the object it returns is a copy), the bytes of JSON documents (the step between text and trees is
  \<^verbatim>\<open>encoding/json\<close>), percent-encoding and path cleaning in the mock server, response headers, column alignment of
  tables. Names of JSON fields are compared exactly, where \<^verbatim>\<open>encoding/json\<close> ignores case; lower-casing works on ASCII bytes; an event message is recorded as
  it is, where the recorder would interpret a percent sign in it. The shell script of the delta pod is represented by the loop that
  reads the region list; what \<^verbatim>\<open>curl\<close> and \<^verbatim>\<open>dd\<close> do with a range is outside. Interleavings of two reconciles of the
  same object, and conflicts of a status update with a concurrent writer other than as an error of that call, do not
  occur in the model. The iteration order of Go maps is a parameter where the result depends on it.
\<close>

end
